(* ===== verification/Prelude.thy ===== *)
theory Prelude
  imports Main "HOL-Library.AList" "HOL-Library.Word" "HOL-Library.Sublist"
begin

text \<open>
  Shared vocabulary of the development.  It holds the type names of the model (bytes, machine
  integers, timestamps), the operations of the Rust standard library that the source uses
  (prefix and substring tests on strings, ASCII case folding, UTF-8 code point counts,
  big-endian integer images, \<open>HashMap\<close> as an association list), the sequencing of fallible code
  (the \<open>?\<close> operator), and the generic lemmas and \<^theory_text>\<open>named_theorems\<close> collections that the
  component theories use.

  Strings are lists of bytes (\<open>char\<close>), as Rust's \<open>String::len\<close> counts them.  A timestamp
  (\<open>DateTime<Utc>\<close>) is an integer number of nanoseconds since the Unix epoch.
\<close>

named_theorems codec_simps "text and byte codecs of the model"
named_theorems sql_defs "definitions of the store's statements"
named_theorems sql_simps "what a statement leaves of each table"
named_theorems broker_defs "definitions of the broker's handlers"

section \<open>Names of types\<close>

type_synonym byte = "8 word"
type_synonym bytes = "byte list"
type_synonym u8 = "8 word"
type_synonym u16 = "16 word"
type_synonym u32 = "32 word"
type_synonym u64 = "64 word"
type_synonym datetime = int

section \<open>Fallible code\<close>

text \<open>
  \<open>Result<T, E>\<close> is \<open>'e + 'a\<close> with the error on the left.  \<open>try_r r f\<close> is \<open>f(r?)\<close>: it returns
  the error of \<open>r\<close> at once and continues with its value otherwise.
\<close>

definition try_r :: "'e + 'a \<Rightarrow> ('a \<Rightarrow> 'e + 'b) \<Rightarrow> 'e + 'b" where
  "try_r r f = (case r of Inl e \<Rightarrow> Inl e | Inr x \<Rightarrow> f x)"

definition map_err :: "('e \<Rightarrow> 'f) \<Rightarrow> 'e + 'a \<Rightarrow> 'f + 'a" where
  "map_err g r = (case r of Inl e \<Rightarrow> Inl (g e) | Inr x \<Rightarrow> Inr x)"

definition ok_or :: "'e \<Rightarrow> 'a option \<Rightarrow> 'e + 'a" where
  "ok_or e x = (case x of None \<Rightarrow> Inl e | Some v \<Rightarrow> Inr v)"

definition is_ok :: "'e + 'a \<Rightarrow> bool" where
  "is_ok r = (case r of Inl _ \<Rightarrow> False | Inr _ \<Rightarrow> True)"

definition is_some_and :: "'a option \<Rightarrow> ('a \<Rightarrow> bool) \<Rightarrow> bool" where
  "is_some_and x p = (case x of None \<Rightarrow> False | Some v \<Rightarrow> p v)"

definition is_none_or :: "'a option \<Rightarrow> ('a \<Rightarrow> bool) \<Rightarrow> bool" where
  "is_none_or x p = (case x of None \<Rightarrow> True | Some v \<Rightarrow> p v)"

lemma try_r_simps [simp]:
  "try_r (Inl e) f = Inl e"
  "try_r (Inr x) f = f x"
  by (simp_all add: try_r_def)

lemma map_err_simps [simp]:
  "map_err g (Inl e) = Inl (g e)"
  "map_err g (Inr x) = Inr x"
  by (simp_all add: map_err_def)

lemma ok_or_simps [simp]:
  "ok_or e None = Inl e"
  "ok_or e (Some v) = Inr v"
  by (simp_all add: ok_or_def)

lemma is_ok_simps [simp]:
  "\<not> is_ok (Inl e)"
  "is_ok (Inr x)"
  by (simp_all add: is_ok_def)

lemma option_test_simps [simp]:
  "\<not> is_some_and None p"
  "is_some_and (Some v) p = p v"
  "is_none_or None p"
  "is_none_or (Some v) p = p v"
  by (simp_all add: is_some_and_def is_none_or_def)

lemma try_r_Inr_iff: "try_r r f = Inr y \<longleftrightarrow> (\<exists>x. r = Inr x \<and> f x = Inr y)"
  by (cases r) auto

lemma map_err_Inr_iff [simp]: "map_err g r = Inr y \<longleftrightarrow> r = Inr y"
  by (cases r) auto

lemma ok_or_Inr_iff [simp]: "ok_or e x = Inr y \<longleftrightarrow> x = Some y"
  by (cases x) auto

lemma is_ok_iff: "is_ok r \<longleftrightarrow> (\<exists>x. r = Inr x)"
  by (cases r) auto

text \<open>Guards: an early return with an error, in a function that returns a result with a state.\<close>

lemma guard_Inr_iff [simp]:
  "((if b then (Inl e, s) else x) = (Inr v, s')) \<longleftrightarrow> \<not> b \<and> x = (Inr v, s')"
  by auto

lemma guard_Inr_iff' [simp]:
  "((if b then Inl e else x) = Inr v) \<longleftrightarrow> \<not> b \<and> x = Inr v"
  by auto

definition unwrap_or :: "'a option \<Rightarrow> 'a \<Rightarrow> 'a" where
  "unwrap_or x d = (case x of None \<Rightarrow> d | Some v \<Rightarrow> v)"

section \<open>Strings\<close>

definition starts_with :: "string \<Rightarrow> string \<Rightarrow> bool" where
  "starts_with s p = prefix p s"

definition ends_with :: "string \<Rightarrow> string \<Rightarrow> bool" where
  "ends_with s p = suffix p s"

fun contains_str :: "string \<Rightarrow> string \<Rightarrow> bool" where
  "contains_str [] p = (p = [])"
| "contains_str (c # s) p = (prefix p (c # s) \<or> contains_str s p)"

definition ascii_lower :: "char \<Rightarrow> char" where
  "ascii_lower c = (if 65 \<le> (of_char c :: nat) \<and> (of_char c :: nat) \<le> 90
                    then char_of ((of_char c :: nat) + 32) else c)"

definition to_ascii_lowercase :: "string \<Rightarrow> string" where
  "to_ascii_lowercase s = map ascii_lower s"

definition to_ascii_uppercase :: "string \<Rightarrow> string" where
  "to_ascii_uppercase s = map (\<lambda>c. if 97 \<le> (of_char c :: nat) \<and> (of_char c :: nat) \<le> 122
                                   then char_of ((of_char c :: nat) - 32) else c) s"

text \<open>\<open>s.chars().count()\<close>: the bytes of \<open>s\<close> that are not UTF-8 continuation bytes.\<close>

definition chars_count :: "string \<Rightarrow> nat" where
  "chars_count s = length (filter (\<lambda>c. \<not> (128 \<le> (of_char c :: nat) \<and> (of_char c :: nat) < 192)) s)"

text \<open>
  \<open>s.chars()\<close>: the code points of a valid UTF-8 string, and \<open>char::is_whitespace\<close>
  (the Unicode property \<open>White_Space\<close>).
\<close>

fun utf8_chars :: "nat list \<Rightarrow> nat list" where
  "utf8_chars [] = []"
| "utf8_chars (a # s) =
    (if a < 128 then a # utf8_chars s
     else case s of
       [] \<Rightarrow> [a]
     | b # s1 \<Rightarrow>
        (if a < 224 then ((a - 192) * 64 + (b - 128)) # utf8_chars s1
         else case s1 of
           [] \<Rightarrow> [a]
         | c # s2 \<Rightarrow>
            (if a < 240 then ((a - 224) * 4096 + (b - 128) * 64 + (c - 128)) # utf8_chars s2
             else case s2 of
               [] \<Rightarrow> [a]
             | d # s3 \<Rightarrow> ((a - 240) * 262144 + (b - 128) * 4096 + (c - 128) * 64 + (d - 128)) # utf8_chars s3)))"

definition chars_of :: "string \<Rightarrow> nat list" where
  "chars_of s = utf8_chars (map of_char s)"

definition is_whitespace :: "nat \<Rightarrow> bool" where
  "is_whitespace c = ((9 \<le> c \<and> c \<le> 13) \<or> c = 32 \<or> c = 0x85 \<or> c = 0xA0 \<or> c = 0x1680
     \<or> (0x2000 \<le> c \<and> c \<le> 0x200A) \<or> c = 0x2028 \<or> c = 0x2029 \<or> c = 0x202F \<or> c = 0x205F \<or> c = 0x3000)"

text \<open>\<open>s.trim().is_empty()\<close>: nothing but white space.\<close>

definition trim_is_empty :: "string \<Rightarrow> bool" where
  "trim_is_empty s = list_all is_whitespace (chars_of s)"

text \<open>Decimal numerals, as \<open>format!\<close> prints unsigned and signed integers.\<close>

fun show_nat :: "nat \<Rightarrow> string" where
  "show_nat n = (if n < 10 then [char_of (48 + n)] else show_nat (n div 10) @ [char_of (48 + n mod 10)])"

declare show_nat.simps [simp del]

definition show_int :: "int \<Rightarrow> string" where
  "show_int i = (if i < 0 then ''-'' @ show_nat (nat (- i)) else show_nat (nat i))"

definition as_bytes :: "string \<Rightarrow> bytes" where
  "as_bytes s = map of_char s"

lemma contains_str_iff: "contains_str s p \<longleftrightarrow> sublist p s"
proof (induction s)
  case Nil
  then show ?case by simp
next
  case (Cons c s)
  then show ?case by (auto simp: sublist_Cons_right)
qed

lemma contains_str_append: "contains_str s p \<Longrightarrow> contains_str (a @ s @ b) p"
  by (simp add: contains_str_iff sublist_append)

lemma ascii_lower_idem [simp]: "ascii_lower (ascii_lower c) = ascii_lower c"
  by (auto simp: ascii_lower_def of_char_of)

lemma to_ascii_lowercase_idem [simp]: "to_ascii_lowercase (to_ascii_lowercase s) = to_ascii_lowercase s"
  by (simp add: to_ascii_lowercase_def)

lemma length_to_ascii_lowercase [simp]: "length (to_ascii_lowercase s) = length s"
  by (simp add: to_ascii_lowercase_def)

lemma length_as_bytes [simp]: "length (as_bytes s) = length s"
  by (simp add: as_bytes_def)

lemma inj_as_bytes: "inj as_bytes"
proof (rule injI)
  fix s t
  assume eq: "as_bytes s = as_bytes t"
  have inj: "inj (of_char :: char \<Rightarrow> byte)"
  proof (rule injI)
    fix c d :: char
    assume "(of_char c :: byte) = of_char d"
    then have "unat (of_char c :: byte) = unat (of_char d :: byte)" by simp
    moreover have "unat (of_char e :: byte) = of_char e" for e
    proof -
      have "(of_char e :: byte) = of_nat (of_char e)" by (simp add: of_nat_of_char)
      moreover have "(of_char e :: nat) < 256" by simp
      ultimately show ?thesis by (simp only: unsigned_of_nat take_bit_eq_mod) simp
    qed
    ultimately have "(of_char c :: nat) = of_char d" by simp
    then show "c = d" by simp
  qed
  from eq show "s = t" unfolding as_bytes_def by (metis inj inj_map_eq_map)
qed

definition digits_value :: "string \<Rightarrow> nat" where
  "digits_value s = foldl (\<lambda>a c. a * 10 + (of_char c - 48)) 0 s"

lemma digits_value_show_nat [codec_simps]: "digits_value (show_nat n) = n"
proof (induction n rule: show_nat.induct)
  case (1 n)
  have dig: "of_char (char_of (48 + d) :: char) = 48 + d" if "d < 10" for d :: nat
    using that by (simp add: of_char_of)
  show ?case
  proof (cases "n < 10")
    case True
    then show ?thesis by (subst show_nat.simps) (simp add: digits_value_def dig)
  next
    case False
    with 1 have ih: "foldl (\<lambda>a c. a * 10 + (of_char c - 48)) 0 (show_nat (n div 10)) = n div 10"
      by (simp add: digits_value_def)
    show ?thesis using False
      by (subst show_nat.simps) (simp add: digits_value_def ih dig)
  qed
qed

lemma show_nat_inject [simp]: "show_nat m = show_nat n \<longleftrightarrow> m = n"
  by (metis digits_value_show_nat)

section \<open>Big-endian integer images\<close>

fun be_encode :: "nat \<Rightarrow> nat \<Rightarrow> bytes" where
  "be_encode 0 n = []"
| "be_encode (Suc k) n = be_encode k (n div 256) @ [of_nat (n mod 256)]"

lemma be_encode_numeral:
  "be_encode (numeral k) n = be_encode (pred_numeral k) (n div 256) @ [of_nat (n mod 256)]"
  unfolding numeral_eq_Suc[of k] by simp

definition be_decode :: "bytes \<Rightarrow> nat" where
  "be_decode bs = foldl (\<lambda>a b. a * 256 + unat b) 0 bs"

lemma length_be_encode [simp]: "length (be_encode k n) = k"
  by (induction k arbitrary: n) auto

lemma be_decode_snoc: "be_decode (bs @ [b]) = be_decode bs * 256 + unat b"
  by (simp add: be_decode_def)

lemma be_decode_encode [codec_simps]: "be_decode (be_encode k n) = n mod 256 ^ k"
proof (induction k arbitrary: n)
  case 0
  then show ?case by (simp add: be_decode_def)
next
  case (Suc k)
  have "unat (of_nat (n mod 256) :: byte) = n mod 256"
    by (simp add: unsigned_of_nat take_bit_eq_mod)
  then show ?case
    by (simp add: be_decode_snoc Suc mod_mult2_eq mult.commute)
qed

lemma be_encode_inject:
  "m < 256 ^ k \<Longrightarrow> n < 256 ^ k \<Longrightarrow> be_encode k m = be_encode k n \<Longrightarrow> m = n"
  by (metis be_decode_encode mod_less)

section \<open>Hash maps\<close>

text \<open>
  A \<open>HashMap\<close> is an association list; its order stands for the unspecified iteration order.
  \<open>get\<close> is \<open>map_of\<close>, \<open>insert\<close> is \<open>AList.update\<close>, \<open>remove\<close> is \<open>AList.delete\<close>.
\<close>

definition update_all :: "('v \<Rightarrow> 'v) \<Rightarrow> ('k \<times> 'v) list \<Rightarrow> ('k \<times> 'v) list" where
  "update_all f m = map (\<lambda>(k, v). (k, f v)) m"

definition update_at :: "'k \<Rightarrow> ('v \<Rightarrow> 'v) \<Rightarrow> ('k \<times> 'v) list \<Rightarrow> ('k \<times> 'v) list" where
  "update_at k f m = (case map_of m k of None \<Rightarrow> m | Some v \<Rightarrow> AList.update k (f v) m)"

lemma map_of_update [simp]: "map_of (AList.update k v m) k' = (if k' = k then Some v else map_of m k')"
  by (simp add: update_conv')

lemma map_of_AList_delete [simp]: "map_of (AList.delete k m) k' = (if k' = k then None else map_of m k')"
  by (simp add: delete_conv')

lemma map_of_update_all [simp]: "map_of (update_all f m) k = map_option f (map_of m k)"
  by (induction m) (auto simp: update_all_def)

lemma map_of_update_at [simp]:
  "map_of (update_at k f m) k' = (if k' = k then map_option f (map_of m k) else map_of m k')"
  by (auto simp: update_at_def split: option.splits)

lemma keys_update_all [simp]: "map fst (update_all f m) = map fst m"
  by (induction m) (auto simp: update_all_def)

lemma values_update_all [simp]: "map snd (update_all f m) = map f (map snd m)"
  by (induction m) (auto simp: update_all_def)

lemma distinct_update_at [simp]: "distinct (map fst m) \<Longrightarrow> distinct (map fst (update_at k f m))"
  by (auto simp: update_at_def distinct_update split: option.splits)

section \<open>Budgets\<close>

text \<open>
  Several components hand out something a bounded number of times: a capability its uses, the store
  one consumption of each capability row, the one-time-password table one claim per time step.  A
  trace is a list of attempts; \<open>successes\<close> counts those that were granted.
\<close>

fun successes :: "('op \<Rightarrow> 's \<Rightarrow> bool \<times> 's) \<Rightarrow> 's \<Rightarrow> 'op list \<Rightarrow> nat" where
  "successes step s [] = 0"
| "successes step s (x # xs) =
    (let (ok, s') = step x s in (if ok then 1 else 0) + successes step s' xs)"

locale budget =
  fixes step :: "'op \<Rightarrow> 's \<Rightarrow> bool \<times> 's"
    and inv :: "'s \<Rightarrow> bool"
    and left :: "'s \<Rightarrow> nat"
  assumes step_inv: "inv s \<Longrightarrow> inv (snd (step x s))"
    and step_granted: "inv s \<Longrightarrow> step x s = (True, s') \<Longrightarrow> left s' < left s"
    and step_refused: "inv s \<Longrightarrow> step x s = (False, s') \<Longrightarrow> left s' \<le> left s"
begin

lemma successes_le: "inv s \<Longrightarrow> successes step s xs \<le> left s"
proof (induction xs arbitrary: s)
  case Nil
  then show ?case by simp
next
  case (Cons x xs)
  obtain ok s' where st: "step x s = (ok, s')" by fastforce
  then have "inv s'" using step_inv[OF Cons.prems, of x] by simp
  then show ?case
    using Cons.IH[of s'] st step_granted[OF Cons.prems, of x s'] step_refused[OF Cons.prems, of x s']
    by (cases ok) auto
qed

lemma none_left: "inv s \<Longrightarrow> left s = 0 \<Longrightarrow> \<not> fst (step x s)"
  using step_granted by (metis fst_conv less_nat_zero_code surj_pair)

end

end
