(* ===== verification/Domain_States.thy ===== *)
theory Domain_States
  imports Prelude
begin

text \<open>
  The error type of the domain crate (\<open>secretctl-domain/src/error.rs\<close>) and its four lifecycle
  enumerations (\<open>secretctl-domain/src/states.rs\<close>): action requests, capabilities, browser
  sessions and executions, each with \<open>is_terminal\<close>, \<open>transition_to\<close> and \<open>as_str\<close>.

  The locale \<open>lifecycle\<close> is the contract the four enumerations share: a successful transition
  yields the requested state, and no transition leaves a terminal state.  Its extension
  \<open>ranked_lifecycle\<close> adds a rank that every transition lowers, hence a bound on the length of
  every run.  The four enumerations interpret the first, and all but browser sessions (which may
  alternate between active and stale) the second.
\<close>

section \<open>Errors\<close>

datatype DomainError =
    InvalidId string
  | InvalidOrigin string
  | InvalidStateTransition string string
  | InvalidAction string
  | DomainExpired string
  | ExceededMaxUses u32
  | EpochMismatch u64 u64
  | OriginMismatch string string
  | SessionMismatch string string
  | SecurityInvariantViolation string

section \<open>The enumerations\<close>

datatype ActionRequestState =
    Requested
  | PolicyEvaluating
  | AwaitingApproval
  | Approved
  | CapabilityIssued
  | Executing
  | Completed
  | Denied
  | Expired
  | Cancelled
  | Indeterminate
  | CompletedEvidenceLost
  | Revoked
  | Failed

fun ActionRequestState_is_terminal :: "ActionRequestState \<Rightarrow> bool" where
  "ActionRequestState_is_terminal Completed = True"
| "ActionRequestState_is_terminal Denied = True"
| "ActionRequestState_is_terminal Expired = True"
| "ActionRequestState_is_terminal Cancelled = True"
| "ActionRequestState_is_terminal Indeterminate = True"
| "ActionRequestState_is_terminal CompletedEvidenceLost = True"
| "ActionRequestState_is_terminal Revoked = True"
| "ActionRequestState_is_terminal Failed = True"
| "ActionRequestState_is_terminal _ = False"

primrec ActionRequestState_as_str :: "ActionRequestState \<Rightarrow> string" where
  "ActionRequestState_as_str Requested = ''requested''"
| "ActionRequestState_as_str PolicyEvaluating = ''policy_evaluating''"
| "ActionRequestState_as_str AwaitingApproval = ''awaiting_approval''"
| "ActionRequestState_as_str Approved = ''approved''"
| "ActionRequestState_as_str CapabilityIssued = ''capability_issued''"
| "ActionRequestState_as_str Executing = ''executing''"
| "ActionRequestState_as_str Completed = ''completed''"
| "ActionRequestState_as_str Denied = ''denied''"
| "ActionRequestState_as_str Expired = ''expired''"
| "ActionRequestState_as_str Cancelled = ''cancelled''"
| "ActionRequestState_as_str Indeterminate = ''indeterminate''"
| "ActionRequestState_as_str CompletedEvidenceLost = ''completed_evidence_lost''"
| "ActionRequestState_as_str Revoked = ''revoked''"
| "ActionRequestState_as_str Failed = ''failed''"

definition ActionRequestState_transition_to ::
    "ActionRequestState \<Rightarrow> ActionRequestState \<Rightarrow> DomainError + ActionRequestState" where
  "ActionRequestState_transition_to s next =
    (let err = Inl (InvalidStateTransition (ActionRequestState_as_str s) (ActionRequestState_as_str next))
     in if ActionRequestState_is_terminal s then err
        else if (case (s, next) of
                   (Requested, PolicyEvaluating) \<Rightarrow> True
                 | (PolicyEvaluating, AwaitingApproval) \<Rightarrow> True
                 | (PolicyEvaluating, Approved) \<Rightarrow> True
                 | (PolicyEvaluating, Denied) \<Rightarrow> True
                 | (AwaitingApproval, Approved) \<Rightarrow> True
                 | (AwaitingApproval, Denied) \<Rightarrow> True
                 | (Approved, CapabilityIssued) \<Rightarrow> True
                 | (CapabilityIssued, Executing) \<Rightarrow> True
                 | (Executing, Completed) \<Rightarrow> True
                 | (_, Expired) \<Rightarrow> True
                 | (_, Cancelled) \<Rightarrow> True
                 | (_, Indeterminate) \<Rightarrow> True
                 | (_, CompletedEvidenceLost) \<Rightarrow> True
                 | (_, Revoked) \<Rightarrow> True
                 | (_, Failed) \<Rightarrow> True
                 | _ \<Rightarrow> False)
        then Inr next else err)"

datatype CapabilityState =
    Issued
  | Active
  | Consumed
  | Expired
  | Revoked

fun CapabilityState_is_terminal :: "CapabilityState \<Rightarrow> bool" where
  "CapabilityState_is_terminal Consumed = True"
| "CapabilityState_is_terminal CapabilityState.Expired = True"
| "CapabilityState_is_terminal CapabilityState.Revoked = True"
| "CapabilityState_is_terminal _ = False"

primrec CapabilityState_as_str :: "CapabilityState \<Rightarrow> string" where
  "CapabilityState_as_str Issued = ''issued''"
| "CapabilityState_as_str Active = ''active''"
| "CapabilityState_as_str Consumed = ''consumed''"
| "CapabilityState_as_str CapabilityState.Expired = ''expired''"
| "CapabilityState_as_str CapabilityState.Revoked = ''revoked''"

definition CapabilityState_transition_to ::
    "CapabilityState \<Rightarrow> CapabilityState \<Rightarrow> DomainError + CapabilityState" where
  "CapabilityState_transition_to s next =
    (let err = Inl (InvalidStateTransition (CapabilityState_as_str s) (CapabilityState_as_str next))
     in if CapabilityState_is_terminal s then err
        else if (case (s, next) of
                   (Issued, Active) \<Rightarrow> True
                 | (Issued, Consumed) \<Rightarrow> True
                 | (Active, Consumed) \<Rightarrow> True
                 | (_, CapabilityState.Expired) \<Rightarrow> True
                 | (_, CapabilityState.Revoked) \<Rightarrow> True
                 | _ \<Rightarrow> False)
        then Inr next else err)"

datatype BrowserSessionState =
    Starting
  | Active
  | Stale
  | Terminated

fun BrowserSessionState_is_terminal :: "BrowserSessionState \<Rightarrow> bool" where
  "BrowserSessionState_is_terminal Terminated = True"
| "BrowserSessionState_is_terminal _ = False"

primrec BrowserSessionState_as_str :: "BrowserSessionState \<Rightarrow> string" where
  "BrowserSessionState_as_str Starting = ''starting''"
| "BrowserSessionState_as_str BrowserSessionState.Active = ''active''"
| "BrowserSessionState_as_str Stale = ''stale''"
| "BrowserSessionState_as_str Terminated = ''terminated''"

definition BrowserSessionState_transition_to ::
    "BrowserSessionState \<Rightarrow> BrowserSessionState \<Rightarrow> DomainError + BrowserSessionState" where
  "BrowserSessionState_transition_to s next =
    (let err = Inl (InvalidStateTransition (BrowserSessionState_as_str s) (BrowserSessionState_as_str next))
     in if BrowserSessionState_is_terminal s then err
        else if (case (s, next) of
                   (Starting, BrowserSessionState.Active) \<Rightarrow> True
                 | (BrowserSessionState.Active, Stale) \<Rightarrow> True
                 | (Stale, BrowserSessionState.Active) \<Rightarrow> True
                 | (_, Terminated) \<Rightarrow> True
                 | _ \<Rightarrow> False)
        then Inr next else err)"

datatype ExecutionState =
    Prepared
  | Consuming
  | Completed
  | Failed
  | Indeterminate
  | CompletedEvidenceLost

fun ExecutionState_is_terminal :: "ExecutionState \<Rightarrow> bool" where
  "ExecutionState_is_terminal Prepared = False"
| "ExecutionState_is_terminal Consuming = False"
| "ExecutionState_is_terminal _ = True"

primrec ExecutionState_as_str :: "ExecutionState \<Rightarrow> string" where
  "ExecutionState_as_str Prepared = ''prepared''"
| "ExecutionState_as_str Consuming = ''consuming''"
| "ExecutionState_as_str ExecutionState.Completed = ''completed''"
| "ExecutionState_as_str ExecutionState.Failed = ''failed''"
| "ExecutionState_as_str ExecutionState.Indeterminate = ''indeterminate''"
| "ExecutionState_as_str ExecutionState.CompletedEvidenceLost = ''completed_evidence_lost''"

definition ExecutionState_transition_to ::
    "ExecutionState \<Rightarrow> ExecutionState \<Rightarrow> DomainError + ExecutionState" where
  "ExecutionState_transition_to s next =
    (let err = Inl (InvalidStateTransition (ExecutionState_as_str s) (ExecutionState_as_str next))
     in if ExecutionState_is_terminal s then err
        else if (case (s, next) of
                   (Prepared, Consuming) \<Rightarrow> True
                 | (Consuming, ExecutionState.Completed) \<Rightarrow> True
                 | (Consuming, ExecutionState.Failed) \<Rightarrow> True
                 | (Consuming, ExecutionState.Indeterminate) \<Rightarrow> True
                 | (Consuming, ExecutionState.CompletedEvidenceLost) \<Rightarrow> True
                 | (Prepared, ExecutionState.Failed) \<Rightarrow> True
                 | _ \<Rightarrow> False)
        then Inr next else err)"

section \<open>Runs of a lifecycle\<close>

text \<open>A run applies \<open>transition_to\<close> with each target of a list in turn and stops at the first error.\<close>

fun run_transitions :: "('s \<Rightarrow> 's \<Rightarrow> 'e + 's) \<Rightarrow> 's \<Rightarrow> 's list \<Rightarrow> 'e + 's" where
  "run_transitions tr s [] = Inr s"
| "run_transitions tr s (t # ts) = try_r (tr s t) (\<lambda>u. run_transitions tr u ts)"

locale lifecycle =
  fixes tr :: "'s \<Rightarrow> 's \<Rightarrow> 'e + 's"
    and terminal :: "'s \<Rightarrow> bool"
  assumes tr_target: "tr s t = Inr u \<Longrightarrow> u = t"
    and tr_terminal: "terminal s \<Longrightarrow> \<not> is_ok (tr s t)"
begin

lemma tr_from_live: "tr s t = Inr u \<Longrightarrow> \<not> terminal s"
  using tr_terminal by (metis is_ok_simps(2))

lemma run_last:
  "run_transitions tr s ts = Inr u \<Longrightarrow> u = last (s # ts)"
  by (induction ts arbitrary: s) (auto simp: try_r_Inr_iff dest: tr_target)

lemma run_snoc:
  "run_transitions tr s (ts @ [t]) = try_r (run_transitions tr s ts) (\<lambda>u. tr u t)"
proof (induction ts arbitrary: s)
  case Nil
  show ?case by (cases "tr s t") auto
next
  case (Cons x ts)
  then show ?case by (cases "tr s x") auto
qed

lemma run_reaches_by:
  assumes "run_transitions tr s ts = Inr u" "u \<noteq> s"
  obtains ts' v where "ts = ts' @ [u]" "run_transitions tr s ts' = Inr v" "tr v u = Inr u"
proof (cases ts rule: rev_cases)
  case Nil
  then show ?thesis using assms by simp
next
  case (snoc ts' t)
  then obtain v where "run_transitions tr s ts' = Inr v" "tr v t = Inr u"
    using assms(1) by (auto simp: run_snoc try_r_Inr_iff)
  moreover from this have "u = t" by (rule_tac tr_target)
  ultimately show ?thesis using snoc that by blast
qed

lemma run_live:
  "run_transitions tr s ts = Inr u \<Longrightarrow> x \<in> set (butlast (s # ts)) \<Longrightarrow> \<not> terminal x"
proof (induction ts arbitrary: s)
  case Nil
  then show ?case by simp
next
  case (Cons t ts)
  then show ?case
    by (auto simp: try_r_Inr_iff dest: tr_target tr_from_live split: if_splits)
qed

lemma run_terminal_stuck:
  "terminal s \<Longrightarrow> ts \<noteq> [] \<Longrightarrow> \<not> is_ok (run_transitions tr s ts)"
  using run_live[of s ts] by (cases ts) (auto simp: is_ok_iff)

lemma run_terminal_Nil:
  "run_transitions tr s ts = Inr u \<Longrightarrow> terminal s \<Longrightarrow> ts = []"
  using run_terminal_stuck by fastforce

end

locale ranked_lifecycle = lifecycle +
  fixes rank :: "'s \<Rightarrow> nat"
  assumes tr_rank: "tr s t = Inr u \<Longrightarrow> rank u < rank s"
begin

lemma run_bounded:
  "run_transitions tr s ts = Inr u \<Longrightarrow> rank u + length ts \<le> rank s"
proof (induction ts arbitrary: s)
  case Nil
  then show ?case by simp
next
  case (Cons t ts)
  then obtain v where "tr s t = Inr v" "run_transitions tr v ts = Inr u"
    by (auto simp: try_r_Inr_iff)
  then show ?case using Cons.IH tr_rank by fastforce
qed

end

text \<open>The ranks: the number of transitions still possible at most.\<close>

fun request_rank :: "ActionRequestState \<Rightarrow> nat" where
  "request_rank Requested = 6"
| "request_rank PolicyEvaluating = 5"
| "request_rank AwaitingApproval = 4"
| "request_rank Approved = 3"
| "request_rank CapabilityIssued = 2"
| "request_rank Executing = 1"
| "request_rank _ = 0"

fun capability_rank :: "CapabilityState \<Rightarrow> nat" where
  "capability_rank Issued = 2"
| "capability_rank CapabilityState.Active = 1"
| "capability_rank _ = 0"

fun execution_rank :: "ExecutionState \<Rightarrow> nat" where
  "execution_rank Prepared = 2"
| "execution_rank Consuming = 1"
| "execution_rank _ = 0"

interpretation request: ranked_lifecycle
  ActionRequestState_transition_to ActionRequestState_is_terminal request_rank
proof
  fix s t u
  show "ActionRequestState_transition_to s t = Inr u \<Longrightarrow> u = t"
    by (simp add: ActionRequestState_transition_to_def Let_def split: if_splits)
  show "ActionRequestState_is_terminal s \<Longrightarrow> \<not> is_ok (ActionRequestState_transition_to s t)"
    by (simp add: ActionRequestState_transition_to_def)
  show "ActionRequestState_transition_to s t = Inr u \<Longrightarrow> request_rank u < request_rank s"
    by (cases s; cases t) (auto simp: ActionRequestState_transition_to_def)
qed

interpretation capability: ranked_lifecycle
  CapabilityState_transition_to CapabilityState_is_terminal capability_rank
proof
  fix s t u
  show "CapabilityState_transition_to s t = Inr u \<Longrightarrow> u = t"
    by (simp add: CapabilityState_transition_to_def Let_def split: if_splits)
  show "CapabilityState_is_terminal s \<Longrightarrow> \<not> is_ok (CapabilityState_transition_to s t)"
    by (simp add: CapabilityState_transition_to_def)
  show "CapabilityState_transition_to s t = Inr u \<Longrightarrow> capability_rank u < capability_rank s"
    by (cases s; cases t) (auto simp: CapabilityState_transition_to_def)
qed

interpretation execution: ranked_lifecycle
  ExecutionState_transition_to ExecutionState_is_terminal execution_rank
proof
  fix s t u
  show "ExecutionState_transition_to s t = Inr u \<Longrightarrow> u = t"
    by (simp add: ExecutionState_transition_to_def Let_def split: if_splits)
  show "ExecutionState_is_terminal s \<Longrightarrow> \<not> is_ok (ExecutionState_transition_to s t)"
    by (simp add: ExecutionState_transition_to_def)
  show "ExecutionState_transition_to s t = Inr u \<Longrightarrow> execution_rank u < execution_rank s"
    by (cases s; cases t) (auto simp: ExecutionState_transition_to_def)
qed

interpretation session: lifecycle
  BrowserSessionState_transition_to BrowserSessionState_is_terminal
proof
  fix s t u
  show "BrowserSessionState_transition_to s t = Inr u \<Longrightarrow> u = t"
    by (simp add: BrowserSessionState_transition_to_def Let_def split: if_splits)
  show "BrowserSessionState_is_terminal s \<Longrightarrow> \<not> is_ok (BrowserSessionState_transition_to s t)"
    by (simp add: BrowserSessionState_transition_to_def)
qed

section \<open>What a completed lifecycle went through\<close>

lemma request_completed_pred:
  "ActionRequestState_transition_to s ActionRequestState.Completed = Inr u \<Longrightarrow> s = Executing"
  by (cases s) (auto simp: ActionRequestState_transition_to_def)

lemma request_executing_pred:
  "ActionRequestState_transition_to s Executing = Inr u \<Longrightarrow> s = CapabilityIssued"
  by (cases s) (auto simp: ActionRequestState_transition_to_def)

lemma request_issued_pred:
  "ActionRequestState_transition_to s CapabilityIssued = Inr u \<Longrightarrow> s = Approved"
  by (cases s) (auto simp: ActionRequestState_transition_to_def)

lemma request_approved_pred:
  "ActionRequestState_transition_to s Approved = Inr u \<Longrightarrow> s \<in> {PolicyEvaluating, AwaitingApproval}"
  by (cases s) (auto simp: ActionRequestState_transition_to_def)

lemma request_awaiting_pred:
  "ActionRequestState_transition_to s AwaitingApproval = Inr u \<Longrightarrow> s = PolicyEvaluating"
  by (cases s) (auto simp: ActionRequestState_transition_to_def)

lemma request_evaluating_pred:
  "ActionRequestState_transition_to s PolicyEvaluating = Inr u \<Longrightarrow> s = Requested"
  by (cases s) (auto simp: ActionRequestState_transition_to_def)

lemma request_requested_pred:
  "ActionRequestState_transition_to s Requested \<noteq> Inr u"
  by (cases s) (auto simp: ActionRequestState_transition_to_def)

lemma request_run_to_evaluating:
  assumes "run_transitions ActionRequestState_transition_to Requested ts = Inr PolicyEvaluating"
  shows "ts = [PolicyEvaluating]"
proof -
  from assms obtain ts' v where ts: "ts = ts' @ [PolicyEvaluating]"
    and v: "run_transitions ActionRequestState_transition_to Requested ts' = Inr v"
    and st: "ActionRequestState_transition_to v PolicyEvaluating = Inr PolicyEvaluating"
    by (rule request.run_reaches_by) auto
  from st have "v = Requested" by (rule request_evaluating_pred)
  with v have "last (Requested # ts') = Requested" using request.run_last by metis
  moreover have "ts' = []"
  proof (rule ccontr)
    assume "ts' \<noteq> []"
    then obtain ts0 x where "ts' = ts0 @ [x]" by (cases ts' rule: rev_cases) auto
    then show False using v request_requested_pred \<open>v = Requested\<close>
      by (auto simp: request.run_snoc try_r_Inr_iff dest: request.tr_target)
  qed
  ultimately show ?thesis using ts by simp
qed

lemma request_run_to_approved:
  assumes "run_transitions ActionRequestState_transition_to Requested ts = Inr Approved"
  shows "ts \<in> {[PolicyEvaluating, Approved], [PolicyEvaluating, AwaitingApproval, Approved]}"
proof -
  let ?run = "run_transitions ActionRequestState_transition_to Requested"
  from assms obtain ts' v where ts: "ts = ts' @ [Approved]" and v: "?run ts' = Inr v"
    and st: "ActionRequestState_transition_to v Approved = Inr Approved"
    by (rule request.run_reaches_by) auto
  from st have "v \<in> {PolicyEvaluating, AwaitingApproval}" by (rule request_approved_pred)
  then show ?thesis
  proof
    assume "v = PolicyEvaluating"
    then show ?thesis using v ts request_run_to_evaluating by auto
  next
    assume "v \<in> {AwaitingApproval}"
    then have "?run ts' = Inr AwaitingApproval" using v by simp
    then obtain ts0 w where "ts' = ts0 @ [AwaitingApproval]" "?run ts0 = Inr w"
      "ActionRequestState_transition_to w AwaitingApproval = Inr AwaitingApproval"
      by (rule request.run_reaches_by) auto
    then show ?thesis using ts request_awaiting_pred request_run_to_evaluating by auto
  qed
qed

section \<open>Properties\<close>

text \<open>
  A request that reaches \<open>Completed\<close> from \<open>Requested\<close> through \<open>transition_to\<close> went through policy
  evaluation, approval (directly or after waiting for a person), capability issuance and execution,
  in that order and through nothing else.
\<close>

theorem request_completion_path:
  assumes "run_transitions ActionRequestState_transition_to Requested ts = Inr ActionRequestState.Completed"
  shows "ts \<in> {[PolicyEvaluating, Approved, CapabilityIssued, Executing, ActionRequestState.Completed],
               [PolicyEvaluating, AwaitingApproval, Approved, CapabilityIssued, Executing,
                ActionRequestState.Completed]}"
proof -
  let ?run = "run_transitions ActionRequestState_transition_to Requested"
  from assms obtain ts3 v where 3: "ts = ts3 @ [ActionRequestState.Completed]" "?run ts3 = Inr v"
    "ActionRequestState_transition_to v ActionRequestState.Completed = Inr ActionRequestState.Completed"
    by (rule request.run_reaches_by) auto
  then have "?run ts3 = Inr Executing" using request_completed_pred by auto
  then obtain ts2 w where 2: "ts3 = ts2 @ [Executing]" "?run ts2 = Inr w"
    "ActionRequestState_transition_to w Executing = Inr Executing"
    by (rule request.run_reaches_by) auto
  then have "?run ts2 = Inr CapabilityIssued" using request_executing_pred by auto
  then obtain ts1 x where 1: "ts2 = ts1 @ [CapabilityIssued]" "?run ts1 = Inr x"
    "ActionRequestState_transition_to x CapabilityIssued = Inr CapabilityIssued"
    by (rule request.run_reaches_by) auto
  then have "?run ts1 = Inr Approved" using request_issued_pred by auto
  then show ?thesis using request_run_to_approved 1(1) 2(1) 3(1) by auto
qed

theorem request_completion_path_witness:
  "run_transitions ActionRequestState_transition_to Requested
     [PolicyEvaluating, Approved, CapabilityIssued, Executing, ActionRequestState.Completed]
     = Inr ActionRequestState.Completed
   \<and> [PolicyEvaluating, Approved, CapabilityIssued, Executing, ActionRequestState.Completed]
     \<in> {[PolicyEvaluating, Approved, CapabilityIssued, Executing, ActionRequestState.Completed],
        [PolicyEvaluating, AwaitingApproval, Approved, CapabilityIssued, Executing,
         ActionRequestState.Completed]}"
  (is "?run \<and> _")
proof -
  have run: ?run by (simp add: ActionRequestState_transition_to_def)
  show ?thesis using run request_completion_path[OF run] by (rule conjI)
qed

text \<open>
  Every run of \<open>transition_to\<close> is finite and bounded: at most six steps for a request, two for
  a capability, two for an execution; and no run of any of the four lifecycles, browser sessions
  included, leaves a terminal state.
\<close>

theorem lifecycle_runs_bounded:
  "(run_transitions ActionRequestState_transition_to s ts = Inr u
      \<longrightarrow> length ts \<le> 6 \<and> (ActionRequestState_is_terminal s \<longrightarrow> ts = []))
   \<and> (run_transitions CapabilityState_transition_to c cs = Inr d
      \<longrightarrow> length cs \<le> 2 \<and> (CapabilityState_is_terminal c \<longrightarrow> cs = []))
   \<and> (run_transitions ExecutionState_transition_to e es = Inr f
      \<longrightarrow> length es \<le> 2 \<and> (ExecutionState_is_terminal e \<longrightarrow> es = []))
   \<and> (run_transitions BrowserSessionState_transition_to b bs = Inr g
      \<longrightarrow> BrowserSessionState_is_terminal b \<longrightarrow> bs = [])"
proof -
  have r: "request_rank s \<le> 6" by (cases s) auto
  have c: "capability_rank c \<le> 2" by (cases c) auto
  have e: "execution_rank e \<le> 2" by (cases e) auto
  show ?thesis
    using request.run_bounded[of s ts u] request.run_terminal_Nil[of s ts u] r
      capability.run_bounded[of c cs d] capability.run_terminal_Nil[of c cs d] c
      execution.run_bounded[of e es f] execution.run_terminal_Nil[of e es f] e
      session.run_terminal_Nil[of b bs g]
    by (intro conjI impI) simp_all
qed

theorem lifecycle_runs_bounded_witness:
  "run_transitions ExecutionState_transition_to Prepared [Consuming, ExecutionState.Completed]
     = Inr ExecutionState.Completed
   \<and> length [Consuming, ExecutionState.Completed] \<le> 2"
  (is "?run \<and> _")
proof -
  have run: ?run by (simp add: ExecutionState_transition_to_def)
  then show ?thesis
    using lifecycle_runs_bounded[where e = Prepared and es = "[Consuming, ExecutionState.Completed]"
        and f = ExecutionState.Completed and ts = "[]" and cs = "[]" and bs = "[]"]
    by blast
qed

end
