(* ===== verification/Domain_Ids.thy ===== *)
theory Domain_Ids
  imports Domain_States
begin

text \<open>
  Identifiers, actions and origins of the domain crate (\<open>id.rs\<close>, \<open>actions.rs\<close>, \<open>origin.rs\<close>).

  The typed identifiers are strings with a type prefix; the fourteen types that the macro
  \<open>define_id!\<close> generates are type synonyms, and their common \<open>parse\<close> and \<open>new\<close> take the prefix as
  an argument.  The \<open>url\<close> crate is not part of the repository: \<open>Url::parse\<close> is the argument
  \<open>url_parse\<close> of every definition that calls it, and the record \<open>url\<close> holds the components that
  the code reads from a parsed URL.

  The locale \<open>text_codec\<close> is the contract of an enumeration with \<open>as_str\<close> and \<open>from_str\<close>.
\<close>

section \<open>Identifiers\<close>

type_synonym AgentId = string
type_synonym CredentialId = string
type_synonym RecipeId = string
type_synonym BrowserInstanceId = string
type_synonym BrowserSessionId = string
type_synonym CapabilityId = string
type_synonym RequestId = string
type_synonym ApprovalId = string
type_synonym ExecutionId = string
type_synonym GrantId = string
type_synonym EventId = string
type_synonym RuleId = string
type_synonym FlowId = string
type_synonym FlowStepId = string

definition id_new :: "string \<Rightarrow> string \<Rightarrow> string" where
  "id_new pre uuid = pre @ ''_'' @ uuid"

definition id_parse :: "string \<Rightarrow> string \<Rightarrow> DomainError + string" where
  "id_parse pre s =
    (if \<not> starts_with s (pre @ ''_'') \<or> length s \<le> length pre + 1
     then Inl (InvalidId (''Expected prefix '' @ [CHR 0x27] @ pre @ [CHR 0x27] @ '', got ''
                          @ [CHR 0x27] @ s @ [CHR 0x27]))
     else Inr s)"

lemma id_parse_ok_iff:
  "is_ok (id_parse p s) \<longleftrightarrow> (\<exists>u. u \<noteq> [] \<and> s = id_new p u)"
  by (auto simp: id_parse_def id_new_def starts_with_def prefix_def)

lemma id_parse_Inr: "id_parse p s = Inr i \<Longrightarrow> i = s"
  by (simp add: id_parse_def split: if_splits)

lemma id_parse_new [simp]: "u \<noteq> [] \<Longrightarrow> id_parse p (id_new p u) = Inr (id_new p u)"
  by (simp add: id_parse_def id_new_def starts_with_def)

lemma id_new_inject [simp]: "id_new p u = id_new p v \<longleftrightarrow> u = v"
  by (simp add: id_new_def)

section \<open>Enumerations with a text form\<close>

locale text_codec =
  fixes as_str :: "'a \<Rightarrow> string"
    and from_str :: "string \<Rightarrow> 'e + 'a"
  assumes from_as: "from_str (as_str x) = Inr x"
    and as_from: "from_str s = Inr x \<Longrightarrow> as_str x = s"
begin

lemma as_str_inject: "as_str x = as_str y \<longleftrightarrow> x = y"
  by (metis from_as Inr_inject)

lemma from_str_ok_iff: "is_ok (from_str s) \<longleftrightarrow> s \<in> range as_str"
  using from_as as_from by (auto simp: is_ok_iff)

lemma from_str_inject: "from_str s = Inr x \<Longrightarrow> from_str t = Inr x \<Longrightarrow> s = t"
  using as_from by blast

end

section \<open>Actions\<close>

datatype ActionKind =
    AuthenticatePassword
  | AuthenticateTotp
  | FormSensitiveFill
  | OAuthAuthorize

primrec ActionKind_as_str :: "ActionKind \<Rightarrow> string" where
  "ActionKind_as_str AuthenticatePassword = ''authenticate.password''"
| "ActionKind_as_str AuthenticateTotp = ''authenticate.totp''"
| "ActionKind_as_str FormSensitiveFill = ''form.sensitive_fill''"
| "ActionKind_as_str OAuthAuthorize = ''oauth.authorize''"

definition ActionKind_from_str :: "string \<Rightarrow> DomainError + ActionKind" where
  "ActionKind_from_str s =
    (if s = ''authenticate.password'' then Inr AuthenticatePassword
     else if s = ''authenticate.totp'' then Inr AuthenticateTotp
     else if s = ''form.sensitive_fill'' then Inr FormSensitiveFill
     else if s = ''oauth.authorize'' then Inr OAuthAuthorize
     else Inl (InvalidAction s))"

interpretation action_codec: text_codec ActionKind_as_str ActionKind_from_str
proof
  fix x s
  show "ActionKind_from_str (ActionKind_as_str x) = Inr x"
    by (cases x) (simp_all add: ActionKind_from_str_def)
  show "ActionKind_from_str s = Inr x \<Longrightarrow> ActionKind_as_str x = s"
    by (auto simp: ActionKind_from_str_def split: if_splits)
qed

section \<open>Origins\<close>

text \<open>
  What the code reads from a parsed URL.  \<open>u_origin\<close> is \<open>url.origin().ascii_serialization()\<close>,
  \<open>u_serialized\<close> the URL as \<open>url.to_string()\<close> prints it.
\<close>

record url =
  u_scheme :: string
  u_username :: string
  u_password :: "string option"
  u_host :: "string option"
  u_port :: "u16 option"
  u_path :: string
  u_query :: "string option"
  u_fragment :: "string option"
  u_origin :: string
  u_serialized :: string

type_synonym url_parser = "string \<Rightarrow> string + url"

record CanonicalOrigin =
  o_scheme :: string
  o_host :: string
  o_port :: u16

definition default_port :: "string \<Rightarrow> u16" where
  "default_port scheme = (if scheme = ''https'' then 443 else 80)"

definition origin_parse :: "url_parser \<Rightarrow> string \<Rightarrow> DomainError + CanonicalOrigin" where
  "origin_parse url_parse s =
    try_r (map_err (\<lambda>e. InvalidOrigin (s @ '': '' @ e)) (url_parse s)) (\<lambda>u.
    let scheme = to_ascii_lowercase (u_scheme u) in
    if scheme \<noteq> ''https'' \<and> scheme \<noteq> ''http''
    then Inl (InvalidOrigin (''Unsupported scheme: '' @ scheme))
    else try_r (ok_or (InvalidOrigin ''Missing host'') (u_host u)) (\<lambda>h.
    let host = to_ascii_lowercase h in
    if contains_str host ''*''
    then Inl (InvalidOrigin ''Wildcard host is not permitted in canonical origin'')
    else Inr \<lparr>o_scheme = scheme, o_host = host,
              o_port = (case u_port u of None \<Rightarrow> default_port scheme | Some p \<Rightarrow> p)\<rparr>))"

definition origin_as_str :: "CanonicalOrigin \<Rightarrow> string" where
  "origin_as_str o' = o_scheme o' @ ''://'' @ o_host o' @ '':'' @ show_nat (unat (o_port o'))"

definition origin_matches :: "CanonicalOrigin \<Rightarrow> CanonicalOrigin \<Rightarrow> bool" where
  "origin_matches a b = (o_scheme a = o_scheme b \<and> o_host a = o_host b \<and> o_port a = o_port b)"

definition origin_wf :: "CanonicalOrigin \<Rightarrow> bool" where
  "origin_wf o' = (o_scheme o' \<in> {''https'', ''http''}
     \<and> to_ascii_lowercase (o_host o') = o_host o' \<and> \<not> contains_str (o_host o') ''*'')"

lemma origin_matches_iff [simp]: "origin_matches a b \<longleftrightarrow> a = b"
  by (auto simp: origin_matches_def)

lemma origin_parse_wf: "origin_parse up s = Inr o' \<Longrightarrow> origin_wf o'"
  by (auto simp: origin_parse_def origin_wf_def Let_def try_r_Inr_iff split: if_splits)

text \<open>
  What the code relies on of the \<open>url\<close> crate when it stores an origin as text and parses it back:
  an \<open>http\<close> or \<open>https\<close> URL of the form \<open>scheme://host:port\<close>, whose host is one that the parser
  itself returned, parses to that scheme and host, and reports the port unless it is the default
  of the scheme.
\<close>

definition url_reparses :: "url_parser \<Rightarrow> bool" where
  "url_reparses up = (\<forall>s u h sch p. up s = Inr u \<longrightarrow> u_host u = Some h \<longrightarrow> sch \<in> {''https'', ''http''} \<longrightarrow>
     (\<exists>v. up (sch @ ''://'' @ to_ascii_lowercase h @ '':'' @ show_nat (unat p)) = Inr v
        \<and> u_scheme v = sch \<and> u_host v = Some (to_ascii_lowercase h)
        \<and> u_port v = (if p = default_port sch then None else Some (p :: u16))))"

lemma origin_parse_as_str:
  assumes law: "url_reparses up" and p: "origin_parse up s = Inr o'"
  shows "origin_parse up (origin_as_str o') = Inr o'"
proof -
  from p obtain u h where u: "up s = Inr u" "u_host u = Some h"
    and o': "o_scheme o' = to_ascii_lowercase (u_scheme u)" "o_host o' = to_ascii_lowercase h"
      "o_scheme o' \<in> {''https'', ''http''}" "\<not> contains_str (o_host o') ''*''"
    by (auto simp: origin_parse_def Let_def try_r_Inr_iff split: if_splits)
  from law u o'(3) obtain v where
    "up (o_scheme o' @ ''://'' @ to_ascii_lowercase h @ '':'' @ show_nat (unat (o_port o'))) = Inr v"
    "u_scheme v = o_scheme o'" "u_host v = Some (to_ascii_lowercase h)"
    "u_port v = (if o_port o' = default_port (o_scheme o') then None else Some (o_port o'))"
    unfolding url_reparses_def by blast
  moreover have "to_ascii_lowercase (o_scheme o') = o_scheme o'" using o'(1) by simp
  ultimately show ?thesis using o'
    by (cases o') (auto simp: origin_parse_def origin_as_str_def Let_def)
qed

section \<open>A parser of plain origins\<close>

text \<open>
  A concrete \<open>url_parser\<close> for URLs without path, credentials or query.  It shows that
  \<open>url_reparses\<close> can hold, and serves as the parser of the witnesses.
\<close>

definition plain_url :: "string \<Rightarrow> string \<Rightarrow> url" where
  "plain_url sch rest =
    (let host = takeWhile (\<lambda>c. c \<noteq> CHR '':'') rest;
         tail = dropWhile (\<lambda>c. c \<noteq> CHR '':'') rest;
         p = (of_nat (digits_value (tl tail)) :: u16);
         port = (if tail = [] \<or> p = default_port sch then None else Some p)
     in \<lparr>u_scheme = sch, u_username = [], u_password = None, u_host = Some host, u_port = port,
         u_path = ''/'', u_query = None, u_fragment = None,
         u_origin = sch @ ''://'' @ rest, u_serialized = sch @ ''://'' @ rest @ ''/''\<rparr>)"

definition plain_url_parse :: url_parser where
  "plain_url_parse s =
    (if take 8 s = ''https://'' then Inr (plain_url ''https'' (drop 8 s))
     else if take 7 s = ''http://'' then Inr (plain_url ''http'' (drop 7 s))
     else Inl ''relative URL without a base'')"

lemma plain_url_parse_printed:
  "sch \<in> {''https'', ''http''} \<Longrightarrow> plain_url_parse (sch @ ''://'' @ rest) = Inr (plain_url sch rest)"
  by (auto simp: plain_url_parse_def)

lemma ascii_lower_colon [simp]: "ascii_lower c = CHR '':'' \<longleftrightarrow> c = CHR '':''"
proof
  assume a: "ascii_lower c = CHR '':''"
  show "c = CHR '':''"
  proof (cases "65 \<le> (of_char c :: nat) \<and> (of_char c :: nat) \<le> 90")
    case True
    then have "(of_char (char_of ((of_char c :: nat) + 32) :: char) :: nat) = of_char (CHR '':'')"
      using a by (simp add: ascii_lower_def)
    then show ?thesis using True by (simp add: of_char_of)
  qed (use a in \<open>auto simp: ascii_lower_def\<close>)
qed (simp add: ascii_lower_def)

lemma plain_url_reparses: "url_reparses plain_url_parse"
  unfolding url_reparses_def
proof (intro allI impI)
  fix s u h sch and p :: u16
  assume u: "plain_url_parse s = Inr u" "u_host u = Some h" and sch: "sch \<in> {''https'', ''http''}"
  obtain sch' r where "u = plain_url sch' r"
    using u(1) unfolding plain_url_parse_def by (metis Inr_inject sum.distinct(1))
  then have "h = takeWhile (\<lambda>c. c \<noteq> CHR '':'') r" using u(2) by (simp add: plain_url_def Let_def)
  then have "CHR '':'' \<notin> set h" by (auto dest: set_takeWhileD)
  then have l: "\<forall>c \<in> set (to_ascii_lowercase h). c \<noteq> CHR '':''"
    by (auto simp: to_ascii_lowercase_def)
  have t: "takeWhile (\<lambda>c. c \<noteq> CHR '':'') (to_ascii_lowercase h @ CHR '':'' # r) = to_ascii_lowercase h"
    "dropWhile (\<lambda>c. c \<noteq> CHR '':'') (to_ascii_lowercase h @ CHR '':'' # r) = CHR '':'' # r" for r
    using l by (simp_all add: takeWhile_append dropWhile_append)
  show "\<exists>v. plain_url_parse (sch @ ''://'' @ to_ascii_lowercase h @ '':'' @ show_nat (unat p)) = Inr v
        \<and> u_scheme v = sch \<and> u_host v = Some (to_ascii_lowercase h)
        \<and> u_port v = (if p = default_port sch then None else Some p)"
    unfolding plain_url_parse_printed[OF sch]
    by (simp add: plain_url_def Let_def t digits_value_show_nat)
qed

section \<open>Properties\<close>

text \<open>
  An identifier parses exactly when it is the prefix, an underscore and a non-empty rest; the
  parsed value is the text itself, every generated identifier parses back to itself, and the text
  form of an action is read back by \<open>from_str\<close> and by nothing else.
\<close>

theorem id_and_action_text_roundtrip:
  "(is_ok (id_parse p s) \<longleftrightarrow> (\<exists>u. u \<noteq> [] \<and> s = id_new p u))
   \<and> (u \<noteq> [] \<longrightarrow> id_parse p (id_new p u) = Inr (id_new p u))
   \<and> (id_parse p s = Inr i \<longrightarrow> i = s)
   \<and> (ActionKind_from_str s = Inr a \<longleftrightarrow> s = ActionKind_as_str a)"
  using id_parse_ok_iff id_parse_Inr action_codec.from_as action_codec.as_from by auto

theorem id_and_action_text_roundtrip_witness:
  "id_parse ''cap'' (id_new ''cap'' ''1'') = Inr ''cap_1''
   \<and> ActionKind_from_str ''oauth.authorize'' = Inr OAuthAuthorize"
  using id_and_action_text_roundtrip[of "''cap''" "''oauth.authorize''" "''1''" "''1''" OAuthAuthorize]
  by (simp add: id_new_def)

text \<open>
  A parsed origin is canonical (an \<open>http\<close> or \<open>https\<close> scheme, a lower-case host without
  wildcard) and survives its own text form: the string that \<open>as_str\<close> prints, and that is written to
  the database, to tokens and to JSON, parses back to the same origin.
\<close>

theorem origin_text_roundtrip:
  assumes "url_reparses up" and "origin_parse up s = Inr o'"
  shows "origin_wf o' \<and> origin_parse up (origin_as_str o') = Inr o'"
  using assms origin_parse_wf origin_parse_as_str by blast

theorem origin_text_roundtrip_witness:
  "origin_parse plain_url_parse ''https://GitHub.com''
     = Inr \<lparr>o_scheme = ''https'', o_host = ''github.com'', o_port = 443\<rparr>
   \<and> origin_parse plain_url_parse
       (origin_as_str \<lparr>o_scheme = ''https'', o_host = ''github.com'', o_port = 443\<rparr>)
     = Inr \<lparr>o_scheme = ''https'', o_host = ''github.com'', o_port = 443\<rparr>"
  (is "?p \<and> _")
proof -
  have p: ?p by code_simp
  show ?thesis using p origin_text_roundtrip[OF plain_url_reparses p] by blast
qed

end
