(* ===== verification/Domain_Entities.thy ===== *)
theory Domain_Entities
  imports Domain_Ids
begin

text \<open>
  The entities of the domain crate (\<open>secretctl-domain/src/entities.rs\<close>): one record per struct,
  with the struct's fields in its order under a prefix of their own, and the methods that the
  structs carry: \<open>OAuthRecipe::validate\<close>, \<open>CapabilityDeadlines::from_policy\<close>, the validity windows
  of a capability, and the coverage test of a standing grant.
\<close>

section \<open>Principals, credentials and recipes\<close>

record AgentPrincipal =
  ag_agent_id :: AgentId
  ag_role :: string
  ag_public_key :: bytes
  ag_display_name :: string
  ag_peer_uid :: "u32 option"
  ag_executable_path :: "string option"
  ag_executable_hash :: "bytes option"
  ag_state :: string
  ag_created_at :: datetime

record CredentialDescriptor =
  cr_credential_id :: CredentialId
  cr_name :: string
  cr_kind :: string
  cr_provider :: string
  cr_provider_locator :: string
  cr_allowed_actions :: "ActionKind list"
  cr_metadata_json :: string
  cr_disabled_at :: "datetime option"

record RecipeField =
  rf_role :: string
  rf_selector :: string
  rf_optional :: bool
  rf_clear_first :: bool

record RecipeSubmit =
  rs_selector :: "string option"
  rs_auto_submit :: bool
  rs_delay_ms :: "u64 option"

record RecipeSuccessIndicators =
  ri_navigation_origin :: "string option"
  ri_selector_present :: "string option"
  ri_selector_absent :: "string option"
  ri_timeout_ms :: "u64 option"

record RecipeMatch =
  rm_top_origin :: CanonicalOrigin
  rm_path_prefix :: "string option"
  rm_frame_origin :: "CanonicalOrigin option"

record OAuthRecipe =
  oa_issuer :: CanonicalOrigin
  oa_authorization_endpoint :: string
  oa_token_endpoint :: string
  oa_client_id :: string
  oa_redirect_uri :: string
  oa_allowed_scopes :: "string list"

record SiteRecipe =
  sr_recipe_id :: RecipeId
  sr_version :: u32
  sr_name :: string
  sr_action :: ActionKind
  sr_match_rule :: RecipeMatch
  sr_fields :: "RecipeField list"
  sr_submit :: "RecipeSubmit option"
  sr_success_indicators :: "RecipeSuccessIndicators option"
  sr_oauth :: "OAuthRecipe option"
  sr_content_hash :: bytes
  sr_enabled :: bool

section \<open>Validation of OAuth recipes\<close>

definition oauth_parse_endpoint :: "url_parser \<Rightarrow> string \<Rightarrow> DomainError + url" where
  "oauth_parse_endpoint up value =
    try_r (map_err (\<lambda>_. SecurityInvariantViolation ''OAuth URL is invalid'') (up value)) (\<lambda>u.
    if u_scheme u \<noteq> ''https'' \<or> u_username u \<noteq> [] \<or> u_password u \<noteq> None \<or> u_query u \<noteq> None
       \<or> u_fragment u \<noteq> None
    then Inl (SecurityInvariantViolation
           ''OAuth endpoints must be HTTPS URLs without credentials, query, or fragment'')
    else Inr u)"

text \<open>The \<open>any\<close> over the scopes, with the set of scopes it has inserted so far.\<close>

fun bad_scope :: "string list \<Rightarrow> string list \<Rightarrow> bool" where
  "bad_scope seen [] = False"
| "bad_scope seen (scope # rest) =
    (scope = [] \<or> list_ex is_whitespace (chars_of scope) \<or> List.member seen scope
     \<or> bad_scope (scope # seen) rest)"

definition OAuthRecipe_validate :: "url_parser \<Rightarrow> OAuthRecipe \<Rightarrow> DomainError + unit" where
  "OAuthRecipe_validate up r =
    try_r (oauth_parse_endpoint up (oa_authorization_endpoint r)) (\<lambda>authorization.
    try_r (oauth_parse_endpoint up (oa_token_endpoint r)) (\<lambda>token.
    try_r (map_err (\<lambda>_. SecurityInvariantViolation ''OAuth issuer is invalid'')
             (origin_parse up (u_origin authorization))) (\<lambda>authorization_origin.
    try_r (map_err (\<lambda>_. SecurityInvariantViolation ''OAuth issuer is invalid'')
             (origin_parse up (u_origin token))) (\<lambda>token_origin.
    if \<not> origin_matches authorization_origin (oa_issuer r) \<or> \<not> origin_matches token_origin (oa_issuer r)
    then Inl (SecurityInvariantViolation ''OAuth endpoints must match the configured issuer'')
    else try_r (map_err (\<lambda>_. SecurityInvariantViolation ''OAuth redirect URI is invalid'')
             (up (oa_redirect_uri r))) (\<lambda>redirect.
    if u_scheme redirect \<noteq> ''https'' \<or> u_username redirect \<noteq> [] \<or> u_password redirect \<noteq> None
       \<or> u_query redirect \<noteq> None \<or> u_fragment redirect \<noteq> None
    then Inl (SecurityInvariantViolation ''OAuth redirect must be an exact HTTPS origin/path'')
    else if trim_is_empty (oa_client_id r) \<or> oa_allowed_scopes r = []
    then Inl (SecurityInvariantViolation ''OAuth client ID and scopes are required'')
    else if bad_scope [] (oa_allowed_scopes r)
    then Inl (SecurityInvariantViolation ''OAuth scopes must be unique non-empty names'')
    else Inr ())))))"

lemma bad_scope_iff:
  "\<not> bad_scope seen xs \<longleftrightarrow>
     distinct xs \<and> set xs \<inter> set seen = {} \<and> (\<forall>x \<in> set xs. x \<noteq> [] \<and> list_all (\<lambda>c. \<not> is_whitespace c) (chars_of x))"
  by (induction xs arbitrary: seen)
    (auto simp: list_ex_iff list_all_iff)

section \<open>Browser, request and decision\<close>

record BrowserInstance =
  bi_instance_id :: BrowserInstanceId
  bi_launcher_nonce :: string
  bi_binary_hash :: "bytes option"
  bi_extension_key_id :: string
  bi_private_cdp_endpoint :: string
  bi_created_at :: datetime

record BrowserSession =
  bs_session_id :: BrowserSessionId
  bs_instance_id :: BrowserInstanceId
  bs_extension_key_id :: string
  bs_profile_id :: string
  bs_assurance :: string
  bs_state :: BrowserSessionState
  bs_last_heartbeat_at :: datetime

record PageContext =
  pg_tab_id :: u32
  pg_frame_id :: u32
  pg_top_origin :: CanonicalOrigin
  pg_frame_origin :: CanonicalOrigin
  pg_navigation_epoch :: u64
  pg_document_id :: string
  pg_path :: string
  pg_path_sha256 :: string
  pg_tls :: bool
  pg_incognito :: bool
  pg_observed_at :: datetime

record ActionRequest =
  rq_request_id :: RequestId
  rq_agent_id :: AgentId
  rq_credential_id :: CredentialId
  rq_action :: ActionKind
  rq_target_origin :: CanonicalOrigin
  rq_path_prefix :: "string option"
  rq_browser_session_id :: BrowserSessionId
  rq_tab_hint :: "u32 option"
  rq_reason :: string
  rq_state :: ActionRequestState
  rq_policy_hash :: "bytes option"
  rq_created_at :: datetime
  rq_expires_at :: datetime

datatype PolicyEffect = Allow | Deny

datatype RiskLevel = Low | Medium | High | Critical

record PolicyDecision =
  pd_effect :: PolicyEffect
  pd_risk_level :: RiskLevel
  pd_rule_id :: "RuleId option"
  pd_policy_hash :: bytes
  pd_require_user_presence :: bool
  pd_max_uses :: u32
  pd_consume_ttl_seconds :: u64
  pd_execution_ttl_seconds :: u64

record CapabilityDeadlines =
  dl_consume_ttl_seconds :: u64
  dl_execution_ttl_seconds :: u64
  dl_step_ttl_seconds :: "u64 option"

definition deadlines_from_policy :: "PolicyDecision \<Rightarrow> CapabilityDeadlines" where
  "deadlines_from_policy d =
    \<lparr>dl_consume_ttl_seconds = pd_consume_ttl_seconds d,
     dl_execution_ttl_seconds = pd_execution_ttl_seconds d,
     dl_step_ttl_seconds = None\<rparr>"

definition deadlines_with_step :: "CapabilityDeadlines \<Rightarrow> u64 option \<Rightarrow> CapabilityDeadlines" where
  "deadlines_with_step d s = d\<lparr>dl_step_ttl_seconds := s\<rparr>"

record FlowBinding =
  fb_flow_id :: FlowId
  fb_step_id :: FlowStepId

definition DEFAULT_EXECUTION_TTL_SECONDS :: u64 where
  "DEFAULT_EXECUTION_TTL_SECONDS = 120"

record Approval =
  ap_approval_id :: ApprovalId
  ap_request_id :: RequestId
  ap_decision :: string
  ap_actor :: "string option"
  ap_presence :: "string option"
  ap_context_digest :: bytes
  ap_decided_at :: "datetime option"
  ap_expires_at :: datetime

section \<open>Capabilities and executions\<close>

record Capability =
  cap_capability_id :: CapabilityId
  cap_request_id :: RequestId
  cap_agent_id :: AgentId
  cap_credential_id :: CredentialId
  cap_action :: ActionKind
  cap_top_origin :: CanonicalOrigin
  cap_frame_origin :: CanonicalOrigin
  cap_browser_session_id :: BrowserSessionId
  cap_extension_key_id :: string
  cap_tab_id :: u32
  cap_frame_id :: u32
  cap_document_id :: string
  cap_navigation_epoch :: u64
  cap_recipe_id :: RecipeId
  cap_recipe_hash :: bytes
  cap_policy_hash :: bytes
  cap_token_hash :: bytes
  cap_state :: CapabilityState
  cap_max_uses :: u32
  cap_used_count :: u32
  cap_issued_at :: datetime
  cap_consume_deadline :: datetime
  cap_execution_deadline :: datetime
  cap_step_deadline :: "datetime option"
  cap_flow_id :: "FlowId option"
  cap_step_id :: "FlowStepId option"
  cap_revoked_reason :: "string option"

record CapabilitySummary =
  cs_capability_id :: CapabilityId
  cs_request_id :: RequestId
  cs_state :: string
  cs_max_uses :: u32
  cs_used_count :: u32
  cs_issued_at :: datetime
  cs_expires_at :: datetime
  cs_revoked_reason :: "string option"
  cs_signing_key_id :: string

definition Capability_is_valid_at :: "Capability \<Rightarrow> datetime \<Rightarrow> bool" where
  "Capability_is_valid_at c now =
    ((cap_state c = Issued \<or> cap_state c = CapabilityState.Active)
     \<and> now \<le> cap_consume_deadline c \<and> cap_used_count c < cap_max_uses c)"

definition execution_window_elapsed :: "Capability \<Rightarrow> datetime \<Rightarrow> bool" where
  "execution_window_elapsed c now = (now > cap_execution_deadline c)"

definition step_window_elapsed :: "Capability \<Rightarrow> datetime \<Rightarrow> bool" where
  "step_window_elapsed c now = is_some_and (cap_step_deadline c) (\<lambda>deadline. now > deadline)"

record Execution =
  ex_execution_id :: ExecutionId
  ex_capability_id :: CapabilityId
  ex_state :: ExecutionState
  ex_prepared_context_digest :: "bytes option"
  ex_started_at :: "datetime option"
  ex_completed_at :: "datetime option"
  ex_result_code :: "string option"

record OAuthGrant =
  og_grant_id :: GrantId
  og_credential_id :: CredentialId
  og_provider_locator :: string
  og_scopes :: "string list"
  og_subject_hint :: "string option"
  og_created_at :: datetime
  og_expires_at :: "datetime option"

record AuditEvent =
  ev_sequence :: u64
  ev_event_id :: EventId
  ev_event_type :: string
  ev_actor_type :: string
  ev_actor_id :: "string option"
  ev_event_json :: string
  ev_audit_key_version :: u32
  ev_previous_hash :: bytes
  ev_event_hash :: bytes
  ev_created_at :: datetime

record AuditCheckpoint =
  ck_sequence :: u64
  ck_event_hash :: bytes
  ck_audit_key_version :: u32
  ck_signing_key_id :: string
  ck_signature :: bytes
  ck_created_at :: datetime

section \<open>Risk levels and standing grants\<close>

record StandingGrant =
  sg_grant_id :: GrantId
  sg_agent_id :: AgentId
  sg_agent_name :: string
  sg_credential_id :: CredentialId
  sg_credential_name :: string
  sg_origin :: CanonicalOrigin
  sg_action :: ActionKind
  sg_risk_ceiling :: RiskLevel
  sg_require_presence :: bool
  sg_created_at :: datetime
  sg_expires_at :: datetime
  sg_revoked_at :: "datetime option"
  sg_revoked_reason :: "string option"
  sg_last_used_at :: "datetime option"
  sg_use_count :: u64

primrec RiskLevel_as_str :: "RiskLevel \<Rightarrow> string" where
  "RiskLevel_as_str Low = ''low''"
| "RiskLevel_as_str Medium = ''medium''"
| "RiskLevel_as_str High = ''high''"
| "RiskLevel_as_str Critical = ''critical''"

primrec RiskLevel_rank :: "RiskLevel \<Rightarrow> u8" where
  "RiskLevel_rank Low = 0"
| "RiskLevel_rank Medium = 1"
| "RiskLevel_rank High = 2"
| "RiskLevel_rank Critical = 3"

definition RiskLevel_from_str :: "string \<Rightarrow> DomainError + RiskLevel" where
  "RiskLevel_from_str value =
    (if value = ''low'' then Inr Low
     else if value = ''medium'' then Inr Medium
     else if value = ''high'' then Inr High
     else if value = ''critical'' then Inr Critical
     else Inl (InvalidId (''unknown risk level '' @ [CHR 0x27] @ value @ [CHR 0x27])))"

interpretation risk_codec: text_codec RiskLevel_as_str RiskLevel_from_str
proof
  fix x s
  show "RiskLevel_from_str (RiskLevel_as_str x) = Inr x"
    by (cases x) (simp_all add: RiskLevel_from_str_def)
  show "RiskLevel_from_str s = Inr x \<Longrightarrow> RiskLevel_as_str x = s"
    by (auto simp: RiskLevel_from_str_def split: if_splits)
qed

instantiation RiskLevel :: linorder
begin

definition less_eq_RiskLevel :: "RiskLevel \<Rightarrow> RiskLevel \<Rightarrow> bool" where
  "less_eq_RiskLevel a b = (RiskLevel_rank a \<le> RiskLevel_rank b)"

definition less_RiskLevel :: "RiskLevel \<Rightarrow> RiskLevel \<Rightarrow> bool" where
  "less_RiskLevel a b = (RiskLevel_rank a < RiskLevel_rank b)"

instance
proof
  fix a b c :: RiskLevel
  show "(a < b) = (a \<le> b \<and> \<not> b \<le> a)" by (auto simp: less_eq_RiskLevel_def less_RiskLevel_def)
  show "a \<le> a" by (simp add: less_eq_RiskLevel_def)
  show "a \<le> b \<Longrightarrow> b \<le> c \<Longrightarrow> a \<le> c" unfolding less_eq_RiskLevel_def by (rule order_trans)
  show "a \<le> b \<Longrightarrow> b \<le> a \<Longrightarrow> a = b"
    by (cases a; cases b) (simp_all add: less_eq_RiskLevel_def word_le_nat_alt)
  show "a \<le> b \<or> b \<le> a" by (auto simp: less_eq_RiskLevel_def)
qed

end

definition MAX_GRANTABLE_RISK :: RiskLevel where
  "MAX_GRANTABLE_RISK = Medium"

definition MAX_GRANT_TTL_DAYS :: int where
  "MAX_GRANT_TTL_DAYS = 90"

definition StandingGrant_is_active_at :: "StandingGrant \<Rightarrow> datetime \<Rightarrow> bool" where
  "StandingGrant_is_active_at g now = (sg_revoked_at g = None \<and> now < sg_expires_at g)"

definition StandingGrant_covers ::
    "StandingGrant \<Rightarrow> AgentId \<Rightarrow> string \<Rightarrow> ActionKind \<Rightarrow> CanonicalOrigin \<Rightarrow> RiskLevel \<Rightarrow> datetime \<Rightarrow> bool" where
  "StandingGrant_covers g agent_id credential_name action origin risk now =
    (StandingGrant_is_active_at g now
     \<and> \<not> sg_require_presence g
     \<and> sg_agent_id g = agent_id
     \<and> sg_credential_name g = credential_name
     \<and> sg_action g = action
     \<and> sg_origin g = origin
     \<and> RiskLevel_rank risk \<le> RiskLevel_rank (sg_risk_ceiling g)
     \<and> RiskLevel_rank risk \<le> RiskLevel_rank MAX_GRANTABLE_RISK)"

lemma RiskLevel_rank_le_iff [simp]: "RiskLevel_rank a \<le> RiskLevel_rank b \<longleftrightarrow> a \<le> b"
  by (simp add: less_eq_RiskLevel_def)

lemma covers_only_low_or_medium:
  "StandingGrant_covers g a n k og r t \<Longrightarrow> r \<in> {Low, Medium}"
  unfolding StandingGrant_covers_def MAX_GRANTABLE_RISK_def
  by (cases r) (auto simp: less_eq_RiskLevel_def word_le_nat_alt)

lemma covers_unique_tuple:
  "StandingGrant_covers g a n k og r t \<Longrightarrow> StandingGrant_covers g a' n' k' og' r' t'
   \<Longrightarrow> (a, n, k, og) = (a', n', k', og')"
  by (auto simp: StandingGrant_covers_def)

lemma covers_expires: "StandingGrant_covers g a n k og r t \<Longrightarrow> sg_expires_at g \<le> t'
   \<Longrightarrow> \<not> StandingGrant_covers g a' n' k' og' r' t'"
  by (simp add: StandingGrant_covers_def StandingGrant_is_active_at_def)

section \<open>Properties\<close>

text \<open>
  A recipe that \<open>validate\<close> accepts has both endpoints on the configured issuer, all three URLs
  over HTTPS and free of credentials, query and fragment, a client identifier that is not blank, and
  a non-empty list of distinct, non-empty scopes without white space.
\<close>

theorem oauth_recipe_validated:
  assumes "OAuthRecipe_validate up r = Inr ()"
  shows "\<exists>a t d. up (oa_authorization_endpoint r) = Inr a \<and> up (oa_token_endpoint r) = Inr t
     \<and> up (oa_redirect_uri r) = Inr d
     \<and> origin_parse up (u_origin a) = Inr (oa_issuer r) \<and> origin_parse up (u_origin t) = Inr (oa_issuer r)
     \<and> list_all (\<lambda>u. u_scheme u = ''https'' \<and> u_username u = [] \<and> u_password u = None
                    \<and> u_query u = None \<and> u_fragment u = None) [a, t, d]
     \<and> \<not> trim_is_empty (oa_client_id r)
     \<and> oa_allowed_scopes r \<noteq> [] \<and> distinct (oa_allowed_scopes r)
     \<and> list_all (\<lambda>x. x \<noteq> [] \<and> list_all (\<lambda>c. \<not> is_whitespace c) (chars_of x)) (oa_allowed_scopes r)"
proof -
  from assms obtain a t d ao tk where
    ep: "oauth_parse_endpoint up (oa_authorization_endpoint r) = Inr a"
        "oauth_parse_endpoint up (oa_token_endpoint r) = Inr t"
    and orig: "origin_parse up (u_origin a) = Inr ao" "origin_parse up (u_origin t) = Inr tk"
        "ao = oa_issuer r" "tk = oa_issuer r"
    and red: "up (oa_redirect_uri r) = Inr d"
        "u_scheme d = ''https'' \<and> u_username d = [] \<and> u_password d = None \<and> u_query d = None \<and> u_fragment d = None"
    and scopes: "\<not> trim_is_empty (oa_client_id r)" "oa_allowed_scopes r \<noteq> []"
        "\<not> bad_scope [] (oa_allowed_scopes r)"
    by (auto simp: OAuthRecipe_validate_def try_r_Inr_iff split: if_split_asm)
  have e: "up v = Inr u \<and> u_scheme u = ''https'' \<and> u_username u = [] \<and> u_password u = None
      \<and> u_query u = None \<and> u_fragment u = None" if "oauth_parse_endpoint up v = Inr u" for v u
    using that by (auto simp: oauth_parse_endpoint_def try_r_Inr_iff split: if_split_asm)
  show ?thesis
    using e[OF ep(1)] e[OF ep(2)] orig red scopes unfolding bad_scope_iff
    by (intro exI[of _ a] exI[of _ t] exI[of _ d]) (simp add: list_all_iff)
qed

theorem oauth_recipe_validated_witness:
  "let r = \<lparr>oa_issuer = \<lparr>o_scheme = ''https'', o_host = ''idp.example'', o_port = 443\<rparr>,
            oa_authorization_endpoint = ''https://idp.example'', oa_token_endpoint = ''https://idp.example'',
            oa_client_id = ''client-1'', oa_redirect_uri = ''https://app.example'',
            oa_allowed_scopes = [''openid'', ''profile'']\<rparr>
   in OAuthRecipe_validate plain_url_parse r = Inr () \<and> distinct (oa_allowed_scopes r)"
proof -
  let ?r = "\<lparr>oa_issuer = \<lparr>o_scheme = ''https'', o_host = ''idp.example'', o_port = 443\<rparr>,
            oa_authorization_endpoint = ''https://idp.example'', oa_token_endpoint = ''https://idp.example'',
            oa_client_id = ''client-1'', oa_redirect_uri = ''https://app.example'',
            oa_allowed_scopes = [''openid'', ''profile'']\<rparr>"
  have v: "OAuthRecipe_validate plain_url_parse ?r = Inr ()"
    by (simp add: OAuthRecipe_validate_def oauth_parse_endpoint_def plain_url_parse_def plain_url_def
        origin_parse_def Let_def to_ascii_lowercase_def ascii_lower_def trim_is_empty_def chars_of_def
        is_whitespace_def default_port_def)
  from oauth_recipe_validated[OF v] have d: "distinct (oa_allowed_scopes ?r)" by (elim exE conjE)
  show ?thesis unfolding Let_def using v d by (rule conjI)
qed

end
