(* ===== verification/Policy.thy ===== *)
theory Policy
  imports Domain_Entities
begin

text \<open>
  The policy crate (\<open>secretctl-policy/src\<close>): the policy document (\<open>model.rs\<close>), the risk level of an
  action (\<open>risk.rs\<close>), the policy hash (\<open>hash.rs\<close>) and the evaluator (\<open>evaluator.rs\<close>).  SHA-256 and
  the JSON printer are arguments.

  \<open>policy_spec\<close> is the abstract reading of a document (a matching deny rule wins, otherwise the first
  matching allow rule, otherwise deny by default); \<open>evaluate_refines_spec\<close> shows that the loop of the
  evaluator computes it.
\<close>

section \<open>The document\<close>

record DestinationRule =
  ds_origin :: CanonicalOrigin
  ds_path_prefix :: "string option"

record RuleConditions =
  rc_browser_assurance :: "string option"
  rc_require_user_presence :: bool
  rc_max_uses :: u32
  rc_max_consume_ttl_seconds :: u64
  rc_max_execution_ttl_seconds :: u64

definition default_max_uses :: u32 where
  "default_max_uses = 1"

definition default_max_consume_ttl :: u64 where
  "default_max_consume_ttl = 30"

definition default_max_execution_ttl :: u64 where
  "default_max_execution_ttl = DEFAULT_EXECUTION_TTL_SECONDS"

record PolicyRule =
  pr_id :: RuleId
  pr_description :: "string option"
  pr_effect :: PolicyEffect
  pr_principals :: "string list"
  pr_credentials :: "string list"
  pr_actions :: "ActionKind list"
  pr_destinations :: "DestinationRule list"
  pr_conditions :: RuleConditions

record PolicyDocument =
  pdoc_version :: string
  pdoc_rules :: "PolicyRule list"

text \<open>
  What \<open>serde\<close> makes of the \<open>conditions\<close> of a rule.  A \<open>conditions\<close> object takes the attribute
  default for each field it omits; a rule that omits the whole object takes
  \<open>RuleConditions::default()\<close>, which is derived and therefore zero in every number.
\<close>

record ConditionsSource =
  cn_browser_assurance :: "string option"
  cn_require_user_presence :: "bool option"
  cn_max_uses :: "u32 option"
  cn_max_consume_ttl_seconds :: "u64 option"
  cn_max_execution_ttl_seconds :: "u64 option"

definition RuleConditions_default :: RuleConditions where
  "RuleConditions_default =
    \<lparr>rc_browser_assurance = None, rc_require_user_presence = False, rc_max_uses = 0,
     rc_max_consume_ttl_seconds = 0, rc_max_execution_ttl_seconds = 0\<rparr>"

definition conditions_deserialize :: "ConditionsSource option \<Rightarrow> RuleConditions" where
  "conditions_deserialize src =
    (case src of
       None \<Rightarrow> RuleConditions_default
     | Some c \<Rightarrow>
        \<lparr>rc_browser_assurance = cn_browser_assurance c,
         rc_require_user_presence = unwrap_or (cn_require_user_presence c) False,
         rc_max_uses = unwrap_or (cn_max_uses c) default_max_uses,
         rc_max_consume_ttl_seconds = unwrap_or (cn_max_consume_ttl_seconds c) default_max_consume_ttl,
         rc_max_execution_ttl_seconds = unwrap_or (cn_max_execution_ttl_seconds c) default_max_execution_ttl\<rparr>)"

section \<open>Risk and hash\<close>

definition calculate_risk_level :: "ActionKind \<Rightarrow> bool \<Rightarrow> string \<Rightarrow> RiskLevel" where
  "calculate_risk_level action require_user_presence browser_assurance =
    (if browser_assurance \<noteq> ''managed'' then Critical
     else if require_user_presence then High
     else case action of
       AuthenticatePassword \<Rightarrow> Medium
     | AuthenticateTotp \<Rightarrow> Medium
     | FormSensitiveFill \<Rightarrow> High
     | OAuthAuthorize \<Rightarrow> Low)"

definition compute_policy_hash :: "(bytes \<Rightarrow> bytes) \<Rightarrow> (PolicyDocument \<Rightarrow> bytes) \<Rightarrow> PolicyDocument \<Rightarrow> bytes" where
  "compute_policy_hash sha256 to_vec doc = sha256 (to_vec doc)"

section \<open>The evaluator\<close>

datatype PolicyError =
    PolicyParse string
  | InvalidVersion string
  | Evaluation string
  | DefaultDeny
  | PolicyOriginMismatch string
  | AssuranceInsufficient string string

record PolicyEvaluator =
  pe_document :: PolicyDocument
  pe_policy_hash :: bytes

definition PolicyEvaluator_new :: "(bytes \<Rightarrow> bytes) \<Rightarrow> (PolicyDocument \<Rightarrow> bytes) \<Rightarrow> PolicyDocument \<Rightarrow> PolicyEvaluator" where
  "PolicyEvaluator_new sha256 to_vec doc =
    \<lparr>pe_document = doc, pe_policy_hash = compute_policy_hash sha256 to_vec doc\<rparr>"

text \<open>What a request brings to the evaluator.\<close>

record PolicyQuery =
  q_agent_id :: AgentId
  q_credential_name :: string
  q_action :: ActionKind
  q_target_origin :: CanonicalOrigin
  q_path_prefix :: "string option"
  q_browser_assurance :: string

definition dest_match :: "PolicyQuery \<Rightarrow> DestinationRule \<Rightarrow> bool" where
  "dest_match q dest =
    (if \<not> origin_matches (ds_origin dest) (q_target_origin q) then False
     else case (q_path_prefix q, ds_path_prefix dest) of
       (Some req_path, Some rule_path) \<Rightarrow> starts_with req_path rule_path
     | (None, Some _) \<Rightarrow> False
     | (_, None) \<Rightarrow> True)"

text \<open>The guards of the loop body: a rule for which one of them fails is skipped by \<open>continue\<close>.\<close>

definition rule_match :: "PolicyQuery \<Rightarrow> PolicyRule \<Rightarrow> bool" where
  "rule_match q rule =
    (list_ex (\<lambda>p. p = ''*'' \<or> p = q_agent_id q) (pr_principals rule)
     \<and> list_ex (\<lambda>c. c = ''*'' \<or> c = q_credential_name q) (pr_credentials rule)
     \<and> List.member (pr_actions rule) (q_action q)
     \<and> list_ex (dest_match q) (pr_destinations rule)
     \<and> (case rc_browser_assurance (pr_conditions rule) of
          Some required_assurance \<Rightarrow> required_assurance = q_browser_assurance q
        | None \<Rightarrow> True))"

definition deny_decision :: "PolicyEvaluator \<Rightarrow> PolicyQuery \<Rightarrow> PolicyRule \<Rightarrow> PolicyDecision" where
  "deny_decision ev q rule =
    \<lparr>pd_effect = Deny,
     pd_risk_level = calculate_risk_level (q_action q) (rc_require_user_presence (pr_conditions rule))
                       (q_browser_assurance q),
     pd_rule_id = Some (pr_id rule), pd_policy_hash = pe_policy_hash ev, pd_require_user_presence = True,
     pd_max_uses = 0, pd_consume_ttl_seconds = 0, pd_execution_ttl_seconds = 0\<rparr>"

definition allow_decision :: "PolicyEvaluator \<Rightarrow> PolicyQuery \<Rightarrow> PolicyRule \<Rightarrow> PolicyDecision" where
  "allow_decision ev q rule =
    (let c = pr_conditions rule in
     \<lparr>pd_effect = Allow,
      pd_risk_level = calculate_risk_level (q_action q) (rc_require_user_presence c) (q_browser_assurance q),
      pd_rule_id = Some (pr_id rule), pd_policy_hash = pe_policy_hash ev,
      pd_require_user_presence = rc_require_user_presence c, pd_max_uses = rc_max_uses c,
      pd_consume_ttl_seconds = rc_max_consume_ttl_seconds c,
      pd_execution_ttl_seconds = rc_max_execution_ttl_seconds c\<rparr>)"

fun evaluate_rules ::
    "PolicyEvaluator \<Rightarrow> PolicyQuery \<Rightarrow> PolicyRule option \<Rightarrow> PolicyRule list \<Rightarrow> PolicyError + PolicyDecision" where
  "evaluate_rules ev q matched_allow_rule [] =
    (case matched_allow_rule of
       Some rule \<Rightarrow> Inr (allow_decision ev q rule)
     | None \<Rightarrow> Inl DefaultDeny)"
| "evaluate_rules ev q matched_allow_rule (rule # rules) =
    (if \<not> rule_match q rule then evaluate_rules ev q matched_allow_rule rules
     else if pr_effect rule = Deny then Inr (deny_decision ev q rule)
     else if pr_effect rule = Allow \<and> matched_allow_rule = None
     then evaluate_rules ev q (Some rule) rules
     else evaluate_rules ev q matched_allow_rule rules)"

definition evaluate :: "PolicyEvaluator \<Rightarrow> PolicyQuery \<Rightarrow> PolicyError + PolicyDecision" where
  "evaluate ev q = evaluate_rules ev q None (pdoc_rules (pe_document ev))"

section \<open>Specification and refinement\<close>

definition policy_spec :: "PolicyEvaluator \<Rightarrow> PolicyQuery \<Rightarrow> PolicyError + PolicyDecision" where
  "policy_spec ev q =
    (let ms = filter (rule_match q) (pdoc_rules (pe_document ev)) in
     case find (\<lambda>r. pr_effect r = Deny) ms of
       Some r \<Rightarrow> Inr (deny_decision ev q r)
     | None \<Rightarrow> (case ms of [] \<Rightarrow> Inl DefaultDeny | r # _ \<Rightarrow> Inr (allow_decision ev q r)))"

lemma evaluate_rules_spec:
  "evaluate_rules ev q acc rs =
    (case find (\<lambda>r. pr_effect r = Deny) (filter (rule_match q) rs) of
       Some r \<Rightarrow> Inr (deny_decision ev q r)
     | None \<Rightarrow> (case acc of
         Some r \<Rightarrow> Inr (allow_decision ev q r)
       | None \<Rightarrow> (case filter (rule_match q) rs of
           [] \<Rightarrow> Inl DefaultDeny | r # _ \<Rightarrow> Inr (allow_decision ev q r))))"
proof (induction rs arbitrary: acc)
  case Nil
  then show ?case by (simp split: option.split)
next
  case (Cons r rs)
  then show ?case
    by (cases "pr_effect r") (auto split: option.split list.split)
qed

lemma evaluate_eq_spec: "evaluate ev q = policy_spec ev q"
  by (simp add: evaluate_def policy_spec_def evaluate_rules_spec Let_def split: option.split)

lemma deny_decision_effect [simp]: "pd_effect (deny_decision ev q r) = Deny"
  by (simp add: deny_decision_def)

lemma allow_decision_effect [simp]: "pd_effect (allow_decision ev q r) = Allow"
  by (simp add: allow_decision_def Let_def)

text \<open>The effect of a decision, with the default made explicit.\<close>

definition effect_of :: "PolicyError + PolicyDecision \<Rightarrow> PolicyEffect" where
  "effect_of r = (case r of Inl _ \<Rightarrow> Deny | Inr d \<Rightarrow> pd_effect d)"

lemma evaluate_allows_iff:
  "effect_of (evaluate ev q) = Allow \<longleftrightarrow>
     (\<exists>r \<in> set (pdoc_rules (pe_document ev)). rule_match q r)
     \<and> (\<forall>r \<in> set (pdoc_rules (pe_document ev)). rule_match q r \<longrightarrow> pr_effect r = Allow)"
proof -
  let ?ms = "filter (rule_match q) (pdoc_rules (pe_document ev))"
  have alt: "pr_effect r = Allow \<longleftrightarrow> pr_effect r \<noteq> Deny" for r by (cases "pr_effect r") auto
  have "effect_of (evaluate ev q) = Allow \<longleftrightarrow> ?ms \<noteq> [] \<and> find (\<lambda>r. pr_effect r = Deny) ?ms = None"
    by (auto simp: evaluate_eq_spec policy_spec_def effect_of_def Let_def split: option.splits list.splits)
  also have "\<dots> \<longleftrightarrow> (\<exists>r \<in> set (pdoc_rules (pe_document ev)). rule_match q r)
     \<and> (\<forall>r \<in> set (pdoc_rules (pe_document ev)). rule_match q r \<longrightarrow> pr_effect r = Allow)"
    by (auto simp: find_None_iff alt filter_empty_conv)
  finally show ?thesis .
qed

lemma evaluate_allow_rule:
  assumes "evaluate ev q = Inr d" "pd_effect d = Allow"
  obtains r where "r \<in> set (pdoc_rules (pe_document ev))" "rule_match q r" "d = allow_decision ev q r"
proof -
  let ?ms = "filter (rule_match q) (pdoc_rules (pe_document ev))"
  from assms obtain r rs where "?ms = r # rs" "d = allow_decision ev q r"
    by (auto simp: evaluate_eq_spec policy_spec_def Let_def split: option.splits list.splits)
  moreover have "r \<in> set ?ms" unfolding \<open>?ms = r # rs\<close> by simp
  then have "r \<in> set (pdoc_rules (pe_document ev))" "rule_match q r" by simp_all
  ultimately show ?thesis using that by blast
qed

lemma evaluate_policy_hash: "evaluate ev q = Inr d \<Longrightarrow> pd_policy_hash d = pe_policy_hash ev"
  by (auto simp: evaluate_eq_spec policy_spec_def Let_def deny_decision_def allow_decision_def
      split: option.splits list.splits)

lemma dest_match_omit:
  "dest_match (q\<lparr>q_path_prefix := None\<rparr>) d \<Longrightarrow> dest_match (q\<lparr>q_path_prefix := Some p\<rparr>) d"
  by (auto simp: dest_match_def split: option.splits if_splits)

lemma rule_match_omit:
  "rule_match (q\<lparr>q_path_prefix := None\<rparr>) r \<Longrightarrow> rule_match (q\<lparr>q_path_prefix := Some p\<rparr>) r"
  unfolding rule_match_def using dest_match_omit by (auto simp: list_ex_iff split: option.splits)

section \<open>Properties\<close>

text \<open>
  C12.  The evaluator's loop computes the abstract reading of the document: a matching deny rule
  anywhere in it decides, before or after any allow rule; otherwise the first matching allow rule
  decides with its own limits; otherwise the request is denied by default.
\<close>

theorem evaluate_refines_spec: "evaluate ev q = policy_spec ev q"
  by (rule evaluate_eq_spec)

text \<open>
  A request is allowed exactly when some rule matches and every rule that matches is an allow
  rule.  So the verdict does not depend on the order or the multiplicity of the rules, and adding a
  deny rule never turns a denial into an allowance.
\<close>

theorem evaluate_order_independent:
  "(effect_of (evaluate ev q) = Allow \<longleftrightarrow>
     (\<exists>r \<in> set (pdoc_rules (pe_document ev)). rule_match q r)
     \<and> (\<forall>r \<in> set (pdoc_rules (pe_document ev)). rule_match q r \<longrightarrow> pr_effect r = Allow))
   \<and> (set (pdoc_rules (pe_document ev')) = set (pdoc_rules (pe_document ev))
       \<longrightarrow> effect_of (evaluate ev' q) = effect_of (evaluate ev q))
   \<and> (pr_effect x = Deny \<longrightarrow> set (pdoc_rules (pe_document ev')) = insert x (set (pdoc_rules (pe_document ev)))
       \<longrightarrow> effect_of (evaluate ev' q) = Allow \<longrightarrow> effect_of (evaluate ev q) = Allow)"
proof -
  have two: "a = b" if "(a = Allow) = (b = Allow)" for a b using that by (cases a; cases b) auto
  show ?thesis
  proof (intro conjI impI)
    assume eq: "set (pdoc_rules (pe_document ev')) = set (pdoc_rules (pe_document ev))"
    show "effect_of (evaluate ev' q) = effect_of (evaluate ev q)"
      by (rule two) (simp only: evaluate_allows_iff eq)
  next
    assume x: "pr_effect x = Deny"
      and eq: "set (pdoc_rules (pe_document ev')) = insert x (set (pdoc_rules (pe_document ev)))"
      and a: "effect_of (evaluate ev' q) = Allow"
    have "\<not> rule_match q x" using a x unfolding evaluate_allows_iff eq by auto
    then show "effect_of (evaluate ev q) = Allow" using a unfolding evaluate_allows_iff eq by auto
  qed (rule evaluate_allows_iff)
qed

definition sample_rule :: "PolicyEffect \<Rightarrow> PolicyRule" where
  "sample_rule e =
    \<lparr>pr_id = ''rule_1'', pr_description = None, pr_effect = e, pr_principals = [''*''],
     pr_credentials = [''github''], pr_actions = [AuthenticatePassword],
     pr_destinations = [\<lparr>ds_origin = \<lparr>o_scheme = ''https'', o_host = ''h'', o_port = 443\<rparr>, ds_path_prefix = Some ''/login''\<rparr>],
     pr_conditions = conditions_deserialize (Some \<lparr>cn_browser_assurance = Some ''managed'',
       cn_require_user_presence = None, cn_max_uses = None, cn_max_consume_ttl_seconds = None,
       cn_max_execution_ttl_seconds = None\<rparr>)\<rparr>"

definition sample_evaluator :: "PolicyRule list \<Rightarrow> PolicyEvaluator" where
  "sample_evaluator rs = \<lparr>pe_document = \<lparr>pdoc_version = ''1'', pdoc_rules = rs\<rparr>, pe_policy_hash = [1]\<rparr>"

definition sample_query :: "string option \<Rightarrow> PolicyQuery" where
  "sample_query p =
    \<lparr>q_agent_id = ''agent_1'', q_credential_name = ''github'', q_action = AuthenticatePassword,
     q_target_origin = \<lparr>o_scheme = ''https'', o_host = ''h'', o_port = 443\<rparr>, q_path_prefix = p,
     q_browser_assurance = ''managed''\<rparr>"

theorem evaluate_order_independent_witness:
  "effect_of (evaluate (sample_evaluator [sample_rule Allow, sample_rule Deny]) (sample_query (Some ''/login''))) = Deny
   \<and> effect_of (evaluate (sample_evaluator [sample_rule Deny, sample_rule Allow]) (sample_query (Some ''/login'')))
     = effect_of (evaluate (sample_evaluator [sample_rule Allow, sample_rule Deny]) (sample_query (Some ''/login'')))"
proof -
  have "effect_of (evaluate (sample_evaluator [sample_rule Allow, sample_rule Deny]) (sample_query (Some ''/login''))) = Deny"
    by code_simp
  moreover have "effect_of (evaluate (sample_evaluator [sample_rule Deny, sample_rule Allow]) (sample_query (Some ''/login'')))
     = effect_of (evaluate (sample_evaluator [sample_rule Allow, sample_rule Deny]) (sample_query (Some ''/login'')))"
    using evaluate_order_independent[of "sample_evaluator [sample_rule Allow, sample_rule Deny]"
        "sample_query (Some ''/login'')" "sample_evaluator [sample_rule Deny, sample_rule Allow]"]
    by (auto simp: sample_evaluator_def)
  ultimately show ?thesis by blast
qed

text \<open>
  Leaving the path out of a request never broadens what a rule matches: a rule that names a
  path prefix does not match a request without a path, and every rule that matches a request
  without a path also matches the same request with any path.
\<close>

theorem path_omission_never_broadens:
  assumes "rule_match (q\<lparr>q_path_prefix := None\<rparr>) r"
  shows "rule_match (q\<lparr>q_path_prefix := Some p\<rparr>) r
     \<and> (\<exists>d \<in> set (pr_destinations r). ds_path_prefix d = None \<and> ds_origin d = q_target_origin q)"
proof
  show "rule_match (q\<lparr>q_path_prefix := Some p\<rparr>) r" using assms by (rule rule_match_omit)
  show "\<exists>d \<in> set (pr_destinations r). ds_path_prefix d = None \<and> ds_origin d = q_target_origin q"
    using assms by (auto simp: rule_match_def dest_match_def list_ex_iff split: option.splits if_splits)
qed

definition sample_open_rule :: PolicyRule where
  "sample_open_rule = (sample_rule Allow)\<lparr>pr_destinations :=
     [\<lparr>ds_origin = \<lparr>o_scheme = ''https'', o_host = ''h'', o_port = 443\<rparr>, ds_path_prefix = None\<rparr>]\<rparr>"

theorem path_omission_never_broadens_witness:
  "rule_match ((sample_query None)\<lparr>q_path_prefix := None\<rparr>) sample_open_rule
   \<and> rule_match ((sample_query None)\<lparr>q_path_prefix := Some ''/x''\<rparr>) sample_open_rule
   \<and> \<not> rule_match (sample_query None) (sample_rule Allow)"
proof -
  have m: "rule_match ((sample_query None)\<lparr>q_path_prefix := None\<rparr>) sample_open_rule" by code_simp
  have n: "\<not> rule_match (sample_query None) (sample_rule Allow)" by code_simp
  show ?thesis using m n path_omission_never_broadens[OF m, of "''/x''"] by blast
qed

text \<open>
  A rule written without a \<open>conditions\<close> block gets the derived default, with zero uses and a
  zero release window, although the field defaults, which an empty block gets, are one use, 30 and
  120 seconds.
\<close>

theorem omitted_conditions_are_zero:
  "conditions_deserialize None \<noteq> conditions_deserialize (Some \<lparr>cn_browser_assurance = None,
       cn_require_user_presence = None, cn_max_uses = None, cn_max_consume_ttl_seconds = None,
       cn_max_execution_ttl_seconds = None\<rparr>)
   \<and> rc_max_uses (conditions_deserialize None) = 0
   \<and> rc_max_consume_ttl_seconds (conditions_deserialize None) = 0
   \<and> rc_max_execution_ttl_seconds (conditions_deserialize None) = 0"
  by (simp add: conditions_deserialize_def RuleConditions_default_def unwrap_or_def
      default_max_uses_def default_max_consume_ttl_def)

end
