(* ===== verification/Crypto.thy ===== *)
theory Crypto
  imports Prelude
begin

text \<open>
  The crypto crate (\<open>secretctl-crypto/src\<close>): framed context digests (\<open>hash.rs\<close>), signature checks
  (\<open>keys.rs\<close>), the two-way secure channel with its checked nonce counters (\<open>channel.rs\<close>), time-based
  one-time passwords (\<open>totp.rs\<close>) and redaction (\<open>redact.rs\<close>).

  The primitives come from other crates and are arguments: SHA-256, HMAC-SHA1, HKDF, the AEAD cipher
  and Ed25519.  The laws the code relies on are the predicates \<open>aead_laws\<close> and \<open>ed25519_laws\<close>.
\<close>

unbundle bit_operations_syntax

datatype CryptoError =
    KeyGeneration string
  | Signature string
  | DecryptionFailed
  | EncryptionFailed string
  | InvalidKeyLength nat nat
  | InvalidNonce string
  | SessionExpired

section \<open>Digests of framed components\<close>

text \<open>\<open>(item.len() as u64).to_be_bytes()\<close>, then the item.\<close>

definition framed :: "bytes list \<Rightarrow> bytes" where
  "framed components = concat (map (\<lambda>item. be_encode 8 (length item) @ item) components)"

definition compute_context_digest :: "(bytes \<Rightarrow> bytes) \<Rightarrow> bytes list \<Rightarrow> bytes" where
  "compute_context_digest sha256 components = sha256 (framed components)"

lemma framed_Nil [simp]: "framed [] = []"
  by (simp add: framed_def)

lemma framed_Cons [simp]: "framed (x # xs) = be_encode 8 (length x) @ x @ framed xs"
  by (simp add: framed_def)

definition fits_u64 :: "bytes list \<Rightarrow> bool" where
  "fits_u64 xs = list_all (\<lambda>x. length x < 2 ^ 64) xs"

lemma framed_inject:
  "fits_u64 xs \<Longrightarrow> fits_u64 ys \<Longrightarrow> framed xs = framed ys \<Longrightarrow> xs = ys"
proof (induction xs arbitrary: ys)
  case Nil
  then show ?case by (cases ys) (auto dest: arg_cong[where f = length])
next
  case (Cons x xs)
  then obtain y ys' where ys: "ys = y # ys'"
    by (cases ys) (auto dest: arg_cong[where f = length])
  with Cons.prems(3) have "be_encode 8 (length x) @ (x @ framed xs) = be_encode 8 (length y) @ (y @ framed ys')"
    by simp
  then have hd: "be_encode 8 (length x) = be_encode 8 (length y)" and tl: "x @ framed xs = y @ framed ys'"
    by (simp_all add: append_eq_append_conv)
  have "length x < 256 ^ 8" "length y < 256 ^ 8"
    using Cons.prems ys by (simp_all add: fits_u64_def)
  then have "length x = length y" using hd by (rule be_encode_inject)
  with tl have "x = y" "framed xs = framed ys'" by simp_all
  then show ?case using Cons ys by (simp add: fits_u64_def)
qed

section \<open>Keys and signatures\<close>

record ed25519 =
  ed_public :: "bytes \<Rightarrow> bytes"
  ed_sign :: "bytes \<Rightarrow> bytes \<Rightarrow> bytes"
  ed_verify :: "bytes \<Rightarrow> bytes \<Rightarrow> bytes \<Rightarrow> string + unit"

text \<open>
  \<open>ed_verify\<close> stands for \<open>VerifyingKey::from_bytes\<close> followed by \<open>verify\<close>.  The laws: public keys
  have 32 bytes, signatures 64, and a signature verifies under the signer's public key.
\<close>

definition ed25519_laws :: "ed25519 \<Rightarrow> bool" where
  "ed25519_laws E = (\<forall>k m. length (ed_public E k) = 32 \<and> length (ed_sign E k m) = 64
      \<and> ed_verify E (ed_public E k) m (ed_sign E k m) = Inr ())"

definition KeyPair_from_bytes :: "bytes \<Rightarrow> CryptoError + bytes" where
  "KeyPair_from_bytes bs = (if length bs \<noteq> 32 then Inl (InvalidKeyLength 32 (length bs)) else Inr bs)"

definition verify_signature :: "ed25519 \<Rightarrow> bytes \<Rightarrow> bytes \<Rightarrow> bytes \<Rightarrow> CryptoError + unit" where
  "verify_signature E public_key_bytes message signature_bytes =
    (if length public_key_bytes \<noteq> 32 then Inl (InvalidKeyLength 32 (length public_key_bytes))
     else if length signature_bytes \<noteq> 64 then Inl (InvalidKeyLength 64 (length signature_bytes))
     else map_err Signature (ed_verify E public_key_bytes message signature_bytes))"

lemma verify_signature_sign [simp]:
  "ed25519_laws E \<Longrightarrow> verify_signature E (ed_public E k) m (ed_sign E k m) = Inr ()"
  by (simp add: verify_signature_def ed25519_laws_def)

lemma verify_signature_ok:
  "verify_signature E pk m sig = Inr () \<longleftrightarrow>
     length pk = 32 \<and> length sig = 64 \<and> ed_verify E pk m sig = Inr ()"
  by (auto simp: verify_signature_def)

text \<open>A signature scheme without secrecy that satisfies the laws; the parameter of the witnesses.\<close>

definition plain_signature :: "bytes \<Rightarrow> bytes \<Rightarrow> bytes" where
  "plain_signature pk m = take 64 (pk @ m @ replicate 64 0)"

definition plain_ed25519 :: ed25519 where
  "plain_ed25519 =
    \<lparr>ed_public = (\<lambda>k. take 32 (k @ replicate 32 0)),
     ed_sign = (\<lambda>k m. plain_signature (take 32 (k @ replicate 32 0)) m),
     ed_verify = (\<lambda>pk m sig. if sig = plain_signature pk m then Inr () else Inl ''signature'')\<rparr>"

lemma plain_ed25519_laws: "ed25519_laws plain_ed25519"
proof -
  have "length (take n (xs @ replicate n 0)) = n" for n and xs :: bytes by simp
  moreover have "length (plain_signature pk m) = 64" for pk m by (simp add: plain_signature_def)
  ultimately show ?thesis by (simp add: ed25519_laws_def plain_ed25519_def)
qed

section \<open>Base64\<close>

text \<open>The URL-safe, unpadded engine of the \<open>base64\<close> crate, and the law the code relies on.\<close>

record base64 =
  b64_encode :: "bytes \<Rightarrow> string"
  b64_decode :: "string \<Rightarrow> string + bytes"

definition base64_laws :: "base64 \<Rightarrow> bool" where
  "base64_laws B = (\<forall>x. b64_decode B (b64_encode B x) = Inr x)"

definition plain_base64 :: base64 where
  "plain_base64 = \<lparr>b64_encode = map (\<lambda>b. char_of (unat b)), b64_decode = (\<lambda>s. Inr (as_bytes s))\<rparr>"

lemma plain_base64_laws: "base64_laws plain_base64"
proof -
  have "(of_char (char_of (unat b) :: char) :: byte) = b" for b :: byte
  proof -
    have "(of_char (char_of (unat b) :: char) :: byte) = of_nat (of_char (char_of (unat b) :: char) :: nat)"
      by (simp only: of_nat_of_char)
    also have "(of_char (char_of (unat b) :: char) :: nat) = unat b"
      using unsigned_less[of b, where ?'a = nat] by (simp add: of_char_of)
    also have "of_nat (unat b) = b" by simp
    finally show ?thesis .
  qed
  then show ?thesis by (simp add: base64_laws_def plain_base64_def as_bytes_def comp_def)
qed

section \<open>The secure channel\<close>

record aead =
  seal :: "bytes \<Rightarrow> bytes \<Rightarrow> bytes \<Rightarrow> string + bytes"
  unseal :: "bytes \<Rightarrow> bytes \<Rightarrow> bytes \<Rightarrow> bytes option"

text \<open>
  The laws of the cipher.  Opening a ciphertext with the key and nonce it was sealed with gives the
  plaintext, and a ciphertext that opens is the one that sealing its plaintext gives (ChaCha20-Poly1305
  is deterministic and checks the whole ciphertext).  \<open>nonce_binding\<close> is the idealisation of its
  authenticity that replay protection needs: a ciphertext sealed under one nonce is not sealed under
  another.
\<close>

definition aead_laws :: "aead \<Rightarrow> bool" where
  "aead_laws A = (\<forall>k n p c. seal A k n p = Inr c \<longleftrightarrow> unseal A k n c = Some p)"

definition nonce_binding :: "aead \<Rightarrow> bool" where
  "nonce_binding A = (\<forall>k n n' p p' c. seal A k n p = Inr c \<longrightarrow> seal A k n' p' = Inr c \<longrightarrow> n = n')"

record SecureChannel =
  tx_key :: bytes
  rx_key :: bytes
  tx_nonce :: u64
  rx_nonce :: u64

definition derive_directional_keys ::
    "(bytes \<Rightarrow> bytes \<Rightarrow> bytes \<Rightarrow> bytes) \<Rightarrow> bytes \<Rightarrow> bytes \<Rightarrow> bytes \<Rightarrow> bytes \<times> bytes" where
  "derive_directional_keys hkdf shared_secret salt info =
    (let okm = hkdf salt shared_secret info in (take 32 okm, take 32 (drop 32 okm)))"

definition new_client ::
    "(bytes \<Rightarrow> bytes \<Rightarrow> bytes \<Rightarrow> bytes) \<Rightarrow> bytes \<Rightarrow> bytes \<Rightarrow> bytes \<Rightarrow> SecureChannel" where
  "new_client hkdf shared_secret salt info =
    (let (tx, rx) = derive_directional_keys hkdf shared_secret salt info
     in \<lparr>tx_key = tx, rx_key = rx, tx_nonce = 0, rx_nonce = 0\<rparr>)"

definition new_server ::
    "(bytes \<Rightarrow> bytes \<Rightarrow> bytes \<Rightarrow> bytes) \<Rightarrow> bytes \<Rightarrow> bytes \<Rightarrow> bytes \<Rightarrow> SecureChannel" where
  "new_server hkdf shared_secret salt info =
    (let (client_tx, client_rx) = derive_directional_keys hkdf shared_secret salt info
     in \<lparr>tx_key = client_rx, rx_key = client_tx, tx_nonce = 0, rx_nonce = 0\<rparr>)"

definition format_nonce :: "u64 \<Rightarrow> bytes" where
  "format_nonce counter = replicate 4 0 @ be_encode 8 (unat counter)"

definition checked_succ :: "u64 \<Rightarrow> u64 option" where
  "checked_succ n = (if n = - 1 then None else Some (n + 1))"

definition encrypt :: "aead \<Rightarrow> SecureChannel \<Rightarrow> bytes \<Rightarrow> (CryptoError + bytes) \<times> SecureChannel" where
  "encrypt A ch plaintext =
    (let nonce = format_nonce (tx_nonce ch) in
     case checked_succ (tx_nonce ch) of
       None \<Rightarrow> (Inl SessionExpired, ch)
     | Some n \<Rightarrow> (map_err EncryptionFailed (seal A (tx_key ch) nonce plaintext), ch\<lparr>tx_nonce := n\<rparr>))"

definition decrypt :: "aead \<Rightarrow> SecureChannel \<Rightarrow> bytes \<Rightarrow> (CryptoError + bytes) \<times> SecureChannel" where
  "decrypt A ch ciphertext =
    (let nonce = format_nonce (rx_nonce ch) in
     case unseal A (rx_key ch) nonce ciphertext of
       None \<Rightarrow> (Inl DecryptionFailed, ch)
     | Some plaintext \<Rightarrow>
        (case checked_succ (rx_nonce ch) of
           None \<Rightarrow> (Inl SessionExpired, ch)
         | Some n \<Rightarrow> (Inr plaintext, ch\<lparr>rx_nonce := n\<rparr>)))"

text \<open>A sender that encrypts a list of messages, and a receiver that decrypts a list of ciphertexts;
  each stops at its first error.\<close>

fun encrypt_all :: "aead \<Rightarrow> SecureChannel \<Rightarrow> bytes list \<Rightarrow> (CryptoError + bytes list) \<times> SecureChannel" where
  "encrypt_all A ch [] = (Inr [], ch)"
| "encrypt_all A ch (p # ps) =
    (case encrypt A ch p of
       (Inl e, ch') \<Rightarrow> (Inl e, ch')
     | (Inr c, ch') \<Rightarrow> (case encrypt_all A ch' ps of
         (Inl e, ch'') \<Rightarrow> (Inl e, ch'')
       | (Inr cs, ch'') \<Rightarrow> (Inr (c # cs), ch'')))"

fun decrypt_all :: "aead \<Rightarrow> SecureChannel \<Rightarrow> bytes list \<Rightarrow> (CryptoError + bytes list) \<times> SecureChannel" where
  "decrypt_all A ch [] = (Inr [], ch)"
| "decrypt_all A ch (c # cs) =
    (case decrypt A ch c of
       (Inl e, ch') \<Rightarrow> (Inl e, ch')
     | (Inr p, ch') \<Rightarrow> (case decrypt_all A ch' cs of
         (Inl e, ch'') \<Rightarrow> (Inl e, ch'')
       | (Inr ps, ch'') \<Rightarrow> (Inr (p # ps), ch'')))"

lemma format_nonce_inject [simp]: "format_nonce m = format_nonce n \<longleftrightarrow> m = n"
proof
  assume "format_nonce m = format_nonce n"
  then have "be_encode 8 (unat m) = be_encode 8 (unat n)" by (simp add: format_nonce_def)
  moreover have "unat m < 256 ^ 8" "unat n < 256 ^ 8"
    using unsigned_less[of m, where ?'a = nat] unsigned_less[of n, where ?'a = nat] by simp_all
  ultimately have "unat m = unat n" by (metis be_encode_inject)
  then show "m = n" by (simp add: word_unat_eq_iff)
qed simp

lemma checked_succ_Some: "checked_succ n = Some m \<longleftrightarrow> n \<noteq> - 1 \<and> m = n + 1"
  by (auto simp: checked_succ_def)

lemma checked_succ_unat: "checked_succ n = Some m \<Longrightarrow> unat m = Suc (unat n)"
proof -
  assume "checked_succ n = Some m"
  then have "m = 1 + n" and ne: "n \<noteq> - 1" by (simp_all add: checked_succ_Some)
  moreover have "1 + n \<noteq> 0" using ne by (metis add_eq_0_iff)
  ultimately show ?thesis by (simp add: unatSuc)
qed

definition in_step :: "SecureChannel \<Rightarrow> SecureChannel \<Rightarrow> bool" where
  "in_step s r = (tx_key s = rx_key r \<and> tx_nonce s = rx_nonce r)"

lemma encrypt_ok:
  assumes "encrypt A ch p = (Inr c, ch')"
  shows "seal A (tx_key ch) (format_nonce (tx_nonce ch)) p = Inr c"
    "checked_succ (tx_nonce ch) = Some (tx_nonce ch')" "tx_key ch' = tx_key ch" "rx_key ch' = rx_key ch"
    "rx_nonce ch' = rx_nonce ch"
  using assms by (auto simp: encrypt_def Let_def split: option.splits)

lemma encrypt_decrypt_step:
  assumes "aead_laws A" "in_step s r" "encrypt A s p = (Inr c, s')"
  shows "\<exists>r'. decrypt A r c = (Inr p, r') \<and> in_step s' r'"
proof -
  note e = encrypt_ok[OF assms(3)]
  have "unseal A (rx_key r) (format_nonce (rx_nonce r)) c = Some p"
    using assms(1,2) e(1) by (simp add: aead_laws_def in_step_def)
  moreover have "checked_succ (rx_nonce r) = Some (tx_nonce s')"
    using assms(2) e(2) by (simp add: in_step_def)
  ultimately show ?thesis
    using assms(2) e(3) by (simp add: decrypt_def in_step_def)
qed

lemma encrypt_decrypt_all:
  "aead_laws A \<Longrightarrow> in_step s r \<Longrightarrow> encrypt_all A s ps = (Inr cs, s')
   \<Longrightarrow> \<exists>r'. decrypt_all A r cs = (Inr ps, r') \<and> in_step s' r'"
proof (induction ps arbitrary: s r cs)
  case Nil
  then show ?case by simp
next
  case (Cons p ps)
  from Cons.prems(3) obtain c s1 cs1 where e: "encrypt A s p = (Inr c, s1)"
    "encrypt_all A s1 ps = (Inr cs1, s')" "cs = c # cs1"
    by (auto split: prod.splits sum.splits)
  from encrypt_decrypt_step[OF Cons.prems(1,2) e(1)] obtain r1 where
    r1: "decrypt A r c = (Inr p, r1)" "in_step s1 r1" by blast
  from Cons.IH[OF Cons.prems(1) r1(2) e(2)] r1(1) e(3) show ?case by auto
qed

text \<open>The nonces that a run of the sender hands to the cipher.\<close>

fun nonces_used :: "aead \<Rightarrow> SecureChannel \<Rightarrow> bytes list \<Rightarrow> u64 list" where
  "nonces_used A ch [] = []"
| "nonces_used A ch (p # ps) =
    (case checked_succ (tx_nonce ch) of
       None \<Rightarrow> nonces_used A ch ps
     | Some _ \<Rightarrow> tx_nonce ch # nonces_used A (snd (encrypt A ch p)) ps)"

lemma nonces_used_bound:
  "n \<in> set (nonces_used A ch ps) \<Longrightarrow> unat (tx_nonce ch) \<le> unat n \<and> n \<noteq> - 1"
proof (induction ps arbitrary: ch)
  case Nil
  then show ?case by simp
next
  case (Cons p ps)
  show ?case
  proof (cases "checked_succ (tx_nonce ch)")
    case None
    then show ?thesis using Cons by simp
  next
    case (Some m)
    then have "tx_nonce (snd (encrypt A ch p)) = m" by (simp add: encrypt_def Let_def)
    then show ?thesis
      using Cons.IH[of "snd (encrypt A ch p)"] Cons.prems Some checked_succ_unat[OF Some]
      by (auto simp: checked_succ_Some)
  qed
qed

lemma nonces_used_distinct: "distinct (nonces_used A ch ps)"
proof (induction ps arbitrary: ch)
  case Nil
  then show ?case by simp
next
  case (Cons p ps)
  show ?case
  proof (cases "checked_succ (tx_nonce ch)")
    case None
    then show ?thesis using Cons by simp
  next
    case (Some m)
    then have "tx_nonce (snd (encrypt A ch p)) = m" by (simp add: encrypt_def Let_def)
    then show ?thesis
      using Some Cons nonces_used_bound[of "tx_nonce ch" A "snd (encrypt A ch p)" ps]
        checked_succ_unat[OF Some] by auto
  qed
qed

section \<open>One-time passwords\<close>

record TotpGenerator =
  period_seconds :: u64
  digits :: u32

definition TotpGenerator_new :: TotpGenerator where
  "TotpGenerator_new = \<lparr>period_seconds = 30, digits = 6\<rparr>"

definition with_digits :: "u32 \<Rightarrow> TotpGenerator" where
  "with_digits d = \<lparr>period_seconds = 30, digits = d\<rparr>"

definition with_period_seconds :: "TotpGenerator \<Rightarrow> u64 \<Rightarrow> TotpGenerator" where
  "with_period_seconds g p = g\<lparr>period_seconds := p\<rparr>"

text \<open>
  \<open>compute_time_step\<close> divides by the period, which panics when it is zero; \<open>10u32.pow(digits)\<close>
  overflows, and the remainder then panics or wraps, for more than nine digits; indexing panics past
  the end of the MAC.  \<open>None\<close> stands for those cases.
\<close>

definition compute_time_step :: "TotpGenerator \<Rightarrow> u64 \<Rightarrow> (u64 \<times> u64) option" where
  "compute_time_step g unix_time_seconds =
    (if period_seconds g = 0 then None
     else Some (unix_time_seconds div period_seconds g,
                period_seconds g - unix_time_seconds mod period_seconds g))"

definition checked_pow10 :: "u32 \<Rightarrow> u32 option" where
  "checked_pow10 d = (if unat d \<le> 9 then Some (10 ^ unat d) else None)"

definition truncate_u32 :: "byte \<Rightarrow> byte \<Rightarrow> byte \<Rightarrow> byte \<Rightarrow> u32" where
  "truncate_u32 a b c d =
    push_bit 24 (ucast a AND 0x7f) OR push_bit 16 (ucast b AND 0xff) OR push_bit 8 (ucast c AND 0xff)
    OR (ucast d AND 0xff)"

definition dynamic_truncation :: "bytes \<Rightarrow> u32 option" where
  "dynamic_truncation result =
    (if length result \<le> 19 then None
     else let offset = unat (result ! 19 AND 0x0f) in
     if length result \<le> offset + 3 then None
     else Some (truncate_u32 (result ! offset) (result ! (offset + 1)) (result ! (offset + 2))
                  (result ! (offset + 3))))"

definition pad_zero :: "nat \<Rightarrow> string \<Rightarrow> string" where
  "pad_zero width s = replicate (width - length s) (CHR ''0'') @ s"

definition totp_generate ::
    "(bytes \<Rightarrow> bytes \<Rightarrow> bytes) \<Rightarrow> TotpGenerator \<Rightarrow> bytes \<Rightarrow> u64 \<Rightarrow> (CryptoError + string \<times> u64) option" where
  "totp_generate hmac_sha1 g seed unix_time_seconds =
    (case compute_time_step g unix_time_seconds of
       None \<Rightarrow> None
     | Some (time_step, seconds_remaining) \<Rightarrow>
        (if seconds_remaining < 2 then Some (Inl SessionExpired)
         else case dynamic_truncation (hmac_sha1 seed (be_encode 8 (unat time_step))) of
           None \<Rightarrow> None
         | Some binary \<Rightarrow>
            (case checked_pow10 (digits g) of
               None \<Rightarrow> None
             | Some modulus \<Rightarrow>
                Some (Inr (pad_zero (unat (digits g)) (show_nat (unat (binary mod modulus))), time_step)))))"

text \<open>The truncation of RFC 4226: four bytes at the offset, big-endian, modulo $2^{31}$.\<close>

definition rfc4226_truncation :: "bytes \<Rightarrow> nat" where
  "rfc4226_truncation mac = be_decode (take 4 (drop (unat (mac ! 19) mod 16) mac)) mod 2 ^ 31"

lemma byte_lt_256: "unat (b :: byte) < 256"
  using unsigned_less[of b, where ?'a = nat] by simp

lemma unat_ucast_byte [simp]: "unat (ucast (b :: byte) :: u32) = unat b"
  using byte_lt_256[of b] by (simp add: unsigned_ucast_eq take_bit_eq_mod)

lemma nat_or_add: "y < 2 ^ n \<Longrightarrow> push_bit n x OR y = x * 2 ^ n + (y :: nat)"
proof -
  assume y: "y < 2 ^ n"
  have "push_bit n x AND y = 0"
  proof (rule bit_eqI)
    fix m
    have "\<not> bit y m" if "n \<le> m" using y that
      by (metis take_bit_nat_eq_self_iff bit_take_bit_iff linorder_not_less)
    then show "bit (push_bit n x AND y) m = bit 0 m" by (auto simp: bit_simps)
  qed
  then show ?thesis by (simp add: disjunctive_add_eq_or[symmetric] push_bit_eq_mult)
qed

lemma and_mask_nat:
  "a AND 15 = (a :: nat) mod 16" "a AND 127 = (a :: nat) mod 128" "a AND 255 = (a :: nat) mod 256"
  using take_bit_eq_mask[of 4 a] take_bit_eq_mask[of 7 a] take_bit_eq_mask[of 8 a]
  by (simp_all add: mask_eq_exp_minus_1 take_bit_eq_mod)

lemma unat_push_bit:
  "unat w * 2 ^ n < 2 ^ 32 \<Longrightarrow> unat (push_bit n (w :: u32)) = push_bit n (unat w)"
  unfolding unsigned_push_bit_eq by (simp add: push_bit_eq_mult take_bit_eq_mod)

lemma be_decode_four:
  "be_decode [a, b, c, d] = unat a * 16777216 + (unat b * 65536 + (unat c * 256 + unat d))"
  by (simp add: be_decode_def)

lemma mod_two_31:
  "r < (16777216 :: nat) \<Longrightarrow> (a * 16777216 + r) mod 2147483648 = a mod 128 * 16777216 + r"
  using mod_mult2_eq[of "a * 16777216 + r" 16777216 128] by simp

lemma truncation_word: "unat (truncate_u32 a b c d) = be_decode [a, b, c, d] mod 2 ^ 31"
proof -
  note b = byte_lt_256[of a] byte_lt_256[of b] byte_lt_256[of c] byte_lt_256[of d]
  have m: "unat a mod 128 < 128" by simp
  show ?thesis
    using b m by (simp add: truncate_u32_def unsigned_or_eq unat_push_bit unsigned_and_eq and_mask_nat
        nat_or_add be_decode_four mod_two_31 del: push_bit_and)
qed

lemma take_four: "i + 3 < length xs \<Longrightarrow> take 4 (drop i xs) = [xs ! i, xs ! (i + 1), xs ! (i + 2), xs ! (i + 3)]"
  by (auto simp: list_eq_iff_nth_eq nth_Cons' numeral_eq_Suc less_Suc_eq)

lemma dynamic_truncation_rfc:
  assumes "length mac = 20"
  shows "\<exists>w. dynamic_truncation mac = Some w \<and> unat w = rfc4226_truncation mac"
proof -
  let ?o = "unat (mac ! 19) mod 16"
  have off: "unat (mac ! 19 AND 0x0f) = ?o" by (simp add: unsigned_and_eq and_mask_nat)
  have "?o + 3 < length mac" using assms by simp
  then show ?thesis
    unfolding dynamic_truncation_def rfc4226_truncation_def Let_def off using assms
    by (simp add: take_four truncation_word)
qed

lemma pow10_unat: "unat (d :: u32) \<le> 9 \<Longrightarrow> unat ((10 :: u32) ^ unat d) = 10 ^ unat d"
proof -
  assume d: "unat d \<le> 9"
  then have "(10 :: nat) ^ unat d \<le> 10 ^ 9" by (rule power_increasing) simp
  then have "(10 :: nat) ^ unat d < 2 ^ 32" by simp
  moreover have "(10 :: u32) ^ unat d = of_nat (10 ^ unat d)" by simp
  ultimately show ?thesis by (simp only: unsigned_of_nat take_bit_eq_mod) simp
qed

lemma length_show_nat_le: "n < 10 ^ k \<Longrightarrow> 0 < k \<Longrightarrow> length (show_nat n) \<le> k"
proof (induction k arbitrary: n)
  case 0
  then show ?case by simp
next
  case (Suc k)
  show ?case
  proof (cases "n < 10")
    case True
    then show ?thesis by (subst show_nat.simps) simp
  next
    case False
    then have "k \<noteq> 0" using Suc.prems by (cases k) auto
    moreover have "n div 10 < 10 ^ k" using Suc.prems by (simp add: less_mult_imp_div_less mult.commute)
    ultimately have "length (show_nat (n div 10)) \<le> k" using Suc.IH by simp
    then show ?thesis using False by (subst show_nat.simps) simp
  qed
qed

lemma digits_value_pad: "digits_value (pad_zero k s) = digits_value s"
proof -
  have z: "foldl (\<lambda>a c. a * 10 + (of_char c - 48)) 0 (replicate m (CHR ''0'')) = (0 :: nat)" for m
    by (induction m) auto
  show ?thesis by (simp add: digits_value_def pad_zero_def z)
qed

section \<open>Redaction\<close>

definition PROHIBITED_KEYS :: "string list" where
  "PROHIBITED_KEYS = [''password'', ''secret'', ''token'', ''cookie'', ''authorization'', ''totp_code'',
                      ''seed'', ''value'']"

definition contains_prohibited_key_name :: "string \<Rightarrow> bool" where
  "contains_prohibited_key_name key =
    (let lower = to_ascii_lowercase key in
     list_ex (\<lambda>prohibited.
       (lower = prohibited \<or> contains_str lower prohibited)
       \<and> \<not> (ends_with lower ''_id'' \<or> ends_with lower ''_hash'' \<or> ends_with lower ''_digest''
            \<or> ends_with lower ''_at'' \<or> ends_with lower ''_count'' \<or> ends_with lower ''_ms''
            \<or> ends_with lower ''_seconds'')) PROHIBITED_KEYS)"

text \<open>The loop with \<open>break\<close>: the first prohibited word found replaces the message.\<close>

fun sanitize_loop :: "string list \<Rightarrow> string \<Rightarrow> string" where
  "sanitize_loop [] sanitized = sanitized"
| "sanitize_loop (prohibited # rest) sanitized =
    (if contains_str (to_ascii_lowercase sanitized) prohibited then ''[REDACTED_SECURITY_ERROR]''
     else sanitize_loop rest sanitized)"

definition sanitize_error_message :: "string \<Rightarrow> string" where
  "sanitize_error_message message = sanitize_loop PROHIBITED_KEYS message"

lemma sanitize_loop_iff:
  "sanitize_loop ps m =
    (if \<exists>p \<in> set ps. contains_str (to_ascii_lowercase m) p then ''[REDACTED_SECURITY_ERROR]'' else m)"
  by (induction ps) auto

lemma redacted_marker_clean:
  "list_all (\<lambda>p. \<not> contains_str (to_ascii_lowercase ''[REDACTED_SECURITY_ERROR]'') p) PROHIBITED_KEYS"
  by code_simp

section \<open>A concrete cipher\<close>

text \<open>A cipher without secrecy that satisfies the laws; the parameter of the witnesses.\<close>

definition tagged_aead :: aead where
  "tagged_aead =
    \<lparr>seal = (\<lambda>k n p. if length n = 12 then Inr (n @ p) else Inl ''nonce''),
     unseal = (\<lambda>k n c. if length n = 12 \<and> 12 \<le> length c \<and> take 12 c = n then Some (drop 12 c) else None)\<rparr>"

lemma tagged_aead_laws: "aead_laws tagged_aead"
  unfolding aead_laws_def tagged_aead_def
  by (auto split: if_splits) (metis append_take_drop_id same_append_eq)

lemma tagged_aead_nonce_binding: "nonce_binding tagged_aead"
  by (auto simp: nonce_binding_def tagged_aead_def split: if_splits)

lemma fresh_channels_in_step:
  "in_step (new_client hkdf ss salt info) (new_server hkdf ss salt info)"
  "in_step (new_server hkdf ss salt info) (new_client hkdf ss salt info)"
  by (simp_all add: in_step_def new_client_def new_server_def split: prod.split)

section \<open>Properties\<close>

text \<open>
  A client and a server channel made from the same shared secret, salt and info carry every
  sequence of messages intact in both directions: whatever one side encrypts without error, the other
  side decrypts, in order, to the same messages.
\<close>

theorem channel_session_roundtrip:
  assumes "aead_laws A"
  shows "(encrypt_all A (new_client hkdf ss salt info) ps = (Inr cs, c')
           \<longrightarrow> fst (decrypt_all A (new_server hkdf ss salt info) cs) = Inr ps)
       \<and> (encrypt_all A (new_server hkdf ss salt info) ps = (Inr cs, c')
           \<longrightarrow> fst (decrypt_all A (new_client hkdf ss salt info) cs) = Inr ps)"
  using encrypt_decrypt_all[OF assms fresh_channels_in_step(1)]
    encrypt_decrypt_all[OF assms fresh_channels_in_step(2)]
  by (metis fst_conv)

theorem channel_session_roundtrip_witness:
  "let hkdf = (\<lambda>_ _ _. replicate 64 7);
       cs = [format_nonce 0 @ [1, 2], format_nonce 1 @ [3]]
   in fst (encrypt_all tagged_aead (new_client hkdf [] [] []) [[1, 2], [3]]) = Inr cs
    \<and> fst (decrypt_all tagged_aead (new_server hkdf [] [] []) cs) = Inr [[1, 2], [3]]"
proof -
  let ?h = "\<lambda>_ _ _. replicate 64 7" and ?cs = "[format_nonce 0 @ [1, 2], format_nonce 1 @ [3]]"
  let ?r = "encrypt_all tagged_aead (new_client ?h [] [] []) [[1, 2], [3]]"
  have e: "fst ?r = Inr ?cs"
    by (simp add: encrypt_def checked_succ_def new_client_def derive_directional_keys_def tagged_aead_def
        format_nonce_def)
  have "fst (decrypt_all tagged_aead (new_server ?h [] [] []) ?cs) = Inr [[1, 2], [3]]"
    using channel_session_roundtrip[OF tagged_aead_laws, of ?h "[]" "[]" "[]" "[[1, 2], [3]]" ?cs "snd ?r"] e
    by (metis prod.collapse)
  then show ?thesis using e by (simp add: Let_def)
qed

text \<open>
  No nonce is ever handed to the cipher twice by one channel, in any sequence of encryptions
  whether they succeed or not, and the counter stops with an error instead of wrapping at $2^{64}-1$.
  A ciphertext that was accepted once is rejected when it is replayed, and the rejection leaves the
  channel as it was.
\<close>

theorem channel_nonce_discipline:
  "distinct (nonces_used A ch ps)
   \<and> (tx_nonce ch = - 1 \<longrightarrow> encrypt A ch p = (Inl SessionExpired, ch))
   \<and> (aead_laws A \<longrightarrow> nonce_binding A \<longrightarrow> decrypt A ch c = (Inr p, ch')
        \<longrightarrow> decrypt A ch' c = (Inl DecryptionFailed, ch'))"
proof (intro conjI impI)
  show "distinct (nonces_used A ch ps)" by (rule nonces_used_distinct)
  show "tx_nonce ch = - 1 \<Longrightarrow> encrypt A ch p = (Inl SessionExpired, ch)"
    by (simp add: encrypt_def checked_succ_def Let_def)
  assume laws: "aead_laws A" "nonce_binding A" and d: "decrypt A ch c = (Inr p, ch')"
  then have op: "unseal A (rx_key ch) (format_nonce (rx_nonce ch)) c = Some p"
    and st: "checked_succ (rx_nonce ch) = Some (rx_nonce ch')" "rx_key ch' = rx_key ch"
    by (auto simp: decrypt_def Let_def split: option.splits)
  have "rx_nonce ch' \<noteq> rx_nonce ch" using checked_succ_unat[OF st(1)] by auto
  then have "unseal A (rx_key ch) (format_nonce (rx_nonce ch')) c = None"
    using laws op unfolding aead_laws_def nonce_binding_def
    by (metis format_nonce_inject option.exhaust)
  then show "decrypt A ch' c = (Inl DecryptionFailed, ch')" by (simp add: decrypt_def st(2))
qed

theorem channel_nonce_discipline_witness:
  "let ch = \<lparr>tx_key = [], rx_key = [], tx_nonce = 5, rx_nonce = 5\<rparr>; c = format_nonce 5 @ [9]
   in decrypt tagged_aead ch c = (Inr [9], ch\<lparr>rx_nonce := 6\<rparr>)
    \<and> decrypt tagged_aead (ch\<lparr>rx_nonce := 6\<rparr>) c = (Inl DecryptionFailed, ch\<lparr>rx_nonce := 6\<rparr>)"
proof -
  let ?ch = "\<lparr>tx_key = [], rx_key = [], tx_nonce = 5, rx_nonce = 5\<rparr>" and ?c = "format_nonce 5 @ [9]"
  have d: "decrypt tagged_aead ?ch ?c = (Inr [9], ?ch\<lparr>rx_nonce := 6\<rparr>)"
    by (simp add: decrypt_def checked_succ_def tagged_aead_def format_nonce_def)
  then show ?thesis
    using channel_nonce_discipline[of tagged_aead ?ch "[]" "[9]" ?c "?ch\<lparr>rx_nonce := 6\<rparr>"]
      tagged_aead_laws tagged_aead_nonce_binding
    by (simp add: Let_def)
qed

text \<open>
  For a period of at least one second, one to nine digits and a 20-byte MAC the generator never
  panics.  It refuses exactly when fewer than two seconds of the time step remain; otherwise the code
  is the RFC 4226 truncation of the MAC of the time step modulo a power of ten, printed with exactly
  the configured number of digits, and the step it reports is still the current one a second later.
\<close>

theorem totp_matches_rfc:
  assumes "0 < unat (period_seconds g)" and "0 < unat (digits g)" and "unat (digits g) \<le> 9"
    and "\<And>k m. length (hmac_sha1 k m) = 20"
  shows "let p = unat (period_seconds g); d = unat (digits g); step = unat t div p in
     if p - unat t mod p < 2 then totp_generate hmac_sha1 g seed t = Some (Inl SessionExpired)
     else \<exists>code. totp_generate hmac_sha1 g seed t = Some (Inr (code, of_nat step))
        \<and> length code = d
        \<and> digits_value code = rfc4226_truncation (hmac_sha1 seed (be_encode 8 step)) mod 10 ^ d
        \<and> (unat t + 1) div p = step"
proof -
  let ?p = "unat (period_seconds g)" and ?d = "unat (digits g)"
  let ?step = "unat t div ?p"
  have p0: "period_seconds g \<noteq> 0" using assms(1) by auto
  have ts: "t div period_seconds g = of_nat ?step" by (simp add: word_arith_nat_div)
  have us: "unat (t div period_seconds g) = ?step" by (simp add: unat_div)
  have le: "t mod period_seconds g \<le> period_seconds g"
    using assms(1) by (simp add: word_le_nat_alt unat_mod less_imp_le)
  have rem: "unat (period_seconds g - t mod period_seconds g) = ?p - unat t mod ?p"
    using le by (simp add: unat_sub unat_mod)
  have small: "period_seconds g - t mod period_seconds g < 2 \<longleftrightarrow> ?p - unat t mod ?p < 2"
    by (simp add: word_less_nat_alt rem)
  obtain w where w: "dynamic_truncation (hmac_sha1 seed (be_encode 8 ?step)) = Some w"
    "unat w = rfc4226_truncation (hmac_sha1 seed (be_encode 8 ?step))"
    using dynamic_truncation_rfc[OF assms(4)] by blast
  have md: "unat (w mod 10 ^ ?d) = unat w mod 10 ^ ?d"
    by (simp add: unat_mod pow10_unat[OF assms(3)])
  have len: "length (show_nat (unat w mod 10 ^ ?d)) \<le> ?d"
    using assms(2) by (intro length_show_nat_le) simp_all
  show ?thesis
  proof (cases "?p - unat t mod ?p < 2")
    case True
    then show ?thesis using p0 small by (simp add: totp_generate_def compute_time_step_def)
  next
    case False
    let ?code = "pad_zero ?d (show_nat (unat (w mod 10 ^ ?d)))"
    have gen: "totp_generate hmac_sha1 g seed t = Some (Inr (?code, of_nat ?step))"
      using p0 False small assms(3)
      by (simp add: totp_generate_def compute_time_step_def us w(1) checked_pow10_def) (simp add: ts)
    moreover have "length ?code = ?d" using len by (simp add: pad_zero_def md)
    moreover have "digits_value ?code = unat w mod 10 ^ ?d"
      by (simp add: digits_value_pad digits_value_show_nat md)
    moreover have "(unat t + 1) div ?p = ?step"
    proof -
      have "Suc (unat t mod ?p) < ?p" using False by linarith
      then show ?thesis by (simp add: div_Suc mod_Suc)
    qed
    ultimately show ?thesis using False w(2) by (auto simp: Let_def)
  qed
qed

theorem totp_matches_rfc_witness:
  "(\<exists>code. totp_generate (\<lambda>_ _. replicate 20 1) TotpGenerator_new [] 45 = Some (Inr (code, 1))
      \<and> length code = 6 \<and> digits_value code = 843009)
   \<and> totp_generate (\<lambda>_ _. replicate 20 1) TotpGenerator_new [] 59 = Some (Inl SessionExpired)"
proof -
  have "replicate 4 (1 :: byte) = [1, 1, 1, 1]" by (simp add: numeral_eq_Suc)
  then have r: "rfc4226_truncation (replicate 20 1) = 16843009"
    by (simp add: rfc4226_truncation_def be_decode_four)
  show ?thesis
    using totp_matches_rfc[of TotpGenerator_new "\<lambda>_ _. replicate 20 1" 45 "[]"]
      totp_matches_rfc[of TotpGenerator_new "\<lambda>_ _. replicate 20 1" 59 "[]"]
    by (auto simp: TotpGenerator_new_def Let_def r)
qed

text \<open>
  The digest of a list of components determines the list: unless the hash function itself
  collides on the two encodings, equal digests mean equal components at every position, so moving
  bytes from one component to its neighbour changes the digest.
\<close>

theorem context_digest_binding:
  assumes "fits_u64 xs" and "fits_u64 ys"
    and "sha256 (framed xs) = sha256 (framed ys) \<Longrightarrow> framed xs = framed ys"
  shows "compute_context_digest sha256 xs = compute_context_digest sha256 ys \<longleftrightarrow> xs = ys"
  using assms framed_inject by (auto simp: compute_context_digest_def)

theorem context_digest_binding_witness:
  "concat [[1, 2], [3 :: byte]] = concat [[1], [2, 3]]
   \<and> compute_context_digest id [[1, 2], [3]] \<noteq> compute_context_digest id [[1], [2, 3]]"
  using context_digest_binding[of "[[1, 2], [3]]" "[[1], [2, 3]]" id] by (simp add: fits_u64_def)

text \<open>
  A sanitized error message contains none of the prohibited words in any letter case; a message
  that contains one is replaced whole, any other is unchanged, and sanitizing twice changes nothing.
\<close>

theorem sanitized_message_clean:
  "(\<exists>p \<in> set PROHIBITED_KEYS. contains_str (to_ascii_lowercase m) p)
     = (sanitize_error_message m \<noteq> m)
   \<and> \<not> (\<exists>p \<in> set PROHIBITED_KEYS. contains_str (to_ascii_lowercase (sanitize_error_message m)) p)
   \<and> sanitize_error_message (sanitize_error_message m) = sanitize_error_message m"
  using redacted_marker_clean
  by (auto simp: sanitize_error_message_def sanitize_loop_iff list_all_iff)

end
