(* ===== verification/Strict_Json.thy ===== *)
theory Strict_Json
  imports Prelude
begin

text \<open>
  The strict JSON reader of the protocol crate (\<open>secretctl-protocol/src/strict_json.rs\<close>).  The
  tokenizer is \<open>serde_json\<close>'s; what it presents to the visitor is the type \<open>raw_json\<close>, in which an
  object is the list of its members as they appear in the text, repetitions included.  A floating
  point number is its IEEE 754 bit pattern.  The visitor rejects repeated keys, nesting beyond 32 and
  numbers that are not finite, and otherwise builds the value.
\<close>

unbundle bit_operations_syntax

datatype raw_json =
    RNull
  | RBool bool
  | RInt int
  | RFloat u64
  | RString string
  | RArray "raw_json list"
  | RObject "(string \<times> raw_json) list"

datatype json =
    Null
  | Bool bool
  | Number int
  | Float u64
  | String string
  | Array "json list"
  | Object "(string \<times> json) list"

text \<open>\<open>Value::get\<close>, \<open>as_u64\<close> and \<open>as_str\<close>.\<close>

definition json_member :: "string \<Rightarrow> json \<Rightarrow> json option" where
  "json_member name v = (case v of Object ms \<Rightarrow> map_of ms name | _ \<Rightarrow> None)"

definition json_u64 :: "json \<Rightarrow> u64 option" where
  "json_u64 v = (case v of Number n \<Rightarrow> if 0 \<le> n \<and> n < 2 ^ 64 then Some (of_int n) else None | _ \<Rightarrow> None)"

definition json_text :: "json \<Rightarrow> string option" where
  "json_text v = (case v of String s \<Rightarrow> Some s | _ \<Rightarrow> None)"

text \<open>The parts of a document are smaller than it.\<close>

lemma json_member_size [termination_simp]: "m \<in> set ms \<Longrightarrow> size (snd m) < Suc (size_list (size_prod (\<lambda>_. 0) size) ms)"
proof -
  assume "m \<in> set ms"
  then have "size (snd m) \<le> size_list (size_prod (\<lambda>_. 0) size) ms"
    by (intro size_list_estimation'[of m]) (auto simp: size_prod_def split: prod.split)
  then show ?thesis by simp
qed

lemma json_item_size [termination_simp]: "v \<in> set vs \<Longrightarrow> size v < Suc (size_list size vs)"
  by (simp add: less_Suc_eq_le size_list_estimation')

definition MAX_JSON_DEPTH :: nat where
  "MAX_JSON_DEPTH = 32"

definition is_finite_f64 :: "u64 \<Rightarrow> bool" where
  "is_finite_f64 bits = (drop_bit 52 bits AND 0x7ff \<noteq> 0x7ff)"

text \<open>
  \<open>strict_value\<close> is \<open>StrictSeed::deserialize\<close> with the visitor's methods; \<open>strict_seq\<close> and
  \<open>strict_map\<close> are the loops of \<open>visit_seq\<close> and \<open>visit_map\<close>, the latter with the keys seen so far.
\<close>

function (sequential) strict_value :: "nat \<Rightarrow> raw_json \<Rightarrow> string + json"
  and strict_seq :: "nat \<Rightarrow> raw_json list \<Rightarrow> string + json list"
  and strict_map :: "nat \<Rightarrow> string list \<Rightarrow> (string \<times> raw_json) list \<Rightarrow> string + (string \<times> json) list" where
  "strict_value depth r =
    (if depth > MAX_JSON_DEPTH then Inl ''JSON nesting exceeds 32''
     else case r of
       RNull \<Rightarrow> Inr Null
     | RBool b \<Rightarrow> Inr (Bool b)
     | RInt i \<Rightarrow> Inr (Number i)
     | RFloat f \<Rightarrow> (if \<not> is_finite_f64 f then Inl ''non-finite JSON number'' else Inr (Float f))
     | RString s \<Rightarrow> Inr (String s)
     | RArray rs \<Rightarrow> try_r (strict_seq (depth + 1) rs) (\<lambda>vs. Inr (Array vs))
     | RObject ms \<Rightarrow> try_r (strict_map (depth + 1) [] ms) (\<lambda>vs. Inr (Object vs)))"
| "strict_seq depth [] = Inr []"
| "strict_seq depth (r # rs) =
    try_r (strict_value depth r) (\<lambda>v. try_r (strict_seq depth rs) (\<lambda>vs. Inr (v # vs)))"
| "strict_map depth keys [] = Inr []"
| "strict_map depth keys ((k, r) # ms) =
    (if List.member keys k then Inl (''duplicate JSON key: '' @ k)
     else try_r (strict_value depth r) (\<lambda>v. try_r (strict_map depth (k # keys) ms) (\<lambda>vs. Inr ((k, v) # vs))))"
  by pat_completeness auto
termination
  by (relation "measure (\<lambda>x. case x of Inl (d, r) \<Rightarrow> 2 * size r + 1 | Inr (Inl (d, rs)) \<Rightarrow> 2 * size_list size rs
        | Inr (Inr (d, ks, ms)) \<Rightarrow> 2 * size_list (size_prod (\<lambda>_. 0) size) ms)") auto

text \<open>
  \<open>from_slice_strict\<close>: the tokenizer's tree (or its syntax error), read strictly, then converted to
  the expected type.
\<close>

definition from_slice_strict ::
    "(bytes \<Rightarrow> string + raw_json) \<Rightarrow> (json \<Rightarrow> string + 'a) \<Rightarrow> bytes \<Rightarrow> string + 'a" where
  "from_slice_strict tokenize from_value bs =
    try_r (tokenize bs) (\<lambda>r. try_r (strict_value 0 r) from_value)"

section \<open>What is accepted\<close>

fun raw_depth :: "raw_json \<Rightarrow> nat" where
  "raw_depth (RArray rs) = fold (\<lambda>r m. max (Suc (raw_depth r)) m) rs 0"
| "raw_depth (RObject ms) = fold (\<lambda>r m. max (Suc (raw_depth (snd r))) m) ms 0"
| "raw_depth _ = 0"

fun raw_ok :: "raw_json \<Rightarrow> bool" where
  "raw_ok (RFloat f) = is_finite_f64 f"
| "raw_ok (RArray rs) = list_all raw_ok rs"
| "raw_ok (RObject ms) = (distinct (map fst ms) \<and> list_all (\<lambda>m. raw_ok (snd m)) ms)"
| "raw_ok _ = True"

fun raw_value :: "raw_json \<Rightarrow> json" where
  "raw_value RNull = Null"
| "raw_value (RBool b) = Bool b"
| "raw_value (RInt i) = Number i"
| "raw_value (RFloat f) = Float f"
| "raw_value (RString s) = String s"
| "raw_value (RArray rs) = Array (map raw_value rs)"
| "raw_value (RObject ms) = Object (map (\<lambda>m. (fst m, raw_value (snd m))) ms)"

lemma fold_max_le_iff: "fold (\<lambda>r m. max (f r) m) rs a \<le> (n :: nat) \<longleftrightarrow> a \<le> n \<and> (\<forall>r \<in> set rs. f r \<le> n)"
  by (induction rs arbitrary: a) auto

lemma raw_depth_le:
  "d + raw_depth (RArray rs) \<le> n \<longleftrightarrow> d \<le> n \<and> (\<forall>r \<in> set rs. Suc d + raw_depth r \<le> n)"
  "d + raw_depth (RObject ms) \<le> n \<longleftrightarrow> d \<le> n \<and> (\<forall>m \<in> set ms. Suc d + raw_depth (snd m) \<le> n)"
proof -
  have shift: "d + fold (\<lambda>x m. max (Suc (f x)) m) xs 0 \<le> n \<longleftrightarrow> d \<le> n \<and> (\<forall>x \<in> set xs. Suc d + f x \<le> n)"
    for f and xs :: "'z list"
  proof -
    have "d + fold (\<lambda>x m. max (Suc (f x)) m) xs 0 \<le> n
        \<longleftrightarrow> d \<le> n \<and> fold (\<lambda>x m. max (Suc (f x)) m) xs 0 \<le> n - d" by arith
    also have "\<dots> \<longleftrightarrow> d \<le> n \<and> (\<forall>x \<in> set xs. Suc d + f x \<le> n)"
      unfolding fold_max_le_iff by (auto simp: le_diff_conv2 add.commute)
    finally show ?thesis .
  qed
  show "d + raw_depth (RArray rs) \<le> n \<longleftrightarrow> d \<le> n \<and> (\<forall>r \<in> set rs. Suc d + raw_depth r \<le> n)"
    unfolding raw_depth.simps by (rule shift)
  show "d + raw_depth (RObject ms) \<le> n \<longleftrightarrow> d \<le> n \<and> (\<forall>m \<in> set ms. Suc d + raw_depth (snd m) \<le> n)"
    unfolding raw_depth.simps by (rule shift)
qed

lemma strict_iff:
  "strict_value d r = Inr v \<longleftrightarrow> raw_ok r \<and> d + raw_depth r \<le> MAX_JSON_DEPTH \<and> v = raw_value r"
  "strict_seq d rs = Inr vs \<longleftrightarrow>
     list_all raw_ok rs \<and> (\<forall>r \<in> set rs. d + raw_depth r \<le> MAX_JSON_DEPTH) \<and> vs = map raw_value rs"
  "strict_map d ks ms = Inr ws \<longleftrightarrow>
     distinct (map fst ms) \<and> set (map fst ms) \<inter> set ks = {} \<and> list_all (\<lambda>m. raw_ok (snd m)) ms
     \<and> (\<forall>m \<in> set ms. d + raw_depth (snd m) \<le> MAX_JSON_DEPTH) \<and> ws = map (\<lambda>m. (fst m, raw_value (snd m))) ms"
proof (induction d r and d rs and d ks ms arbitrary: v and vs and ws
    rule: strict_value_strict_seq_strict_map.induct)
  case (1 depth r)
  show ?case
  proof (cases "depth > MAX_JSON_DEPTH")
    case True
    then show ?thesis by simp
  next
    case False
    note ih = 1[OF False]
    show ?thesis
    proof (cases r)
      case (RArray rs)
      show ?thesis using False ih(1)[OF RArray] unfolding RArray raw_depth_le
        by (auto simp: try_r_Inr_iff)
    next
      case (RObject ms)
      show ?thesis using False ih(2)[OF RObject] unfolding RObject raw_depth_le
        by (auto simp: try_r_Inr_iff)
    qed (use False in auto)
  qed
next
  case (5 depth keys k r ms)
  show ?case
  proof (cases "List.member keys k")
    case True
    then show ?thesis by simp
  next
    case False
    then show ?thesis using 5[OF False] by (auto simp: try_r_Inr_iff)
  qed
qed (auto simp: try_r_Inr_iff)

section \<open>Properties\<close>

text \<open>
  The strict reader accepts a document exactly when no object in it, at any depth, repeats a
  key, every number is finite and the nesting is at most 32; the value it then builds has every
  member of the document, unchanged and in place.
\<close>

theorem strict_json_accepts:
  "from_slice_strict (\<lambda>_. Inr r) Inr bs = Inr v
     \<longleftrightarrow> raw_ok r \<and> raw_depth r \<le> 32 \<and> v = raw_value r"
  by (auto simp: from_slice_strict_def try_r_Inr_iff strict_iff(1) MAX_JSON_DEPTH_def simp del: strict_value.simps)

end
