(* ===== verification/Protocol.thy ===== *)
theory Protocol
  imports Domain_Entities Crypto Strict_Json
begin

text \<open>
  The message types of the protocol crate (\<open>secretctl-protocol/src\<close>): error codes (\<open>error.rs\<close>),
  JSON-RPC envelopes (\<open>jsonrpc.rs\<close>), local endpoints (\<open>transport.rs\<close>), the parameters and results of
  the agent and executor channels (\<open>agent.rs\<close>, \<open>executor.rs\<close>) with the session transcript, and the
  element locators of the page operations (\<open>browser.rs\<close>).
\<close>

section \<open>Errors and envelopes\<close>

type_synonym RpcErrorCode = int

definition PARSE_ERROR :: RpcErrorCode where "PARSE_ERROR = -32700"
definition INVALID_REQUEST :: RpcErrorCode where "INVALID_REQUEST = -32600"
definition METHOD_NOT_FOUND :: RpcErrorCode where "METHOD_NOT_FOUND = -32601"
definition INVALID_PARAMS :: RpcErrorCode where "INVALID_PARAMS = -32602"
definition INTERNAL_ERROR :: RpcErrorCode where "INTERNAL_ERROR = -32603"
definition AUTH_POLICY_DENIED :: RpcErrorCode where "AUTH_POLICY_DENIED = -32001"
definition APPROVAL_REJECTED :: RpcErrorCode where "APPROVAL_REJECTED = -32002"
definition APPROVAL_TIMEOUT :: RpcErrorCode where "APPROVAL_TIMEOUT = -32003"
definition CAPABILITY_EXPIRED :: RpcErrorCode where "CAPABILITY_EXPIRED = -32004"
definition CAPABILITY_CONSUMED :: RpcErrorCode where "CAPABILITY_CONSUMED = -32005"
definition EPOCH_INVALIDATED :: RpcErrorCode where "EPOCH_INVALIDATED = -32006"
definition ORIGIN_MISMATCH :: RpcErrorCode where "ORIGIN_MISMATCH = -32007"
definition FRAME_VIOLATION :: RpcErrorCode where "FRAME_VIOLATION = -32008"
definition SESSION_TERMINATED :: RpcErrorCode where "SESSION_TERMINATED = -32009"
definition EXECUTOR_FAILED :: RpcErrorCode where "EXECUTOR_FAILED = -32010"
definition RECIPE_NOT_FOUND :: RpcErrorCode where "RECIPE_NOT_FOUND = -32011"
definition USER_PRESENCE_UNAVAILABLE :: RpcErrorCode where "USER_PRESENCE_UNAVAILABLE = -32012"
definition OBSERVATION_BLOCKED :: RpcErrorCode where "OBSERVATION_BLOCKED = -32013"
definition STALE_REFERENCE :: RpcErrorCode where "STALE_REFERENCE = -32014"
definition LOCATOR_AMBIGUOUS :: RpcErrorCode where "LOCATOR_AMBIGUOUS = -32015"
definition LOCATOR_NOT_FOUND :: RpcErrorCode where "LOCATOR_NOT_FOUND = -32016"
definition WAIT_TIMEOUT :: RpcErrorCode where "WAIT_TIMEOUT = -32017"
definition SECURITY_VIOLATION :: RpcErrorCode where "SECURITY_VIOLATION = -32099"

record RpcError =
  re_code :: int
  re_message :: string
  re_data :: "json option"

definition RpcError_new :: "RpcErrorCode \<Rightarrow> string \<Rightarrow> RpcError" where
  "RpcError_new code message = \<lparr>re_code = code, re_message = message, re_data = None\<rparr>"

datatype RpcId = IdString string | IdNumber int | IdNull

record 'p RpcRequest =
  rr_jsonrpc :: string
  rr_id :: RpcId
  rr_method :: string
  rr_params :: "'p option"

record 'r RpcResponse =
  rp_jsonrpc :: string
  rp_id :: RpcId
  rp_result :: "'r option"
  rp_error :: "RpcError option"

definition RpcResponse_success :: "RpcId \<Rightarrow> 'r \<Rightarrow> 'r RpcResponse" where
  "RpcResponse_success i r = \<lparr>rp_jsonrpc = ''2.0'', rp_id = i, rp_result = Some r, rp_error = None\<rparr>"

definition RpcResponse_error :: "RpcId \<Rightarrow> RpcError \<Rightarrow> 'r RpcResponse" where
  "RpcResponse_error i e = \<lparr>rp_jsonrpc = ''2.0'', rp_id = i, rp_result = None, rp_error = Some e\<rparr>"

section \<open>Local endpoints\<close>

datatype LocalChannel = Agent | Admin | Executor

primrec LocalChannel_name :: "LocalChannel \<Rightarrow> string" where
  "LocalChannel_name Agent = ''agent''"
| "LocalChannel_name Admin = ''admin''"
| "LocalChannel_name Executor = ''executor''"

datatype LocalEndpoint = UnixSocket string string | WindowsNamedPipe string

text \<open>A Unix endpoint is the runtime directory joined with the file name.\<close>

definition unix_endpoint :: "string \<Rightarrow> LocalChannel \<Rightarrow> LocalEndpoint" where
  "unix_endpoint runtime_dir channel = UnixSocket runtime_dir (LocalChannel_name channel @ ''.sock'')"

definition is_ascii_alphanumeric :: "char \<Rightarrow> bool" where
  "is_ascii_alphanumeric c = (let n = (of_char c :: nat) in
     (48 \<le> n \<and> n \<le> 57) \<or> (65 \<le> n \<and> n \<le> 90) \<or> (97 \<le> n \<and> n \<le> 122))"

definition windows_endpoint :: "string \<Rightarrow> LocalChannel \<Rightarrow> LocalEndpoint" where
  "windows_endpoint installation_id channel =
    WindowsNamedPipe ([CHR 0x5C, CHR 0x5C, CHR ''.'', CHR 0x5C] @ ''pipe'' @ [CHR 0x5C] @ ''secretctl-''
      @ filter (\<lambda>c. is_ascii_alphanumeric c \<or> c = CHR ''-'') installation_id
      @ ''-'' @ LocalChannel_name channel)"

section \<open>The agent channel\<close>

record TargetOriginConstraint =
  tc_origin :: CanonicalOrigin
  tc_path_prefix :: "string option"

record ActionRequestParams =
  arp_request_id :: RequestId
  arp_action :: ActionKind
  arp_identity :: string
  arp_target :: TargetOriginConstraint
  arp_browser_session_id :: BrowserSessionId
  arp_tab_hint :: "u32 option"
  arp_reason :: string
  arp_wait :: bool
  arp_timeout_ms :: u64
  arp_client_context :: "json option"

record ActionAuthenticateParams =
  aap_request_id :: "RequestId option"
  aap_action :: "ActionKind option"
  aap_identity :: string
  aap_reason :: string
  aap_wait :: bool
  aap_timeout_ms :: u64
  aap_client_context :: "json option"

record ActionResponseResult =
  arr_request_id :: RequestId
  arr_state :: ActionRequestState
  arr_result_code :: "string option"
  arr_execution_id :: "ExecutionId option"
  arr_evidence_ref :: "string option"
  arr_grant_id :: "GrantId option"
  arr_completed_at :: "string option"

record ActionAuthenticateResult =
  aar_response :: ActionResponseResult
  aar_action :: ActionKind
  aar_verified_origin :: CanonicalOrigin
  aar_browser_session_id :: BrowserSessionId

record ActionStatusResult =
  asr_request_id :: RequestId
  asr_state :: ActionRequestState
  asr_detail :: "string option"

record ActionCancelParams =
  acp_request_id :: RequestId
  acp_reason :: "string option"

record ActionCancelResult =
  acr_request_id :: RequestId
  acr_cancelled :: bool

record SessionHelloParams =
  sh_protocol_version :: string
  sh_role :: string
  sh_principal_id :: string
  sh_client_nonce :: string
  sh_supported_suites :: "string list"

definition auth_transcript_parts :: "SessionHelloParams \<Rightarrow> string \<Rightarrow> bytes \<Rightarrow> bytes \<Rightarrow> bytes list" where
  "auth_transcript_parts hello server_nonce server_ephemeral_public_key client_ephemeral_public_key =
    [as_bytes ''secretctl-session-auth-v1'',
     as_bytes (sh_protocol_version hello),
     as_bytes (sh_role hello),
     as_bytes (sh_principal_id hello),
     as_bytes (sh_client_nonce hello),
     as_bytes server_nonce,
     server_ephemeral_public_key,
     client_ephemeral_public_key]"

definition session_auth_transcript ::
    "(bytes \<Rightarrow> bytes) \<Rightarrow> SessionHelloParams \<Rightarrow> string \<Rightarrow> bytes \<Rightarrow> bytes \<Rightarrow> bytes" where
  "session_auth_transcript sha256 hello server_nonce server_pub client_pub =
    compute_context_digest sha256 (auth_transcript_parts hello server_nonce server_pub client_pub)"

section \<open>The executor channel\<close>

definition MANAGED_EXTENSION_ID :: string where
  "MANAGED_EXTENSION_ID = ''kepjngjifdbhbohpljaehekkkjdpecli''"

record ExecutorContextPayload =
  ec_browser_session_id :: BrowserSessionId
  ec_tab_id :: u32
  ec_frame_id :: u32
  ec_document_id :: string
  ec_navigation_epoch :: u64
  ec_top_origin :: CanonicalOrigin
  ec_frame_origin :: CanonicalOrigin
  ec_path :: string
  ec_path_sha256 :: string
  ec_tls :: bool
  ec_incognito :: bool

record ExecutorPrepareResult =
  epr_prepared :: bool
  epr_challenge_nonce :: string
  epr_matching_recipes :: "RecipeId list"

record BrowserRegisterParams =
  brp_instance_id :: BrowserInstanceId
  brp_launcher_nonce :: string
  brp_profile_id :: string
  brp_extension_id :: string
  brp_extension_version :: string
  brp_extension_key_id :: string
  brp_browser_version :: string

record BrowserRegisterResult =
  brr_browser_session_id :: BrowserSessionId
  brr_assurance :: string
  brr_heartbeat_interval_seconds :: u64
  brr_session_proof :: string

record ExecutionFieldPlan =
  efp_role :: string
  efp_selector :: string
  efp_optional :: bool
  efp_clear_first :: bool

record ExecutionSuccessPlan =
  esp_navigation_origin :: "string option"
  esp_selector_present :: "string option"
  esp_selector_absent :: "string option"
  esp_timeout_ms :: u64

record OAuthExecutionPlan =
  oep_authorization_url :: string
  oep_issuer_origin :: CanonicalOrigin
  oep_redirect_uri :: string

record ExecutionOfferResult =
  eor_capability_token :: string
  eor_recipe_id :: RecipeId
  eor_tab_id :: u32
  eor_frame_id :: u32
  eor_document_id :: string
  eor_navigation_epoch :: u64
  eor_top_origin :: CanonicalOrigin
  eor_frame_origin :: CanonicalOrigin
  eor_fields :: "ExecutionFieldPlan list"
  eor_auto_submit_selector :: "string option"
  eor_success :: "ExecutionSuccessPlan option"
  eor_oauth :: "OAuthExecutionPlan option"

record OAuthCallbackParams =
  ocp_capability_token :: string
  ocp_browser_session_id :: BrowserSessionId
  ocp_tab_id :: u32
  ocp_callback_uri :: string

record OAuthCallbackResult =
  ocr_grant_id :: GrantId
  ocr_scopes :: "string list"
  ocr_expires_at :: "string option"

record ExecutorConsumeParams =
  ecp_capability_token :: string
  ecp_session_signature :: string
  ecp_current_context :: ExecutorContextPayload

record ResolvedFieldInjection =
  rfi_role :: string
  rfi_selector :: string
  rfi_optional :: bool
  rfi_clear_first :: bool
  rfi_encrypted_value :: string

record ExecutorConsumeResult =
  ecr_execution_id :: ExecutionId
  ecr_recipe_id :: RecipeId
  ecr_fields :: "ResolvedFieldInjection list"
  ecr_auto_submit_selector :: "string option"

record ExecutionEvidence =
  ee_submitted :: bool
  ee_fields_filled_count :: u32
  ee_outcome_selector_matched :: bool

record ExecutorResultParams =
  erp_execution_id :: ExecutionId
  erp_status :: string
  erp_result_code :: string
  erp_evidence :: "ExecutionEvidence option"

section \<open>Locators\<close>

datatype SafeLocator =
    Css string
  | TestId string
  | Ref string
  | Role string string
  | Text string

fun is_css_based :: "SafeLocator \<Rightarrow> bool" where
  "is_css_based (Css _) = True"
| "is_css_based (TestId _) = True"
| "is_css_based _ = False"

definition css_string :: "string \<Rightarrow> string + string" where
  "css_string value =
    (if value = [] \<or> length value > 128
        \<or> \<not> list_all (\<lambda>c. is_ascii_alphanumeric c \<or> List.member ''_-'' c) value
     then Inl ''unsafe test ID''
     else Inr ([CHR 0x22] @ value @ [CHR 0x22]))"

definition locator_css :: "SafeLocator \<Rightarrow> string + string" where
  "locator_css loc =
    try_r (case loc of
             Css value \<Rightarrow> Inr value
           | TestId value \<Rightarrow> try_r (css_string value) (\<lambda>q. Inr (''[data-testid='' @ q @ '']''))
           | _ \<Rightarrow> Inl ''locator is not selector-based'') (\<lambda>value.
    if value = [] \<or> length value > 512 \<or> contains_str value '':has(''
       \<or> contains_str value ''input[type=password]'' \<or> contains_str value ''[type=password]''
    then Inl ''unsafe locator''
    else Inr value)"

section \<open>Properties\<close>

lemma auth_transcript_parts_inject:
  "auth_transcript_parts h n sp cp = auth_transcript_parts h' n' sp' cp' \<longleftrightarrow>
     (sh_protocol_version h, sh_role h, sh_principal_id h, sh_client_nonce h) =
     (sh_protocol_version h', sh_role h', sh_principal_id h', sh_client_nonce h')
     \<and> n = n' \<and> sp = sp' \<and> cp = cp'"
  using inj_as_bytes by (auto simp: auth_transcript_parts_def inj_eq)

text \<open>
  The handshake transcript that a client signs binds the protocol version, the role, the
  principal, both nonces and both ephemeral keys: unless the hash collides, a transcript made for one
  handshake equals that of another only when all of these agree.
\<close>

theorem session_transcript_binding:
  assumes "fits_u64 (auth_transcript_parts h n sp cp)" and "fits_u64 (auth_transcript_parts h' n' sp' cp')"
    and "sha256 (framed (auth_transcript_parts h n sp cp)) = sha256 (framed (auth_transcript_parts h' n' sp' cp'))
         \<Longrightarrow> framed (auth_transcript_parts h n sp cp) = framed (auth_transcript_parts h' n' sp' cp')"
  shows "session_auth_transcript sha256 h n sp cp = session_auth_transcript sha256 h' n' sp' cp' \<longleftrightarrow>
     (sh_protocol_version h, sh_role h, sh_principal_id h, sh_client_nonce h) =
     (sh_protocol_version h', sh_role h', sh_principal_id h', sh_client_nonce h')
     \<and> n = n' \<and> sp = sp' \<and> cp = cp'"
  using assms framed_inject auth_transcript_parts_inject
  unfolding session_auth_transcript_def compute_context_digest_def by metis

theorem session_transcript_binding_witness:
  "let h = \<lparr>sh_protocol_version = ''1.0'', sh_role = ''agent'', sh_principal_id = ''agent_1'',
            sh_client_nonce = ''c'', sh_supported_suites = []\<rparr>
   in session_auth_transcript id h ''n'' [1] [2]
      \<noteq> session_auth_transcript id (h\<lparr>sh_role := ''executor''\<rparr>) ''n'' [1] [2]"
  using session_transcript_binding[of
      "\<lparr>sh_protocol_version = ''1.0'', sh_role = ''agent'', sh_principal_id = ''agent_1'',
        sh_client_nonce = ''c'', sh_supported_suites = []\<rparr>" "''n''" "[1]" "[2]"
      "\<lparr>sh_protocol_version = ''1.0'', sh_role = ''executor'', sh_principal_id = ''agent_1'',
        sh_client_nonce = ''c'', sh_supported_suites = []\<rparr>" "''n''" "[1]" "[2]" id]
  by (simp add: fits_u64_def auth_transcript_parts_def)

text \<open>
  The selector filter rejects the unquoted form of a password-field selector and every
  selector over 512 bytes, and a test identifier can only yield an attribute selector on letters,
  digits, underscore and hyphen; but the quoted form of the password-field selector passes it.
\<close>

theorem locator_filter:
  "(locator_css loc = Inr s \<longrightarrow> s \<noteq> [] \<and> length s \<le> 512 \<and> \<not> contains_str s ''[type=password]''
       \<and> \<not> contains_str s '':has('' \<and> is_css_based loc)
   \<and> (locator_css (TestId v) = Inr s \<longrightarrow> s = ''[data-testid='' @ [CHR 0x22] @ v @ [CHR 0x22] @ '']''
       \<and> CHR 0x22 \<notin> set v \<and> CHR '']'' \<notin> set v)
   \<and> locator_css (Css (''input[type='' @ [CHR 0x22] @ ''password'' @ [CHR 0x22] @ '']''))
     = Inr (''input[type='' @ [CHR 0x22] @ ''password'' @ [CHR 0x22] @ '']'')"
proof (intro conjI)
  show "locator_css loc = Inr s \<longrightarrow> s \<noteq> [] \<and> length s \<le> 512 \<and> \<not> contains_str s ''[type=password]''
       \<and> \<not> contains_str s '':has('' \<and> is_css_based loc"
    by (cases loc) (auto simp: locator_css_def try_r_Inr_iff split: if_splits)
  show "locator_css (TestId v) = Inr s \<longrightarrow> s = ''[data-testid='' @ [CHR 0x22] @ v @ [CHR 0x22] @ '']''
       \<and> CHR 0x22 \<notin> set v \<and> CHR '']'' \<notin> set v"
    by (auto simp: locator_css_def css_string_def try_r_Inr_iff list_all_iff is_ascii_alphanumeric_def
        split: if_splits)
  show "locator_css (Css (''input[type='' @ [CHR 0x22] @ ''password'' @ [CHR 0x22] @ '']''))
     = Inr (''input[type='' @ [CHR 0x22] @ ''password'' @ [CHR 0x22] @ '']'')"
    by (simp add: locator_css_def)
qed

theorem locator_filter_witness:
  "locator_css (TestId ''login'') = Inr (''[data-testid='' @ [CHR 0x22] @ ''login'' @ [CHR 0x22] @ '']'')
   \<and> CHR 0x22 \<notin> set ''login''"
  (is "?l \<and> _")
proof -
  have l: ?l by code_simp
  then show ?thesis using locator_filter[of "TestId ''login''" _ "''login''"] by blast
qed

end
