(* ===== verification/Framing.thy ===== *)
theory Framing
  imports Prelude
begin

text \<open>
  Length-prefixed message framing: the codec of the agent and executor sockets
  (\<open>secretctl-protocol/src/framing.rs\<close>, big-endian) and the codec of Chrome's native messaging
  (\<open>secretctl-native-host/src/framing.rs\<close>, little-endian).

  A decoder is called on the bytes received so far and returns the first complete frame with the
  bytes after it, or nothing with the buffer kept.  The locale \<open>framed_codec\<close> states what a stream
  reader needs of an encoder and a decoder; its lemmas show that a stream cut into chunks at any
  positions is read back as the messages that were written.  Both codecs interpret it.
\<close>

datatype ProtocolError =
    Io string
  | FramingErr string
  | MessageTooLarge nat nat
  | Json string
  | ProhibitedField string
  | VersionMismatch string
  | InvalidRpc string

section \<open>The codec of the sockets\<close>

definition DEFAULT_MAX_AGENT_PAYLOAD_BYTES :: nat where
  "DEFAULT_MAX_AGENT_PAYLOAD_BYTES = 1024 * 1024"

definition DEFAULT_MAX_EXECUTOR_PAYLOAD_BYTES :: nat where
  "DEFAULT_MAX_EXECUTOR_PAYLOAD_BYTES = 4 * 1024 * 1024"

record LengthPrefixedCodec =
  max_payload_bytes :: nat

definition for_agent :: LengthPrefixedCodec where
  "for_agent = \<lparr>max_payload_bytes = DEFAULT_MAX_AGENT_PAYLOAD_BYTES\<rparr>"

definition for_executor :: LengthPrefixedCodec where
  "for_executor = \<lparr>max_payload_bytes = DEFAULT_MAX_EXECUTOR_PAYLOAD_BYTES\<rparr>"

definition lp_decode :: "LengthPrefixedCodec \<Rightarrow> bytes \<Rightarrow> ProtocolError + (bytes option \<times> bytes)" where
  "lp_decode codec src =
    (if length src < 4 then Inr (None, src)
     else let len = be_decode (take 4 src) in
     if len > max_payload_bytes codec then Inl (MessageTooLarge (max_payload_bytes codec) len)
     else if length src < 4 + len then Inr (None, src)
     else Inr (Some (take len (drop 4 src)), drop len (drop 4 src)))"

definition lp_encode :: "LengthPrefixedCodec \<Rightarrow> bytes \<Rightarrow> bytes \<Rightarrow> ProtocolError + bytes" where
  "lp_encode codec item dst =
    (if length item > max_payload_bytes codec
     then Inl (MessageTooLarge (max_payload_bytes codec) (length item))
     else Inr (dst @ be_encode 4 (length item) @ item))"

section \<open>The codec of Chrome's native messaging\<close>

definition MAX_CHROME_MSG_BYTES :: nat where
  "MAX_CHROME_MSG_BYTES = 1024 * 1024"

definition le_encode :: "nat \<Rightarrow> nat \<Rightarrow> bytes" where
  "le_encode k n = rev (be_encode k n)"

definition le_decode :: "bytes \<Rightarrow> nat" where
  "le_decode bs = be_decode (rev bs)"

definition chrome_error :: "nat \<Rightarrow> string" where
  "chrome_error len = ''Message length '' @ show_nat len @ '' exceeds max '' @ show_nat MAX_CHROME_MSG_BYTES"

definition chrome_decode :: "bytes \<Rightarrow> string + (bytes option \<times> bytes)" where
  "chrome_decode src =
    (if length src < 4 then Inr (None, src)
     else let len = le_decode (take 4 src) in
     if len > MAX_CHROME_MSG_BYTES then Inl (chrome_error len)
     else if length src < 4 + len then Inr (None, src)
     else Inr (Some (take len (drop 4 src)), drop len (drop 4 src)))"

definition chrome_encode :: "bytes \<Rightarrow> bytes \<Rightarrow> string + bytes" where
  "chrome_encode item dst =
    (if length item > MAX_CHROME_MSG_BYTES then Inl (chrome_error (length item))
     else Inr (dst @ le_encode 4 (length item) @ item))"

section \<open>Reading a stream\<close>

text \<open>
  The loop that a framed transport runs around a decoder: after each chunk is appended to the
  buffer, decode until no complete frame is left.  Every decoded frame consumes at least its header,
  so the length of the buffer bounds the number of iterations and serves as fuel.
\<close>

fun drain_n :: "(bytes \<Rightarrow> 'e + (bytes option \<times> bytes)) \<Rightarrow> nat \<Rightarrow> bytes \<Rightarrow> 'e + (bytes list \<times> bytes)" where
  "drain_n dec 0 buf = Inr ([], buf)"
| "drain_n dec (Suc n) buf =
    try_r (dec buf) (\<lambda>(item, rest).
      case item of
        None \<Rightarrow> Inr ([], rest)
      | Some x \<Rightarrow> try_r (drain_n dec n rest) (\<lambda>(xs, r). Inr (x # xs, r)))"

definition drain :: "(bytes \<Rightarrow> 'e + (bytes option \<times> bytes)) \<Rightarrow> bytes \<Rightarrow> 'e + (bytes list \<times> bytes)" where
  "drain dec buf = drain_n dec (Suc (length buf)) buf"

fun read_chunks :: "(bytes \<Rightarrow> 'e + (bytes option \<times> bytes)) \<Rightarrow> bytes \<Rightarrow> bytes list \<Rightarrow> 'e + (bytes list \<times> bytes)" where
  "read_chunks dec buf [] = Inr ([], buf)"
| "read_chunks dec buf (c # cs) =
    try_r (drain dec (buf @ c)) (\<lambda>(xs, rest).
    try_r (read_chunks dec rest cs) (\<lambda>(ys, r). Inr (xs @ ys, r)))"

fun write_all :: "(bytes \<Rightarrow> bytes \<Rightarrow> 'e + bytes) \<Rightarrow> bytes \<Rightarrow> bytes list \<Rightarrow> 'e + bytes" where
  "write_all enc dst [] = Inr dst"
| "write_all enc dst (x # xs) = try_r (enc x dst) (\<lambda>d. write_all enc d xs)"

definition sendable :: "(bytes \<Rightarrow> bytes \<Rightarrow> 'e + bytes) \<Rightarrow> bytes \<Rightarrow> bool" where
  "sendable enc x = (\<exists>dst d. enc x dst = Inr d)"

locale framed_codec =
  fixes enc :: "bytes \<Rightarrow> bytes \<Rightarrow> 'e + bytes"
    and dec :: "bytes \<Rightarrow> 'e + (bytes option \<times> bytes)"
    and frame :: "bytes \<Rightarrow> bytes"
  assumes enc_frame: "enc x dst = Inr d \<Longrightarrow> d = dst @ frame x"
    and dec_frame: "enc x dst = Inr d \<Longrightarrow> dec (frame x @ rest) = Inr (Some x, rest)"
    and dec_partial: "enc x dst = Inr d \<Longrightarrow> strict_prefix p (frame x) \<Longrightarrow> dec p = Inr (None, p)"
    and frame_nonempty: "frame x \<noteq> []"
begin

lemma write_all_frames:
  "write_all enc dst xs = Inr s \<Longrightarrow> s = dst @ concat (map frame xs) \<and> (\<forall>x \<in> set xs. sendable enc x)"
proof (induction xs arbitrary: dst)
  case Nil
  then show ?case by simp
next
  case (Cons x xs)
  then obtain d where "enc x dst = Inr d" "write_all enc d xs = Inr s" by (auto simp: try_r_Inr_iff)
  then show ?case using Cons.IH[of d] enc_frame by (auto simp: sendable_def)
qed

lemma dec_complete: "sendable enc x \<Longrightarrow> dec (frame x @ rest) = Inr (Some x, rest)"
  unfolding sendable_def using dec_frame by blast

lemma dec_short: "sendable enc x \<Longrightarrow> strict_prefix p (frame x) \<Longrightarrow> dec p = Inr (None, p)"
  unfolding sendable_def using dec_partial by blast

text \<open>A buffer that is an initial piece of the remaining stream splits into the frames it completes
  and a strict initial piece of the next one.\<close>

lemma prefix_split:
  assumes "prefix buf (concat (map frame xs))"
  obtains fin todo r where "xs = fin @ todo" "buf = concat (map frame fin) @ r"
    "(todo = [] \<and> r = []) \<or> (\<exists>y ys. todo = y # ys \<and> strict_prefix r (frame y))"
  using assms
proof (induction xs arbitrary: buf thesis)
  case Nil
  then show ?case by simp
next
  case (Cons x xs)
  show ?case
  proof (cases "prefix (frame x) buf")
    case True
    then obtain b where b: "buf = frame x @ b" by (auto simp: prefix_def)
    with Cons.prems(2) have "prefix b (concat (map frame xs))" by simp
    then obtain fin todo r where "xs = fin @ todo" "b = concat (map frame fin) @ r"
      "(todo = [] \<and> r = []) \<or> (\<exists>y ys. todo = y # ys \<and> strict_prefix r (frame y))"
      using Cons.IH by blast
    then show ?thesis using Cons.prems(1)[of "x # fin" todo r] b by simp
  next
    case False
    from Cons.prems(2) have "prefix buf (frame x) \<or> prefix (frame x) buf"
      by (simp add: prefix_append) (metis prefixI prefix_same_cases prefix_order.refl)
    with False have "strict_prefix buf (frame x)" by (auto simp: strict_prefix_def)
    then show ?thesis using Cons.prems(1)[of "[]" "x # xs" buf] by simp
  qed
qed

lemma drain_n_frames:
  assumes "\<forall>x \<in> set xs. sendable enc x" "length xs < n"
    "r = [] \<and> dec [] = Inr (None, []) \<or> (\<exists>y. sendable enc y \<and> strict_prefix r (frame y))"
  shows "drain_n dec n (concat (map frame xs) @ r) = Inr (xs, r)"
  using assms
proof (induction xs arbitrary: n)
  case Nil
  then obtain m where "n = Suc m" by (cases n) auto
  then show ?case using Nil dec_short by auto
next
  case (Cons x xs)
  then obtain m where "n = Suc m" by (cases n) auto
  then show ?case using Cons dec_complete by simp
qed

lemma length_frames: "length xs \<le> length (concat (map frame xs))"
proof (induction xs)
  case (Cons x xs)
  have "1 \<le> length (frame x)" using frame_nonempty[of x] by (simp add: Suc_le_eq)
  with Cons show ?case by (simp only: list.map concat.simps length_append list.size)
qed simp

text \<open>Reading: whatever the chunks, the messages come out in order and nothing is left over.\<close>

lemma read_chunks_stream:
  assumes "\<forall>x \<in> set xs. sendable enc x" "buf @ concat cs = concat (map frame xs)"
    "buf = [] \<or> (\<exists>y ys. xs = y # ys \<and> strict_prefix buf (frame y))"
    "dec [] = Inr (None, [])"
  shows "read_chunks dec buf cs = Inr (xs, [])"
  using assms
proof (induction cs arbitrary: buf xs)
  case Nil
  have "xs = []"
  proof (rule ccontr)
    assume "xs \<noteq> []"
    then obtain y ys where xs: "xs = y # ys" by (cases xs) auto
    with Nil.prems(2,3) frame_nonempty[of y] have "strict_prefix buf (frame y)" "buf = frame y @ concat (map frame ys)"
      by auto
    then show False by (auto simp: strict_prefix_def)
  qed
  then show ?case using Nil by simp
next
  case (Cons c cs)
  have "prefix (buf @ c) (concat (map frame xs))"
    using Cons.prems(2) by (metis append.assoc concat.simps(2) prefixI)
  then obtain fin todo r where sp: "xs = fin @ todo" "buf @ c = concat (map frame fin) @ r"
    "(todo = [] \<and> r = []) \<or> (\<exists>y ys. todo = y # ys \<and> strict_prefix r (frame y))"
    by (rule prefix_split)
  have "drain dec (buf @ c) = Inr (fin, r)"
    unfolding drain_def sp(2)
  proof (rule drain_n_frames)
    show "length fin < Suc (length (concat (map frame fin) @ r))"
      using length_frames[of fin] by simp
  qed (use Cons.prems(1,4) sp(1,3) in auto)
  moreover have "read_chunks dec r cs = Inr (todo, [])"
  proof (rule Cons.IH)
    show "r @ concat cs = concat (map frame todo)"
    proof -
      have "(buf @ c) @ concat cs = concat (map frame xs)" using Cons.prems(2) by simp
      then show ?thesis unfolding sp(2) sp(1) by simp
    qed
  qed (use Cons.prems(1,4) sp(1,3) in auto)
  ultimately show ?case using sp(1) by simp
qed

lemma stream_roundtrip:
  assumes "write_all enc [] xs = Inr s" "concat cs = s" "dec [] = Inr (None, [])"
  shows "read_chunks dec [] cs = Inr (xs, [])"
  using write_all_frames[OF assms(1)] assms(2,3) read_chunks_stream[of xs "[]" cs] by simp

end

section \<open>Both codecs satisfy the contract\<close>

lemma length_prefix_split:
  assumes "length h = 4" "strict_prefix p (h @ (x :: bytes))"
  shows "length p < 4 \<or> (take 4 p = h \<and> length p < 4 + length x)"
proof (cases "length p < 4")
  case False
  from assms(2) obtain q where q: "h @ x = p @ q" "q \<noteq> []" by (auto simp: strict_prefix_def prefix_def)
  then have "take 4 (h @ x) = take 4 p" using False by simp
  moreover have "length p < length (h @ x)" using q by simp
  ultimately show ?thesis using assms(1) by simp
qed simp

lemma lp_framed_codec:
  assumes "max_payload_bytes codec < 2 ^ 32"
  shows "framed_codec (lp_encode codec) (lp_decode codec) (\<lambda>x. be_encode 4 (length x) @ x)"
proof
  fix x dst d rest p
  show "lp_encode codec x dst = Inr d \<Longrightarrow> d = dst @ be_encode 4 (length x) @ x"
    by (simp add: lp_encode_def split: if_splits)
  assume e: "lp_encode codec x dst = Inr d"
  then have len: "length x \<le> max_payload_bytes codec" by (simp add: lp_encode_def split: if_splits)
  then have v: "be_decode (be_encode 4 (length x)) = length x"
    using assms by (simp add: be_decode_encode)
  show "lp_decode codec ((be_encode 4 (length x) @ x) @ rest) = Inr (Some x, rest)"
    using len by (simp add: lp_decode_def v)
  show "strict_prefix p (be_encode 4 (length x) @ x) \<Longrightarrow> lp_decode codec p = Inr (None, p)"
    using length_prefix_split[of "be_encode 4 (length x)" p x] len
    by (auto simp: lp_decode_def v)
next
  show "be_encode 4 (length x) @ x \<noteq> []" for x :: bytes
    by (metis length_be_encode append_is_Nil_conv list.size(3) zero_neq_numeral)
qed

interpretation agent_codec: framed_codec "lp_encode for_agent" "lp_decode for_agent"
  "\<lambda>x. be_encode 4 (length x) @ x"
  by (rule lp_framed_codec) (simp add: for_agent_def DEFAULT_MAX_AGENT_PAYLOAD_BYTES_def)

interpretation executor_codec: framed_codec "lp_encode for_executor" "lp_decode for_executor"
  "\<lambda>x. be_encode 4 (length x) @ x"
  by (rule lp_framed_codec) (simp add: for_executor_def DEFAULT_MAX_EXECUTOR_PAYLOAD_BYTES_def)

interpretation chrome_codec: framed_codec chrome_encode chrome_decode "\<lambda>x. le_encode 4 (length x) @ x"
proof
  fix x dst d rest p
  show "chrome_encode x dst = Inr d \<Longrightarrow> d = dst @ le_encode 4 (length x) @ x"
    by (simp add: chrome_encode_def split: if_splits)
  assume e: "chrome_encode x dst = Inr d"
  then have len: "length x \<le> MAX_CHROME_MSG_BYTES" by (simp add: chrome_encode_def split: if_splits)
  then have v: "le_decode (le_encode 4 (length x)) = length x"
    by (simp add: le_decode_def le_encode_def be_decode_encode MAX_CHROME_MSG_BYTES_def)
  have l4: "length (le_encode 4 (length x)) = 4" by (simp add: le_encode_def)
  show "chrome_decode ((le_encode 4 (length x) @ x) @ rest) = Inr (Some x, rest)"
    using len l4 by (simp add: chrome_decode_def v)
  show "strict_prefix p (le_encode 4 (length x) @ x) \<Longrightarrow> chrome_decode p = Inr (None, p)"
    using length_prefix_split[OF l4, of p x] len
    by (auto simp: chrome_decode_def v)
next
  show "le_encode 4 (length x) @ x \<noteq> []" for x :: bytes
    by (metis length_be_encode append_is_Nil_conv le_encode_def length_rev list.size(3) zero_neq_numeral)
qed

section \<open>Properties\<close>

text \<open>
  On each of the three transports (agent socket, executor socket, Chrome's native messaging)
  the messages that were written come out of the reader in order, complete and with nothing left in
  the buffer, however the byte stream is cut into chunks on the way.
\<close>

theorem framing_stream_roundtrip:
  "(write_all (lp_encode for_agent) [] xs = Inr s \<longrightarrow> concat cs = s
      \<longrightarrow> read_chunks (lp_decode for_agent) [] cs = Inr (xs, []))
   \<and> (write_all (lp_encode for_executor) [] xs = Inr s \<longrightarrow> concat cs = s
      \<longrightarrow> read_chunks (lp_decode for_executor) [] cs = Inr (xs, []))
   \<and> (write_all chrome_encode [] xs = Inr s \<longrightarrow> concat cs = s
      \<longrightarrow> read_chunks chrome_decode [] cs = Inr (xs, []))"
  using agent_codec.stream_roundtrip[of xs s cs] executor_codec.stream_roundtrip[of xs s cs]
    chrome_codec.stream_roundtrip[of xs s cs]
  by (simp add: lp_decode_def chrome_decode_def)

theorem framing_stream_roundtrip_witness:
  "write_all (lp_encode for_agent) [] [[7, 8], []] = Inr [0, 0, 0, 2, 7, 8, 0, 0, 0, 0]
   \<and> read_chunks (lp_decode for_agent) [] [[0, 0], [0, 2, 7], [8, 0, 0, 0, 0]] = Inr ([[7, 8], []], [])"
  (is "?w \<and> _")
proof -
  have w: ?w
    by (simp add: lp_encode_def for_agent_def DEFAULT_MAX_AGENT_PAYLOAD_BYTES_def be_encode_numeral)
  then show ?thesis
    using framing_stream_roundtrip[of "[[7, 8], []]" "[0, 0, 0, 2, 7, 8, 0, 0, 0, 0]"
        "[[0, 0], [0, 2, 7], [8, 0, 0, 0, 0]]"]
    by simp
qed

text \<open>
  A frame that announces more than the configured maximum is rejected as soon as its four header
  bytes are there, before any of the payload is buffered or returned; the encoder refuses the same
  sizes and leaves the output buffer as it was; and what the decoder does return is never longer than
  the maximum.
\<close>

theorem framing_bounded:
  "(4 \<le> length src \<longrightarrow> max_payload_bytes codec < be_decode (take 4 src)
      \<longrightarrow> lp_decode codec src = Inl (MessageTooLarge (max_payload_bytes codec) (be_decode (take 4 src))))
   \<and> (max_payload_bytes codec < length item \<longleftrightarrow> \<not> is_ok (lp_encode codec item dst))
   \<and> (lp_decode codec src = Inr (Some x, rest) \<longrightarrow> length x \<le> max_payload_bytes codec
        \<and> src = take 4 src @ x @ rest \<and> length x = be_decode (take 4 src))"
  by (auto simp: lp_decode_def lp_encode_def Let_def split: if_splits)
    (metis add.commute append_take_drop_id drop_drop)

theorem framing_bounded_witness:
  "lp_decode for_agent [255, 0, 0, 0] = Inl (MessageTooLarge 1048576 4278190080)"
  using framing_bounded[of "[255, 0, 0, 0]" for_agent]
  by (simp add: for_agent_def DEFAULT_MAX_AGENT_PAYLOAD_BYTES_def be_decode_def)

end
