(* ===== verification/Native_Host.thy ===== *)
theory Native_Host
  imports Protocol Framing
begin

text \<open>
  Enrollment of the browser extension (\<open>secretctl-native-host/src/enrollment.rs\<close>).  The native host
  pairs with the first extension key that proves knowledge of the pairing code and from then on
  accepts only that key.  Base64 and the random source are arguments; the errors of \<open>anyhow\<close> are
  their messages.
\<close>

record ExtensionEnrollment =
  ee_extension_id :: string
  ee_public_key :: "bytes option"
  ee_pending_pairing_code :: "string option"

record ExtensionChallenge =
  xc_nonce :: string
  xc_pairing_code :: "string option"
  xc_paired :: bool

record ExtensionProof =
  xp_public_key :: string
  xp_challenge_nonce :: string
  xp_signature :: string
  xp_pairing_code :: "string option"

text \<open>\<open>format!("{code:06}")\<close> of four random bytes modulo a million.\<close>

definition ExtensionEnrollment_new :: "bytes \<Rightarrow> string \<Rightarrow> ExtensionEnrollment" where
  "ExtensionEnrollment_new random extension_id =
    \<lparr>ee_extension_id = extension_id, ee_public_key = None,
     ee_pending_pairing_code = Some (pad_zero 6 (show_nat (be_decode random mod 1000000)))\<rparr>"

definition challenge :: "base64 \<Rightarrow> bytes \<Rightarrow> ExtensionEnrollment \<Rightarrow> ExtensionChallenge" where
  "challenge B nonce e =
    \<lparr>xc_nonce = b64_encode B nonce, xc_pairing_code = ee_pending_pairing_code e,
     xc_paired = (ee_public_key e \<noteq> None)\<rparr>"

definition extension_transcript :: "(bytes \<Rightarrow> bytes) \<Rightarrow> string \<Rightarrow> string \<Rightarrow> string \<Rightarrow> bytes" where
  "extension_transcript sha256 nonce extension_id public_key =
    compute_context_digest sha256
      [as_bytes ''secretctl-extension-session-v1'', as_bytes nonce, as_bytes extension_id, as_bytes public_key]"

definition verify_and_enroll ::
    "(bytes \<Rightarrow> bytes) \<Rightarrow> ed25519 \<Rightarrow> base64 \<Rightarrow> ExtensionEnrollment \<Rightarrow> string \<Rightarrow> ExtensionProof
     \<Rightarrow> string + (string \<times> ExtensionEnrollment)" where
  "verify_and_enroll sha256 E B e expected_nonce proof =
    (if xp_challenge_nonce proof \<noteq> expected_nonce then Inl ''extension challenge replay rejected''
     else try_r (b64_decode B (xp_public_key proof)) (\<lambda>public_key.
     if length public_key \<noteq> 32 then Inl ''extension public key rejected''
     else try_r (case ee_public_key e of
            Some enrolled \<Rightarrow> (if enrolled \<noteq> public_key then Inl ''extension enrollment key changed'' else Inr ())
          | None \<Rightarrow> (if ee_pending_pairing_code e \<noteq> xp_pairing_code proof
                    then Inl ''extension pairing code rejected'' else Inr ())) (\<lambda>_.
     let transcript = extension_transcript sha256 expected_nonce (ee_extension_id e) (xp_public_key proof) in
     try_r (b64_decode B (xp_signature proof)) (\<lambda>sig.
     try_r (map_err (\<lambda>_. ''extension challenge signature rejected'') (verify_signature E public_key transcript sig)) (\<lambda>_.
     let e' = (if ee_public_key e = None
               then e\<lparr>ee_public_key := Some public_key, ee_pending_pairing_code := None\<rparr> else e) in
     Inr (''extkey_'' @ b64_encode B (take 18 (sha256 public_key)), e'))))))"

text \<open>
  A sequence of attempts against one enrollment: a failed attempt leaves it as it was (the caller
  returns before it writes the file).  The result lists the key of every attempt that succeeded.
\<close>

fun attempts ::
    "(bytes \<Rightarrow> bytes) \<Rightarrow> ed25519 \<Rightarrow> base64 \<Rightarrow> ExtensionEnrollment \<Rightarrow> (string \<times> ExtensionProof) list
     \<Rightarrow> bytes list \<times> ExtensionEnrollment" where
  "attempts H E B e [] = ([], e)"
| "attempts H E B e ((n, p) # ps) =
    (case verify_and_enroll H E B e n p of
       Inl _ \<Rightarrow> attempts H E B e ps
     | Inr (_, e') \<Rightarrow>
        (case b64_decode B (xp_public_key p) of
           Inl _ \<Rightarrow> attempts H E B e' ps
         | Inr k \<Rightarrow> (let (ks, e'') = attempts H E B e' ps in (k # ks, e''))))"

lemma verify_and_enroll_ok:
  assumes "verify_and_enroll H E B e n p = Inr (i, e')"
  obtains k sig where "b64_decode B (xp_public_key p) = Inr k" "length k = 32" "xp_challenge_nonce p = n"
    "ee_public_key e = Some k \<or> ee_public_key e = None \<and> ee_pending_pairing_code e = xp_pairing_code p"
    "b64_decode B (xp_signature p) = Inr sig"
    "verify_signature E k (extension_transcript H n (ee_extension_id e) (xp_public_key p)) sig = Inr ()"
    "ee_public_key e' = Some k" "ee_extension_id e' = ee_extension_id e"
    "ee_public_key e = Some k \<Longrightarrow> e' = e"
  using assms
  by (auto simp: verify_and_enroll_def try_r_Inr_iff Let_def split: if_splits option.splits)

lemma attempts_enrolled:
  "ee_public_key e = Some k \<Longrightarrow> attempts H E B e ps = (ks, e')
   \<Longrightarrow> set ks \<subseteq> {k} \<and> e' = e"
proof (induction ps arbitrary: ks e')
  case Nil
  then show ?case by simp
next
  case (Cons q ps)
  obtain n p where q: "q = (n, p)" by (cases q)
  show ?case
  proof (cases "verify_and_enroll H E B e n p")
    case (Inl a)
    then show ?thesis using Cons q by simp
  next
    case (Inr r)
    obtain i e1 where r: "r = (i, e1)" by (cases r)
    with Inr obtain k' where k': "b64_decode B (xp_public_key p) = Inr k'" "ee_public_key e = Some k'" "e1 = e"
      using Cons.prems(1) by (auto elim!: verify_and_enroll_ok)
    then show ?thesis using Cons q Inr r by (auto split: prod.splits)
  qed
qed

section \<open>Properties\<close>

text \<open>
  Extension keys are pinned on first use.  Over any sequence of attempts, valid or forged, all
  the attempts that succeed used one and the same key; the first of them had to present the pairing
  code; and every success carried a signature by that key over the nonce of its own challenge.
\<close>

theorem extension_key_pinned:
  "(attempts H E B e ps = (ks, e') \<longrightarrow> (\<exists>k. set ks \<subseteq> {k}) \<and> (ks \<noteq> [] \<longrightarrow> ee_public_key e' = Some (hd ks)))
   \<and> (verify_and_enroll H E B e n p = Inr (i, e1) \<longrightarrow> xp_challenge_nonce p = n
       \<and> (ee_public_key e = None \<longrightarrow> xp_pairing_code p = ee_pending_pairing_code e)
       \<and> (\<exists>k sig. ee_public_key e1 = Some k \<and> b64_decode B (xp_public_key p) = Inr k
            \<and> b64_decode B (xp_signature p) = Inr sig
            \<and> verify_signature E k (extension_transcript H n (ee_extension_id e) (xp_public_key p)) sig = Inr ()))"
proof
  show "attempts H E B e ps = (ks, e') \<longrightarrow> (\<exists>k. set ks \<subseteq> {k}) \<and> (ks \<noteq> [] \<longrightarrow> ee_public_key e' = Some (hd ks))"
  proof (induction ps arbitrary: ks)
    case Nil
    then show ?case by simp
  next
    case (Cons q ps)
    obtain m r where q: "q = (m, r)" by (cases q)
    show ?case
    proof (cases "verify_and_enroll H E B e m r")
      case (Inl a)
      then show ?thesis using Cons q by simp
    next
      case (Inr x)
      obtain j e1 where x: "x = (j, e1)" by (cases x)
      with Inr obtain k where k: "b64_decode B (xp_public_key r) = Inr k" "ee_public_key e1 = Some k"
        by (auto elim!: verify_and_enroll_ok)
      obtain ks1 e2 where a: "attempts H E B e1 ps = (ks1, e2)" by fastforce
      from attempts_enrolled[OF k(2) a] show ?thesis using q Inr x k a by auto
    qed
  qed
  show "verify_and_enroll H E B e n p = Inr (i, e1) \<longrightarrow> xp_challenge_nonce p = n
       \<and> (ee_public_key e = None \<longrightarrow> xp_pairing_code p = ee_pending_pairing_code e)
       \<and> (\<exists>k sig. ee_public_key e1 = Some k \<and> b64_decode B (xp_public_key p) = Inr k
            \<and> b64_decode B (xp_signature p) = Inr sig
            \<and> verify_signature E k (extension_transcript H n (ee_extension_id e) (xp_public_key p)) sig = Inr ())"
    by (auto elim!: verify_and_enroll_ok)
qed

theorem extension_key_pinned_witness:
  "let k = replicate 32 1; pk = b64_encode plain_base64 k;
       e = \<lparr>ee_extension_id = ''x'', ee_public_key = None, ee_pending_pairing_code = Some ''123456''\<rparr>;
       p = \<lparr>xp_public_key = pk, xp_challenge_nonce = ''n'', xp_signature = b64_encode plain_base64
              (ed_sign plain_ed25519 k (extension_transcript id ''n'' ''x'' pk)), xp_pairing_code = Some ''123456''\<rparr>
   in is_ok (verify_and_enroll id plain_ed25519 plain_base64 e ''n'' p)
      \<and> xp_pairing_code p = ee_pending_pairing_code e"
proof -
  let ?k = "replicate 32 1 :: bytes" and ?pk = "b64_encode plain_base64 (replicate 32 1)"
  let ?t = "extension_transcript id ''n'' ''x'' ?pk"
  let ?e = "\<lparr>ee_extension_id = ''x'', ee_public_key = None, ee_pending_pairing_code = Some ''123456''\<rparr>"
  let ?p = "\<lparr>xp_public_key = ?pk, xp_challenge_nonce = ''n'', xp_signature = b64_encode plain_base64
              (ed_sign plain_ed25519 ?k ?t), xp_pairing_code = Some ''123456''\<rparr>"
  have rt: "b64_decode plain_base64 (b64_encode plain_base64 x) = Inr x" for x
    using plain_base64_laws by (simp add: base64_laws_def)
  have pub: "ed_public plain_ed25519 ?k = ?k" by (simp add: plain_ed25519_def)
  have v: "verify_signature plain_ed25519 ?k ?t (ed_sign plain_ed25519 ?k ?t) = Inr ()"
    using verify_signature_sign[OF plain_ed25519_laws, of ?k ?t] unfolding pub .
  obtain i e1 where r: "verify_and_enroll id plain_ed25519 plain_base64 ?e ''n'' ?p = Inr (i, e1)"
    by (simp add: verify_and_enroll_def rt v)
  then have "xp_pairing_code ?p = ee_pending_pairing_code ?e"
    using extension_key_pinned[of id plain_ed25519 plain_base64 ?e "[]" "[]" ?e "''n''" ?p i e1] by simp
  then show ?thesis using r by (simp add: Let_def)
qed

end
