(* ===== verification/Capability_Token.thy ===== *)
theory Capability_Token
  imports Domain_Entities Crypto
begin

text \<open>
  Capability tokens (\<open>secretctl-capability/src/token.rs\<close>): the claims, their wire form, the COSE
  envelope, minting, and verification.

  Everything the file takes from other crates is a field of the record \<open>cap_env\<close>: SHA-256, Ed25519,
  Base64, \<open>Url::parse\<close>, the printer of timestamps, and CBOR.  CBOR appears twice in the source: as a
  stream of data items written and read one by one (\<open>minicbor::Encoder\<close> and \<open>Decoder\<close>), here
  \<open>ce_put\<close> and \<open>ce_get\<close>, and as the derived codec of the wire struct, here \<open>ce_wire_to_vec\<close> and
  \<open>ce_wire_decode\<close>.  \<open>cap_env_laws\<close> states what the code relies on.
\<close>

section \<open>Claims\<close>

record CapabilityClaimsWire =
  w_v :: u8
  w_aud :: string
  w_jti :: string
  w_req_id :: string
  w_agent_id :: string
  w_cred_id :: string
  w_action :: string
  w_top_origin :: string
  w_frame_origin :: string
  w_browser_session_id :: string
  w_extension_key_id :: string
  w_tab_id :: u32
  w_frame_id :: u32
  w_document_id :: string
  w_navigation_epoch :: u64
  w_recipe_id :: string
  w_recipe_hash :: bytes
  w_policy_hash :: bytes
  w_nbf :: int
  w_iat :: int
  w_consume_deadline :: int
  w_max_uses :: u32
  w_issuer_key_id :: string
  w_execution_deadline :: int
  w_flow_id :: "string option"
  w_step_id :: "string option"
  w_step_deadline :: "int option"

record CapabilityClaims =
  cl_v :: u8
  cl_aud :: string
  cl_jti :: CapabilityId
  cl_req_id :: RequestId
  cl_agent_id :: AgentId
  cl_cred_id :: CredentialId
  cl_action :: ActionKind
  cl_top_origin :: CanonicalOrigin
  cl_frame_origin :: CanonicalOrigin
  cl_browser_session_id :: BrowserSessionId
  cl_extension_key_id :: string
  cl_tab_id :: u32
  cl_frame_id :: u32
  cl_document_id :: string
  cl_navigation_epoch :: u64
  cl_recipe_id :: RecipeId
  cl_recipe_hash :: bytes
  cl_policy_hash :: bytes
  cl_nbf :: int
  cl_iat :: int
  cl_consume_deadline :: int
  cl_execution_deadline :: int
  cl_step_deadline :: "int option"
  cl_flow_id :: "FlowId option"
  cl_step_id :: "FlowStepId option"
  cl_max_uses :: u32
  cl_issuer_key_id :: string

datatype CapabilityError =
    Expired string
  | InvalidSignature
  | AlreadyConsumed u32 u32
  | Revoked string
  | BindingMismatch string string string
  | EpochMismatch u64 u64
  | Serialization string

section \<open>What the code takes from other crates\<close>

datatype cbor_item =
    CArray "nat option"
  | CMap "nat option"
  | CInt int
  | CBytes bytes
  | CStr string

record cap_env =
  ce_sha256 :: "bytes \<Rightarrow> bytes"
  ce_ed :: ed25519
  ce_b64 :: base64
  ce_url_parse :: url_parser
  ce_show_datetime :: "datetime \<Rightarrow> string"
  ce_put :: "cbor_item \<Rightarrow> bytes"
  ce_get :: "bytes \<Rightarrow> string + (cbor_item \<times> bytes)"
  ce_wire_to_vec :: "CapabilityClaimsWire \<Rightarrow> bytes"
  ce_wire_decode :: "bytes \<Rightarrow> string + CapabilityClaimsWire"

definition cap_env_laws :: "cap_env \<Rightarrow> bool" where
  "cap_env_laws V = (ed25519_laws (ce_ed V) \<and> base64_laws (ce_b64 V)
     \<and> (\<forall>i r. ce_get V (ce_put V i @ r) = Inr (i, r))
     \<and> (\<forall>w. ce_wire_decode V (ce_wire_to_vec V w) = Inr w))"

section \<open>Conversions\<close>

text \<open>The \<open>Display\<close> of \<open>DomainError\<close>.\<close>

fun DomainError_to_string :: "DomainError \<Rightarrow> string" where
  "DomainError_to_string (InvalidId s) = ''Invalid ID format: '' @ s"
| "DomainError_to_string (InvalidOrigin s) = ''Invalid origin: '' @ s"
| "DomainError_to_string (InvalidStateTransition a b) = ''Invalid state transition from '' @ a @ '' to '' @ b"
| "DomainError_to_string (InvalidAction s) = ''Invalid action: '' @ s"
| "DomainError_to_string (DomainExpired s) = ''Expired: '' @ s"
| "DomainError_to_string (ExceededMaxUses n) = ''Exceeded maximum uses: '' @ show_nat (unat n)"
| "DomainError_to_string (DomainError.EpochMismatch a b) =
    ''Epoch mismatch: expected '' @ show_nat (unat a) @ '', got '' @ show_nat (unat b)"
| "DomainError_to_string (OriginMismatch a b) = ''Origin mismatch: expected '' @ a @ '', got '' @ b"
| "DomainError_to_string (SessionMismatch a b) = ''Session mismatch: expected '' @ a @ '', got '' @ b"
| "DomainError_to_string (SecurityInvariantViolation s) = ''Security invariant violation: '' @ s"

definition wire_of_claims :: "CapabilityClaims \<Rightarrow> CapabilityClaimsWire" where
  "wire_of_claims c =
    \<lparr>w_v = cl_v c, w_aud = cl_aud c, w_jti = cl_jti c, w_req_id = cl_req_id c, w_agent_id = cl_agent_id c,
     w_cred_id = cl_cred_id c, w_action = ActionKind_as_str (cl_action c),
     w_top_origin = origin_as_str (cl_top_origin c), w_frame_origin = origin_as_str (cl_frame_origin c),
     w_browser_session_id = cl_browser_session_id c, w_extension_key_id = cl_extension_key_id c,
     w_tab_id = cl_tab_id c, w_frame_id = cl_frame_id c, w_document_id = cl_document_id c,
     w_navigation_epoch = cl_navigation_epoch c, w_recipe_id = cl_recipe_id c,
     w_recipe_hash = cl_recipe_hash c, w_policy_hash = cl_policy_hash c, w_nbf = cl_nbf c, w_iat = cl_iat c,
     w_consume_deadline = cl_consume_deadline c, w_max_uses = cl_max_uses c,
     w_issuer_key_id = cl_issuer_key_id c, w_execution_deadline = cl_execution_deadline c,
     w_flow_id = cl_flow_id c, w_step_id = cl_step_id c, w_step_deadline = cl_step_deadline c\<rparr>"

definition cap_invalid :: "DomainError + 'a \<Rightarrow> CapabilityError + 'a" where
  "cap_invalid r = map_err (\<lambda>e. Serialization (DomainError_to_string e)) r"

definition parse_opt :: "string \<Rightarrow> string option \<Rightarrow> CapabilityError + string option" where
  "parse_opt pre x = (case x of
     None \<Rightarrow> Inr None
   | Some s \<Rightarrow> try_r (cap_invalid (id_parse pre s)) (\<lambda>i. Inr (Some i)))"

definition claims_of_wire :: "cap_env \<Rightarrow> CapabilityClaimsWire \<Rightarrow> CapabilityError + CapabilityClaims" where
  "claims_of_wire V w =
    try_r (cap_invalid (id_parse ''cap'' (w_jti w))) (\<lambda>jti.
    try_r (cap_invalid (id_parse ''req'' (w_req_id w))) (\<lambda>req_id.
    try_r (cap_invalid (id_parse ''agent'' (w_agent_id w))) (\<lambda>agent_id.
    try_r (cap_invalid (id_parse ''cred'' (w_cred_id w))) (\<lambda>cred_id.
    try_r (cap_invalid (ActionKind_from_str (w_action w))) (\<lambda>action.
    try_r (cap_invalid (origin_parse (ce_url_parse V) (w_top_origin w))) (\<lambda>top_origin.
    try_r (cap_invalid (origin_parse (ce_url_parse V) (w_frame_origin w))) (\<lambda>frame_origin.
    try_r (cap_invalid (id_parse ''bs'' (w_browser_session_id w))) (\<lambda>browser_session_id.
    try_r (cap_invalid (id_parse ''rcp'' (w_recipe_id w))) (\<lambda>recipe_id.
    try_r (parse_opt ''flw'' (w_flow_id w)) (\<lambda>flow_id.
    try_r (parse_opt ''stp'' (w_step_id w)) (\<lambda>step_id.
    Inr \<lparr>cl_v = w_v w, cl_aud = w_aud w, cl_jti = jti, cl_req_id = req_id, cl_agent_id = agent_id,
         cl_cred_id = cred_id, cl_action = action, cl_top_origin = top_origin, cl_frame_origin = frame_origin,
         cl_browser_session_id = browser_session_id, cl_extension_key_id = w_extension_key_id w,
         cl_tab_id = w_tab_id w, cl_frame_id = w_frame_id w, cl_document_id = w_document_id w,
         cl_navigation_epoch = w_navigation_epoch w, cl_recipe_id = recipe_id,
         cl_recipe_hash = w_recipe_hash w, cl_policy_hash = w_policy_hash w, cl_nbf = w_nbf w, cl_iat = w_iat w,
         cl_consume_deadline = w_consume_deadline w, cl_execution_deadline = w_execution_deadline w,
         cl_step_deadline = w_step_deadline w, cl_flow_id = flow_id, cl_step_id = step_id,
         cl_max_uses = w_max_uses w, cl_issuer_key_id = w_issuer_key_id w\<rparr>)))))))))))"

section \<open>The COSE envelope\<close>

definition COSE_ALG_EDDSA :: int where
  "COSE_ALG_EDDSA = -8"

definition put_all :: "cap_env \<Rightarrow> cbor_item list \<Rightarrow> bytes" where
  "put_all V items = concat (map (ce_put V) items)"

definition protected_header :: "cap_env \<Rightarrow> string \<Rightarrow> bytes" where
  "protected_header V key_id =
    put_all V [CMap (Some 2), CInt 1, CInt COSE_ALG_EDDSA, CInt 4, CStr key_id]"

definition signature_structure :: "cap_env \<Rightarrow> bytes \<Rightarrow> bytes \<Rightarrow> bytes" where
  "signature_structure V protected payload =
    put_all V [CArray (Some 4), CStr ''Signature1'', CBytes protected, CBytes [], CBytes payload]"

definition encode_cose_sign1 :: "cap_env \<Rightarrow> CapabilityClaims \<Rightarrow> bytes \<Rightarrow> bytes" where
  "encode_cose_sign1 V claims broker_key =
    (let payload = ce_wire_to_vec V (wire_of_claims claims);
         protected = protected_header V (cl_issuer_key_id claims);
         signature = ed_sign (ce_ed V) broker_key (signature_structure V protected payload)
     in put_all V [CArray (Some 4), CBytes protected, CMap (Some 0), CBytes payload, CBytes signature])"

record DecodedCoseSign1 =
  dc_claims :: CapabilityClaims
  dc_protected :: bytes
  dc_payload :: bytes
  dc_signature :: bytes

text \<open>The typed reads of the decoder; a data item of another type is an error.\<close>

definition get_item :: "cap_env \<Rightarrow> (cbor_item \<Rightarrow> 'a option) \<Rightarrow> bytes \<Rightarrow> CapabilityError + ('a \<times> bytes)" where
  "get_item V want bs =
    try_r (map_err Serialization (ce_get V bs)) (\<lambda>(i, r).
    try_r (ok_or (Serialization ''unexpected type'') (want i)) (\<lambda>x. Inr (x, r)))"

definition want_array :: "cbor_item \<Rightarrow> nat option option" where
  "want_array i = (case i of CArray n \<Rightarrow> Some n | _ \<Rightarrow> None)"

definition want_map :: "cbor_item \<Rightarrow> nat option option" where
  "want_map i = (case i of CMap n \<Rightarrow> Some n | _ \<Rightarrow> None)"

definition want_u8 :: "cbor_item \<Rightarrow> int option" where
  "want_u8 i = (case i of CInt n \<Rightarrow> if 0 \<le> n \<and> n < 256 then Some n else None | _ \<Rightarrow> None)"

definition want_i8 :: "cbor_item \<Rightarrow> int option" where
  "want_i8 i = (case i of CInt n \<Rightarrow> if -128 \<le> n \<and> n < 128 then Some n else None | _ \<Rightarrow> None)"

definition want_bytes :: "cbor_item \<Rightarrow> bytes option" where
  "want_bytes i = (case i of CBytes b \<Rightarrow> Some b | _ \<Rightarrow> None)"

definition want_str :: "cbor_item \<Rightarrow> string option" where
  "want_str i = (case i of CStr s \<Rightarrow> Some s | _ \<Rightarrow> None)"

text \<open>The protected header, read back; the \<open>||\<close> of its tests stops at the first that fails.\<close>

definition decode_header :: "cap_env \<Rightarrow> bytes \<Rightarrow> CapabilityError + string" where
  "decode_header V protected =
    (let unsupported = Inl (Serialization ''unsupported COSE protected header'') in
     try_r (get_item V want_map protected) (\<lambda>(n, h1). if n \<noteq> Some 2 then unsupported else
     try_r (get_item V want_u8 h1) (\<lambda>(a, h2). if a \<noteq> 1 then unsupported else
     try_r (get_item V want_i8 h2) (\<lambda>(alg, h3). if alg \<noteq> COSE_ALG_EDDSA then unsupported else
     try_r (get_item V want_u8 h3) (\<lambda>(b, h4). if b \<noteq> 4 then unsupported else
     try_r (get_item V want_str h4) (\<lambda>(key_id, h5).
     if h5 \<noteq> [] \<or> protected_header V key_id \<noteq> protected
     then Inl (Serialization ''non-canonical COSE protected header'')
     else Inr key_id))))))"

definition decode_cose_sign1 :: "cap_env \<Rightarrow> string \<Rightarrow> CapabilityError + DecodedCoseSign1" where
  "decode_cose_sign1 V token =
    try_r (map_err Serialization (b64_decode (ce_b64 V) token)) (\<lambda>token_bytes.
    try_r (get_item V want_array token_bytes) (\<lambda>(n, t1).
    if n \<noteq> Some 4 then Inl (Serialization ''COSE_Sign1 must be a four-item array'') else
    try_r (get_item V want_bytes t1) (\<lambda>(protected, t2).
    try_r (get_item V want_map t2) (\<lambda>(k, t3).
    if k \<noteq> Some 0 then Inl (Serialization ''COSE unprotected header must be empty'') else
    try_r (get_item V want_bytes t3) (\<lambda>(payload, t4).
    try_r (get_item V want_bytes t4) (\<lambda>(sig, t5).
    if t5 \<noteq> [] then Inl (Serialization ''trailing capability token data'') else
    try_r (decode_header V protected) (\<lambda>key_id.
    try_r (map_err Serialization (ce_wire_decode V payload)) (\<lambda>wire.
    if ce_wire_to_vec V wire \<noteq> payload then Inl (Serialization ''non-canonical capability payload'') else
    try_r (claims_of_wire V wire) (\<lambda>claims.
    if cl_issuer_key_id claims \<noteq> key_id then Inl InvalidSignature
    else Inr \<lparr>dc_claims = claims, dc_protected = protected, dc_payload = payload,
              dc_signature = sig\<rparr>)))))))))"

section \<open>Minting\<close>

text \<open>
  \<open>issued_at + chrono::Duration::seconds(ttl as i64)\<close>.  The cast reinterprets the bits;
  \<open>Duration::seconds\<close> panics beyond \<open>i64::MAX / 1000\<close> and the addition panics outside the range of
  \<open>DateTime<Utc>\<close>, both shown as \<open>None\<close>.
\<close>

definition nanos :: int where
  "nanos = 1000000000"

definition timestamp :: "datetime \<Rightarrow> int" where
  "timestamp t = t div nanos"

definition add_seconds :: "datetime \<Rightarrow> int \<Rightarrow> datetime option" where
  "add_seconds t s =
    (if \<bar>s\<bar> > (2 ^ 63 - 1) div 1000 then None
     else let u = t + s * nanos in
     if timestamp u < -8334601228800 \<or> timestamp u > 8210266876799 then None else Some u)"

definition add_ttl :: "datetime \<Rightarrow> u64 \<Rightarrow> datetime option" where
  "add_ttl t ttl = add_seconds t (sint ttl)"

record MintArgs =
  ma_issuer_key_id :: string
  ma_request_id :: RequestId
  ma_agent_id :: AgentId
  ma_credential_id :: CredentialId
  ma_action :: ActionKind
  ma_top_origin :: CanonicalOrigin
  ma_frame_origin :: CanonicalOrigin
  ma_browser_session_id :: BrowserSessionId
  ma_extension_key_id :: string
  ma_tab_id :: u32
  ma_frame_id :: u32
  ma_document_id :: string
  ma_navigation_epoch :: u64
  ma_recipe_id :: RecipeId
  ma_recipe_hash :: bytes
  ma_policy_hash :: bytes
  ma_issued_at :: datetime
  ma_deadlines :: CapabilityDeadlines
  ma_flow :: "FlowBinding option"
  ma_max_uses :: u32

definition mint_claims :: "MintArgs \<Rightarrow> CapabilityId \<Rightarrow> datetime \<Rightarrow> datetime \<Rightarrow> datetime option \<Rightarrow> CapabilityClaims" where
  "mint_claims a capability_id consume_deadline execution_deadline step_deadline =
    \<lparr>cl_v = 1, cl_aud = ''secretctl:browser-runtime'', cl_jti = capability_id, cl_req_id = ma_request_id a,
     cl_agent_id = ma_agent_id a, cl_cred_id = ma_credential_id a, cl_action = ma_action a,
     cl_top_origin = ma_top_origin a, cl_frame_origin = ma_frame_origin a,
     cl_browser_session_id = ma_browser_session_id a, cl_extension_key_id = ma_extension_key_id a,
     cl_tab_id = ma_tab_id a, cl_frame_id = ma_frame_id a, cl_document_id = ma_document_id a,
     cl_navigation_epoch = ma_navigation_epoch a, cl_recipe_id = ma_recipe_id a,
     cl_recipe_hash = ma_recipe_hash a, cl_policy_hash = ma_policy_hash a,
     cl_nbf = timestamp (ma_issued_at a) - 1, cl_iat = timestamp (ma_issued_at a),
     cl_consume_deadline = timestamp consume_deadline,
     cl_execution_deadline = timestamp execution_deadline,
     cl_step_deadline = map_option timestamp step_deadline,
     cl_flow_id = map_option fb_flow_id (ma_flow a), cl_step_id = map_option fb_step_id (ma_flow a),
     cl_max_uses = ma_max_uses a, cl_issuer_key_id = ma_issuer_key_id a\<rparr>"

definition mint_capability ::
    "cap_env \<Rightarrow> bytes \<Rightarrow> string \<Rightarrow> MintArgs \<Rightarrow> (Capability \<times> string) option" where
  "mint_capability V broker_key uuid a =
    (let capability_id = id_new ''cap'' uuid in
     case add_ttl (ma_issued_at a) (dl_consume_ttl_seconds (ma_deadlines a)) of
       None \<Rightarrow> None
     | Some consume_deadline \<Rightarrow>
     (case add_ttl (ma_issued_at a) (dl_execution_ttl_seconds (ma_deadlines a)) of
       None \<Rightarrow> None
     | Some execution_deadline \<Rightarrow>
     (case (case dl_step_ttl_seconds (ma_deadlines a) of
              None \<Rightarrow> Some None
            | Some s \<Rightarrow> map_option Some (add_ttl (ma_issued_at a) s)) of
       None \<Rightarrow> None
     | Some step_deadline \<Rightarrow>
     (let claims = mint_claims a capability_id consume_deadline execution_deadline step_deadline;
          token = b64_encode (ce_b64 V) (encode_cose_sign1 V claims broker_key)
      in Some
       (\<lparr>cap_capability_id = capability_id, cap_request_id = ma_request_id a, cap_agent_id = ma_agent_id a,
         cap_credential_id = ma_credential_id a, cap_action = ma_action a, cap_top_origin = ma_top_origin a,
         cap_frame_origin = ma_frame_origin a, cap_browser_session_id = ma_browser_session_id a,
         cap_extension_key_id = ma_extension_key_id a, cap_tab_id = ma_tab_id a, cap_frame_id = ma_frame_id a,
         cap_document_id = ma_document_id a, cap_navigation_epoch = ma_navigation_epoch a,
         cap_recipe_id = ma_recipe_id a, cap_recipe_hash = ma_recipe_hash a,
         cap_policy_hash = ma_policy_hash a, cap_token_hash = ce_sha256 V (as_bytes token),
         cap_state = CapabilityState.Issued, cap_max_uses = ma_max_uses a, cap_used_count = 0,
         cap_issued_at = ma_issued_at a, cap_consume_deadline = consume_deadline,
         cap_execution_deadline = execution_deadline, cap_step_deadline = step_deadline,
         cap_flow_id = map_option fb_flow_id (ma_flow a), cap_step_id = map_option fb_step_id (ma_flow a),
         cap_revoked_reason = None\<rparr>, token)))))"

section \<open>Verification\<close>

definition parse_and_verify_token :: "cap_env \<Rightarrow> string \<Rightarrow> bytes \<Rightarrow> CapabilityError + CapabilityClaims" where
  "parse_and_verify_token V token broker_public_key =
    try_r (decode_cose_sign1 V token) (\<lambda>decoded.
    try_r (map_err (\<lambda>_. InvalidSignature)
             (verify_signature (ce_ed V) broker_public_key
                (signature_structure V (dc_protected decoded) (dc_payload decoded)) (dc_signature decoded)))
      (\<lambda>_. Inr (dc_claims decoded)))"

definition parse_and_verify_token_with_keys ::
    "cap_env \<Rightarrow> string \<Rightarrow> (string \<times> bytes) list \<Rightarrow> CapabilityError + CapabilityClaims" where
  "parse_and_verify_token_with_keys V token active_keys =
    try_r (decode_cose_sign1 V token) (\<lambda>decoded.
    let unverified = dc_claims decoded in
    try_r (ok_or InvalidSignature (map_of active_keys (cl_issuer_key_id unverified))) (\<lambda>public_key.
    if length public_key \<noteq> 32 then Inl InvalidSignature else
    try_r (parse_and_verify_token V token public_key) (\<lambda>verified.
    if cl_issuer_key_id verified \<noteq> cl_issuer_key_id unverified then Inl InvalidSignature
    else Inr verified)))"

section \<open>Round trips of the envelope\<close>

lemma put_all_simps [simp]:
  "put_all V [] = []"
  "put_all V (i # is) = ce_put V i @ put_all V is"
  by (simp_all add: put_all_def)

lemma cap_env_lawsD:
  assumes "cap_env_laws V"
  shows "ed25519_laws (ce_ed V)" "b64_decode (ce_b64 V) (b64_encode (ce_b64 V) x) = Inr x"
    "ce_get V (ce_put V i @ r) = Inr (i, r)" "ce_wire_decode V (ce_wire_to_vec V w) = Inr w"
  using assms by (simp_all add: cap_env_laws_def base64_laws_def)

lemma get_item_put:
  "cap_env_laws V \<Longrightarrow> want i = Some x \<Longrightarrow> get_item V want (ce_put V i @ r) = Inr (x, r)"
  by (simp add: get_item_def cap_env_lawsD)

lemma ce_put_inject:
  assumes "cap_env_laws V" "ce_put V i @ r = ce_put V j @ t"
  shows "i = j \<and> r = t"
proof -
  have "ce_get V (ce_put V i @ r) = ce_get V (ce_put V j @ t)" using assms(2) by simp
  then show ?thesis by (simp add: cap_env_lawsD(3)[OF assms(1)])
qed

lemma put_all_inject:
  assumes "cap_env_laws V"
  shows "length is = length js \<Longrightarrow> put_all V is = put_all V js \<Longrightarrow> is = js"
proof (induction "is" js rule: list_induct2)
  case (Cons i "is" j js)
  then show ?case using ce_put_inject[OF assms, of i "put_all V is" j "put_all V js"] by simp
qed simp

lemma signature_structure_inject:
  "cap_env_laws V \<Longrightarrow> signature_structure V p q = signature_structure V p' q' \<Longrightarrow> p = p' \<and> q = q'"
  unfolding signature_structure_def by (drule (1) put_all_inject[rotated 2]) simp_all

lemma ce_wire_to_vec_inject: "cap_env_laws V \<Longrightarrow> ce_wire_to_vec V w = ce_wire_to_vec V w' \<Longrightarrow> w = w'"
  by (metis cap_env_lawsD(4) Inr_inject)

lemmas want_defs = want_array_def want_map_def want_u8_def want_i8_def want_bytes_def want_str_def

definition origin_stable :: "cap_env \<Rightarrow> CanonicalOrigin \<Rightarrow> bool" where
  "origin_stable V o' = (origin_parse (ce_url_parse V) (origin_as_str o') = Inr o')"

text \<open>Claims whose identifiers carry their prefixes and whose origins read back as themselves.\<close>

definition claims_wf :: "cap_env \<Rightarrow> CapabilityClaims \<Rightarrow> bool" where
  "claims_wf V c = (is_ok (id_parse ''cap'' (cl_jti c)) \<and> is_ok (id_parse ''req'' (cl_req_id c))
     \<and> is_ok (id_parse ''agent'' (cl_agent_id c)) \<and> is_ok (id_parse ''cred'' (cl_cred_id c))
     \<and> is_ok (id_parse ''bs'' (cl_browser_session_id c)) \<and> is_ok (id_parse ''rcp'' (cl_recipe_id c))
     \<and> origin_stable V (cl_top_origin c) \<and> origin_stable V (cl_frame_origin c)
     \<and> is_none_or (cl_flow_id c) (\<lambda>f. is_ok (id_parse ''flw'' f))
     \<and> is_none_or (cl_step_id c) (\<lambda>f. is_ok (id_parse ''stp'' f)))"

lemma id_parse_self: "is_ok (id_parse p s) \<longleftrightarrow> id_parse p s = Inr s"
  by (metis id_parse_Inr is_ok_iff)

lemma parse_opt_self:
  "is_none_or x (\<lambda>f. is_ok (id_parse p f)) \<Longrightarrow> parse_opt p x = Inr x"
  by (cases x) (auto simp: parse_opt_def id_parse_self cap_invalid_def)

lemma claims_roundtrip: "claims_wf V c \<Longrightarrow> claims_of_wire V (wire_of_claims c) = Inr c"
  by (simp add: claims_wf_def claims_of_wire_def wire_of_claims_def id_parse_self cap_invalid_def
      origin_stable_def parse_opt_self action_codec.from_as)

lemma decode_header_put:
  "cap_env_laws V \<Longrightarrow> decode_header V (protected_header V k) = Inr k"
  by (simp add: decode_header_def protected_header_def get_item_put want_defs COSE_ALG_EDDSA_def
      get_item_put[where r = "[]", simplified])

lemma decode_encode_cose:
  assumes "cap_env_laws V" "claims_wf V c"
  shows "decode_cose_sign1 V (b64_encode (ce_b64 V) (encode_cose_sign1 V c key)) =
    Inr \<lparr>dc_claims = c, dc_protected = protected_header V (cl_issuer_key_id c),
         dc_payload = ce_wire_to_vec V (wire_of_claims c),
         dc_signature = ed_sign (ce_ed V) key (signature_structure V (protected_header V (cl_issuer_key_id c))
                          (ce_wire_to_vec V (wire_of_claims c)))\<rparr>"
  using assms
  by (simp add: decode_cose_sign1_def encode_cose_sign1_def Let_def cap_env_lawsD get_item_put want_defs
      get_item_put[where r = "[]", simplified] decode_header_put claims_roundtrip)

lemma decode_header_canonical:
  "decode_header V p = Inr k \<Longrightarrow> p = protected_header V k"
  by (auto simp: decode_header_def Let_def try_r_Inr_iff split: if_splits prod.splits)

lemma decode_cose_canonical:
  assumes "decode_cose_sign1 V token = Inr d"
  obtains w where "dc_protected d = protected_header V (cl_issuer_key_id (dc_claims d))"
    "dc_payload d = ce_wire_to_vec V w" "claims_of_wire V w = Inr (dc_claims d)"
  using assms
  by (auto simp: decode_cose_sign1_def try_r_Inr_iff dest: decode_header_canonical split: if_splits prod.splits)

lemma parse_and_verify_ok:
  assumes "parse_and_verify_token V token pk = Inr c"
  obtains d w where "decode_cose_sign1 V token = Inr d" "dc_claims d = c"
    "claims_of_wire V w = Inr c"
    "verify_signature (ce_ed V) pk (signature_structure V (protected_header V (cl_issuer_key_id c))
       (ce_wire_to_vec V w)) (dc_signature d) = Inr ()"
proof -
  from assms obtain d where d: "decode_cose_sign1 V token = Inr d" "dc_claims d = c"
    "verify_signature (ce_ed V) pk (signature_structure V (dc_protected d) (dc_payload d)) (dc_signature d) = Inr ()"
    by (auto simp: parse_and_verify_token_def try_r_Inr_iff)
  from d(1) obtain w where "dc_protected d = protected_header V (cl_issuer_key_id (dc_claims d))"
    "dc_payload d = ce_wire_to_vec V w" "claims_of_wire V w = Inr (dc_claims d)"
    by (rule decode_cose_canonical)
  then show ?thesis using d that by simp
qed

lemma with_keys_ok:
  "parse_and_verify_token_with_keys V token keys = Inr c \<longleftrightarrow>
     (\<exists>pk. map_of keys (cl_issuer_key_id c) = Some pk \<and> length pk = 32 \<and> parse_and_verify_token V token pk = Inr c)"
  (is "?l \<longleftrightarrow> ?r")
proof
  assume ?l
  then show ?r
    by (auto simp: parse_and_verify_token_with_keys_def Let_def try_r_Inr_iff split: if_splits)
next
  assume ?r
  then obtain pk where pk: "map_of keys (cl_issuer_key_id c) = Some pk" "length pk = 32"
    "parse_and_verify_token V token pk = Inr c" by blast
  from pk(3) obtain d where "decode_cose_sign1 V token = Inr d" "dc_claims d = c"
    by (rule parse_and_verify_ok)
  then show ?l using pk by (simp add: parse_and_verify_token_with_keys_def)
qed

end
