(* ===== verification/Capability_Verifier.thy ===== *)
theory Capability_Verifier
  imports Capability_Token "HOL-Library.Countable"
begin

text \<open>
  Consumption of a capability (\<open>secretctl-capability/src/verifier.rs\<close>): the token is verified, its
  claims are compared with the stored capability and with the page the executor reports, and the use
  is counted.  The function updates the capability in place, so it is modelled as returning the
  result together with the capability it leaves behind.
\<close>

section \<open>The verifier\<close>

record ExecutionContextSnapshot =
  xs_top_origin :: CanonicalOrigin
  xs_frame_origin :: CanonicalOrigin
  xs_browser_session_id :: BrowserSessionId
  xs_extension_key_id :: string
  xs_tab_id :: u32
  xs_frame_id :: u32
  xs_document_id :: string
  xs_navigation_epoch :: u64

definition verify_and_consume_capability ::
    "cap_env \<Rightarrow> Capability \<Rightarrow> string \<Rightarrow> bytes \<Rightarrow> ExecutionContextSnapshot \<Rightarrow> datetime
     \<Rightarrow> (CapabilityError + CapabilityClaims) \<times> Capability" where
  "verify_and_consume_capability V cap token broker_public_key ctx now =
    (case parse_and_verify_token V token broker_public_key of
       Inl e \<Rightarrow> (Inl e, cap)
     | Inr claims \<Rightarrow>
       if cl_v claims \<noteq> 1 \<or> cl_aud claims \<noteq> ''secretctl:browser-runtime''
       then (Inl (BindingMismatch ''audience'' ''secretctl:browser-runtime'' (cl_aud claims)), cap)
       else if cl_jti claims \<noteq> cap_capability_id cap
       then (Inl (BindingMismatch ''capability_id'' (cap_capability_id cap) (cl_jti claims)), cap)
       else if cl_req_id claims \<noteq> cap_request_id cap \<or> cl_agent_id claims \<noteq> cap_agent_id cap
         \<or> cl_cred_id claims \<noteq> cap_credential_id cap \<or> cl_action claims \<noteq> cap_action cap
         \<or> cl_recipe_id claims \<noteq> cap_recipe_id cap \<or> cl_recipe_hash claims \<noteq> cap_recipe_hash cap
         \<or> cl_policy_hash claims \<noteq> cap_policy_hash cap
       then (Inl (BindingMismatch ''stored_claims'' ''authoritative capability state'' ''signed claims mismatch''), cap)
       else if timestamp now < cl_nbf claims
       then (Inl (BindingMismatch ''not_before'' (show_int (cl_nbf claims)) (show_int (timestamp now))), cap)
       else if timestamp now \<ge> cl_consume_deadline claims \<or> now \<ge> cap_consume_deadline cap
       then (Inl (CapabilityError.Expired (''Capability consume window closed at ''
                    @ ce_show_datetime V (cap_consume_deadline cap))),
             cap\<lparr>cap_state := CapabilityState.Expired\<rparr>)
       else if cap_state cap = CapabilityState.Consumed \<or> cap_used_count cap \<ge> cap_max_uses cap
       then (Inl (AlreadyConsumed (cap_max_uses cap) (cap_used_count cap)), cap)
       else if cap_state cap \<noteq> CapabilityState.Issued \<and> cap_state cap \<noteq> CapabilityState.Active
       then (Inl (CapabilityError.Revoked (''Capability in invalid state: '' @ CapabilityState_as_str (cap_state cap))), cap)
       else if \<not> origin_matches (cl_top_origin claims) (xs_top_origin ctx)
       then (Inl (BindingMismatch ''top_origin'' (origin_as_str (cl_top_origin claims)) (origin_as_str (xs_top_origin ctx))), cap)
       else if \<not> origin_matches (cl_frame_origin claims) (xs_frame_origin ctx)
       then (Inl (BindingMismatch ''frame_origin'' (origin_as_str (cl_frame_origin claims)) (origin_as_str (xs_frame_origin ctx))), cap)
       else if cl_browser_session_id claims \<noteq> xs_browser_session_id ctx
       then (Inl (BindingMismatch ''browser_session_id'' (cl_browser_session_id claims) (xs_browser_session_id ctx)), cap)
       else if cl_extension_key_id claims \<noteq> xs_extension_key_id ctx \<or> cl_tab_id claims \<noteq> xs_tab_id ctx
         \<or> cl_frame_id claims \<noteq> xs_frame_id ctx \<or> cl_document_id claims \<noteq> xs_document_id ctx
       then (Inl (BindingMismatch ''executor_context''
               (cl_extension_key_id claims @ ''/'' @ show_nat (unat (cl_tab_id claims)) @ ''/''
                @ show_nat (unat (cl_frame_id claims)) @ ''/'' @ cl_document_id claims)
               (xs_extension_key_id ctx @ ''/'' @ show_nat (unat (xs_tab_id ctx)) @ ''/''
                @ show_nat (unat (xs_frame_id ctx)) @ ''/'' @ xs_document_id ctx)), cap)
       else if cl_navigation_epoch claims \<noteq> xs_navigation_epoch ctx
       then (Inl (CapabilityError.EpochMismatch (cl_navigation_epoch claims) (xs_navigation_epoch ctx)), cap)
       else let used = cap_used_count cap + 1 in
         (Inr claims, cap\<lparr>cap_used_count := used,
            cap_state := (if used \<ge> cap_max_uses cap then CapabilityState.Consumed else CapabilityState.Active)\<rparr>))"

text \<open>What has to agree for a consumption to be granted.\<close>

definition claims_bind_capability :: "CapabilityClaims \<Rightarrow> Capability \<Rightarrow> bool" where
  "claims_bind_capability c cap =
    (cl_v c = 1 \<and> cl_aud c = ''secretctl:browser-runtime'' \<and> cl_jti c = cap_capability_id cap
     \<and> cl_req_id c = cap_request_id cap \<and> cl_agent_id c = cap_agent_id cap \<and> cl_cred_id c = cap_credential_id cap
     \<and> cl_action c = cap_action cap \<and> cl_recipe_id c = cap_recipe_id cap
     \<and> cl_recipe_hash c = cap_recipe_hash cap \<and> cl_policy_hash c = cap_policy_hash cap)"

definition claims_bind_context :: "CapabilityClaims \<Rightarrow> ExecutionContextSnapshot \<Rightarrow> bool" where
  "claims_bind_context c x =
    (cl_top_origin c = xs_top_origin x \<and> cl_frame_origin c = xs_frame_origin x
     \<and> cl_browser_session_id c = xs_browser_session_id x \<and> cl_extension_key_id c = xs_extension_key_id x
     \<and> cl_tab_id c = xs_tab_id x \<and> cl_frame_id c = xs_frame_id x \<and> cl_document_id c = xs_document_id x
     \<and> cl_navigation_epoch c = xs_navigation_epoch x)"

definition within_window :: "CapabilityClaims \<Rightarrow> Capability \<Rightarrow> datetime \<Rightarrow> bool" where
  "within_window c cap now =
    (cl_nbf c \<le> timestamp now \<and> timestamp now < cl_consume_deadline c \<and> now < cap_consume_deadline cap)"

definition use_left :: "Capability \<Rightarrow> bool" where
  "use_left cap = (cap_state cap \<in> {CapabilityState.Issued, CapabilityState.Active}
                   \<and> cap_used_count cap < cap_max_uses cap)"

definition count_use :: "Capability \<Rightarrow> Capability" where
  "count_use cap = cap\<lparr>cap_used_count := cap_used_count cap + 1,
     cap_state := (if cap_used_count cap + 1 \<ge> cap_max_uses cap then CapabilityState.Consumed
                   else CapabilityState.Active)\<rparr>"

lemma verify_and_consume_iff:
  "verify_and_consume_capability V cap token pk ctx now = (Inr c, cap') \<longleftrightarrow>
     parse_and_verify_token V token pk = Inr c \<and> claims_bind_capability c cap
     \<and> within_window c cap now \<and> use_left cap \<and> claims_bind_context c ctx \<and> cap' = count_use cap"
proof -
  have use: "use_left cap \<longleftrightarrow> \<not> (cap_state cap = CapabilityState.Consumed \<or> cap_used_count cap \<ge> cap_max_uses cap)
      \<and> \<not> (cap_state cap \<noteq> CapabilityState.Issued \<and> cap_state cap \<noteq> CapabilityState.Active)"
    by (auto simp: use_left_def not_le)
  show ?thesis
  proof (cases "parse_and_verify_token V token pk")
    case (Inl e)
    then show ?thesis by (simp add: verify_and_consume_capability_def)
  next
    case (Inr d)
    show ?thesis unfolding use verify_and_consume_capability_def Inr sum.case guard_Inr_iff
        claims_bind_capability_def claims_bind_context_def within_window_def count_use_def Let_def
        origin_matches_iff prod.inject sum.inject
      by (simp only: not_less not_le de_Morgan_disj de_Morgan_conj not_not) blast
  qed
qed

lemma verify_and_consume_error:
  assumes "verify_and_consume_capability V cap token pk ctx now = (Inl e, cap')"
  shows "cap' = cap \<or> (\<exists>m. e = CapabilityError.Expired m) \<and> cap' = cap\<lparr>cap_state := CapabilityState.Expired\<rparr>"
  using assms unfolding verify_and_consume_capability_def Let_def
  by (auto split: sum.splits if_split_asm)

lemma count_use_unat:
  "use_left cap \<Longrightarrow> unat (cap_used_count (count_use cap)) = unat (cap_used_count cap) + 1"
proof -
  assume "use_left cap"
  then have lt: "cap_used_count cap < cap_max_uses cap" by (simp add: use_left_def)
  have "1 + cap_used_count cap \<noteq> 0"
  proof
    assume "1 + cap_used_count cap = 0"
    then have "cap_used_count cap = - 1" by (metis add_eq_0_iff)
    then show False using lt by (metis leD word_n1_ge)
  qed
  then show ?thesis by (simp add: count_use_def add.commute unatSuc)
qed

text \<open>Attempts on one capability: tokens, contexts and times of any kind.\<close>

record attempt =
  at_token :: string
  at_context :: ExecutionContextSnapshot
  at_now :: datetime

definition consume_step :: "cap_env \<Rightarrow> bytes \<Rightarrow> attempt \<Rightarrow> Capability \<Rightarrow> bool \<times> Capability" where
  "consume_step V pk a cap =
    (let (r, cap') = verify_and_consume_capability V cap (at_token a) pk (at_context a) (at_now a)
     in (is_ok r, cap'))"

definition uses_left :: "Capability \<Rightarrow> nat" where
  "uses_left cap = (if use_left cap then unat (cap_max_uses cap) - unat (cap_used_count cap) else 0)"

lemma uses_left_pos: "use_left cap \<Longrightarrow> unat (cap_used_count cap) < unat (cap_max_uses cap)"
  by (simp add: use_left_def word_less_nat_alt)

interpretation capability_budget: budget "consume_step V pk" "\<lambda>_. True" uses_left
proof
  show "True" ..
next
  fix x :: attempt and s s' :: Capability
  assume "consume_step V pk x s = (True, s')"
  then obtain c where "verify_and_consume_capability V s (at_token x) pk (at_context x) (at_now x) = (Inr c, s')"
    by (auto simp: consume_step_def is_ok_iff split: prod.splits)
  then have "use_left s" "s' = count_use s" by (simp_all add: verify_and_consume_iff)
  then show "uses_left s' < uses_left s"
    using uses_left_pos[of s] count_use_unat[of s] by (auto simp: uses_left_def count_use_def)
next
  fix x :: attempt and s s' :: Capability
  assume "consume_step V pk x s = (False, s')"
  then obtain e where "verify_and_consume_capability V s (at_token x) pk (at_context x) (at_now x) = (Inl e, s')"
    by (auto simp: consume_step_def is_ok_def split: prod.splits sum.splits)
  then show "uses_left s' \<le> uses_left s"
    using verify_and_consume_error[of V s] by (fastforce simp: uses_left_def use_left_def)
qed

section \<open>A concrete environment\<close>

text \<open>
  An environment in which all the laws hold, for the witnesses: items and wire structs are numbered
  and written in unary with a closing zero.
\<close>

instance cbor_item :: countable
  by countable_datatype

definition unary :: "nat \<Rightarrow> bytes" where
  "unary n = replicate n 1 @ [0]"

definition read_unary :: "bytes \<Rightarrow> string + (nat \<times> bytes)" where
  "read_unary bs = (case dropWhile (\<lambda>b. b = 1) bs of
     [] \<Rightarrow> Inl ''end of input''
   | b # r \<Rightarrow> Inr (length (takeWhile (\<lambda>b. b = 1) bs), r))"

lemma read_unary_unary [simp]: "read_unary (unary n @ r) = Inr (n, r)"
  by (simp add: read_unary_def unary_def takeWhile_append dropWhile_append)

lemma read_unary_unary' [simp]: "read_unary (unary n) = Inr (n, [])"
  using read_unary_unary[of n "[]"] by simp

definition wire_tuple where
  "wire_tuple w = (w_v w, w_aud w, w_jti w, w_req_id w, w_agent_id w, w_cred_id w, w_action w, w_top_origin w,
     w_frame_origin w, w_browser_session_id w, w_extension_key_id w, w_tab_id w, w_frame_id w, w_document_id w,
     w_navigation_epoch w, w_recipe_id w, w_recipe_hash w, w_policy_hash w, w_nbf w, w_iat w,
     w_consume_deadline w, w_max_uses w, w_issuer_key_id w, w_execution_deadline w, w_flow_id w, w_step_id w,
     w_step_deadline w)"

definition tuple_wire where
  "tuple_wire t = (case t of (a, b, c, d, e, f, g, h, i, j, k, l, m, n, p, q, r, s, t, u, v, w, x, y, z, a', b') \<Rightarrow>
     \<lparr>w_v = a, w_aud = b, w_jti = c, w_req_id = d, w_agent_id = e, w_cred_id = f, w_action = g, w_top_origin = h,
      w_frame_origin = i, w_browser_session_id = j, w_extension_key_id = k, w_tab_id = l, w_frame_id = m,
      w_document_id = n, w_navigation_epoch = p, w_recipe_id = q, w_recipe_hash = r, w_policy_hash = s,
      w_nbf = t, w_iat = u, w_consume_deadline = v, w_max_uses = w, w_issuer_key_id = x,
      w_execution_deadline = y, w_flow_id = z, w_step_id = a', w_step_deadline = b'\<rparr>)"

lemma tuple_wire_tuple: "tuple_wire (wire_tuple w) = w"
  by (simp add: tuple_wire_def wire_tuple_def)

definition plain_cap_env :: cap_env where
  "plain_cap_env =
    \<lparr>ce_sha256 = id, ce_ed = plain_ed25519, ce_b64 = plain_base64, ce_url_parse = plain_url_parse,
     ce_show_datetime = show_int,
     ce_put = (\<lambda>i. unary (to_nat i)),
     ce_get = (\<lambda>bs. try_r (read_unary bs) (\<lambda>(n, r). Inr (from_nat n, r))),
     ce_wire_to_vec = (\<lambda>w. unary (to_nat (wire_tuple w))),
     ce_wire_decode = (\<lambda>bs. try_r (read_unary bs) (\<lambda>(n, r). Inr (tuple_wire (from_nat n))))\<rparr>"

lemma plain_cap_env_laws: "cap_env_laws plain_cap_env"
  by (simp add: cap_env_laws_def plain_cap_env_def plain_ed25519_laws plain_base64_laws tuple_wire_tuple)

section \<open>Properties\<close>

definition mint_args_wf :: "cap_env \<Rightarrow> MintArgs \<Rightarrow> bool" where
  "mint_args_wf V a = (is_ok (id_parse ''req'' (ma_request_id a)) \<and> is_ok (id_parse ''agent'' (ma_agent_id a))
     \<and> is_ok (id_parse ''cred'' (ma_credential_id a)) \<and> is_ok (id_parse ''bs'' (ma_browser_session_id a))
     \<and> is_ok (id_parse ''rcp'' (ma_recipe_id a))
     \<and> origin_stable V (ma_top_origin a) \<and> origin_stable V (ma_frame_origin a)
     \<and> is_none_or (ma_flow a) (\<lambda>f. is_ok (id_parse ''flw'' (fb_flow_id f)) \<and> is_ok (id_parse ''stp'' (fb_step_id f))))"

lemma mint_claims_wf:
  "mint_args_wf V a \<Longrightarrow> uuid \<noteq> [] \<Longrightarrow> claims_wf V (mint_claims a (id_new ''cap'' uuid) d e s)"
  by (cases "ma_flow a") (auto simp: mint_args_wf_def claims_wf_def mint_claims_def)

lemma mint_capability_Some:
  assumes "mint_capability V key uuid a = Some (cap, token)"
  obtains c where "c = mint_claims a (id_new ''cap'' uuid) (cap_consume_deadline cap) (cap_execution_deadline cap)
      (cap_step_deadline cap)"
    "token = b64_encode (ce_b64 V) (encode_cose_sign1 V c key)"
    "cap_token_hash cap = ce_sha256 V (as_bytes token)" "claims_bind_capability c cap"
    "cap_state cap = CapabilityState.Issued" "cap_used_count cap = 0" "cap_max_uses cap = ma_max_uses a"
    "cap_capability_id cap = id_new ''cap'' uuid"
    "add_ttl (ma_issued_at a) (dl_consume_ttl_seconds (ma_deadlines a)) = Some (cap_consume_deadline cap)"
  using assms
  by (auto simp: mint_capability_def Let_def mint_claims_def claims_bind_capability_def split: option.splits)

lemma minted_token_parses:
  assumes "cap_env_laws V" "claims_wf V c"
  shows "parse_and_verify_token V (b64_encode (ce_b64 V) (encode_cose_sign1 V c key)) (ed_public (ce_ed V) key) = Inr c"
  using assms by (simp add: parse_and_verify_token_def decode_encode_cose cap_env_lawsD(1))

text \<open>
  C21.  A minted token verifies under the key set that holds the issuer's public key and yields claims
  bound to the stored capability, whose token hash is that of the token.  Its first consumption succeeds
  exactly inside the release window, on the very page (origins, session, extension, tab, frame, document,
  navigation epoch) it was minted for, provided it allows a use at all.
\<close>

theorem minted_token_roundtrip:
  assumes "cap_env_laws V" and "mint_capability V key uuid a = Some (cap, token)"
    and "mint_args_wf V a" and "uuid \<noteq> []"
    and "map_of keys (ma_issuer_key_id a) = Some (ed_public (ce_ed V) key)"
  shows "\<exists>c. parse_and_verify_token_with_keys V token keys = Inr c
     \<and> claims_bind_capability c cap \<and> cl_max_uses c = ma_max_uses a
     \<and> cap_token_hash cap = ce_sha256 V (as_bytes token)
     \<and> (\<forall>ctx now. is_ok (fst (verify_and_consume_capability V cap token (ed_public (ce_ed V) key) ctx now))
          \<longleftrightarrow> ctx = \<lparr>xs_top_origin = ma_top_origin a, xs_frame_origin = ma_frame_origin a,
                xs_browser_session_id = ma_browser_session_id a, xs_extension_key_id = ma_extension_key_id a,
                xs_tab_id = ma_tab_id a, xs_frame_id = ma_frame_id a, xs_document_id = ma_document_id a,
                xs_navigation_epoch = ma_navigation_epoch a\<rparr> \<and> within_window c cap now \<and> 0 < ma_max_uses a)"
proof -
  from assms(2) obtain c where c: "c = mint_claims a (id_new ''cap'' uuid) (cap_consume_deadline cap)
        (cap_execution_deadline cap) (cap_step_deadline cap)"
    "token = b64_encode (ce_b64 V) (encode_cose_sign1 V c key)"
    "cap_token_hash cap = ce_sha256 V (as_bytes token)" "claims_bind_capability c cap"
    "cap_state cap = CapabilityState.Issued" "cap_used_count cap = 0" "cap_max_uses cap = ma_max_uses a"
    by (rule mint_capability_Some)
  have wf: "claims_wf V c" using mint_claims_wf[OF assms(3,4)] c(1) by simp
  have p: "parse_and_verify_token V token (ed_public (ce_ed V) key) = Inr c"
    using minted_token_parses[OF assms(1) wf] c(2) by simp
  have "length (ed_public (ce_ed V) key) = 32"
    using cap_env_lawsD(1)[OF assms(1)] by (simp add: ed25519_laws_def)
  then have k: "parse_and_verify_token_with_keys V token keys = Inr c"
    using p assms(5) c(1) by (auto simp: with_keys_ok mint_claims_def)
  have u: "use_left cap \<longleftrightarrow> 0 < ma_max_uses a" using c(5,6,7) by (simp add: use_left_def)
  have v: "is_ok (fst (verify_and_consume_capability V cap token (ed_public (ce_ed V) key) ctx now))
      \<longleftrightarrow> claims_bind_context c ctx \<and> within_window c cap now \<and> 0 < ma_max_uses a" for ctx now
  proof -
    have "is_ok (fst r) \<longleftrightarrow> (\<exists>x y. r = (Inr x, y))" for r :: "(CapabilityError + CapabilityClaims) \<times> Capability"
      by (cases r) (auto simp: is_ok_iff)
    then show ?thesis using p c(4) u by (auto simp: verify_and_consume_iff)
  qed
  have b: "claims_bind_context c ctx \<longleftrightarrow> ctx = \<lparr>xs_top_origin = ma_top_origin a, xs_frame_origin = ma_frame_origin a,
                xs_browser_session_id = ma_browser_session_id a, xs_extension_key_id = ma_extension_key_id a,
                xs_tab_id = ma_tab_id a, xs_frame_id = ma_frame_id a, xs_document_id = ma_document_id a,
                xs_navigation_epoch = ma_navigation_epoch a\<rparr>" for ctx
    using c(1) by (cases ctx) (auto simp: claims_bind_context_def mint_claims_def)
  show ?thesis using k c(1,3,4) v unfolding b by (auto simp: mint_claims_def)
qed

definition sample_origin :: CanonicalOrigin where
  "sample_origin = \<lparr>o_scheme = ''https'', o_host = ''h'', o_port = 443\<rparr>"

definition sample_mint :: MintArgs where
  "sample_mint = \<lparr>ma_issuer_key_id = ''k1'', ma_request_id = ''req_1'', ma_agent_id = ''agent_1'',
     ma_credential_id = ''cred_1'', ma_action = AuthenticatePassword, ma_top_origin = sample_origin,
     ma_frame_origin = sample_origin, ma_browser_session_id = ''bs_1'', ma_extension_key_id = ''x'',
     ma_tab_id = 7, ma_frame_id = 0, ma_document_id = ''d'', ma_navigation_epoch = 3, ma_recipe_id = ''rcp_1'',
     ma_recipe_hash = [1], ma_policy_hash = [2], ma_issued_at = 5000000000,
     ma_deadlines = \<lparr>dl_consume_ttl_seconds = 30, dl_execution_ttl_seconds = 120, dl_step_ttl_seconds = None\<rparr>,
     ma_flow = None, ma_max_uses = 1\<rparr>"

lemma sample_origin_stable: "origin_stable plain_cap_env sample_origin"
proof -
  have "origin_parse plain_url_parse (origin_as_str sample_origin) = Inr sample_origin" by code_simp
  then show ?thesis by (simp add: origin_stable_def plain_cap_env_def)
qed

lemma sample_mint_wf: "mint_args_wf plain_cap_env sample_mint"
  by (simp add: mint_args_wf_def sample_mint_def sample_origin_stable id_parse_def starts_with_def)

lemma sample_minted: "\<exists>cap token. mint_capability plain_cap_env [] ''1'' sample_mint = Some (cap, token)"
proof -
  have "add_ttl 5000000000 30 = Some 35000000000" "add_ttl 5000000000 120 = Some 125000000000" by code_simp+
  then show ?thesis by (simp add: mint_capability_def sample_mint_def Let_def)
qed

theorem minted_token_roundtrip_witness:
  "\<exists>cap token. mint_capability plain_cap_env [] ''1'' sample_mint = Some (cap, token)
     \<and> is_ok (parse_and_verify_token_with_keys plain_cap_env token
          [(''k1'', ed_public (ce_ed plain_cap_env) [])])"
proof -
  obtain cap token where m: "mint_capability plain_cap_env [] ''1'' sample_mint = Some (cap, token)"
    using sample_minted by blast
  have k: "map_of [(''k1'', ed_public (ce_ed plain_cap_env) [])] (ma_issuer_key_id sample_mint)
      = Some (ed_public (ce_ed plain_cap_env) [])" by (simp add: sample_mint_def)
  from minted_token_roundtrip[OF plain_cap_env_laws m sample_mint_wf _ k] m show ?thesis
    by (auto simp: is_ok_iff)
qed

definition signed_message :: "cap_env \<Rightarrow> CapabilityClaims \<Rightarrow> bytes" where
  "signed_message V c =
    signature_structure V (protected_header V (cl_issuer_key_id c)) (ce_wire_to_vec V (wire_of_claims c))"

text \<open>
  C20.  Claims cannot be forged or altered.  The decoder accepts only canonical headers and payloads, so
  the signed bytes determine the claims: if the signature inside a token is valid for no message other
  than those the broker signed when it minted a set of capabilities, then the claims a verifier reads
  from that token are the claims of one of those capabilities, in every field.
\<close>

theorem accepted_claims_were_minted:
  assumes "cap_env_laws V" and "\<And>c. c \<in> minted \<Longrightarrow> claims_wf V c"
    and "\<And>d m. decode_cose_sign1 V token = Inr d
           \<Longrightarrow> verify_signature (ce_ed V) pk m (dc_signature d) = Inr () \<Longrightarrow> m \<in> signed_message V ` minted"
    and "parse_and_verify_token V token pk = Inr c"
  shows "c \<in> minted"
proof -
  from assms(4) obtain d w where d: "decode_cose_sign1 V token = Inr d" "claims_of_wire V w = Inr c"
    "verify_signature (ce_ed V) pk (signature_structure V (protected_header V (cl_issuer_key_id c))
       (ce_wire_to_vec V w)) (dc_signature d) = Inr ()"
    by (rule parse_and_verify_ok)
  from assms(3)[OF d(1,3)] obtain c' where c': "c' \<in> minted"
    "signature_structure V (protected_header V (cl_issuer_key_id c)) (ce_wire_to_vec V w) = signed_message V c'"
    by blast
  then have "ce_wire_to_vec V w = ce_wire_to_vec V (wire_of_claims c')"
    unfolding signed_message_def using signature_structure_inject[OF assms(1)] by blast
  then have "w = wire_of_claims c'" by (rule ce_wire_to_vec_inject[OF assms(1)])
  then have "claims_of_wire V w = Inr c'" using claims_roundtrip[OF assms(2)[OF c'(1)]] by simp
  then show ?thesis using d(2) c'(1) by simp
qed

definition sample_claims :: CapabilityClaims where
  "sample_claims = mint_claims sample_mint ''cap_1'' 35000000000 125000000000 None"

text \<open>A scheme whose signature on the sample message is valid for that message only.\<close>

definition single_message_ed25519 :: ed25519 where
  "single_message_ed25519 =
    (let s = (\<lambda>m. if m = signed_message plain_cap_env sample_claims then replicate 64 0 else replicate 64 1) in
     \<lparr>ed_public = (\<lambda>k. replicate 32 0), ed_sign = (\<lambda>k. s),
      ed_verify = (\<lambda>pk m sig. if sig = s m then Inr () else Inl ''signature'')\<rparr>)"

theorem accepted_claims_were_minted_witness:
  "let V = plain_cap_env\<lparr>ce_ed := single_message_ed25519\<rparr>;
       token = b64_encode (ce_b64 V) (encode_cose_sign1 V sample_claims [])
   in parse_and_verify_token V token (replicate 32 0) = Inr sample_claims \<and> sample_claims \<in> {sample_claims}"
proof -
  let ?V = "plain_cap_env\<lparr>ce_ed := single_message_ed25519\<rparr>"
  let ?t = "b64_encode (ce_b64 ?V) (encode_cose_sign1 ?V sample_claims [])"
  have same: "signed_message (plain_cap_env\<lparr>ce_ed := E\<rparr>) c = signed_message plain_cap_env c" for c E
    by (simp add: signed_message_def signature_structure_def protected_header_def)
  have laws: "cap_env_laws ?V"
    using plain_cap_env_laws
    by (simp add: cap_env_laws_def ed25519_laws_def single_message_ed25519_def Let_def)
  have "claims_wf plain_cap_env sample_claims"
    using mint_claims_wf[OF sample_mint_wf, of "''1''"] by (simp add: sample_claims_def id_new_def)
  then have wf: "claims_wf ?V sample_claims" by (simp add: claims_wf_def origin_stable_def)
  have p: "parse_and_verify_token ?V ?t (replicate 32 0) = Inr sample_claims"
    using minted_token_parses[OF laws wf, of "[]"] by (simp add: single_message_ed25519_def Let_def)
  have sig: "m \<in> signed_message ?V ` {sample_claims}"
    if "decode_cose_sign1 ?V ?t = Inr d" "verify_signature (ce_ed ?V) (replicate 32 0) m (dc_signature d) = Inr ()" for d m
  proof -
    have "dc_signature d = replicate 64 0"
      using that(1) unfolding decode_encode_cose[OF laws wf] signed_message_def[symmetric]
      by (auto simp: same single_message_ed25519_def Let_def)
    then show ?thesis using that(2)
      by (auto simp: verify_signature_ok single_message_ed25519_def Let_def same split: if_splits)
  qed
  have "sample_claims \<in> {sample_claims}"
    by (rule accepted_claims_were_minted[OF laws _ sig p]) (use wf in auto)
  then show ?thesis using p by (simp add: Let_def)
qed

text \<open>
  C10.  Consumption is all or nothing.  It succeeds exactly when the token verifies, its claims agree with
  the stored capability and with the page, the time is inside the window and a use is left; it then counts
  one use without overflow and leaves nothing else changed but the state.  A refusal never changes the
  count, and changes the state only when the reason is that the window has closed.
\<close>

theorem consume_exactly_when_bound:
  "(verify_and_consume_capability V cap token pk ctx now = (Inr c, cap') \<longleftrightarrow>
      parse_and_verify_token V token pk = Inr c \<and> claims_bind_capability c cap \<and> within_window c cap now
      \<and> use_left cap \<and> claims_bind_context c ctx \<and> cap' = count_use cap)
   \<and> (use_left cap \<longrightarrow> unat (cap_used_count (count_use cap)) = unat (cap_used_count cap) + 1)
   \<and> (verify_and_consume_capability V cap token pk ctx now = (Inl e, cap') \<longrightarrow>
        cap' = cap \<or> (\<exists>m. e = CapabilityError.Expired m) \<and> cap' = cap\<lparr>cap_state := CapabilityState.Expired\<rparr>)"
  using verify_and_consume_iff count_use_unat verify_and_consume_error by blast

theorem consume_exactly_when_bound_witness:
  "\<exists>cap token. mint_capability plain_cap_env [] ''1'' sample_mint = Some (cap, token)
     \<and> use_left cap \<and> unat (cap_used_count (count_use cap)) = 1"
proof -
  obtain cap token where m: "mint_capability plain_cap_env [] ''1'' sample_mint = Some (cap, token)"
    using sample_minted by blast
  then have u: "use_left cap" "cap_used_count cap = 0"
    by (auto elim!: mint_capability_Some simp: use_left_def sample_mint_def)
  then show ?thesis using m consume_exactly_when_bound[of plain_cap_env cap] by auto
qed

text \<open>
  C18.  However often and with whatever tokens, contexts and times consumption is attempted, in any
  order, a capability is never granted more often than it allows; one with a single use at most once.
\<close>

theorem consume_within_budget:
  "successes (consume_step V pk) cap attempts \<le> unat (cap_max_uses cap) - unat (cap_used_count cap)"
  using capability_budget.successes_le[OF TrueI, of V pk cap attempts]
  by (auto simp: uses_left_def split: if_splits)

text \<open>
  Two boundary facts in which the verifier and the domain model disagree.  At the deadline itself
  \<open>is_valid_at\<close> still calls a capability valid while the verifier refuses it; and an attempt after the
  deadline overwrites the state of a revoked or consumed capability with \<open>Expired\<close>, a transition that
  \<open>CapabilityState::transition_to\<close> rejects.
\<close>

theorem deadline_divergence:
  assumes "parse_and_verify_token V token pk = Inr c" and "claims_bind_capability c cap"
    and "cl_nbf c \<le> timestamp now" and "cap_consume_deadline cap = now"
  shows "\<not> is_ok (fst (verify_and_consume_capability V cap token pk ctx now))
     \<and> cap_state (snd (verify_and_consume_capability V cap token pk ctx now)) = CapabilityState.Expired
     \<and> (use_left cap \<longrightarrow> Capability_is_valid_at cap now)
     \<and> (CapabilityState_is_terminal (cap_state cap)
          \<longrightarrow> \<not> is_ok (CapabilityState_transition_to (cap_state cap) CapabilityState.Expired))"
proof -
  have "verify_and_consume_capability V cap token pk ctx now =
     (Inl (CapabilityError.Expired (''Capability consume window closed at '' @ ce_show_datetime V (cap_consume_deadline cap))),
      cap\<lparr>cap_state := CapabilityState.Expired\<rparr>)"
    using assms by (simp add: verify_and_consume_capability_def claims_bind_capability_def)
  moreover have "use_left cap \<longrightarrow> Capability_is_valid_at cap now"
    using assms(4) by (auto simp: use_left_def Capability_is_valid_at_def)
  ultimately show ?thesis using capability.tr_terminal by simp
qed

theorem deadline_divergence_witness:
  "\<exists>cap token. mint_capability plain_cap_env [] ''1'' sample_mint = Some (cap, token)
     \<and> Capability_is_valid_at cap (cap_consume_deadline cap)
     \<and> (\<forall>ctx. \<not> is_ok (fst (verify_and_consume_capability plain_cap_env cap token
                      (ed_public (ce_ed plain_cap_env) []) ctx (cap_consume_deadline cap))))"
proof -
  obtain cap token where m: "mint_capability plain_cap_env [] ''1'' sample_mint = Some (cap, token)"
    using sample_minted by blast
  from m obtain c where c: "c = mint_claims sample_mint (id_new ''cap'' ''1'') (cap_consume_deadline cap)
        (cap_execution_deadline cap) (cap_step_deadline cap)"
    "token = b64_encode (ce_b64 plain_cap_env) (encode_cose_sign1 plain_cap_env c [])"
    "claims_bind_capability c cap" "cap_state cap = CapabilityState.Issued" "cap_used_count cap = 0"
    "cap_max_uses cap = ma_max_uses sample_mint"
    "add_ttl (ma_issued_at sample_mint) (dl_consume_ttl_seconds (ma_deadlines sample_mint)) = Some (cap_consume_deadline cap)"
    by (rule mint_capability_Some)
  have wf: "claims_wf plain_cap_env c" using mint_claims_wf[OF sample_mint_wf] c(1) by simp
  have p: "parse_and_verify_token plain_cap_env token (ed_public (ce_ed plain_cap_env) []) = Inr c"
    using minted_token_parses[OF plain_cap_env_laws wf] c(2) by simp
  have u: "use_left cap" using c(4-6) by (simp add: use_left_def sample_mint_def)
  have "add_ttl 5000000000 30 = Some 35000000000" by code_simp
  then have "cl_nbf c \<le> timestamp (cap_consume_deadline cap)"
    using c(1,7) by (simp add: mint_claims_def sample_mint_def timestamp_def nanos_def)
  from deadline_divergence[OF p c(3) this refl] u m show ?thesis by blast
qed

end
