(* ===== verification/Audit_Log.thy ===== *)
theory Audit_Log
  imports Domain_Entities Crypto Strict_Json "HOL-Library.Countable"
begin

text \<open>
  The audit log (\<open>secretctl-audit/src\<close>): events and their payload check (\<open>events.rs\<close>), the keyed hash
  chain, its verification and its signed checkpoints (\<open>chain.rs\<close>).  SHA-256, HMAC-SHA256, the RFC 3339
  printer, JSON printing and parsing, and Ed25519 are fields of the record \<open>audit_env\<close>.

  The locale \<open>append_only\<close> is the interface a writer of the log relies on: appending a suitable event
  keeps the log acceptable.  The chain verifier interprets it.
\<close>

datatype AuditError =
    ChainBroken u64
  | AuditSerialization string
  | ProhibitedPayload string

record AuditContext =
  ac_request_id :: "string option"
  ac_credential_id :: "string option"
  ac_capability_id :: "string option"
  ac_browser_session_id :: "string option"
  ac_target_origin :: "string option"
  ac_action :: "string option"
  ac_decision :: "string option"
  ac_risk_level :: "string option"
  ac_error_code :: "string option"

record audit_env =
  ae_sha256 :: "bytes \<Rightarrow> bytes"
  ae_hmac :: "bytes \<Rightarrow> bytes \<Rightarrow> bytes"
  ae_rfc3339 :: "datetime \<Rightarrow> string"
  ae_to_string :: "AuditContext \<Rightarrow> string"
  ae_from_str :: "string \<Rightarrow> string + json"
  ae_ed :: ed25519

text \<open>The members of a serialized context: the fields that are present, under their names.\<close>

definition context_members :: "AuditContext \<Rightarrow> (string \<times> json) list" where
  "context_members c =
    concat (map (\<lambda>(k, v). case v of None \<Rightarrow> [] | Some s \<Rightarrow> [(k, String s)])
      [(''request_id'', ac_request_id c), (''credential_id'', ac_credential_id c),
       (''capability_id'', ac_capability_id c), (''browser_session_id'', ac_browser_session_id c),
       (''target_origin'', ac_target_origin c), (''action'', ac_action c), (''decision'', ac_decision c),
       (''risk_level'', ac_risk_level c), (''error_code'', ac_error_code c)])"

definition audit_env_laws :: "audit_env \<Rightarrow> bool" where
  "audit_env_laws A = (ed25519_laws (ae_ed A)
     \<and> (\<forall>c. ae_from_str A (ae_to_string A c) = Inr (Object (context_members c))))"

section \<open>Payloads\<close>

definition validate_audit_payload :: "audit_env \<Rightarrow> string \<Rightarrow> AuditError + unit" where
  "validate_audit_payload A json_str =
    try_r (map_err AuditSerialization (ae_from_str A json_str)) (\<lambda>value.
    case value of
      Object members \<Rightarrow>
        (case find contains_prohibited_key_name (map fst members) of
           Some k \<Rightarrow> Inl (ProhibitedPayload k)
         | None \<Rightarrow> Inr ())
    | _ \<Rightarrow> Inr ())"

section \<open>The chain\<close>

definition GENESIS_PREVIOUS_HASH :: bytes where
  "GENESIS_PREVIOUS_HASH = replicate 32 0"

definition EVENT_DOMAIN :: bytes where
  "EVENT_DOMAIN = as_bytes ''secretctl.audit.event.v1''"

definition CHECKPOINT_DOMAIN :: bytes where
  "CHECKPOINT_DOMAIN = as_bytes ''secretctl.audit.checkpoint.v1''"

definition len_prefixed :: "bytes \<Rightarrow> bytes" where
  "len_prefixed value = be_encode 8 (length value) @ value"

definition unwrap_or_default :: "string option \<Rightarrow> string" where
  "unwrap_or_default x = (case x of None \<Rightarrow> [] | Some s \<Rightarrow> s)"

text \<open>The bytes fed to the MAC, in the order of the updates.\<close>

definition event_message ::
    "audit_env \<Rightarrow> u32 \<Rightarrow> bytes \<Rightarrow> u64 \<Rightarrow> EventId \<Rightarrow> string \<Rightarrow> string \<Rightarrow> string option \<Rightarrow> string \<Rightarrow> datetime \<Rightarrow> bytes" where
  "event_message A audit_key_version previous_hash sequence event_id event_type actor_type actor_id event_json created_at =
    EVENT_DOMAIN @ be_encode 4 (unat audit_key_version) @ len_prefixed previous_hash
    @ be_encode 8 (unat sequence) @ len_prefixed (as_bytes event_id) @ len_prefixed (as_bytes event_type)
    @ len_prefixed (as_bytes actor_type) @ len_prefixed (as_bytes (unwrap_or_default actor_id))
    @ len_prefixed (as_bytes event_json) @ len_prefixed (as_bytes (ae_rfc3339 A created_at))"

definition compute_event_hash ::
    "audit_env \<Rightarrow> u32 \<Rightarrow> bytes \<Rightarrow> bytes \<Rightarrow> u64 \<Rightarrow> EventId \<Rightarrow> string \<Rightarrow> string \<Rightarrow> string option \<Rightarrow> string \<Rightarrow> datetime
     \<Rightarrow> AuditError + bytes" where
  "compute_event_hash A audit_key_version audit_key previous_hash sequence event_id event_type actor_type
     actor_id event_json created_at =
    (if audit_key_version = 0 \<or> length audit_key < 32
     then Inl (AuditSerialization ''invalid audit key version or length'')
     else Inr (ae_hmac A audit_key (event_message A audit_key_version previous_hash sequence event_id
                 event_type actor_type actor_id event_json created_at)))"

definition create_audit_event ::
    "audit_env \<Rightarrow> string \<Rightarrow> u64 \<Rightarrow> bytes \<Rightarrow> u32 \<Rightarrow> bytes \<Rightarrow> string \<Rightarrow> string \<Rightarrow> string option \<Rightarrow> AuditContext \<Rightarrow> datetime
     \<Rightarrow> AuditError + AuditEvent" where
  "create_audit_event A uuid sequence previous_hash audit_key_version audit_key event_type actor_type actor_id
     context created_at =
    (let event_id = id_new ''evt'' uuid;
         event_json = ae_to_string A context in
     try_r (validate_audit_payload A event_json) (\<lambda>_.
     try_r (compute_event_hash A audit_key_version audit_key previous_hash sequence event_id event_type
              actor_type actor_id event_json created_at) (\<lambda>event_hash.
     Inr \<lparr>ev_sequence = sequence, ev_event_id = event_id, ev_event_type = event_type,
          ev_actor_type = actor_type, ev_actor_id = actor_id, ev_event_json = event_json,
          ev_audit_key_version = audit_key_version, ev_previous_hash = previous_hash,
          ev_event_hash = event_hash, ev_created_at = created_at\<rparr>)))"

text \<open>The unkeyed hash of records from before the introduction of audit keys (version zero).\<close>

definition legacy_hash :: "audit_env \<Rightarrow> AuditEvent \<Rightarrow> bytes" where
  "legacy_hash A e =
    ae_sha256 A (ev_previous_hash e @ be_encode 8 (unat (ev_sequence e)) @ as_bytes (ev_event_id e)
      @ as_bytes (ev_event_type e) @ as_bytes (ev_actor_type e)
      @ (case ev_actor_id e of None \<Rightarrow> [] | Some a \<Rightarrow> as_bytes a)
      @ as_bytes (ev_event_json e) @ as_bytes (ae_rfc3339 A (ev_created_at e)))"

definition event_hash_of :: "audit_env \<Rightarrow> (u32 \<times> bytes) list \<Rightarrow> AuditEvent \<Rightarrow> AuditError + bytes" where
  "event_hash_of A audit_keys e =
    (if ev_audit_key_version e = 0 then Inr (legacy_hash A e)
     else try_r (ok_or (AuditSerialization (''unknown audit key version '' @ show_nat (unat (ev_audit_key_version e))))
                   (map_of audit_keys (ev_audit_key_version e))) (\<lambda>audit_key.
          compute_event_hash A (ev_audit_key_version e) audit_key (ev_previous_hash e) (ev_sequence e)
            (ev_event_id e) (ev_event_type e) (ev_actor_type e) (ev_actor_id e) (ev_event_json e)
            (ev_created_at e)))"

fun verify_from ::
    "audit_env \<Rightarrow> (u32 \<times> bytes) list \<Rightarrow> nat \<Rightarrow> bytes \<Rightarrow> AuditEvent list \<Rightarrow> AuditError + unit" where
  "verify_from A audit_keys idx expected_prev_hash [] = Inr ()"
| "verify_from A audit_keys idx expected_prev_hash (event # events) =
    (let expected_seq = of_nat (idx + 1) in
     if ev_sequence event \<noteq> expected_seq \<or> ev_previous_hash event \<noteq> expected_prev_hash
     then Inl (ChainBroken (ev_sequence event))
     else try_r (event_hash_of A audit_keys event) (\<lambda>computed_hash.
     if computed_hash \<noteq> ev_event_hash event then Inl (ChainBroken (ev_sequence event))
     else verify_from A audit_keys (idx + 1) (ev_event_hash event) events))"

definition verify_audit_chain :: "audit_env \<Rightarrow> AuditEvent list \<Rightarrow> (u32 \<times> bytes) list \<Rightarrow> AuditError + unit" where
  "verify_audit_chain A events audit_keys = verify_from A audit_keys 0 GENESIS_PREVIOUS_HASH events"

section \<open>Checkpoints\<close>

definition checkpoint_message :: "audit_env \<Rightarrow> AuditCheckpoint \<Rightarrow> bytes" where
  "checkpoint_message A c =
    ae_sha256 A (CHECKPOINT_DOMAIN @ be_encode 8 (unat (ck_sequence c)) @ len_prefixed (ck_event_hash c)
      @ be_encode 4 (unat (ck_audit_key_version c)) @ len_prefixed (as_bytes (ck_signing_key_id c))
      @ as_bytes (ae_rfc3339 A (ck_created_at c)))"

definition create_audit_checkpoint ::
    "audit_env \<Rightarrow> u64 \<Rightarrow> bytes \<Rightarrow> u32 \<Rightarrow> string \<Rightarrow> bytes \<Rightarrow> datetime \<Rightarrow> AuditCheckpoint" where
  "create_audit_checkpoint A sequence event_hash audit_key_version signing_key_id signing_key created_at =
    (let c = \<lparr>ck_sequence = sequence, ck_event_hash = event_hash, ck_audit_key_version = audit_key_version,
              ck_signing_key_id = signing_key_id, ck_signature = [], ck_created_at = created_at\<rparr>
     in c\<lparr>ck_signature := ed_sign (ae_ed A) signing_key (checkpoint_message A c)\<rparr>)"

fun verify_audit_checkpoints ::
    "audit_env \<Rightarrow> AuditEvent list \<Rightarrow> AuditCheckpoint list \<Rightarrow> (string \<times> bytes) list \<Rightarrow> AuditError + unit" where
  "verify_audit_checkpoints A events [] signing_keys = Inr ()"
| "verify_audit_checkpoints A events (checkpoint # checkpoints) signing_keys =
    try_r (ok_or (ChainBroken (ck_sequence checkpoint))
             (find (\<lambda>event. ev_sequence event = ck_sequence checkpoint) events)) (\<lambda>event.
    if ev_event_hash event \<noteq> ck_event_hash checkpoint
       \<or> ev_audit_key_version event \<noteq> ck_audit_key_version checkpoint
    then Inl (ChainBroken (ck_sequence checkpoint))
    else try_r (ok_or (AuditSerialization (''unknown checkpoint signing key '' @ ck_signing_key_id checkpoint))
                  (map_of signing_keys (ck_signing_key_id checkpoint))) (\<lambda>public_key.
    try_r (map_err (\<lambda>_. ChainBroken (ck_sequence checkpoint))
             (verify_signature (ae_ed A) public_key (checkpoint_message A checkpoint) (ck_signature checkpoint)))
      (\<lambda>_. verify_audit_checkpoints A events checkpoints signing_keys)))"

lemma checkpoint_signed:
  "ed25519_laws (ae_ed A) \<Longrightarrow> c = create_audit_checkpoint A q h v i k t
   \<Longrightarrow> verify_signature (ae_ed A) (ed_public (ae_ed A) k) (checkpoint_message A c) (ck_signature c) = Inr ()"
proof -
  assume laws: "ed25519_laws (ae_ed A)" and c: "c = create_audit_checkpoint A q h v i k t"
  have "ck_signature c = ed_sign (ae_ed A) k (checkpoint_message A c)"
    unfolding c create_audit_checkpoint_def Let_def by (simp add: checkpoint_message_def)
  then show ?thesis using laws by simp
qed

section \<open>Creation\<close>

lemma context_keys_permitted:
  "k \<in> set (map fst (context_members c)) \<Longrightarrow> \<not> contains_prohibited_key_name k"
proof -
  have "list_all (\<lambda>k. \<not> contains_prohibited_key_name k)
     [''request_id'', ''credential_id'', ''capability_id'', ''browser_session_id'', ''target_origin'', ''action'',
      ''decision'', ''risk_level'', ''error_code'']" by code_simp
  moreover assume "k \<in> set (map fst (context_members c))"
  then have "k \<in> set [''request_id'', ''credential_id'', ''capability_id'', ''browser_session_id'', ''target_origin'',
      ''action'', ''decision'', ''risk_level'', ''error_code'']"
    by (auto simp: context_members_def split: option.splits)
  ultimately show ?thesis unfolding list_all_iff by blast
qed

lemma validate_context: "audit_env_laws A \<Longrightarrow> validate_audit_payload A (ae_to_string A c) = Inr ()"
  using context_keys_permitted[of _ c]
  by (auto simp: validate_audit_payload_def audit_env_laws_def find_None_iff split: option.split)

lemma create_audit_event_ok_iff:
  "audit_env_laws A \<Longrightarrow>
   is_ok (create_audit_event A u q prev ver key ty at ai ctx t) \<longleftrightarrow> ver \<noteq> 0 \<and> 32 \<le> length key"
  by (simp add: create_audit_event_def validate_context compute_event_hash_def Let_def)

lemma create_audit_event_fields:
  assumes "create_audit_event A u q prev ver key ty at ai ctx t = Inr e"
  shows "ev_sequence e = q" "ev_previous_hash e = prev" "ev_audit_key_version e = ver"
    "ev_event_type e = ty" "ev_actor_type e = at" "ev_actor_id e = ai" "ev_created_at e = t"
    "ev_event_id e = id_new ''evt'' u" "ev_event_json e = ae_to_string A ctx" "ver \<noteq> 0" "32 \<le> length key"
    "map_of keys ver = Some key \<Longrightarrow> event_hash_of A keys e = Inr (ev_event_hash e)"
  using assms
  by (auto simp: create_audit_event_def Let_def try_r_Inr_iff compute_event_hash_def event_hash_of_def)

section \<open>Appending\<close>

lemma verify_from_append:
  "verify_from A K i p (xs @ ys) = Inr () \<longleftrightarrow>
     verify_from A K i p xs = Inr ()
     \<and> verify_from A K (i + length xs) (if xs = [] then p else ev_event_hash (last xs)) ys = Inr ()"
  by (induction xs arbitrary: i p) (auto simp: Let_def try_r_Inr_iff split: if_splits)

definition last_hash :: "AuditEvent list \<Rightarrow> bytes" where
  "last_hash xs = (if xs = [] then GENESIS_PREVIOUS_HASH else ev_event_hash (last xs))"

definition extends :: "audit_env \<Rightarrow> (u32 \<times> bytes) list \<Rightarrow> AuditEvent list \<Rightarrow> AuditEvent \<Rightarrow> bool" where
  "extends A K xs e = (ev_sequence e = of_nat (length xs + 1) \<and> ev_previous_hash e = last_hash xs
     \<and> event_hash_of A K e = Inr (ev_event_hash e))"

lemma verify_snoc:
  "verify_audit_chain A (xs @ [e]) K = Inr () \<longleftrightarrow> verify_audit_chain A xs K = Inr () \<and> extends A K xs e"
  by (auto simp: verify_audit_chain_def verify_from_append extends_def last_hash_def Let_def try_r_Inr_iff
      split: if_splits)

locale append_only =
  fixes ok :: "'e list \<Rightarrow> bool"
    and fits :: "'e list \<Rightarrow> 'e \<Rightarrow> bool"
  assumes ok_Nil: "ok []"
    and ok_snoc: "ok (xs @ [e]) \<longleftrightarrow> ok xs \<and> fits xs e"
begin

lemma ok_prefix: "ok (xs @ ys) \<Longrightarrow> ok xs"
  by (induction ys arbitrary: xs rule: rev_induct) (auto simp: ok_snoc simp flip: append_assoc)

lemma ok_iff: "ok xs \<longleftrightarrow> (\<forall>i < length xs. fits (take i xs) (xs ! i))"
proof (induction xs rule: rev_induct)
  case Nil
  then show ?case by (simp add: ok_Nil)
next
  case (snoc e xs)
  show ?case unfolding ok_snoc snoc by (auto simp: nth_append less_Suc_eq)
qed

lemma ok_fits: "ok xs \<Longrightarrow> i < length xs \<Longrightarrow> fits (take i xs) (xs ! i)"
  using ok_iff by blast

end

interpretation chain: append_only "\<lambda>xs. verify_audit_chain A xs K = Inr ()" "extends A K"
proof
  show "verify_audit_chain A [] K = Inr ()" by (simp add: verify_audit_chain_def)
  show "verify_audit_chain A (xs @ [e]) K = Inr () \<longleftrightarrow> verify_audit_chain A xs K = Inr () \<and> extends A K xs e" for xs e
    by (rule verify_snoc)
qed

lemma create_extends:
  assumes "create_audit_event A u (of_nat (length xs + 1)) (last_hash xs) ver key ty at ai ctx t = Inr e"
    "map_of K ver = Some key"
  shows "extends A K xs e"
  using create_audit_event_fields[OF assms(1)] assms(2) by (simp add: extends_def)

section \<open>Injectivity of the hashed messages\<close>

lemma len_prefixed_inject:
  assumes "len_prefixed x @ r = len_prefixed y @ s" "length x < 2 ^ 64" "length y < 2 ^ 64"
  shows "x = y \<and> r = s"
proof -
  have "be_encode 8 (length x) @ (x @ r) = be_encode 8 (length y) @ (y @ s)"
    using assms(1) by (simp add: len_prefixed_def)
  then have hd: "be_encode 8 (length x) = be_encode 8 (length y)" and tl: "x @ r = y @ s"
    by (simp_all add: append_eq_append_conv)
  have "length x < 256 ^ 8" "length y < 256 ^ 8" using assms(2,3) by simp_all
  then have "length x = length y" using hd by (rule be_encode_inject)
  then show ?thesis using tl by simp
qed

lemma be_word_inject:
  "be_encode 8 (unat (a :: u64)) @ r = be_encode 8 (unat b) @ s \<Longrightarrow> a = b \<and> r = s"
  "be_encode 4 (unat (c :: u32)) @ r = be_encode 4 (unat d) @ s \<Longrightarrow> c = d \<and> r = s"
proof -
  assume h: "be_encode 8 (unat a) @ r = be_encode 8 (unat b) @ s"
  then have e: "be_encode 8 (unat a) = be_encode 8 (unat b)" "r = s" by (simp_all add: append_eq_append_conv)
  have "unat a < 256 ^ 8" "unat b < 256 ^ 8"
    using unsigned_less[of a, where ?'a = nat] unsigned_less[of b, where ?'a = nat] by simp_all
  then have "unat a = unat b" using e(1) by (rule be_encode_inject)
  then show "a = b \<and> r = s" using e(2) by (simp add: word_unat_eq_iff)
next
  assume h: "be_encode 4 (unat c) @ r = be_encode 4 (unat d) @ s"
  then have e: "be_encode 4 (unat c) = be_encode 4 (unat d)" "r = s" by (simp_all add: append_eq_append_conv)
  have "unat c < 256 ^ 4" "unat d < 256 ^ 4"
    using unsigned_less[of c, where ?'a = nat] unsigned_less[of d, where ?'a = nat] by simp_all
  then have "unat c = unat d" using e(1) by (rule be_encode_inject)
  then show "c = d \<and> r = s" using e(2) by (simp add: word_unat_eq_iff)
qed

text \<open>Sizes that fit their 64-bit length prefixes.\<close>

definition event_fits :: "audit_env \<Rightarrow> AuditEvent \<Rightarrow> bool" where
  "event_fits A e = (length (ev_previous_hash e) < 2 ^ 64 \<and> length (ev_event_id e) < 2 ^ 64
     \<and> length (ev_event_type e) < 2 ^ 64 \<and> length (ev_actor_type e) < 2 ^ 64
     \<and> length (unwrap_or_default (ev_actor_id e)) < 2 ^ 64 \<and> length (ev_event_json e) < 2 ^ 64
     \<and> length (ae_rfc3339 A (ev_created_at e)) < 2 ^ 64)"

definition message_of :: "audit_env \<Rightarrow> AuditEvent \<Rightarrow> bytes" where
  "message_of A e = event_message A (ev_audit_key_version e) (ev_previous_hash e) (ev_sequence e) (ev_event_id e)
     (ev_event_type e) (ev_actor_type e) (ev_actor_id e) (ev_event_json e) (ev_created_at e)"

text \<open>The chain does not distinguish a missing actor from an empty one.\<close>

definition normal :: "AuditEvent \<Rightarrow> AuditEvent" where
  "normal e = e\<lparr>ev_actor_id := Some (unwrap_or_default (ev_actor_id e))\<rparr>"

lemma message_of_inject:
  assumes "message_of A e = message_of A f" "event_fits A e" "event_fits A f" "inj (ae_rfc3339 A)"
    "ev_event_hash e = ev_event_hash f"
  shows "normal e = normal f \<and> ev_previous_hash e = ev_previous_hash f"
proof -
  note fits = assms(2,3)[unfolded event_fits_def]
  have m0: "be_encode 4 (unat (ev_audit_key_version e)) @ (len_prefixed (ev_previous_hash e)
    @ be_encode 8 (unat (ev_sequence e)) @ len_prefixed (as_bytes (ev_event_id e)) @ len_prefixed (as_bytes (ev_event_type e))
    @ len_prefixed (as_bytes (ev_actor_type e)) @ len_prefixed (as_bytes (unwrap_or_default (ev_actor_id e)))
    @ len_prefixed (as_bytes (ev_event_json e)) @ len_prefixed (as_bytes (ae_rfc3339 A (ev_created_at e))) @ []) =
    be_encode 4 (unat (ev_audit_key_version f)) @ (len_prefixed (ev_previous_hash f)
    @ be_encode 8 (unat (ev_sequence f)) @ len_prefixed (as_bytes (ev_event_id f)) @ len_prefixed (as_bytes (ev_event_type f))
    @ len_prefixed (as_bytes (ev_actor_type f)) @ len_prefixed (as_bytes (unwrap_or_default (ev_actor_id f)))
    @ len_prefixed (as_bytes (ev_event_json f)) @ len_prefixed (as_bytes (ae_rfc3339 A (ev_created_at f))) @ [])"
    using assms(1) by (simp add: message_of_def event_message_def)
  from be_word_inject(2)[OF m0] have v: "ev_audit_key_version e = ev_audit_key_version f" by blast
  note m1 = be_word_inject(2)[OF m0, THEN conjunct2]
  note i1 = len_prefixed_inject[OF m1] note m2 = i1[THEN conjunct2]
  note i2 = be_word_inject(1)[OF m2] note m3 = i2[THEN conjunct2]
  note i3 = len_prefixed_inject[OF m3] note m4 = i3[THEN conjunct2]
  note i4 = len_prefixed_inject[OF m4] note m5 = i4[THEN conjunct2]
  note i5 = len_prefixed_inject[OF m5] note m6 = i5[THEN conjunct2]
  note i6 = len_prefixed_inject[OF m6] note m7 = i6[THEN conjunct2]
  note i7 = len_prefixed_inject[OF m7] note m8 = i7[THEN conjunct2]
  note i8 = len_prefixed_inject[OF m8]
  have b: "as_bytes s = as_bytes t \<longleftrightarrow> s = t" for s t using inj_as_bytes by (auto simp: inj_eq)
  have "ev_created_at e = ev_created_at f" using i8 fits assms(4) by (simp add: b inj_eq)
  then show ?thesis using v i1 i2 i3 i4 i5 i6 i7 fits assms(5)
    by (cases e; cases f) (auto simp: normal_def b)
qed

section \<open>The head of the chain\<close>

definition keyed :: "audit_env \<Rightarrow> AuditEvent list \<Rightarrow> bool" where
  "keyed A xs = list_all (\<lambda>e. ev_audit_key_version e \<noteq> 0 \<and> event_fits A e) xs"

text \<open>No two different messages that the verification of the two logs authenticates have the same MAC.\<close>

definition no_mac_collision ::
    "audit_env \<Rightarrow> (u32 \<times> bytes) list \<Rightarrow> AuditEvent list \<Rightarrow> AuditEvent list \<Rightarrow> bool" where
  "no_mac_collision A K xs ys = list_all (\<lambda>e. list_all (\<lambda>f.
     event_hash_of A K e = event_hash_of A K f \<longrightarrow> message_of A e = message_of A f) ys) xs"

lemma head_commits:
  assumes "inj (ae_rfc3339 A)"
  shows "length xs = length ys \<Longrightarrow> verify_audit_chain A xs K = Inr () \<Longrightarrow> verify_audit_chain A ys K = Inr ()
    \<Longrightarrow> keyed A xs \<Longrightarrow> keyed A ys \<Longrightarrow> no_mac_collision A K xs ys \<Longrightarrow> last_hash xs = last_hash ys
    \<Longrightarrow> map normal xs = map normal ys"
proof (induction xs arbitrary: ys rule: rev_induct)
  case Nil
  then show ?case by simp
next
  case (snoc e xs)
  then obtain f zs where ys: "ys = zs @ [f]" by (cases ys rule: rev_cases) auto
  have e: "verify_audit_chain A xs K = Inr ()" "extends A K xs e" using snoc.prems(2) by (auto simp: verify_snoc)
  have f: "verify_audit_chain A zs K = Inr ()" "extends A K zs f" using snoc.prems(3) ys by (auto simp: verify_snoc)
  have hash: "ev_event_hash e = ev_event_hash f" using snoc.prems(7) ys by (simp add: last_hash_def)
  then have "event_hash_of A K e = event_hash_of A K f" using e(2) f(2) by (simp add: extends_def)
  then have "message_of A e = message_of A f" using snoc.prems(6) ys by (simp add: no_mac_collision_def)
  then have n: "normal e = normal f" "ev_previous_hash e = ev_previous_hash f"
    using message_of_inject[OF _ _ _ assms hash] snoc.prems(4,5) ys by (auto simp: keyed_def)
  have "last_hash xs = last_hash zs" using n(2) e(2) f(2) by (simp add: extends_def)
  then have "map normal xs = map normal zs"
    using snoc ys e(1) f(1) by (simp add: keyed_def no_mac_collision_def list_all_iff)
  then show ?case using n(1) ys by simp
qed

lemma chain_sequence:
  "verify_audit_chain A xs K = Inr () \<Longrightarrow> i < length xs \<Longrightarrow> ev_sequence (xs ! i) = of_nat (i + 1)"
  using chain.ok_fits[of A xs K i] by (simp add: extends_def)

lemma find_sequence:
  assumes "verify_audit_chain A xs K = Inr ()" "length xs < 2 ^ 64"
    "find (\<lambda>e. ev_sequence e = q) xs = Some e"
  shows "0 < unat q \<and> unat q \<le> length xs \<and> e = xs ! (unat q - 1)"
proof -
  from assms(3) obtain i where i: "i < length xs" "ev_sequence (xs ! i) = q" "e = xs ! i"
    by (auto simp: find_Some_iff)
  then have "q = of_nat (i + 1)" using chain_sequence[OF assms(1) i(1)] by simp
  moreover have "i + 1 < 2 ^ 64" using i(1) assms(2) by simp
  ultimately have "unat q = i + 1" by (simp only: unsigned_of_nat take_bit_eq_mod) simp
  then show ?thesis using i by simp
qed

lemma checkpoint_event:
  assumes "verify_audit_checkpoints A xs cs sk = Inr ()" "c \<in> set cs"
  obtains e where "find (\<lambda>e. ev_sequence e = ck_sequence c) xs = Some e" "ev_event_hash e = ck_event_hash c"
  using assms by (induction cs) (auto simp: try_r_Inr_iff)

text \<open>Position, hash and prefix that an accepted checkpoint fixes in an accepted log.\<close>

lemma checkpoint_prefix:
  assumes "verify_audit_chain A xs K = Inr ()" "length xs < 2 ^ 64"
    "verify_audit_checkpoints A xs cs sk = Inr ()" "c \<in> set cs"
  shows "0 < unat (ck_sequence c)" "unat (ck_sequence c) \<le> length xs"
    "last_hash (take (unat (ck_sequence c)) xs) = ck_event_hash c"
    "verify_audit_chain A (take (unat (ck_sequence c)) xs) K = Inr ()"
proof -
  let ?n = "unat (ck_sequence c)"
  from assms(3,4) obtain e where e: "find (\<lambda>e. ev_sequence e = ck_sequence c) xs = Some e" "ev_event_hash e = ck_event_hash c"
    by (rule checkpoint_event)
  from find_sequence[OF assms(1,2) e(1)] have n: "0 < ?n" "?n \<le> length xs" "e = xs ! (?n - 1)" by auto
  show "0 < ?n" "?n \<le> length xs" by fact+
  have "last (take ?n xs) = xs ! (?n - 1)" using n by (subst last_conv_nth) auto
  then show "last_hash (take ?n xs) = ck_event_hash c" using n e(2) by (auto simp: last_hash_def)
  show "verify_audit_chain A (take ?n xs) K = Inr ()"
    using assms(1) chain.ok_prefix[of A "take ?n xs" "drop ?n xs" K] by simp
qed

section \<open>Rewriting with unkeyed records\<close>

text \<open>A list of records renumbered, relinked and rehashed as version zero, without any key.\<close>

fun unkeyed_chain :: "audit_env \<Rightarrow> nat \<Rightarrow> bytes \<Rightarrow> AuditEvent list \<Rightarrow> AuditEvent list" where
  "unkeyed_chain A idx prev [] = []"
| "unkeyed_chain A idx prev (e # es) =
    (let e' = e\<lparr>ev_sequence := of_nat (idx + 1), ev_previous_hash := prev, ev_audit_key_version := 0\<rparr>;
         e'' = e'\<lparr>ev_event_hash := legacy_hash A e'\<rparr>
     in e'' # unkeyed_chain A (idx + 1) (ev_event_hash e'') es)"

lemma unkeyed_chain_verifies: "verify_from A K idx prev (unkeyed_chain A idx prev es) = Inr ()"
proof (induction es arbitrary: idx prev)
  case Nil
  then show ?case by simp
next
  case (Cons e es)
  show ?case by (simp add: Let_def event_hash_of_def legacy_hash_def Cons)
qed

section \<open>A concrete environment\<close>

definition context_tuple where
  "context_tuple c = (ac_request_id c, ac_credential_id c, ac_capability_id c, ac_browser_session_id c,
     ac_target_origin c, ac_action c, ac_decision c, ac_risk_level c, ac_error_code c)"

definition tuple_context where
  "tuple_context t = (case t of (a, b, c, d, e, f, g, h, i) \<Rightarrow>
     \<lparr>ac_request_id = a, ac_credential_id = b, ac_capability_id = c, ac_browser_session_id = d,
      ac_target_origin = e, ac_action = f, ac_decision = g, ac_risk_level = h, ac_error_code = i\<rparr>)"

definition plain_audit_env :: audit_env where
  "plain_audit_env =
    \<lparr>ae_sha256 = id, ae_hmac = (\<lambda>k m. k @ m),
     ae_rfc3339 = (\<lambda>t. replicate (nat t) (CHR ''+'') @ replicate (nat (- t)) (CHR ''-'')),
     ae_to_string = (\<lambda>c. replicate (to_nat (context_tuple c)) (CHR ''c'')),
     ae_from_str = (\<lambda>s. Inr (Object (context_members (tuple_context (from_nat (length s)))))),
     ae_ed = plain_ed25519\<rparr>"

lemma tuple_context_tuple: "tuple_context (context_tuple c) = c"
  by (cases c) (simp add: tuple_context_def context_tuple_def)

lemma plain_audit_env_laws: "audit_env_laws plain_audit_env"
  by (simp add: audit_env_laws_def plain_audit_env_def plain_ed25519_laws tuple_context_tuple)

lemma inj_plain_rfc3339: "inj (ae_rfc3339 plain_audit_env)"
proof (rule injI)
  fix s t
  assume eq: "ae_rfc3339 plain_audit_env s = ae_rfc3339 plain_audit_env t"
  have r: "count_list (replicate n x) y = (if x = y then n else 0)" for n and x y :: char
    by (induction n) auto
  have c: "count_list (ae_rfc3339 plain_audit_env u) (CHR ''+'') = nat u"
    "count_list (ae_rfc3339 plain_audit_env u) (CHR ''-'') = nat (- u)" for u
    by (simp_all add: plain_audit_env_def count_list_append r)
  have "nat s = nat t" "nat (- s) = nat (- t)" using eq c by metis+
  then show "s = t" by linarith
qed

definition sample_event :: "string option \<Rightarrow> AuditEvent" where
  "sample_event actor =
    (let e = \<lparr>ev_sequence = 1, ev_event_id = ''evt_1'', ev_event_type = ''t'', ev_actor_type = ''broker'',
              ev_actor_id = actor, ev_event_json = [], ev_audit_key_version = 1,
              ev_previous_hash = GENESIS_PREVIOUS_HASH, ev_event_hash = [], ev_created_at = 0\<rparr>
     in e\<lparr>ev_event_hash := replicate 32 9 @ message_of plain_audit_env e\<rparr>)"

lemma sample_event_ok:
  "verify_audit_chain plain_audit_env [sample_event a] [(1, replicate 32 9)] = Inr ()"
  by (simp add: verify_audit_chain_def event_hash_of_def compute_event_hash_def sample_event_def Let_def
      message_of_def plain_audit_env_def)

section \<open>Properties\<close>

text \<open>
  Appending keeps the log verifiable: an event created with the next sequence number, the hash of
  the last event and a key of the key set extends an accepted log to an accepted log.  Creation succeeds
  exactly when the key version is not zero and the key has at least 32 bytes; no context is ever
  refused for its field names.
\<close>

theorem audit_append_verifies:
  assumes "audit_env_laws A" and "verify_audit_chain A xs K = Inr ()" and "map_of K ver = Some key"
  shows "(is_ok (create_audit_event A u q prev ver key ty at ai ctx t) \<longleftrightarrow> ver \<noteq> 0 \<and> 32 \<le> length key)
     \<and> (create_audit_event A u (of_nat (length xs + 1)) (last_hash xs) ver key ty at ai ctx t = Inr e
          \<longrightarrow> verify_audit_chain A (xs @ [e]) K = Inr ())"
proof (intro conjI impI)
  show "is_ok (create_audit_event A u q prev ver key ty at ai ctx t) \<longleftrightarrow> ver \<noteq> 0 \<and> 32 \<le> length key"
    by (rule create_audit_event_ok_iff[OF assms(1)])
  assume "create_audit_event A u (of_nat (length xs + 1)) (last_hash xs) ver key ty at ai ctx t = Inr e"
  then have "extends A K xs e" using assms(3) by (rule create_extends)
  then show "verify_audit_chain A (xs @ [e]) K = Inr ()" using assms(2) by (simp add: verify_snoc)
qed

theorem audit_append_verifies_witness:
  "\<exists>e. create_audit_event plain_audit_env ''u'' (of_nat (length [sample_event None] + 1))
        (last_hash [sample_event None]) 1 (replicate 32 9) ''t'' ''broker'' None (tuple_context (None, None, None,
        None, None, None, None, None, None)) 5 = Inr e
     \<and> verify_audit_chain plain_audit_env ([sample_event None] @ [e]) [(1, replicate 32 9)] = Inr ()"
  using audit_append_verifies[OF plain_audit_env_laws sample_event_ok, of 1 "replicate 32 9"]
  by (simp add: is_ok_iff) metis

text \<open>
  C15.  The last hash commits to the whole log.  Two accepted logs of keyed events that have the same
  length and the same last hash agree in every field of every event (an absent actor counting as an
  empty one), unless two different messages have the same MAC.
\<close>

theorem audit_head_commits:
  assumes "inj (ae_rfc3339 A)" and "verify_audit_chain A xs K = Inr ()" and "verify_audit_chain A ys K = Inr ()"
    and "keyed A xs" and "keyed A ys" and "no_mac_collision A K xs ys"
    and "length xs = length ys" and "last_hash xs = last_hash ys"
  shows "map normal xs = map normal ys"
  using head_commits[OF assms(1,7,2-6,8)] .

theorem audit_head_commits_witness:
  "sample_event None \<noteq> sample_event (Some [])
   \<and> map normal [sample_event None] = map normal [sample_event (Some [])]"
proof -
  have k: "keyed plain_audit_env [sample_event a]" if "a = None \<or> a = Some []" for a
    using that by (auto simp: keyed_def event_fits_def sample_event_def Let_def plain_audit_env_def
        GENESIS_PREVIOUS_HASH_def unwrap_or_default_def)
  have m: "message_of plain_audit_env (sample_event None) = message_of plain_audit_env (sample_event (Some []))"
    by (simp add: message_of_def event_message_def sample_event_def Let_def unwrap_or_default_def)
  have "map normal [sample_event None] = map normal [sample_event (Some [])]"
  proof (rule audit_head_commits[OF inj_plain_rfc3339 sample_event_ok sample_event_ok k k])
    show "no_mac_collision plain_audit_env [(1, replicate 32 9)] [sample_event None] [sample_event (Some [])]"
      using m by (simp add: no_mac_collision_def)
    show "last_hash [sample_event None] = last_hash [sample_event (Some [])]"
      using m by (simp add: last_hash_def sample_event_def Let_def message_of_def)
  qed auto
  moreover have "sample_event None \<noteq> sample_event (Some [])" by (simp add: sample_event_def Let_def)
  ultimately show ?thesis by blast
qed

text \<open>
  A signed checkpoint pins the log before it.  In an accepted log that passes the checkpoints, every
  checkpoint names an event that is there, at its own position, so the log cannot have been cut short
  before it; and two accepted keyed logs that pass the same checkpoint agree on everything up to it.
\<close>

theorem checkpoint_pins_history:
  assumes "inj (ae_rfc3339 A)" and "verify_audit_chain A xs K = Inr ()" and "verify_audit_chain A ys K = Inr ()"
    and "verify_audit_checkpoints A xs cs sk = Inr ()" and "verify_audit_checkpoints A ys ds sk' = Inr ()"
    and "c \<in> set cs" and "c \<in> set ds" and "length xs < 2 ^ 64" and "length ys < 2 ^ 64"
    and "keyed A xs" and "keyed A ys" and "no_mac_collision A K xs ys"
  shows "0 < unat (ck_sequence c) \<and> unat (ck_sequence c) \<le> length xs
     \<and> map normal (take (unat (ck_sequence c)) xs) = map normal (take (unat (ck_sequence c)) ys)"
proof -
  let ?n = "unat (ck_sequence c)"
  note x = checkpoint_prefix[OF assms(2,8,4,6)] and y = checkpoint_prefix[OF assms(3,9,5,7)]
  have sub: "keyed A (take n zs)" if "keyed A zs" for n zs
    using that by (auto simp: keyed_def list_all_iff dest: in_set_takeD)
  have "map normal (take ?n xs) = map normal (take ?n ys)"
  proof (rule head_commits[OF assms(1)])
    show "no_mac_collision A K (take ?n xs) (take ?n ys)"
      using assms(12) unfolding no_mac_collision_def list_all_iff by (meson in_set_takeD)
  qed (use x y sub assms(10,11) in auto)
  then show ?thesis using x(1,2) by blast
qed

theorem checkpoint_pins_history_witness:
  "let c = create_audit_checkpoint plain_audit_env 1 (ev_event_hash (sample_event None)) 1 ''k'' [] 0
   in verify_audit_checkpoints plain_audit_env [sample_event None] [c] [(''k'', ed_public plain_ed25519 [])] = Inr ()
      \<and> unat (ck_sequence c) \<le> length [sample_event None]"
proof -
  let ?c = "create_audit_checkpoint plain_audit_env 1 (ev_event_hash (sample_event None)) 1 ''k'' [] 0"
  let ?sk = "[(''k'', ed_public plain_ed25519 [])]"
  have ed: "ae_ed plain_audit_env = plain_ed25519" by (simp add: plain_audit_env_def)
  have "verify_signature plain_ed25519 (ed_public plain_ed25519 []) (checkpoint_message plain_audit_env ?c) (ck_signature ?c) = Inr ()"
    using checkpoint_signed[of plain_audit_env ?c] plain_ed25519_laws unfolding ed by blast
  moreover have "ck_sequence ?c = 1" "ck_event_hash ?c = ev_event_hash (sample_event None)"
    "ck_audit_key_version ?c = 1" "ck_signing_key_id ?c = ''k''"
    by (simp_all add: create_audit_checkpoint_def Let_def)
  moreover have "ev_sequence (sample_event None) = 1" "ev_audit_key_version (sample_event None) = 1"
    by (simp_all add: sample_event_def Let_def)
  ultimately have v: "verify_audit_checkpoints plain_audit_env [sample_event None] [?c] ?sk = Inr ()"
    by (simp add: ed)
  have k: "keyed plain_audit_env [sample_event None]"
    by (auto simp: keyed_def event_fits_def sample_event_def Let_def plain_audit_env_def
        GENESIS_PREVIOUS_HASH_def unwrap_or_default_def)
  from checkpoint_pins_history[OF inj_plain_rfc3339 sample_event_ok sample_event_ok v v _ _ _ _ k k] v
  show ?thesis by (simp add: Let_def no_mac_collision_def)
qed

text \<open>
  The verifier accepts unkeyed records at every position.  Without any key, the tail of an accepted
  log from any position on can be replaced by any list of records, rehashed as version zero, and the
  result is accepted under every key set; only a signed checkpoint behind that position can reveal it.
\<close>

theorem unkeyed_tail_accepted:
  assumes "verify_audit_chain A xs K = Inr ()"
  shows "verify_audit_chain A (take n xs @ unkeyed_chain A (length (take n xs)) (last_hash (take n xs)) es) K = Inr ()"
proof -
  have p: "verify_audit_chain A (take n xs) K = Inr ()"
    using assms chain.ok_prefix[of A "take n xs" "drop n xs" K] by simp
  then show ?thesis
    unfolding verify_audit_chain_def verify_from_append last_hash_def
    by (simp del: length_take add: unkeyed_chain_verifies)
qed

theorem unkeyed_tail_accepted_witness:
  "verify_audit_chain plain_audit_env [sample_event None] [(1, replicate 32 9)] = Inr ()
   \<and> verify_audit_chain plain_audit_env (unkeyed_chain plain_audit_env 0 GENESIS_PREVIOUS_HASH
        [(sample_event None)\<lparr>ev_event_type := ''forged''\<rparr>]) [(1, replicate 32 9)] = Inr ()"
  using unkeyed_tail_accepted[OF sample_event_ok, of 0] sample_event_ok
  by (simp add: last_hash_def del: unkeyed_chain.simps)

end
