(* ===== verification/Store.thy ===== *)
theory Store
  imports Domain_Entities Audit_Log "HOL-Library.Option_ord" "HOL-Library.Char_ord" "HOL-Library.List_Lexorder"
begin

text \<open>
  The SQLite store (\<open>secretctl-store/src\<close>): the tables that \<open>migrations.rs\<close> creates, with the keys
  and unique indexes it declares, and the statements of \<open>repository.rs\<close>.

  A table is the list of its rows in the order of insertion.  A column holds the value itself; the
  conversions between values and column text (identifiers, origins, actions, risk levels, RFC 3339
  timestamps) are the round trips of the domain theories.  Capability and execution states are kept
  as the text of the column, since the statements compare them as text.

  Every statement can fail in the database for reasons of its own.  The argument \<open>io\<close> of an operation
  gives, for the number of a statement within it (the commit included), the error it then meets, if
  any.  An operation returns its result and the database it leaves; a transaction that fails anywhere
  leaves the database as it was.  The queries are given for a database that answers.
\<close>

section \<open>Rows and tables\<close>

record CapabilityRow =
  cw_capability_id :: CapabilityId
  cw_request_id :: RequestId
  cw_token_hash :: bytes
  cw_state :: string
  cw_max_uses :: int
  cw_used_count :: int
  cw_issued_at :: datetime
  cw_consume_deadline :: datetime
  cw_execution_deadline :: datetime
  cw_step_deadline :: "datetime option"
  cw_flow_id :: "FlowId option"
  cw_step_id :: "FlowStepId option"
  cw_revoked_reason :: "string option"
  cw_signing_key_id :: string
  cw_policy_hash :: "bytes option"
  cw_browser_session_id :: "string option"

record ExecutionRow =
  xw_execution_id :: ExecutionId
  xw_capability_id :: CapabilityId
  xw_state :: string
  xw_prepared_context_digest :: "bytes option"
  xw_started_at :: "datetime option"
  xw_completed_at :: "datetime option"
  xw_result_code :: "string option"

record SigningKeyRow =
  kw_key_id :: string
  kw_public_key :: bytes
  kw_state :: string
  kw_created_at :: datetime
  kw_retired_at :: "datetime option"

record AuditKeyRow =
  aw_version :: u32
  aw_key_locator :: string
  aw_state :: string
  aw_created_at :: datetime
  aw_retired_at :: "datetime option"

record TotpRow =
  tw_credential_id :: CredentialId
  tw_time_step :: u64
  tw_execution_id :: ExecutionId
  tw_issued_at :: datetime

record db =
  t_agents :: "AgentPrincipal list"
  t_credentials :: "CredentialDescriptor list"
  t_approvals :: "Approval list"
  t_capabilities :: "CapabilityRow list"
  t_executions :: "ExecutionRow list"
  t_oauth_grants :: "OAuthGrant list"
  t_audit_events :: "AuditEvent list"
  t_audit_checkpoints :: "AuditCheckpoint list"
  t_trusted_signing_keys :: "SigningKeyRow list"
  t_audit_key_versions :: "AuditKeyRow list"
  t_standing_grants :: "StandingGrant list"
  t_totp_issuances :: "TotpRow list"

definition empty_db :: db where
  "empty_db = \<lparr>t_agents = [], t_credentials = [], t_approvals = [], t_capabilities = [], t_executions = [],
     t_oauth_grants = [], t_audit_events = [], t_audit_checkpoints = [], t_trusted_signing_keys = [],
     t_audit_key_versions = [], t_standing_grants = [], t_totp_issuances = []\<rparr>"

datatype StoreError =
    Sqlite string
  | Migration string
  | NotFound string
  | StoreSerialization string
  | StateConflict string

section \<open>Statements\<close>

type_synonym io = "nat \<Rightarrow> string option"

definition stmt :: "io \<Rightarrow> nat \<Rightarrow> StoreError + 'a \<Rightarrow> StoreError + 'a" where
  "stmt io n r = (case io n of Some e \<Rightarrow> Inl (Sqlite e) | None \<Rightarrow> r)"

text \<open>A statement outside a transaction, and a transaction: what fails leaves no trace.\<close>

definition atomically :: "db \<Rightarrow> StoreError + ('a \<times> db) \<Rightarrow> (StoreError + 'a) \<times> db" where
  "atomically d r = (case r of Inl e \<Rightarrow> (Inl e, d) | Inr (x, d') \<Rightarrow> (Inr x, d'))"

definition insert_row :: "('r \<Rightarrow> 'r \<Rightarrow> bool) \<Rightarrow> 'r \<Rightarrow> 'r list \<Rightarrow> StoreError + 'r list" where
  "insert_row conflict r t =
    (if list_ex (conflict r) t then Inl (Sqlite ''UNIQUE constraint failed'') else Inr (t @ [r]))"

definition update_rows :: "('r \<Rightarrow> bool) \<Rightarrow> ('r \<Rightarrow> 'r) \<Rightarrow> 'r list \<Rightarrow> 'r list" where
  "update_rows p f t = map (\<lambda>r. if p r then f r else r) t"

definition changed :: "('r \<Rightarrow> bool) \<Rightarrow> 'r list \<Rightarrow> nat" where
  "changed p t = length (filter p t)"

section \<open>Agents\<close>

definition agent_conflict :: "AgentPrincipal \<Rightarrow> AgentPrincipal \<Rightarrow> bool" where
  "agent_conflict a b = (ag_agent_id a = ag_agent_id b)"

definition insert_agent :: "io \<Rightarrow> AgentPrincipal \<Rightarrow> db \<Rightarrow> (StoreError + unit) \<times> db" where
  "insert_agent io a d = atomically d (stmt io 0
    (try_r (insert_row agent_conflict a (t_agents d)) (\<lambda>t. Inr ((), d\<lparr>t_agents := t\<rparr>))))"

definition upsert_agent :: "io \<Rightarrow> AgentPrincipal \<Rightarrow> db \<Rightarrow> (StoreError + unit) \<times> db" where
  "upsert_agent io a d = atomically d (stmt io 0
    (if list_ex (agent_conflict a) (t_agents d)
     then Inr ((), d\<lparr>t_agents := update_rows (agent_conflict a) (\<lambda>r. a\<lparr>ag_created_at := ag_created_at r\<rparr>) (t_agents d)\<rparr>)
     else Inr ((), d\<lparr>t_agents := t_agents d @ [a]\<rparr>)))"

definition enrolled :: "string \<Rightarrow> AgentPrincipal \<Rightarrow> bool" where
  "enrolled agent_id a = (ag_agent_id a = agent_id \<and> ag_state a = ''enrolled'')"

definition get_enrolled_agent :: "db \<Rightarrow> string \<Rightarrow> StoreError + AgentPrincipal" where
  "get_enrolled_agent d agent_id =
    (case find (enrolled agent_id) (t_agents d) of None \<Rightarrow> Inl (NotFound agent_id) | Some a \<Rightarrow> Inr a)"

definition agent_exists :: "db \<Rightarrow> string \<Rightarrow> bool" where
  "agent_exists d agent_id = (changed (enrolled agent_id) (t_agents d) > 0)"

definition resolve_agent_id :: "db \<Rightarrow> string \<Rightarrow> AgentId option" where
  "resolve_agent_id d agent_id =
    (case find (enrolled agent_id) (t_agents d) of
       Some a \<Rightarrow> (case id_parse ''agent'' (ag_agent_id a) of Inl _ \<Rightarrow> None | Inr i \<Rightarrow> Some i)
     | None \<Rightarrow> None)"

text \<open>\<open>ORDER BY created_at\<close>, then one lookup per identifier; the first failure is the result.\<close>

fun collect_r :: "('a \<Rightarrow> 'e + 'b) \<Rightarrow> 'a list \<Rightarrow> 'e + 'b list" where
  "collect_r f [] = Inr []"
| "collect_r f (x # xs) = try_r (f x) (\<lambda>y. try_r (collect_r f xs) (\<lambda>ys. Inr (y # ys)))"

definition list_agents :: "db \<Rightarrow> StoreError + AgentPrincipal list" where
  "list_agents d = collect_r (get_enrolled_agent d)
    (map ag_agent_id (sort_key ag_created_at (filter (\<lambda>a. ag_state a = ''enrolled'') (t_agents d))))"

section \<open>Audit events\<close>

definition event_conflict :: "AuditEvent \<Rightarrow> AuditEvent \<Rightarrow> bool" where
  "event_conflict a b = (ev_sequence a = ev_sequence b \<or> ev_event_id a = ev_event_id b)"

definition insert_audit_event_tx :: "AuditEvent \<Rightarrow> db \<Rightarrow> StoreError + db" where
  "insert_audit_event_tx e d =
    try_r (insert_row event_conflict e (t_audit_events d)) (\<lambda>t. Inr (d\<lparr>t_audit_events := t\<rparr>))"

definition insert_audit_event :: "io \<Rightarrow> AuditEvent \<Rightarrow> db \<Rightarrow> (StoreError + unit) \<times> db" where
  "insert_audit_event io e d = atomically d (stmt io 0 (try_r (insert_audit_event_tx e d) (\<lambda>d'. Inr ((), d'))))"

text \<open>\<open>ORDER BY sequence\<close>; the column is a signed 64-bit integer.\<close>

definition list_audit_events :: "db \<Rightarrow> AuditEvent list" where
  "list_audit_events d = sort_key (\<lambda>e. sint (ev_sequence e)) (t_audit_events d)"

definition get_latest_audit_hash :: "db \<Rightarrow> bytes" where
  "get_latest_audit_hash d =
    (case rev (list_audit_events d) of [] \<Rightarrow> GENESIS_PREVIOUS_HASH | e # _ \<Rightarrow> ev_event_hash e)"

definition get_latest_audit_sequence :: "db \<Rightarrow> u64" where
  "get_latest_audit_sequence d =
    (case rev (list_audit_events d) of [] \<Rightarrow> 0 | e # _ \<Rightarrow> ev_sequence e)"

definition insert_audit_checkpoint :: "io \<Rightarrow> AuditCheckpoint \<Rightarrow> db \<Rightarrow> (StoreError + unit) \<times> db" where
  "insert_audit_checkpoint io c d = atomically d (stmt io 0
    (try_r (insert_row (\<lambda>a b. ck_sequence a = ck_sequence b) c (t_audit_checkpoints d))
      (\<lambda>t. Inr ((), d\<lparr>t_audit_checkpoints := t\<rparr>))))"

definition list_audit_checkpoints :: "db \<Rightarrow> AuditCheckpoint list" where
  "list_audit_checkpoints d = sort_key (\<lambda>c. sint (ck_sequence c)) (t_audit_checkpoints d)"

section \<open>Credentials and OAuth grants\<close>

definition insert_credential :: "io \<Rightarrow> CredentialDescriptor \<Rightarrow> db \<Rightarrow> (StoreError + unit) \<times> db" where
  "insert_credential io c d = atomically d (stmt io 0
    (try_r (insert_row (\<lambda>a b. cr_credential_id a = cr_credential_id b \<or> cr_name a = cr_name b) c (t_credentials d))
      (\<lambda>t. Inr ((), d\<lparr>t_credentials := t\<rparr>))))"

definition get_credential_by_name :: "db \<Rightarrow> string \<Rightarrow> StoreError + CredentialDescriptor" where
  "get_credential_by_name d name =
    (case find (\<lambda>c. cr_name c = name) (t_credentials d) of None \<Rightarrow> Inl (NotFound name) | Some c \<Rightarrow> Inr c)"

definition list_credentials :: "db \<Rightarrow> StoreError + CredentialDescriptor list" where
  "list_credentials d = collect_r (get_credential_by_name d) (sort (map cr_name (t_credentials d)))"

definition delete_credential_by_name :: "io \<Rightarrow> string \<Rightarrow> db \<Rightarrow> (StoreError + unit) \<times> db" where
  "delete_credential_by_name io name d =
    (case stmt io 0 (Inr (changed (\<lambda>c. cr_name c = name) (t_credentials d),
                        d\<lparr>t_credentials := filter (\<lambda>c. cr_name c \<noteq> name) (t_credentials d)\<rparr>)) of
       Inl e \<Rightarrow> (Inl e, d)
     | Inr (n, d') \<Rightarrow> (if n \<noteq> 1 then (Inl (NotFound name), d') else (Inr (), d')))"

definition insert_oauth_grant :: "io \<Rightarrow> OAuthGrant \<Rightarrow> db \<Rightarrow> (StoreError + unit) \<times> db" where
  "insert_oauth_grant io g d = atomically d (stmt io 0
    (try_r (insert_row (\<lambda>a b. og_grant_id a = og_grant_id b) g (t_oauth_grants d))
      (\<lambda>t. Inr ((), d\<lparr>t_oauth_grants := t\<rparr>))))"

definition get_oauth_grant :: "db \<Rightarrow> GrantId \<Rightarrow> OAuthGrant option" where
  "get_oauth_grant d grant_id = find (\<lambda>g. og_grant_id g = grant_id) (t_oauth_grants d)"

definition delete_oauth_grant :: "io \<Rightarrow> GrantId \<Rightarrow> db \<Rightarrow> (StoreError + bool) \<times> db" where
  "delete_oauth_grant io grant_id d = atomically d (stmt io 0
    (Inr (changed (\<lambda>g. og_grant_id g = grant_id) (t_oauth_grants d) = 1,
          d\<lparr>t_oauth_grants := filter (\<lambda>g. og_grant_id g \<noteq> grant_id) (t_oauth_grants d)\<rparr>)))"

section \<open>Approvals\<close>

definition insert_approval_row :: "Approval \<Rightarrow> db \<Rightarrow> StoreError + db" where
  "insert_approval_row a d =
    try_r (insert_row (\<lambda>x y. ap_approval_id x = ap_approval_id y) a (t_approvals d))
      (\<lambda>t. Inr (d\<lparr>t_approvals := t\<rparr>))"

definition insert_approval :: "io \<Rightarrow> Approval \<Rightarrow> db \<Rightarrow> (StoreError + unit) \<times> db" where
  "insert_approval io a d = atomically d (stmt io 0 (try_r (insert_approval_row a d) (\<lambda>d'. Inr ((), d'))))"

definition insert_approval_with_audit :: "io \<Rightarrow> Approval \<Rightarrow> AuditEvent \<Rightarrow> db \<Rightarrow> (StoreError + unit) \<times> db" where
  "insert_approval_with_audit io a e d = atomically d
    (try_r (stmt io 0 (insert_approval_row a d)) (\<lambda>d1.
     try_r (stmt io 1 (insert_audit_event_tx e d1)) (\<lambda>d2.
     stmt io 2 (Inr ((), d2)))))"

definition pending_approval :: "ApprovalId \<Rightarrow> Approval \<Rightarrow> bool" where
  "pending_approval i a = (ap_approval_id a = i \<and> ap_decision a = ''pending'')"

definition decide_row :: "Approval \<Rightarrow> Approval \<Rightarrow> Approval" where
  "decide_row a r = r\<lparr>ap_decision := ap_decision a, ap_actor := ap_actor a, ap_presence := ap_presence a,
                     ap_decided_at := ap_decided_at a\<rparr>"

definition decide_rows :: "Approval \<Rightarrow> db \<Rightarrow> db" where
  "decide_rows a d = d\<lparr>t_approvals := update_rows (pending_approval (ap_approval_id a)) (decide_row a) (t_approvals d)\<rparr>"

definition update_approval :: "io \<Rightarrow> Approval \<Rightarrow> db \<Rightarrow> (StoreError + unit) \<times> db" where
  "update_approval io a d =
    (case stmt io 0 (Inr (changed (pending_approval (ap_approval_id a)) (t_approvals d), decide_rows a d)) of
       Inl e \<Rightarrow> (Inl e, d)
     | Inr (n, d') \<Rightarrow> (if n \<noteq> 1 then (Inl (NotFound (ap_approval_id a)), d') else (Inr (), d')))"

definition update_approval_with_audit :: "io \<Rightarrow> Approval \<Rightarrow> AuditEvent \<Rightarrow> db \<Rightarrow> (StoreError + unit) \<times> db" where
  "update_approval_with_audit io a e d = atomically d
    (try_r (stmt io 0 (Inr (changed (pending_approval (ap_approval_id a)) (t_approvals d), decide_rows a d))) (\<lambda>(n, d1).
     if n \<noteq> 1 then Inl (StateConflict (ap_approval_id a))
     else try_r (stmt io 1 (insert_audit_event_tx e d1)) (\<lambda>d2.
     stmt io 2 (Inr ((), d2)))))"

section \<open>Capabilities and executions\<close>

definition capability_row :: "Capability \<Rightarrow> string \<Rightarrow> CapabilityRow" where
  "capability_row c signing_key_id =
    \<lparr>cw_capability_id = cap_capability_id c, cw_request_id = cap_request_id c, cw_token_hash = cap_token_hash c,
     cw_state = CapabilityState_as_str (cap_state c), cw_max_uses = uint (cap_max_uses c),
     cw_used_count = uint (cap_used_count c), cw_issued_at = cap_issued_at c,
     cw_consume_deadline = cap_consume_deadline c, cw_execution_deadline = cap_execution_deadline c,
     cw_step_deadline = cap_step_deadline c, cw_flow_id = cap_flow_id c, cw_step_id = cap_step_id c,
     cw_revoked_reason = cap_revoked_reason c, cw_signing_key_id = signing_key_id,
     cw_policy_hash = Some (cap_policy_hash c), cw_browser_session_id = Some (cap_browser_session_id c)\<rparr>"

definition insert_capability_with_audit ::
    "io \<Rightarrow> Capability \<Rightarrow> string \<Rightarrow> AuditEvent \<Rightarrow> db \<Rightarrow> (StoreError + unit) \<times> db" where
  "insert_capability_with_audit io c signing_key_id e d = atomically d
    (try_r (stmt io 0 (insert_row (\<lambda>a b. cw_capability_id a = cw_capability_id b) (capability_row c signing_key_id)
                        (t_capabilities d))) (\<lambda>t.
     try_r (stmt io 1 (insert_audit_event_tx e (d\<lparr>t_capabilities := t\<rparr>))) (\<lambda>d2.
     stmt io 2 (Inr ((), d2)))))"

definition live_state :: "string \<Rightarrow> bool" where
  "live_state s = (s = ''issued'' \<or> s = ''active'')"

definition consumable :: "CapabilityId \<Rightarrow> CapabilityRow \<Rightarrow> bool" where
  "consumable i r = (cw_capability_id r = i \<and> live_state (cw_state r) \<and> cw_used_count r < cw_max_uses r)"

definition consume_row :: "CapabilityRow \<Rightarrow> CapabilityRow" where
  "consume_row r = r\<lparr>cw_state := ''consumed'', cw_used_count := cw_used_count r + 1\<rparr>"

definition consume_rows :: "CapabilityId \<Rightarrow> db \<Rightarrow> db" where
  "consume_rows i d = d\<lparr>t_capabilities := update_rows (consumable i) consume_row (t_capabilities d)\<rparr>"

definition execution_row :: "Execution \<Rightarrow> ExecutionRow" where
  "execution_row x =
    \<lparr>xw_execution_id = ex_execution_id x, xw_capability_id = ex_capability_id x,
     xw_state = ExecutionState_as_str (ex_state x), xw_prepared_context_digest = ex_prepared_context_digest x,
     xw_started_at = ex_started_at x, xw_completed_at = ex_completed_at x, xw_result_code = ex_result_code x\<rparr>"

text \<open>
  \<open>INSERT OR IGNORE\<close> into the table of issued one-time passwords: a row that violates a key, a unique
  index or a \<open>NOT NULL\<close> is skipped.  An unsigned step beyond the signed range cannot be bound.
\<close>

definition claim_totp :: "Execution \<Rightarrow> CredentialId \<Rightarrow> u64 \<Rightarrow> db \<Rightarrow> StoreError + (nat \<times> db)" where
  "claim_totp x credential_id time_step d =
    (if unat time_step \<ge> 2 ^ 63 then Inl (Sqlite ''integer out of range'')
     else case ex_started_at x of
       None \<Rightarrow> Inr (0, d)
     | Some t \<Rightarrow>
        (if list_ex (\<lambda>r. tw_credential_id r = credential_id \<and> tw_time_step r = time_step
                        \<or> tw_execution_id r = ex_execution_id x) (t_totp_issuances d)
         then Inr (0, d)
         else Inr (1, d\<lparr>t_totp_issuances := t_totp_issuances d @
                [\<lparr>tw_credential_id = credential_id, tw_time_step = time_step,
                  tw_execution_id = ex_execution_id x, tw_issued_at = t\<rparr>]\<rparr>)))"

definition consume_capability_with_execution_and_audit ::
    "io \<Rightarrow> CapabilityId \<Rightarrow> Execution \<Rightarrow> AuditEvent \<Rightarrow> (CredentialId \<times> u64) option \<Rightarrow> db \<Rightarrow> (StoreError + unit) \<times> db" where
  "consume_capability_with_execution_and_audit io capability_id x e totp_step d = atomically d
    (try_r (case totp_step of
              None \<Rightarrow> Inr d
            | Some (credential_id, time_step) \<Rightarrow>
               try_r (stmt io 0 (claim_totp x credential_id time_step d)) (\<lambda>(claimed, d0).
               if claimed \<noteq> 1 then Inl (StateConflict (''TOTP step already issued for '' @ credential_id))
               else Inr d0)) (\<lambda>d0.
     try_r (stmt io 1 (Inr (changed (consumable capability_id) (t_capabilities d0), consume_rows capability_id d0))) (\<lambda>(n, d1).
     if n \<noteq> 1 then Inl (StateConflict capability_id)
     else try_r (stmt io 2 (insert_row (\<lambda>a b. xw_execution_id a = xw_execution_id b) (execution_row x) (t_executions d1))) (\<lambda>t.
     try_r (stmt io 3 (insert_audit_event_tx e (d1\<lparr>t_executions := t\<rparr>))) (\<lambda>d3.
     stmt io 4 (Inr ((), d3)))))))"

definition consume_oauth_capability :: "io \<Rightarrow> CapabilityId \<Rightarrow> db \<Rightarrow> (StoreError + unit) \<times> db" where
  "consume_oauth_capability io capability_id d =
    (case stmt io 0 (Inr (changed (consumable capability_id) (t_capabilities d), consume_rows capability_id d)) of
       Inl e \<Rightarrow> (Inl e, d)
     | Inr (n, d') \<Rightarrow> (if n \<noteq> 1 then (Inl (StateConflict capability_id), d') else (Inr (), d')))"

definition finish_execution_with_audit :: "io \<Rightarrow> Execution \<Rightarrow> AuditEvent \<Rightarrow> db \<Rightarrow> (StoreError + unit) \<times> db" where
  "finish_execution_with_audit io x e d =
    (let p = (\<lambda>r. xw_execution_id r = ex_execution_id x \<and> xw_state r = ''consuming'') in
     atomically d
    (try_r (stmt io 0 (Inr (changed p (t_executions d),
              d\<lparr>t_executions := update_rows p (\<lambda>r. r\<lparr>xw_state := ExecutionState_as_str (ex_state x),
                   xw_completed_at := ex_completed_at x, xw_result_code := ex_result_code x\<rparr>) (t_executions d)\<rparr>))) (\<lambda>(n, d1).
     if n \<noteq> 1 then Inl (StateConflict (ex_execution_id x))
     else try_r (stmt io 1 (insert_audit_event_tx e d1)) (\<lambda>d2.
     stmt io 2 (Inr ((), d2))))))"

definition recover_incomplete_state :: "io \<Rightarrow> datetime \<Rightarrow> db \<Rightarrow> (StoreError + nat \<times> nat) \<times> db" where
  "recover_incomplete_state io now d =
    (let p = (\<lambda>r. live_state (cw_state r));
         q = (\<lambda>r. xw_state r = ''prepared'' \<or> xw_state r = ''consuming'') in
     atomically d
    (try_r (stmt io 0 (Inr (changed p (t_capabilities d),
              d\<lparr>t_capabilities := update_rows p (\<lambda>r. r\<lparr>cw_state := ''expired'',
                   cw_revoked_reason := Some ''broker_restart''\<rparr>) (t_capabilities d)\<rparr>))) (\<lambda>(expired, d1).
     try_r (stmt io 1 (Inr (changed q (t_executions d1),
              d1\<lparr>t_executions := update_rows q (\<lambda>r. r\<lparr>xw_state := ''indeterminate'',
                   xw_completed_at := Some now, xw_result_code := Some ''BROKER_RESTART''\<rparr>) (t_executions d1)\<rparr>))) (\<lambda>(indeterminate, d2).
     stmt io 2 (Inr ((expired, indeterminate), d2))))))"

definition revoke_row :: "string \<Rightarrow> CapabilityRow \<Rightarrow> CapabilityRow" where
  "revoke_row reason r = r\<lparr>cw_state := ''revoked'', cw_revoked_reason := Some reason\<rparr>"

definition revoke_rows :: "(CapabilityRow \<Rightarrow> bool) \<Rightarrow> string \<Rightarrow> db \<Rightarrow> nat \<times> db" where
  "revoke_rows p reason d =
    (changed p (t_capabilities d), d\<lparr>t_capabilities := update_rows p (revoke_row reason) (t_capabilities d)\<rparr>)"

definition revocable :: "CapabilityId \<Rightarrow> CapabilityRow \<Rightarrow> bool" where
  "revocable i r = (cw_capability_id r = i \<and> live_state (cw_state r))"

definition revoke_capability :: "io \<Rightarrow> CapabilityId \<Rightarrow> string \<Rightarrow> db \<Rightarrow> (StoreError + unit) \<times> db" where
  "revoke_capability io capability_id reason d =
    (case stmt io 0 (Inr (revoke_rows (revocable capability_id) reason d)) of
       Inl e \<Rightarrow> (Inl e, d)
     | Inr (n, d') \<Rightarrow> (if n \<noteq> 1 then (Inl (StateConflict capability_id), d') else (Inr (), d')))"

definition revoke_capability_with_audit ::
    "io \<Rightarrow> CapabilityId \<Rightarrow> string \<Rightarrow> AuditEvent \<Rightarrow> db \<Rightarrow> (StoreError + unit) \<times> db" where
  "revoke_capability_with_audit io capability_id reason e d = atomically d
    (try_r (stmt io 0 (Inr (revoke_rows (revocable capability_id) reason d))) (\<lambda>(n, d1).
     if n \<noteq> 1 then Inl (StateConflict capability_id)
     else try_r (stmt io 1 (insert_audit_event_tx e d1)) (\<lambda>d2.
     stmt io 2 (Inr ((), d2)))))"

text \<open>\<open>policy_hash != ?1\<close> is not true of a null column.\<close>

definition revoke_capabilities_not_policy_with_audit ::
    "io \<Rightarrow> bytes \<Rightarrow> AuditEvent \<Rightarrow> db \<Rightarrow> (StoreError + nat) \<times> db" where
  "revoke_capabilities_not_policy_with_audit io active_policy_hash e d = atomically d
    (try_r (stmt io 0 (Inr (revoke_rows (\<lambda>r. live_state (cw_state r)
              \<and> is_some_and (cw_policy_hash r) (\<lambda>h. h \<noteq> active_policy_hash)) ''policy_changed'' d))) (\<lambda>(n, d1).
     try_r (stmt io 1 (insert_audit_event_tx e d1)) (\<lambda>d2.
     stmt io 2 (Inr (n, d2)))))"

definition revoke_capabilities_for_session :: "io \<Rightarrow> string \<Rightarrow> db \<Rightarrow> (StoreError + nat) \<times> db" where
  "revoke_capabilities_for_session io browser_session_id d = atomically d (stmt io 0
    (Inr (revoke_rows (\<lambda>r. live_state (cw_state r) \<and> cw_browser_session_id r = Some browser_session_id)
            ''session_stale'' d)))"

definition capability_state :: "db \<Rightarrow> CapabilityId \<Rightarrow> StoreError + string" where
  "capability_state d capability_id =
    (case find (\<lambda>r. cw_capability_id r = capability_id) (t_capabilities d) of
       None \<Rightarrow> Inl (Sqlite ''Query returned no rows'')
     | Some r \<Rightarrow> Inr (cw_state r))"

definition capability_summary :: "CapabilityRow \<Rightarrow> CapabilitySummary" where
  "capability_summary r =
    \<lparr>cs_capability_id = cw_capability_id r, cs_request_id = cw_request_id r, cs_state = cw_state r,
     cs_max_uses = word_of_int (cw_max_uses r), cs_used_count = word_of_int (cw_used_count r),
     cs_issued_at = cw_issued_at r, cs_expires_at = cw_consume_deadline r,
     cs_revoked_reason = cw_revoked_reason r, cs_signing_key_id = cw_signing_key_id r\<rparr>"

definition list_capabilities :: "db \<Rightarrow> string option \<Rightarrow> CapabilitySummary list" where
  "list_capabilities d state =
    map capability_summary (sort_key (\<lambda>r. - cw_issued_at r)
      (case state of None \<Rightarrow> t_capabilities d
       | Some s \<Rightarrow> filter (\<lambda>r. cw_state r = s) (t_capabilities d)))"

definition execution_state_for_capability :: "db \<Rightarrow> CapabilityId \<Rightarrow> StoreError + string" where
  "execution_state_for_capability d capability_id =
    (case rev (sort_key xw_started_at (filter (\<lambda>r. xw_capability_id r = capability_id) (t_executions d))) of
       [] \<Rightarrow> Inl (Sqlite ''Query returned no rows'')
     | r # _ \<Rightarrow> Inr (xw_state r))"

definition execution_count :: "db \<Rightarrow> nat" where
  "execution_count d = length (t_executions d)"

section \<open>Keys\<close>

definition register_signing_key :: "io \<Rightarrow> datetime \<Rightarrow> string \<Rightarrow> bytes \<Rightarrow> string \<Rightarrow> db \<Rightarrow> (StoreError + unit) \<times> db" where
  "register_signing_key io now key_id public_key state d = atomically d (stmt io 0
    (if list_ex (\<lambda>r. kw_key_id r = key_id) (t_trusted_signing_keys d)
     then Inr ((), d\<lparr>t_trusted_signing_keys := update_rows (\<lambda>r. kw_key_id r = key_id)
                  (\<lambda>r. r\<lparr>kw_public_key := public_key, kw_state := state\<rparr>) (t_trusted_signing_keys d)\<rparr>)
     else Inr ((), d\<lparr>t_trusted_signing_keys := t_trusted_signing_keys d @
                  [\<lparr>kw_key_id = key_id, kw_public_key = public_key, kw_state = state,
                    kw_created_at = now, kw_retired_at = None\<rparr>]\<rparr>)))"

definition retire_signing_key :: "io \<Rightarrow> datetime \<Rightarrow> string \<Rightarrow> db \<Rightarrow> (StoreError + unit) \<times> db" where
  "retire_signing_key io now key_id d =
    (let p = (\<lambda>r. kw_key_id r = key_id \<and> kw_state r = ''active'') in
     case stmt io 0 (Inr (changed p (t_trusted_signing_keys d), d\<lparr>t_trusted_signing_keys := update_rows p
            (\<lambda>r. r\<lparr>kw_state := ''retired'', kw_retired_at := Some now\<rparr>) (t_trusted_signing_keys d)\<rparr>)) of
       Inl e \<Rightarrow> (Inl e, d)
     | Inr (n, d') \<Rightarrow> (if n \<noteq> 1 then (Inl (NotFound key_id), d') else (Inr (), d')))"

definition trusted_signing_keys :: "db \<Rightarrow> (string \<times> bytes) list" where
  "trusted_signing_keys d =
    map (\<lambda>r. (kw_key_id r, kw_public_key r))
      (filter (\<lambda>r. kw_state r = ''active'' \<or> kw_state r = ''retired'') (t_trusted_signing_keys d))"

definition active_signing_key_id :: "db \<Rightarrow> string option" where
  "active_signing_key_id d =
    (case rev (sort_key kw_created_at (filter (\<lambda>r. kw_state r = ''active'') (t_trusted_signing_keys d))) of
       [] \<Rightarrow> None | r # _ \<Rightarrow> Some (kw_key_id r))"

definition register_audit_key_version ::
    "io \<Rightarrow> datetime \<Rightarrow> u32 \<Rightarrow> string \<Rightarrow> string \<Rightarrow> db \<Rightarrow> (StoreError + unit) \<times> db" where
  "register_audit_key_version io now version key_locator state d = atomically d (stmt io 0
    (if list_ex (\<lambda>r. aw_key_locator r = key_locator \<and> aw_version r \<noteq> version) (t_audit_key_versions d)
     then Inl (Sqlite ''UNIQUE constraint failed'')
     else if list_ex (\<lambda>r. aw_version r = version) (t_audit_key_versions d)
     then Inr ((), d\<lparr>t_audit_key_versions := update_rows (\<lambda>r. aw_version r = version)
                  (\<lambda>r. r\<lparr>aw_key_locator := key_locator, aw_state := state\<rparr>) (t_audit_key_versions d)\<rparr>)
     else Inr ((), d\<lparr>t_audit_key_versions := t_audit_key_versions d @
                  [\<lparr>aw_version = version, aw_key_locator = key_locator, aw_state = state,
                    aw_created_at = now, aw_retired_at = None\<rparr>]\<rparr>)))"

definition retire_audit_key_version :: "io \<Rightarrow> datetime \<Rightarrow> u32 \<Rightarrow> db \<Rightarrow> (StoreError + unit) \<times> db" where
  "retire_audit_key_version io now version d =
    (let p = (\<lambda>r. aw_version r = version \<and> aw_state r = ''active'') in
     case stmt io 0 (Inr (changed p (t_audit_key_versions d), d\<lparr>t_audit_key_versions := update_rows p
            (\<lambda>r. r\<lparr>aw_state := ''retired'', aw_retired_at := Some now\<rparr>) (t_audit_key_versions d)\<rparr>)) of
       Inl e \<Rightarrow> (Inl e, d)
     | Inr (n, d') \<Rightarrow> (if n \<noteq> 1 then (Inl (NotFound (show_nat (unat version))), d') else (Inr (), d')))"

definition audit_key_versions :: "db \<Rightarrow> (u32 \<times> string \<times> string) list" where
  "audit_key_versions d =
    map (\<lambda>r. (aw_version r, aw_key_locator r, aw_state r)) (sort_key (\<lambda>r. unat (aw_version r)) (t_audit_key_versions d))"

definition active_audit_key_version :: "db \<Rightarrow> (u32 \<times> string) option" where
  "active_audit_key_version d =
    (case rev (sort_key (\<lambda>r. unat (fst r)) (filter (\<lambda>(_, _, state). state = ''active'') (audit_key_versions d))) of
       [] \<Rightarrow> None | (version, locator, _) # _ \<Rightarrow> Some (version, locator))"

section \<open>Standing grants\<close>

datatype GrantSelector = SelId GrantId | SelAgent string | SelCredential string | SelAll

fun GrantSelector_matches :: "GrantSelector \<Rightarrow> StandingGrant \<Rightarrow> bool" where
  "GrantSelector_matches (SelId grant_id) g = (sg_grant_id g = grant_id)"
| "GrantSelector_matches (SelAgent name) g = (sg_agent_name g = name \<or> sg_agent_id g = name)"
| "GrantSelector_matches (SelCredential name) g = (sg_credential_name g = name)"
| "GrantSelector_matches SelAll g = True"

definition grant_tuple :: "StandingGrant \<Rightarrow> AgentId \<times> string \<times> CanonicalOrigin \<times> ActionKind" where
  "grant_tuple g = (sg_agent_id g, sg_credential_name g, sg_origin g, sg_action g)"

definition live_grant :: "StandingGrant \<Rightarrow> bool" where
  "live_grant g = (sg_revoked_at g = None)"

text \<open>The primary key, and the unique index on the tuple of live grants.\<close>

definition grant_conflict :: "StandingGrant \<Rightarrow> StandingGrant \<Rightarrow> bool" where
  "grant_conflict a b = (sg_grant_id a = sg_grant_id b
     \<or> live_grant a \<and> live_grant b \<and> grant_tuple a = grant_tuple b)"

definition revoke_grant_row :: "datetime \<Rightarrow> string \<Rightarrow> StandingGrant \<Rightarrow> StandingGrant" where
  "revoke_grant_row at reason g = g\<lparr>sg_revoked_at := Some at, sg_revoked_reason := Some reason\<rparr>"

definition insert_standing_grant_with_audit ::
    "io \<Rightarrow> StandingGrant \<Rightarrow> AuditEvent \<Rightarrow> db \<Rightarrow> (StoreError + unit) \<times> db" where
  "insert_standing_grant_with_audit io g e d = atomically d
    (try_r (stmt io 0 (Inr (update_rows (\<lambda>r. live_grant r \<and> grant_tuple r = grant_tuple g)
                              (revoke_grant_row (sg_created_at g) ''superseded'') (t_standing_grants d)))) (\<lambda>t1.
     try_r (stmt io 1 (insert_row grant_conflict
              (g\<lparr>sg_revoked_at := None, sg_revoked_reason := None, sg_last_used_at := None, sg_use_count := 0\<rparr>) t1)) (\<lambda>t2.
     try_r (stmt io 2 (insert_audit_event_tx e (d\<lparr>t_standing_grants := t2\<rparr>))) (\<lambda>d3.
     stmt io 3 (Inr ((), d3))))))"

definition list_standing_grants :: "db \<Rightarrow> bool \<Rightarrow> StandingGrant list" where
  "list_standing_grants d include_revoked =
    sort_key (\<lambda>g. - sg_created_at g) (if include_revoked then t_standing_grants d
                                       else filter live_grant (t_standing_grants d))"

definition find_matching_standing_grant ::
    "db \<Rightarrow> AgentId \<Rightarrow> string \<Rightarrow> ActionKind \<Rightarrow> CanonicalOrigin \<Rightarrow> StandingGrant option" where
  "find_matching_standing_grant d agent_id credential_name action origin =
    find (\<lambda>g. live_grant g \<and> grant_tuple g = (agent_id, credential_name, origin, action)) (t_standing_grants d)"

definition touch_standing_grant :: "io \<Rightarrow> GrantId \<Rightarrow> datetime \<Rightarrow> db \<Rightarrow> (StoreError + unit) \<times> db" where
  "touch_standing_grant io grant_id used_at d = atomically d (stmt io 0
    (Inr ((), d\<lparr>t_standing_grants := update_rows (\<lambda>g. sg_grant_id g = grant_id)
       (\<lambda>g. g\<lparr>sg_last_used_at := Some used_at, sg_use_count := sg_use_count g + 1\<rparr>) (t_standing_grants d)\<rparr>)))"

text \<open>The loop of single-row updates, each committed on its own.\<close>

fun revoke_each :: "io \<Rightarrow> nat \<Rightarrow> string \<Rightarrow> datetime \<Rightarrow> StandingGrant list \<Rightarrow> db \<Rightarrow> (StoreError + unit) \<times> db" where
  "revoke_each io n reason at [] d = (Inr (), d)"
| "revoke_each io n reason at (g # gs) d =
    (case io n of
       Some e \<Rightarrow> (Inl (Sqlite e), d)
     | None \<Rightarrow> revoke_each io (Suc n) reason at gs
         (d\<lparr>t_standing_grants := update_rows (\<lambda>r. sg_grant_id r = sg_grant_id g \<and> live_grant r)
             (revoke_grant_row at reason) (t_standing_grants d)\<rparr>))"

definition revoke_standing_grants ::
    "io \<Rightarrow> GrantSelector \<Rightarrow> string \<Rightarrow> datetime \<Rightarrow> db \<Rightarrow> (StoreError + StandingGrant list) \<times> db" where
  "revoke_standing_grants io selector reason revoked_at d =
    (case io 0 of
       Some e \<Rightarrow> (Inl (Sqlite e), d)
     | None \<Rightarrow>
       let matching = filter (GrantSelector_matches selector) (list_standing_grants d False) in
       if matching = [] then (Inr [], d)
       else case revoke_each io 1 reason revoked_at matching d of
              (Inl e, d') \<Rightarrow> (Inl e, d')
            | (Inr _, d') \<Rightarrow> (Inr matching, d'))"

end
