(* ===== verification/Store_Invariants.thy ===== *)
theory Store_Invariants
  imports Store
begin

text \<open>
  What every operation of the store keeps.  \<open>tbl_step\<close> relates a table before and after an operation:
  rows are only changed in place, within a given relation and under an unchanged key, and new rows
  have new keys.  \<open>db_step\<close> collects these relations for the tables that carry the guarantees of the
  store; each operation is shown to be a \<open>db_step\<close>, and the properties about arbitrary sequences of
  operations follow from that alone.
\<close>

section \<open>Steps of a table\<close>

definition tbl_step :: "('r \<Rightarrow> 'k) \<Rightarrow> ('r \<Rightarrow> 'r \<Rightarrow> bool) \<Rightarrow> 'r list \<Rightarrow> 'r list \<Rightarrow> bool" where
  "tbl_step key rel t t' =
    ((\<exists>f new. t' = map f t @ new \<and> (\<forall>r \<in> set t. key (f r) = key r \<and> rel r (f r)))
     \<and> (distinct (map key t) \<longrightarrow> distinct (map key t')))"

locale row_relation =
  fixes key :: "'r \<Rightarrow> 'k"
    and rel :: "'r \<Rightarrow> 'r \<Rightarrow> bool"
  assumes rel_refl: "rel r r"
    and rel_trans: "rel a b \<Longrightarrow> rel b c \<Longrightarrow> rel a c"
begin

lemma step_refl: "tbl_step key rel t t"
  unfolding tbl_step_def by (auto intro!: exI[of _ id] simp: rel_refl)

lemma step_trans:
  assumes "tbl_step key rel s t" "tbl_step key rel t u"
  shows "tbl_step key rel s u"
proof -
  from assms obtain f new g new' where
    1: "t = map f s @ new" "\<forall>r \<in> set s. key (f r) = key r \<and> rel r (f r)"
    and 2: "u = map g t @ new'" "\<forall>r \<in> set t. key (g r) = key r \<and> rel r (g r)"
    unfolding tbl_step_def by blast
  have "u = map (g \<circ> f) s @ (map g new @ new')" using 1(1) 2(1) by simp
  moreover have "\<forall>r \<in> set s. key ((g \<circ> f) r) = key r \<and> rel r ((g \<circ> f) r)"
  proof
    fix r
    assume r: "r \<in> set s"
    then have "f r \<in> set t" using 1(1) by simp
    then show "key ((g \<circ> f) r) = key r \<and> rel r ((g \<circ> f) r)"
      using 1(2) 2(2) r by (auto intro: rel_trans)
  qed
  ultimately show ?thesis using assms unfolding tbl_step_def by blast
qed

lemma step_update:
  assumes "\<And>r. p r \<Longrightarrow> key (f r) = key r \<and> rel r (f r)"
  shows "tbl_step key rel t (update_rows p f t)"
proof -
  have "map key (update_rows p f t) = map key t" using assms by (simp add: update_rows_def)
  then show ?thesis using assms unfolding tbl_step_def
    by (auto intro!: exI[of _ "\<lambda>r. if p r then f r else r"] simp: rel_refl) (simp add: update_rows_def)
qed

lemma step_append:
  assumes "\<And>r. r \<in> set t \<Longrightarrow> key r \<noteq> key x"
  shows "tbl_step key rel t (t @ [x])"
  unfolding tbl_step_def
proof
  show "\<exists>f new. t @ [x] = map f t @ new \<and> (\<forall>r \<in> set t. key (f r) = key r \<and> rel r (f r))"
    by (rule exI[of _ id], rule exI[of _ "[x]"]) (simp add: rel_refl)
  show "distinct (map key t) \<longrightarrow> distinct (map key (t @ [x]))" using assms by fastforce
qed

lemma step_insert:
  assumes "insert_row conflict x t = Inr t'" "\<And>r. key r = key x \<Longrightarrow> conflict x r"
  shows "tbl_step key rel t t'"
  using assms step_append[of t x] by (auto simp: insert_row_def list_ex_iff split: if_splits)

text \<open>A row present before is present after, possibly changed within the relation.\<close>

lemma step_keeps:
  assumes "tbl_step key rel t t'" "r \<in> set t"
  obtains r' where "r' \<in> set t'" "key r' = key r" "rel r r'"
proof -
  from assms(1) obtain f new where "t' = map f t @ new" "\<forall>r \<in> set t. key (f r) = key r \<and> rel r (f r)"
    unfolding tbl_step_def by blast
  then show ?thesis using assms(2) that[of "f r"] by simp
qed

lemma step_distinct: "tbl_step key rel t t' \<Longrightarrow> distinct (map key t) \<Longrightarrow> distinct (map key t')"
  by (simp add: tbl_step_def)

end

section \<open>The relations of the tables\<close>

text \<open>A capability or execution row in a terminal state, a decided approval and an audit record never
  change; a revoked grant stays revoked, and no grant changes what it covers.\<close>

definition cap_rel :: "CapabilityRow \<Rightarrow> CapabilityRow \<Rightarrow> bool" where
  "cap_rel r s = (s = r \<or> live_state (cw_state r) \<and> \<not> live_state (cw_state s)
     \<and> (cw_used_count s = cw_used_count r
        \<or> cw_state s = ''consumed'' \<and> cw_used_count r < cw_max_uses r \<and> cw_used_count s = cw_used_count r + 1)
     \<and> cw_max_uses s = cw_max_uses r \<and> cw_token_hash s = cw_token_hash r
     \<and> cw_consume_deadline s = cw_consume_deadline r)"

definition open_execution :: "string \<Rightarrow> bool" where
  "open_execution s = (s = ''prepared'' \<or> s = ''consuming'')"

definition exec_rel :: "ExecutionRow \<Rightarrow> ExecutionRow \<Rightarrow> bool" where
  "exec_rel r s = (xw_capability_id s = xw_capability_id r \<and> (open_execution (xw_state r) \<or> s = r))"

definition approval_rel :: "Approval \<Rightarrow> Approval \<Rightarrow> bool" where
  "approval_rel r s = ((ap_decision r = ''pending'' \<or> s = r) \<and> ap_request_id s = ap_request_id r
     \<and> ap_context_digest s = ap_context_digest r \<and> ap_expires_at s = ap_expires_at r)"

definition grant_rel :: "StandingGrant \<Rightarrow> StandingGrant \<Rightarrow> bool" where
  "grant_rel r s = (grant_tuple s = grant_tuple r \<and> sg_risk_ceiling s = sg_risk_ceiling r
     \<and> sg_require_presence s = sg_require_presence r \<and> sg_expires_at s = sg_expires_at r
     \<and> (live_grant r \<or> sg_revoked_at s = sg_revoked_at r))"

interpretation caps: row_relation cw_capability_id cap_rel
  by unfold_locales (auto simp: cap_rel_def)

interpretation execs: row_relation xw_execution_id exec_rel
  by unfold_locales (auto simp: exec_rel_def)

interpretation approvals: row_relation ap_approval_id approval_rel
  by unfold_locales (auto simp: approval_rel_def)

interpretation grants: row_relation sg_grant_id grant_rel
  by unfold_locales (auto simp: grant_rel_def live_grant_def)

interpretation events: row_relation ev_sequence "(=)"
  by unfold_locales auto

interpretation checkpoints: row_relation ck_sequence "(=)"
  by unfold_locales auto

interpretation totps: row_relation "\<lambda>r. (tw_credential_id r, tw_time_step r)" "(=)"
  by unfold_locales auto

definition one_live_grant :: "StandingGrant list \<Rightarrow> bool" where
  "one_live_grant t = distinct (map grant_tuple (filter live_grant t))"

definition db_step :: "db \<Rightarrow> db \<Rightarrow> bool" where
  "db_step d d' =
    (tbl_step cw_capability_id cap_rel (t_capabilities d) (t_capabilities d')
     \<and> tbl_step xw_execution_id exec_rel (t_executions d) (t_executions d')
     \<and> tbl_step ap_approval_id approval_rel (t_approvals d) (t_approvals d')
     \<and> tbl_step sg_grant_id grant_rel (t_standing_grants d) (t_standing_grants d')
     \<and> tbl_step ev_sequence (=) (t_audit_events d) (t_audit_events d')
     \<and> tbl_step ck_sequence (=) (t_audit_checkpoints d) (t_audit_checkpoints d')
     \<and> tbl_step (\<lambda>r. (tw_credential_id r, tw_time_step r)) (=) (t_totp_issuances d) (t_totp_issuances d')
     \<and> (one_live_grant (t_standing_grants d) \<longrightarrow> one_live_grant (t_standing_grants d')))"

lemmas step_refls = caps.step_refl execs.step_refl approvals.step_refl grants.step_refl events.step_refl
  checkpoints.step_refl totps.step_refl

lemma db_step_refl [simp, intro]: "db_step d d"
  by (simp add: db_step_def step_refls)

lemma db_step_trans: "db_step a b \<Longrightarrow> db_step b c \<Longrightarrow> db_step a c"
  unfolding db_step_def
  by (blast intro: caps.step_trans execs.step_trans approvals.step_trans grants.step_trans events.step_trans
      checkpoints.step_trans totps.step_trans)

text \<open>One changed table.\<close>

lemma db_step_table:
  "tbl_step cw_capability_id cap_rel (t_capabilities d) c \<Longrightarrow> db_step d (d\<lparr>t_capabilities := c\<rparr>)"
  "tbl_step xw_execution_id exec_rel (t_executions d) x \<Longrightarrow> db_step d (d\<lparr>t_executions := x\<rparr>)"
  "tbl_step ap_approval_id approval_rel (t_approvals d) a \<Longrightarrow> db_step d (d\<lparr>t_approvals := a\<rparr>)"
  "tbl_step ev_sequence (=) (t_audit_events d) e \<Longrightarrow> db_step d (d\<lparr>t_audit_events := e\<rparr>)"
  "tbl_step ck_sequence (=) (t_audit_checkpoints d) k \<Longrightarrow> db_step d (d\<lparr>t_audit_checkpoints := k\<rparr>)"
  "tbl_step (\<lambda>r. (tw_credential_id r, tw_time_step r)) (=) (t_totp_issuances d) w \<Longrightarrow> db_step d (d\<lparr>t_totp_issuances := w\<rparr>)"
  "tbl_step sg_grant_id grant_rel (t_standing_grants d) g
    \<Longrightarrow> (one_live_grant (t_standing_grants d) \<Longrightarrow> one_live_grant g) \<Longrightarrow> db_step d (d\<lparr>t_standing_grants := g\<rparr>)"
  by (simp_all add: db_step_def step_refls)

lemma db_step_other [simp]:
  "db_step d (d\<lparr>t_agents := x1\<rparr>)" "db_step d (d\<lparr>t_credentials := x2\<rparr>)" "db_step d (d\<lparr>t_oauth_grants := x3\<rparr>)"
  "db_step d (d\<lparr>t_trusted_signing_keys := x4\<rparr>)" "db_step d (d\<lparr>t_audit_key_versions := x5\<rparr>)"
  by (simp_all add: db_step_def step_refls)

section \<open>Every operation is a step\<close>

lemma stmt_Inr_iff [simp]: "stmt io n r = Inr x \<longleftrightarrow> io n = None \<and> r = Inr x"
  by (auto simp: stmt_def split: option.splits)

lemma atomically_step: "(\<And>x d'. r = Inr (x, d') \<Longrightarrow> db_step d d') \<Longrightarrow> db_step d (snd (atomically d r))"
  by (auto simp: atomically_def split: sum.splits prod.splits)

lemma event_tx_step: "insert_audit_event_tx e d = Inr d' \<Longrightarrow> db_step d d'"
  by (auto simp: insert_audit_event_tx_def try_r_Inr_iff event_conflict_def
      intro!: db_step_table(4) elim: events.step_insert)

lemma consume_rows_step: "db_step d (consume_rows i d)"
  unfolding consume_rows_def
  by (intro db_step_table(1) caps.step_update)
    (auto simp: consume_row_def cap_rel_def consumable_def live_state_def)

lemma revoke_rows_step:
  "(\<And>r. p r \<Longrightarrow> live_state (cw_state r)) \<Longrightarrow> db_step d (snd (revoke_rows p reason d))"
  unfolding revoke_rows_def snd_conv
  by (intro db_step_table(1) caps.step_update) (auto simp: revoke_row_def cap_rel_def live_state_def)

lemma decide_rows_step: "db_step d (decide_rows a d)"
  unfolding decide_rows_def
  by (intro db_step_table(3) approvals.step_update)
    (auto simp: pending_approval_def decide_row_def approval_rel_def)

lemma approval_row_step: "insert_approval_row a d = Inr d' \<Longrightarrow> db_step d d'"
  by (auto simp: insert_approval_row_def try_r_Inr_iff intro!: db_step_table(3) elim: approvals.step_insert)

lemma claim_totp_step: "claim_totp x i s d = Inr (n, d') \<Longrightarrow> db_step d d'"
  by (auto simp: claim_totp_def list_ex_iff split: if_splits option.splits
      intro!: db_step_table(6) totps.step_append)

lemma one_live_update:
  assumes "\<And>r. p r \<Longrightarrow> grant_tuple (f r) = grant_tuple r \<and> (live_grant (f r) \<longrightarrow> live_grant r)"
  shows "one_live_grant t \<Longrightarrow> one_live_grant (update_rows p f t)"
proof -
  define g where "g r = (if p r then f r else r)" for r
  have g: "grant_tuple (g r) = grant_tuple r" "live_grant (g r) \<Longrightarrow> live_grant r" for r
    using assms by (auto simp: g_def split: if_splits)
  have sub: "grant_tuple ` set (filter live_grant (map g u)) \<subseteq> grant_tuple ` set (filter live_grant u)" for u
    using g by force
  have "one_live_grant t \<Longrightarrow> one_live_grant (map g t)"
  proof (induction t)
    case (Cons r t)
    show ?case
    proof (cases "live_grant (g r)")
      case True
      have "live_grant r" using g(2) True .
      then have "grant_tuple r \<notin> grant_tuple ` set (filter live_grant t)"
        using Cons.prems by (simp add: one_live_grant_def)
      then have "grant_tuple (g r) \<notin> grant_tuple ` set (filter live_grant (map g t))"
        using sub[of t] by (auto simp: g(1))
      then show ?thesis using Cons True \<open>live_grant r\<close> by (simp add: one_live_grant_def)
    next
      case False
      then show ?thesis using Cons by (cases "live_grant r") (simp_all add: one_live_grant_def)
    qed
  qed (simp add: one_live_grant_def)
  moreover have "update_rows p f t = map g t" by (simp add: update_rows_def g_def)
  ultimately show "one_live_grant t \<Longrightarrow> one_live_grant (update_rows p f t)" by simp
qed

lemma revoke_grants_step:
  "db_step d (d\<lparr>t_standing_grants := update_rows (\<lambda>r. P r \<and> live_grant r) (revoke_grant_row at reason) (t_standing_grants d)\<rparr>)"
  by (intro db_step_table(7) grants.step_update one_live_update)
    (auto simp: revoke_grant_row_def grant_rel_def grant_tuple_def live_grant_def)

lemma revoke_each_step: "db_step d (snd (revoke_each io n reason at gs d))"
proof (induction gs arbitrary: n d)
  case (Cons g gs)
  show ?case
  proof (cases "io n")
    case None
    then show ?thesis by (simp add: db_step_trans[OF revoke_grants_step Cons.IH])
  qed simp
qed simp

lemma insert_grant_unique:
  assumes "insert_row grant_conflict g t = Inr t'" "live_grant g" "one_live_grant t"
  shows "one_live_grant t'"
  using assms by (auto simp: insert_row_def grant_conflict_def one_live_grant_def list_ex_iff split: if_splits)

section \<open>Sequences of operations\<close>

text \<open>The operations that write, with their arguments; \<open>exec_op\<close> tells whether one succeeded.\<close>

datatype store_op =
    InsertAgent AgentPrincipal
  | UpsertAgent AgentPrincipal
  | InsertAuditEvent AuditEvent
  | InsertAuditCheckpoint AuditCheckpoint
  | InsertCredential CredentialDescriptor
  | DeleteCredential string
  | InsertOAuthGrant OAuthGrant
  | DeleteOAuthGrant GrantId
  | InsertApproval Approval
  | InsertApprovalAudit Approval AuditEvent
  | UpdateApproval Approval
  | UpdateApprovalAudit Approval AuditEvent
  | InsertCapability Capability string AuditEvent
  | ConsumeCapability CapabilityId Execution AuditEvent "(CredentialId \<times> u64) option"
  | ConsumeOAuth CapabilityId
  | FinishExecution Execution AuditEvent
  | Recover datetime
  | RevokeCapability CapabilityId string
  | RevokeCapabilityAudit CapabilityId string AuditEvent
  | RevokeNotPolicy bytes AuditEvent
  | RevokeSession string
  | RegisterSigningKey datetime string bytes string
  | RetireSigningKey datetime string
  | RegisterAuditKey datetime u32 string string
  | RetireAuditKey datetime u32
  | InsertGrant StandingGrant AuditEvent
  | TouchGrant GrantId datetime
  | RevokeGrants GrantSelector string datetime

definition outcome :: "('e + 'a) \<times> db \<Rightarrow> bool \<times> db" where
  "outcome r = (is_ok (fst r), snd r)"

fun exec_op :: "io \<Rightarrow> store_op \<Rightarrow> db \<Rightarrow> bool \<times> db" where
  "exec_op io (InsertAgent a) d = outcome (insert_agent io a d)"
| "exec_op io (UpsertAgent a) d = outcome (upsert_agent io a d)"
| "exec_op io (InsertAuditEvent e) d = outcome (insert_audit_event io e d)"
| "exec_op io (InsertAuditCheckpoint c) d = outcome (insert_audit_checkpoint io c d)"
| "exec_op io (InsertCredential c) d = outcome (insert_credential io c d)"
| "exec_op io (DeleteCredential n) d = outcome (delete_credential_by_name io n d)"
| "exec_op io (InsertOAuthGrant g) d = outcome (insert_oauth_grant io g d)"
| "exec_op io (DeleteOAuthGrant g) d = outcome (delete_oauth_grant io g d)"
| "exec_op io (InsertApproval a) d = outcome (insert_approval io a d)"
| "exec_op io (InsertApprovalAudit a e) d = outcome (insert_approval_with_audit io a e d)"
| "exec_op io (UpdateApproval a) d = outcome (update_approval io a d)"
| "exec_op io (UpdateApprovalAudit a e) d = outcome (update_approval_with_audit io a e d)"
| "exec_op io (InsertCapability c k e) d = outcome (insert_capability_with_audit io c k e d)"
| "exec_op io (ConsumeCapability i x e t) d = outcome (consume_capability_with_execution_and_audit io i x e t d)"
| "exec_op io (ConsumeOAuth i) d = outcome (consume_oauth_capability io i d)"
| "exec_op io (FinishExecution x e) d = outcome (finish_execution_with_audit io x e d)"
| "exec_op io (Recover t) d = outcome (recover_incomplete_state io t d)"
| "exec_op io (RevokeCapability i r) d = outcome (revoke_capability io i r d)"
| "exec_op io (RevokeCapabilityAudit i r e) d = outcome (revoke_capability_with_audit io i r e d)"
| "exec_op io (RevokeNotPolicy h e) d = outcome (revoke_capabilities_not_policy_with_audit io h e d)"
| "exec_op io (RevokeSession s) d = outcome (revoke_capabilities_for_session io s d)"
| "exec_op io (RegisterSigningKey t i k s) d = outcome (register_signing_key io t i k s d)"
| "exec_op io (RetireSigningKey t i) d = outcome (retire_signing_key io t i d)"
| "exec_op io (RegisterAuditKey t v l s) d = outcome (register_audit_key_version io t v l s d)"
| "exec_op io (RetireAuditKey t v) d = outcome (retire_audit_key_version io t v d)"
| "exec_op io (InsertGrant g e) d = outcome (insert_standing_grant_with_audit io g e d)"
| "exec_op io (TouchGrant g t) d = outcome (touch_standing_grant io g t d)"
| "exec_op io (RevokeGrants s r t) d = outcome (revoke_standing_grants io s r t d)"

fun run_ops :: "(io \<times> store_op) list \<Rightarrow> db \<Rightarrow> db" where
  "run_ops [] d = d"
| "run_ops ((io, x) # xs) d = run_ops xs (snd (exec_op io x d))"

lemma snd_outcome [simp]: "snd (outcome r) = snd r"
  by (simp add: outcome_def)

lemma case_stmt_step:
  assumes "db_step d (snd p)"
  shows "db_step d (snd (case stmt io n (Inr p) of
     Inl e \<Rightarrow> (Inl e, d) | Inr (k, d') \<Rightarrow> (if k \<noteq> (1 :: nat) then (Inl err, d') else (Inr v, d'))))"
  using assms by (cases p) (auto simp: stmt_def split: option.splits)

lemma simple_ops_step:
  "db_step d (snd (insert_agent io a d))"
  "db_step d (snd (upsert_agent io a d))"
  "db_step d (snd (insert_credential io cr d))"
  "db_step d (snd (delete_credential_by_name io nm d))"
  "db_step d (snd (insert_oauth_grant io og d))"
  "db_step d (snd (delete_oauth_grant io gi d))"
  "db_step d (snd (register_signing_key io t i k s d))"
  "db_step d (snd (retire_signing_key io t i d))"
  "db_step d (snd (register_audit_key_version io t v l s d))"
  "db_step d (snd (retire_audit_key_version io t v d))"
  unfolding insert_agent_def upsert_agent_def insert_credential_def insert_oauth_grant_def delete_oauth_grant_def
    register_signing_key_def register_audit_key_version_def delete_credential_by_name_def
    retire_signing_key_def retire_audit_key_version_def Let_def
  by (rule atomically_step case_stmt_step; auto simp: try_r_Inr_iff split: if_splits)+

lemma audit_ops_step:
  "db_step d (snd (insert_audit_event io e d))"
  "db_step d (snd (insert_audit_checkpoint io c d))"
  unfolding insert_audit_event_def insert_audit_checkpoint_def
  by (rule atomically_step; auto simp: try_r_Inr_iff dest: event_tx_step
      intro!: db_step_table(5) elim: checkpoints.step_insert)+

lemma approval_ops_step:
  "db_step d (snd (insert_approval io a d))"
  "db_step d (snd (insert_approval_with_audit io a e d))"
  "db_step d (snd (update_approval io a d))"
  "db_step d (snd (update_approval_with_audit io a e d))"
proof -
  show "db_step d (snd (insert_approval io a d))"
    unfolding insert_approval_def
    by (rule atomically_step) (auto simp: try_r_Inr_iff dest: approval_row_step)
  show "db_step d (snd (insert_approval_with_audit io a e d))"
    unfolding insert_approval_with_audit_def
    by (rule atomically_step) (auto simp: try_r_Inr_iff dest: approval_row_step event_tx_step intro: db_step_trans)
  show "db_step d (snd (update_approval io a d))"
    unfolding update_approval_def by (rule case_stmt_step) (simp add: decide_rows_step)
  show "db_step d (snd (update_approval_with_audit io a e d))"
    unfolding update_approval_with_audit_def
    by (rule atomically_step)
      (auto simp: try_r_Inr_iff dest: event_tx_step intro: db_step_trans[OF decide_rows_step] split: if_splits)
qed

lemma insert_capability_step: "db_step d (snd (insert_capability_with_audit io c k e d))"
  unfolding insert_capability_with_audit_def
proof (rule atomically_step)
  fix x d'
  assume "try_r (stmt io 0 (insert_row (\<lambda>a b. cw_capability_id a = cw_capability_id b) (capability_row c k) (t_capabilities d)))
      (\<lambda>t. try_r (stmt io 1 (insert_audit_event_tx e (d\<lparr>t_capabilities := t\<rparr>))) (\<lambda>d2. stmt io 2 (Inr ((), d2)))) = Inr (x, d')"
  then obtain t where t: "insert_row (\<lambda>a b. cw_capability_id a = cw_capability_id b) (capability_row c k) (t_capabilities d) = Inr t"
    "insert_audit_event_tx e (d\<lparr>t_capabilities := t\<rparr>) = Inr d'"
    by (auto simp: try_r_Inr_iff)
  have "db_step d (d\<lparr>t_capabilities := t\<rparr>)"
    by (rule db_step_table(1), rule caps.step_insert[OF t(1)]) simp
  then show "db_step d d'" using event_tx_step[OF t(2)] by (rule db_step_trans)
qed

text \<open>A consumption that commits, statement by statement.\<close>

lemma consume_commits:
  assumes "consume_capability_with_execution_and_audit io i x e ts d = (Inr u, d')"
  obtains d0 t where
    "case ts of None \<Rightarrow> d0 = d | Some (c, s) \<Rightarrow> claim_totp x c s d = Inr (1, d0)"
    "changed (consumable i) (t_capabilities d0) = 1"
    "insert_row (\<lambda>a b. xw_execution_id a = xw_execution_id b) (execution_row x) (t_executions d0) = Inr t"
    "insert_audit_event_tx e ((consume_rows i d0)\<lparr>t_executions := t\<rparr>) = Inr d'"
proof -
  have ex: "t_executions (consume_rows i dd) = t_executions dd" for dd by (simp add: consume_rows_def)
  from assms obtain d0 t where
    "(case ts of None \<Rightarrow> Inr d
      | Some (c, s) \<Rightarrow> try_r (stmt io 0 (claim_totp x c s d)) (\<lambda>(claimed, d0).
          if claimed \<noteq> 1 then Inl (StateConflict (''TOTP step already issued for '' @ c)) else Inr d0)) = Inr d0"
    "changed (consumable i) (t_capabilities d0) = 1"
    "insert_row (\<lambda>a b. xw_execution_id a = xw_execution_id b) (execution_row x) (t_executions d0) = Inr t"
    "insert_audit_event_tx e ((consume_rows i d0)\<lparr>t_executions := t\<rparr>) = Inr d'"
    unfolding consume_capability_with_execution_and_audit_def atomically_def
    by (auto simp: try_r_Inr_iff ex split: sum.splits)
  moreover from this(1) have "case ts of None \<Rightarrow> d0 = d | Some (c, s) \<Rightarrow> claim_totp x c s d = Inr (1, d0)"
    by (auto simp: try_r_Inr_iff split: option.splits)
  ultimately show ?thesis using that by blast
qed

lemma atomically_error: "atomically d r = (Inl e, d') \<Longrightarrow> d' = d"
  by (auto simp: atomically_def split: sum.splits prod.splits)

lemma consume_aborts:
  "consume_capability_with_execution_and_audit io i x e ts d = (Inl err, d') \<Longrightarrow> d' = d"
  unfolding consume_capability_with_execution_and_audit_def by (rule atomically_error)

lemma consume_step: "db_step d (snd (consume_capability_with_execution_and_audit io i x e ts d))"
proof -
  obtain r d' where r: "consume_capability_with_execution_and_audit io i x e ts d = (r, d')" by fastforce
  show ?thesis
  proof (cases r)
    case (Inl err)
    then show ?thesis using consume_aborts r by (metis db_step_refl snd_conv)
  next
    case (Inr u)
    from r Inr obtain d0 t where
      d0: "case ts of None \<Rightarrow> d0 = d | Some (c, s) \<Rightarrow> claim_totp x c s d = Inr (1, d0)"
      and t: "insert_row (\<lambda>a b. xw_execution_id a = xw_execution_id b) (execution_row x) (t_executions d0) = Inr t"
      and e: "insert_audit_event_tx e ((consume_rows i d0)\<lparr>t_executions := t\<rparr>) = Inr d'"
      by (auto elim: consume_commits)
    have "db_step d d0" using d0 by (auto dest: claim_totp_step split: option.splits)
    moreover have "db_step (consume_rows i d0) ((consume_rows i d0)\<lparr>t_executions := t\<rparr>)"
      using t by (intro db_step_table(2)) (auto simp: consume_rows_def elim: execs.step_insert)
    ultimately show ?thesis using consume_rows_step event_tx_step[OF e] r
      by (metis db_step_trans snd_conv)
  qed
qed

lemma finish_execution_step: "db_step d (snd (finish_execution_with_audit io x e d))"
  unfolding finish_execution_with_audit_def Let_def
proof (rule atomically_step, goal_cases)
  case (1 u d')
  let ?d1 = "d\<lparr>t_executions := update_rows (\<lambda>r. xw_execution_id r = ex_execution_id x \<and> xw_state r = ''consuming'')
      (\<lambda>r. r\<lparr>xw_state := ExecutionState_as_str (ex_state x), xw_completed_at := ex_completed_at x,
           xw_result_code := ex_result_code x\<rparr>) (t_executions d)\<rparr>"
  from 1 have e: "insert_audit_event_tx e ?d1 = Inr d'" by (auto simp: try_r_Inr_iff split: if_splits)
  have "db_step d ?d1"
    by (rule db_step_table(2), rule execs.step_update) (auto simp: exec_rel_def open_execution_def)
  then show ?case using event_tx_step[OF e] by (rule db_step_trans)
qed

lemma recover_step: "db_step d (snd (recover_incomplete_state io t d))"
  unfolding recover_incomplete_state_def Let_def
proof (rule atomically_step, goal_cases)
  case (1 u d')
  let ?d1 = "d\<lparr>t_capabilities := update_rows (\<lambda>r. live_state (cw_state r))
      (\<lambda>r. r\<lparr>cw_state := ''expired'', cw_revoked_reason := Some ''broker_restart''\<rparr>) (t_capabilities d)\<rparr>"
  let ?d2 = "?d1\<lparr>t_executions := update_rows (\<lambda>r. xw_state r = ''prepared'' \<or> xw_state r = ''consuming'')
      (\<lambda>r. r\<lparr>xw_state := ''indeterminate'', xw_completed_at := Some t, xw_result_code := Some ''BROKER_RESTART''\<rparr>)
      (t_executions ?d1)\<rparr>"
  from 1 have d': "d' = ?d2" by (auto simp: try_r_Inr_iff)
  have 1: "db_step d ?d1"
    by (rule db_step_table(1), rule caps.step_update) (auto simp: cap_rel_def live_state_def)
  have 2: "db_step ?d1 ?d2"
    by (rule db_step_table(2), rule execs.step_update) (auto simp: exec_rel_def open_execution_def)
  show ?case unfolding d' using 1 2 by (rule db_step_trans)
qed

lemma revoke_ops_step:
  "db_step d (snd (consume_oauth_capability io i d))"
  "db_step d (snd (revoke_capability io i r d))"
  "db_step d (snd (revoke_capability_with_audit io i r e d))"
  "db_step d (snd (revoke_capabilities_not_policy_with_audit io h e d))"
  "db_step d (snd (revoke_capabilities_for_session io b d))"
proof -
  have rv: "db_step d (snd (revoke_rows (revocable i) r d))"
    by (rule revoke_rows_step) (simp add: revocable_def)
  show "db_step d (snd (consume_oauth_capability io i d))"
    unfolding consume_oauth_capability_def by (rule case_stmt_step) (simp add: consume_rows_step)
  show "db_step d (snd (revoke_capability io i r d))"
    unfolding revoke_capability_def using rv by (rule case_stmt_step)
  show "db_step d (snd (revoke_capability_with_audit io i r e d))"
    unfolding revoke_capability_with_audit_def
    by (rule atomically_step)
      (auto simp: try_r_Inr_iff split: if_splits dest!: event_tx_step intro: db_step_trans[OF rv] split: prod.splits)
  show "db_step d (snd (revoke_capabilities_not_policy_with_audit io h e d))"
    unfolding revoke_capabilities_not_policy_with_audit_def
  proof (rule atomically_step, goal_cases)
    case (1 n d')
    let ?p = "\<lambda>r. live_state (cw_state r) \<and> is_some_and (cw_policy_hash r) (\<lambda>hh. hh \<noteq> h)"
    from 1 have "insert_audit_event_tx e (snd (revoke_rows ?p ''policy_changed'' d)) = Inr d'"
      by (auto simp: try_r_Inr_iff split: prod.splits)
    then show ?case using revoke_rows_step[of ?p d "''policy_changed''"]
      by (auto dest: event_tx_step intro: db_step_trans)
  qed
  show "db_step d (snd (revoke_capabilities_for_session io b d))"
    unfolding revoke_capabilities_for_session_def
  proof (rule atomically_step, goal_cases)
    case (1 n d')
    let ?p = "\<lambda>r. live_state (cw_state r) \<and> cw_browser_session_id r = Some b"
    from 1 have "d' = snd (revoke_rows ?p ''session_stale'' d)" by (auto simp: revoke_rows_def)
    then show ?case using revoke_rows_step[of ?p d "''session_stale''"] by simp
  qed
qed

lemma grant_ops_step:
  "db_step d (snd (insert_standing_grant_with_audit io g e d))"
  "db_step d (snd (touch_standing_grant io gi t d))"
  "db_step d (snd (revoke_standing_grants io sel r t d))"
proof -
  show "db_step d (snd (insert_standing_grant_with_audit io g e d))"
    unfolding insert_standing_grant_with_audit_def
  proof (rule atomically_step, goal_cases)
    case (1 u d')
    let ?t1 = "update_rows (\<lambda>r. live_grant r \<and> grant_tuple r = grant_tuple g)
        (revoke_grant_row (sg_created_at g) ''superseded'') (t_standing_grants d)"
    let ?g = "g\<lparr>sg_revoked_at := None, sg_revoked_reason := None, sg_last_used_at := None, sg_use_count := 0\<rparr>"
    from 1 obtain t2 where t2: "insert_row grant_conflict ?g ?t1 = Inr t2"
      "insert_audit_event_tx e (d\<lparr>t_standing_grants := t2\<rparr>) = Inr d'"
      by (auto simp: try_r_Inr_iff)
    have 1: "db_step d (d\<lparr>t_standing_grants := ?t1\<rparr>)"
      by (rule db_step_table(7), rule grants.step_update)
        (auto simp: revoke_grant_row_def grant_rel_def grant_tuple_def live_grant_def intro!: one_live_update)
    have 2: "db_step (d\<lparr>t_standing_grants := ?t1\<rparr>) (d\<lparr>t_standing_grants := ?t1\<rparr>\<lparr>t_standing_grants := t2\<rparr>)"
    proof (rule db_step_table(7))
      show "tbl_step sg_grant_id grant_rel (t_standing_grants (d\<lparr>t_standing_grants := ?t1\<rparr>)) t2"
        using t2(1) by (simp, elim grants.step_insert) (simp add: grant_conflict_def)
      show "one_live_grant (t_standing_grants (d\<lparr>t_standing_grants := ?t1\<rparr>)) \<Longrightarrow> one_live_grant t2"
        using insert_grant_unique[OF t2(1)] by (simp add: live_grant_def)
    qed
    show ?case using db_step_trans[OF 1 2] event_tx_step[OF t2(2)] by (auto intro: db_step_trans)
  qed
  show "db_step d (snd (touch_standing_grant io gi t d))"
    unfolding touch_standing_grant_def
    by (rule atomically_step) (auto intro!: db_step_table(7) grants.step_update one_live_update
        simp: grant_rel_def grant_tuple_def live_grant_def)
  show "db_step d (snd (revoke_standing_grants io sel r t d))"
    using revoke_each_step[of d io 1 r t]
    by (auto simp: revoke_standing_grants_def Let_def split: option.splits prod.splits sum.splits) (metis snd_conv)+
qed

lemma exec_op_step: "db_step d (snd (exec_op io x d))"
  by (cases x) (simp_all add: simple_ops_step audit_ops_step approval_ops_step insert_capability_step
      consume_step finish_execution_step recover_step revoke_ops_step grant_ops_step)

lemma run_ops_step: "db_step d (run_ops xs d)"
  by (induction xs d rule: run_ops.induct) (auto intro: db_step_trans exec_op_step)

end
