(* ===== verification/Store_Properties.thy ===== *)
theory Store_Properties
  imports Store_Invariants
begin

text \<open>
  The guarantees of the store over arbitrary sequences of its operations, with database errors at any
  statement: unique keys, immutable history, at most one consumption of a capability, at most one issue
  of a one-time-password step, at most one decision of an approval, and what recovery and revocation
  leave behind.
\<close>

section \<open>The invariant\<close>

definition db_inv :: "db \<Rightarrow> bool" where
  "db_inv d = (distinct (map cw_capability_id (t_capabilities d)) \<and> distinct (map xw_execution_id (t_executions d))
     \<and> distinct (map ap_approval_id (t_approvals d)) \<and> distinct (map sg_grant_id (t_standing_grants d))
     \<and> distinct (map ev_sequence (t_audit_events d)) \<and> distinct (map ck_sequence (t_audit_checkpoints d))
     \<and> distinct (map (\<lambda>r. (tw_credential_id r, tw_time_step r)) (t_totp_issuances d))
     \<and> one_live_grant (t_standing_grants d))"

lemma db_step_inv: "db_step d d' \<Longrightarrow> db_inv d \<Longrightarrow> db_inv d'"
  unfolding db_step_def db_inv_def
  by (elim conjE, intro conjI)
    (simp_all add: caps.step_distinct execs.step_distinct approvals.step_distinct grants.step_distinct
      events.step_distinct checkpoints.step_distinct totps.step_distinct)

lemma db_inv_empty: "db_inv empty_db"
  by (simp add: db_inv_def empty_db_def one_live_grant_def)

lemma exec_op_inv: "db_inv d \<Longrightarrow> db_inv (snd (exec_op io x d))"
  using exec_op_step db_step_inv by blast

lemma same_key_eq: "distinct (map key t) \<Longrightarrow> r \<in> set t \<Longrightarrow> s \<in> set t \<Longrightarrow> key r = key s \<Longrightarrow> r = s"
  by (metis distinct_map inj_onD)

section \<open>Consumption of capabilities\<close>

fun consumes :: "CapabilityId \<Rightarrow> store_op \<Rightarrow> bool" where
  "consumes i (ConsumeCapability j x e t) = (j = i)"
| "consumes i (ConsumeOAuth j) = (j = i)"
| "consumes i _ = False"

definition consume_use :: "CapabilityId \<Rightarrow> io \<times> store_op \<Rightarrow> db \<Rightarrow> bool \<times> db" where
  "consume_use i x d = (let (ok, d') = exec_op (fst x) (snd x) d in (ok \<and> consumes i (snd x), d'))"

definition spent :: "CapabilityId \<Rightarrow> db \<Rightarrow> bool" where
  "spent i d = (\<exists>r \<in> set (t_capabilities d). cw_capability_id r = i \<and> \<not> live_state (cw_state r))"

lemma claim_totp_caps: "claim_totp x c s d = Inr (n, d') \<Longrightarrow> t_capabilities d' = t_capabilities d"
  by (auto simp: claim_totp_def split: if_splits option.splits)

lemma event_tx_tables:
  assumes "insert_audit_event_tx e d = Inr d'"
  shows "t_capabilities d' = t_capabilities d" "t_executions d' = t_executions d" "t_approvals d' = t_approvals d"
    "t_totp_issuances d' = t_totp_issuances d" "t_standing_grants d' = t_standing_grants d"
    "t_audit_events d' = t_audit_events d @ [e]"
  using assms by (auto simp: insert_audit_event_tx_def insert_row_def try_r_Inr_iff split: if_splits)

lemma consume_tables:
  assumes "consume_capability_with_execution_and_audit io i x e ts d = (Inr u, d')"
  shows "changed (consumable i) (t_capabilities d) = 1"
    "t_capabilities d' = update_rows (consumable i) consume_row (t_capabilities d)"
    "t_executions d' = t_executions d @ [execution_row x]"
    "t_audit_events d' = t_audit_events d @ [e]"
    "\<And>c s. ts = Some (c, s) \<Longrightarrow> claim_totp x c s d = Inr (1, d\<lparr>t_totp_issuances := t_totp_issuances d'\<rparr>)"
proof -
  from assms obtain d0 t where c:
    "case ts of None \<Rightarrow> d0 = d | Some (c, s) \<Rightarrow> claim_totp x c s d = Inr (1, d0)"
    "changed (consumable i) (t_capabilities d0) = 1"
    "insert_row (\<lambda>a b. xw_execution_id a = xw_execution_id b) (execution_row x) (t_executions d0) = Inr t"
    "insert_audit_event_tx e ((consume_rows i d0)\<lparr>t_executions := t\<rparr>) = Inr d'"
    by (rule consume_commits)
  have d0: "d0 = d\<lparr>t_totp_issuances := t_totp_issuances d0\<rparr>"
    using c(1) by (auto simp: claim_totp_def split: option.splits if_splits)
  then have same: "t_capabilities d0 = t_capabilities d" "t_executions d0 = t_executions d"
    "t_audit_events d0 = t_audit_events d"
    by (metis db.ext_inject db.surjective db.update_convs(12))+
  note ev = event_tx_tables[OF c(4)]
  show "changed (consumable i) (t_capabilities d) = 1" using c(2) same by simp
  show "t_capabilities d' = update_rows (consumable i) consume_row (t_capabilities d)"
    using ev(1) same by (simp add: consume_rows_def)
  show "t_executions d' = t_executions d @ [execution_row x]"
    using ev(2) c(3) same by (auto simp: insert_row_def split: if_splits)
  show "t_audit_events d' = t_audit_events d @ [e]" using ev(6) same by (simp add: consume_rows_def)
  have "t_totp_issuances d' = t_totp_issuances d0" using ev(4) by (simp add: consume_rows_def)
  then show "claim_totp x cc s d = Inr (1, d\<lparr>t_totp_issuances := t_totp_issuances d'\<rparr>)" if "ts = Some (cc, s)" for cc s
    using c(1) d0 that by simp
qed

lemma changed_pos: "changed p t = Suc n \<Longrightarrow> \<exists>r \<in> set t. p r"
  by (auto simp: changed_def length_Suc_conv filter_eq_Cons_iff)

lemma consume_granted:
  assumes "exec_op io x d = (True, d')" "consumes i x"
  shows "\<exists>r \<in> set (t_capabilities d). cw_capability_id r = i \<and> live_state (cw_state r)" and "spent i d'"
proof -
  have ch: "changed (consumable i) (t_capabilities d) = 1"
    and up: "t_capabilities d' = update_rows (consumable i) consume_row (t_capabilities d)"
  proof -
    have "changed (consumable i) (t_capabilities d) = 1
        \<and> t_capabilities d' = update_rows (consumable i) consume_row (t_capabilities d)"
    proof (cases x)
      case (ConsumeCapability j y e ts)
      then obtain u where "consume_capability_with_execution_and_audit io i y e ts d = (Inr u, d')"
        using assms by (auto simp: outcome_def is_ok_iff prod_eq_iff)
      then show ?thesis using consume_tables(1,2) by blast
    next
      case (ConsumeOAuth j)
      then show ?thesis using assms
        by (auto simp: outcome_def consume_oauth_capability_def stmt_def consume_rows_def
            split: option.splits if_splits)
    qed (use assms(2) in simp_all)
    then show "changed (consumable i) (t_capabilities d) = 1"
      "t_capabilities d' = update_rows (consumable i) consume_row (t_capabilities d)" by auto
  qed
  from ch obtain r where r: "r \<in> set (t_capabilities d)" "consumable i r" using changed_pos by fastforce
  then show "\<exists>r \<in> set (t_capabilities d). cw_capability_id r = i \<and> live_state (cw_state r)"
    by (auto simp: consumable_def)
  have "consume_row r \<in> set (t_capabilities d')" using r up by (force simp: update_rows_def)
  then show "spent i d'" using r(2) unfolding spent_def
    by (intro bexI[of _ "consume_row r"]) (simp_all add: consume_row_def consumable_def live_state_def)
qed

lemma spent_stays: "db_step d d' \<Longrightarrow> spent i d \<Longrightarrow> spent i d'"
proof -
  assume st: "db_step d d'" and "spent i d"
  then obtain r where r: "r \<in> set (t_capabilities d)" "cw_capability_id r = i" "\<not> live_state (cw_state r)"
    by (auto simp: spent_def)
  from st have "tbl_step cw_capability_id cap_rel (t_capabilities d) (t_capabilities d')" by (simp add: db_step_def)
  from this r(1) obtain r' where "r' \<in> set (t_capabilities d')" "cap_rel r r'" by (rule caps.step_keeps)
  then show ?thesis using r by (auto simp: cap_rel_def spent_def)
qed

interpretation consumption: budget "consume_use i" db_inv "\<lambda>d. if spent i d then 0 else 1"
proof
  fix x s
  show "db_inv s \<Longrightarrow> db_inv (snd (consume_use i x s))"
    using exec_op_inv by (auto simp: consume_use_def split: prod.split) (metis snd_conv)
next
  fix x s s'
  assume inv: "db_inv s" and g: "consume_use i x s = (True, s')"
  then have e: "exec_op (fst x) (snd x) s = (True, s')" "consumes i (snd x)"
    by (auto simp: consume_use_def split: prod.splits)
  from consume_granted[OF e] obtain r where "r \<in> set (t_capabilities s)" "cw_capability_id r = i" "live_state (cw_state r)" by blast
  then have "\<not> spent i s" using inv same_key_eq[of cw_capability_id "t_capabilities s"]
    by (auto simp: spent_def db_inv_def)
  then show "(if spent i s' then 0 else 1) < (if spent i s then 0 else 1 :: nat)"
    using consume_granted(2)[OF e] by simp
next
  fix x s s'
  assume "consume_use i x s = (False, s')"
  then have "s' = snd (exec_op (fst x) (snd x) s)" by (auto simp: consume_use_def split: prod.splits)
  then have "db_step s s'" using exec_op_step by simp
  then show "(if spent i s' then 0 else 1) \<le> (if spent i s then 0 else 1 :: nat)" using spent_stays by auto
qed

section \<open>One-time-password steps\<close>

fun issues_step :: "CredentialId \<Rightarrow> u64 \<Rightarrow> store_op \<Rightarrow> bool" where
  "issues_step c s (ConsumeCapability j x e t) = (t = Some (c, s))"
| "issues_step c s _ = False"

definition totp_use :: "CredentialId \<times> u64 \<Rightarrow> io \<times> store_op \<Rightarrow> db \<Rightarrow> bool \<times> db" where
  "totp_use k x d = (let (ok, d') = exec_op (fst x) (snd x) d in (ok \<and> issues_step (fst k) (snd k) (snd x), d'))"

definition issued :: "CredentialId \<times> u64 \<Rightarrow> db \<Rightarrow> bool" where
  "issued k d = (k \<in> set (map (\<lambda>r. (tw_credential_id r, tw_time_step r)) (t_totp_issuances d)))"

lemma issue_granted:
  assumes "exec_op io x d = (True, d')" "issues_step c s x"
  shows "\<not> issued (c, s) d \<and> issued (c, s) d'"
proof -
  from assms(2) obtain j y e where x: "x = ConsumeCapability j y e (Some (c, s))" by (cases x) auto
  with assms(1) obtain u where u: "consume_capability_with_execution_and_audit io j y e (Some (c, s)) d = (Inr u, d')"
    by (auto simp: outcome_def is_ok_iff prod_eq_iff)
  from consume_tables(5)[OF u refl] show ?thesis
    by (auto simp: claim_totp_def issued_def list_ex_iff split: if_splits option.splits
        dest!: arg_cong[where f = t_totp_issuances, THEN sym])
qed

lemma issued_stays: "db_step d d' \<Longrightarrow> issued k d \<Longrightarrow> issued k d'"
proof -
  assume st: "db_step d d'" and "issued k d"
  then obtain r where r: "r \<in> set (t_totp_issuances d)" "(tw_credential_id r, tw_time_step r) = k"
    by (auto simp: issued_def)
  from st have "tbl_step (\<lambda>r. (tw_credential_id r, tw_time_step r)) (=) (t_totp_issuances d) (t_totp_issuances d')"
    by (simp add: db_step_def)
  from this r(1) obtain r' where "r' \<in> set (t_totp_issuances d')" "r = r'" by (rule totps.step_keeps)
  then show ?thesis using r by (auto simp: issued_def)
qed

interpretation totp_issue: budget "totp_use k" "\<lambda>_. True" "\<lambda>d. if issued k d then 0 else 1"
proof
  show "True" ..
next
  fix x s s'
  assume "totp_use k x s = (True, s')"
  then have "exec_op (fst x) (snd x) s = (True, s')" "issues_step (fst k) (snd k) (snd x)"
    by (auto simp: totp_use_def split: prod.splits)
  then show "(if issued k s' then 0 else 1) < (if issued k s then 0 else 1 :: nat)"
    using issue_granted by fastforce
next
  fix x s s'
  assume "totp_use k x s = (False, s')"
  then have "s' = snd (exec_op (fst x) (snd x) s)" by (auto simp: totp_use_def split: prod.splits)
  then have "db_step s s'" using exec_op_step by simp
  then show "(if issued k s' then 0 else 1) \<le> (if issued k s then 0 else 1 :: nat)" using issued_stays by auto
qed

section \<open>Decisions of approvals\<close>

fun decides :: "ApprovalId \<Rightarrow> store_op \<Rightarrow> bool" where
  "decides i (UpdateApproval a) = (ap_approval_id a = i \<and> ap_decision a \<noteq> ''pending'')"
| "decides i (UpdateApprovalAudit a e) = (ap_approval_id a = i \<and> ap_decision a \<noteq> ''pending'')"
| "decides i _ = False"

definition decide_use :: "ApprovalId \<Rightarrow> io \<times> store_op \<Rightarrow> db \<Rightarrow> bool \<times> db" where
  "decide_use i x d = (let (ok, d') = exec_op (fst x) (snd x) d in (ok \<and> decides i (snd x), d'))"

definition decided :: "ApprovalId \<Rightarrow> db \<Rightarrow> bool" where
  "decided i d = (\<exists>a \<in> set (t_approvals d). ap_approval_id a = i \<and> ap_decision a \<noteq> ''pending'')"

lemma update_approval_tables:
  assumes "update_approval_with_audit io a e d = (Inr u, d')"
  shows "changed (pending_approval (ap_approval_id a)) (t_approvals d) = 1
    \<and> t_approvals d' = update_rows (pending_approval (ap_approval_id a)) (decide_row a) (t_approvals d)"
proof -
  from assms have "changed (pending_approval (ap_approval_id a)) (t_approvals d) = 1"
    "insert_audit_event_tx e (decide_rows a d) = Inr d'"
    by (auto simp: update_approval_with_audit_def atomically_def try_r_Inr_iff split: sum.splits if_splits)
  then show ?thesis using event_tx_tables(3) by (simp add: decide_rows_def)
qed

lemma decide_granted:
  assumes "exec_op io x d = (True, d')" "decides i x"
  shows "\<exists>a \<in> set (t_approvals d). pending_approval i a" and "decided i d'"
proof -
  obtain a where a: "ap_approval_id a = i" "ap_decision a \<noteq> ''pending''"
    and t: "changed (pending_approval i) (t_approvals d) = 1
        \<and> t_approvals d' = update_rows (pending_approval i) (decide_row a) (t_approvals d)"
  proof (cases x)
    case (UpdateApproval a)
    then show ?thesis using assms that[of a]
      by (auto simp: outcome_def update_approval_def stmt_def decide_rows_def split: option.splits if_splits)
  next
    case (UpdateApprovalAudit a e)
    then obtain u where "update_approval_with_audit io a e d = (Inr u, d')"
      using assms by (auto simp: outcome_def is_ok_iff prod_eq_iff)
    then show ?thesis using update_approval_tables assms(2) UpdateApprovalAudit that[of a] by auto
  qed (use assms(2) in simp_all)
  from t obtain r where r: "r \<in> set (t_approvals d)" "pending_approval i r" using changed_pos by fastforce
  then show "\<exists>a \<in> set (t_approvals d). pending_approval i a" by blast
  have "decide_row a r \<in> set (t_approvals d')" using r t by (force simp: update_rows_def)
  then show "decided i d'" using r(2) a unfolding decided_def
    by (intro bexI[of _ "decide_row a r"]) (simp_all add: decide_row_def pending_approval_def)
qed

lemma decided_stays: "db_step d d' \<Longrightarrow> decided i d \<Longrightarrow> decided i d'"
proof -
  assume st: "db_step d d'" and "decided i d"
  then obtain r where r: "r \<in> set (t_approvals d)" "ap_approval_id r = i" "ap_decision r \<noteq> ''pending''"
    by (auto simp: decided_def)
  from st have "tbl_step ap_approval_id approval_rel (t_approvals d) (t_approvals d')" by (simp add: db_step_def)
  from this r(1) obtain r' where "r' \<in> set (t_approvals d')" "approval_rel r r'" by (rule approvals.step_keeps)
  then show ?thesis using r by (auto simp: approval_rel_def decided_def)
qed

interpretation decision: budget "decide_use i" db_inv "\<lambda>d. if decided i d then 0 else 1"
proof
  fix x s
  show "db_inv s \<Longrightarrow> db_inv (snd (decide_use i x s))"
    using exec_op_inv by (auto simp: decide_use_def split: prod.split) (metis snd_conv)
next
  fix x s s'
  assume inv: "db_inv s" and g: "decide_use i x s = (True, s')"
  then have e: "exec_op (fst x) (snd x) s = (True, s')" "decides i (snd x)"
    by (auto simp: decide_use_def split: prod.splits)
  from decide_granted[OF e] obtain r where "r \<in> set (t_approvals s)" "pending_approval i r" by blast
  then have "\<not> decided i s" using inv same_key_eq[of ap_approval_id "t_approvals s"]
    by (auto simp: decided_def db_inv_def pending_approval_def)
  then show "(if decided i s' then 0 else 1) < (if decided i s then 0 else 1 :: nat)"
    using decide_granted(2)[OF e] by simp
next
  fix x s s'
  assume "decide_use i x s = (False, s')"
  then have "s' = snd (exec_op (fst x) (snd x) s)" by (auto simp: decide_use_def split: prod.splits)
  then have "db_step s s'" using exec_op_step by simp
  then show "(if decided i s' then 0 else 1) \<le> (if decided i s then 0 else 1 :: nat)" using decided_stays by auto
qed

section \<open>Frozen rows\<close>

lemma eq_step_prefix: "tbl_step key (=) t t' \<Longrightarrow> take (length t) t' = t"
  by (auto simp: tbl_step_def map_idI)

lemma frozen_rows:
  assumes "db_step d d'"
  shows "set (filter (\<lambda>r. \<not> live_state (cw_state r)) (t_capabilities d)) \<subseteq> set (t_capabilities d')"
    "set (filter (\<lambda>r. \<not> open_execution (xw_state r)) (t_executions d)) \<subseteq> set (t_executions d')"
    "set (filter (\<lambda>a. ap_decision a \<noteq> ''pending'') (t_approvals d)) \<subseteq> set (t_approvals d')"
proof -
  have c: "tbl_step cw_capability_id cap_rel (t_capabilities d) (t_capabilities d')"
    and x: "tbl_step xw_execution_id exec_rel (t_executions d) (t_executions d')"
    and a: "tbl_step ap_approval_id approval_rel (t_approvals d) (t_approvals d')"
    using assms by (simp_all add: db_step_def)
  show "set (filter (\<lambda>r. \<not> live_state (cw_state r)) (t_capabilities d)) \<subseteq> set (t_capabilities d')"
    using caps.step_keeps[OF c] by (auto simp: cap_rel_def)
  show "set (filter (\<lambda>r. \<not> open_execution (xw_state r)) (t_executions d)) \<subseteq> set (t_executions d')"
    using execs.step_keeps[OF x] by (auto simp: exec_rel_def)
  show "set (filter (\<lambda>a. ap_decision a \<noteq> ''pending'') (t_approvals d)) \<subseteq> set (t_approvals d')"
    using approvals.step_keeps[OF a] by (auto simp: approval_rel_def)
qed

lemma revoked_stay:
  assumes "db_step d d'"
  shows "(\<lambda>g. (sg_grant_id g, grant_tuple g, sg_revoked_at g)) ` set (filter (\<lambda>g. \<not> live_grant g) (t_standing_grants d))
    \<subseteq> (\<lambda>g. (sg_grant_id g, grant_tuple g, sg_revoked_at g)) ` set (t_standing_grants d')"
proof -
  have g: "tbl_step sg_grant_id grant_rel (t_standing_grants d) (t_standing_grants d')"
    using assms by (simp add: db_step_def)
  show ?thesis using grants.step_keeps[OF g] by (auto simp: grant_rel_def image_iff) metis
qed

section \<open>Revocation of standing grants\<close>

lemma revoke_grant_row_simps [simp]:
  "GrantSelector_matches sel (revoke_grant_row t r g) = GrantSelector_matches sel g"
  "grant_tuple (revoke_grant_row t r g) = grant_tuple g" "\<not> live_grant (revoke_grant_row t r g)"
  "sg_grant_id (revoke_grant_row t r g) = sg_grant_id g"
  by (cases sel) (simp_all add: revoke_grant_row_def grant_tuple_def live_grant_def)

lemma revoke_each_grants:
  "revoke_each io n reason at gs d = (Inr u, d') \<Longrightarrow>
    d' = d\<lparr>t_standing_grants := update_rows (\<lambda>r. sg_grant_id r \<in> sg_grant_id ` set gs \<and> live_grant r)
           (revoke_grant_row at reason) (t_standing_grants d)\<rparr>"
proof (induction gs arbitrary: n d)
  case (Cons g gs)
  let ?d = "d\<lparr>t_standing_grants := update_rows (\<lambda>r. sg_grant_id r = sg_grant_id g \<and> live_grant r)
             (revoke_grant_row at reason) (t_standing_grants d)\<rparr>"
  from Cons.prems have "revoke_each io (Suc n) reason at gs ?d = (Inr u, d')" by (simp split: option.splits)
  from Cons.IH[OF this] show ?case by (auto simp: update_rows_def intro!: db.fold_congs)
qed (simp add: update_rows_def)

lemma set_list_standing_grants: "set (list_standing_grants d False) = set (filter live_grant (t_standing_grants d))"
  by (simp add: list_standing_grants_def)

lemma revoke_success:
  assumes "revoke_standing_grants io sel reason at d = (Inr gs, d')" and inv: "distinct (map sg_grant_id (t_standing_grants d))"
  shows "set gs = set (filter (\<lambda>g. live_grant g \<and> GrantSelector_matches sel g) (t_standing_grants d))
     \<and> t_standing_grants d' = update_rows (\<lambda>g. live_grant g \<and> GrantSelector_matches sel g)
         (revoke_grant_row at reason) (t_standing_grants d)"
proof -
  let ?m = "filter (GrantSelector_matches sel) (list_standing_grants d False)"
  from assms(1) have gs: "gs = ?m" "io 0 = None"
    by (auto simp: revoke_standing_grants_def Let_def split: option.splits if_splits prod.splits sum.splits)
  have "d' = d\<lparr>t_standing_grants := update_rows (\<lambda>r. sg_grant_id r \<in> sg_grant_id ` set ?m \<and> live_grant r)
         (revoke_grant_row at reason) (t_standing_grants d)\<rparr>"
  proof (cases "?m = []")
    case True
    then show ?thesis using assms(1) gs(2) unfolding revoke_standing_grants_def Let_def True
      by (simp add: update_rows_def)
  next
    case False
    then have "\<exists>u. revoke_each io 1 reason at ?m d = (Inr u, d')" using assms(1) gs(2)
      by (auto simp: revoke_standing_grants_def Let_def split: prod.splits sum.splits)
    then show ?thesis using revoke_each_grants by blast
  qed
  moreover have "sg_grant_id r \<in> sg_grant_id ` set ?m \<and> live_grant r \<longleftrightarrow> live_grant r \<and> GrantSelector_matches sel r"
    if "r \<in> set (t_standing_grants d)" for r
    using that same_key_eq[OF inv] by (auto simp: set_list_standing_grants)
  ultimately show ?thesis using gs(1) by (auto simp: update_rows_def set_list_standing_grants)
qed

section \<open>Appending to the audit log\<close>

lemma sort_key_snoc: "(\<And>x. x \<in> set xs \<Longrightarrow> f x \<le> f y) \<Longrightarrow> sort_key f (xs @ [y]) = sort_key f xs @ [y]"
proof (induction xs)
  case (Cons x xs)
  have "insort_key f x (zs @ [y]) = insort_key f x zs @ [y]" if "f x \<le> f y" for zs
    using that by (induction zs) auto
  then show ?case using Cons by simp
qed simp

lemma latest_audit:
  "get_latest_audit_hash d = last_hash (list_audit_events d)"
  "get_latest_audit_sequence d = (if list_audit_events d = [] then 0 else ev_sequence (last (list_audit_events d)))"
proof -
  show "get_latest_audit_hash d = last_hash (list_audit_events d)"
    by (cases "list_audit_events d" rule: rev_cases) (simp_all add: get_latest_audit_hash_def last_hash_def)
  show "get_latest_audit_sequence d = (if list_audit_events d = [] then 0 else ev_sequence (last (list_audit_events d)))"
    by (cases "list_audit_events d" rule: rev_cases) (simp_all add: get_latest_audit_sequence_def)
qed

lemma chain_nth_sequence:
  "verify_audit_chain A xs K = Inr () \<Longrightarrow> i < length xs \<Longrightarrow> ev_sequence (xs ! i) = of_nat (i + 1)"
  using chain.ok_fits[of A xs K i] by (simp add: extends_def)

lemma sint_small: "n < 2 ^ 63 \<Longrightarrow> sint (of_nat n :: u64) = int n"
proof -
  assume n: "n < 2 ^ 63"
  have "sint (word_of_int (int n) :: u64) = signed_take_bit 63 (int n)"
    using sint_sbintrunc'[where 'a = 64, of "int n"] by (simp del: of_int_of_nat_eq)
  also have "\<dots> = int n" using n by (intro signed_take_bit_int_eq_self) (simp_all add: order_trans[of _ 0])
  finally show "sint (of_nat n :: u64) = int n" by simp
qed

lemma list_append_event:
  assumes "verify_audit_chain A (list_audit_events d) K = Inr ()" "length (t_audit_events d) + 1 < 2 ^ 63"
    "ev_sequence e = of_nat (length (t_audit_events d) + 1)" "t_audit_events d' = t_audit_events d @ [e]"
  shows "list_audit_events d' = list_audit_events d @ [e]"
proof -
  have len: "length (list_audit_events d) = length (t_audit_events d)" by (simp add: list_audit_events_def)
  have "sint (ev_sequence x) \<le> sint (ev_sequence e)" if "x \<in> set (t_audit_events d)" for x
  proof -
    have "x \<in> set (list_audit_events d)" using that by (simp add: list_audit_events_def)
    then obtain i where i: "i < length (list_audit_events d)" "x = list_audit_events d ! i" by (metis in_set_conv_nth)
    then have "ev_sequence x = of_nat (i + 1)" using chain_nth_sequence[OF assms(1)] by simp
    moreover have "i + 1 < 2 ^ 63" using i(1) len assms(2) by simp
    ultimately show ?thesis using i(1) len assms(2,3) by (simp only: sint_small)
  qed
  then show ?thesis using assms(4) by (simp add: list_audit_events_def sort_key_snoc)
qed

lemma latest_sequence:
  assumes "verify_audit_chain A (list_audit_events d) K = Inr ()"
  shows "get_latest_audit_sequence d = of_nat (length (t_audit_events d))"
proof -
  have len: "length (list_audit_events d) = length (t_audit_events d)" by (simp add: list_audit_events_def)
  show ?thesis
  proof (cases "list_audit_events d = []")
    case False
    then have pos: "length (t_audit_events d) > 0" using len by (metis length_greater_0_conv)
    then have "ev_sequence (list_audit_events d ! (length (t_audit_events d) - 1)) = of_nat (length (t_audit_events d) - 1 + 1)"
      using chain_nth_sequence[OF assms, of "length (t_audit_events d) - 1"] len by linarith
    then show ?thesis using False len pos by (simp add: latest_audit last_conv_nth)
  qed (use len in \<open>simp add: latest_audit\<close>)
qed

lemma find_append_single: "find p (xs @ [y]) = (case find p xs of None \<Rightarrow> if p y then Some y else None | Some x \<Rightarrow> Some x)"
  by (induction xs) auto

section \<open>Properties\<close>

text \<open>
  Whatever operations are run on a new database, in whatever order and with whatever statements
  failing, the keys that the schema declares stay unique, and there is never more than one live standing
  grant for the same agent, credential, origin and action.
\<close>

theorem store_keys_unique: "db_inv (run_ops xs empty_db)"
  using run_ops_step db_step_inv db_inv_empty by blast

text \<open>
  C11.  A capability is consumed at most once: over any sequence of operations, however interleaved and
  whichever statements fail, at most one consumption of the capability (for an execution or for an OAuth
  exchange) reports success.
\<close>

theorem capability_consumed_once: "successes (consume_use i) (run_ops ys empty_db) xs \<le> 1"
proof -
  have "db_inv (run_ops ys empty_db)" using run_ops_step db_step_inv db_inv_empty by blast
  from consumption.successes_le[OF this, where i = i and xs = xs] show ?thesis by (simp split: if_splits)
qed

text \<open>
  A one-time-password step of a credential is issued at most once over any sequence of operations,
  from any database.
\<close>

theorem totp_step_issued_once: "successes (totp_use (c, s)) d xs \<le> 1"
  using totp_issue.successes_le[where s = d and k = "(c, s)" and xs = xs] by (simp split: if_splits)

text \<open>
  An approval is decided at most once over any sequence of operations on a new database.
\<close>

theorem approval_decided_once: "successes (decide_use i) (run_ops ys empty_db) xs \<le> 1"
proof -
  have "db_inv (run_ops ys empty_db)" using run_ops_step db_step_inv db_inv_empty by blast
  from decision.successes_le[OF this, where i = i and xs = xs] show ?thesis by (simp split: if_splits)
qed

text \<open>
  History is immutable.  Whatever operations are run, the audit log and the checkpoints only grow at
  their end, issued one-time-password steps are never forgotten, and the rows of capabilities and
  executions in a terminal state and of decided approvals are still there, unchanged; a revoked grant
  stays revoked, at the same time and for the same agent, credential, origin and action.
\<close>

theorem store_history_immutable:
  "take (length (t_audit_events d)) (t_audit_events (run_ops xs d)) = t_audit_events d
   \<and> take (length (t_audit_checkpoints d)) (t_audit_checkpoints (run_ops xs d)) = t_audit_checkpoints d
   \<and> take (length (t_totp_issuances d)) (t_totp_issuances (run_ops xs d)) = t_totp_issuances d
   \<and> set (filter (\<lambda>r. \<not> live_state (cw_state r)) (t_capabilities d)) \<subseteq> set (t_capabilities (run_ops xs d))
   \<and> set (filter (\<lambda>r. \<not> open_execution (xw_state r)) (t_executions d)) \<subseteq> set (t_executions (run_ops xs d))
   \<and> set (filter (\<lambda>a. ap_decision a \<noteq> ''pending'') (t_approvals d)) \<subseteq> set (t_approvals (run_ops xs d))
   \<and> (\<lambda>g. (sg_grant_id g, grant_tuple g, sg_revoked_at g)) ` set (filter (\<lambda>g. \<not> live_grant g) (t_standing_grants d))
       \<subseteq> (\<lambda>g. (sg_grant_id g, grant_tuple g, sg_revoked_at g)) ` set (t_standing_grants (run_ops xs d))"
proof -
  have st: "db_step d (run_ops xs d)" by (rule run_ops_step)
  then have "tbl_step ev_sequence (=) (t_audit_events d) (t_audit_events (run_ops xs d))"
    "tbl_step ck_sequence (=) (t_audit_checkpoints d) (t_audit_checkpoints (run_ops xs d))"
    "tbl_step (\<lambda>r. (tw_credential_id r, tw_time_step r)) (=) (t_totp_issuances d) (t_totp_issuances (run_ops xs d))"
    by (simp_all add: db_step_def)
  then show ?thesis using frozen_rows[OF st] revoked_stay[OF st] by (simp add: eq_step_prefix)
qed

text \<open>
  C19.  A consumption is one transaction.  If it reports an error, the database is as before.  If it
  reports success, exactly one row was consumable; that row is now consumed with one more use, the
  execution and the audit event are recorded, and a one-time-password step given with it was claimed
  and had not been issued before.
\<close>

theorem consume_transaction:
  "case consume_capability_with_execution_and_audit io i x e ts d of
     (Inl _, d') \<Rightarrow> d' = d
   | (Inr _, d') \<Rightarrow>
       changed (consumable i) (t_capabilities d) = 1
       \<and> t_capabilities d' = update_rows (consumable i) consume_row (t_capabilities d)
       \<and> t_executions d' = t_executions d @ [execution_row x]
       \<and> t_audit_events d' = t_audit_events d @ [e]
       \<and> (case ts of None \<Rightarrow> True | Some k \<Rightarrow> \<not> issued k d \<and> issued k d')"
proof -
  obtain r d' where r: "consume_capability_with_execution_and_audit io i x e ts d = (r, d')" by fastforce
  show ?thesis
  proof (cases r)
    case (Inl err)
    then show ?thesis using consume_aborts r by simp
  next
    case (Inr u)
    then have "exec_op io (ConsumeCapability i x e ts) d = (True, d')" using r by (simp add: outcome_def)
    then have "case ts of None \<Rightarrow> True | Some k \<Rightarrow> \<not> issued k d \<and> issued k d'"
      using issue_granted[of io "ConsumeCapability i x e ts" d d'] by (auto split: option.split)
    then show ?thesis using consume_tables[of io i x e ts d u d'] r Inr by simp
  qed
qed

text \<open>
  Recovery after a restart: when it succeeds no capability is live and no execution is prepared or
  consuming, it reports how many rows it closed, and the audit log and the approvals are untouched;
  when it fails nothing has changed.
\<close>

theorem recovery_closes_everything:
  "case recover_incomplete_state io now d of
     (Inl _, d') \<Rightarrow> d' = d
   | (Inr (expired, indeterminate), d') \<Rightarrow>
       filter (\<lambda>r. live_state (cw_state r)) (t_capabilities d') = []
       \<and> filter (\<lambda>r. open_execution (xw_state r)) (t_executions d') = []
       \<and> expired = length (filter (\<lambda>r. live_state (cw_state r)) (t_capabilities d))
       \<and> indeterminate = length (filter (\<lambda>r. open_execution (xw_state r)) (t_executions d))
       \<and> t_audit_events d' = t_audit_events d \<and> t_approvals d' = t_approvals d"
  by (auto simp: recover_incomplete_state_def Let_def atomically_def try_r_def stmt_def update_rows_def changed_def
      filter_empty_conv live_state_def open_execution_def split: option.splits sum.splits)

text \<open>
  Revocation of standing grants, on any database reached from a new one.  When it reports success,
  exactly the live grants that the selector matches have been revoked, with the given time and reason, and
  no other grant has changed; so no matching grant is live any more.  It reports the revoked grants.
\<close>

theorem revoke_standing_grants_complete:
  "case revoke_standing_grants io sel reason at (run_ops ys empty_db) of
     (Inl _, d') \<Rightarrow> True
   | (Inr gs, d') \<Rightarrow>
       t_standing_grants d' = update_rows (\<lambda>g. live_grant g \<and> GrantSelector_matches sel g)
         (revoke_grant_row at reason) (t_standing_grants (run_ops ys empty_db))
       \<and> filter (\<lambda>g. live_grant g \<and> GrantSelector_matches sel g) (t_standing_grants d') = []
       \<and> set gs = set (filter (\<lambda>g. live_grant g \<and> GrantSelector_matches sel g) (t_standing_grants (run_ops ys empty_db)))"
proof -
  define d where "d = run_ops ys empty_db"
  have "db_inv d" unfolding d_def using run_ops_step db_step_inv db_inv_empty by blast
  then have inv: "distinct (map sg_grant_id (t_standing_grants d))" by (simp add: db_inv_def)
  obtain r d' where rd: "revoke_standing_grants io sel reason at d = (r, d')" by fastforce
  show ?thesis
  proof (cases r)
    case (Inr gs)
    from revoke_success[OF rd[unfolded Inr] inv] show ?thesis using rd Inr
      by (auto simp: d_def[symmetric] filter_empty_conv update_rows_def)
  qed (use rd in \<open>simp add: d_def[symmetric]\<close>)
qed

text \<open>
  Recording a standing grant and looking it up: after a successful insertion the lookup for the
  grant's agent, credential, action and origin returns the new grant, live and unused, whatever grants
  for them were live before (they are superseded); a failed insertion changes nothing.
\<close>

theorem standing_grant_roundtrip:
  "case insert_standing_grant_with_audit io g e d of
     (Inl _, d') \<Rightarrow> d' = d
   | (Inr _, d') \<Rightarrow>
       find_matching_standing_grant d' (sg_agent_id g) (sg_credential_name g) (sg_action g) (sg_origin g)
         = Some (g\<lparr>sg_revoked_at := None, sg_revoked_reason := None, sg_last_used_at := None, sg_use_count := 0\<rparr>)
       \<and> t_audit_events d' = t_audit_events d @ [e]"
proof (cases "insert_standing_grant_with_audit io g e d")
  case (Pair r d')
  show ?thesis
  proof (cases r)
    case (Inl err)
    then show ?thesis using Pair atomically_error unfolding insert_standing_grant_with_audit_def by force
  next
    case (Inr u)
    let ?g = "g\<lparr>sg_revoked_at := None, sg_revoked_reason := None, sg_last_used_at := None, sg_use_count := 0\<rparr>"
    let ?t = "update_rows (\<lambda>r. live_grant r \<and> grant_tuple r = grant_tuple g)
        (revoke_grant_row (sg_created_at g) ''superseded'') (t_standing_grants d)"
    from Pair Inr obtain t where t: "insert_row grant_conflict ?g ?t = Inr t"
      "insert_audit_event_tx e (d\<lparr>t_standing_grants := t\<rparr>) = Inr d'"
      unfolding insert_standing_grant_with_audit_def
      by (auto simp: atomically_def try_r_Inr_iff split: sum.splits)
    have "t_standing_grants d' = ?t @ [?g]"
      using t event_tx_tables(5)[OF t(2)] by (auto simp: insert_row_def split: if_splits)
    moreover have "find (\<lambda>r. live_grant r \<and> grant_tuple r = grant_tuple g) ?t = None"
      by (auto simp: find_None_iff update_rows_def split: if_splits)
    then have "find (\<lambda>r. live_grant r \<and> grant_tuple r = grant_tuple g) (?t @ [?g]) = Some ?g"
      by (simp add: find_append_single live_grant_def grant_tuple_def)
    ultimately show ?thesis using Pair Inr event_tx_tables(6)[OF t(2)]
      by (simp add: find_matching_standing_grant_def grant_tuple_def)
  qed
qed

text \<open>
  The audit log of the store stays verifiable: if it verifies and holds fewer than \<open>2 ^ 63 - 1\<close>
  events, then an event created with the sequence number after the stored one and the stored last hash,
  once inserted, is the last event of the log, and the log verifies again.
\<close>

theorem store_audit_append:
  assumes "verify_audit_chain A (list_audit_events d) K = Inr ()" and "map_of K ver = Some key"
    and "length (t_audit_events d) + 1 < 2 ^ 63"
    and "create_audit_event A u (get_latest_audit_sequence d + 1) (get_latest_audit_hash d) ver key ty at ai ctx t = Inr e"
    and "insert_audit_event io e d = (Inr (), d')"
  shows "list_audit_events d' = list_audit_events d @ [e] \<and> verify_audit_chain A (list_audit_events d') K = Inr ()"
proof -
  have len: "length (list_audit_events d) = length (t_audit_events d)" by (simp add: list_audit_events_def)
  have e: "create_audit_event A u (of_nat (length (list_audit_events d) + 1)) (last_hash (list_audit_events d))
      ver key ty at ai ctx t = Inr e"
    using assms(4) by (simp add: latest_sequence[OF assms(1)] latest_audit(1) len add.commute)
  have "insert_audit_event_tx e d = Inr d'"
    using assms(5) by (auto simp: insert_audit_event_def atomically_def try_r_Inr_iff split: sum.splits)
  then have "t_audit_events d' = t_audit_events d @ [e]" by (rule event_tx_tables(6))
  moreover have "ev_sequence e = of_nat (length (t_audit_events d) + 1)"
    using create_extends[OF e assms(2)] by (simp add: extends_def len)
  ultimately have "list_audit_events d' = list_audit_events d @ [e]"
    using list_append_event[OF assms(1,3)] by blast
  then show ?thesis using assms(1) create_extends[OF e assms(2)] by (simp add: verify_snoc)
qed

theorem store_audit_append_witness:
  "\<exists>e d'. create_audit_event plain_audit_env ''u'' (get_latest_audit_sequence empty_db + 1)
        (get_latest_audit_hash empty_db) 1 (replicate 32 9) ''t'' ''broker'' None
        (tuple_context (None, None, None, None, None, None, None, None, None)) 5 = Inr e
     \<and> insert_audit_event (\<lambda>_. None) e empty_db = (Inr (), d')
     \<and> verify_audit_chain plain_audit_env (list_audit_events d') [(1, replicate 32 9)] = Inr ()"
proof -
  obtain e where e: "create_audit_event plain_audit_env ''u'' (get_latest_audit_sequence empty_db + 1)
        (get_latest_audit_hash empty_db) 1 (replicate 32 9) ''t'' ''broker'' None
        (tuple_context (None, None, None, None, None, None, None, None, None)) 5 = Inr e"
    using create_audit_event_ok_iff[OF plain_audit_env_laws, of _ _ _ 1 "replicate 32 9"] by (simp add: is_ok_iff) metis
  have i: "insert_audit_event (\<lambda>_. None) e empty_db = (Inr (), empty_db\<lparr>t_audit_events := [e]\<rparr>)"
    by (simp add: insert_audit_event_def insert_audit_event_tx_def insert_row_def empty_db_def stmt_def atomically_def try_r_def)
  have v: "verify_audit_chain plain_audit_env (list_audit_events empty_db) [(1, replicate 32 9)] = Inr ()"
    by (simp add: list_audit_events_def empty_db_def verify_audit_chain_def)
  have n: "length (t_audit_events empty_db) + 1 < 2 ^ 63" by (simp add: empty_db_def)
  have k: "map_of [(1 :: u32, replicate 32 (9 :: 8 word))] 1 = Some (replicate 32 9)" by simp
  show ?thesis using store_audit_append[OF v k n e i] e i by blast
qed

end
