(* ===== verification/Store_Scan.thy ===== *)
theory Store_Scan
  imports Store
begin

text \<open>
  The scan of persisted documents at startup (\<open>validate_no_prohibited_persisted_keys\<close> in
  \<open>secretctl-store/src/repository.rs\<close>): no object at any depth of a credential's metadata or of an
  audit payload may have a member whose name suggests a secret.  The JSON reader is a parameter.
\<close>

section \<open>The scan\<close>

function (sequential) inspect :: "json \<Rightarrow> string \<Rightarrow> StoreError + unit"
  and inspect_fields :: "(string \<times> json) list \<Rightarrow> string \<Rightarrow> StoreError + unit"
  and inspect_items :: "json list \<Rightarrow> nat \<Rightarrow> string \<Rightarrow> StoreError + unit" where
  "inspect (Object members) path = inspect_fields members path"
| "inspect (Array items) path = inspect_items items 0 path"
| "inspect _ path = Inr ()"
| "inspect_fields [] path = Inr ()"
| "inspect_fields ((key, v) # members) path =
    (if contains_prohibited_key_name key
     then Inl (StateConflict (''prohibited secret-bearing metadata key at '' @ path @ ''.'' @ key))
     else try_r (inspect v (path @ ''.'' @ key)) (\<lambda>_. inspect_fields members path))"
| "inspect_items [] index path = Inr ()"
| "inspect_items (v # items) index path =
    try_r (inspect v (path @ ''['' @ show_nat index @ '']'')) (\<lambda>_. inspect_items items (index + 1) path)"
  by pat_completeness auto
termination
  by (relation "measure (\<lambda>x. case x of Inl (v, _) \<Rightarrow> size v | Inr (Inl (fs, _)) \<Rightarrow> size_list (size_prod (\<lambda>_. 0) size) fs
      | Inr (Inr (vs, _, _)) \<Rightarrow> size_list size vs)") auto

fun inspect_rows :: "(string \<Rightarrow> string + json) \<Rightarrow> string \<Rightarrow> string list \<Rightarrow> StoreError + unit" where
  "inspect_rows from_str column [] = Inr ()"
| "inspect_rows from_str column (row # rows) =
    try_r (map_err (\<lambda>e. StoreSerialization (''invalid '' @ column @ '': '' @ e)) (from_str row)) (\<lambda>document.
    try_r (inspect document column) (\<lambda>_. inspect_rows from_str column rows))"

definition validate_no_prohibited_persisted_keys :: "(string \<Rightarrow> string + json) \<Rightarrow> db \<Rightarrow> StoreError + unit" where
  "validate_no_prohibited_persisted_keys from_str d =
    try_r (inspect_rows from_str ''credentials.metadata_json'' (map cr_metadata_json (t_credentials d))) (\<lambda>_.
    inspect_rows from_str ''audit_events.event_json'' (map ev_event_json (t_audit_events d)))"

section \<open>What it accepts\<close>

text \<open>The member names of a document, at every depth.\<close>

fun all_keys :: "json \<Rightarrow> string list" where
  "all_keys (Object members) = concat (map (\<lambda>f. fst f # all_keys (snd f)) members)"
| "all_keys (Array items) = concat (map all_keys items)"
| "all_keys _ = []"

definition clean :: "json \<Rightarrow> bool" where
  "clean v = list_all (\<lambda>k. \<not> contains_prohibited_key_name k) (all_keys v)"

lemma clean_simps [simp]:
  "clean (Object members) = list_all (\<lambda>f. \<not> contains_prohibited_key_name (fst f) \<and> clean (snd f)) members"
  "clean (Array items) = list_all clean items"
  "clean Null" "clean (Bool b)" "clean (Number n)" "clean (Float x)" "clean (String s)"
  by (auto simp: clean_def list_all_iff)

lemma inspect_clean:
  "inspect v p = Inr () \<longleftrightarrow> clean v"
  "inspect_fields fs p = Inr () \<longleftrightarrow> list_all (\<lambda>f. \<not> contains_prohibited_key_name (fst f) \<and> clean (snd f)) fs"
  "inspect_items vs i p = Inr () \<longleftrightarrow> list_all clean vs"
  by (induction v p and fs p and vs i p rule: inspect_inspect_fields_inspect_items.induct)
    (auto simp: try_r_Inr_iff)

lemma inspect_rows_clean:
  "inspect_rows from_str c rows = Inr () \<longleftrightarrow> list_all (\<lambda>t. case from_str t of Inl _ \<Rightarrow> False | Inr v \<Rightarrow> clean v) rows"
  by (induction rows) (auto simp: try_r_Inr_iff inspect_clean map_err_def split: sum.splits)

text \<open>
  The startup scan accepts a database exactly when the metadata of every credential and the payload
  of every audit event is readable JSON in which no object, at any depth, has a member whose name is
  prohibited.
\<close>

theorem startup_scan_complete:
  "validate_no_prohibited_persisted_keys from_str d = Inr ()
    \<longleftrightarrow> list_all (\<lambda>t. case from_str t of Inl _ \<Rightarrow> False | Inr v \<Rightarrow> clean v)
          (map cr_metadata_json (t_credentials d) @ map ev_event_json (t_audit_events d))"
  by (simp add: validate_no_prohibited_persisted_keys_def try_r_Inr_iff inspect_rows_clean)

end
