(* ===== verification/Cdp_Filter.thy ===== *)
theory Cdp_Filter
  imports Crypto Strict_Json Domain_Ids
begin

text \<open>
  The filter between an agent and the browser's debugging protocol
  (\<open>secretctl-browser-gateway/src/cdp_filter.rs\<close>, \<open>gateway.rs\<close>): which commands pass, how that
  depends on the sensitive windows that are open, and what is redacted from the answers.  A JSON object
  is the list of its members; reading a member takes the first of its name, as a map does.
\<close>

section \<open>Commands\<close>

datatype GatewayError =
    CommandDenied string
  | SensitiveWindowBlocked string
  | LaunchFailed string
  | ProcessTerminated
  | Transport string
  | Io string
  | Json string

definition PROHIBITED_CDP_METHODS :: "string list" where
  "PROHIBITED_CDP_METHODS =
    [''Runtime.evaluate'', ''Runtime.callFunctionOn'', ''Network.getAllCookies'', ''Network.getCookies'',
     ''Network.setCookie'', ''Network.deleteCookies'', ''Storage.getCookies'', ''Storage.setCookies'',
     ''Storage.clearDataForOrigin'', ''DOMStorage.getDOMStorageItems'', ''IndexedDB.requestData'',
     ''IndexedDB.requestDatabaseNames'', ''Network.getResponseBody'', ''Network.getRequestPostData'',
     ''DOM.getOuterHTML'', ''Browser.getBrowserCommandLine'', ''Browser.setDownloadBehavior'',
     ''Page.setDownloadBehavior'', ''DOMSnapshot.captureSnapshot'', ''DOMSnapshot.getSnapshot'',
     ''Accessibility.getFullAXTree'', ''Accessibility.getRootAXNode'', ''DOM.getFlattenedDocument'',
     ''Page.getResourceContent'', ''Page.getResourceTree'']"

definition ALLOWED_CDP_METHODS :: "string list" where
  "ALLOWED_CDP_METHODS =
    [''Browser.getVersion'', ''Extensions.getExtensions'', ''Extensions.loadUnpacked'', ''DOM.describeNode'',
     ''DOM.getBoxModel'', ''DOM.getDocument'', ''DOM.querySelector'', ''DOM.querySelectorAll'', ''DOM.focus'',
     ''Input.dispatchKeyEvent'', ''Input.dispatchMouseEvent'', ''Input.insertText'',
     ''Page.getNavigationHistory'', ''Page.navigate'', ''Page.navigateToHistoryEntry'', ''Page.reload'',
     ''Page.stopLoading'', ''Target.activateTarget'', ''Target.closeTarget'', ''Target.createTarget'',
     ''Target.getTargets'', ''Target.attachToTarget'']"

definition SENSITIVE_WINDOW_BLOCKED_METHODS :: "string list" where
  "SENSITIVE_WINDOW_BLOCKED_METHODS =
    [''Page.captureScreenshot'', ''Page.startScreencast'', ''Page.printToPDF'', ''Tracing.start'']"

definition REDACTED_HEADERS :: "string list" where
  "REDACTED_HEADERS = [''authorization'', ''cookie'', ''set-cookie'', ''proxy-authorization'', ''x-api-key'']"

record CdpFilter =
  active_sensitive_tabs :: "u32 set"

definition CdpFilter_new :: CdpFilter where
  "CdpFilter_new = \<lparr>active_sensitive_tabs = {}\<rparr>"

definition enter_sensitive_window :: "u32 \<Rightarrow> CdpFilter \<Rightarrow> CdpFilter" where
  "enter_sensitive_window tab_id f = f\<lparr>active_sensitive_tabs := insert tab_id (active_sensitive_tabs f)\<rparr>"

definition exit_sensitive_window :: "u32 \<Rightarrow> CdpFilter \<Rightarrow> CdpFilter" where
  "exit_sensitive_window tab_id f = f\<lparr>active_sensitive_tabs := active_sensitive_tabs f - {tab_id}\<rparr>"

definition is_tab_in_sensitive_window :: "CdpFilter \<Rightarrow> u32 \<Rightarrow> bool" where
  "is_tab_in_sensitive_window f tab_id = (tab_id \<in> active_sensitive_tabs f)"

definition has_sensitive_window :: "CdpFilter \<Rightarrow> bool" where
  "has_sensitive_window f = (active_sensitive_tabs f \<noteq> {})"

definition validate_cdp_command :: "CdpFilter \<Rightarrow> string \<Rightarrow> u32 option \<Rightarrow> GatewayError + unit" where
  "validate_cdp_command f method tab_id =
    (let prohibited_domain = list_ex (\<lambda>domain. starts_with method domain)
           [''Storage.'', ''DOMStorage.'', ''IndexedDB.'', ''DOMSnapshot.''] in
     if prohibited_domain \<or> List.member PROHIBITED_CDP_METHODS method
     then Inl (CommandDenied (''CDP method '' @ [CHR 0x27] @ method @ [CHR 0x27] @ '' is prohibited by secretctl security policy''))
     else if \<not> List.member ALLOWED_CDP_METHODS method \<and> \<not> List.member SENSITIVE_WINDOW_BLOCKED_METHODS method
     then Inl (CommandDenied (''Unknown CDP method '' @ [CHR 0x27] @ method @ [CHR 0x27] @ '' is denied by default''))
     else if (is_some_and tab_id (is_tab_in_sensitive_window f) \<or> (tab_id = None \<and> has_sensitive_window f))
             \<and> List.member SENSITIVE_WINDOW_BLOCKED_METHODS method
     then Inl (SensitiveWindowBlocked (''CDP method '' @ [CHR 0x27] @ method @ [CHR 0x27]
                 @ '' is blocked during an active authentication window''))
     else Inr ())"

section \<open>Answers\<close>

fun update_member :: "string \<Rightarrow> (json \<Rightarrow> json) \<Rightarrow> (string \<times> json) list \<Rightarrow> (string \<times> json) list" where
  "update_member k f [] = []"
| "update_member k f ((k', v) # ms) = (if k' = k then (k', f v) # ms else (k', v) # update_member k f ms)"

text \<open>\<open>pointer_mut\<close> for tokens that are not array indices.\<close>

fun at_pointer :: "string list \<Rightarrow> (json \<Rightarrow> json) \<Rightarrow> json \<Rightarrow> json" where
  "at_pointer [] f v = f v"
| "at_pointer (t # ts) f (Object ms) = Object (update_member t (at_pointer ts f) ms)"
| "at_pointer (t # ts) f v = v"

fun redact_headers :: "json \<Rightarrow> json" where
  "redact_headers (Object obj) =
    Object (fold (\<lambda>redacted. map (\<lambda>(k, v).
        (k, if to_ascii_lowercase k = redacted then String ''[REDACTED_BY_SECRETCTL]'' else v))) REDACTED_HEADERS obj)"
| "redact_headers v = v"

definition sanitize_network_headers :: "json \<Rightarrow> json" where
  "sanitize_network_headers payload =
    at_pointer [''params'', ''response'', ''headers''] redact_headers
      (at_pointer [''params'', ''request'', ''headers''] redact_headers payload)"

fun password_attrs :: "json list \<Rightarrow> bool" where
  "password_attrs (a # b # rest) = (a = String ''type'' \<and> b = String ''password'' \<or> password_attrs rest)"
| "password_attrs _ = False"

definition is_input :: "(string \<times> json) list \<Rightarrow> bool" where
  "is_input obj = (case map_of obj ''nodeName'' of
     Some (String node_name) \<Rightarrow> to_ascii_lowercase node_name = to_ascii_lowercase ''INPUT'' | _ \<Rightarrow> False)"

definition is_password :: "(string \<times> json) list \<Rightarrow> bool" where
  "is_password obj = (is_input obj
     \<and> (case map_of obj ''attributes'' of Some (Array attrs) \<Rightarrow> password_attrs attrs | _ \<Rightarrow> False))"

definition redact_node :: "(string \<times> json) list \<Rightarrow> (string \<times> json) list" where
  "redact_node obj = (if is_password obj then update_member ''nodeValue'' (\<lambda>_. String ''[REDACTED]'') obj else obj)"

lemma update_member_cases: "m \<in> set (update_member k f ms) \<Longrightarrow> m \<in> set ms \<or> (\<exists>v. (k, v) \<in> set ms \<and> m = (k, f v))"
  by (induction k f ms rule: update_member.induct) (auto split: if_splits)

lemma redact_node_size [termination_simp]:
  "(k, v) \<in> set (redact_node obj) \<Longrightarrow> size v < Suc (size_list (\<lambda>x. Suc (size (snd x))) obj)"
proof -
  assume "(k, v) \<in> set (redact_node obj)"
  then have "(k, v) \<in> set obj \<or> v = String ''[REDACTED]''"
    by (auto simp: redact_node_def dest!: update_member_cases split: if_splits)
  then show ?thesis by (auto simp: less_Suc_eq_le intro: size_list_estimation'[of "(k, v)"])
qed

fun sanitize_dom_nodes :: "json \<Rightarrow> json" where
  "sanitize_dom_nodes (Object obj) = Object (map (\<lambda>m. (fst m, sanitize_dom_nodes (snd m))) (redact_node obj))"
| "sanitize_dom_nodes (Array items) = Array (map sanitize_dom_nodes items)"
| "sanitize_dom_nodes v = v"

fun sanitize_generic_json :: "json \<Rightarrow> json" where
  "sanitize_generic_json (Object obj) =
    Object (map (\<lambda>m. (fst m, if contains_prohibited_key_name (to_ascii_lowercase (fst m)) then String ''[REDACTED]''
                            else sanitize_generic_json (snd m))) obj)"
| "sanitize_generic_json (Array items) = Array (map sanitize_generic_json items)"
| "sanitize_generic_json v = v"

definition sanitize_cdp_response :: "string \<Rightarrow> json \<Rightarrow> json" where
  "sanitize_cdp_response method payload =
    (if method = ''Network.requestWillBeSent'' \<or> method = ''Network.responseReceived''
     then sanitize_network_headers payload
     else if method = ''DOM.getOuterHTML'' \<or> method = ''DOM.getDocument'' \<or> method = ''DOMSnapshot.captureSnapshot''
     then sanitize_dom_nodes payload
     else sanitize_generic_json payload)"

record BrowserGateway =
  gw_session_id :: BrowserSessionId
  gw_filter :: CdpFilter
  gw_listening_addr :: string

definition BrowserGateway_new :: "BrowserSessionId \<Rightarrow> string \<Rightarrow> BrowserGateway" where
  "BrowserGateway_new session_id listening_addr =
    \<lparr>gw_session_id = session_id, gw_filter = CdpFilter_new, gw_listening_addr = listening_addr\<rparr>"

definition process_cdp_command :: "BrowserGateway \<Rightarrow> string \<Rightarrow> u32 option \<Rightarrow> GatewayError + unit" where
  "process_cdp_command g method tab_id = validate_cdp_command (gw_filter g) method tab_id"

definition process_cdp_response :: "BrowserGateway \<Rightarrow> string \<Rightarrow> json \<Rightarrow> json" where
  "process_cdp_response g method payload = sanitize_cdp_response method payload"

section \<open>Sensitive windows over time\<close>

datatype window_op = Enter u32 | Exit u32

fun window_step :: "window_op \<Rightarrow> CdpFilter \<Rightarrow> CdpFilter" where
  "window_step (Enter t) f = enter_sensitive_window t f"
| "window_step (Exit t) f = exit_sensitive_window t f"

text \<open>A window is open for a tab when the last operation on the tab entered it.\<close>

fun window_tab :: "window_op \<Rightarrow> u32" where
  "window_tab (Enter t) = t"
| "window_tab (Exit t) = t"

definition window_open :: "window_op list \<Rightarrow> u32 \<Rightarrow> bool" where
  "window_open ws t = (find (\<lambda>w. window_tab w = t) (rev ws) = Some (Enter t))"

lemma window_open_snoc:
  "window_open (ws @ [w]) t = (if window_tab w = t then w = Enter t else window_open ws t)"
  by (auto simp: window_open_def)

lemma tabs_fold: "active_sensitive_tabs (fold window_step ws CdpFilter_new) = {t. window_open ws t}"
proof (induction ws rule: rev_induct)
  case (snoc w ws)
  then show ?case
    by (cases w) (auto simp: window_open_snoc enter_sensitive_window_def exit_sensitive_window_def)
qed (simp add: CdpFilter_new_def window_open_def)

lemma permitted_not_prohibited:
  "list_all (\<lambda>m. \<not> list_ex (starts_with m) [''Storage.'', ''DOMStorage.'', ''IndexedDB.'', ''DOMSnapshot.'']
     \<and> \<not> List.member PROHIBITED_CDP_METHODS m) (ALLOWED_CDP_METHODS @ SENSITIVE_WINDOW_BLOCKED_METHODS)"
  by code_simp

lemma allowed_not_blocked: "list_all (\<lambda>m. \<not> List.member SENSITIVE_WINDOW_BLOCKED_METHODS m) ALLOWED_CDP_METHODS"
  by code_simp

lemma validate_spec:
  "validate_cdp_command f m tab = Inr () \<longleftrightarrow>
    m \<in> set ALLOWED_CDP_METHODS
    \<or> m \<in> set SENSITIVE_WINDOW_BLOCKED_METHODS
      \<and> \<not> (case tab of None \<Rightarrow> active_sensitive_tabs f \<noteq> {} | Some t \<Rightarrow> t \<in> active_sensitive_tabs f)"
  using permitted_not_prohibited allowed_not_blocked
  by (auto simp: validate_cdp_command_def Let_def list_all_iff has_sensitive_window_def is_some_and_def
      is_tab_in_sensitive_window_def split: option.splits if_splits)

section \<open>Redaction\<close>

lemma update_member_keys [simp]: "map fst (update_member k f ms) = map fst ms"
  by (induction k f ms rule: update_member.induct) auto

lemma map_of_update_member: "map_of (update_member k f ms) k' = (if k' = k then map_option f (map_of ms k) else map_of ms k')"
  by (induction k f ms rule: update_member.induct) auto

lemma map_of_map_snd: "map_of (map (\<lambda>m. (fst m, f (snd m))) ms) k = map_option f (map_of ms k)"
  by (induction ms) auto

lemma redact_headers_fold:
  "fold (\<lambda>h. map (\<lambda>(k, v). (k, if to_ascii_lowercase k = h then r else v))) hs obj
    = map (\<lambda>(k, v). (k, if to_ascii_lowercase k \<in> set hs then r else v)) obj"
  by (induction hs arbitrary: obj) (auto simp: comp_def split_def)

fun get_pointer :: "string list \<Rightarrow> json \<Rightarrow> json option" where
  "get_pointer [] v = Some v"
| "get_pointer (t # ts) (Object ms) = Option.bind (map_of ms t) (get_pointer ts)"
| "get_pointer (t # ts) v = None"

lemma get_at_pointer: "get_pointer ts (at_pointer ts f v) = map_option f (get_pointer ts v)"
  by (induction ts f v rule: at_pointer.induct) (auto simp: map_of_update_member split: bind_splits)

lemma get_at_other:
  "length us = length ts \<Longrightarrow> us \<noteq> ts \<Longrightarrow> get_pointer us (at_pointer ts f v) = get_pointer us v"
proof (induction ts f v arbitrary: us rule: at_pointer.induct)
  case (2 t ts f ms)
  then obtain u us' where us: "us = u # us'" by (cases us) auto
  show ?case
  proof (cases "map_of ms t")
    case None
    then show ?thesis using us by (simp add: map_of_update_member)
  next
    case (Some w)
    then show ?thesis using 2 us by (auto simp: map_of_update_member)
  qed
qed auto

lemma sanitize_dom_string [simp]: "sanitize_dom_nodes v = String s \<longleftrightarrow> v = String s"
  by (cases v) auto

lemma password_attrs_sanitized [simp]: "password_attrs (map sanitize_dom_nodes attrs) = password_attrs attrs"
  by (induction attrs rule: password_attrs.induct) auto

lemma is_password_sanitized:
  "is_password (map (\<lambda>m. (fst m, sanitize_dom_nodes (snd m))) (redact_node obj)) = is_password obj"
proof -
  have "map_of (redact_node obj) k = map_of obj k" if "k \<noteq> ''nodeValue''" for k
    using that by (simp add: redact_node_def map_of_update_member)
  then have n: "map_of (map (\<lambda>m. (fst m, sanitize_dom_nodes (snd m))) (redact_node obj)) k
      = map_option sanitize_dom_nodes (map_of obj k)" if "k = ''nodeName'' \<or> k = ''attributes''" for k
    using that by (auto simp: map_of_map_snd)
  show ?thesis unfolding is_password_def is_input_def using n[of "''nodeName''"] n[of "''attributes''"]
    by (auto split: option.splits json.splits)
qed

text \<open>Every password input in a document, at any depth, has its value redacted.\<close>

fun dom_redacted :: "json \<Rightarrow> bool" where
  "dom_redacted (Object obj) =
    ((is_password obj \<longrightarrow> map_of obj ''nodeValue'' \<in> {None, Some (String ''[REDACTED]'')})
     \<and> list_all (\<lambda>m. dom_redacted (snd m)) obj)"
| "dom_redacted (Array items) = list_all dom_redacted items"
| "dom_redacted v = True"

lemma dom_redacted_sanitized: "dom_redacted (sanitize_dom_nodes v)"
proof (induction v rule: sanitize_dom_nodes.induct)
  case (1 obj)
  have "map_of (redact_node obj) ''nodeValue'' \<in> {None, Some (String ''[REDACTED]'')}" if "is_password obj"
    using that by (auto simp: redact_node_def map_of_update_member)
  then show ?case using 1 by (auto simp: is_password_sanitized map_of_map_snd list_all_iff)
qed (auto simp: list_all_iff)

text \<open>Every member with a prohibited name is redacted, at any depth outside redacted members.\<close>

fun generic_redacted :: "json \<Rightarrow> bool" where
  "generic_redacted (Object obj) =
    list_all (\<lambda>m. if contains_prohibited_key_name (fst m) then snd m = String ''[REDACTED]''
                  else generic_redacted (snd m)) obj"
| "generic_redacted (Array items) = list_all generic_redacted items"
| "generic_redacted v = True"

lemma prohibited_lowercase [simp]: "contains_prohibited_key_name (to_ascii_lowercase k) = contains_prohibited_key_name k"
  by (simp add: contains_prohibited_key_name_def)

lemma generic_redacted_sanitized: "generic_redacted (sanitize_generic_json v)"
  by (induction v rule: sanitize_generic_json.induct) (auto simp: list_all_iff)

lemma generic_redacted_fixed: "generic_redacted v \<Longrightarrow> sanitize_generic_json v = v"
  by (induction v rule: sanitize_generic_json.induct) (auto simp: list_all_iff intro!: map_idI split: if_splits)

section \<open>Properties\<close>

text \<open>
  Commands are denied by default.  After any history of entering and leaving sensitive windows, a
  command passes exactly when it is one of the allowed methods, or one of the capture methods while the
  last operation on its tab (or, for a command without a tab, on any tab) did not enter a sensitive
  window.  No prohibited method, and no method of the storage domains, is among them.
\<close>

theorem cdp_default_deny:
  "process_cdp_command (BrowserGateway_new sid addr\<lparr>gw_filter := fold window_step ws CdpFilter_new\<rparr>) m tab = Inr ()
    \<longleftrightarrow> m \<in> set ALLOWED_CDP_METHODS
      \<or> m \<in> set SENSITIVE_WINDOW_BLOCKED_METHODS
        \<and> \<not> (case tab of None \<Rightarrow> (\<exists>t. window_open ws t) | Some t \<Rightarrow> window_open ws t)"
  by (auto simp: process_cdp_command_def validate_spec tabs_fold split: option.splits)

text \<open>
  Answers are redacted.  In the answers of the two network events every header of the list is
  replaced and every other header is kept, in the request and in the response; in the answers of the
  document methods every password input has its node value replaced, at any depth; in every other answer
  each member with a prohibited name is replaced at any depth, and an answer is returned as it is exactly
  when that already holds.
\<close>

theorem cdp_answers_redacted:
  "(m \<in> {''Network.requestWillBeSent'', ''Network.responseReceived''} \<longrightarrow>
      get_pointer [''params'', part, ''headers''] (sanitize_cdp_response m v)
        = map_option (if part \<in> {''request'', ''response''} then redact_headers else id)
            (get_pointer [''params'', part, ''headers''] v))
   \<and> redact_headers (Object hs) = Object (map (\<lambda>(k, x). (k, if to_ascii_lowercase k \<in> set REDACTED_HEADERS
          then String ''[REDACTED_BY_SECRETCTL]'' else x)) hs)
   \<and> (m \<in> {''DOM.getOuterHTML'', ''DOM.getDocument'', ''DOMSnapshot.captureSnapshot''} \<longrightarrow>
      dom_redacted (sanitize_cdp_response m v))
   \<and> (m \<notin> {''Network.requestWillBeSent'', ''Network.responseReceived'', ''DOM.getOuterHTML'', ''DOM.getDocument'',
          ''DOMSnapshot.captureSnapshot''} \<longrightarrow>
      generic_redacted (sanitize_cdp_response m v) \<and> (sanitize_cdp_response m v = v \<longleftrightarrow> generic_redacted v))"
proof (intro conjI impI)
  show "redact_headers (Object hs) = Object (map (\<lambda>(k, x). (k, if to_ascii_lowercase k \<in> set REDACTED_HEADERS
          then String ''[REDACTED_BY_SECRETCTL]'' else x)) hs)"
    by (simp only: redact_headers.simps redact_headers_fold)
next
  assume "m \<in> {''Network.requestWillBeSent'', ''Network.responseReceived''}"
  then have "sanitize_cdp_response m v = sanitize_network_headers v" by (auto simp: sanitize_cdp_response_def)
  then show "get_pointer [''params'', part, ''headers''] (sanitize_cdp_response m v)
        = map_option (if part \<in> {''request'', ''response''} then redact_headers else id)
            (get_pointer [''params'', part, ''headers''] v)"
    by (auto simp: sanitize_network_headers_def get_at_pointer get_at_other option.map_id simp del: get_pointer.simps at_pointer.simps)
next
  assume "m \<in> {''DOM.getOuterHTML'', ''DOM.getDocument'', ''DOMSnapshot.captureSnapshot''}"
  then have "sanitize_cdp_response m v = sanitize_dom_nodes v" by (auto simp: sanitize_cdp_response_def)
  then show "dom_redacted (sanitize_cdp_response m v)" by (simp add: dom_redacted_sanitized)
next
  assume "m \<notin> {''Network.requestWillBeSent'', ''Network.responseReceived'', ''DOM.getOuterHTML'', ''DOM.getDocument'',
          ''DOMSnapshot.captureSnapshot''}"
  then have s: "sanitize_cdp_response m v = sanitize_generic_json v" by (auto simp: sanitize_cdp_response_def)
  then show "generic_redacted (sanitize_cdp_response m v)" by (simp add: generic_redacted_sanitized)
  show "sanitize_cdp_response m v = v \<longleftrightarrow> generic_redacted v"
    using s generic_redacted_sanitized[of v] generic_redacted_fixed[of v] by metis
qed

theorem cdp_answers_redacted_witness:
  "get_pointer [''params'', ''request'', ''headers''] (sanitize_cdp_response ''Network.requestWillBeSent''
      (Object [(''params'', Object [(''request'', Object [(''headers'',
         Object [(''Cookie'', String ''sid=1''), (''Accept'', String ''text/html'')])])])]))
     = Some (Object [(''Cookie'', String ''[REDACTED_BY_SECRETCTL]''), (''Accept'', String ''text/html'')])
   \<and> dom_redacted (sanitize_cdp_response ''DOM.getDocument'' (Object [(''nodeName'', String ''input''),
       (''attributes'', Array [String ''type'', String ''password'']), (''nodeValue'', String ''hunter2'')]))
   \<and> generic_redacted (sanitize_cdp_response ''Target.getTargets'' (Object [(''authToken'', String ''x'')]))"
proof (intro conjI)
  have lower: "to_ascii_lowercase ''Cookie'' = ''cookie''" "to_ascii_lowercase ''Accept'' = ''accept''" by code_simp+
  show "get_pointer [''params'', ''request'', ''headers''] (sanitize_cdp_response ''Network.requestWillBeSent''
      (Object [(''params'', Object [(''request'', Object [(''headers'',
         Object [(''Cookie'', String ''sid=1''), (''Accept'', String ''text/html'')])])])]))
     = Some (Object [(''Cookie'', String ''[REDACTED_BY_SECRETCTL]''), (''Accept'', String ''text/html'')])"
    using cdp_answers_redacted[of "''Network.requestWillBeSent''" "''request''"]
    by (simp del: redact_headers.simps add: REDACTED_HEADERS_def lower)
  show "dom_redacted (sanitize_cdp_response ''DOM.getDocument'' (Object [(''nodeName'', String ''input''),
       (''attributes'', Array [String ''type'', String ''password'']), (''nodeValue'', String ''hunter2'')]))"
    using cdp_answers_redacted[of "''DOM.getDocument''"] by simp
  show "generic_redacted (sanitize_cdp_response ''Target.getTargets'' (Object [(''authToken'', String ''x'')]))"
    using cdp_answers_redacted[of "''Target.getTargets''"] by simp
qed

text \<open>
  The value attribute of a password input is not redacted: a document whose password input carries
  its value as an attribute is returned as it is.
\<close>

theorem password_attribute_kept:
  "sanitize_cdp_response ''DOM.getDocument'' (Object [(''nodeName'', String ''INPUT''),
      (''attributes'', Array [String ''type'', String ''password'', String ''value'', String secret])])
    = Object [(''nodeName'', String ''INPUT''),
      (''attributes'', Array [String ''type'', String ''password'', String ''value'', String secret])]"
  by (simp add: sanitize_cdp_response_def redact_node_def)

end
