(* ===== verification/Providers.thy ===== *)
theory Providers
  imports Prelude
begin

text \<open>
  Secret providers (\<open>secretctl-providers/src\<close>).  The locale \<open>secret_provider\<close> is the contract of the trait
  \<open>SecretProvider\<close> as its users rely on it; the in-memory provider interprets it.  A poisoned lock makes
  every operation fail; it is a component of the provider's state.
\<close>

datatype ProviderError =
    ProviderNotFound string
  | AuthenticationFailed
  | Unavailable string
  | StorageFailed string
  | Internal string

locale secret_provider =
  fixes get_secret :: "'p \<Rightarrow> string \<Rightarrow> (ProviderError + bytes) \<times> 'p"
    and store_secret :: "'p \<Rightarrow> string \<Rightarrow> bytes \<Rightarrow> (ProviderError + unit) \<times> 'p"
    and delete_secret :: "'p \<Rightarrow> string \<Rightarrow> (ProviderError + unit) \<times> 'p"
    and exists_secret :: "'p \<Rightarrow> string \<Rightarrow> ProviderError + bool"
    and contents :: "'p \<Rightarrow> string \<Rightarrow> bytes option"
  assumes get_ok: "get_secret p l = (Inr s, p') \<Longrightarrow> contents p l = Some s \<and> contents p' = contents p"
    and get_err: "get_secret p l = (Inl e, p') \<Longrightarrow> contents p' = contents p"
    and store_ok: "store_secret p l s = (Inr (), p') \<Longrightarrow> contents p' = (contents p)(l \<mapsto> s)"
    and delete_ok: "delete_secret p l = (Inr (), p') \<Longrightarrow> contents p' = (contents p)(l := None)"
    and exists_ok: "exists_secret p l = Inr b \<Longrightarrow> b = (contents p l \<noteq> None)"
begin

lemma store_then_get:
  assumes "store_secret p l s = (Inr (), p')" "get_secret p' l = (Inr t, p'')"
  shows "t = s"
  using store_ok[OF assms(1)] get_ok[OF assms(2)] by simp

lemma delete_then_get:
  assumes "delete_secret p l = (Inr (), p')" "get_secret p' l = (r, p'')"
  shows "\<not> is_ok r"
  using delete_ok[OF assms(1)] get_ok[of p' l _ p''] assms(2) by (auto simp: is_ok_iff)

lemma store_keeps_others:
  "store_secret p l s = (Inr (), p') \<Longrightarrow> l' \<noteq> l \<Longrightarrow> contents p' l' = contents p l'"
  by (simp add: store_ok)

end

section \<open>The in-memory provider\<close>

record MemorySecretProvider =
  mp_store :: "(string \<times> bytes) list"
  mp_retrieval_count :: u64
  mp_poisoned :: bool

definition MemorySecretProvider_new :: MemorySecretProvider where
  "MemorySecretProvider_new = \<lparr>mp_store = [], mp_retrieval_count = 0, mp_poisoned = False\<rparr>"

definition mp_provider_name :: string where
  "mp_provider_name = ''memory''"

definition mp_get_secret :: "MemorySecretProvider \<Rightarrow> string \<Rightarrow> (ProviderError + bytes) \<times> MemorySecretProvider" where
  "mp_get_secret p locator =
    (if mp_poisoned p then (Inl (Internal ''Lock poisoned''), p)
     else case map_of (mp_store p) locator of
       None \<Rightarrow> (Inl (ProviderNotFound locator), p)
     | Some bs \<Rightarrow> (Inr bs, p\<lparr>mp_retrieval_count := mp_retrieval_count p + 1\<rparr>))"

definition mp_store_secret ::
    "MemorySecretProvider \<Rightarrow> string \<Rightarrow> bytes \<Rightarrow> (ProviderError + unit) \<times> MemorySecretProvider" where
  "mp_store_secret p locator secret =
    (if mp_poisoned p then (Inl (Internal ''Lock poisoned''), p)
     else (Inr (), p\<lparr>mp_store := AList.update locator secret (mp_store p)\<rparr>))"

definition mp_delete_secret :: "MemorySecretProvider \<Rightarrow> string \<Rightarrow> (ProviderError + unit) \<times> MemorySecretProvider" where
  "mp_delete_secret p locator =
    (if mp_poisoned p then (Inl (Internal ''Lock poisoned''), p)
     else (Inr (), p\<lparr>mp_store := AList.delete locator (mp_store p)\<rparr>))"

definition mp_exists :: "MemorySecretProvider \<Rightarrow> string \<Rightarrow> ProviderError + bool" where
  "mp_exists p locator =
    (if mp_poisoned p then Inl (Internal ''Lock poisoned'')
     else Inr (map_of (mp_store p) locator \<noteq> None))"

interpretation memory: secret_provider mp_get_secret mp_store_secret mp_delete_secret mp_exists
  "\<lambda>p. map_of (mp_store p)"
  by unfold_locales
    (auto simp: mp_get_secret_def mp_store_secret_def mp_delete_secret_def mp_exists_def
      split: if_splits option.splits)

text \<open>
  The in-memory provider keeps the contract of a provider: what was stored last under a locator is what
  a retrieval returns, nothing is returned after a deletion, and every successful retrieval is counted.
\<close>

theorem memory_provider_contract:
  assumes "mp_store_secret p l s = (Inr (), p')"
  shows "mp_get_secret p' l = (Inr s, p'\<lparr>mp_retrieval_count := mp_retrieval_count p + 1\<rparr>)
     \<and> mp_exists p' l = Inr True
     \<and> (\<forall>q. mp_delete_secret p' l = (Inr (), q) \<longrightarrow> fst (mp_get_secret q l) = Inl (ProviderNotFound l))"
  using assms
  by (auto simp: mp_get_secret_def mp_store_secret_def mp_delete_secret_def mp_exists_def split: if_splits)

theorem memory_provider_contract_witness:
  "mp_get_secret (snd (mp_store_secret MemorySecretProvider_new ''l'' [1, 2])) ''l''
    = (Inr [1, 2], (snd (mp_store_secret MemorySecretProvider_new ''l'' [1, 2]))\<lparr>mp_retrieval_count := 1\<rparr>)"
proof -
  have "mp_store_secret MemorySecretProvider_new ''l'' [1, 2]
      = (Inr (), snd (mp_store_secret MemorySecretProvider_new ''l'' [1, 2]))"
    by (simp add: mp_store_secret_def MemorySecretProvider_new_def)
  from memory_provider_contract[OF this] show ?thesis by (simp add: MemorySecretProvider_new_def)
qed

end
