(* ===== verification/Handlers.thy ===== *)
theory Handlers
  imports Prelude
begin

text \<open>
  Handlers that read and change a shared state and may fail part way.  A failure keeps the changes made
  so far, as an early return does.  The locale \<open>state_relation\<close> is the interface of the proofs about
  handlers: for a reflexive and transitive relation between states, a handler built from steps that
  respect it respects it as well.
\<close>

type_synonym ('s, 'e, 'a) handler = "'s \<Rightarrow> ('e + 'a) \<times> 's"

named_theorems steps_intros "rules for handlers that respect a relation between states"

definition returnh :: "'a \<Rightarrow> ('s, 'e, 'a) handler" where
  "returnh x s = (Inr x, s)"

definition failh :: "'e \<Rightarrow> ('s, 'e, 'a) handler" where
  "failh e s = (Inl e, s)"

definition bindh :: "('s, 'e, 'a) handler \<Rightarrow> ('a \<Rightarrow> ('s, 'e, 'b) handler) \<Rightarrow> ('s, 'e, 'b) handler" where
  "bindh m f s = (case m s of (Inl e, s') \<Rightarrow> (Inl e, s') | (Inr x, s') \<Rightarrow> f x s')"

definition readh :: "('s \<Rightarrow> 'a) \<Rightarrow> ('s, 'e, 'a) handler" where
  "readh f s = (Inr (f s), s)"

definition modifyh :: "('s \<Rightarrow> 's) \<Rightarrow> ('s, 'e, unit) handler" where
  "modifyh f s = (Inr (), f s)"

definition lifth :: "'e + 'a \<Rightarrow> ('s, 'e, 'a) handler" where
  "lifth r s = (r, s)"

definition guardh :: "bool \<Rightarrow> 'e \<Rightarrow> ('s, 'e, unit) handler" where
  "guardh c e = (if c then returnh () else failh e)"

text \<open>\<open>let _ = ...\<close>: the result is ignored, the effect stays.\<close>

definition ignoreh :: "('s, 'e, 'a) handler \<Rightarrow> ('s, 'f, unit) handler" where
  "ignoreh m s = (Inr (), snd (m s))"

text \<open>A read that may fail; another type of errors; and a handler for errors.\<close>

definition peekh :: "('s \<Rightarrow> 'e + 'a) \<Rightarrow> ('s, 'e, 'a) handler" where
  "peekh f s = (f s, s)"

definition map_errh :: "('e \<Rightarrow> 'f) \<Rightarrow> ('s, 'e, 'a) handler \<Rightarrow> ('s, 'f, 'a) handler" where
  "map_errh g m s = (map_err g (fst (m s)), snd (m s))"

definition catchh :: "('s, 'e, 'a) handler \<Rightarrow> ('e \<Rightarrow> ('s, 'e, 'a) handler) \<Rightarrow> ('s, 'e, 'a) handler" where
  "catchh m h s = (case m s of (Inl e, s') \<Rightarrow> h e s' | (Inr x, s') \<Rightarrow> (Inr x, s'))"

section \<open>Successful runs\<close>

lemma handler_simps [simp]:
  "returnh x s = (Inr x, s)"
  "failh e s = (Inl e, s)"
  "readh f s = (Inr (f s), s)"
  "modifyh g s = (Inr (), g s)"
  "lifth r s = (r, s)"
  "ignoreh m s = (Inr (), snd (m s))"
  "peekh p s = (p s, s)"
  by (simp_all add: returnh_def failh_def readh_def modifyh_def lifth_def ignoreh_def peekh_def)

lemma bindh_run [simp]:
  "bindh (returnh x) f = f x" "bindh (failh e) f = failh e"
  "bindh (readh g) f s = f (g s) s" "bindh (modifyh h) f' s = f' () (h s)"
  "bindh (ignoreh m) f'' s = f'' () (snd (m s))"
  by (auto simp: bindh_def fun_eq_iff)

lemma bindh_Inr_iff: "bindh m f s = (Inr y, t) \<longleftrightarrow> (\<exists>x u. m s = (Inr x, u) \<and> f x u = (Inr y, t))"
  by (auto simp: bindh_def split: prod.splits sum.splits)

lemma bindh_guard_Inr_iff [simp]: "bindh (guardh c e) f s = (Inr y, t) \<longleftrightarrow> c \<and> f () s = (Inr y, t)"
  by (simp add: guardh_def)

lemma bindh_lift_Inr_iff [simp]: "bindh (lifth r) f s = (Inr y, t) \<longleftrightarrow> (\<exists>x. r = Inr x \<and> f x s = (Inr y, t))"
  by (auto simp: bindh_Inr_iff)

lemma bindh_peek_Inr_iff [simp]: "bindh (peekh p) f s = (Inr y, t) \<longleftrightarrow> (\<exists>x. p s = Inr x \<and> f x s = (Inr y, t))"
  by (auto simp: bindh_Inr_iff)

lemma bindh_peek: "p s = Inr x \<Longrightarrow> bindh (peekh p) f s = f x s"
  by (simp add: bindh_def)

lemma map_errh_Inr_iff [simp]: "map_errh k m s = (Inr y, t) \<longleftrightarrow> m s = (Inr y, t)"
  by (cases "m s") (auto simp: map_errh_def)

lemma catchh_Inr_iff: "catchh m h s = (Inr y, t) \<longleftrightarrow> m s = (Inr y, t) \<or> (\<exists>e u. m s = (Inl e, u) \<and> h e u = (Inr y, t))"
  by (auto simp: catchh_def split: prod.splits sum.splits)

lemma bindh_assoc: "bindh (bindh m f) g = bindh m (\<lambda>x. bindh (f x) g)"
  by (auto simp: bindh_def fun_eq_iff split: prod.splits sum.splits)

section \<open>Relations between states\<close>

definition steps :: "('s \<Rightarrow> 's \<Rightarrow> bool) \<Rightarrow> ('s, 'e, 'a) handler \<Rightarrow> bool" where
  "steps rel m = (\<forall>s. rel s (snd (m s)))"

lemma stepsI: "(\<And>s. rel s (snd (m s))) \<Longrightarrow> steps rel m"
  by (simp add: steps_def)

lemma stepsD: "steps rel m \<Longrightarrow> m s = (r, t) \<Longrightarrow> rel s t"
  by (metis snd_conv steps_def)

locale state_relation =
  fixes rel :: "'s \<Rightarrow> 's \<Rightarrow> bool"
  assumes sr_refl: "rel s s"
    and sr_trans: "rel s t \<Longrightarrow> rel t u \<Longrightarrow> rel s u"
begin

lemma steps_pure [steps_intros]:
  "steps rel (returnh x)" "steps rel (failh e)" "steps rel (readh f)" "steps rel (lifth r)" "steps rel (guardh c e)"
  by (simp_all add: steps_def sr_refl guardh_def)

lemma steps_bind [steps_intros]: "steps rel m \<Longrightarrow> (\<And>x. steps rel (f x)) \<Longrightarrow> steps rel (bindh m f)"
  unfolding steps_def bindh_def by (auto split: prod.splits sum.splits) (metis snd_conv sr_trans)+

lemma steps_catch [steps_intros]: "steps rel m \<Longrightarrow> (\<And>e. steps rel (h e)) \<Longrightarrow> steps rel (catchh m h)"
  unfolding steps_def catchh_def by (auto split: prod.splits sum.splits) (metis snd_conv sr_trans)+

lemma steps_map_err [steps_intros]: "steps rel m \<Longrightarrow> steps rel (map_errh g m)"
  by (simp add: steps_def map_errh_def)

lemma steps_peek [steps_intros]: "steps rel (peekh p)"
  by (simp add: steps_def sr_refl)

lemma steps_prod [steps_intros]: "(\<And>x y. p = (x, y) \<Longrightarrow> steps rel (f x y)) \<Longrightarrow> steps rel (case p of (x, y) \<Rightarrow> f x y)"
  by (cases p) auto

lemma steps_let [steps_intros]: "(\<And>x. x = a \<Longrightarrow> steps rel (f x)) \<Longrightarrow> steps rel (let x = a in f x)"
  by simp

lemma steps_ignore [steps_intros]: "steps rel m \<Longrightarrow> steps rel (ignoreh m)"
  by (simp add: steps_def)

lemma steps_if [steps_intros]: "(c \<Longrightarrow> steps rel m) \<Longrightarrow> (\<not> c \<Longrightarrow> steps rel n) \<Longrightarrow> steps rel (if c then m else n)"
  by simp

lemma steps_option [steps_intros]:
  "(x = None \<Longrightarrow> steps rel m) \<Longrightarrow> (\<And>y. x = Some y \<Longrightarrow> steps rel (f y)) \<Longrightarrow> steps rel (case x of None \<Rightarrow> m | Some y \<Rightarrow> f y)"
  by (cases x) auto

lemma steps_sum [steps_intros]:
  "(\<And>e. x = Inl e \<Longrightarrow> steps rel (g e)) \<Longrightarrow> (\<And>y. x = Inr y \<Longrightarrow> steps rel (f y))
    \<Longrightarrow> steps rel (case x of Inl e \<Rightarrow> g e | Inr y \<Rightarrow> f y)"
  by (cases x) auto

lemma steps_modify: "(\<And>s. rel s (f s)) \<Longrightarrow> steps rel (modifyh f)"
  by (simp add: steps_def)


end

end
