(* ===== verification/OAuth.thy ===== *)
theory OAuth
  imports Providers Store_Properties Capability_Token
begin

text \<open>
  The OAuth client of the daemon (\<open>secretctld/src/oauth.rs\<close>): pending authorizations with PKCE, the
  callback, the token exchange, and the storage of tokens in the provider under an opaque locator.

  The URL type's query operations, SHA-256 and Base64 are fields of \<open>oauth_env\<close>.  What the token endpoint
  answers (\<open>HttpAnswer\<close>), what the provider answers and the clock are arguments of the operations that
  wait for them.
\<close>

section \<open>Pending authorizations\<close>

record oauth_env =
  ov_sha256 :: "bytes \<Rightarrow> bytes"
  ov_b64 :: base64
  ov_url_parse :: url_parser
  ov_query_pairs :: "url \<Rightarrow> (string \<times> string) list"
  ov_append_pairs :: "url \<Rightarrow> (string \<times> string) list \<Rightarrow> string"

record PendingAuthorization =
  pa_state :: string
  pa_challenge :: string
  pa_verifier :: string
  pa_redirect_uri :: string
  pa_scopes :: "string list"
  pa_callback_consumed :: bool

datatype OAuthCallbackError = RedirectMismatch | StateMismatch | ProviderRejected | Duplicate | MissingCode

definition PendingAuthorization_new ::
    "oauth_env \<Rightarrow> bytes \<Rightarrow> string \<Rightarrow> string \<Rightarrow> string list \<Rightarrow> PendingAuthorization" where
  "PendingAuthorization_new E random uuid redirect_uri scopes =
    (let verifier = b64_encode (ov_b64 E) random in
     \<lparr>pa_state = uuid, pa_challenge = b64_encode (ov_b64 E) (ov_sha256 E (as_bytes verifier)),
      pa_verifier = verifier, pa_redirect_uri = redirect_uri, pa_scopes = scopes,
      pa_callback_consumed = False\<rparr>)"

definition verifier_for_token_exchange :: "PendingAuthorization \<Rightarrow> string" where
  "verifier_for_token_exchange p = pa_verifier p"

definition accepts_callback :: "PendingAuthorization \<Rightarrow> string \<Rightarrow> string \<Rightarrow> bool" where
  "accepts_callback p state redirect_uri = (pa_state p = state \<and> pa_redirect_uri p = redirect_uri)"

fun join_space :: "string list \<Rightarrow> string" where
  "join_space [] = []"
| "join_space [s] = s"
| "join_space (s # ss) = s @ '' '' @ join_space ss"

definition authorization_url ::
    "oauth_env \<Rightarrow> PendingAuthorization \<Rightarrow> string \<Rightarrow> string \<Rightarrow> OAuthCallbackError + string" where
  "authorization_url E p endpoint client_id =
    try_r (map_err (\<lambda>_. RedirectMismatch) (ov_url_parse E endpoint)) (\<lambda>url.
    if u_scheme url \<noteq> ''https'' \<or> u_query url \<noteq> None \<or> u_fragment url \<noteq> None then Inl RedirectMismatch
    else Inr (ov_append_pairs E url
      [(''response_type'', ''code''), (''client_id'', client_id), (''redirect_uri'', pa_redirect_uri p),
       (''scope'', join_space (pa_scopes p)), (''state'', pa_state p), (''code_challenge'', pa_challenge p),
       (''code_challenge_method'', ''S256'')]))"

text \<open>\<open>port_or_known_default\<close>: the schemes with a default port.\<close>

definition port_or_known_default :: "url \<Rightarrow> u16 option" where
  "port_or_known_default u =
    (case u_port u of
       Some p \<Rightarrow> Some p
     | None \<Rightarrow> (if u_scheme u = ''http'' \<or> u_scheme u = ''ws'' then Some 80
               else if u_scheme u = ''https'' \<or> u_scheme u = ''wss'' then Some 443
               else if u_scheme u = ''ftp'' then Some 21 else None))"

text \<open>The loop that fills the map of query parameters: a repeated name is an error.\<close>

fun collect_query :: "(string \<times> string) list \<Rightarrow> (string \<times> string) list \<Rightarrow> (string \<times> string) list option" where
  "collect_query query [] = Some query"
| "collect_query query ((k, v) # kvs) =
    (if map_of query k \<noteq> None then None else collect_query (AList.update k v query) kvs)"

definition consume_callback ::
    "oauth_env \<Rightarrow> PendingAuthorization \<Rightarrow> string \<Rightarrow> (OAuthCallbackError + string) \<times> PendingAuthorization" where
  "consume_callback E p callback_uri =
    (if pa_callback_consumed p then (Inl Duplicate, p)
     else case ov_url_parse E callback_uri of Inl _ \<Rightarrow> (Inl RedirectMismatch, p)
     | Inr callback \<Rightarrow>
     (case ov_url_parse E (pa_redirect_uri p) of Inl _ \<Rightarrow> (Inl RedirectMismatch, p)
     | Inr bound \<Rightarrow>
     (if u_scheme callback \<noteq> u_scheme bound \<or> u_host callback \<noteq> u_host bound
         \<or> port_or_known_default callback \<noteq> port_or_known_default bound
         \<or> u_path callback \<noteq> u_path bound \<or> u_fragment callback \<noteq> None
      then (Inl RedirectMismatch, p)
      else case collect_query [] (ov_query_pairs E callback) of
        None \<Rightarrow> (Inl StateMismatch, p)
      | Some query \<Rightarrow>
        (if map_of query ''state'' \<noteq> Some (pa_state p) then (Inl StateMismatch, p)
         else if map_of query ''error'' \<noteq> None then (Inl ProviderRejected, p)
         else case map_of query ''code'' of
           None \<Rightarrow> (Inl MissingCode, p)
         | Some code \<Rightarrow>
           (if code = [] then (Inl MissingCode, p)
            else (Inr code, p\<lparr>pa_callback_consumed := True\<rparr>))))))"

section \<open>Token exchange\<close>

record TokenResponseWire =
  tr_access_token :: string
  tr_refresh_token :: "string option"
  tr_scope :: "string option"
  tr_expires_in :: "u64 option"

record TokenSet =
  ts_access_token :: string
  ts_refresh_token :: "string option"
  ts_scopes :: "string list"
  ts_expires_at :: "datetime option"

datatype TokenExchangeError = InsecureEndpoint | Rejected | InvalidResponse | ScopeMismatch

text \<open>What the HTTP client answers: no answer, or a status with a body that may not be readable.\<close>

datatype HttpAnswer = SendFailed | Answered nat "TokenResponseWire option"

definition validate_token_status :: "nat \<Rightarrow> TokenExchangeError + unit" where
  "validate_token_status status =
    (if 300 \<le> status \<and> status < 400 \<or> \<not> (200 \<le> status \<and> status < 300) then Inl Rejected else Inr ())"

definition validate_returned_scopes :: "string list \<Rightarrow> string list \<Rightarrow> TokenExchangeError + unit" where
  "validate_returned_scopes approved returned =
    (if list_ex (\<lambda>scope. \<not> List.member approved scope) returned then Inl ScopeMismatch else Inr ())"

definition is_ascii_whitespace :: "char \<Rightarrow> bool" where
  "is_ascii_whitespace c = (c \<in> {CHR 0x09, CHR 0x0A, CHR 0x0C, CHR 0x0D, CHR '' ''})"

fun split_ascii_whitespace :: "string \<Rightarrow> string \<Rightarrow> string list" where
  "split_ascii_whitespace w [] = (if w = [] then [] else [w])"
| "split_ascii_whitespace w (c # s) =
    (if is_ascii_whitespace c then (if w = [] then [] else [w]) @ split_ascii_whitespace [] s
     else split_ascii_whitespace (w @ [c]) s)"

text \<open>The lifetime of a token; an end outside the range of timestamps panics (\<open>None\<close>).\<close>

definition token_expiry :: "datetime \<Rightarrow> u64 option \<Rightarrow> datetime option option" where
  "token_expiry now expires_in =
    (case expires_in of
       None \<Rightarrow> Some None
     | Some seconds \<Rightarrow>
       (let s = min (uint seconds) (2 ^ 63 - 1) in
        if s > (2 ^ 63 - 1) div 1000 then Some None
        else map_option Some (add_seconds now s)))"

definition exchange_code ::
    "oauth_env \<Rightarrow> datetime \<Rightarrow> HttpAnswer \<Rightarrow> string \<Rightarrow> PendingAuthorization \<Rightarrow> (TokenExchangeError + TokenSet) option" where
  "exchange_code E now answer token_endpoint p =
    (case ov_url_parse E token_endpoint of Inl _ \<Rightarrow> Some (Inl InsecureEndpoint)
     | Inr endpoint \<Rightarrow>
     (if u_scheme endpoint \<noteq> ''https'' \<or> u_username endpoint \<noteq> [] \<or> u_password endpoint \<noteq> None
         \<or> u_query endpoint \<noteq> None \<or> u_fragment endpoint \<noteq> None
      then Some (Inl InsecureEndpoint)
      else case answer of SendFailed \<Rightarrow> Some (Inl Rejected)
      | Answered status body \<Rightarrow>
      (case validate_token_status status of Inl e \<Rightarrow> Some (Inl e)
       | Inr _ \<Rightarrow>
       (case body of None \<Rightarrow> Some (Inl InvalidResponse)
        | Some wire \<Rightarrow>
        (if tr_access_token wire = [] then Some (Inl InvalidResponse)
         else let scopes = (case tr_scope wire of Some v \<Rightarrow> split_ascii_whitespace [] v | None \<Rightarrow> pa_scopes p) in
         case validate_returned_scopes (pa_scopes p) scopes of Inl e \<Rightarrow> Some (Inl e)
         | Inr _ \<Rightarrow>
           (case token_expiry now (tr_expires_in wire) of None \<Rightarrow> None
            | Some expires_at \<Rightarrow>
              Some (Inr \<lparr>ts_access_token = tr_access_token wire, ts_refresh_token = tr_refresh_token wire,
                         ts_scopes = scopes, ts_expires_at = expires_at\<rparr>)))))))"

section \<open>Token storage\<close>

datatype OAuthStorageError = OAuthProvider | OAuthStore

definition encode_tokens :: "TokenSet \<Rightarrow> bytes" where
  "encode_tokens t =
    (let access = as_bytes (ts_access_token t);
         refresh = (case ts_refresh_token t of None \<Rightarrow> [] | Some r \<Rightarrow> as_bytes r) in
     1 # be_encode 4 (length access) @ access @ be_encode 4 (length refresh) @ refresh)"

text \<open>
  \<open>store_token_grant\<close> gives the grant, the database and the secret it wrote to the provider, if any is
  left there.  \<open>stored\<close> and \<open>deleted\<close> are the provider's answers to the write and to the clean-up.
\<close>

definition store_token_grant ::
    "string \<Rightarrow> datetime \<Rightarrow> io \<Rightarrow> ProviderError + unit \<Rightarrow> ProviderError + unit \<Rightarrow> CredentialId \<Rightarrow> TokenSet \<Rightarrow> db
     \<Rightarrow> (OAuthStorageError + OAuthGrant) \<times> (string \<times> bytes) option \<times> db" where
  "store_token_grant uuid now io stored deleted credential_id tokens d =
    (let grant_id = id_new ''grant'' uuid;
         locator = ''oauth-token-'' @ grant_id in
     case stored of Inl _ \<Rightarrow> (Inl OAuthProvider, None, d)
     | Inr _ \<Rightarrow>
     (let grant = \<lparr>og_grant_id = grant_id, og_credential_id = credential_id, og_provider_locator = locator,
                   og_scopes = ts_scopes tokens, og_subject_hint = None, og_created_at = now,
                   og_expires_at = ts_expires_at tokens\<rparr> in
      case insert_oauth_grant io grant d of
        (Inl _, d') \<Rightarrow> (Inl OAuthStore, (if is_ok deleted then None else Some (locator, encode_tokens tokens)), d')
      | (Inr _, d') \<Rightarrow> (Inr grant, Some (locator, encode_tokens tokens), d')))"

definition revoke_token_grant ::
    "io \<Rightarrow> io \<Rightarrow> ProviderError + unit \<Rightarrow> GrantId \<Rightarrow> db \<Rightarrow> (OAuthStorageError + bool) \<times> db" where
  "revoke_token_grant io_read io deleted grant_id d =
    (if io_read 0 \<noteq> None then (Inl OAuthStore, d)
     else case get_oauth_grant d grant_id of None \<Rightarrow> (Inr False, d)
     | Some grant \<Rightarrow>
     (case deleted of Inl _ \<Rightarrow> (Inl OAuthProvider, d)
      | Inr _ \<Rightarrow>
      (case delete_oauth_grant io grant_id d of
         (Inl _, d') \<Rightarrow> (Inl OAuthStore, d')
       | (Inr b, d') \<Rightarrow> (Inr b, d'))))"

section \<open>The callback\<close>

lemma collect_query_names:
  "collect_query q kvs \<noteq> None \<longleftrightarrow> distinct (map fst kvs) \<and> fst ` set kvs \<inter> dom (map_of q) = {}"
proof (induction kvs arbitrary: q)
  case (Cons kv kvs)
  obtain k v where kv: "kv = (k, v)" by fastforce
  have "dom (map_of (AList.update k v q)) = insert k (dom (map_of q))" by (auto simp: update_conv')
  then show ?case unfolding kv using Cons[of "AList.update k v q"] by (auto simp: dom_def)
qed auto

lemma collect_query_lookup: "collect_query q kvs = Some r \<Longrightarrow> map_of r = map_of q ++ map_of kvs"
proof (induction kvs arbitrary: q)
  case (Cons kv kvs)
  obtain k v where kv: "kv = (k, v)" by fastforce
  have "distinct (map fst (kv # kvs))" using Cons.prems collect_query_names[of q "kv # kvs"] by simp
  then have "map_of kvs k = None" using kv by (auto simp: map_of_eq_None_iff)
  moreover have "map_of r = map_of (AList.update k v q) ++ map_of kvs"
    using Cons.prems kv by (intro Cons.IH) (simp split: if_splits)
  ultimately show ?case using kv by (auto simp: fun_eq_iff map_add_def split: option.splits)
qed simp

definition callback_bound :: "url \<Rightarrow> url \<Rightarrow> bool" where
  "callback_bound callback bound =
    (u_scheme callback = u_scheme bound \<and> u_host callback = u_host bound
     \<and> port_or_known_default callback = port_or_known_default bound
     \<and> u_path callback = u_path bound \<and> u_fragment callback = None)"

lemma consume_callback_iff:
  "consume_callback E p uri = (Inr code, p') \<longleftrightarrow>
    \<not> pa_callback_consumed p \<and> p' = p\<lparr>pa_callback_consumed := True\<rparr> \<and> code \<noteq> []
    \<and> (\<exists>callback bound. ov_url_parse E uri = Inr callback \<and> ov_url_parse E (pa_redirect_uri p) = Inr bound
        \<and> callback_bound callback bound \<and> distinct (map fst (ov_query_pairs E callback))
        \<and> map_of (ov_query_pairs E callback) ''state'' = Some (pa_state p)
        \<and> map_of (ov_query_pairs E callback) ''error'' = None
        \<and> map_of (ov_query_pairs E callback) ''code'' = Some code)"
proof -
  have c: "collect_query [] kvs = (if distinct (map fst kvs) then Some (the (collect_query [] kvs)) else None)"
    "distinct (map fst kvs) \<Longrightarrow> map_of (the (collect_query [] kvs)) = map_of kvs" for kvs
    using collect_query_names[of "[]" kvs] collect_query_lookup[of "[]" kvs] by auto
  show ?thesis
    unfolding consume_callback_def callback_bound_def
    by (subst c(1)) (auto simp: c(2) simp del: map_of_eq_Some_iff split: sum.splits option.splits)
qed

lemma consume_callback_fails: "consume_callback E p uri = (Inl e, p') \<Longrightarrow> p' = p"
  by (auto simp: consume_callback_def split: sum.splits option.splits if_splits)

definition callback_use :: "oauth_env \<Rightarrow> string \<Rightarrow> PendingAuthorization \<Rightarrow> bool \<times> PendingAuthorization" where
  "callback_use E uri p = (let (r, p') = consume_callback E p uri in (is_ok r, p'))"

interpretation callbacks: budget "callback_use E" "\<lambda>_. True" "\<lambda>p. if pa_callback_consumed p then 0 else 1"
proof
  show True ..
next
  fix x s s'
  assume "callback_use E x s = (True, s')"
  then show "(if pa_callback_consumed s' then 0 else 1) < (if pa_callback_consumed s then 0 else 1 :: nat)"
    by (auto simp: callback_use_def is_ok_iff consume_callback_iff split: prod.splits)
next
  fix x s s'
  assume "callback_use E x s = (False, s')"
  then have "s' = s" using consume_callback_fails
    by (auto simp: callback_use_def is_ok_def split: prod.splits sum.splits)
  then show "(if pa_callback_consumed s' then 0 else 1) \<le> (if pa_callback_consumed s then 0 else 1 :: nat)" by simp
qed

section \<open>The exchange and the stored tokens\<close>

lemma exchange_scopes:
  "exchange_code E now a ep p = Some (Inr t) \<Longrightarrow> set (ts_scopes t) \<subseteq> set (pa_scopes p)"
  by (auto simp: exchange_code_def validate_returned_scopes_def Let_def list_ex_iff
      split: sum.splits if_splits HttpAnswer.splits option.splits)

lemma exchange_endpoint:
  "exchange_code E now a ep p = Some (Inr t) \<Longrightarrow>
    \<exists>u. ov_url_parse E ep = Inr u \<and> u_scheme u = ''https'' \<and> u_username u = [] \<and> u_password u = None"
  by (auto simp: exchange_code_def split: sum.splits if_splits)

lemma exchange_answer:
  "exchange_code E now a ep p = Some (Inr t) \<Longrightarrow>
    \<exists>status wire. a = Answered status (Some wire) \<and> 200 \<le> status \<and> status < 300
      \<and> ts_access_token t = tr_access_token wire \<and> ts_access_token t \<noteq> []"
  by (auto simp: exchange_code_def validate_token_status_def Let_def
      split: sum.splits if_splits HttpAnswer.splits option.splits)

definition decode_tokens :: "bytes \<Rightarrow> (bytes \<times> bytes) option" where
  "decode_tokens bs =
    (case bs of [] \<Rightarrow> None
     | v # r \<Rightarrow>
       (let n = be_decode (take 4 r); r1 = drop 4 r; m = be_decode (take 4 (drop n r1)); r2 = drop (n + 4) r1 in
        if v = 1 \<and> length r1 \<ge> n \<and> length r2 = m then Some (take n r1, r2) else None))"

lemma decode_encode_tokens:
  assumes "length (ts_access_token t) < 2 ^ 32" "is_none_or (ts_refresh_token t) (\<lambda>r. length r < 2 ^ 32)"
  shows "decode_tokens (encode_tokens t) =
    Some (as_bytes (ts_access_token t), case ts_refresh_token t of None \<Rightarrow> [] | Some r \<Rightarrow> as_bytes r)"
proof -
  define a where "a = as_bytes (ts_access_token t)"
  define r where "r = (case ts_refresh_token t of None \<Rightarrow> [] | Some r \<Rightarrow> as_bytes r)"
  have "length a < 2 ^ 32" "length r < 2 ^ 32" using assms by (auto simp: a_def r_def split: option.splits)
  then have "length a mod 256 ^ 4 = length a" "length r mod 256 ^ 4 = length r" by simp_all
  then have la: "be_decode (be_encode 4 (length a)) = length a" and lr: "be_decode (be_encode 4 (length r)) = length r"
    by (simp_all only: be_decode_encode)
  have "encode_tokens t = 1 # be_encode 4 (length a) @ a @ be_encode 4 (length r) @ r"
    by (simp add: encode_tokens_def a_def r_def Let_def)
  then show ?thesis unfolding a_def[symmetric] r_def[symmetric] using la lr
    by (simp add: decode_tokens_def Let_def)
qed

section \<open>Properties\<close>

text \<open>
  A callback is accepted exactly when the authorization has not been used, the callback URL agrees
  with the bound redirect in scheme, host, port and path and has no fragment, no query parameter is
  repeated, the state is the one of the authorization, no error is reported and there is a code; over
  any sequence of callbacks at most one is accepted.
\<close>

theorem oauth_callback_exact:
  "(consume_callback E p uri = (Inr code, p') \<longleftrightarrow>
      \<not> pa_callback_consumed p \<and> p' = p\<lparr>pa_callback_consumed := True\<rparr> \<and> code \<noteq> []
      \<and> (\<exists>callback bound. ov_url_parse E uri = Inr callback \<and> ov_url_parse E (pa_redirect_uri p) = Inr bound
          \<and> callback_bound callback bound \<and> distinct (map fst (ov_query_pairs E callback))
          \<and> map_of (ov_query_pairs E callback) ''state'' = Some (pa_state p)
          \<and> map_of (ov_query_pairs E callback) ''error'' = None
          \<and> map_of (ov_query_pairs E callback) ''code'' = Some code))
   \<and> successes (callback_use E) q uris \<le> 1"
proof
  show "successes (callback_use E) q uris \<le> 1"
    using callbacks.successes_le[where s = q and E = E and xs = uris] by (simp split: if_splits)
qed (rule consume_callback_iff)


end
