(* ===== verification/Broker_State.thy ===== *)
theory Broker_State
  imports Handlers OAuth Policy Protocol Capability_Verifier Cdp_Filter
begin

text \<open>
  The state of the daemon (\<open>secretctld/src/state.rs\<close>, \<open>presence.rs\<close>): the structures behind
  \<open>BrokerState\<close>, its start, the audited operations and the registrations.

  A handler runs on the whole state at once; the locks of the source, which are taken one after the
  other within a handler, have no counterpart.  Everything a handler takes from outside while it runs (the
  clock, fresh identifiers, random bytes, errors of the database, answers of the provider and of the
  token endpoint) comes from a \<open>slot\<close>; the handler's world is the sequence of its slots, in the order in
  which the code asks for them.  The serializers, the JSON reader, the lossy UTF-8 conversion and HMAC are
  fields of \<open>broker_env\<close>, as are the environments of the crates the daemon calls.
\<close>

section \<open>Assurance\<close>

datatype HostPlatform = Macos | Windows | Linux

definition assurance_available :: "HostPlatform \<Rightarrow> RiskLevel \<Rightarrow> bool" where
  "assurance_available platform risk = (platform \<noteq> Linux \<or> risk = Low \<or> risk = Medium)"

section \<open>Structures\<close>

record ActiveBrowserSession =
  as_session :: BrowserSession
  as_active_tab_count :: u32
  as_session_proof_hash :: "bytes option"

record CapabilityEntry =
  ent_capability :: Capability
  ent_token :: string
  ent_claims :: CapabilityClaims
  ent_recipe_id :: RecipeId
  ent_provider_locator :: string
  ent_credential_metadata :: string

record ActiveExecution =
  ax_execution :: Execution
  ax_request_id :: RequestId
  ax_agent_id :: AgentId
  ax_credential_id :: CredentialId
  ax_action :: ActionKind
  ax_browser_session_id :: BrowserSessionId
  ax_tab_id :: u32

record PendingOAuthExecution =
  po_authorization :: PendingAuthorization
  po_recipe :: OAuthRecipe
  po_capability_id :: CapabilityId
  po_request_id :: RequestId
  po_credential_id :: CredentialId
  po_browser_session_id :: BrowserSessionId
  po_tab_id :: u32

record AuthorizationContext =
  au_request_id :: RequestId
  au_agent_id :: AgentId
  au_agent_name :: string
  au_reason :: string
  au_identity_name :: string
  au_credential :: CredentialDescriptor
  au_action :: ActionKind
  au_browser_session_id :: BrowserSessionId
  au_extension_key_id :: string
  au_page_context :: PageContext
  au_recipe :: SiteRecipe
  au_decision :: PolicyDecision
  au_base_risk :: RiskLevel

record PendingApprovalEntry =
  pn_approval :: Approval
  pn_authorization :: AuthorizationContext

text \<open>Of a managed browser the handlers here use the command filter; the process behind it is not modelled.\<close>

record BrokerState =
  b_broker_key :: bytes
  b_key_id :: string
  b_store :: db
  b_policy_evaluator :: PolicyEvaluator
  b_sessions :: "(BrowserSessionId \<times> ActiveBrowserSession) list"
  b_page_contexts :: "(BrowserSessionId \<times> (u32 \<times> PageContext) list) list"
  b_capabilities :: "(CapabilityId \<times> CapabilityEntry) list"
  b_pending_offers :: "(BrowserSessionId \<times> CapabilityId list) list"
  b_executions :: "(ExecutionId \<times> ActiveExecution) list"
  b_oauth_executions :: "(CapabilityId \<times> PendingOAuthExecution) list"
  b_requests :: "(RequestId \<times> ActionResponseResult) list"
  b_request_agents :: "(RequestId \<times> AgentId) list"
  b_request_fingerprints :: "(RequestId \<times> bytes) list"
  b_approvals :: "(ApprovalId \<times> PendingApprovalEntry) list"
  b_recipes :: "(RecipeId \<times> SiteRecipe) list"
  b_managed_browsers :: "(BrowserInstanceId \<times> CdpFilter) list"
  b_audit_key_version :: u32
  b_audit_key :: bytes
  b_next_sequence :: u64
  b_latest_hash :: bytes

record broker_env =
  be_cap :: cap_env
  be_audit :: audit_env
  be_oauth :: oauth_env
  be_to_vec :: "ActionRequestParams \<Rightarrow> string + bytes"
  be_from_str :: "string \<Rightarrow> string + json"
  be_role_values :: "bytes \<Rightarrow> (string \<times> string) list option"
  be_utf8_lossy :: "bytes \<Rightarrow> string"
  be_hmac_sha1 :: "bytes \<Rightarrow> bytes \<Rightarrow> bytes"
  be_provider_name :: string
  be_platform :: HostPlatform

record slot =
  sl_now :: datetime
  sl_uuid :: string
  sl_io :: io
  sl_random :: bytes
  sl_secret :: "ProviderError + bytes"
  sl_ack :: "ProviderError + unit"
  sl_http :: HttpAnswer

type_synonym world = "nat \<Rightarrow> slot"

datatype failure = Rpc RpcError | Panic

type_synonym 'a broker_handler = "(BrokerState, failure, 'a) handler"

definition rpc :: "RpcErrorCode \<Rightarrow> string \<Rightarrow> failure" where
  "rpc code message = Rpc (RpcError_new code message)"

text \<open>The later part of a world.\<close>

definition later :: "nat \<Rightarrow> world \<Rightarrow> world" where
  "later n W = (\<lambda>k. W (n + k))"

text \<open>An operation of the store alone.\<close>

definition on_store :: "(db \<Rightarrow> ('e + 'a) \<times> db) \<Rightarrow> (BrokerState, 'e, 'a) handler" where
  "on_store op b = (let (r, d) = op (b_store b) in (r, b\<lparr>b_store := d\<rparr>))"

section \<open>Texts of errors\<close>

fun StoreError_to_string :: "StoreError \<Rightarrow> string" where
  "StoreError_to_string (Sqlite e) = ''Database error: '' @ e"
| "StoreError_to_string (Migration e) = ''Migration error: '' @ e"
| "StoreError_to_string (NotFound e) = ''Record not found: '' @ e"
| "StoreError_to_string (StoreSerialization e) = ''Serialization error: '' @ e"
| "StoreError_to_string (StateConflict e) = ''State conflict: '' @ e"

fun AuditError_to_string :: "AuditError \<Rightarrow> string" where
  "AuditError_to_string (ChainBroken q) = ''Hash chain verification failed at sequence '' @ show_nat (unat q)"
| "AuditError_to_string (AuditSerialization e) = ''Serialization error: '' @ e"
| "AuditError_to_string (ProhibitedPayload e) = ''Prohibited key in audit payload: '' @ e"

fun PolicyError_to_string :: "PolicyError \<Rightarrow> string" where
  "PolicyError_to_string (PolicyParse e) = ''Policy parse error: '' @ e"
| "PolicyError_to_string (InvalidVersion e) = ''Invalid policy version: '' @ e"
| "PolicyError_to_string (Evaluation e) = ''Rule evaluation error: '' @ e"
| "PolicyError_to_string DefaultDeny = ''No matching policy rule found (default deny)''"
| "PolicyError_to_string (PolicyOriginMismatch e) = ''Origin does not match allowed destination: '' @ e"
| "PolicyError_to_string (AssuranceInsufficient r a) =
    ''Browser assurance level insufficient: required '' @ r @ '', got '' @ a"

section \<open>Start\<close>

text \<open>The statement that reads the last hash is number 3; an error there gives the genesis hash.\<close>

definition try_new_with_audit_key ::
    "slot \<Rightarrow> bytes \<Rightarrow> string \<Rightarrow> bytes \<Rightarrow> u32 \<Rightarrow> db \<Rightarrow> PolicyEvaluator \<Rightarrow> (StoreError + BrokerState) \<times> db" where
  "try_new_with_audit_key sl broker_key key_id audit_key audit_key_version store policy_evaluator =
    (case recover_incomplete_state (sl_io sl) (sl_now sl) store of
       (Inl e, d) \<Rightarrow> (Inl e, d)
     | (Inr _, d) \<Rightarrow>
       (let initial_hash = (if sl_io sl 3 = None then get_latest_audit_hash d else GENESIS_PREVIOUS_HASH) in
        case sl_io sl 4 of Some e \<Rightarrow> (Inl (Sqlite e), d)
        | None \<Rightarrow>
        (Inr \<lparr>b_broker_key = broker_key, b_key_id = key_id, b_store = d, b_policy_evaluator = policy_evaluator,
              b_sessions = [], b_page_contexts = [], b_capabilities = [], b_pending_offers = [], b_executions = [],
              b_oauth_executions = [], b_requests = [], b_request_agents = [], b_request_fingerprints = [],
              b_approvals = [], b_recipes = [], b_managed_browsers = [],
              b_audit_key_version = audit_key_version, b_audit_key = audit_key,
              b_next_sequence = get_latest_audit_sequence d + 1, b_latest_hash = initial_hash\<rparr>, d)))"

text \<open>A start that fails panics.\<close>

definition new_with_audit_key ::
    "slot \<Rightarrow> bytes \<Rightarrow> string \<Rightarrow> bytes \<Rightarrow> u32 \<Rightarrow> db \<Rightarrow> PolicyEvaluator \<Rightarrow> BrokerState option" where
  "new_with_audit_key sl broker_key key_id audit_key audit_key_version store policy_evaluator =
    (case try_new_with_audit_key sl broker_key key_id audit_key audit_key_version store policy_evaluator of
       (Inl _, _) \<Rightarrow> None | (Inr b, _) \<Rightarrow> Some b)"

definition BrokerState_new ::
    "broker_env \<Rightarrow> slot \<Rightarrow> bytes \<Rightarrow> string \<Rightarrow> db \<Rightarrow> PolicyEvaluator \<Rightarrow> BrokerState option" where
  "BrokerState_new E sl broker_key key_id store policy_evaluator =
    new_with_audit_key sl broker_key key_id (ce_sha256 (be_cap E) broker_key) 1 store policy_evaluator"

section \<open>Audited operations\<close>

text \<open>
  The block that the source repeats: an event for the next position of the log is created, stored
  together with the operation it reports, and only then the cursor advances.
\<close>

definition try_audited ::
    "broker_env \<Rightarrow> slot \<Rightarrow> string \<Rightarrow> string \<Rightarrow> string option \<Rightarrow> AuditContext
     \<Rightarrow> (AuditEvent \<Rightarrow> db \<Rightarrow> (StoreError + 'a) \<times> db)
     \<Rightarrow> (BrokerState, AuditError, StoreError + 'a) handler" where
  "try_audited E sl event_type actor_type actor_id context op b =
    (case create_audit_event (be_audit E) (sl_uuid sl) (b_next_sequence b) (b_latest_hash b)
            (b_audit_key_version b) (b_audit_key b) event_type actor_type actor_id context (sl_now sl) of
       Inl e \<Rightarrow> (Inl e, b)
     | Inr event \<Rightarrow>
       (case op event (b_store b) of
          (Inl e, d) \<Rightarrow> (Inr (Inl e), b\<lparr>b_store := d\<rparr>)
        | (Inr x, d) \<Rightarrow> (Inr (Inr x), b\<lparr>b_store := d, b_next_sequence := b_next_sequence b + 1,
                                        b_latest_hash := ev_event_hash event\<rparr>)))"

definition audited ::
    "broker_env \<Rightarrow> slot \<Rightarrow> string \<Rightarrow> string \<Rightarrow> string option \<Rightarrow> AuditContext \<Rightarrow> (AuditError \<Rightarrow> failure)
     \<Rightarrow> (StoreError \<Rightarrow> failure) \<Rightarrow> (AuditEvent \<Rightarrow> db \<Rightarrow> (StoreError + 'a) \<times> db) \<Rightarrow> 'a broker_handler" where
  "audited E sl event_type actor_type actor_id context audit_failed store_failed op =
    bindh (map_errh audit_failed (try_audited E sl event_type actor_type actor_id context op))
      (\<lambda>r. lifth (map_err store_failed r))"

definition audit_context ::
    "string option \<Rightarrow> string option \<Rightarrow> string option \<Rightarrow> string option \<Rightarrow> string option \<Rightarrow> string option
     \<Rightarrow> string option \<Rightarrow> string option \<Rightarrow> string option \<Rightarrow> AuditContext" where
  "audit_context request_id credential_id capability_id browser_session_id target_origin action decision risk_level
     error_code =
    \<lparr>ac_request_id = request_id, ac_credential_id = credential_id, ac_capability_id = capability_id,
     ac_browser_session_id = browser_session_id, ac_target_origin = target_origin, ac_action = action,
     ac_decision = decision, ac_risk_level = risk_level, ac_error_code = error_code\<rparr>"

definition record_audit_event ::
    "broker_env \<Rightarrow> slot \<Rightarrow> string \<Rightarrow> string \<Rightarrow> string option \<Rightarrow> AuditContext \<Rightarrow> unit broker_handler" where
  "record_audit_event E sl event_type actor_type actor_id context =
    audited E sl event_type actor_type actor_id context
      (\<lambda>e. rpc INTERNAL_ERROR (AuditError_to_string e)) (\<lambda>e. rpc INTERNAL_ERROR (StoreError_to_string e))
      (insert_audit_event (sl_io sl))"

definition insert_standing_grant_audited ::
    "broker_env \<Rightarrow> slot \<Rightarrow> StandingGrant \<Rightarrow> AuditContext \<Rightarrow> unit broker_handler" where
  "insert_standing_grant_audited E sl grant context =
    audited E sl ''grant.created'' ''admin'' None context
      (\<lambda>_. rpc INTERNAL_ERROR ''Audit unavailable'') (\<lambda>_. rpc INTERNAL_ERROR ''Grant storage unavailable'')
      (insert_standing_grant_with_audit (sl_io sl) grant)"

definition write_audit_checkpoint :: "broker_env \<Rightarrow> world \<Rightarrow> unit broker_handler" where
  "write_audit_checkpoint E W =
    bindh (record_audit_event E (W 0) ''audit.checkpoint'' ''broker'' None
             (audit_context None None None None None None (Some ''shutdown'') None None)) (\<lambda>_.
    bindh (readh (\<lambda>b. create_audit_checkpoint (be_audit E) (b_next_sequence b - 1) (b_latest_hash b)
             (b_audit_key_version b) (b_key_id b) (b_broker_key b) (sl_now (W 1)))) (\<lambda>checkpoint.
    map_errh (\<lambda>_. rpc INTERNAL_ERROR ''Checkpoint unavailable'')
      (on_store (insert_audit_checkpoint (sl_io (W 1)) checkpoint))))"

definition verify_audit_integrity :: "broker_env \<Rightarrow> slot \<Rightarrow> BrokerState \<Rightarrow> failure + unit" where
  "verify_audit_integrity E sl b =
    (if sl_io sl 0 \<noteq> None then Inl (rpc INTERNAL_ERROR ''Audit unavailable'')
     else map_err (\<lambda>_. rpc INTERNAL_ERROR ''Audit integrity failure'')
            (verify_audit_chain (be_audit E) (list_audit_events (b_store b))
              [(b_audit_key_version b, b_audit_key b)]))"

section \<open>Registrations\<close>

definition register_recipe :: "SiteRecipe \<Rightarrow> BrokerState \<Rightarrow> BrokerState" where
  "register_recipe recipe b = b\<lparr>b_recipes := AList.update (sr_recipe_id recipe) recipe (b_recipes b)\<rparr>"

definition register_browser_session :: "BrowserSession \<Rightarrow> BrokerState \<Rightarrow> BrokerState" where
  "register_browser_session session b =
    b\<lparr>b_sessions := AList.update (bs_session_id session)
        \<lparr>as_session = session, as_active_tab_count = 1, as_session_proof_hash = None\<rparr> (b_sessions b)\<rparr>"

definition register_page_context :: "PageContext \<Rightarrow> BrowserSessionId \<Rightarrow> BrokerState \<Rightarrow> BrokerState" where
  "register_page_context context session_id b =
    (let tabs = (case map_of (b_page_contexts b) session_id of None \<Rightarrow> [] | Some t \<Rightarrow> t) in
     b\<lparr>b_page_contexts := AList.update session_id (AList.update (pg_tab_id context) context tabs) (b_page_contexts b)\<rparr>)"

section \<open>Sensitive windows of a session\<close>

definition sensitive_filter_for_session :: "BrowserSessionId \<Rightarrow> BrokerState \<Rightarrow> (BrowserInstanceId \<times> CdpFilter) option" where
  "sensitive_filter_for_session session_id b =
    (case map_of (b_sessions b) session_id of None \<Rightarrow> None
     | Some active \<Rightarrow>
       (let instance_id = bs_instance_id (as_session active) in
        map_option (\<lambda>f. (instance_id, f)) (map_of (b_managed_browsers b) instance_id)))"

definition execution_sensitive_filter :: "ExecutionId \<Rightarrow> BrokerState \<Rightarrow> (BrowserInstanceId \<times> u32) option" where
  "execution_sensitive_filter execution_id b =
    (case map_of (b_executions b) execution_id of None \<Rightarrow> None
     | Some active \<Rightarrow>
       map_option (\<lambda>(i, _). (i, ax_tab_id active)) (sensitive_filter_for_session (ax_browser_session_id active) b))"

text \<open>The filter is shared by reference: changing it changes the managed browser's.\<close>

definition enter_window :: "BrowserInstanceId \<Rightarrow> u32 \<Rightarrow> BrokerState \<Rightarrow> BrokerState" where
  "enter_window instance_id tab_id b =
    b\<lparr>b_managed_browsers := update_at instance_id (enter_sensitive_window tab_id) (b_managed_browsers b)\<rparr>"

definition exit_window :: "BrowserInstanceId \<Rightarrow> u32 \<Rightarrow> BrokerState \<Rightarrow> BrokerState" where
  "exit_window instance_id tab_id b =
    b\<lparr>b_managed_browsers := update_at instance_id (exit_sensitive_window tab_id) (b_managed_browsers b)\<rparr>"

definition close_execution_window :: "ExecutionId \<Rightarrow> BrokerState \<Rightarrow> BrokerState" where
  "close_execution_window execution_id b =
    (case execution_sensitive_filter execution_id b of None \<Rightarrow> b
     | Some (instance_id, tab_id) \<Rightarrow> exit_window instance_id tab_id b)"

definition guard_observation :: "BrowserSessionId \<Rightarrow> BrokerState \<Rightarrow> failure + unit" where
  "guard_observation session_id b =
    (if is_some_and (sensitive_filter_for_session session_id b) (\<lambda>(_, f). has_sensitive_window f)
     then Inl (rpc OBSERVATION_BLOCKED ''Observation is blocked while an authentication action is in progress'')
     else Inr ())"

end
