(* ===== verification/Broker_Requests.thy ===== *)
theory Broker_Requests
  imports Broker_State
begin

text \<open>
  Requests and approvals (\<open>secretctld/src/state.rs\<close>): how an agent's request becomes a capability, waits
  for a person, or is refused.
\<close>

section \<open>Minting\<close>

definition approval_context_digest :: "broker_env \<Rightarrow> AuthorizationContext \<Rightarrow> bytes" where
  "approval_context_digest E a =
    (let p = au_page_context a in
     compute_context_digest (ce_sha256 (be_cap E))
      [as_bytes (au_agent_id a), as_bytes (cr_credential_id (au_credential a)),
       as_bytes (ActionKind_as_str (au_action a)), as_bytes (origin_as_str (pg_top_origin p)),
       as_bytes (origin_as_str (pg_frame_origin p)), as_bytes (au_browser_session_id a),
       as_bytes (au_extension_key_id a), be_encode 4 (unat (pg_tab_id p)), be_encode 4 (unat (pg_frame_id p)),
       as_bytes (pg_document_id p), be_encode 8 (unat (pg_navigation_epoch p)),
       sr_content_hash (au_recipe a), pd_policy_hash (au_decision a)])"

definition mint_arguments :: "string \<Rightarrow> datetime \<Rightarrow> AuthorizationContext \<Rightarrow> MintArgs" where
  "mint_arguments key_id now a =
    (let p = au_page_context a in
     \<lparr>ma_issuer_key_id = key_id, ma_request_id = au_request_id a, ma_agent_id = au_agent_id a,
      ma_credential_id = cr_credential_id (au_credential a), ma_action = au_action a,
      ma_top_origin = pg_top_origin p, ma_frame_origin = pg_frame_origin p,
      ma_browser_session_id = au_browser_session_id a, ma_extension_key_id = au_extension_key_id a,
      ma_tab_id = pg_tab_id p, ma_frame_id = pg_frame_id p, ma_document_id = pg_document_id p,
      ma_navigation_epoch = pg_navigation_epoch p, ma_recipe_id = sr_recipe_id (au_recipe a),
      ma_recipe_hash = sr_content_hash (au_recipe a), ma_policy_hash = pd_policy_hash (au_decision a),
      ma_issued_at = now, ma_deadlines = deadlines_from_policy (au_decision a), ma_flow = None, ma_max_uses = 1\<rparr>)"

definition issue_capability ::
    "CapabilityEntry \<Rightarrow> BrokerState \<Rightarrow> BrokerState" where
  "issue_capability entry b =
    (let capability = ent_capability entry; session = cap_browser_session_id capability;
         queue = (case map_of (b_pending_offers b) session of None \<Rightarrow> [] | Some q \<Rightarrow> q) in
     b\<lparr>b_capabilities := AList.update (cap_capability_id capability) entry (b_capabilities b),
       b_pending_offers := AList.update session (queue @ [cap_capability_id capability]) (b_pending_offers b)\<rparr>)"

definition put_response :: "ActionResponseResult \<Rightarrow> BrokerState \<Rightarrow> BrokerState" where
  "put_response response b = b\<lparr>b_requests := AList.update (arr_request_id response) response (b_requests b)\<rparr>"

definition mint_authorized_capability ::
    "broker_env \<Rightarrow> world \<Rightarrow> AuthorizationContext \<Rightarrow> ApprovalId option \<Rightarrow> ActionResponseResult broker_handler" where
  "mint_authorized_capability E W a approval_id =
    bindh (readh (\<lambda>b. (b_broker_key b, b_key_id b))) (\<lambda>(broker_key, key_id).
    case mint_capability (be_cap E) broker_key (sl_uuid (W 0)) (mint_arguments key_id (sl_now (W 0)) a) of
      None \<Rightarrow> failh Panic
    | Some (capability, token) \<Rightarrow>
      bindh (lifth (map_err (\<lambda>_. rpc INTERNAL_ERROR ''Capability mint failed'')
               (parse_and_verify_token (be_cap E) token (ed_public (ce_ed (be_cap E)) broker_key)))) (\<lambda>claims.
      bindh (audited E (W 1) ''capability.minted'' ''broker'' None
               (audit_context (Some (au_request_id a)) (Some (cr_credential_id (au_credential a)))
                  (Some (cap_capability_id capability)) (Some (au_browser_session_id a))
                  (Some (origin_as_str (cap_top_origin capability))) (Some (ActionKind_as_str (au_action a)))
                  (Some (if approval_id \<noteq> None then ''user_approved'' else ''auto_approved''))
                  (Some (RiskLevel_as_str (pd_risk_level (au_decision a)))) None)
               (\<lambda>_. rpc INTERNAL_ERROR ''Audit unavailable'') (\<lambda>_. rpc INTERNAL_ERROR ''Durable state unavailable'')
               (insert_capability_with_audit (sl_io (W 1)) capability key_id)) (\<lambda>_.
      bindh (modifyh (issue_capability
               \<lparr>ent_capability = capability, ent_token = token, ent_claims = claims,
                ent_recipe_id = sr_recipe_id (au_recipe a),
                ent_provider_locator = cr_provider_locator (au_credential a),
                ent_credential_metadata = cr_metadata_json (au_credential a)\<rparr>)) (\<lambda>_.
      let response =
            \<lparr>arr_request_id = au_request_id a, arr_state = ActionRequestState.CapabilityIssued,
             arr_result_code = Some ''CAPABILITY_ISSUED'', arr_execution_id = None,
             arr_evidence_ref = Some (''cap:'' @ cap_capability_id capability), arr_grant_id = None,
             arr_completed_at = None\<rparr>
      in bindh (modifyh (put_response response)) (\<lambda>_. returnh response)))))"

section \<open>Standing grants\<close>

definition matching_standing_grant ::
    "slot \<Rightarrow> AuthorizationContext \<Rightarrow> datetime \<Rightarrow> BrokerState \<Rightarrow> failure + StandingGrant option" where
  "matching_standing_grant sl a now b =
    (if RiskLevel_rank (au_base_risk a) > RiskLevel_rank MAX_GRANTABLE_RISK then Inr None
     else if sl_io sl 0 \<noteq> None then Inl (rpc INTERNAL_ERROR ''Grant storage unavailable'')
     else Inr (case find_matching_standing_grant (b_store b) (au_agent_id a) (cr_name (au_credential a))
                      (au_action a) (pg_top_origin (au_page_context a)) of
                 None \<Rightarrow> None
               | Some grant \<Rightarrow>
                 (if StandingGrant_covers grant (au_agent_id a) (cr_name (au_credential a)) (au_action a)
                       (pg_top_origin (au_page_context a)) (au_base_risk a) now
                  then Some grant else None)))"

section \<open>New requests\<close>

definition seconds :: "int \<Rightarrow> int" where
  "seconds n = n * nanos"

definition path_allows :: "string option \<Rightarrow> string \<Rightarrow> bool" where
  "path_allows p path = is_none_or p (\<lambda>prefix. starts_with path prefix)"

definition recipe_matches :: "ActionKind \<Rightarrow> PageContext \<Rightarrow> SiteRecipe \<Rightarrow> bool" where
  "recipe_matches action context recipe =
    (sr_enabled recipe \<and> sr_action recipe = action
     \<and> origin_matches (rm_top_origin (sr_match_rule recipe)) (pg_top_origin context)
     \<and> is_none_or (rm_frame_origin (sr_match_rule recipe)) (\<lambda>o'. origin_matches o' (pg_frame_origin context))
     \<and> path_allows (rm_path_prefix (sr_match_rule recipe)) (pg_path context))"

text \<open>\<open>max_by_key\<close>: the last of the elements with the largest key.\<close>

definition max_by_key :: "('a \<Rightarrow> 'b::linorder) \<Rightarrow> 'a list \<Rightarrow> 'a option" where
  "max_by_key f xs =
    foldl (\<lambda>acc x. case acc of None \<Rightarrow> Some x | Some y \<Rightarrow> if f y \<le> f x then Some x else Some y) None xs"

definition active_session ::
    "datetime \<Rightarrow> BrowserSessionId \<Rightarrow> BrokerState \<Rightarrow> failure + BrowserSession" where
  "active_session now session_id b =
    (case map_of (b_sessions b) session_id of
       None \<Rightarrow> Inl (rpc SESSION_TERMINATED ''Browser session not found or inactive'')
     | Some active \<Rightarrow>
       (let session = as_session active in
        if bs_state session \<noteq> BrowserSessionState.Active then Inl (rpc SESSION_TERMINATED ''Browser session is not active'')
        else if now - bs_last_heartbeat_at session > seconds 10
        then Inl (rpc SESSION_TERMINATED ''Browser session heartbeat is stale'')
        else Inr session))"

definition measured_context :: "datetime \<Rightarrow> ActionRequestParams \<Rightarrow> BrokerState \<Rightarrow> failure + PageContext" where
  "measured_context now params b =
    (let target = tc_origin (arp_target params) in
     case map_of (b_page_contexts b) (arp_browser_session_id params) of
       None \<Rightarrow> Inl (rpc ORIGIN_MISMATCH ''Verified page context unavailable'')
     | Some session_contexts \<Rightarrow>
     (case (case Option.bind (arp_tab_hint params) (map_of session_contexts) of
              Some c \<Rightarrow> Some c
            | None \<Rightarrow> max_by_key pg_observed_at (filter (\<lambda>c. now - pg_observed_at c \<le> seconds 2
                        \<and> origin_matches (pg_top_origin c) target
                        \<and> path_allows (tc_path_prefix (arp_target params)) (pg_path c)) (map snd session_contexts))) of
        None \<Rightarrow> Inl (rpc ORIGIN_MISMATCH ''Verified tab context unavailable'')
      | Some context \<Rightarrow>
        (if now - pg_observed_at context > seconds 2
         then Inl (rpc ORIGIN_MISMATCH ''Verified page context is stale'')
         else if \<not> origin_matches (pg_top_origin context) target
         then Inl (rpc ORIGIN_MISMATCH ''Requested origin does not match verified browser origin'')
         else if \<not> path_allows (tc_path_prefix (arp_target params)) (pg_path context)
         then Inl (rpc ORIGIN_MISMATCH ''Requested path constraint does not match verified browser path'')
         else Inr context)))"

definition check_target :: "CanonicalOrigin \<Rightarrow> failure + unit" where
  "check_target o' =
    (if o_scheme o' = ''http'' \<and> \<not> List.member [''localhost'', ''127.0.0.1'', ''::1''] (o_host o')
     then Inl (rpc ORIGIN_MISMATCH ''Insecure non-loopback origins are denied'') else Inr ())"

definition stored_credential :: "slot \<Rightarrow> string \<Rightarrow> BrokerState \<Rightarrow> StoreError + CredentialDescriptor" where
  "stored_credential sl name b =
    (case sl_io sl 0 of Some e \<Rightarrow> Inl (Sqlite e) | None \<Rightarrow> get_credential_by_name (b_store b) name)"

definition usable_credential ::
    "broker_env \<Rightarrow> slot \<Rightarrow> ActionRequestParams \<Rightarrow> BrokerState \<Rightarrow> failure + CredentialDescriptor" where
  "usable_credential E sl params b =
    (case stored_credential sl (arp_identity params) b of
       Inl _ \<Rightarrow> Inl (rpc AUTH_POLICY_DENIED ''Identity is unavailable'')
     | Inr credential \<Rightarrow>
       (if cr_disabled_at credential \<noteq> None \<or> \<not> List.member (cr_allowed_actions credential) (arp_action params)
           \<or> cr_provider credential \<noteq> be_provider_name E
        then Inl (rpc AUTH_POLICY_DENIED ''Identity is not permitted for this action'')
        else Inr credential))"

definition request_query :: "AgentId \<Rightarrow> ActionRequestParams \<Rightarrow> PageContext \<Rightarrow> string \<Rightarrow> PolicyQuery" where
  "request_query agent_id params context assurance =
    \<lparr>q_agent_id = agent_id, q_credential_name = arp_identity params, q_action = arp_action params,
     q_target_origin = tc_origin (arp_target params), q_path_prefix = Some (pg_path context),
     q_browser_assurance = assurance\<rparr>"

definition request_approval ::
    "broker_env \<Rightarrow> world \<Rightarrow> datetime \<Rightarrow> AuthorizationContext \<Rightarrow> ActionResponseResult broker_handler" where
  "request_approval E W now a =
    (let approval_id = id_new ''app'' (sl_uuid (W 6));
         approval = \<lparr>ap_approval_id = approval_id, ap_request_id = au_request_id a, ap_decision = ''pending'',
                     ap_actor = None, ap_presence = None, ap_context_digest = approval_context_digest E a,
                     ap_decided_at = None, ap_expires_at = now + seconds 60\<rparr>;
         response = \<lparr>arr_request_id = au_request_id a, arr_state = ActionRequestState.AwaitingApproval,
                     arr_result_code = Some ''APPROVAL_REQUIRED'', arr_execution_id = None,
                     arr_evidence_ref = Some (''approval:'' @ approval_id), arr_grant_id = None,
                     arr_completed_at = None\<rparr> in
     bindh (audited E (W 7) ''approval.requested'' ''broker'' None
              (audit_context (Some (au_request_id a)) (Some (cr_credential_id (au_credential a))) None
                 (Some (au_browser_session_id a)) (Some (origin_as_str (pg_top_origin (au_page_context a))))
                 (Some (ActionKind_as_str (au_action a))) (Some ''pending'')
                 (Some (RiskLevel_as_str (pd_risk_level (au_decision a)))) None)
              (\<lambda>_. rpc INTERNAL_ERROR ''Audit unavailable'') (\<lambda>_. rpc INTERNAL_ERROR ''Approval storage unavailable'')
              (insert_approval_with_audit (sl_io (W 7)) approval)) (\<lambda>_.
     bindh (modifyh (\<lambda>b. b\<lparr>b_approvals := AList.update approval_id
              \<lparr>pn_approval = approval, pn_authorization = a\<rparr> (b_approvals b)\<rparr>)) (\<lambda>_.
     bindh (modifyh (put_response response)) (\<lambda>_. returnh response))))"

text \<open>The last part of a request: a standing grant, an approval, or the capability at once.\<close>

definition authorize ::
    "broker_env \<Rightarrow> world \<Rightarrow> datetime \<Rightarrow> AuthorizationContext \<Rightarrow> ActionResponseResult broker_handler" where
  "authorize E W now a =
    (if pd_require_user_presence (au_decision a) then
       bindh (peekh (matching_standing_grant (W 5) a now)) (\<lambda>found.
       case found of
         Some grant \<Rightarrow>
           bindh (ignoreh (on_store (touch_standing_grant (sl_io (W 6)) (sg_grant_id grant) now))) (\<lambda>_.
           bindh (record_audit_event E (W 7) ''approval.auto_granted'' ''broker'' (Some (au_agent_id a))
                    (audit_context (Some (au_request_id a)) (Some (cr_credential_id (au_credential a))) None
                       (Some (au_browser_session_id a)) (Some (origin_as_str (pg_top_origin (au_page_context a))))
                       (Some (ActionKind_as_str (au_action a))) (Some ''standing_grant'')
                       (Some (RiskLevel_as_str (au_base_risk a))) None)) (\<lambda>_.
           mint_authorized_capability E (later 8 W) a None))
       | None \<Rightarrow> request_approval E W now a)
     else mint_authorized_capability E (later 8 W) a None)"

definition request_audit ::
    "ActionRequestParams \<Rightarrow> string \<Rightarrow> string option \<Rightarrow> string option \<Rightarrow> string option \<Rightarrow> AuditContext" where
  "request_audit params credential decision risk error_code =
    audit_context (Some (arp_request_id params)) (Some credential) None (Some (arp_browser_session_id params))
      (Some (origin_as_str (tc_origin (arp_target params)))) (Some (ActionKind_as_str (arp_action params)))
      decision risk error_code"

definition evaluate_request ::
    "broker_env \<Rightarrow> slot \<Rightarrow> AgentId \<Rightarrow> ActionRequestParams \<Rightarrow> BrowserSession \<Rightarrow> PageContext \<Rightarrow> PolicyDecision broker_handler" where
  "evaluate_request E sl agent_id params session context =
    bindh (readh (\<lambda>b. evaluate (b_policy_evaluator b) (request_query agent_id params context (bs_assurance session)))) (\<lambda>evaluated.
    case evaluated of
      Inl e \<Rightarrow>
        bindh (ignoreh (record_audit_event E sl ''policy.evaluated'' ''broker'' None
                 (request_audit params (arp_identity params) (Some ''deny'') None (Some ''AUTH_POLICY_DENIED'')))) (\<lambda>_.
        failh (rpc AUTH_POLICY_DENIED (PolicyError_to_string e)))
    | Inr decision \<Rightarrow>
        if pd_effect decision = Deny then failh (rpc AUTH_POLICY_DENIED ''Policy denied action'')
        else returnh decision)"

definition require_assurance ::
    "broker_env \<Rightarrow> slot \<Rightarrow> AgentId \<Rightarrow> ActionRequestParams \<Rightarrow> CredentialDescriptor \<Rightarrow> RiskLevel \<Rightarrow> unit broker_handler" where
  "require_assurance E sl agent_id params credential risk =
    (if \<not> assurance_available (be_platform E) risk then
       bindh (record_audit_event E sl ''security.presence_unavailable'' ''broker'' (Some agent_id)
                (request_audit params (cr_credential_id credential) (Some ''deny'') (Some (RiskLevel_as_str risk))
                   (Some ''USER_PRESENCE_UNAVAILABLE''))) (\<lambda>_.
       failh (rpc USER_PRESENCE_UNAVAILABLE ''Configured user-presence assurance is unavailable''))
     else returnh ())"

definition matched_recipe ::
    "broker_env \<Rightarrow> ActionKind \<Rightarrow> PageContext \<Rightarrow> BrokerState \<Rightarrow> failure + SiteRecipe" where
  "matched_recipe E action context b =
    try_r (ok_or (rpc RECIPE_NOT_FOUND ''No enabled recipe matches verified context'')
             (find (recipe_matches action context) (map snd (b_recipes b)))) (\<lambda>recipe.
    if action = OAuthAuthorize then
      try_r (ok_or (rpc SECURITY_VIOLATION ''OAuth recipe configuration is required'') (sr_oauth recipe)) (\<lambda>oauth.
      try_r (map_err (\<lambda>_. rpc SECURITY_VIOLATION ''OAuth recipe configuration is invalid'')
               (OAuthRecipe_validate (ce_url_parse (be_cap E)) oauth)) (\<lambda>_. Inr recipe))
    else Inr recipe)"

definition enrolled_name :: "slot \<Rightarrow> AgentId \<Rightarrow> BrokerState \<Rightarrow> string" where
  "enrolled_name sl agent_id b =
    (if sl_io sl 0 \<noteq> None then agent_id
     else case get_enrolled_agent (b_store b) agent_id of Inl _ \<Rightarrow> agent_id | Inr agent \<Rightarrow> ag_display_name agent)"

text \<open>Everything a new request is checked for; the result is what it is authorized for.\<close>

definition authorization_for ::
    "broker_env \<Rightarrow> world \<Rightarrow> datetime \<Rightarrow> AgentId \<Rightarrow> ActionRequestParams \<Rightarrow> AuthorizationContext broker_handler" where
  "authorization_for E W now agent_id params =
    bindh (lifth (check_target (tc_origin (arp_target params)))) (\<lambda>_.
    bindh (peekh (usable_credential E (W 1) params)) (\<lambda>credential.
    bindh (record_audit_event E (W 2) ''action.requested'' ''agent'' (Some agent_id)
             (request_audit params (arp_identity params) None None None)) (\<lambda>_.
    bindh (peekh (active_session now (arp_browser_session_id params))) (\<lambda>session.
    bindh (peekh (measured_context now params)) (\<lambda>context.
    bindh (evaluate_request E (W 3) agent_id params session context) (\<lambda>decision.
    bindh (require_assurance E (W 3) agent_id params credential
             (calculate_risk_level (arp_action params) (pd_require_user_presence decision) (bs_assurance session))) (\<lambda>_.
    bindh (peekh (matched_recipe E (arp_action params) context)) (\<lambda>recipe.
    bindh (readh (enrolled_name (W 4) agent_id)) (\<lambda>agent_name.
    returnh
      \<lparr>au_request_id = arp_request_id params, au_agent_id = agent_id, au_agent_name = agent_name,
       au_reason = arp_reason params, au_identity_name = arp_identity params, au_credential = credential,
       au_action = arp_action params, au_browser_session_id = arp_browser_session_id params,
       au_extension_key_id = bs_extension_key_id session, au_page_context = context, au_recipe = recipe,
       au_decision = decision,
       au_base_risk = calculate_risk_level (arp_action params) False (bs_assurance session)\<rparr>)))))))))"

definition handle_new_action_request ::
    "broker_env \<Rightarrow> world \<Rightarrow> AgentId \<Rightarrow> ActionRequestParams \<Rightarrow> ActionResponseResult broker_handler" where
  "handle_new_action_request E W agent_id params =
    (let now = sl_now (W 0) in
     bindh (authorization_for E W now agent_id params) (authorize E W now))"

section \<open>Requests, status and cancellation\<close>

definition fail_request :: "broker_env \<Rightarrow> datetime \<Rightarrow> string \<Rightarrow> ActionResponseResult \<Rightarrow> ActionResponseResult" where
  "fail_request E now message r =
    r\<lparr>arr_state := ActionRequestState.Failed, arr_result_code := Some message,
      arr_completed_at := Some (ae_rfc3339 (be_audit E) now)\<rparr>"

definition admit_request :: "RequestId \<Rightarrow> bytes \<Rightarrow> AgentId \<Rightarrow> BrokerState \<Rightarrow> BrokerState" where
  "admit_request i fingerprint agent_id b =
    put_response \<lparr>arr_request_id = i, arr_state = ActionRequestState.Requested, arr_result_code = Some ''REQUESTED'',
                  arr_execution_id = None, arr_evidence_ref = None, arr_grant_id = None, arr_completed_at = None\<rparr>
      (b\<lparr>b_request_fingerprints := AList.update i fingerprint (b_request_fingerprints b),
         b_request_agents := AList.update i agent_id (b_request_agents b)\<rparr>)"

definition handle_action_request ::
    "broker_env \<Rightarrow> world \<Rightarrow> AgentId \<Rightarrow> ActionRequestParams \<Rightarrow> ActionResponseResult broker_handler" where
  "handle_action_request E W agent_id params =
    (let i = arp_request_id params in
     if chars_count (arp_reason params) > 500 \<or> arp_timeout_ms params = 0 \<or> arp_timeout_ms params > 60000
     then failh (rpc INVALID_PARAMS ''Action reason or timeout is outside allowed limits'')
     else bindh (lifth (map_err (\<lambda>_. rpc INVALID_PARAMS ''Action request is not serializable'') (be_to_vec E params))) (\<lambda>encoded.
     let fingerprint = ce_sha256 (be_cap E) encoded in
     bindh (readh (\<lambda>b. (map_of (b_request_fingerprints b) i, map_of (b_request_agents b) i))) (\<lambda>(existing, requester).
     case existing of
       Some known \<Rightarrow>
         if known \<noteq> fingerprint \<or> requester \<noteq> Some agent_id then failh (rpc INVALID_PARAMS ''request_id_conflict'')
         else peekh (\<lambda>b. ok_or (rpc INTERNAL_ERROR ''Request state unavailable'') (map_of (b_requests b) i))
     | None \<Rightarrow>
         bindh (modifyh (admit_request i fingerprint agent_id)) (\<lambda>_.
         catchh (handle_new_action_request E W agent_id params) (\<lambda>e.
           case e of
             Rpc err \<Rightarrow>
               bindh (modifyh (\<lambda>b. b\<lparr>b_requests := update_at i (fail_request E (sl_now (W 20)) (re_message err)) (b_requests b)\<rparr>))
                 (\<lambda>_. failh e)
           | Panic \<Rightarrow> failh e)))))"

text \<open>The action of an authentication request that leaves the page to the broker.\<close>

definition authenticate_action :: "CredentialDescriptor \<Rightarrow> ActionKind option \<Rightarrow> failure + ActionKind" where
  "authenticate_action credential action =
    (case action of
       Some a \<Rightarrow> (if List.member (cr_allowed_actions credential) a then Inr a
                 else Inl (rpc AUTH_POLICY_DENIED ''Identity is not permitted for this action''))
     | None \<Rightarrow> (case cr_allowed_actions credential of
                  [a] \<Rightarrow> Inr a
                | _ \<Rightarrow> Inl (rpc INVALID_PARAMS ''Credential has multiple actions; specify action'')))"

definition authenticate_candidates :: "datetime \<Rightarrow> ActionKind \<Rightarrow> BrokerState \<Rightarrow> (BrowserSessionId \<times> PageContext) list" where
  "authenticate_candidates now action b =
    concat (map (\<lambda>(session_id, active).
      if bs_state (as_session active) \<noteq> BrowserSessionState.Active
         \<or> now - bs_last_heartbeat_at (as_session active) > seconds 10 then []
      else map (Pair session_id) (filter (\<lambda>c. \<not> (now - pg_observed_at c > seconds 2)
               \<and> list_ex (recipe_matches action c) (map snd (b_recipes b)))
             (case map_of (b_page_contexts b) session_id of None \<Rightarrow> [] | Some tabs \<Rightarrow> map snd tabs))) (b_sessions b))"

definition only_candidate :: "(BrowserSessionId \<times> PageContext) list \<Rightarrow> failure + BrowserSessionId \<times> PageContext" where
  "only_candidate candidates =
    (case candidates of
       [] \<Rightarrow> Inl (rpc INVALID_PARAMS ''No active managed page matches this credential action'')
     | [c] \<Rightarrow> Inr c
     | _ \<Rightarrow> Inl (rpc INVALID_PARAMS ''Multiple active managed pages match; use execute with an explicit target''))"

definition handle_action_authenticate ::
    "broker_env \<Rightarrow> world \<Rightarrow> AgentId \<Rightarrow> ActionAuthenticateParams \<Rightarrow> ActionAuthenticateResult broker_handler" where
  "handle_action_authenticate E W agent_id params =
    bindh (peekh (\<lambda>b. map_err (\<lambda>_. rpc AUTH_POLICY_DENIED ''Identity is unavailable'')
             (stored_credential (W 0) (aap_identity params) b))) (\<lambda>credential.
    if cr_disabled_at credential \<noteq> None \<or> cr_provider credential \<noteq> be_provider_name E
    then failh (rpc AUTH_POLICY_DENIED ''Identity is unavailable'')
    else bindh (lifth (authenticate_action credential (aap_action params))) (\<lambda>action.
    bindh (readh (authenticate_candidates (sl_now (W 1)) action)) (\<lambda>candidates.
    bindh (lifth (only_candidate candidates)) (\<lambda>(browser_session_id, context).
    bindh (handle_action_request E (later 2 W) agent_id
             \<lparr>arp_request_id = (case aap_request_id params of Some i \<Rightarrow> i | None \<Rightarrow> id_new ''req'' (sl_uuid (W 1))),
              arp_action = action, arp_identity = aap_identity params,
              arp_target = \<lparr>tc_origin = pg_top_origin context, tc_path_prefix = None\<rparr>,
              arp_browser_session_id = browser_session_id, arp_tab_hint = Some (pg_tab_id context),
              arp_reason = aap_reason params, arp_wait = aap_wait params,
              arp_timeout_ms = aap_timeout_ms params, arp_client_context = aap_client_context params\<rparr>) (\<lambda>response.
    returnh \<lparr>aar_response = response, aar_action = action, aar_verified_origin = pg_top_origin context,
             aar_browser_session_id = browser_session_id\<rparr>)))))"

definition handle_action_status :: "AgentId \<Rightarrow> RequestId \<Rightarrow> BrokerState \<Rightarrow> failure + ActionStatusResult" where
  "handle_action_status agent_id request_id b =
    (if map_of (b_request_agents b) request_id \<noteq> Some agent_id then Inl (rpc INVALID_PARAMS ''Unknown request ID'')
     else try_r (ok_or (rpc INVALID_PARAMS ''Unknown request ID'') (map_of (b_requests b) request_id)) (\<lambda>request.
     Inr \<lparr>asr_request_id = arr_request_id request, asr_state = arr_state request, asr_detail = arr_result_code request\<rparr>))"

definition revoke_entry :: "string \<Rightarrow> CapabilityEntry \<Rightarrow> CapabilityEntry" where
  "revoke_entry reason entry =
    entry\<lparr>ent_capability := (ent_capability entry)\<lparr>cap_state := CapabilityState.Revoked, cap_revoked_reason := Some reason\<rparr>\<rparr>"

definition revoke_entries_where :: "(Capability \<Rightarrow> bool) \<Rightarrow> string \<Rightarrow> BrokerState \<Rightarrow> BrokerState" where
  "revoke_entries_where p reason b =
    b\<lparr>b_capabilities := update_all (\<lambda>entry.
        if p (ent_capability entry) \<and> \<not> CapabilityState_is_terminal (cap_state (ent_capability entry))
        then revoke_entry reason entry else entry) (b_capabilities b)\<rparr>"

definition handle_action_cancel :: "AgentId \<Rightarrow> ActionCancelParams \<Rightarrow> ActionCancelResult broker_handler" where
  "handle_action_cancel agent_id params =
    (let i = acp_request_id params in
     bindh (peekh (\<lambda>b. if map_of (b_request_agents b) i \<noteq> Some agent_id then Inl (rpc INVALID_PARAMS ''Unknown request ID'')
                      else ok_or (rpc INVALID_PARAMS ''Unknown request ID'') (map_of (b_requests b) i))) (\<lambda>request.
     if ActionRequestState_is_terminal (arr_state request) \<or> arr_state request = ActionRequestState.Executing
     then returnh \<lparr>acr_request_id = i, acr_cancelled = False\<rparr>
     else
       bindh (modifyh (\<lambda>b. b\<lparr>b_requests := update_at i (\<lambda>r. r\<lparr>arr_state := ActionRequestState.Cancelled,
                arr_result_code := Some ''CANCELLED''\<rparr>) (b_requests b)\<rparr>)) (\<lambda>_.
       bindh (modifyh (revoke_entries_where (\<lambda>c. cap_request_id c = i) ''request_cancelled'')) (\<lambda>_.
       returnh \<lparr>acr_request_id = i, acr_cancelled = True\<rparr>))))"

section \<open>Approvals\<close>

definition list_pending_approvals :: "BrokerState \<Rightarrow> Approval list" where
  "list_pending_approvals b =
    filter (\<lambda>a. ap_decision a = ''pending'') (map (\<lambda>(_, e). pn_approval e) (b_approvals b))"

definition context_is_current :: "datetime \<Rightarrow> AuthorizationContext \<Rightarrow> BrokerState \<Rightarrow> bool" where
  "context_is_current now a b =
    (case Option.bind (map_of (b_page_contexts b) (au_browser_session_id a))
            (\<lambda>contexts. map_of contexts (pg_tab_id (au_page_context a))) of
       None \<Rightarrow> False
     | Some current \<Rightarrow>
       pg_document_id current = pg_document_id (au_page_context a)
       \<and> pg_navigation_epoch current = pg_navigation_epoch (au_page_context a)
       \<and> pg_top_origin current = pg_top_origin (au_page_context a)
       \<and> pg_frame_origin current = pg_frame_origin (au_page_context a)
       \<and> now - pg_observed_at current \<le> seconds 2)"

definition approval_outcome :: "datetime \<Rightarrow> bool \<Rightarrow> bytes \<Rightarrow> bool \<Rightarrow> PendingApprovalEntry \<Rightarrow> BrokerState \<Rightarrow> string" where
  "approval_outcome now approve context_digest presence_verified pending b =
    (if now \<ge> ap_expires_at (pn_approval pending) then ''expired''
     else if context_digest \<noteq> ap_context_digest (pn_approval pending)
             \<or> \<not> context_is_current now (pn_authorization pending) b then ''invalidated''
     else if \<not> approve \<or> (pd_require_user_presence (au_decision (pn_authorization pending)) \<and> \<not> presence_verified)
     then ''denied'' else ''approved'')"

definition decide_approval_at ::
    "broker_env \<Rightarrow> world \<Rightarrow> ApprovalId \<Rightarrow> bool \<Rightarrow> bytes \<Rightarrow> string \<Rightarrow> bool \<Rightarrow> datetime \<Rightarrow> ActionResponseResult broker_handler" where
  "decide_approval_at E W approval_id approve context_digest actor presence_verified now =
    bindh (peekh (\<lambda>b. ok_or (rpc INVALID_PARAMS ''Unknown approval ID'') (map_of (b_approvals b) approval_id))) (\<lambda>pending.
    bindh (readh (approval_outcome now approve context_digest presence_verified pending)) (\<lambda>outcome.
    let a = pn_authorization pending;
        approval = (pn_approval pending)\<lparr>ap_decision := outcome, ap_actor := Some actor,
                     ap_presence := Some (if presence_verified then ''verified'' else ''absent''),
                     ap_decided_at := Some now\<rparr> in
    bindh (audited E (W 0)
             (if outcome = ''approved'' then ''approval.approved'' else if outcome = ''denied'' then ''approval.denied''
              else if outcome = ''expired'' then ''approval.expired'' else ''approval.invalidated'')
             ''user'' (Some actor)
             (audit_context (Some (au_request_id a)) (Some (cr_credential_id (au_credential a))) None
                (Some (au_browser_session_id a)) (Some (origin_as_str (pg_top_origin (au_page_context a))))
                (Some (ActionKind_as_str (au_action a))) (Some outcome)
                (Some (RiskLevel_as_str (pd_risk_level (au_decision a))))
                (if outcome \<noteq> ''approved'' then Some ''APPROVAL_REJECTED'' else None))
             (\<lambda>_. rpc INTERNAL_ERROR ''Audit unavailable'') (\<lambda>_. rpc INTERNAL_ERROR ''Approval storage unavailable'')
             (update_approval_with_audit (sl_io (W 0)) approval)) (\<lambda>_.
    bindh (modifyh (\<lambda>b. b\<lparr>b_approvals := AList.delete approval_id (b_approvals b)\<rparr>)) (\<lambda>_.
    if outcome = ''approved'' then mint_authorized_capability E (later 1 W) a (Some approval_id)
    else
      let response = \<lparr>arr_request_id = au_request_id a,
                      arr_state = (if outcome = ''expired'' then ActionRequestState.Expired else ActionRequestState.Denied),
                      arr_result_code = Some (to_ascii_uppercase outcome), arr_execution_id = None,
                      arr_evidence_ref = None, arr_grant_id = None,
                      arr_completed_at = Some (ae_rfc3339 (be_audit E) now)\<rparr>
      in bindh (modifyh (put_response response)) (\<lambda>_. returnh response)))))"

definition decide_approval ::
    "broker_env \<Rightarrow> world \<Rightarrow> ApprovalId \<Rightarrow> bool \<Rightarrow> bytes \<Rightarrow> string \<Rightarrow> bool \<Rightarrow> ActionResponseResult broker_handler" where
  "decide_approval E W approval_id approve context_digest actor presence_verified =
    decide_approval_at E (later 1 W) approval_id approve context_digest actor presence_verified (sl_now (W 0))"

definition expired_approvals :: "datetime \<Rightarrow> BrokerState \<Rightarrow> (ApprovalId \<times> bytes) list" where
  "expired_approvals now b =
    map (\<lambda>(_, e). (ap_approval_id (pn_approval e), ap_context_digest (pn_approval e)))
      (filter (\<lambda>(_, e). ap_expires_at (pn_approval e) \<le> now) (b_approvals b))"

text \<open>Each decision has its own part of the world.\<close>

fun expire_each ::
    "broker_env \<Rightarrow> world \<Rightarrow> datetime \<Rightarrow> (ApprovalId \<times> bytes) list \<Rightarrow> unit broker_handler" where
  "expire_each E W now [] = returnh ()"
| "expire_each E W now ((approval_id, context_digest) # rest) =
    bindh (decide_approval_at E W approval_id False context_digest ''broker-timeout'' False now) (\<lambda>_.
    expire_each E (later 4 W) now rest)"

definition expire_pending_approvals :: "broker_env \<Rightarrow> world \<Rightarrow> datetime \<Rightarrow> nat broker_handler" where
  "expire_pending_approvals E W now =
    bindh (readh (expired_approvals now)) (\<lambda>expired.
    bindh (expire_each E W now expired) (\<lambda>_. returnh (length expired)))"

end
