(* ===== verification/Broker_Executor.thy ===== *)
theory Broker_Executor
  imports Broker_Requests
begin

text \<open>
  The executor's side of the daemon (\<open>secretctld/src/state.rs\<close>): registration and heartbeat of a browser,
  the offers, the consumption of a capability, its result, and the OAuth callback.

  Two handlers wait for the outside in the middle of their work, for the provider and for the token
  endpoint.  Each is given as two steps, \<open>consume_begin\<close> and \<open>consume_finish\<close>, \<open>callback_begin\<close> and
  \<open>callback_finish\<close>, and the handler as their composition; other handlers may run between the steps.
\<close>

section \<open>Pages and browsers\<close>

definition prepared_context :: "datetime \<Rightarrow> ExecutorContextPayload \<Rightarrow> PageContext" where
  "prepared_context now c =
    \<lparr>pg_tab_id = ec_tab_id c, pg_frame_id = ec_frame_id c, pg_top_origin = ec_top_origin c,
     pg_frame_origin = ec_frame_origin c, pg_navigation_epoch = ec_navigation_epoch c,
     pg_document_id = ec_document_id c, pg_path = ec_path c, pg_path_sha256 = ec_path_sha256 c, pg_tls = ec_tls c,
     pg_incognito = ec_incognito c, pg_observed_at = now\<rparr>"

definition prepare_matches :: "ExecutorContextPayload \<Rightarrow> SiteRecipe \<Rightarrow> bool" where
  "prepare_matches c recipe =
    (origin_matches (rm_top_origin (sr_match_rule recipe)) (ec_top_origin c)
     \<and> is_none_or (rm_frame_origin (sr_match_rule recipe)) (\<lambda>o'. origin_matches o' (ec_frame_origin c))
     \<and> path_allows (rm_path_prefix (sr_match_rule recipe)) (ec_path c))"

definition handle_executor_prepare ::
    "world \<Rightarrow> ExecutorContextPayload \<Rightarrow> ExecutorPrepareResult broker_handler" where
  "handle_executor_prepare W c =
    bindh (modifyh (register_page_context (prepared_context (sl_now (W 0)) c) (ec_browser_session_id c))) (\<lambda>_.
    bindh (readh (\<lambda>b. map fst (filter (\<lambda>(_, recipe). prepare_matches c recipe) (b_recipes b)))) (\<lambda>matched.
    returnh \<lparr>epr_prepared = True, epr_challenge_nonce = sl_uuid (W 1), epr_matching_recipes = matched\<rparr>))"

text \<open>The parts of \<open>split(p)\<close>: the text before the first \<open>p\<close>, and what follows it.\<close>

fun before :: "string \<Rightarrow> string \<Rightarrow> string" where
  "before p [] = []"
| "before p (c # s) = (if starts_with (c # s) p then [] else c # before p s)"

fun after :: "string \<Rightarrow> string \<Rightarrow> string option" where
  "after p [] = None"
| "after p (c # s) = (if starts_with (c # s) p then Some (drop (length p) (c # s)) else after p s)"

definition parse_u32 :: "string \<Rightarrow> u32 option" where
  "parse_u32 s =
    (let ds = (case s of c # r \<Rightarrow> if c = CHR ''+'' then r else s | [] \<Rightarrow> s) in
     if ds = [] \<or> \<not> list_all (\<lambda>c. CHR ''0'' \<le> c \<and> c \<le> CHR ''9'') ds \<or> digits_value ds \<ge> 2 ^ 32 then None
     else Some (of_nat (digits_value ds)))"

definition browser_major :: "string \<Rightarrow> u32 option" where
  "browser_major version =
    Option.bind (after ''Chrome/'' version) (\<lambda>s. parse_u32 (before ''.'' (before ''Chrome/'' s)))"

definition attestation_rejected :: "BrowserRegisterParams \<Rightarrow> bool" where
  "attestation_rejected p =
    (brp_extension_id p \<noteq> MANAGED_EXTENSION_ID \<or> \<not> starts_with (brp_extension_key_id p) ''extkey_''
     \<or> length (brp_extension_key_id p) < 24 \<or> length (brp_launcher_nonce p) < 32
     \<or> length (brp_launcher_nonce p) > 256 \<or> brp_profile_id p = [] \<or> brp_extension_version p \<noteq> ''1.0.0''
     \<or> is_none_or (browser_major (brp_browser_version p)) (\<lambda>major. major < 120))"

definition handle_browser_register ::
    "broker_env \<Rightarrow> world \<Rightarrow> BrowserRegisterParams \<Rightarrow> BrowserRegisterResult broker_handler" where
  "handle_browser_register E W params =
    (if attestation_rejected params then failh (rpc SECURITY_VIOLATION ''Browser attestation rejected'')
     else
       let session_id = id_new ''bs'' (sl_uuid (W 0));
           session_proof = b64_encode (ce_b64 (be_cap E)) (sl_random (W 0));
           session = \<lparr>bs_session_id = session_id, bs_instance_id = brp_instance_id params,
                      bs_extension_key_id = brp_extension_key_id params, bs_profile_id = brp_profile_id params,
                      bs_assurance = ''managed'', bs_state = BrowserSessionState.Active,
                      bs_last_heartbeat_at = sl_now (W 0)\<rparr> in
       bindh (modifyh (\<lambda>b. b\<lparr>b_sessions := AList.update session_id
                \<lparr>as_session = session, as_active_tab_count = 1,
                 as_session_proof_hash = Some (ce_sha256 (be_cap E) (as_bytes session_proof))\<rparr> (b_sessions b)\<rparr>)) (\<lambda>_.
       bindh (record_audit_event E (W 1) ''browser.registered'' ''executor'' (Some (brp_extension_id params))
                (audit_context None None None (Some session_id) None None (Some ''attested'') None None)) (\<lambda>_.
       returnh \<lparr>brr_browser_session_id = session_id, brr_assurance = ''managed'',
                brr_heartbeat_interval_seconds = 5, brr_session_proof = session_proof\<rparr>)))"

definition handle_executor_heartbeat :: "slot \<Rightarrow> BrowserSessionId \<Rightarrow> u32 \<Rightarrow> unit broker_handler" where
  "handle_executor_heartbeat sl session_id active_tab_count =
    bindh (peekh (\<lambda>b. ok_or (rpc SESSION_TERMINATED ''Browser must register before heartbeat'')
             (map_of (b_sessions b) session_id))) (\<lambda>_.
    modifyh (\<lambda>b. b\<lparr>b_sessions := update_at session_id (\<lambda>active.
      active\<lparr>as_session := (as_session active)\<lparr>bs_last_heartbeat_at := sl_now sl, bs_state := BrowserSessionState.Active\<rparr>,
             as_active_tab_count := active_tab_count\<rparr>) (b_sessions b)\<rparr>))"

section \<open>Offers\<close>

definition field_plan :: "RecipeField \<Rightarrow> ExecutionFieldPlan" where
  "field_plan f = \<lparr>efp_role = rf_role f, efp_selector = rf_selector f, efp_optional = rf_optional f,
                   efp_clear_first = rf_clear_first f\<rparr>"

definition success_plan :: "RecipeSuccessIndicators \<Rightarrow> ExecutionSuccessPlan" where
  "success_plan s =
    \<lparr>esp_navigation_origin = ri_navigation_origin s, esp_selector_present = ri_selector_present s,
     esp_selector_absent = ri_selector_absent s,
     esp_timeout_ms = min (case ri_timeout_ms s of None \<Rightarrow> 5000 | Some t \<Rightarrow> t) 30000\<rparr>"

definition auto_submit_selector :: "SiteRecipe \<Rightarrow> string option" where
  "auto_submit_selector recipe =
    Option.bind (sr_submit recipe) (\<lambda>submit. if rs_auto_submit submit then rs_selector submit else None)"

text \<open>The plan of an OAuth offer: a fresh authorization is kept for the callback of the capability.\<close>

definition oauth_plan ::
    "broker_env \<Rightarrow> slot \<Rightarrow> CapabilityId \<Rightarrow> CapabilityEntry \<Rightarrow> SiteRecipe \<Rightarrow> OAuthExecutionPlan option broker_handler" where
  "oauth_plan E sl capability_id entry recipe =
    (let claims = ent_claims entry in
     if cl_action claims = OAuthAuthorize then
       bindh (lifth (ok_or (rpc SECURITY_VIOLATION ''OAuth recipe is unavailable'') (sr_oauth recipe))) (\<lambda>config.
       bindh (lifth (map_err (\<lambda>_. rpc SECURITY_VIOLATION ''OAuth recipe is invalid'')
                (OAuthRecipe_validate (ce_url_parse (be_cap E)) config))) (\<lambda>_.
       let pending = PendingAuthorization_new (be_oauth E) (sl_random sl) (sl_uuid sl) (oa_redirect_uri config)
                       (oa_allowed_scopes config) in
       bindh (lifth (map_err (\<lambda>_. rpc SECURITY_VIOLATION ''OAuth authorization URL is invalid'')
                (authorization_url (be_oauth E) pending (oa_authorization_endpoint config) (oa_client_id config)))) (\<lambda>url.
       bindh (modifyh (\<lambda>b. b\<lparr>b_oauth_executions := AList.update capability_id
                \<lparr>po_authorization = pending, po_recipe = config, po_capability_id = capability_id,
                 po_request_id = cl_req_id claims, po_credential_id = cl_cred_id claims,
                 po_browser_session_id = cl_browser_session_id claims, po_tab_id = cl_tab_id claims\<rparr>
                (b_oauth_executions b)\<rparr>)) (\<lambda>_.
       returnh (Some \<lparr>oep_authorization_url = url, oep_issuer_origin = oa_issuer config,
                      oep_redirect_uri = oa_redirect_uri config\<rparr>)))))
     else returnh None)"

definition make_offer ::
    "broker_env \<Rightarrow> slot \<Rightarrow> CapabilityId \<Rightarrow> CapabilityEntry \<Rightarrow> ExecutionOfferResult option broker_handler" where
  "make_offer E sl capability_id entry =
    (let claims = ent_claims entry in
     bindh (peekh (\<lambda>b. ok_or (rpc RECIPE_NOT_FOUND ''Bound recipe is unavailable'') (map_of (b_recipes b) (ent_recipe_id entry)))) (\<lambda>recipe.
     bindh (oauth_plan E sl capability_id entry recipe) (\<lambda>oauth.
     returnh (Some
       \<lparr>eor_capability_token = ent_token entry, eor_recipe_id = ent_recipe_id entry, eor_tab_id = cl_tab_id claims,
        eor_frame_id = cl_frame_id claims, eor_document_id = cl_document_id claims,
        eor_navigation_epoch = cl_navigation_epoch claims, eor_top_origin = cl_top_origin claims,
        eor_frame_origin = cl_frame_origin claims, eor_fields = map field_plan (sr_fields recipe),
        eor_auto_submit_selector = auto_submit_selector recipe,
        eor_success = map_option success_plan (sr_success_indicators recipe), eor_oauth = oauth\<rparr>))))"

definition set_queue :: "BrowserSessionId \<Rightarrow> CapabilityId list \<Rightarrow> BrokerState \<Rightarrow> BrokerState" where
  "set_queue session_id queue b = b\<lparr>b_pending_offers := AList.update session_id queue (b_pending_offers b)\<rparr>"

text \<open>The loop over the queue of a session; every round looks at the clock again.\<close>

fun next_offer ::
    "broker_env \<Rightarrow> world \<Rightarrow> BrowserSessionId \<Rightarrow> CapabilityId list \<Rightarrow> ExecutionOfferResult option broker_handler" where
  "next_offer E W session_id [] = bindh (modifyh (set_queue session_id [])) (\<lambda>_. returnh None)"
| "next_offer E W session_id (capability_id # rest) =
    bindh (modifyh (set_queue session_id rest)) (\<lambda>_.
    bindh (readh (\<lambda>b. map_of (b_capabilities b) capability_id)) (\<lambda>found.
    case found of
      None \<Rightarrow> next_offer E (later 1 W) session_id rest
    | Some entry \<Rightarrow>
      if CapabilityState_is_terminal (cap_state (ent_capability entry))
         \<or> cap_consume_deadline (ent_capability entry) \<le> sl_now (W 0)
      then next_offer E (later 1 W) session_id rest
      else make_offer E (W 0) capability_id entry))"

definition handle_execution_next ::
    "broker_env \<Rightarrow> world \<Rightarrow> BrowserSessionId \<Rightarrow> ExecutionOfferResult option broker_handler" where
  "handle_execution_next E W session_id =
    bindh (peekh (\<lambda>b. ok_or (rpc SESSION_TERMINATED ''Unknown browser session'') (map_of (b_sessions b) session_id))) (\<lambda>active.
    if bs_state (as_session active) \<noteq> BrowserSessionState.Active
       \<or> sl_now (W 0) - bs_last_heartbeat_at (as_session active) \<ge> seconds 10
    then failh (rpc SESSION_TERMINATED ''Browser session is stale'')
    else bindh (readh (\<lambda>b. case map_of (b_pending_offers b) session_id of None \<Rightarrow> [] | Some q \<Rightarrow> q))
           (next_offer E (later 1 W) session_id))"

section \<open>The OAuth callback\<close>

definition fail_oauth_callback ::
    "broker_env \<Rightarrow> world \<Rightarrow> PendingOAuthExecution \<Rightarrow> CapabilityId \<Rightarrow> RpcError \<Rightarrow> 'a broker_handler" where
  "fail_oauth_callback E W pending capability_id error =
    bindh (modifyh (put_response
      \<lparr>arr_request_id = po_request_id pending, arr_state = ActionRequestState.Failed,
       arr_result_code = Some (re_message error), arr_execution_id = None, arr_evidence_ref = None,
       arr_grant_id = None, arr_completed_at = Some (ae_rfc3339 (be_audit E) (sl_now (W 0)))\<rparr>)) (\<lambda>_.
    bindh (ignoreh (record_audit_event E (W 1) ''oauth.callback_failed'' ''broker'' None
      (audit_context (Some (po_request_id pending)) (Some (po_credential_id pending)) (Some capability_id)
         (Some (po_browser_session_id pending)) (Some (origin_as_str (oa_issuer (po_recipe pending))))
         (Some (ActionKind_as_str OAuthAuthorize)) (Some ''failed'') None (Some (re_message error))))) (\<lambda>_.
    failh (Rpc error)))"

definition callback_error_code :: "OAuthCallbackError \<Rightarrow> string" where
  "callback_error_code e =
    (case e of StateMismatch \<Rightarrow> ''OAUTH_STATE_MISMATCH'' | RedirectMismatch \<Rightarrow> ''OAUTH_REDIRECT_MISMATCH''
     | Duplicate \<Rightarrow> ''OAUTH_CODE_REPLAY'' | _ \<Rightarrow> ''OAUTH_CALLBACK_REJECTED'')"

definition exchange_error_code :: "TokenExchangeError \<Rightarrow> string" where
  "exchange_error_code e =
    (case e of ScopeMismatch \<Rightarrow> ''OAUTH_SCOPE_MISMATCH'' | InsecureEndpoint \<Rightarrow> ''OAUTH_TOKEN_ENDPOINT_REJECTED''
     | _ \<Rightarrow> ''OAUTH_TOKEN_EXCHANGE_FAILED'')"

definition consume_entry :: "CapabilityEntry \<Rightarrow> CapabilityEntry" where
  "consume_entry entry =
    entry\<lparr>ent_capability := (ent_capability entry)\<lparr>cap_state := CapabilityState.Consumed,
            cap_used_count := cap_used_count (ent_capability entry) + 1\<rparr>\<rparr>"

text \<open>Up to the exchange: the capability is used up whatever the callback holds.\<close>

definition callback_begin ::
    "broker_env \<Rightarrow> world \<Rightarrow> OAuthCallbackParams \<Rightarrow> (CapabilityId \<times> PendingOAuthExecution) broker_handler" where
  "callback_begin E W params =
    bindh (peekh (\<lambda>b. ok_or (rpc SECURITY_VIOLATION ''OAuth capability rejected'')
        (map_option fst (find (\<lambda>(_, entry). ent_token entry = ocp_capability_token params) (b_capabilities b))))) (\<lambda>capability_id.
    bindh (peekh (\<lambda>b. ok_or (rpc SECURITY_VIOLATION ''OAuth callback is unavailable'') (map_of (b_oauth_executions b) capability_id))) (\<lambda>pending.
    bindh (modifyh (\<lambda>b. b\<lparr>b_oauth_executions := AList.delete capability_id (b_oauth_executions b)\<rparr>)) (\<lambda>_.
    if po_capability_id pending \<noteq> capability_id \<or> po_browser_session_id pending \<noteq> ocp_browser_session_id params
       \<or> po_tab_id pending \<noteq> ocp_tab_id params
    then fail_oauth_callback E (later 1 W) pending capability_id
           (RpcError_new SECURITY_VIOLATION ''OAUTH_CALLBACK_BINDING_REJECTED'')
    else
    bindh (catchh (map_errh (\<lambda>_. Panic) (on_store (consume_oauth_capability (sl_io (W 0)) capability_id))) (\<lambda>_.
             fail_oauth_callback E (later 1 W) pending capability_id
               (RpcError_new CAPABILITY_CONSUMED ''OAuth capability already consumed''))) (\<lambda>_.
    bindh (modifyh (\<lambda>b. b\<lparr>b_capabilities := update_at capability_id consume_entry (b_capabilities b)\<rparr>)) (\<lambda>_.
    case consume_callback (be_oauth E) (po_authorization pending) (ocp_callback_uri params) of
      (Inl e, authorization) \<Rightarrow>
        fail_oauth_callback E (later 1 W) (pending\<lparr>po_authorization := authorization\<rparr>) capability_id
          (RpcError_new SECURITY_VIOLATION (callback_error_code e))
    | (Inr _, authorization) \<Rightarrow> returnh (capability_id, pending\<lparr>po_authorization := authorization\<rparr>))))))"

text \<open>
  After the exchange.  The answer of the token endpoint is slot 0's; slots 1 and 2 hold the provider's
  answers to the write and to the clean-up, and the database errors of the grant.
\<close>

definition keep_grant :: "world \<Rightarrow> CredentialId \<Rightarrow> TokenSet \<Rightarrow> db \<Rightarrow> (OAuthStorageError + OAuthGrant) \<times> db" where
  "keep_grant W credential_id tokens d =
    (let (r, _, d') = store_token_grant (sl_uuid (W 1)) (sl_now (W 1)) (sl_io (W 1)) (sl_ack (W 1)) (sl_ack (W 2))
                        credential_id tokens d in (r, d'))"

definition callback_finish ::
    "broker_env \<Rightarrow> world \<Rightarrow> CapabilityId \<Rightarrow> PendingOAuthExecution \<Rightarrow> OAuthCallbackResult broker_handler" where
  "callback_finish E W capability_id pending =
    (case exchange_code (be_oauth E) (sl_now (W 0)) (sl_http (W 0)) (oa_token_endpoint (po_recipe pending))
            (po_authorization pending) of
       None \<Rightarrow> failh Panic
     | Some (Inl e) \<Rightarrow>
         fail_oauth_callback E (later 3 W) pending capability_id
           (RpcError_new SECURITY_VIOLATION (exchange_error_code e))
     | Some (Inr tokens) \<Rightarrow>
       bindh (catchh (map_errh (\<lambda>_. Panic) (on_store (keep_grant W (po_credential_id pending) tokens))) (\<lambda>_.
                fail_oauth_callback E (later 3 W) pending capability_id
                  (RpcError_new INTERNAL_ERROR ''OAuth token storage unavailable''))) (\<lambda>grant.
       bindh (modifyh (put_response
         \<lparr>arr_request_id = po_request_id pending, arr_state = ActionRequestState.Completed,
          arr_result_code = Some ''SUCCESS'', arr_execution_id = None,
          arr_evidence_ref = Some (''oauth:'' @ og_grant_id grant), arr_grant_id = Some (og_grant_id grant),
          arr_completed_at = Some (ae_rfc3339 (be_audit E) (sl_now (W 3)))\<rparr>)) (\<lambda>_.
       bindh (record_audit_event E (W 4) ''oauth.token_stored'' ''broker'' None
         (audit_context (Some (po_request_id pending)) (Some (po_credential_id pending)) (Some capability_id)
            (Some (po_browser_session_id pending)) (Some (origin_as_str (oa_issuer (po_recipe pending))))
            (Some (ActionKind_as_str OAuthAuthorize)) (Some ''completed'') None None)) (\<lambda>_.
       returnh \<lparr>ocr_grant_id = og_grant_id grant, ocr_scopes = og_scopes grant,
                ocr_expires_at = map_option (ae_rfc3339 (be_audit E)) (og_expires_at grant)\<rparr>))))"

definition handle_oauth_callback ::
    "broker_env \<Rightarrow> world \<Rightarrow> OAuthCallbackParams \<Rightarrow> OAuthCallbackResult broker_handler" where
  "handle_oauth_callback E W params =
    bindh (callback_begin E W params) (\<lambda>(capability_id, pending). callback_finish E (later 3 W) capability_id pending)"

section \<open>One-time passwords\<close>

definition totp_generator :: "broker_env \<Rightarrow> string \<Rightarrow> failure + TotpGenerator" where
  "totp_generator E metadata_json =
    (case be_from_str E metadata_json of
       Inl _ \<Rightarrow> Inl (rpc SECURITY_VIOLATION ''Invalid TOTP metadata'')
     | Inr metadata \<Rightarrow>
       (let algorithm = to_ascii_uppercase (unwrap_or (Option.bind (json_member ''algorithm'' metadata) json_text) ''SHA1'');
            digits = (ucast (unwrap_or (Option.bind (json_member ''digits'' metadata) json_u64) (6 :: u64)) :: u32);
            period = unwrap_or (Option.bind
              (case json_member ''period_seconds'' metadata of Some v \<Rightarrow> Some v | None \<Rightarrow> json_member ''period'' metadata)
              json_u64) (30 :: u64) in
        if algorithm \<noteq> ''SHA1'' then Inl (rpc SECURITY_VIOLATION ''Unsupported TOTP algorithm'')
        else if digits \<noteq> 6 \<and> digits \<noteq> 8 then Inl (rpc SECURITY_VIOLATION ''TOTP digits must be 6 or 8'')
        else if \<not> (5 \<le> period \<and> period \<le> 300)
        then Inl (rpc SECURITY_VIOLATION ''TOTP period is outside the supported range'')
        else Inr (with_period_seconds (with_digits digits) period)))"

definition unix_seconds :: "datetime \<Rightarrow> u64" where
  "unix_seconds now = of_int (timestamp now)"

definition entry_by_token :: "string \<Rightarrow> BrokerState \<Rightarrow> CapabilityEntry option" where
  "entry_by_token token b = find (\<lambda>entry. ent_token entry = token) (map snd (b_capabilities b))"

text \<open>The seconds to wait for the next time step, when the current one is about to end.\<close>

definition totp_wait :: "broker_env \<Rightarrow> datetime \<Rightarrow> string \<Rightarrow> BrokerState \<Rightarrow> u64 option" where
  "totp_wait E now token b =
    Option.bind (entry_by_token token b) (\<lambda>entry.
    if cap_action (ent_capability entry) \<noteq> AuthenticateTotp then None
    else case totp_generator E (ent_credential_metadata entry) of Inl _ \<Rightarrow> None
    | Inr g \<Rightarrow> Option.bind (compute_time_step g (unix_seconds now)) (\<lambda>(_, seconds_remaining).
                if seconds_remaining < 2 then Some seconds_remaining else None))"

section \<open>Consumption\<close>

definition executor_key :: "broker_env \<Rightarrow> ExecutorConsumeParams \<Rightarrow> BrokerState \<Rightarrow> failure + string" where
  "executor_key E params b =
    (case map_of (b_sessions b) (ec_browser_session_id (ecp_current_context params)) of
       None \<Rightarrow> Inl (rpc SESSION_TERMINATED ''Unknown browser session'')
     | Some active \<Rightarrow>
       if is_some_and (as_session_proof_hash active)
            (\<lambda>expected. ce_sha256 (be_cap E) (as_bytes (ecp_session_signature params)) \<noteq> expected)
       then Inl (rpc SECURITY_VIOLATION ''Executor session proof rejected'')
       else Inr (bs_extension_key_id (as_session active)))"

definition context_snapshot :: "ExecutorContextPayload \<Rightarrow> string \<Rightarrow> ExecutionContextSnapshot" where
  "context_snapshot c extension_key_id =
    \<lparr>xs_top_origin = ec_top_origin c, xs_frame_origin = ec_frame_origin c,
     xs_browser_session_id = ec_browser_session_id c, xs_extension_key_id = extension_key_id,
     xs_tab_id = ec_tab_id c, xs_frame_id = ec_frame_id c, xs_document_id = ec_document_id c,
     xs_navigation_epoch = ec_navigation_epoch c\<rparr>"

definition consume_rpc :: "CapabilityError \<Rightarrow> failure" where
  "consume_rpc e =
    (case e of
       CapabilityError.Expired _ \<Rightarrow> rpc CAPABILITY_EXPIRED ''Capability expired''
     | AlreadyConsumed _ _ \<Rightarrow> rpc CAPABILITY_CONSUMED ''Capability already consumed''
     | CapabilityError.EpochMismatch _ _ \<Rightarrow> rpc EPOCH_INVALIDATED ''Epoch mismatch''
     | BindingMismatch _ _ _ \<Rightarrow> rpc ORIGIN_MISMATCH ''Context binding mismatch''
     | _ \<Rightarrow> rpc SECURITY_VIOLATION ''Capability rejected'')"

definition bound_generator :: "broker_env \<Rightarrow> CapabilityEntry \<Rightarrow> failure + TotpGenerator option" where
  "bound_generator E entry =
    (if cap_action (ent_capability entry) = AuthenticateTotp
     then try_r (totp_generator E (ent_credential_metadata entry)) (\<lambda>g. Inr (Some g)) else Inr None)"

definition totp_step_claim ::
    "TotpGenerator option \<Rightarrow> CapabilityClaims \<Rightarrow> datetime \<Rightarrow> failure + (CredentialId \<times> u64) option" where
  "totp_step_claim generator claims now =
    (if cl_action claims = AuthenticateTotp
     then ok_or Panic (Option.bind generator (\<lambda>g.
            map_option (\<lambda>(step, _). Some (cl_cred_id claims, step)) (compute_time_step g (unix_seconds now))))
     else Inr None)"

definition claims_context :: "CapabilityClaims \<Rightarrow> AuditContext" where
  "claims_context claims =
    audit_context (Some (cl_req_id claims)) (Some (cl_cred_id claims)) (Some (cl_jti claims))
      (Some (cl_browser_session_id claims)) (Some (origin_as_str (cl_top_origin claims)))
      (Some (ActionKind_as_str (cl_action claims))) None None None"

definition consume_store_error :: "StoreError \<Rightarrow> failure" where
  "consume_store_error e =
    (case e of StateConflict _ \<Rightarrow> rpc CAPABILITY_CONSUMED ''Capability already consumed''
     | _ \<Rightarrow> rpc INTERNAL_ERROR ''Durable consume unavailable'')"

definition start_execution :: "CapabilityClaims \<Rightarrow> Capability \<Rightarrow> Execution \<Rightarrow> BrokerState \<Rightarrow> BrokerState" where
  "start_execution claims capability execution b =
    b\<lparr>b_capabilities := update_at (cl_jti claims) (\<lambda>entry. entry\<lparr>ent_capability := capability\<rparr>) (b_capabilities b),
      b_executions := AList.update (ex_execution_id execution)
        \<lparr>ax_execution = execution, ax_request_id = cl_req_id claims, ax_agent_id = cl_agent_id claims,
         ax_credential_id = cl_cred_id claims, ax_action = cl_action claims,
         ax_browser_session_id = cl_browser_session_id claims, ax_tab_id = cl_tab_id claims\<rparr> (b_executions b)\<rparr>"

definition bound_recipe :: "CapabilityClaims \<Rightarrow> RecipeId \<Rightarrow> BrokerState \<Rightarrow> failure + SiteRecipe" where
  "bound_recipe claims recipe_id b =
    try_r (ok_or (rpc RECIPE_NOT_FOUND ''Bound recipe is unavailable'') (map_of (b_recipes b) recipe_id)) (\<lambda>recipe.
    if cl_action claims \<noteq> OAuthAuthorize \<and> (sr_fields recipe = [] \<or> length (sr_fields recipe) > 5)
    then Inl (rpc SECURITY_VIOLATION ''Recipe field count is outside the supported security limit'')
    else Inr recipe)"

text \<open>What the first step of a consumption leaves for the second.  The guard names the browser whose window it opened.\<close>

record consume_progress =
  cp_claims :: CapabilityClaims
  cp_execution_id :: ExecutionId
  cp_recipe_id :: RecipeId
  cp_recipe :: SiteRecipe
  cp_provider_locator :: string
  cp_generator :: "TotpGenerator option"
  cp_now :: datetime
  cp_guard :: "BrowserInstanceId option"

definition open_guard :: "BrowserInstanceId option \<Rightarrow> u32 \<Rightarrow> BrokerState \<Rightarrow> BrokerState" where
  "open_guard g tab_id b = (case g of None \<Rightarrow> b | Some instance_id \<Rightarrow> enter_window instance_id tab_id b)"

definition drop_guard :: "consume_progress \<Rightarrow> BrokerState \<Rightarrow> BrokerState" where
  "drop_guard p b =
    (case cp_guard p of None \<Rightarrow> b | Some instance_id \<Rightarrow> exit_window instance_id (cl_tab_id (cp_claims p)) b)"

text \<open>Once the capability is durably consumed: the execution starts and the window opens.\<close>

definition consume_granted ::
    "CapabilityClaims \<Rightarrow> Capability \<Rightarrow> CapabilityEntry \<Rightarrow> TotpGenerator option \<Rightarrow> datetime \<Rightarrow> Execution
     \<Rightarrow> consume_progress broker_handler" where
  "consume_granted claims capability entry generator now execution =
    bindh (modifyh (start_execution claims capability execution)) (\<lambda>_.
    bindh (peekh (bound_recipe claims (ent_recipe_id entry))) (\<lambda>recipe.
    bindh (readh (\<lambda>b. map_option fst (sensitive_filter_for_session (cl_browser_session_id claims) b))) (\<lambda>g.
    bindh (modifyh (open_guard g (cl_tab_id claims))) (\<lambda>_.
    returnh \<lparr>cp_claims = claims, cp_execution_id = ex_execution_id execution, cp_recipe_id = ent_recipe_id entry,
             cp_recipe = recipe, cp_provider_locator = ent_provider_locator entry, cp_generator = generator,
             cp_now = now, cp_guard = g\<rparr>))))"

definition consume_begin ::
    "broker_env \<Rightarrow> world \<Rightarrow> datetime \<Rightarrow> ExecutorConsumeParams \<Rightarrow> consume_progress broker_handler" where
  "consume_begin E W now params =
    bindh (peekh (executor_key E params)) (\<lambda>extension_key_id.
    bindh (peekh (\<lambda>b. ok_or (rpc CAPABILITY_CONSUMED ''Invalid or unknown capability token'')
             (entry_by_token (ecp_capability_token params) b))) (\<lambda>entry.
    bindh (lifth (bound_generator E entry)) (\<lambda>generator.
    bindh (readh (\<lambda>b. verify_and_consume_capability (be_cap E) (ent_capability entry) (ecp_capability_token params)
             (ed_public (ce_ed (be_cap E)) (b_broker_key b))
             (context_snapshot (ecp_current_context params) extension_key_id) now)) (\<lambda>(verified, capability).
    bindh (lifth (map_err consume_rpc verified)) (\<lambda>claims.
    let execution = \<lparr>ex_execution_id = id_new ''exec'' (sl_uuid (W 0)), ex_capability_id = cl_jti claims,
                     ex_state = Consuming, ex_prepared_context_digest = None, ex_started_at = Some now,
                     ex_completed_at = None, ex_result_code = None\<rparr> in
    bindh (lifth (totp_step_claim generator claims now)) (\<lambda>step_claim.
    bindh (audited E (W 1) ''capability.consumed'' ''executor'' None (claims_context claims)
             (\<lambda>_. rpc INTERNAL_ERROR ''Audit unavailable'') consume_store_error
             (\<lambda>event. consume_capability_with_execution_and_audit (sl_io (W 1)) (cl_jti claims) execution event step_claim)) (\<lambda>_.
    consume_granted claims capability entry generator now execution)))))))"

definition injection :: "string \<Rightarrow> RecipeField \<Rightarrow> ResolvedFieldInjection" where
  "injection value f = \<lparr>rfi_role = rf_role f, rfi_selector = rf_selector f, rfi_optional = rf_optional f,
                       rfi_clear_first = rf_clear_first f, rfi_encrypted_value = value\<rparr>"

text \<open>The fields of a form: the value of the role, or the whole secret when there is one field only.\<close>

definition fill_value ::
    "broker_env \<Rightarrow> (string \<times> string) list option \<Rightarrow> bool \<Rightarrow> bytes \<Rightarrow> RecipeField \<Rightarrow> string option" where
  "fill_value E role_values single secret f =
    (case Option.bind role_values (\<lambda>values. map_of values (rf_role f)) of
       Some v \<Rightarrow> Some v
     | None \<Rightarrow> if single then Some (be_utf8_lossy E secret) else None)"

fun fill_fields :: "(RecipeField \<Rightarrow> string option) \<Rightarrow> RecipeField list \<Rightarrow> failure + ResolvedFieldInjection list" where
  "fill_fields value [] = Inr []"
| "fill_fields value (f # fs) =
    (case value f of
       None \<Rightarrow> Inl (rpc SECURITY_VIOLATION ''Sensitive form provider item is missing a recipe role'')
     | Some v \<Rightarrow> try_r (fill_fields value fs) (\<lambda>rest. Inr (injection v f # rest)))"

definition resolve_fields ::
    "broker_env \<Rightarrow> ActionKind \<Rightarrow> SiteRecipe \<Rightarrow> TotpGenerator option \<Rightarrow> datetime \<Rightarrow> ProviderError + bytes
     \<Rightarrow> failure + ResolvedFieldInjection list" where
  "resolve_fields E action recipe generator now secret =
    (if action = OAuthAuthorize then Inl (rpc SECURITY_VIOLATION ''OAuth callback executor is not available'')
     else try_r (map_err (\<lambda>_. rpc INTERNAL_ERROR ''Secret provider unavailable'') secret) (\<lambda>bytes.
     case action of
       AuthenticateTotp \<Rightarrow>
         (case Option.bind generator (\<lambda>g. totp_generate (be_hmac_sha1 E) g bytes (unix_seconds now)) of
            None \<Rightarrow> Inl Panic
          | Some (Inl _) \<Rightarrow> Inl (rpc CAPABILITY_EXPIRED ''TOTP time step expired or margin too close'')
          | Some (Inr (totp_code, _)) \<Rightarrow> Inr (map (injection totp_code) (sr_fields recipe)))
     | FormSensitiveFill \<Rightarrow>
         fill_fields (fill_value E (be_role_values E bytes) (length (sr_fields recipe) = 1) bytes) (sr_fields recipe)
     | _ \<Rightarrow> Inr (map (injection (be_utf8_lossy E bytes)) (filter (\<lambda>f. rf_role f = ''password'') (sr_fields recipe)))))"

definition released_fields ::
    "broker_env \<Rightarrow> consume_progress \<Rightarrow> ProviderError + bytes \<Rightarrow> failure + ResolvedFieldInjection list" where
  "released_fields E p secret =
    try_r (resolve_fields E (cl_action (cp_claims p)) (cp_recipe p) (cp_generator p) (cp_now p) secret) (\<lambda>filled.
    if filled = [] then Inl (rpc SECURITY_VIOLATION ''Recipe does not declare a field for this action'') else Inr filled)"

text \<open>A failure of the second step drops the guard, which closes the window.\<close>

definition consume_finish ::
    "broker_env \<Rightarrow> slot \<Rightarrow> ProviderError + bytes \<Rightarrow> consume_progress \<Rightarrow> ExecutorConsumeResult broker_handler" where
  "consume_finish E sl secret p =
    catchh
      (bindh (lifth (released_fields E p secret)) (\<lambda>filled.
       bindh (record_audit_event E sl ''secret.retrieve_succeeded'' ''broker'' None (claims_context (cp_claims p))) (\<lambda>_.
       returnh \<lparr>ecr_execution_id = cp_execution_id p, ecr_recipe_id = cp_recipe_id p, ecr_fields = filled,
                ecr_auto_submit_selector = auto_submit_selector (cp_recipe p)\<rparr>)))
      (\<lambda>e. bindh (modifyh (drop_guard p)) (\<lambda>_. failh e))"

definition handle_executor_consume ::
    "broker_env \<Rightarrow> world \<Rightarrow> ExecutorConsumeParams \<Rightarrow> ExecutorConsumeResult broker_handler" where
  "handle_executor_consume E W params =
    bindh (readh (totp_wait E (sl_now (W 0)) (ecp_capability_token params))) (\<lambda>wait.
    bindh (consume_begin E (later 2 W) (sl_now (if wait = None then W 0 else W 1)) params)
      (consume_finish E (W 5) (sl_secret (W 4))))"

section \<open>Results\<close>

definition finish_request ::
    "broker_env \<Rightarrow> datetime \<Rightarrow> ActionRequestState \<Rightarrow> string \<Rightarrow> ExecutionId \<Rightarrow> ActionResponseResult \<Rightarrow> ActionResponseResult" where
  "finish_request E now state code execution_id r =
    r\<lparr>arr_state := state, arr_result_code := Some code, arr_execution_id := Some execution_id,
      arr_completed_at := Some (ae_rfc3339 (be_audit E) now)\<rparr>"

definition finish_execution ::
    "broker_env \<Rightarrow> datetime \<Rightarrow> ExecutionId \<Rightarrow> Execution \<Rightarrow> RequestId \<Rightarrow> ActionRequestState \<Rightarrow> string
     \<Rightarrow> BrokerState \<Rightarrow> BrokerState" where
  "finish_execution E now execution_id execution request_id state code b =
    close_execution_window execution_id
      (b\<lparr>b_executions := update_at execution_id (\<lambda>active. active\<lparr>ax_execution := execution\<rparr>) (b_executions b),
         b_requests := update_at request_id (finish_request E now state code execution_id) (b_requests b)\<rparr>)"

definition completed_execution :: "datetime \<Rightarrow> ExecutorResultParams \<Rightarrow> Execution \<Rightarrow> Execution" where
  "completed_execution now params execution =
    execution\<lparr>ex_state := (if erp_status params = ''completed'' then ExecutionState.Completed else ExecutionState.Failed),
              ex_completed_at := Some now, ex_result_code := Some (erp_result_code params)\<rparr>"

definition handle_executor_result ::
    "broker_env \<Rightarrow> world \<Rightarrow> ExecutorResultParams \<Rightarrow> unit broker_handler" where
  "handle_executor_result E W params =
    (let i = erp_execution_id params; completed = (erp_status params = ''completed'') in
     bindh (peekh (\<lambda>b. ok_or (rpc INVALID_PARAMS ''Unknown execution ID'') (map_of (b_executions b) i))) (\<lambda>active.
     let execution = completed_execution (sl_now (W 0)) params (ax_execution active) in
     bindh (map_errh (\<lambda>_. rpc INTERNAL_ERROR ''Audit unavailable'')
              (try_audited E (W 1) (if completed then ''execution.completed'' else ''execution.failed'') ''executor'' None
                 (audit_context (Some (ax_request_id active)) (Some (ax_credential_id active))
                    (Some (ex_capability_id (ax_execution active))) None None (Some (ActionKind_as_str (ax_action active)))
                    None None (if erp_status params = ''failed'' then Some (erp_result_code params) else None))
                 (finish_execution_with_audit (sl_io (W 1)) execution))) (\<lambda>durable_result.
     case durable_result of
       Inl _ \<Rightarrow>
         if completed
         then modifyh (finish_execution E (sl_now (W 2)) i
                (execution\<lparr>ex_state := ExecutionState.CompletedEvidenceLost,
                           ex_result_code := Some ''COMPLETED_EVIDENCE_LOST''\<rparr>) (ax_request_id active)
                ActionRequestState.CompletedEvidenceLost ''COMPLETED_EVIDENCE_LOST'')
         else failh (rpc INTERNAL_ERROR ''Durable execution result unavailable'')
     | Inr _ \<Rightarrow>
         modifyh (finish_execution E (sl_now (W 2)) i execution (ax_request_id active)
           (if completed then ActionRequestState.Completed else ActionRequestState.Failed)
           (erp_result_code params)))))"

end
