(* ===== verification/Broker_Admin.thy ===== *)
theory Broker_Admin
  imports Broker_Executor
begin

text \<open>
  Administration of the daemon (\<open>secretctld/src/state.rs\<close>): managed browsers, the periodic clean-up of
  stale sessions, the replacement of the policy, and the revocation of a capability.  The process of a
  managed browser is outside the model: its launch and its shutdown are given by their outcomes.
\<close>

section \<open>Managed browsers\<close>

record BrowserLaunchResult =
  blr_instance_id :: BrowserInstanceId
  blr_profile_id :: string
  blr_browser_session_id :: "BrowserSessionId option"
  blr_gateway_endpoint :: string
  blr_diagnostics :: "string list"

definition launch_managed_browser ::
    "broker_env \<Rightarrow> slot \<Rightarrow> unit + BrowserInstanceId \<Rightarrow> BrowserLaunchResult broker_handler" where
  "launch_managed_browser E sl launched =
    (case launched of
       Inl _ \<Rightarrow> failh (rpc INTERNAL_ERROR ''Managed Chrome launch failed'')
     | Inr instance_id \<Rightarrow>
       bindh (modifyh (\<lambda>b. b\<lparr>b_managed_browsers := AList.update instance_id CdpFilter_new (b_managed_browsers b)\<rparr>)) (\<lambda>_.
       bindh (record_audit_event E sl ''browser.launched'' ''admin'' None
                (audit_context None None None None None None (Some ''managed_private_pipe'') None None)) (\<lambda>_.
       returnh \<lparr>blr_instance_id = instance_id, blr_profile_id = instance_id, blr_browser_session_id = None,
                blr_gateway_endpoint = ''agent-rpc:constrained-browser'', blr_diagnostics = []\<rparr>)))"

definition browser_launch_status ::
    "string list \<Rightarrow> BrowserInstanceId \<Rightarrow> BrokerState \<Rightarrow> failure + BrowserLaunchResult" where
  "browser_launch_status diagnostics instance_id b =
    (case map_of (b_managed_browsers b) instance_id of
       None \<Rightarrow> Inl (rpc INVALID_PARAMS ''Unknown browser instance'')
     | Some _ \<Rightarrow>
       Inr \<lparr>blr_instance_id = instance_id, blr_profile_id = instance_id,
            blr_browser_session_id = map_option (\<lambda>active. bs_session_id (as_session active))
              (find (\<lambda>active. bs_instance_id (as_session active) = instance_id) (map snd (b_sessions b))),
            blr_gateway_endpoint = ''agent-rpc:constrained-browser'', blr_diagnostics = diagnostics\<rparr>)"

definition terminate_session :: "ActiveBrowserSession \<Rightarrow> ActiveBrowserSession" where
  "terminate_session active = active\<lparr>as_session := (as_session active)\<lparr>bs_state := BrowserSessionState.Terminated\<rparr>\<rparr>"

definition close_managed_browser :: "unit + unit \<Rightarrow> BrowserInstanceId \<Rightarrow> unit broker_handler" where
  "close_managed_browser shutdown instance_id =
    bindh (peekh (\<lambda>b. ok_or (rpc INVALID_PARAMS ''Unknown browser instance'') (map_of (b_managed_browsers b) instance_id))) (\<lambda>_.
    bindh (modifyh (\<lambda>b. b\<lparr>b_managed_browsers := AList.delete instance_id (b_managed_browsers b)\<rparr>)) (\<lambda>_.
    bindh (lifth (map_err (\<lambda>_. rpc INTERNAL_ERROR ''Managed Chrome shutdown failed'') shutdown)) (\<lambda>_.
    modifyh (\<lambda>b. b\<lparr>b_sessions := update_all (\<lambda>active.
      if bs_instance_id (as_session active) = instance_id then terminate_session active else active) (b_sessions b)\<rparr>))))"

section \<open>Navigation\<close>

text \<open>Which addresses an agent may open.  The serializer of an address is the argument \<open>url_text\<close>.\<close>

definition safe_navigation_url ::
    "url_parser \<Rightarrow> (url \<Rightarrow> string) \<Rightarrow> string \<Rightarrow> bool \<Rightarrow> failure + string" where
  "safe_navigation_url parse url_text raw allow_blank =
    (if allow_blank \<and> raw = ''about:blank'' then Inr raw
     else case parse raw of
       Inl _ \<Rightarrow> Inl (rpc INVALID_PARAMS ''Invalid navigation URL'')
     | Inr parsed \<Rightarrow>
       (let loopback_http = (u_scheme parsed = ''http''
              \<and> is_some_and (u_host parsed) (List.member [''localhost'', ''127.0.0.1'', ''[::1]''])) in
        if (u_scheme parsed \<noteq> ''https'' \<and> \<not> loopback_http) \<or> u_username parsed \<noteq> [] \<or> u_password parsed \<noteq> None
        then Inl (rpc SECURITY_VIOLATION ''Navigation scheme or embedded credentials rejected'')
        else Inr (url_text parsed)))"

section \<open>Stale sessions\<close>

definition is_stale :: "datetime \<Rightarrow> ActiveBrowserSession \<Rightarrow> bool" where
  "is_stale now active =
    (bs_state (as_session active) = BrowserSessionState.Active
     \<and> now - bs_last_heartbeat_at (as_session active) \<ge> seconds 10)"

definition stale_session_ids :: "datetime \<Rightarrow> BrokerState \<Rightarrow> BrowserSessionId list" where
  "stale_session_ids now b = map fst (filter (\<lambda>(_, active). is_stale now active) (b_sessions b))"

definition mark_stale :: "datetime \<Rightarrow> BrokerState \<Rightarrow> BrokerState" where
  "mark_stale now b =
    b\<lparr>b_sessions := update_all (\<lambda>active.
        if is_stale now active then active\<lparr>as_session := (as_session active)\<lparr>bs_state := BrowserSessionState.Stale\<rparr>\<rparr>
        else active) (b_sessions b)\<rparr>"

definition close_windows_of :: "BrowserSessionId list \<Rightarrow> BrokerState \<Rightarrow> BrokerState" where
  "close_windows_of session_ids b =
    fold close_execution_window
      (map fst (filter (\<lambda>(_, execution). List.member session_ids (ax_browser_session_id execution)) (b_executions b))) b"

fun audit_stale :: "broker_env \<Rightarrow> world \<Rightarrow> BrowserSessionId list \<Rightarrow> unit broker_handler" where
  "audit_stale E W [] = returnh ()"
| "audit_stale E W (session_id # rest) =
    bindh (record_audit_event E (W 0) ''browser.stale'' ''broker'' None
             (audit_context None None None (Some session_id) None None (Some ''revoke_session_capabilities'') None
                (Some ''SESSION_STALE''))) (\<lambda>_.
    audit_stale E (later 1 W) rest)"

definition expire_stale_sessions :: "broker_env \<Rightarrow> world \<Rightarrow> datetime \<Rightarrow> nat broker_handler" where
  "expire_stale_sessions E W now =
    bindh (readh (stale_session_ids now)) (\<lambda>ids.
    bindh (modifyh (mark_stale now)) (\<lambda>_.
    if ids = [] then returnh 0
    else
      bindh (modifyh (close_windows_of ids)) (\<lambda>_.
      bindh (modifyh (revoke_entries_where (\<lambda>c. List.member ids (cap_browser_session_id c)) ''session_stale'')) (\<lambda>_.
      bindh (audit_stale E W ids) (\<lambda>_. returnh (length ids))))))"

section \<open>Policy and capabilities\<close>

definition replace_policy :: "broker_env \<Rightarrow> slot \<Rightarrow> PolicyEvaluator \<Rightarrow> nat broker_handler" where
  "replace_policy E sl evaluator =
    (let new_hash = pe_policy_hash evaluator in
     bindh (audited E sl ''policy.reloaded'' ''admin'' None
              (audit_context None None None None None None (Some ''policy_hash_changed'') None None)
              (\<lambda>_. rpc INTERNAL_ERROR ''Audit unavailable'') (\<lambda>_. rpc INTERNAL_ERROR ''Policy reload unavailable'')
              (revoke_capabilities_not_policy_with_audit (sl_io sl) new_hash)) (\<lambda>revoked.
     bindh (modifyh (\<lambda>b. b\<lparr>b_policy_evaluator := evaluator\<rparr>)) (\<lambda>_.
     bindh (modifyh (revoke_entries_where (\<lambda>c. cap_policy_hash c \<noteq> new_hash) ''policy_changed'')) (\<lambda>_.
     returnh revoked))))"

definition list_capabilities_admin ::
    "slot \<Rightarrow> string option \<Rightarrow> BrokerState \<Rightarrow> failure + CapabilitySummary list" where
  "list_capabilities_admin sl state b =
    (if sl_io sl 0 \<noteq> None then Inl (rpc INTERNAL_ERROR ''Capability storage unavailable'')
     else Inr (list_capabilities (b_store b) state))"

definition revoke_capability_admin :: "broker_env \<Rightarrow> slot \<Rightarrow> CapabilityId \<Rightarrow> string \<Rightarrow> unit broker_handler" where
  "revoke_capability_admin E sl capability_id reason =
    bindh (audited E sl ''capability.revoked'' ''admin'' None
             (audit_context None None (Some capability_id) None None None (Some ''admin_revoked'') None None)
             (\<lambda>_. rpc INTERNAL_ERROR ''Audit unavailable'') (\<lambda>_. rpc INVALID_PARAMS ''Capability is not active'')
             (revoke_capability_with_audit (sl_io sl) capability_id reason)) (\<lambda>_.
    modifyh (\<lambda>b. b\<lparr>b_capabilities := update_at capability_id (revoke_entry reason) (b_capabilities b)\<rparr>))"

end
