(* ===== verification/Dom_View.thy ===== *)
theory Dom_View
  imports Strict_Json
begin

text \<open>
  The projection of a page that an agent is shown (\<open>secretctld/src/dom_view.rs\<close>): a bounded list of the
  elements it can act on and a bounded run of visible text, without the contents of protected elements.

  A string under construction is its list of characters, each given by its bytes.  SHA-256 and the full
  Unicode lower-case conversion are the fields of \<open>view_env\<close>.
\<close>

section \<open>Characters\<close>

definition is_continuation :: "char \<Rightarrow> bool" where
  "is_continuation c = (128 \<le> (of_char c :: nat) \<and> (of_char c :: nat) < 192)"

function characters :: "string \<Rightarrow> string list" where
  "characters [] = []"
| "characters (c # s) = (c # takeWhile is_continuation s) # characters (dropWhile is_continuation s)"
  by pat_completeness auto
termination by (relation "measure length") (auto simp: length_dropWhile_le le_imp_less_Suc)

definition code_point :: "string \<Rightarrow> nat" where
  "code_point c = (case chars_of c of [] \<Rightarrow> 0 | n # _ \<Rightarrow> n)"

definition is_space_char :: "string \<Rightarrow> bool" where
  "is_space_char c = is_whitespace (code_point c)"

text \<open>Control characters, and the format characters that \<open>collapse_whitespace\<close> names.\<close>

definition is_dropped :: "string \<Rightarrow> bool" where
  "is_dropped c =
    (let n = code_point c in
     n < 32 \<or> (127 \<le> n \<and> n < 160) \<or> (0x200B \<le> n \<and> n \<le> 0x200F) \<or> (0x2028 \<le> n \<and> n \<le> 0x202E)
     \<or> (0x2066 \<le> n \<and> n \<le> 0x2069))"

definition trim_str :: "string \<Rightarrow> string" where
  "trim_str s = concat (rev (dropWhile is_space_char (rev (dropWhile is_space_char (characters s)))))"

fun collapse :: "string list \<Rightarrow> bool \<Rightarrow> string list \<Rightarrow> string list" where
  "collapse out pending [] = out"
| "collapse out pending (c # cs) =
    (if is_space_char c then collapse out (out \<noteq> []) cs
     else if is_dropped c then collapse out pending cs
     else collapse (out @ (if pending then ['' ''] else []) @ [c]) False cs)"

definition collapse_whitespace :: "string \<Rightarrow> string" where
  "collapse_whitespace raw = concat (collapse [] False (characters raw))"

definition truncate_chars :: "string \<Rightarrow> nat \<Rightarrow> string" where
  "truncate_chars value n = concat (take n (characters value))"

section \<open>Limits and projected nodes\<close>

record ViewLimits =
  vl_max_nodes :: nat
  vl_max_chars :: nat
  vl_max_name_chars :: nat

definition ViewLimits_default :: ViewLimits where
  "ViewLimits_default = \<lparr>vl_max_nodes = 100, vl_max_chars = 4000, vl_max_name_chars = 120\<rparr>"

definition clamp :: "nat \<Rightarrow> nat \<Rightarrow> nat \<Rightarrow> nat" where
  "clamp lo hi n = (if n < lo then lo else if hi < n then hi else n)"

definition ViewLimits_clamped :: "nat option \<Rightarrow> nat option \<Rightarrow> ViewLimits" where
  "ViewLimits_clamped max_nodes max_chars =
    \<lparr>vl_max_nodes = clamp 1 250 (unwrap_or max_nodes (vl_max_nodes ViewLimits_default)),
     vl_max_chars = clamp 1 20000 (unwrap_or max_chars (vl_max_chars ViewLimits_default)),
     vl_max_name_chars = vl_max_name_chars ViewLimits_default\<rparr>"

record ProjectedNode =
  pj_reference :: string
  pj_tag :: string
  pj_role :: string
  pj_name :: string
  pj_input_type :: "string option"
  pj_protected :: bool
  pj_disabled :: bool
  pj_visible :: "bool option"
  pj_node_id :: u64
  pj_structurally_hidden :: bool

record PageProjection =
  pp_nodes :: "ProjectedNode list"
  pp_text :: string
  pp_text_truncated :: bool
  pp_nodes_truncated :: bool

datatype ResolveError = NodeNotFound | Ambiguous | StaleNode | ProtectedNode

record view_env =
  ve_sha256 :: "bytes \<Rightarrow> bytes"
  ve_to_lowercase :: "string \<Rightarrow> string"

section \<open>Attributes\<close>

definition INTERACTABLE_ROLES :: "string list" where
  "INTERACTABLE_ROLES = [''link'', ''button'', ''textbox'', ''checkbox'', ''radio'', ''combobox'']"

definition PROTECTED_NAME_FRAGMENTS :: "string list" where
  "PROTECTED_NAME_FRAGMENTS = [''password'', ''passwd'', ''otp'', ''totp'', ''secret'', ''token'', ''cvv'', ''cvc'']"

definition PROTECTED_AUTOCOMPLETE :: "string list" where
  "PROTECTED_AUTOCOMPLETE = [''current-password'', ''new-password'', ''one-time-code'']"

definition NON_CONTENT_TAGS :: "string list" where
  "NON_CONTENT_TAGS = [''script'', ''style'', ''noscript'', ''template'', ''head'', ''svg'']"

text \<open>The pairs of the flat attribute list, in order.\<close>

fun attribute_pairs :: "json list \<Rightarrow> (string \<times> string) list" where
  "attribute_pairs (name # value # rest) =
    (case (json_text name, json_text value) of
       (Some n, Some v) \<Rightarrow> (to_ascii_lowercase n, v) # attribute_pairs rest
     | _ \<Rightarrow> attribute_pairs rest)"
| "attribute_pairs _ = []"

type_synonym Attributes = "(string \<times> string) list"

definition json_array :: "json option \<Rightarrow> json list" where
  "json_array v = (case v of Some (Array xs) \<Rightarrow> xs | _ \<Rightarrow> [])"

definition Attributes_from_node :: "json \<Rightarrow> Attributes" where
  "Attributes_from_node node = attribute_pairs (json_array (json_member ''attributes'' node))"

definition attr_get :: "Attributes \<Rightarrow> string \<Rightarrow> string option" where
  "attr_get a name = map_of a name"

definition attr_has :: "Attributes \<Rightarrow> string \<Rightarrow> bool" where
  "attr_has a name = list_ex (\<lambda>(key, _). key = name) a"

definition value_is :: "Attributes \<Rightarrow> string \<Rightarrow> string \<Rightarrow> bool" where
  "value_is a name expected = is_some_and (attr_get a name) (\<lambda>v. to_ascii_lowercase v = to_ascii_lowercase expected)"

definition is_protected :: "Attributes \<Rightarrow> bool" where
  "is_protected a =
    (value_is a ''type'' ''password''
     \<or> is_some_and (attr_get a ''autocomplete'')
         (\<lambda>v. list_ex (contains_str (to_ascii_lowercase v)) PROTECTED_AUTOCOMPLETE)
     \<or> list_ex (\<lambda>key. is_some_and (attr_get a key)
         (\<lambda>v. list_ex (contains_str (to_ascii_lowercase v)) PROTECTED_NAME_FRAGMENTS)) [''name'', ''id'', ''data-testid''])"

definition is_structurally_hidden :: "Attributes \<Rightarrow> string \<Rightarrow> bool" where
  "is_structurally_hidden a tag =
    (attr_has a ''hidden'' \<or> value_is a ''aria-hidden'' ''true''
     \<or> (tag = ''input'' \<and> value_is a ''type'' ''hidden'')
     \<or> is_some_and (attr_get a ''style'') (\<lambda>v.
         let style = filter (\<lambda>c. c \<noteq> CHR '' '') (to_ascii_lowercase v) in
         contains_str style ''display:none'' \<or> contains_str style ''visibility:hidden''))"

definition input_role :: "string \<Rightarrow> string" where
  "input_role ty =
    (if List.member [''button'', ''submit'', ''reset'', ''image''] ty then ''button''
     else if ty = ''checkbox'' then ''checkbox'' else if ty = ''radio'' then ''radio''
     else if ty = ''hidden'' then ''generic'' else ''textbox'')"

definition tag_role :: "string \<Rightarrow> Attributes \<Rightarrow> string" where
  "tag_role tag a =
    (if tag = ''a'' \<and> attr_has a ''href'' then ''link''
     else if tag = ''button'' then ''button'' else if tag = ''select'' then ''combobox''
     else if tag = ''textarea'' then ''textbox''
     else if tag = ''input'' then input_role (to_ascii_lowercase (unwrap_or (attr_get a ''type'') ''text''))
     else ''generic'')"

definition derive_role :: "string \<Rightarrow> Attributes \<Rightarrow> string" where
  "derive_role tag a =
    (case attr_get a ''role'' of
       None \<Rightarrow> tag_role tag a
     | Some r \<Rightarrow> (let explicit = to_ascii_lowercase (trim_str r) in
                 if List.member INTERACTABLE_ROLES explicit then explicit else tag_role tag a))"

section \<open>Names\<close>

definition json_children :: "json \<Rightarrow> json list" where
  "json_children node = json_array (json_member ''children'' node)"

definition node_type :: "json \<Rightarrow> u64 option" where
  "node_type node = Option.bind (json_member ''nodeType'' node) json_u64"

definition node_tag :: "json \<Rightarrow> string" where
  "node_tag node = to_ascii_lowercase (unwrap_or (Option.bind (json_member ''nodeName'' node) json_text) [])"

definition node_value :: "json \<Rightarrow> string option" where
  "node_value node = Option.bind (json_member ''nodeValue'' node) json_text"

lemma json_array_mem: "x \<in> set (json_array v) \<Longrightarrow> (\<And>xs. v = Some (Array xs) \<Longrightarrow> x \<in> set xs \<Longrightarrow> thesis) \<Longrightarrow> thesis"
  by (cases v) (auto simp: json_array_def split: json.splits)

lemma json_children_size [termination_simp]: "child \<in> set (json_children node) \<Longrightarrow> size child < size node"
proof -
  assume c: "child \<in> set (json_children node)"
  then obtain xs where xs: "json_member ''children'' node = Some (Array xs)" "child \<in> set xs"
    unfolding json_children_def by (elim json_array_mem)
  then obtain ms where node: "node = Object ms" "map_of ms ''children'' = Some (Array xs)"
    by (cases node) (auto simp: json_member_def)
  have "size child < size (Array xs)" using xs(2) by (simp add: json_item_size)
  also have "\<dots> < size node" using json_member_size[OF map_of_SomeD[OF node(2)]] node(1) by simp
  finally show ?thesis .
qed

text \<open>The text of an element; the loop over the children stops after 512 bytes.\<close>

fun descendant_text :: "json \<Rightarrow> nat \<Rightarrow> string" where
  "descendant_text node depth =
    (if depth > 4 then []
     else fst (fold (\<lambda>child (collected, stop).
       if stop then (collected, stop)
       else let collected' =
              (if node_type child = Some 3
               then (case node_value child of None \<Rightarrow> collected | Some v \<Rightarrow> collected @ v @ '' '')
               else if node_type child = Some 1
               then (if List.member NON_CONTENT_TAGS (node_tag child) \<or> is_protected (Attributes_from_node child) then collected
                     else collected @ descendant_text child (depth + 1))
               else collected)
            in (collected', length collected' > 512)) (json_children node) ([], False)))"

declare descendant_text.simps [simp del]

definition accessible_name :: "json \<Rightarrow> string \<Rightarrow> Attributes \<Rightarrow> string" where
  "accessible_name node tag a =
    (case find (\<lambda>v. \<not> trim_is_empty v)
            (concat (map (\<lambda>key. case attr_get a key of None \<Rightarrow> [] | Some v \<Rightarrow> [v])
               [''aria-label'', ''placeholder'', ''title'', ''alt''])) of
       Some v \<Rightarrow> v
     | None \<Rightarrow>
       if tag = ''input'' then
         (let input_type = to_ascii_lowercase (unwrap_or (attr_get a ''type'') ''text'');
              name = unwrap_or (attr_get a ''name'') [] in
          if List.member [''button'', ''submit'', ''reset''] input_type
          then (case attr_get a ''value'' of None \<Rightarrow> name | Some v \<Rightarrow> if trim_is_empty v then name else v)
          else name)
       else descendant_text node 0)"

definition normalize_for_match :: "view_env \<Rightarrow> string \<Rightarrow> string" where
  "normalize_for_match E value = ve_to_lowercase E (trim_str (collapse_whitespace value))"

definition hex_digit :: "nat \<Rightarrow> char" where
  "hex_digit n = (if n < 10 then char_of (48 + n) else char_of (87 + n))"

definition hex_byte :: "u8 \<Rightarrow> string" where
  "hex_byte b = [hex_digit (unat b div 16), hex_digit (unat b mod 16)]"

definition make_reference :: "view_env \<Rightarrow> nat \<Rightarrow> string \<Rightarrow> string \<Rightarrow> string \<Rightarrow> string" where
  "make_reference E index tag role name =
    (let digest = ve_sha256 E (as_bytes (tag @ [CHR 0x1F] @ role @ [CHR 0x1F] @ normalize_for_match E name)) in
     ''e'' @ show_nat index @ ''.'' @ hex_byte (digest ! 0) @ hex_byte (digest ! 1) @ hex_byte (digest ! 2))"

section \<open>The walk\<close>

record Walker =
  wk_nodes :: "ProjectedNode list"
  wk_text :: "string list"
  wk_text_truncated :: bool
  wk_nodes_truncated :: bool
  wk_interactable_index :: nat

definition record_element ::
    "view_env \<Rightarrow> ViewLimits \<Rightarrow> json \<Rightarrow> string \<Rightarrow> Attributes \<Rightarrow> bool \<Rightarrow> Walker \<Rightarrow> Walker" where
  "record_element E L node tag a protected w =
    (let role = derive_role tag a in
     if \<not> List.member INTERACTABLE_ROLES role then w
     else if length (wk_nodes w) \<ge> vl_max_nodes L then w\<lparr>wk_nodes_truncated := True\<rparr>
     else
       let name = (if protected then []
                   else truncate_chars (collapse_whitespace (accessible_name node tag a)) (vl_max_name_chars L));
           index = wk_interactable_index w in
       w\<lparr>wk_interactable_index := index + 1,
         wk_nodes := wk_nodes w @
           [\<lparr>pj_reference = make_reference E index tag role name, pj_tag = tag, pj_role = role, pj_name = name,
             pj_input_type = attr_get a ''type'', pj_protected = protected,
             pj_disabled = (attr_has a ''disabled'' \<or> value_is a ''aria-disabled'' ''true''), pj_visible = None,
             pj_node_id = unwrap_or (Option.bind (json_member ''nodeId'' node) json_u64) 0,
             pj_structurally_hidden = is_structurally_hidden a tag\<rparr>]\<rparr>)"

fun push_chars :: "nat \<Rightarrow> string list \<Rightarrow> Walker \<Rightarrow> Walker" where
  "push_chars n [] w = w"
| "push_chars n (c # cs) w =
    (if length (wk_text w) \<ge> n then w\<lparr>wk_text_truncated := True\<rparr>
     else push_chars n cs (w\<lparr>wk_text := wk_text w @ [c]\<rparr>))"

definition push_text :: "ViewLimits \<Rightarrow> string \<Rightarrow> Walker \<Rightarrow> Walker" where
  "push_text L raw w =
    (if wk_text_truncated w then w
     else
       let collapsed = collapse [] False (characters raw) in
       if collapsed = [] then w
       else
         let w1 = (if wk_text w \<noteq> [] \<and> last (wk_text w) \<noteq> '' '' then w\<lparr>wk_text := wk_text w @ ['' '']\<rparr> else w) in
         push_chars (vl_max_chars L) collapsed w1)"

fun visit :: "view_env \<Rightarrow> ViewLimits \<Rightarrow> json \<Rightarrow> bool \<Rightarrow> Walker \<Rightarrow> Walker" where
  "visit E L node inherited w =
    (let ty = unwrap_or (node_type node) 0 in
     if ty = 3 then
       (if inherited then w else case node_value node of None \<Rightarrow> w | Some v \<Rightarrow> push_text L v w)
     else if \<not> (ty = 1 \<or> ty = 9 \<or> ty = 11) then w
     else
       let tag = node_tag node in
       if List.member NON_CONTENT_TAGS tag then w
       else
         let a = Attributes_from_node node;
             protected = inherited \<or> is_protected a;
             w1 = (if ty = 1 then record_element E L node tag a protected w else w) in
         fold (\<lambda>child. visit E L child protected) (json_children node) w1)"

declare visit.simps [simp del]

definition Walker_new :: Walker where
  "Walker_new = \<lparr>wk_nodes = [], wk_text = [], wk_text_truncated = False, wk_nodes_truncated = False,
                 wk_interactable_index = 0\<rparr>"

definition from_node :: "view_env \<Rightarrow> json \<Rightarrow> ViewLimits \<Rightarrow> PageProjection" where
  "from_node E node L =
    (let w = visit E L node False Walker_new in
     \<lparr>pp_nodes = wk_nodes w, pp_text = concat (rev (dropWhile (\<lambda>c. c = '' '') (rev (wk_text w)))),
      pp_text_truncated = wk_text_truncated w, pp_nodes_truncated = wk_nodes_truncated w\<rparr>)"

section \<open>Resolution of locators\<close>

definition resolve_reference :: "PageProjection \<Rightarrow> string \<Rightarrow> ResolveError + ProjectedNode" where
  "resolve_reference p reference = ok_or StaleNode (find (\<lambda>n. pj_reference n = reference) (pp_nodes p))"

definition only_match :: "(ProjectedNode \<Rightarrow> bool) \<Rightarrow> ProjectedNode list \<Rightarrow> ResolveError + ProjectedNode" where
  "only_match P ns = (case filter P ns of [] \<Rightarrow> Inl NodeNotFound | [n] \<Rightarrow> Inr n | _ \<Rightarrow> Inl Ambiguous)"

definition resolve_role :: "view_env \<Rightarrow> PageProjection \<Rightarrow> string \<Rightarrow> string \<Rightarrow> ResolveError + ProjectedNode" where
  "resolve_role E p role name =
    (let wanted_role = to_ascii_lowercase (trim_str role); wanted_name = normalize_for_match E name in
     only_match (\<lambda>n. pj_role n = wanted_role \<and> normalize_for_match E (pj_name n) = wanted_name) (pp_nodes p))"

definition resolve_text :: "view_env \<Rightarrow> PageProjection \<Rightarrow> string \<Rightarrow> ResolveError + ProjectedNode" where
  "resolve_text E p name =
    (let wanted = normalize_for_match E name in
     only_match (\<lambda>n. normalize_for_match E (pj_name n) = wanted) (pp_nodes p))"

definition node_is_protected :: "json \<Rightarrow> bool" where
  "node_is_protected described =
    is_protected (Attributes_from_node (unwrap_or (json_member ''node'' described) described))"

section \<open>What the projection does not depend on\<close>

text \<open>
  \<open>erase\<close> takes the contents out of everything that is protected: the texts below a protected element, and
  the attributes of a protected element from which a name could be taken.
\<close>

definition NAME_ATTRIBUTES :: "string list" where
  "NAME_ATTRIBUTES = [''value'', ''placeholder'', ''aria-label'', ''title'', ''alt'']"

fun erase_attributes :: "json list \<Rightarrow> json list" where
  "erase_attributes (name # value # rest) =
    name # (if is_some_and (json_text name) (\<lambda>n. List.member NAME_ATTRIBUTES (to_ascii_lowercase n)) \<and> json_text value \<noteq> None
            then String [] else value) # erase_attributes rest"
| "erase_attributes vs = vs"

definition erase_text :: "json \<Rightarrow> json" where
  "erase_text v = (if json_text v = None then v else String [])"

definition erase_array :: "(json list \<Rightarrow> json list) \<Rightarrow> json \<Rightarrow> json" where
  "erase_array f v = (case v of Array xs \<Rightarrow> Array (f xs) | _ \<Rightarrow> v)"

lemma erase_array_cong [fundef_cong]:
  "v = v' \<Longrightarrow> (\<And>xs. v' = Array xs \<Longrightarrow> f xs = g xs) \<Longrightarrow> erase_array f v = erase_array g v'"
  by (cases v') (auto simp: erase_array_def)

fun erase :: "bool \<Rightarrow> json \<Rightarrow> json" where
  "erase inherited (Object ms) =
    (let protected = inherited \<or> is_protected (Attributes_from_node (Object ms)) in
     Object (map (\<lambda>m. (fst m,
       if fst m = ''children'' then erase_array (map (erase protected)) (snd m)
       else if fst m = ''attributes'' \<and> protected then erase_array erase_attributes (snd m)
       else if fst m = ''nodeValue'' \<and> inherited then erase_text (snd m) else snd m)) ms))"
| "erase inherited v = v"

definition shielded :: "bool \<Rightarrow> json \<Rightarrow> bool" where
  "shielded inherited node = (inherited \<or> is_protected (Attributes_from_node node))"

lemma map_of_map_key: "map_of (map (\<lambda>m. (fst m, f (fst m) (snd m))) ms) k = map_option (f k) (map_of ms k)"
  by (induction ms) auto

lemma erase_member:
  "json_member k (erase i node) = map_option (\<lambda>v.
     if k = ''children'' then erase_array (map (erase (shielded i node))) v
     else if k = ''attributes'' \<and> shielded i node then erase_array erase_attributes v
     else if k = ''nodeValue'' \<and> i then erase_text v else v) (json_member k node)"
proof (cases node)
  case (Object ms)
  show ?thesis
    using map_of_map_key[where k = k and ms = ms and f = "\<lambda>k v.
        if k = ''children'' then erase_array (map (erase (shielded i node))) v
        else if k = ''attributes'' \<and> shielded i node then erase_array erase_attributes v
        else if k = ''nodeValue'' \<and> i then erase_text v else v"] Object
    unfolding shielded_def Object erase.simps(1) Let_def by (simp add: json_member_def)
qed (simp_all add: json_member_def)

lemma erase_fields [simp]:
  "node_type (erase i node) = node_type node" "node_tag (erase i node) = node_tag node"
  "json_member ''nodeId'' (erase i node) = json_member ''nodeId'' node"
  "node_value (erase False node) = node_value node"
  by (simp_all add: node_type_def node_tag_def node_value_def erase_member option.map_ident)

lemma erase_children [simp]: "json_children (erase i node) = map (erase (shielded i node)) (json_children node)"
  by (auto simp: json_children_def erase_member json_array_def erase_array_def split: option.split json.split)

definition erase_pairs :: "Attributes \<Rightarrow> Attributes" where
  "erase_pairs a = map (\<lambda>m. (fst m, if List.member NAME_ATTRIBUTES (fst m) then [] else snd m)) a"

lemma attribute_pairs_erased: "attribute_pairs (erase_attributes vs) = erase_pairs (attribute_pairs vs)"
  by (induction vs rule: attribute_pairs.induct)
    (auto simp: erase_pairs_def json_text_def is_some_and_def split: json.splits option.splits)

lemma erase_attributes_of [simp]:
  "Attributes_from_node (erase i node) = (if shielded i node then erase_pairs (Attributes_from_node node) else Attributes_from_node node)"
proof (cases "json_member ''attributes'' node")
  case (Some v)
  then show ?thesis
    by (cases v) (auto simp: Attributes_from_node_def erase_member json_array_def erase_array_def attribute_pairs_erased
        erase_pairs_def)
qed (simp add: Attributes_from_node_def erase_member json_array_def erase_pairs_def)

lemma attr_get_erased: "\<not> List.member NAME_ATTRIBUTES k \<Longrightarrow> attr_get (erase_pairs a) k = attr_get a k"
  by (induction a) (auto simp: attr_get_def erase_pairs_def)

lemma attr_has_erased [simp]: "attr_has (erase_pairs a) k = attr_has a k"
  by (simp add: attr_has_def erase_pairs_def list_ex_iff case_prod_unfold)

lemma tag_role_erased [simp]: "tag_role tag (erase_pairs a) = tag_role tag a"
  by (simp add: tag_role_def attr_get_erased NAME_ATTRIBUTES_def)

lemma erased_reads [simp]:
  "is_protected (erase_pairs a) = is_protected a" "derive_role tag (erase_pairs a) = derive_role tag a"
  "is_structurally_hidden (erase_pairs a) tag = is_structurally_hidden a tag"
  "attr_get (erase_pairs a) ''type'' = attr_get a ''type''"
  "value_is (erase_pairs a) ''aria-disabled'' v = value_is a ''aria-disabled'' v"
  by (simp_all add: is_protected_def derive_role_def is_structurally_hidden_def value_is_def attr_get_erased
      NAME_ATTRIBUTES_def Let_def split: option.split)

lemma descendant_text_erased:
  "\<not> is_protected (Attributes_from_node node) \<Longrightarrow> descendant_text (erase False node) depth = descendant_text node depth"
proof (induction node arbitrary: depth rule: measure_induct_rule[of size])
  case (less node)
  have s: "shielded False node = False" using less.prems by (simp add: shielded_def)
  have same: "is_protected (Attributes_from_node (erase False child)) = is_protected (Attributes_from_node child)" for child
    by simp
  have IH: "descendant_text (erase False child) (depth + 1) = descendant_text child (depth + 1)"
    if "child \<in> set (json_children node)" "\<not> is_protected (Attributes_from_node child)" for child
    using less.IH[OF json_children_size] that by blast
  show ?case
    unfolding descendant_text.simps[of "erase False node"] descendant_text.simps[of node] erase_children s fold_map comp_def erase_fields same
    by (rule if_cong, simp, simp, rule arg_cong[where f = fst], rule fold_cong)
      (auto simp: fun_eq_iff Let_def IH[simplified] split: option.split)
qed

lemma record_erased:
  "record_element E L (erase i node) tag (Attributes_from_node (erase i node)) (shielded i node) w
    = record_element E L node tag (Attributes_from_node node) (shielded i node) w"
proof (cases "shielded i node")
  case False
  then have i: "i = False" "\<not> is_protected (Attributes_from_node node)" by (simp_all add: shielded_def)
  have "accessible_name (erase False node) tag a = accessible_name node tag a" for a
    unfolding accessible_name_def descendant_text_erased[OF i(2)] by (rule refl)
  then show ?thesis using False i(1) by (simp add: record_element_def Let_def)
qed (simp add: record_element_def Let_def)

lemma visit_erased: "visit E L (erase inherited node) inherited w = visit E L node inherited w"
proof (induction node arbitrary: inherited w rule: measure_induct_rule[of size])
  case (less node)
  have p: "(inherited \<or> is_protected (Attributes_from_node (erase inherited node))) = shielded inherited node"
    "(inherited \<or> is_protected (Attributes_from_node node)) = shielded inherited node"
    by (auto simp: shielded_def)
  have rec: "fold (\<lambda>child. visit E L child i) (map (erase i) (json_children node)) u = fold (\<lambda>child. visit E L child i) (json_children node) u" for i u
    unfolding fold_map comp_def by (rule fold_cong) (auto simp: fun_eq_iff intro!: less.IH json_children_size)
  show ?case
    unfolding visit.simps[of E L "erase inherited node"] visit.simps[of E L node] Let_def p record_erased erase_children erase_fields rec
    by (cases inherited) simp_all
qed

text \<open>
  C36.  What a protected element holds does not reach the agent.  The projection of a page is the projection
  of the page from which every text below a protected element has been erased, and every attribute of a
  protected element from which a name could be taken.  Two pages that differ only there look the same.
\<close>

theorem projection_hides_protected: "from_node E (erase False node) L = from_node E node L"
  by (simp add: from_node_def visit_erased)

section \<open>Bounds\<close>

definition bounded_walk :: "ViewLimits \<Rightarrow> Walker \<Rightarrow> bool" where
  "bounded_walk L w =
    (length (wk_nodes w) \<le> vl_max_nodes L
     \<and> list_all (\<lambda>n. chars_count (pj_name n) \<le> vl_max_name_chars L) (wk_nodes w)
     \<and> (length (wk_text w) \<le> vl_max_chars L
        \<or> (length (wk_text w) = vl_max_chars L + 1 \<and> last (wk_text w) = '' '' \<and> wk_text_truncated w)))"

lemma characters_one: "c \<in> set (characters s) \<Longrightarrow> chars_count c \<le> 1"
proof (induction s rule: characters.induct)
  case (2 a s)
  have "filter (\<lambda>c. \<not> is_continuation c) (takeWhile is_continuation s) = []"
    by (auto simp: filter_empty_conv dest: set_takeWhileD)
  then have "chars_count (a # takeWhile is_continuation s) \<le> 1"
    by (simp add: chars_count_def is_continuation_def[symmetric])
  then show ?case using 2 by auto
qed simp

lemma chars_count_concat: "(\<And>c. c \<in> set cs \<Longrightarrow> chars_count c \<le> 1) \<Longrightarrow> chars_count (concat cs) \<le> length cs"
  by (induction cs) (fastforce simp: chars_count_def)+

lemma truncated_name: "chars_count (truncate_chars s n) \<le> n"
proof -
  have "chars_count (truncate_chars s n) \<le> length (take n (characters s))"
    unfolding truncate_chars_def by (rule chars_count_concat) (use in_set_takeD characters_one in fast)
  then show ?thesis by simp
qed

lemma bounded_record: "bounded_walk L w \<Longrightarrow> bounded_walk L (record_element E L node tag a p w)"
  using truncated_name by (auto simp: bounded_walk_def record_element_def Let_def chars_count_def)

lemma push_chars_keeps [simp]: "wk_nodes (push_chars n cs w) = wk_nodes w"
  by (induction n cs w rule: push_chars.induct) auto

lemma push_chars_bound:
  "length (wk_text w) \<le> n \<Longrightarrow> length (wk_text (push_chars n cs w)) \<le> n"
  by (induction n cs w rule: push_chars.induct) auto

lemma bounded_push: "bounded_walk L w \<Longrightarrow> bounded_walk L (push_text L v w)"
proof -
  assume w: "bounded_walk L w"
  show ?thesis
  proof (cases "wk_text_truncated w \<or> collapse [] False (characters v) = []")
    case False
    then obtain c cs where cs: "collapse [] False (characters v) = c # cs" by (cases "collapse [] False (characters v)") auto
    have len: "length (wk_text w) \<le> vl_max_chars L" using w False by (auto simp: bounded_walk_def)
    let ?w1 = "if wk_text w \<noteq> [] \<and> last (wk_text w) \<noteq> '' '' then w\<lparr>wk_text := wk_text w @ ['' '']\<rparr> else w"
    have "push_text L v w = push_chars (vl_max_chars L) (c # cs) ?w1" using False cs by (simp add: push_text_def)
    moreover consider (fits) "length (wk_text ?w1) \<le> vl_max_chars L"
      | (full) "length (wk_text ?w1) = vl_max_chars L + 1" "last (wk_text ?w1) = '' ''"
      using len by (cases "wk_text w \<noteq> [] \<and> last (wk_text w) \<noteq> '' ''"; cases "length (wk_text w) = vl_max_chars L") auto
    then have "bounded_walk L (push_chars (vl_max_chars L) (c # cs) ?w1)"
    proof cases
      case fits
      then show ?thesis using push_chars_bound[OF fits] w by (auto simp: bounded_walk_def simp del: push_chars.simps)
    next
      case full
      then show ?thesis using w by (auto simp: bounded_walk_def)
    qed
    ultimately show ?thesis by simp
  qed (use w in \<open>auto simp: push_text_def\<close>)
qed

lemma bounded_visit: "bounded_walk L w \<Longrightarrow> bounded_walk L (visit E L node inherited w)"
proof (induction node arbitrary: inherited w rule: measure_induct_rule[of size])
  case (less node)
  have "bounded_walk L u \<Longrightarrow> set cs \<subseteq> set (json_children node) \<Longrightarrow> bounded_walk L (fold (\<lambda>child. visit E L child p) cs u)" for u cs p
    by (induction cs arbitrary: u) (auto intro!: less.IH json_children_size)
  then show ?case using less.prems
    by (subst visit.simps) (auto simp: Let_def bounded_push bounded_record split: option.split)
qed

text \<open>The characters of the text are characters of the page or the separator.\<close>

definition single_chars :: "Walker \<Rightarrow> bool" where
  "single_chars w = list_all (\<lambda>c. chars_count c \<le> 1) (wk_text w)"

lemma collapse_single:
  "list_all (\<lambda>c. chars_count c \<le> 1) out \<Longrightarrow> list_all (\<lambda>c. chars_count c \<le> 1) cs
    \<Longrightarrow> list_all (\<lambda>c. chars_count c \<le> 1) (collapse out p cs)"
  by (induction out p cs rule: collapse.induct) (auto simp: chars_count_def)

lemma push_chars_single:
  "single_chars w \<Longrightarrow> list_all (\<lambda>c. chars_count c \<le> 1) cs \<Longrightarrow> single_chars (push_chars n cs w)"
  by (induction n cs w rule: push_chars.induct) (auto simp: single_chars_def)

lemma single_push: "single_chars w \<Longrightarrow> single_chars (push_text L v w)"
proof -
  assume "single_chars w"
  then have "single_chars (if wk_text w \<noteq> [] \<and> last (wk_text w) \<noteq> '' '' then w\<lparr>wk_text := wk_text w @ ['' '']\<rparr> else w)"
    by (simp add: single_chars_def chars_count_def)
  moreover have "list_all (\<lambda>c. chars_count c \<le> 1) (collapse [] False (characters v))"
    by (rule collapse_single) (auto simp: list_all_iff dest: characters_one)
  ultimately show ?thesis using \<open>single_chars w\<close> by (simp add: push_text_def Let_def push_chars_single)
qed

lemma single_visit: "single_chars w \<Longrightarrow> single_chars (visit E L node inherited w)"
proof (induction node arbitrary: inherited w rule: measure_induct_rule[of size])
  case (less node)
  have r: "single_chars (record_element E L n tag a p u) = single_chars u" for n tag a p u
    by (simp add: single_chars_def record_element_def Let_def)
  have "single_chars u \<Longrightarrow> set cs \<subseteq> set (json_children node) \<Longrightarrow> single_chars (fold (\<lambda>child. visit E L child p) cs u)" for u cs p
    by (induction cs arbitrary: u) (auto intro!: less.IH json_children_size)
  then show ?case using less.prems
    by (subst visit.simps) (auto simp: Let_def single_push r split: option.split)
qed

lemma trailing_spaces: "length (rev (dropWhile (\<lambda>c. c = x) (rev xs))) \<le> n" if "length xs \<le> n \<or> length xs = n + 1 \<and> last xs = x"
proof (cases "length xs \<le> n")
  case True
  then show ?thesis using length_dropWhile_le[of "\<lambda>c. c = x" "rev xs"] by simp
next
  case False
  then have "xs \<noteq> []" "last xs = x" using that by auto
  then obtain ys where "xs = ys @ [x]" using append_butlast_last_id[of xs] by metis
  then show ?thesis using False that length_dropWhile_le[of "\<lambda>c. c = x" "rev ys"] by simp
qed

text \<open>
  However much an agent asks for and however large the page is, it is shown at most 250 elements, with
  names of at most 120 characters, and at most 20000 characters of text.
\<close>

theorem projection_bounded:
  "let p = from_node E node (ViewLimits_clamped max_nodes max_chars) in
     length (pp_nodes p) \<le> 250 \<and> filter (\<lambda>n. chars_count (pj_name n) > 120) (pp_nodes p) = []
     \<and> chars_count (pp_text p) \<le> 20000"
proof -
  let ?L = "ViewLimits_clamped max_nodes max_chars"
  let ?w = "visit E ?L node False Walker_new"
  have L: "vl_max_nodes ?L \<le> 250" "vl_max_chars ?L \<le> 20000" "vl_max_name_chars ?L = 120"
    by (simp_all add: ViewLimits_clamped_def clamp_def ViewLimits_default_def)
  have b: "bounded_walk ?L ?w" by (rule bounded_visit) (simp add: bounded_walk_def Walker_new_def)
  have s: "single_chars ?w" by (rule single_visit) (simp add: single_chars_def Walker_new_def)
  let ?t = "rev (dropWhile (\<lambda>c. c = '' '') (rev (wk_text ?w)))"
  have "length ?t \<le> vl_max_chars ?L" using b by (intro trailing_spaces) (auto simp: bounded_walk_def)
  moreover have "chars_count (concat ?t) \<le> length ?t"
    using s by (intro chars_count_concat) (auto simp: single_chars_def list_all_iff dest: set_dropWhileD)
  ultimately have "chars_count (concat ?t) \<le> 20000" using L(2) by linarith
  then show ?thesis using b L by (auto simp: from_node_def Let_def bounded_walk_def filter_empty_conv list_all_iff)
qed

end
