(* ===== verification/Broker_Ui.thy ===== *)
theory Broker_Ui
  imports Broker_Admin Dom_View
begin

text \<open>
  What the desktop application is shown and may do (\<open>secretctld/src/ui.rs\<close>, the structures of
  \<open>secretctl-protocol/src/admin.rs\<close>): the projections of the daemon's state, and the three operations that
  change it, creating and revoking standing grants and disabling an agent.  The reader of the stored audit
  contexts is the argument \<open>parse\<close>.
\<close>

section \<open>Structures\<close>

record UiFlowStep =
  fs_role :: string
  fs_label :: string
  fs_optional :: bool

definition label_for :: "string \<Rightarrow> string" where
  "label_for role =
    (if role = ''password'' then ''Password'' else if role = ''totp'' then ''TOTP''
     else if role = ''username'' then ''Username'' else if role = ''email'' then ''Email'' else role)"

datatype ReasonSource = AgentProvided

record UiAuthorizationRequest =
  ua_approval_id :: string
  ua_request_id :: string
  ua_agent_name :: string
  ua_agent_id :: string
  ua_credential_name :: string
  ua_provider :: string
  ua_origin :: string
  ua_action :: ActionKind
  ua_action_label :: string
  ua_flow_steps :: "UiFlowStep list"
  ua_risk :: RiskLevel
  ua_reason :: "string option"
  ua_reason_source :: ReasonSource
  ua_context_digest :: string
  ua_expires_at :: datetime
  ua_requires_presence :: bool
  ua_is_first_for_agent :: bool
  ua_grantable :: bool

datatype UiProtectionState =
    Protected
  | ApprovalRequired
  | SensitiveOperation
  | UiCompleted
  | Blocked
  | ProtectionInterrupted
  | OutcomeUncertain
  | UiCompletedEvidenceLost
  | Disconnected

datatype UiStepState = StepPending | StepActive | StepDone | StepFailed

record UiOperationStep =
  os_label :: string
  os_state :: UiStepState

record UiActiveOperation =
  uo_request_id :: string
  uo_agent_name :: string
  uo_credential_name :: string
  uo_origin :: string
  uo_action_label :: string
  uo_steps :: "UiOperationStep list"
  uo_confirmed_protections :: "string list"
  uo_protection_verified :: bool

record UiStatus =
  us_protection :: UiProtectionState
  us_pending_approvals :: u32
  us_active_operation :: "UiActiveOperation option"
  us_browser_sessions_connected :: u32
  us_agents_enrolled :: u32
  us_agents_active :: u32
  us_active_grants :: u32
  us_providers :: "string list"
  us_policy_fingerprint :: string
  us_audit_chain_intact :: bool

record UiGrant =
  ug_grant_id :: string
  ug_agent_name :: string
  ug_credential_name :: string
  ug_origin :: string
  ug_action :: ActionKind
  ug_action_label :: string
  ug_risk_ceiling :: RiskLevel
  ug_require_presence :: bool
  ug_created_at :: datetime
  ug_expires_at :: datetime
  ug_revoked_at :: "datetime option"
  ug_revoked_reason :: "string option"
  ug_last_used_at :: "datetime option"
  ug_use_count :: u64
  ug_active :: bool

record UiAgent =
  un_agent_id :: string
  un_display_name :: string
  un_role :: string
  un_state :: string
  un_created_at :: datetime
  un_active_grants :: u32
  un_recent_event_count :: u32
  un_last_activity_at :: "datetime option"

record UiCredential =
  uc_name :: string
  uc_kind :: string
  uc_provider :: string
  uc_allowed_actions :: "ActionKind list"
  uc_approved_origins :: "string list"
  uc_used_by :: "string list"
  uc_last_used_at :: "datetime option"
  uc_disabled :: bool

record UiBrowserSession =
  ub_session_id :: string
  ub_profile :: string
  ub_state :: string
  ub_assurance :: string
  ub_last_heartbeat_at :: datetime
  ub_active_tab_count :: u32
  ub_current_origins :: "string list"

datatype UiEventOutcome = OutcomeSuccess | OutcomeDenied | OutcomePending | OutcomeInterrupted | OutcomeInfo

record UiActivityEvent =
  uv_sequence :: u64
  uv_event_id :: string
  uv_event_type :: string
  uv_summary :: string
  uv_outcome :: UiEventOutcome
  uv_actor_type :: string
  uv_actor_name :: "string option"
  uv_origin :: "string option"
  uv_action :: "ActionKind option"
  uv_risk :: "RiskLevel option"
  uv_error_code :: "string option"
  uv_created_at :: datetime

primrec action_label :: "ActionKind \<Rightarrow> string" where
  "action_label AuthenticatePassword = ''Sign in''"
| "action_label AuthenticateTotp = ''Complete TOTP''"
| "action_label FormSensitiveFill = ''Fill sensitive form''"
| "action_label OAuthAuthorize = ''Authorize OAuth access''"

record GrantCreateParams =
  gcp_approval_id :: ApprovalId
  gcp_context_digest :: bytes
  gcp_ttl_days :: int
  gcp_presence_verified :: bool

record GrantCreateResult =
  gcr_grant :: UiGrant
  gcr_decision :: ActionResponseResult

record GrantRevokeResult =
  grr_revoked :: u32

section \<open>Texts\<close>

definition MAX_AGENT_TEXT_CHARS :: nat where
  "MAX_AGENT_TEXT_CHARS = 500"

definition TERMINAL_STATE_LINGER_SECONDS :: int where
  "TERMINAL_STATE_LINGER_SECONDS = 8"

definition is_control_char :: "nat \<Rightarrow> bool" where
  "is_control_char n = (n < 32 \<or> (127 \<le> n \<and> n < 160))"

definition is_bidi_control :: "nat \<Rightarrow> bool" where
  "is_bidi_control n = ((0x202A \<le> n \<and> n \<le> 0x202E) \<or> (0x2066 \<le> n \<and> n \<le> 0x2069))"

definition sanitize_agent_text :: "string \<Rightarrow> string" where
  "sanitize_agent_text s =
    trim_str (concat (take MAX_AGENT_TEXT_CHARS
      (filter (\<lambda>c. \<not> is_control_char (code_point c) \<and> \<not> is_bidi_control (code_point c)) (characters s))))"

definition internal :: "string \<Rightarrow> failure" where
  "internal message = rpc INTERNAL_ERROR message"

definition provider_label :: "string \<Rightarrow> string" where
  "provider_label provider =
    (if List.member [''macos-keychain'', ''macos'', ''keychain''] provider then ''macOS Keychain''
     else if List.member [''1password'', ''onepassword''] provider then ''1Password''
     else if List.member [''vault'', ''hashicorp-vault''] provider then ''HashiCorp Vault''
     else provider)"

text \<open>\<open>trim_end_matches\<close> and \<open>replace\<close> with a character; \<open>nth(1)\<close> of a split.\<close>

function trim_end_matches :: "string \<Rightarrow> string \<Rightarrow> string" where
  "trim_end_matches p s = (if p \<noteq> [] \<and> ends_with s p then trim_end_matches p (take (length s - length p) s) else s)"
  by pat_completeness auto
termination by (relation "measure (\<lambda>(p, s). length s)") (auto simp: ends_with_def suffix_def)

declare trim_end_matches.simps [simp del]

definition replace_char :: "char \<Rightarrow> string \<Rightarrow> string \<Rightarrow> string" where
  "replace_char c r s = concat (map (\<lambda>x. if x = c then r else [x]) s)"

definition site_of :: "string option \<Rightarrow> string option" where
  "site_of origin = map_option (\<lambda>host. trim_end_matches '':443'' host)
     (Option.bind origin (\<lambda>value. map_option (before ''://'') (after ''://'' value)))"

definition SUMMARIES :: "(string \<times> string) list" where
  "SUMMARIES =
    [(''action.requested'', ''Credential action requested''), (''approval.requested'', ''Authorization requested''),
     (''approval.approved'', ''Authorization approved''), (''approval.auto_granted'', ''Approved by standing authorization''),
     (''approval.denied'', ''Authorization denied''), (''approval.expired'', ''Authorization request expired''),
     (''approval.invalidated'', ''Page changed before authorization completed''), (''capability.minted'', ''Capability issued''),
     (''capability.consumed'', ''Credential delivered to the browser''), (''capability.revoked'', ''Capability revoked''),
     (''secret.retrieve_succeeded'', ''Credential retrieved from provider''), (''execution.failed'', ''Authentication blocked''),
     (''policy.evaluated'', ''Policy evaluated''), (''policy.reloaded'', ''Policy reloaded''),
     (''browser.registered'', ''Browser session connected''), (''browser.stale'', ''Protection interrupted''),
     (''agent.enrolled'', ''Agent enrolled''), (''agent.disabled'', ''Agent disabled''),
     (''grant.created'', ''Standing authorization created''), (''grant.revoked'', ''Standing authorization revoked''),
     (''audit.checkpoint'', ''Audit checkpoint written'')]"

definition summarize_event :: "string \<Rightarrow> string option \<Rightarrow> string" where
  "summarize_event event_type origin =
    (if event_type = ''execution.completed''
     then (case site_of origin of Some host \<Rightarrow> host @ '' authentication completed'' | None \<Rightarrow> ''Authentication completed'')
     else case map_of SUMMARIES event_type of Some text \<Rightarrow> text
     | None \<Rightarrow> replace_char (CHR ''.'') '' '' event_type)"

definition classify_event :: "string \<Rightarrow> string option \<Rightarrow> UiEventOutcome" where
  "classify_event event_type decision =
    (if List.member [''execution.completed'', ''approval.approved'', ''approval.auto_granted'', ''grant.created''] event_type
     then OutcomeSuccess
     else if List.member [''approval.denied'', ''approval.expired'', ''execution.failed'', ''capability.revoked'',
                          ''agent.disabled'', ''grant.revoked''] event_type then OutcomeDenied
     else if event_type = ''approval.requested'' then OutcomePending
     else if List.member [''browser.stale'', ''approval.invalidated''] event_type then OutcomeInterrupted
     else if is_some_and decision (List.member [''deny'', ''denied'', ''invalidated'', ''expired'']) then OutcomeDenied
     else OutcomeInfo)"

section \<open>Reads of the store\<close>

definition stored_at :: "slot \<Rightarrow> string \<Rightarrow> StoreError + 'a \<Rightarrow> failure + 'a" where
  "stored_at sl message r = (if sl_io sl 0 \<noteq> None then Inl (internal message) else map_err (\<lambda>_. internal message) r)"

definition audit_rows :: "slot \<Rightarrow> BrokerState \<Rightarrow> failure + AuditEvent list" where
  "audit_rows sl b = stored_at sl ''Audit storage unavailable'' (Inr (list_audit_events (b_store b)))"

definition agent_rows :: "slot \<Rightarrow> BrokerState \<Rightarrow> failure + AgentPrincipal list" where
  "agent_rows sl b = stored_at sl ''Agent storage unavailable'' (list_agents (b_store b))"

definition grant_rows :: "slot \<Rightarrow> bool \<Rightarrow> BrokerState \<Rightarrow> failure + StandingGrant list" where
  "grant_rows sl include_revoked b = stored_at sl ''Grant storage unavailable'' (Inr (list_standing_grants (b_store b) include_revoked))"

definition credential_rows :: "slot \<Rightarrow> BrokerState \<Rightarrow> failure + CredentialDescriptor list" where
  "credential_rows sl b = stored_at sl ''Credential storage unavailable'' (list_credentials (b_store b))"

text \<open>A set collected, turned into a vector and sorted.\<close>

definition sorted_set :: "string list \<Rightarrow> string list" where
  "sorted_set xs = sort (remdups xs)"

section \<open>Pending approvals\<close>

fun scan_event ::
    "(string \<Rightarrow> AuditContext option) \<Rightarrow> AuditEvent \<Rightarrow> (string \<times> AgentId) list \<times> string list
     \<Rightarrow> (string \<times> AgentId) list \<times> string list" where
  "scan_event parse event (request_agents, authorized) =
    (case Option.bind (parse (ev_event_json event)) ac_request_id of
       None \<Rightarrow> (request_agents, authorized)
     | Some request_id \<Rightarrow>
       if ev_event_type event = ''action.requested''
       then (case Option.bind (ev_actor_id event) (\<lambda>actor. case id_parse ''agent'' actor of Inl _ \<Rightarrow> None | Inr a \<Rightarrow> Some a) of
               None \<Rightarrow> (request_agents, authorized)
             | Some agent \<Rightarrow> (AList.update request_id agent request_agents, authorized))
       else if ev_event_type event = ''capability.minted''
       then (request_agents, List.insert request_id authorized)
       else (request_agents, authorized))"

definition prior_agents :: "(string \<Rightarrow> AuditContext option) \<Rightarrow> AuditEvent list \<Rightarrow> AgentId list" where
  "prior_agents parse events =
    (let (request_agents, authorized) = fold (scan_event parse) events ([], []) in
     List.map_filter (map_of request_agents) authorized)"

definition agents_with_prior_authorization ::
    "(string \<Rightarrow> AuditContext option) \<Rightarrow> slot \<Rightarrow> BrokerState \<Rightarrow> failure + AgentId list" where
  "agents_with_prior_authorization parse sl b =
    try_r (audit_rows sl b) (\<lambda>events. Inr (prior_agents parse events))"

definition ui_request :: "broker_env \<Rightarrow> AgentId list \<Rightarrow> PendingApprovalEntry \<Rightarrow> UiAuthorizationRequest" where
  "ui_request E history entry =
    (let a = pn_authorization entry; approval = pn_approval entry; risk = au_base_risk a;
         reason = sanitize_agent_text (au_reason a) in
     \<lparr>ua_approval_id = ap_approval_id approval, ua_request_id = ap_request_id approval,
      ua_agent_name = sanitize_agent_text (au_agent_name a), ua_agent_id = au_agent_id a,
      ua_credential_name = cr_name (au_credential a), ua_provider = provider_label (cr_provider (au_credential a)),
      ua_origin = origin_as_str (pg_top_origin (au_page_context a)), ua_action = au_action a,
      ua_action_label = action_label (au_action a),
      ua_flow_steps = map (\<lambda>field. \<lparr>fs_role = rf_role field, fs_label = label_for (rf_role field), fs_optional = rf_optional field\<rparr>)
        (sr_fields (au_recipe a)),
      ua_risk = risk, ua_reason = (if reason = [] then None else Some reason), ua_reason_source = AgentProvided,
      ua_context_digest = b64_encode (ce_b64 (be_cap E)) (ap_context_digest approval), ua_expires_at = ap_expires_at approval,
      ua_requires_presence = pd_require_user_presence (au_decision a),
      ua_is_first_for_agent = (\<not> List.member history (au_agent_id a)),
      ua_grantable = (RiskLevel_rank risk \<le> RiskLevel_rank MAX_GRANTABLE_RISK)\<rparr>)"

definition pending_entries :: "datetime \<Rightarrow> BrokerState \<Rightarrow> PendingApprovalEntry list" where
  "pending_entries now b =
    sort_key (\<lambda>entry. ap_expires_at (pn_approval entry))
      (filter (\<lambda>entry. ap_decision (pn_approval entry) = ''pending'' \<and> ap_expires_at (pn_approval entry) > now)
        (map snd (b_approvals b)))"

definition ui_pending_approvals ::
    "broker_env \<Rightarrow> (string \<Rightarrow> AuditContext option) \<Rightarrow> slot \<Rightarrow> BrokerState \<Rightarrow> failure + UiAuthorizationRequest list" where
  "ui_pending_approvals E parse sl b =
    try_r (agents_with_prior_authorization parse sl b) (\<lambda>history.
    Inr (map (ui_request E history) (pending_entries (sl_now sl) b)))"

definition ui_pending_approval ::
    "broker_env \<Rightarrow> (string \<Rightarrow> AuditContext option) \<Rightarrow> slot \<Rightarrow> ApprovalId \<Rightarrow> BrokerState \<Rightarrow> failure + UiAuthorizationRequest" where
  "ui_pending_approval E parse sl approval_id b =
    try_r (ui_pending_approvals E parse sl b) (\<lambda>requests.
    ok_or (rpc INVALID_PARAMS ''Approval is no longer pending'') (find (\<lambda>r. ua_approval_id r = approval_id) requests))"

section \<open>The active operation\<close>

definition protection_verified :: "datetime \<Rightarrow> BrowserSessionId \<Rightarrow> BrokerState \<Rightarrow> bool" where
  "protection_verified now session_id b =
    is_some_and (map_of (b_sessions b) session_id) (\<lambda>active.
      bs_state (as_session active) = BrowserSessionState.Active
      \<and> now - bs_last_heartbeat_at (as_session active) < seconds 10)"

definition step_state :: "u32 \<Rightarrow> u32 \<Rightarrow> nat \<Rightarrow> UiStepState" where
  "step_state used_count max_uses index =
    (let i = of_nat index in
     if i < used_count then StepDone else if i = used_count \<and> used_count < max_uses then StepActive else StepPending)"

definition operation_steps :: "u32 \<Rightarrow> u32 \<Rightarrow> SiteRecipe option \<Rightarrow> UiOperationStep list" where
  "operation_steps used_count max_uses recipe =
    (case recipe of None \<Rightarrow> []
     | Some r \<Rightarrow> map (\<lambda>(index, field). \<lparr>os_label = label_for (rf_role field), os_state = step_state used_count max_uses index\<rparr>)
         (enumerate 0 (sr_fields r)))"

definition CONFIRMED_PROTECTIONS :: "string list" where
  "CONFIRMED_PROTECTIONS =
    [''Screenshots blocked'', ''Screen capture blocked'', ''DOM extraction blocked'', ''Accessibility extraction blocked'',
     ''Credential isolated'']"

definition operation_agent_name :: "slot \<Rightarrow> AgentId \<Rightarrow> BrokerState \<Rightarrow> string" where
  "operation_agent_name sl agent_id b =
    (if sl_io sl 0 \<noteq> None then agent_id
     else case get_enrolled_agent (b_store b) agent_id of Inl _ \<Rightarrow> agent_id
          | Inr agent \<Rightarrow> sanitize_agent_text (ag_display_name agent))"

definition operation_credential_name :: "slot \<Rightarrow> CredentialId \<Rightarrow> BrokerState \<Rightarrow> string" where
  "operation_credential_name sl credential_id b =
    (case credential_rows sl b of Inl _ \<Rightarrow> ''credential''
     | Inr credentials \<Rightarrow>
       (case find (\<lambda>c. cr_credential_id c = credential_id) credentials of None \<Rightarrow> ''credential'' | Some c \<Rightarrow> cr_name c))"

definition ui_active_operation :: "world \<Rightarrow> BrokerState \<Rightarrow> UiActiveOperation option" where
  "ui_active_operation W b =
    Option.bind (find (\<lambda>x. \<not> ExecutionState_is_terminal (ex_state (ax_execution x)) \<and> ex_started_at (ax_execution x) \<noteq> None)
        (map snd (b_executions b))) (\<lambda>active.
    Option.bind (map_of (b_capabilities b) (ex_capability_id (ax_execution active))) (\<lambda>entry.
    let cap = ent_capability entry;
        verified = protection_verified (sl_now (W 0)) (cap_browser_session_id cap) b in
    Some \<lparr>uo_request_id = ax_request_id active, uo_agent_name = operation_agent_name (W 0) (ax_agent_id active) b,
          uo_credential_name = operation_credential_name (W 1) (ax_credential_id active) b,
          uo_origin = origin_as_str (cap_top_origin cap), uo_action_label = action_label (ax_action active),
          uo_steps = operation_steps (cap_used_count cap) (cap_max_uses cap) (map_of (b_recipes b) (ent_recipe_id entry)),
          uo_confirmed_protections = (if verified then CONFIRMED_PROTECTIONS else []),
          uo_protection_verified = verified\<rparr>))"

section \<open>Status\<close>

definition lingers :: "datetime \<Rightarrow> datetime \<Rightarrow> bool" where
  "lingers now at = (now - at \<le> seconds TERMINAL_STATE_LINGER_SECONDS)"

definition recently_in :: "ExecutionState \<Rightarrow> datetime \<Rightarrow> BrokerState \<Rightarrow> bool" where
  "recently_in state now b =
    list_ex (\<lambda>(_, active). ex_state (ax_execution active) = state \<and> is_some_and (ex_completed_at (ax_execution active)) (lingers now))
      (b_executions b)"

definition terminal_outcome :: "string \<Rightarrow> UiProtectionState option" where
  "terminal_outcome event_type =
    (if event_type = ''execution.completed'' then Some UiCompleted
     else if List.member [''execution.failed'', ''approval.denied'', ''approval.expired'', ''capability.revoked''] event_type
     then Some Blocked
     else if event_type = ''approval.invalidated'' then Some ProtectionInterrupted else None)"

definition most_recent_terminal_outcome :: "slot \<Rightarrow> datetime \<Rightarrow> BrokerState \<Rightarrow> failure + UiProtectionState option" where
  "most_recent_terminal_outcome sl now b =
    (if recently_in Indeterminate now b then Inr (Some OutcomeUncertain)
     else if recently_in CompletedEvidenceLost now b then Inr (Some UiCompletedEvidenceLost)
     else try_r (audit_rows sl b) (\<lambda>events.
       case rev events of [] \<Rightarrow> Inr None
       | latest # _ \<Rightarrow> if \<not> lingers now (ev_created_at latest) then Inr None
                       else Inr (terminal_outcome (ev_event_type latest))))"

definition interrupted :: "datetime \<Rightarrow> BrokerState \<Rightarrow> bool" where
  "interrupted now b =
    list_ex (\<lambda>(_, entry). let c = ent_capability entry in
      cap_state c = CapabilityState.Revoked \<and> cap_revoked_reason c = Some ''session_stale'' \<and> lingers now (cap_issued_at c))
      (b_capabilities b)"

definition ui_protection_state ::
    "slot \<Rightarrow> UiAuthorizationRequest list \<Rightarrow> UiActiveOperation option \<Rightarrow> datetime \<Rightarrow> BrokerState \<Rightarrow> failure + UiProtectionState" where
  "ui_protection_state sl pending active now b =
    (case active of
       Some operation \<Rightarrow> if \<not> uo_protection_verified operation then Inr ProtectionInterrupted else Inr SensitiveOperation
     | None \<Rightarrow>
       if interrupted now b then Inr ProtectionInterrupted
       else if pending \<noteq> [] then Inr ApprovalRequired
       else try_r (most_recent_terminal_outcome sl now b) (\<lambda>recent. Inr (unwrap_or recent Protected)))"

definition note_actor :: "AuditEvent \<Rightarrow> (string \<times> datetime) list \<Rightarrow> (string \<times> datetime) list" where
  "note_actor event latest =
    (case ev_actor_id event of None \<Rightarrow> latest
     | Some actor \<Rightarrow>
       (case map_of latest actor of None \<Rightarrow> AList.update actor (ev_created_at event) latest
        | Some existing \<Rightarrow> if ev_created_at event > existing then AList.update actor (ev_created_at event) latest else latest))"

definition recent_actor_ids :: "slot \<Rightarrow> int \<Rightarrow> BrokerState \<Rightarrow> failure + (string \<times> datetime) list" where
  "recent_actor_ids sl window b =
    try_r (audit_rows sl b) (\<lambda>events.
    Inr (fold note_actor (filter (\<lambda>event. sl_now sl - ev_created_at event \<le> window) events) []))"

definition ui_policy_fingerprint :: "broker_env \<Rightarrow> BrokerState \<Rightarrow> string" where
  "ui_policy_fingerprint E b =
    truncate_chars (b64_encode (ce_b64 (be_cap E)) (pe_policy_hash (b_policy_evaluator b))) 12"

definition ui_status ::
    "broker_env \<Rightarrow> (string \<Rightarrow> AuditContext option) \<Rightarrow> world \<Rightarrow> BrokerState \<Rightarrow> failure + UiStatus" where
  "ui_status E parse W b =
    (let now = sl_now (W 0) in
     try_r (ui_pending_approvals E parse (W 1) b) (\<lambda>pending.
     let active_operation = ui_active_operation (later 2 W) b in
     try_r (agent_rows (W 4) b) (\<lambda>agents.
     try_r (grant_rows (W 5) False b) (\<lambda>grants.
     try_r (credential_rows (W 6) b) (\<lambda>credentials.
     try_r (recent_actor_ids (W 7) (seconds (30 * 60)) b) (\<lambda>recent_actors.
     try_r (ui_protection_state (W 8) pending active_operation now b) (\<lambda>protection.
     Inr \<lparr>us_protection = protection, us_pending_approvals = of_nat (length pending), us_active_operation = active_operation,
          us_browser_sessions_connected = of_nat (length (filter (\<lambda>(_, active).
            bs_state (as_session active) = BrowserSessionState.Active) (b_sessions b))),
          us_agents_enrolled = of_nat (length agents),
          us_agents_active = of_nat (length (filter (\<lambda>agent. map_of recent_actors (ag_agent_id agent) \<noteq> None) agents)),
          us_active_grants = of_nat (length (filter (\<lambda>g. StandingGrant_is_active_at g now) grants)),
          us_providers = sorted_set (map (\<lambda>c. provider_label (cr_provider c)) (filter (\<lambda>c. cr_disabled_at c = None) credentials)),
          us_policy_fingerprint = ui_policy_fingerprint E b,
          us_audit_chain_intact = is_ok (verify_audit_integrity E (W 9) b)\<rparr>)))))))"

section \<open>Activity\<close>

definition agent_display_names :: "slot \<Rightarrow> BrokerState \<Rightarrow> (string \<times> string) list" where
  "agent_display_names sl b =
    (case agent_rows sl b of Inl _ \<Rightarrow> []
     | Inr agents \<Rightarrow> fold (\<lambda>agent. AList.update (ag_agent_id agent) (sanitize_agent_text (ag_display_name agent))) agents [])"

definition empty_audit_context :: AuditContext where
  "empty_audit_context = audit_context None None None None None None None None None"

definition to_option :: "'e + 'a \<Rightarrow> 'a option" where
  "to_option r = (case r of Inl _ \<Rightarrow> None | Inr x \<Rightarrow> Some x)"

definition activity_row ::
    "(string \<Rightarrow> AuditContext option) \<Rightarrow> (string \<times> string) list \<Rightarrow> AuditEvent \<Rightarrow> UiActivityEvent" where
  "activity_row parse agent_names event =
    (let context = unwrap_or (parse (ev_event_json event)) empty_audit_context in
     \<lparr>uv_sequence = ev_sequence event, uv_event_id = ev_event_id event, uv_event_type = ev_event_type event,
      uv_summary = summarize_event (ev_event_type event) (ac_target_origin context),
      uv_outcome = classify_event (ev_event_type event) (ac_decision context), uv_actor_type = ev_actor_type event,
      uv_actor_name = map_option (\<lambda>actor. unwrap_or (map_of agent_names actor) actor) (ev_actor_id event),
      uv_origin = ac_target_origin context,
      uv_action = Option.bind (ac_action context) (\<lambda>value. to_option (ActionKind_from_str value)),
      uv_risk = Option.bind (ac_risk_level context) (\<lambda>value. to_option (RiskLevel_from_str value)),
      uv_error_code = ac_error_code context, uv_created_at = ev_created_at event\<rparr>)"

definition ui_activity ::
    "(string \<Rightarrow> AuditContext option) \<Rightarrow> world \<Rightarrow> u32 \<Rightarrow> BrokerState \<Rightarrow> failure + UiActivityEvent list" where
  "ui_activity parse W limit b =
    try_r (audit_rows (W 0) b) (\<lambda>events.
    let rows = map (activity_row parse (agent_display_names (W 1) b)) (take (clamp 1 500 (unat limit)) (rev events)) in
    Inr (sort_key (\<lambda>r. - uint (uv_sequence r)) rows))"

section \<open>Agents, credentials and browser sessions\<close>

definition ui_agent :: "datetime \<Rightarrow> StandingGrant list \<Rightarrow> AuditEvent list \<Rightarrow> AgentPrincipal \<Rightarrow> UiAgent" where
  "ui_agent now grants events agent =
    (let agent_events = filter (\<lambda>event. ev_actor_id event = Some (ag_agent_id agent)) events in
     \<lparr>un_agent_id = ag_agent_id agent, un_display_name = sanitize_agent_text (ag_display_name agent), un_role = ag_role agent,
      un_state = ag_state agent, un_created_at = ag_created_at agent,
      un_active_grants = of_nat (length (filter (\<lambda>g. sg_agent_id g = ag_agent_id agent \<and> StandingGrant_is_active_at g now) grants)),
      un_recent_event_count = of_nat (length agent_events),
      un_last_activity_at = (if agent_events = [] then None else Some (ev_created_at (last agent_events)))\<rparr>)"

definition ui_agents :: "world \<Rightarrow> BrokerState \<Rightarrow> failure + UiAgent list" where
  "ui_agents W b =
    try_r (agent_rows (W 0) b) (\<lambda>agents.
    try_r (grant_rows (W 1) False b) (\<lambda>grants.
    try_r (audit_rows (W 2) b) (\<lambda>events. Inr (map (ui_agent (sl_now (W 0)) grants events) agents))))"

definition max_of :: "datetime list \<Rightarrow> datetime option" where
  "max_of ts = (case ts of [] \<Rightarrow> None | t # rest \<Rightarrow> Some (fold max rest t))"

definition ui_credential :: "datetime \<Rightarrow> StandingGrant list \<Rightarrow> CredentialDescriptor \<Rightarrow> UiCredential" where
  "ui_credential now grants credential =
    (let related = filter (\<lambda>g. sg_credential_name g = cr_name credential) grants in
     \<lparr>uc_name = cr_name credential, uc_kind = cr_kind credential, uc_provider = provider_label (cr_provider credential),
      uc_allowed_actions = cr_allowed_actions credential,
      uc_approved_origins = sorted_set (map (\<lambda>g. origin_as_str (sg_origin g)) (filter (\<lambda>g. StandingGrant_is_active_at g now) related)),
      uc_used_by = sorted_set (map (\<lambda>g. sanitize_agent_text (sg_agent_name g)) related),
      uc_last_used_at = max_of (List.map_filter sg_last_used_at related), uc_disabled = (cr_disabled_at credential \<noteq> None)\<rparr>)"

definition ui_credentials :: "world \<Rightarrow> BrokerState \<Rightarrow> failure + UiCredential list" where
  "ui_credentials W b =
    try_r (credential_rows (W 0) b) (\<lambda>credentials.
    try_r (grant_rows (W 1) False b) (\<lambda>grants. Inr (map (ui_credential (sl_now (W 0)) grants) credentials)))"

definition ui_browser_session :: "BrokerState \<Rightarrow> ActiveBrowserSession \<Rightarrow> UiBrowserSession" where
  "ui_browser_session b active =
    (let s = as_session active in
     \<lparr>ub_session_id = bs_session_id s, ub_profile = bs_profile_id s, ub_state = BrowserSessionState_as_str (bs_state s),
      ub_assurance = bs_assurance s, ub_last_heartbeat_at = bs_last_heartbeat_at s, ub_active_tab_count = as_active_tab_count active,
      ub_current_origins = sorted_set (case map_of (b_page_contexts b) (bs_session_id s) of None \<Rightarrow> []
        | Some tabs \<Rightarrow> map (\<lambda>(_, context). origin_as_str (pg_top_origin context)) tabs)\<rparr>)"

definition ui_browser_sessions :: "BrokerState \<Rightarrow> UiBrowserSession list" where
  "ui_browser_sessions b = sort_key ub_profile (map (\<lambda>(_, active). ui_browser_session b active) (b_sessions b))"

section \<open>Standing grants\<close>

definition ui_grant :: "datetime \<Rightarrow> StandingGrant \<Rightarrow> UiGrant" where
  "ui_grant now g =
    \<lparr>ug_grant_id = sg_grant_id g, ug_agent_name = sanitize_agent_text (sg_agent_name g), ug_credential_name = sg_credential_name g,
     ug_origin = origin_as_str (sg_origin g), ug_action = sg_action g, ug_action_label = action_label (sg_action g),
     ug_risk_ceiling = sg_risk_ceiling g, ug_require_presence = sg_require_presence g, ug_created_at = sg_created_at g,
     ug_expires_at = sg_expires_at g, ug_revoked_at = sg_revoked_at g, ug_revoked_reason = sg_revoked_reason g,
     ug_last_used_at = sg_last_used_at g, ug_use_count = sg_use_count g, ug_active = StandingGrant_is_active_at g now\<rparr>"

definition ui_grants :: "slot \<Rightarrow> bool \<Rightarrow> BrokerState \<Rightarrow> failure + UiGrant list" where
  "ui_grants sl include_revoked b =
    try_r (grant_rows sl include_revoked b) (\<lambda>grants. Inr (map (ui_grant (sl_now sl)) grants))"

definition approved_grant :: "string \<Rightarrow> datetime \<Rightarrow> int \<Rightarrow> AuthorizationContext \<Rightarrow> StandingGrant" where
  "approved_grant uuid now ttl_days a =
    \<lparr>sg_grant_id = id_new ''grant'' uuid, sg_agent_id = au_agent_id a, sg_agent_name = au_agent_name a,
     sg_credential_id = cr_credential_id (au_credential a), sg_credential_name = cr_name (au_credential a),
     sg_origin = pg_top_origin (au_page_context a), sg_action = au_action a, sg_risk_ceiling = au_base_risk a,
     sg_require_presence = False, sg_created_at = now, sg_expires_at = now + seconds (86400 * ttl_days), sg_revoked_at = None,
     sg_revoked_reason = None, sg_last_used_at = None, sg_use_count = 0\<rparr>"

definition ui_create_grant :: "broker_env \<Rightarrow> world \<Rightarrow> GrantCreateParams \<Rightarrow> GrantCreateResult broker_handler" where
  "ui_create_grant E W params =
    (let now = sl_now (W 0) in
     bindh (guardh (0 < gcp_ttl_days params \<and> gcp_ttl_days params \<le> MAX_GRANT_TTL_DAYS)
              (rpc INVALID_PARAMS ''Grant lifetime is outside the permitted range'')) (\<lambda>_.
     bindh (peekh (\<lambda>b. ok_or (rpc INVALID_PARAMS ''Unknown approval ID'') (map_of (b_approvals b) (gcp_approval_id params)))) (\<lambda>pending.
     let a = pn_authorization pending; risk = au_base_risk a in
     bindh (guardh (RiskLevel_rank risk \<le> RiskLevel_rank MAX_GRANTABLE_RISK)
              (rpc AUTH_POLICY_DENIED ''This risk level can never be covered by a standing authorization'')) (\<lambda>_.
     bindh (guardh (\<not> (pd_require_user_presence (au_decision a) \<and> \<not> gcp_presence_verified params))
              (rpc APPROVAL_REJECTED ''Creating this authorization requires verified user presence'')) (\<lambda>_.
     bindh (decide_approval E (later 1 W) (gcp_approval_id params) True (gcp_context_digest params) ''local-admin''
              (gcp_presence_verified params)) (\<lambda>decision.
     let grant = approved_grant (sl_uuid (W 5)) now (gcp_ttl_days params) a in
     bindh (insert_standing_grant_audited E (W 6) grant
              (audit_context (Some (au_request_id a)) (Some (cr_credential_id (au_credential a))) None
                 (Some (au_browser_session_id a)) (Some (origin_as_str (sg_origin grant))) (Some (ActionKind_as_str (sg_action grant)))
                 (Some ''grant_created'') (Some (RiskLevel_as_str risk)) None)) (\<lambda>_.
     returnh \<lparr>gcr_grant = ui_grant now grant, gcr_decision = decision\<rparr>)))))))"

definition split_once :: "char \<Rightarrow> string \<Rightarrow> (string \<times> string) option" where
  "split_once c s =
    (if List.member s c then Some (takeWhile (\<lambda>x. x \<noteq> c) s, tl (dropWhile (\<lambda>x. x \<noteq> c) s)) else None)"

definition parse_selector :: "string \<Rightarrow> failure + GrantSelector" where
  "parse_selector selector =
    (let by_id = map_err (\<lambda>_. rpc INVALID_PARAMS ''Unknown grant'')
                   (try_r (id_parse ''grant'' selector) (\<lambda>i. Inr (SelId i))) in
     case split_once (CHR '':'') selector of
       None \<Rightarrow> by_id
     | Some (kind, name) \<Rightarrow>
       if kind = ''agent'' then Inr (SelAgent name) else if kind = ''credential'' then Inr (SelCredential name) else by_id)"

fun audit_revoked :: "broker_env \<Rightarrow> world \<Rightarrow> StandingGrant list \<Rightarrow> unit broker_handler" where
  "audit_revoked E W [] = returnh ()"
| "audit_revoked E W (g # gs) =
    bindh (record_audit_event E (W 0) ''grant.revoked'' ''admin'' None
             (audit_context None (Some (sg_credential_id g)) None None (Some (origin_as_str (sg_origin g)))
                (Some (ActionKind_as_str (sg_action g))) (Some ''grant_revoked'') (Some (RiskLevel_as_str (sg_risk_ceiling g))) None)) (\<lambda>_.
    audit_revoked E (later 1 W) gs)"

definition ui_revoke_grants :: "broker_env \<Rightarrow> world \<Rightarrow> string \<Rightarrow> string \<Rightarrow> GrantRevokeResult broker_handler" where
  "ui_revoke_grants E W selector reason =
    bindh (lifth (parse_selector selector)) (\<lambda>sel.
    bindh (map_errh (\<lambda>_. internal ''Grant storage unavailable'')
             (on_store (revoke_standing_grants (sl_io (W 0)) sel reason (sl_now (W 0))))) (\<lambda>revoked.
    bindh (audit_revoked E (later 1 W) revoked) (\<lambda>_.
    returnh \<lparr>grr_revoked = of_nat (length revoked)\<rparr>)))"

text \<open>The record of the disabling takes the slot after those of the revoked grants; \<open>agent_disabled\<close> is given it.\<close>

definition agent_disabled :: "broker_env \<Rightarrow> slot \<Rightarrow> AgentId \<Rightarrow> unit broker_handler" where
  "agent_disabled E sl agent_id =
    bindh (modifyh (revoke_entries_where (\<lambda>c. cap_agent_id c = agent_id) ''agent_disabled'')) (\<lambda>_.
    record_audit_event E sl ''agent.disabled'' ''admin'' (Some agent_id)
      (audit_context None None None None None None (Some ''agent_disabled'') None None))"

definition ui_disable_agent :: "broker_env \<Rightarrow> world \<Rightarrow> AgentId \<Rightarrow> GrantRevokeResult broker_handler" where
  "ui_disable_agent E W agent_id =
    bindh (peekh (\<lambda>b. map_err (\<lambda>_. rpc INVALID_PARAMS ''Unknown agent'')
             (stored_at (W 0) [] (get_enrolled_agent (b_store b) agent_id)))) (\<lambda>agent.
    bindh (ui_revoke_grants E (later 2 W) (''agent:'' @ ag_display_name agent) ''agent disabled by user'') (\<lambda>revoked.
    bindh (agent_disabled E (W 1) agent_id) (\<lambda>_.
    returnh revoked)))"

end
