(* ===== verification/Broker_Invariants.thy ===== *)
theory Broker_Invariants
  imports Broker_Ui Store_Properties
begin

text \<open>
  What every handler of the daemon keeps.  \<open>audit_op\<close> is what an operation of the store that takes an
  audit event promises: it adds that event, and nothing else, to the log exactly when it succeeds.
  \<open>log_rel\<close> is the relation between the states before and after a handler: the store makes only its own
  steps, the keys stay, and a cursor that stands at the end of a verifiable log still does.  It is an
  instance of \<open>state_relation\<close>, so a handler respects it when its parts do.
\<close>

section \<open>Audited operations of the store\<close>

definition audit_op :: "(AuditEvent \<Rightarrow> db \<Rightarrow> (StoreError + 'a) \<times> db) \<Rightarrow> bool" where
  "audit_op op = (\<forall>e d. db_step d (snd (op e d))
     \<and> t_audit_events (snd (op e d)) = (if is_ok (fst (op e d)) then t_audit_events d @ [e] else t_audit_events d))"

lemma audit_opI:
  assumes "\<And>e d. db_step d (snd (op e d))"
    and "\<And>e d x d'. op e d = (Inr x, d') \<Longrightarrow> t_audit_events d' = t_audit_events d @ [e]"
    and "\<And>e d err d'. op e d = (Inl err, d') \<Longrightarrow> d' = d"
  shows "audit_op op"
  unfolding audit_op_def
proof (intro allI conjI)
  fix e d
  show "db_step d (snd (op e d))" by (rule assms(1))
  show "t_audit_events (snd (op e d)) = (if is_ok (fst (op e d)) then t_audit_events d @ [e] else t_audit_events d)"
    using assms(2,3)[of e d] by (cases "op e d") (force simp: is_ok_def split: sum.splits)
qed

lemma atomically_Inr_iff: "atomically d r = (Inr x, d') \<longleftrightarrow> r = Inr (x, d')"
  by (auto simp: atomically_def split: sum.splits)

lemmas transactions = atomically_Inr_iff try_r_Inr_iff Let_def

lemma other_tables:
  "t_audit_events (consume_rows i d) = t_audit_events d"
  "t_audit_events (decide_rows a d) = t_audit_events d"
  "revoke_rows p reason d = (n, d1) \<Longrightarrow> t_audit_events d1 = t_audit_events d"
  "insert_approval_row a d = Inr d2 \<Longrightarrow> t_audit_events d2 = t_audit_events d"
  by (auto simp: consume_rows_def decide_rows_def revoke_rows_def insert_approval_row_def try_r_Inr_iff)

lemma audit_ops [simp, intro]:
  "audit_op (insert_audit_event io)"
  "audit_op (insert_standing_grant_with_audit io g)"
  "audit_op (insert_capability_with_audit io c k)"
  "audit_op (insert_approval_with_audit io a)"
  "audit_op (update_approval_with_audit io a)"
  "audit_op (\<lambda>e. consume_capability_with_execution_and_audit io i x e ts)"
  "audit_op (finish_execution_with_audit io x)"
  "audit_op (revoke_capabilities_not_policy_with_audit io h)"
  "audit_op (revoke_capability_with_audit io i r)"
proof -
  show "audit_op (insert_audit_event io)"
    by (rule audit_opI[OF audit_ops_step(1)]) (auto simp: insert_audit_event_def transactions
        dest: event_tx_tables(6) atomically_error)
  show "audit_op (insert_standing_grant_with_audit io g)"
    by (rule audit_opI[OF grant_ops_step(1)]) (auto simp: insert_standing_grant_with_audit_def transactions
        dest: event_tx_tables(6) atomically_error)
  show "audit_op (insert_capability_with_audit io c k)"
    by (rule audit_opI[OF insert_capability_step]) (auto simp: insert_capability_with_audit_def transactions
        dest: event_tx_tables(6) atomically_error)
  show "audit_op (insert_approval_with_audit io a)"
    by (rule audit_opI[OF approval_ops_step(2)]) (auto simp: insert_approval_with_audit_def transactions other_tables
        dest!: event_tx_tables(6) dest: atomically_error)
  show "audit_op (update_approval_with_audit io a)"
    by (rule audit_opI[OF approval_ops_step(4)]) (auto simp: update_approval_with_audit_def transactions other_tables
        dest!: event_tx_tables(6) dest: atomically_error split: if_splits)
  show "audit_op (\<lambda>e. consume_capability_with_execution_and_audit io i x e ts)"
    by (rule audit_opI[OF consume_step]) (auto dest: consume_tables(4) consume_aborts)
  show "audit_op (finish_execution_with_audit io x)"
    by (rule audit_opI[OF finish_execution_step]) (auto simp: finish_execution_with_audit_def transactions
        dest!: event_tx_tables(6) dest: atomically_error split: if_splits)
  show "audit_op (revoke_capabilities_not_policy_with_audit io h)"
    by (rule audit_opI[OF revoke_ops_step(4)]) (auto simp: revoke_capabilities_not_policy_with_audit_def transactions other_tables
        dest!: event_tx_tables(6) dest: atomically_error split: prod.splits)
  show "audit_op (revoke_capability_with_audit io i r)"
    by (rule audit_opI[OF revoke_ops_step(3)]) (auto simp: revoke_capability_with_audit_def transactions other_tables
        dest!: event_tx_tables(6) dest: atomically_error split: prod.splits if_splits)
qed

text \<open>The operations that leave the log alone.\<close>

lemma silent_ops:
  "t_audit_events (snd (touch_standing_grant io gi t d)) = t_audit_events d"
  "t_audit_events (snd (consume_oauth_capability io i d)) = t_audit_events d"
  "t_audit_events (snd (insert_oauth_grant io og d)) = t_audit_events d"
  "t_audit_events (snd (insert_audit_checkpoint io c d)) = t_audit_events d"
  by (auto simp: touch_standing_grant_def consume_oauth_capability_def insert_oauth_grant_def insert_audit_checkpoint_def
      atomically_def stmt_def try_r_def other_tables split: option.splits sum.splits if_splits prod.splits)

lemma revoke_grants_silent: "t_audit_events (snd (revoke_standing_grants io sel reason now d)) = t_audit_events d"
proof -
  have "t_audit_events (snd (revoke_each io n reason now gs d)) = t_audit_events d" for n gs
    by (induction gs arbitrary: n d) (auto split: option.split)
  then show ?thesis
    by (auto simp: revoke_standing_grants_def Let_def split: option.split prod.split sum.split) (metis snd_conv)+
qed

lemma store_token_grant_db:
  assumes "store_token_grant u now io stored deleted c tokens d = (r, k, d')"
  shows "db_step d d'" "t_audit_events d' = t_audit_events d"
proof -
  have "d' = d \<or> (\<exists>g. d' = snd (insert_oauth_grant io g d))"
  proof (cases stored)
    case (Inr v)
    let ?g = "\<lparr>og_grant_id = id_new ''grant'' u, og_credential_id = c, og_provider_locator = ''oauth-token-'' @ id_new ''grant'' u,
      og_scopes = ts_scopes tokens, og_subject_hint = None, og_created_at = now, og_expires_at = ts_expires_at tokens\<rparr>"
    have "d' = snd (insert_oauth_grant io ?g d)"
      using assms Inr by (cases "insert_oauth_grant io ?g d") (auto simp: store_token_grant_def Let_def split: sum.splits)
    then show ?thesis by blast
  qed (use assms in \<open>simp add: store_token_grant_def Let_def\<close>)
  then show "db_step d d'" "t_audit_events d' = t_audit_events d" by (auto simp: simple_ops_step silent_ops)
qed

section \<open>The cursor and the log\<close>

definition log_in_step :: "audit_env \<Rightarrow> BrokerState \<Rightarrow> bool" where
  "log_in_step A b =
    (verify_audit_chain A (list_audit_events (b_store b)) [(b_audit_key_version b, b_audit_key b)] = Inr ()
     \<and> b_next_sequence b = of_nat (length (t_audit_events (b_store b)) + 1)
     \<and> b_latest_hash b = last_hash (list_audit_events (b_store b)))"

definition log_rel :: "audit_env \<Rightarrow> BrokerState \<Rightarrow> BrokerState \<Rightarrow> bool" where
  "log_rel A b b' =
    (db_step (b_store b) (b_store b')
     \<and> length (t_audit_events (b_store b)) \<le> length (t_audit_events (b_store b'))
     \<and> b_broker_key b' = b_broker_key b \<and> b_key_id b' = b_key_id b
     \<and> b_audit_key b' = b_audit_key b \<and> b_audit_key_version b' = b_audit_key_version b
     \<and> (length (t_audit_events (b_store b')) < 2 ^ 63 \<longrightarrow> log_in_step A b \<longrightarrow> log_in_step A b'))"

interpretation logs: state_relation "log_rel A"
proof
  show "log_rel A b b" for b by (simp add: log_rel_def)
  show "log_rel A b b' \<Longrightarrow> log_rel A b' b'' \<Longrightarrow> log_rel A b b''" for b b' b''
    unfolding log_rel_def by (auto intro: db_step_trans)
qed

text \<open>A change outside the store and the cursor.\<close>

lemma log_rel_same:
  assumes "b_store b' = b_store b" "b_next_sequence b' = b_next_sequence b" "b_latest_hash b' = b_latest_hash b"
    "b_broker_key b' = b_broker_key b" "b_key_id b' = b_key_id b"
    "b_audit_key b' = b_audit_key b" "b_audit_key_version b' = b_audit_key_version b"
  shows "log_rel A b b'"
  using assms by (simp add: log_rel_def log_in_step_def)

lemma list_audit_events_cong: "t_audit_events d' = t_audit_events d \<Longrightarrow> list_audit_events d' = list_audit_events d"
  by (simp add: list_audit_events_def)

lemma log_rel_store:
  assumes "db_step (b_store b) d" "t_audit_events d = t_audit_events (b_store b)"
  shows "log_rel A b (b\<lparr>b_store := d\<rparr>)"
  using assms list_audit_events_cong[OF assms(2)] by (simp add: log_rel_def log_in_step_def)

lemma log_rel_try_audited:
  assumes "audit_op op"
  shows "log_rel (be_audit E) b (snd (try_audited E sl ty at ai ctx op b))"
proof (cases "create_audit_event (be_audit E) (sl_uuid sl) (b_next_sequence b) (b_latest_hash b)
    (b_audit_key_version b) (b_audit_key b) ty at ai ctx (sl_now sl)")
  case (Inl err)
  then show ?thesis by (simp add: try_audited_def logs.sr_refl)
next
  case (Inr e)
  obtain r d where op: "op e (b_store b) = (r, d)" by fastforce
  with assms have st: "db_step (b_store b) d"
    and ev: "t_audit_events d = (if is_ok r then t_audit_events (b_store b) @ [e] else t_audit_events (b_store b))"
    unfolding audit_op_def by (metis fst_conv snd_conv)+
  show ?thesis
  proof (cases r)
    case (Inl err)
    then show ?thesis using Inr op st ev by (simp add: try_audited_def log_rel_store)
  next
    case (Inr x)
    then have ev': "t_audit_events d = t_audit_events (b_store b) @ [e]" using ev by simp
    let ?b = "b\<lparr>b_store := d, b_next_sequence := b_next_sequence b + 1, b_latest_hash := ev_event_hash e\<rparr>"
    have "log_in_step (be_audit E) ?b"
      if "length (t_audit_events d) < 2 ^ 63" "log_in_step (be_audit E) b"
    proof -
      let ?xs = "list_audit_events (b_store b)"
      have len: "length ?xs = length (t_audit_events (b_store b))" by (simp add: list_audit_events_def)
      have cur: "b_next_sequence b = of_nat (length ?xs + 1)" "b_latest_hash b = last_hash ?xs"
        "verify_audit_chain (be_audit E) ?xs [(b_audit_key_version b, b_audit_key b)] = Inr ()"
        using that(2) len by (simp_all add: log_in_step_def)
      have ext: "extends (be_audit E) [(b_audit_key_version b, b_audit_key b)] ?xs e"
        using \<open>create_audit_event _ _ _ _ _ _ _ _ _ _ _ = Inr e\<close> unfolding cur(1,2)
        by (rule create_extends) simp
      then have "list_audit_events d = ?xs @ [e]"
        using cur(3) that(1) ev' len by (intro list_append_event) (auto simp: extends_def)
      then show ?thesis using cur ext ev' len by (simp add: log_in_step_def verify_snoc last_hash_def)
    qed
    then show ?thesis using \<open>create_audit_event _ _ _ _ _ _ _ _ _ _ _ = Inr e\<close> Inr op st ev'
      by (simp add: try_audited_def log_rel_def)
  qed
qed

lemma steps_try_audited [steps_intros]:
  "audit_op op \<Longrightarrow> steps (log_rel (be_audit E)) (try_audited E sl ty at ai ctx op)"
  using log_rel_try_audited by (intro stepsI)

lemma steps_audited [steps_intros]:
  "audit_op op \<Longrightarrow> steps (log_rel (be_audit E)) (audited E sl ty at ai ctx af sf op)"
  unfolding audited_def by (intro steps_intros)

lemma steps_quiet [steps_intros]:
  assumes "\<And>b. b_store (f b) = b_store b" "\<And>b. b_next_sequence (f b) = b_next_sequence b"
    "\<And>b. b_latest_hash (f b) = b_latest_hash b" "\<And>b. b_broker_key (f b) = b_broker_key b"
    "\<And>b. b_key_id (f b) = b_key_id b"
    "\<And>b. b_audit_key (f b) = b_audit_key b" "\<And>b. b_audit_key_version (f b) = b_audit_key_version b"
  shows "steps (log_rel A) (modifyh f)"
  using assms by (intro logs.steps_modify log_rel_same) auto

lemma steps_store [steps_intros]:
  assumes "\<And>d. db_step d (snd (op d))" "\<And>d. t_audit_events (snd (op d)) = t_audit_events d"
  shows "steps (log_rel A) (on_store op)"
proof (rule stepsI)
  fix b
  have "snd (on_store op b) = b\<lparr>b_store := snd (op (b_store b))\<rparr>" by (simp add: on_store_def split: prod.split)
  then show "log_rel A b (snd (on_store op b))" using assms by (simp add: log_rel_store)
qed

section \<open>Every handler respects the relation\<close>

lemma steps_record [steps_intros]: "steps (log_rel (be_audit E)) (record_audit_event E sl ty at ai ctx)"
  unfolding record_audit_event_def by (intro steps_intros audit_ops)

lemma quiet_fields [simp]:
  "b_store (issue_capability e b) = b_store b" "b_store (put_response r b) = b_store b"
  "b_next_sequence (issue_capability e b) = b_next_sequence b" "b_next_sequence (put_response r b) = b_next_sequence b"
  "b_latest_hash (issue_capability e b) = b_latest_hash b" "b_latest_hash (put_response r b) = b_latest_hash b"
  "b_broker_key (issue_capability e b) = b_broker_key b" "b_broker_key (put_response r b) = b_broker_key b"
  "b_key_id (issue_capability e b) = b_key_id b" "b_key_id (put_response r b) = b_key_id b"
  "b_audit_key (issue_capability e b) = b_audit_key b" "b_audit_key (put_response r b) = b_audit_key b"
  "b_audit_key_version (issue_capability e b) = b_audit_key_version b"
  "b_audit_key_version (put_response r b) = b_audit_key_version b"
  by (simp_all add: issue_capability_def put_response_def Let_def)

lemma steps_mint [steps_intros]: "steps (log_rel (be_audit E)) (mint_authorized_capability E W a i)"
  unfolding mint_authorized_capability_def by (intro steps_intros audit_ops; simp)

lemma steps_failure [steps_intros]:
  "(\<And>err. e = Rpc err \<Longrightarrow> steps rel (f err)) \<Longrightarrow> (e = Panic \<Longrightarrow> steps rel m)
    \<Longrightarrow> steps rel (case e of Rpc err \<Rightarrow> f err | Panic \<Rightarrow> m)"
  by (cases e) auto

lemma steps_requests [steps_intros]:
  "steps (log_rel (be_audit E)) (request_approval E W now a)"
  "steps (log_rel (be_audit E)) (authorize E W now a)"
  "steps (log_rel (be_audit E)) (evaluate_request E sl g ps ss cx)"
  "steps (log_rel (be_audit E)) (require_assurance E sl g ps cr rk)"
  "steps (log_rel (be_audit E)) (handle_new_action_request E W g ps)"
proof -
  show 1: "steps (log_rel (be_audit E)) (request_approval E W now a)" for now a
    unfolding request_approval_def by (intro steps_intros audit_ops; simp)
  show 2: "steps (log_rel (be_audit E)) (authorize E W now a)" for now a
    unfolding authorize_def
    by (intro steps_intros audit_ops 1; simp add: grant_ops_step silent_ops)
  show 3: "steps (log_rel (be_audit E)) (evaluate_request E sl g ps ss cx)" for sl ss cx
    unfolding evaluate_request_def by (intro steps_intros)
  show 4: "steps (log_rel (be_audit E)) (require_assurance E sl g ps cr rk)" for sl cr rk
    unfolding require_assurance_def by (intro steps_intros)
  show "steps (log_rel (be_audit E)) (handle_new_action_request E W g ps)"
    unfolding handle_new_action_request_def authorization_for_def by (intro steps_intros 2 3 4)
qed

lemma steps_agent [steps_intros]:
  "steps (log_rel (be_audit E)) (handle_action_request E W g ps)"
  "steps (log_rel (be_audit E)) (handle_action_authenticate E W g qs)"
  "steps (log_rel A) (handle_action_cancel g cs)"
proof -
  show 1: "steps (log_rel (be_audit E)) (handle_action_request E W g ps)" for W ps
    unfolding handle_action_request_def by (intro steps_intros; simp add: admit_request_def)
  show "steps (log_rel (be_audit E)) (handle_action_authenticate E W g qs)"
    unfolding handle_action_authenticate_def by (intro steps_intros 1)
  show "steps (log_rel A) (handle_action_cancel g cs)"
    unfolding handle_action_cancel_def by (intro steps_intros; simp add: revoke_entries_where_def)
qed

lemma steps_approvals [steps_intros]:
  "steps (log_rel (be_audit E)) (decide_approval_at E W i ok dg ac pv now)"
  "steps (log_rel (be_audit E)) (decide_approval E W i ok dg ac pv)"
  "steps (log_rel (be_audit E)) (expire_each E W now xs)"
  "steps (log_rel (be_audit E)) (expire_pending_approvals E W now)"
proof -
  show 1: "steps (log_rel (be_audit E)) (decide_approval_at E W i ok dg ac pv now)" for W i ok dg ac pv now
    unfolding decide_approval_at_def by (intro steps_intros audit_ops; simp)
  show "steps (log_rel (be_audit E)) (decide_approval E W i ok dg ac pv)"
    unfolding decide_approval_def by (rule 1)
  show 2: "steps (log_rel (be_audit E)) (expire_each E W now xs)" for W xs
    by (induction xs arbitrary: W) (auto intro!: steps_intros 1)
  show "steps (log_rel (be_audit E)) (expire_pending_approvals E W now)"
    unfolding expire_pending_approvals_def by (intro steps_intros 2)
qed

lemma window_fields [simp]:
  "b_store (enter_window i t b) = b_store b" "b_store (exit_window i t b) = b_store b"
  "b_next_sequence (enter_window i t b) = b_next_sequence b" "b_next_sequence (exit_window i t b) = b_next_sequence b"
  "b_latest_hash (enter_window i t b) = b_latest_hash b" "b_latest_hash (exit_window i t b) = b_latest_hash b"
  "b_broker_key (enter_window i t b) = b_broker_key b" "b_broker_key (exit_window i t b) = b_broker_key b"
  "b_key_id (enter_window i t b) = b_key_id b" "b_key_id (exit_window i t b) = b_key_id b"
  "b_audit_key (enter_window i t b) = b_audit_key b" "b_audit_key (exit_window i t b) = b_audit_key b"
  "b_audit_key_version (enter_window i t b) = b_audit_key_version b"
  "b_audit_key_version (exit_window i t b) = b_audit_key_version b"
  by (simp_all add: enter_window_def exit_window_def)

lemma window_steps:
  "log_rel A b (close_execution_window i b)" "log_rel A b (open_guard g t b)" "log_rel A b (drop_guard p b)"
  by (auto simp: close_execution_window_def open_guard_def drop_guard_def intro!: log_rel_same split: option.splits)

lemma steps_browsers [steps_intros]:
  "steps (log_rel A) (handle_executor_prepare W c)"
  "steps (log_rel (be_audit E)) (handle_browser_register E W rp)"
  "steps (log_rel A) (handle_executor_heartbeat sl si n)"
  "steps (log_rel A) (oauth_plan E sl ci en rc)"
  "steps (log_rel A) (make_offer E sl ci en)"
  "steps (log_rel A) (next_offer E W si q)"
  "steps (log_rel A) (handle_execution_next E W si)"
proof -
  show "steps (log_rel A) (handle_executor_prepare W c)"
    unfolding handle_executor_prepare_def by (intro steps_intros; simp add: register_page_context_def Let_def)
  show "steps (log_rel (be_audit E)) (handle_browser_register E W rp)"
    unfolding handle_browser_register_def by (intro steps_intros; simp)
  show "steps (log_rel A) (handle_executor_heartbeat sl si n)"
    unfolding handle_executor_heartbeat_def by (intro steps_intros; simp)
  show 1: "steps (log_rel A) (oauth_plan E sl ci en rc)" for sl ci en rc
    unfolding oauth_plan_def by (intro steps_intros; simp)
  show 2: "steps (log_rel A) (make_offer E sl ci en)" for sl ci en
    unfolding make_offer_def by (intro steps_intros 1)
  show 3: "steps (log_rel A) (next_offer E W si q)" for W q
    by (induction q arbitrary: W) (auto simp: set_queue_def simp del: bindh_run intro!: steps_intros 2)
  show "steps (log_rel A) (handle_execution_next E W si)"
    unfolding handle_execution_next_def by (intro steps_intros 3)
qed

lemma steps_callback [steps_intros]:
  "steps (log_rel (be_audit E)) (fail_oauth_callback E W pe ci er)"
  "steps (log_rel (be_audit E)) (callback_begin E W cps)"
  "steps (log_rel (be_audit E)) (callback_finish E W ci pe)"
proof -
  show 1: "steps (log_rel (be_audit E)) (fail_oauth_callback E W pe ci er)" for W pe ci er
    unfolding fail_oauth_callback_def by (intro steps_intros; simp)
  show "steps (log_rel (be_audit E)) (callback_begin E W cps)"
    unfolding callback_begin_def by (intro steps_intros 1; simp add: revoke_ops_step silent_ops)
  have kg: "db_step d (snd (keep_grant W c ts d))" "t_audit_events (snd (keep_grant W c ts d)) = t_audit_events d" for c ts d
    by (auto simp: keep_grant_def split: prod.splits dest: store_token_grant_db)
  show "steps (log_rel (be_audit E)) (callback_finish E W ci pe)"
    unfolding callback_finish_def by (intro steps_intros 1; simp add: kg)
qed

lemma steps_consume [steps_intros]:
  "steps (log_rel A) (consume_granted cl cp en gn now ex)"
  "steps (log_rel (be_audit E)) (consume_begin E W now ps)"
  "steps (log_rel (be_audit E)) (consume_finish E sl sec p)"
  "steps (log_rel (be_audit E)) (handle_executor_consume E W ps)"
  "steps (log_rel (be_audit E)) (handle_executor_result E W rs)"
proof -
  show 1: "steps (log_rel A) (consume_granted cl cp en gn now ex)" for A cl cp en gn now ex
    unfolding consume_granted_def
    by (intro steps_intros logs.steps_modify window_steps; simp add: start_execution_def)
  show 2: "steps (log_rel (be_audit E)) (consume_begin E W now ps)" for W now
    unfolding consume_begin_def by (intro steps_intros audit_ops 1)
  show 3: "steps (log_rel (be_audit E)) (consume_finish E sl sec p)" for sl sec p
    unfolding consume_finish_def by (intro steps_intros logs.steps_modify window_steps)
  show "steps (log_rel (be_audit E)) (handle_executor_consume E W ps)"
    unfolding handle_executor_consume_def by (intro steps_intros 2 3)
  have "log_rel A b (finish_execution E now i ex ri st co b)" for A b now i ex ri st co
    unfolding finish_execution_def by (rule logs.sr_trans[OF log_rel_same window_steps(1)]) simp_all
  then show "steps (log_rel (be_audit E)) (handle_executor_result E W rs)"
    unfolding handle_executor_result_def by (intro steps_intros audit_ops logs.steps_modify)
qed

lemma steps_admin [steps_intros]:
  "steps (log_rel (be_audit E)) (launch_managed_browser E sl la)"
  "steps (log_rel A) (close_managed_browser sh bi)"
  "steps (log_rel (be_audit E)) (audit_stale E W ids)"
  "steps (log_rel (be_audit E)) (expire_stale_sessions E W now)"
  "steps (log_rel (be_audit E)) (replace_policy E sl ev)"
  "steps (log_rel (be_audit E)) (revoke_capability_admin E sl ci re)"
  "steps (log_rel (be_audit E)) (insert_standing_grant_audited E sl gr cx)"
  "steps (log_rel (be_audit E)) (write_audit_checkpoint E W)"
proof -
  show "steps (log_rel (be_audit E)) (launch_managed_browser E sl la)"
    unfolding launch_managed_browser_def by (intro steps_intros; simp)
  show "steps (log_rel A) (close_managed_browser sh bi)"
    unfolding close_managed_browser_def by (intro steps_intros; simp)
  show 1: "steps (log_rel (be_audit E)) (audit_stale E W ids)" for W ids
    by (induction ids arbitrary: W) (auto intro!: steps_intros)
  have "log_rel A b (fold close_execution_window xs b)" for A b xs
    by (induction xs arbitrary: b) (auto intro: logs.sr_refl logs.sr_trans window_steps(1))
  then have 2: "log_rel A b (close_windows_of ids b)" for A b ids by (simp add: close_windows_of_def)
  show "steps (log_rel (be_audit E)) (expire_stale_sessions E W now)"
    unfolding expire_stale_sessions_def
    by (intro steps_intros logs.steps_modify[OF 2] 1; simp add: mark_stale_def revoke_entries_where_def)
  show "steps (log_rel (be_audit E)) (replace_policy E sl ev)"
    unfolding replace_policy_def by (intro steps_intros audit_ops; simp add: revoke_entries_where_def)
  show "steps (log_rel (be_audit E)) (revoke_capability_admin E sl ci re)"
    unfolding revoke_capability_admin_def by (intro steps_intros audit_ops; simp)
  show "steps (log_rel (be_audit E)) (insert_standing_grant_audited E sl gr cx)"
    unfolding insert_standing_grant_audited_def by (intro steps_intros audit_ops)
  show "steps (log_rel (be_audit E)) (write_audit_checkpoint E W)"
    unfolding write_audit_checkpoint_def by (intro steps_intros; simp add: audit_ops_step silent_ops)
qed

lemma steps_ui [steps_intros]:
  "steps (log_rel (be_audit E)) (ui_create_grant E W gp)"
  "steps (log_rel (be_audit E)) (ui_revoke_grants E W sel re)"
  "steps (log_rel (be_audit E)) (ui_disable_agent E W ag)"
proof -
  have 1: "steps (log_rel (be_audit E)) (audit_revoked E W gs)" for W gs
    by (induction gs arbitrary: W) (auto intro!: steps_intros)
  show "steps (log_rel (be_audit E)) (ui_create_grant E W gp)"
    unfolding ui_create_grant_def by (intro steps_intros)
  show 2: "steps (log_rel (be_audit E)) (ui_revoke_grants E W sel re)" for W sel re
    unfolding ui_revoke_grants_def by (intro steps_intros 1; simp add: grant_ops_step revoke_grants_silent)
  show "steps (log_rel (be_audit E)) (ui_disable_agent E W ag)"
    unfolding ui_disable_agent_def agent_disabled_def
    by (intro steps_intros 2; simp add: revoke_entries_where_def)
qed

end
