(* ===== verification/Broker_System.thy ===== *)
theory Broker_System
  imports Broker_Invariants
begin

text \<open>
  The daemon as a system that runs.  Its requests are served one at a time, in any order and with
  whatever the outside gives them; the two handlers that wait (for the provider, for the token endpoint)
  are in flight between their steps, while other requests are served; and it may be restarted on its
  database.  \<open>sy_released\<close> records, for the statements below, the capabilities that were turned into
  fields for an executor or into a stored OAuth grant.
\<close>

section \<open>Requests\<close>

datatype request =
    RegisterRecipe SiteRecipe
  | RegisterSession BrowserSession
  | RegisterPage PageContext BrowserSessionId
  | RequestAction AgentId ActionRequestParams
  | Authenticate AgentId ActionAuthenticateParams
  | CancelAction AgentId ActionCancelParams
  | DecideApproval ApprovalId bool bytes string bool
  | ExpireApprovals datetime
  | Prepare ExecutorContextPayload
  | RegisterBrowser BrowserRegisterParams
  | Heartbeat BrowserSessionId u32
  | NextExecution BrowserSessionId
  | ReportResult ExecutorResultParams
  | ExpireSessions datetime
  | ReplacePolicy PolicyEvaluator
  | RevokeAdmin CapabilityId string
  | CreateGrant GrantCreateParams
  | RevokeGrants string string
  | DisableAgent AgentId
  | LaunchBrowser "unit + BrowserInstanceId"
  | CloseBrowser "unit + unit" BrowserInstanceId
  | WriteCheckpoint

fun serve :: "broker_env \<Rightarrow> world \<Rightarrow> request \<Rightarrow> BrokerState \<Rightarrow> BrokerState" where
  "serve E W (RegisterRecipe r) b = register_recipe r b"
| "serve E W (RegisterSession s) b = register_browser_session s b"
| "serve E W (RegisterPage c s) b = register_page_context c s b"
| "serve E W (RequestAction a p) b = snd (handle_action_request E W a p b)"
| "serve E W (Authenticate a p) b = snd (handle_action_authenticate E W a p b)"
| "serve E W (CancelAction a p) b = snd (handle_action_cancel a p b)"
| "serve E W (DecideApproval i ok digest actor presence) b = snd (decide_approval E W i ok digest actor presence b)"
| "serve E W (ExpireApprovals now) b = snd (expire_pending_approvals E W now b)"
| "serve E W (Prepare c) b = snd (handle_executor_prepare W c b)"
| "serve E W (RegisterBrowser p) b = snd (handle_browser_register E W p b)"
| "serve E W (Heartbeat s n) b = snd (handle_executor_heartbeat (W 0) s n b)"
| "serve E W (NextExecution s) b = snd (handle_execution_next E W s b)"
| "serve E W (ReportResult p) b = snd (handle_executor_result E W p b)"
| "serve E W (ExpireSessions now) b = snd (expire_stale_sessions E W now b)"
| "serve E W (ReplacePolicy ev) b = snd (replace_policy E (W 0) ev b)"
| "serve E W (RevokeAdmin i reason) b = snd (revoke_capability_admin E (W 0) i reason b)"
| "serve E W (CreateGrant p) b = snd (ui_create_grant E W p b)"
| "serve E W (RevokeGrants selector reason) b = snd (ui_revoke_grants E W selector reason b)"
| "serve E W (DisableAgent a) b = snd (ui_disable_agent E W a b)"
| "serve E W (LaunchBrowser r) b = snd (launch_managed_browser E (W 0) r b)"
| "serve E W (CloseBrowser r i) b = snd (close_managed_browser r i b)"
| "serve E W WriteCheckpoint b = snd (write_audit_checkpoint E W b)"

section \<open>The system\<close>

datatype daemon = Running BrokerState | Stopped db

datatype flight =
    AwaitSecret consume_progress
  | AwaitTokens CapabilityId PendingOAuthExecution

record system =
  sy_daemon :: daemon
  sy_flights :: "flight list"
  sy_released :: "CapabilityId list"

fun daemon_store :: "daemon \<Rightarrow> db" where
  "daemon_store (Running b) = b_store b"
| "daemon_store (Stopped d) = d"

fun flight_capability :: "flight \<Rightarrow> CapabilityId" where
  "flight_capability (AwaitSecret p) = cl_jti (cp_claims p)"
| "flight_capability (AwaitTokens i p) = i"

datatype sys_event =
    Serve world request
  | BeginConsume world datetime ExecutorConsumeParams
  | BeginCallback world OAuthCallbackParams
  | Land nat world
  | Restart slot bytes string bytes u32 PolicyEvaluator

definition landed :: "nat \<Rightarrow> BrokerState \<Rightarrow> bool \<Rightarrow> system \<Rightarrow> system" where
  "landed n b released s =
    s\<lparr>sy_daemon := Running b, sy_flights := take n (sy_flights s) @ drop (Suc n) (sy_flights s),
      sy_released := (if released then sy_released s @ [flight_capability (sy_flights s ! n)] else sy_released s)\<rparr>"

definition taken_off :: "BrokerState \<Rightarrow> flight option \<Rightarrow> system \<Rightarrow> system" where
  "taken_off b f s =
    s\<lparr>sy_daemon := Running b, sy_flights := (case f of None \<Rightarrow> sy_flights s | Some x \<Rightarrow> sy_flights s @ [x])\<rparr>"

definition ok_option :: "'e + 'a \<Rightarrow> 'a option" where
  "ok_option r = (case r of Inl _ \<Rightarrow> None | Inr x \<Rightarrow> Some x)"

fun sys_step :: "broker_env \<Rightarrow> sys_event \<Rightarrow> system \<Rightarrow> system" where
  "sys_step E (Restart sl key key_id audit_key version ev) s =
    (case try_new_with_audit_key sl key key_id audit_key version (daemon_store (sy_daemon s)) ev of
       (Inl _, d) \<Rightarrow> s\<lparr>sy_daemon := Stopped d, sy_flights := []\<rparr>
     | (Inr b, _) \<Rightarrow> s\<lparr>sy_daemon := Running b, sy_flights := []\<rparr>)"
| "sys_step E (Serve W q) s =
    (case sy_daemon s of Stopped d \<Rightarrow> s | Running b \<Rightarrow> s\<lparr>sy_daemon := Running (serve E W q b)\<rparr>)"
| "sys_step E (BeginConsume W now params) s =
    (case sy_daemon s of Stopped d \<Rightarrow> s
     | Running b \<Rightarrow> (let (r, b') = consume_begin E W now params b in
                    taken_off b' (map_option AwaitSecret (ok_option r)) s))"
| "sys_step E (BeginCallback W params) s =
    (case sy_daemon s of Stopped d \<Rightarrow> s
     | Running b \<Rightarrow> (let (r, b') = callback_begin E W params b in
                    taken_off b' (map_option (\<lambda>(i, p). AwaitTokens i p) (ok_option r)) s))"
| "sys_step E (Land n W) s =
    (case sy_daemon s of Stopped d \<Rightarrow> s
     | Running b \<Rightarrow>
       if n \<ge> length (sy_flights s) then s
       else case sy_flights s ! n of
         AwaitSecret p \<Rightarrow> (let (r, b') = consume_finish E (W 1) (sl_secret (W 0)) p b in landed n b' (is_ok r) s)
       | AwaitTokens i p \<Rightarrow> (let (r, b') = callback_finish E W i p b in landed n b' (is_ok r) s))"

fun run_system :: "broker_env \<Rightarrow> sys_event list \<Rightarrow> system \<Rightarrow> system" where
  "run_system E [] s = s"
| "run_system E (ev # evs) s = run_system E evs (sys_step E ev s)"

definition stopped_system :: "db \<Rightarrow> system" where
  "stopped_system d = \<lparr>sy_daemon = Stopped d, sy_flights = [], sy_released = []\<rparr>"

section \<open>Every step is a step of the store\<close>

lemma serve_log_rel: "log_rel (be_audit E) b (serve E W q b)"
proof (cases q)
  case (RegisterRecipe r)
  then show ?thesis by (simp add: register_recipe_def log_rel_same)
next
  case (RegisterSession r)
  then show ?thesis by (simp add: register_browser_session_def log_rel_same)
next
  case (RegisterPage c r)
  then show ?thesis by (simp add: register_page_context_def Let_def log_rel_same)
qed (use steps_agent steps_approvals steps_browsers steps_consume steps_admin steps_ui in \<open>simp_all add: steps_def\<close>)

lemma log_rel_store_step: "log_rel A b b' \<Longrightarrow> db_step (b_store b) (b_store b')"
  by (simp add: log_rel_def)

lemma start_store:
  assumes "try_new_with_audit_key sl key key_id audit_key version d ev = (r, d')"
  shows "db_step d d'" "r = Inr b \<Longrightarrow> b_store b = d'"
proof -
  obtain x e where rec: "recover_incomplete_state (sl_io sl) (sl_now sl) d = (x, e)" by fastforce
  have "db_step d e" using recover_step[of d "sl_io sl" "sl_now sl"] rec by simp
  moreover have "d' = e" using assms rec by (auto simp: try_new_with_audit_key_def Let_def split: sum.splits option.splits)
  ultimately show "db_step d d'" by simp
  show "r = Inr b \<Longrightarrow> b_store b = d'"
    using assms rec by (auto simp: try_new_with_audit_key_def Let_def split: sum.splits option.splits)
qed

lemma sys_step_store: "db_step (daemon_store (sy_daemon s)) (daemon_store (sy_daemon (sys_step E ev s)))"
proof (cases ev)
  case (Restart sl key key_id audit_key version pe)
  then show ?thesis
    by (auto split: prod.splits sum.splits dest: start_store)
next
  case (Serve W q)
  then show ?thesis using log_rel_store_step[OF serve_log_rel] by (auto split: daemon.splits)
next
  case (BeginConsume W now ps)
  then show ?thesis using stepsD[OF steps_consume(2)] log_rel_store_step
    by (fastforce simp: taken_off_def split: daemon.splits prod.splits)
next
  case (BeginCallback W ps)
  then show ?thesis using stepsD[OF steps_callback(2)] log_rel_store_step
    by (fastforce simp: taken_off_def split: daemon.splits prod.splits)
next
  case (Land n W)
  then show ?thesis using stepsD[OF steps_consume(3)] stepsD[OF steps_callback(3)] log_rel_store_step
    by (fastforce simp: landed_def split: daemon.splits prod.splits flight.splits)
qed

section \<open>What a granted consumption has checked\<close>

definition advance :: "AuditEvent \<Rightarrow> db \<Rightarrow> BrokerState \<Rightarrow> BrokerState" where
  "advance e d b = b\<lparr>b_store := d, b_next_sequence := b_next_sequence b + 1, b_latest_hash := ev_event_hash e\<rparr>"

lemma audited_ok:
  "audited E sl ty at ai ctx af sf op b = (Inr x, b') \<longleftrightarrow>
    (\<exists>e d. create_audit_event (be_audit E) (sl_uuid sl) (b_next_sequence b) (b_latest_hash b)
              (b_audit_key_version b) (b_audit_key b) ty at ai ctx (sl_now sl) = Inr e
           \<and> op e (b_store b) = (Inr x, d) \<and> b' = advance e d b)"
  by (auto simp: audited_def try_audited_def advance_def bindh_Inr_iff split: sum.splits prod.splits)

lemma advance_fields [simp]:
  "b_store (advance e d b) = d" "b_sessions (advance e d b) = b_sessions b"
  "b_capabilities (advance e d b) = b_capabilities b" "b_recipes (advance e d b) = b_recipes b"
  "b_managed_browsers (advance e d b) = b_managed_browsers b" "b_approvals (advance e d b) = b_approvals b"
  "b_page_contexts (advance e d b) = b_page_contexts b" "b_executions (advance e d b) = b_executions b"
  "b_requests (advance e d b) = b_requests b" "b_broker_key (advance e d b) = b_broker_key b"
  "b_key_id (advance e d b) = b_key_id b" "b_policy_evaluator (advance e d b) = b_policy_evaluator b"
  "b_pending_offers (advance e d b) = b_pending_offers b" "b_oauth_executions (advance e d b) = b_oauth_executions b"
  "b_audit_key (advance e d b) = b_audit_key b" "b_audit_key_version (advance e d b) = b_audit_key_version b"
  by (simp_all add: advance_def)

definition new_execution :: "slot \<Rightarrow> datetime \<Rightarrow> CapabilityClaims \<Rightarrow> Execution" where
  "new_execution sl now claims =
    \<lparr>ex_execution_id = id_new ''exec'' (sl_uuid sl), ex_capability_id = cl_jti claims, ex_state = Consuming,
     ex_prepared_context_digest = None, ex_started_at = Some now, ex_completed_at = None, ex_result_code = None\<rparr>"

lemma consume_begin_ok:
  assumes "consume_begin E W now ps b = (Inr p, b')"
  obtains extension_key entry cap step_claim e d where
    "executor_key E ps b = Inr extension_key"
    "entry_by_token (ecp_capability_token ps) b = Some entry"
    "bound_generator E entry = Inr (cp_generator p)"
    "verify_and_consume_capability (be_cap E) (ent_capability entry) (ecp_capability_token ps)
       (ed_public (ce_ed (be_cap E)) (b_broker_key b))
       (context_snapshot (ecp_current_context ps) extension_key) now = (Inr (cp_claims p), cap)"
    "totp_step_claim (cp_generator p) (cp_claims p) now = Inr step_claim"
    "create_audit_event (be_audit E) (sl_uuid (W 1)) (b_next_sequence b) (b_latest_hash b) (b_audit_key_version b)
       (b_audit_key b) ''capability.consumed'' ''executor'' None (claims_context (cp_claims p)) (sl_now (W 1)) = Inr e"
    "consume_capability_with_execution_and_audit (sl_io (W 1)) (cl_jti (cp_claims p))
       (new_execution (W 0) now (cp_claims p)) e step_claim (b_store b) = (Inr (), d)"
    "bound_recipe (cp_claims p) (ent_recipe_id entry) b = Inr (cp_recipe p)"
    "cp_guard p = map_option fst (sensitive_filter_for_session (cl_browser_session_id (cp_claims p)) b)"
    "cp_execution_id p = id_new ''exec'' (sl_uuid (W 0))" "cp_recipe_id p = ent_recipe_id entry"
    "cp_provider_locator p = ent_provider_locator entry" "cp_now p = now"
    "b' = open_guard (cp_guard p) (cl_tab_id (cp_claims p))
            (start_execution (cp_claims p) cap (new_execution (W 0) now (cp_claims p)) (advance e d b))"
proof -
  have same: "bound_recipe c r (start_execution c cap x (advance e d b)) = bound_recipe c r b"
    "sensitive_filter_for_session i (start_execution c cap x (advance e d b)) = sensitive_filter_for_session i b"
    for c r cap x e d i
    by (simp_all add: bound_recipe_def sensitive_filter_for_session_def start_execution_def Let_def split: option.split)
  let ?v = "\<lambda>key entry. verify_and_consume_capability (be_cap E) (ent_capability entry) (ecp_capability_token ps)
       (ed_public (ce_ed (be_cap E)) (b_broker_key b)) (context_snapshot (ecp_current_context ps) key) now"
  from assms obtain extension_key entry generator claims step_claim u where 0:
    "executor_key E ps b = Inr extension_key" "entry_by_token (ecp_capability_token ps) b = Some entry"
    "bound_generator E entry = Inr generator" "fst (?v extension_key entry) = Inr claims"
    "totp_step_claim generator claims now = Inr step_claim"
    "audited E (W 1) ''capability.consumed'' ''executor'' None (claims_context claims)
       (\<lambda>_. rpc INTERNAL_ERROR ''Audit unavailable'') consume_store_error
       (\<lambda>event. consume_capability_with_execution_and_audit (sl_io (W 1)) (cl_jti claims) (new_execution (W 0) now claims)
          event step_claim) b = (Inr (), u)"
    "consume_granted claims (snd (?v extension_key entry)) entry generator now (new_execution (W 0) now claims) u = (Inr p, b')"
    unfolding consume_begin_def Let_def new_execution_def[symmetric] case_prod_unfold
    by (auto simp: bindh_Inr_iff)
  then obtain cap where "?v extension_key entry = (Inr claims, cap)" by (metis prod.collapse)
  with 0 have 1: "executor_key E ps b = Inr extension_key" "entry_by_token (ecp_capability_token ps) b = Some entry"
    "bound_generator E entry = Inr generator" "?v extension_key entry = (Inr claims, cap)"
    "totp_step_claim generator claims now = Inr step_claim"
    "audited E (W 1) ''capability.consumed'' ''executor'' None (claims_context claims)
       (\<lambda>_. rpc INTERNAL_ERROR ''Audit unavailable'') consume_store_error
       (\<lambda>event. consume_capability_with_execution_and_audit (sl_io (W 1)) (cl_jti claims) (new_execution (W 0) now claims)
          event step_claim) b = (Inr (), u)"
    "consume_granted claims cap entry generator now (new_execution (W 0) now claims) u = (Inr p, b')"
    by simp_all
  from 1(6) obtain e d where 2:
    "create_audit_event (be_audit E) (sl_uuid (W 1)) (b_next_sequence b) (b_latest_hash b) (b_audit_key_version b)
       (b_audit_key b) ''capability.consumed'' ''executor'' None (claims_context claims) (sl_now (W 1)) = Inr e"
    "consume_capability_with_execution_and_audit (sl_io (W 1)) (cl_jti claims)
       (new_execution (W 0) now claims) e step_claim (b_store b) = (Inr (), d)" "u = advance e d b"
    by (auto simp: audited_ok)
  from 1(7) obtain recipe where 3: "bound_recipe claims (ent_recipe_id entry) b = Inr recipe"
    "p = \<lparr>cp_claims = claims, cp_execution_id = ex_execution_id (new_execution (W 0) now claims),
          cp_recipe_id = ent_recipe_id entry, cp_recipe = recipe, cp_provider_locator = ent_provider_locator entry,
          cp_generator = generator, cp_now = now,
          cp_guard = map_option fst (sensitive_filter_for_session (cl_browser_session_id claims) b)\<rparr>"
    "b' = open_guard (cp_guard p) (cl_tab_id claims) (start_execution claims cap (new_execution (W 0) now claims) u)"
    unfolding consume_granted_def 2(3) by (auto simp: bindh_Inr_iff same)
  show ?thesis
    by (rule that[of extension_key entry cap step_claim e d]) (use 1 2 3 in \<open>simp_all add: new_execution_def\<close>)
qed

text \<open>A callback that goes on to the exchange has used up its capability.\<close>

lemma fail_callback_fails: "fail_oauth_callback E W pending i e b \<noteq> (Inr x, b')"
  by (simp add: fail_oauth_callback_def bindh_Inr_iff)

lemma on_store_ok: "on_store op b = (Inr x, b') \<longleftrightarrow> (\<exists>d. op (b_store b) = (Inr x, d) \<and> b' = b\<lparr>b_store := d\<rparr>)"
  by (auto simp: on_store_def split: prod.splits)

lemma callback_begin_ok:
  assumes "callback_begin E W ps b = (Inr (i, pending), b')"
  shows "consume_oauth_capability (sl_io (W 0)) i (b_store b) = (Inr (), b_store b')"
  using assms unfolding callback_begin_def
  by (auto simp: bindh_Inr_iff catchh_Inr_iff fail_callback_fails on_store_ok split: if_splits prod.splits sum.splits)

section \<open>Each capability is used at most once\<close>

lemma not_spent:
  assumes "db_inv d" "r \<in> set (t_capabilities d)" "cw_capability_id r = i" "live_state (cw_state r)"
  shows "\<not> spent i d"
proof
  assume "spent i d"
  then obtain r' where "r' \<in> set (t_capabilities d)" "cw_capability_id r' = i" "\<not> live_state (cw_state r')"
    by (auto simp: spent_def)
  then show False using assms same_key_eq[of cw_capability_id "t_capabilities d" r r'] by (auto simp: db_inv_def)
qed

lemma use_spends:
  assumes "db_inv d" "exec_op io x d = (True, d')" "consumes i x"
  shows "\<not> spent i d" "spent i d'"
proof -
  show "spent i d'" using consume_granted(2)[OF assms(2,3)] .
  from consume_granted(1)[OF assms(2,3)] show "\<not> spent i d" using not_spent[OF assms(1)] by blast
qed

lemma begin_spends:
  assumes "db_inv (b_store b)"
  shows "consume_begin E W now ps b = (Inr p, b') \<Longrightarrow>
           \<not> spent (cl_jti (cp_claims p)) (b_store b) \<and> spent (cl_jti (cp_claims p)) (b_store b')"
    and "callback_begin E W cs b = (Inr (i, pending), b'') \<Longrightarrow> \<not> spent i (b_store b) \<and> spent i (b_store b'')"
proof -
  assume "consume_begin E W now ps b = (Inr p, b')"
  then obtain cap x e ts d where d: "consume_capability_with_execution_and_audit (sl_io (W 1)) (cl_jti (cp_claims p)) x e ts
      (b_store b) = (Inr (), d)" "b' = open_guard (cp_guard p) (cl_tab_id (cp_claims p)) (start_execution (cp_claims p) cap x (advance e d b))"
    by (rule consume_begin_ok)
  then have "b_store b' = d" by (simp add: open_guard_def start_execution_def split: option.splits)
  moreover have "exec_op (sl_io (W 1)) (ConsumeCapability (cl_jti (cp_claims p)) x e ts) (b_store b) = (True, d)"
    using d(1) by (simp add: outcome_def)
  ultimately show "\<not> spent (cl_jti (cp_claims p)) (b_store b) \<and> spent (cl_jti (cp_claims p)) (b_store b')"
    using use_spends[OF assms, of _ _ d "cl_jti (cp_claims p)"] consumes.simps(1) by blast
next
  assume "callback_begin E W cs b = (Inr (i, pending), b'')"
  then have "exec_op (sl_io (W 0)) (ConsumeOAuth i) (b_store b) = (True, b_store b'')"
    by (simp add: outcome_def callback_begin_ok)
  then show "\<not> spent i (b_store b) \<and> spent i (b_store b'')"
    using use_spends[OF assms, of _ _ "b_store b''" i] consumes.simps(2) by blast
qed

definition used_once :: "system \<Rightarrow> bool" where
  "used_once s =
    (db_inv (daemon_store (sy_daemon s))
     \<and> distinct (sy_released s @ map flight_capability (sy_flights s))
     \<and> (\<forall>i \<in> set (sy_released s @ map flight_capability (sy_flights s)). spent i (daemon_store (sy_daemon s))))"

lemma used_once_store:
  assumes "used_once s" "db_step (daemon_store (sy_daemon s)) d"
  shows "db_inv d" "\<And>i. i \<in> set (sy_released s @ map flight_capability (sy_flights s)) \<Longrightarrow> spent i d"
  using assms db_step_inv spent_stays by (auto simp: used_once_def)

lemma used_once_taken_off:
  assumes "used_once s" "sy_daemon s = Running b" "db_step (b_store b) (b_store b')"
    and "\<And>x. f = Some x \<Longrightarrow> \<not> spent (flight_capability x) (b_store b) \<and> spent (flight_capability x) (b_store b')"
  shows "used_once (taken_off b' f s)"
proof (cases f)
  case None
  then show ?thesis using assms(1-3) used_once_store[OF assms(1), of "b_store b'"]
    by (auto simp: used_once_def taken_off_def)
next
  case (Some x)
  have "flight_capability x \<notin> set (sy_released s @ map flight_capability (sy_flights s))"
    using assms(1,2) assms(4)[OF Some] by (auto simp: used_once_def)
  then show ?thesis using assms(1-3) assms(4)[OF Some] Some used_once_store[OF assms(1), of "b_store b'"]
    by (auto simp: used_once_def taken_off_def)
qed

lemma used_once_landed:
  assumes "used_once s" "sy_daemon s = Running b" "db_step (b_store b) (b_store b')" "n < length (sy_flights s)"
  shows "used_once (landed n b' ok s)"
proof -
  let ?fs = "sy_flights s"
  let ?c = "map flight_capability"
  let ?new = "sy_released (landed n b' ok s) @ ?c (sy_flights (landed n b' ok s))"
  have "?fs = take n ?fs @ ?fs ! n # drop (Suc n) ?fs" using assms(4) by (rule id_take_nth_drop)
  then have split: "?c ?fs = ?c (take n ?fs) @ flight_capability (?fs ! n) # ?c (drop (Suc n) ?fs)"
    by (metis map_append list.map(2))
  have "distinct (sy_released s @ ?c ?fs)" using assms(1) by (simp add: used_once_def)
  then have "distinct ?new" unfolding split by (auto simp: landed_def)
  moreover have "set ?new \<subseteq> set (sy_released s @ ?c ?fs)" unfolding split by (auto simp: landed_def)
  moreover have "daemon_store (sy_daemon (landed n b' ok s)) = b_store b'" by (simp add: landed_def)
  ultimately show ?thesis using used_once_store[OF assms(1), of "b_store b'"] assms(2,3)
    unfolding used_once_def by (metis daemon_store.simps(1) subsetD)
qed

lemma sys_step_used_once: "used_once s \<Longrightarrow> used_once (sys_step E ev s)"
proof -
  assume s: "used_once s"
  have inv: "db_inv (b_store b)" if "sy_daemon s = Running b" for b using s that by (simp add: used_once_def)
  note st = sys_step_store[of s E ev]
  show ?thesis
  proof (cases ev)
    case (Restart sl key key_id audit_key version pe)
    then show ?thesis using s used_once_store[OF s st]
      by (auto simp: used_once_def split: prod.splits sum.splits)
  next
    case (Serve W q)
    then show ?thesis using s used_once_store[OF s st] by (auto simp: used_once_def split: daemon.splits)
  next
    case (BeginConsume W now ps)
    then show ?thesis using s inv begin_spends(1) log_rel_store_step[OF stepsD[OF steps_consume(2)]]
      by (auto simp: ok_option_def split: daemon.splits prod.splits sum.splits intro!: used_once_taken_off)
  next
    case (BeginCallback W ps)
    then show ?thesis using s inv begin_spends(2) log_rel_store_step[OF stepsD[OF steps_callback(2)]]
      by (auto simp: ok_option_def split: daemon.splits prod.splits sum.splits intro!: used_once_taken_off)
  next
    case (Land n W)
    then show ?thesis using s log_rel_store_step[OF stepsD[OF steps_consume(3)]] log_rel_store_step[OF stepsD[OF steps_callback(3)]]
      by (auto split: daemon.splits prod.splits flight.splits intro!: used_once_landed)
  qed
qed

lemma run_used_once: "used_once s \<Longrightarrow> used_once (run_system E evs s)"
  by (induction evs arbitrary: s) (auto intro: sys_step_used_once)

section \<open>What is spent and not yet used is never used\<close>

definition unused :: "CapabilityId \<Rightarrow> system \<Rightarrow> bool" where
  "unused i s = (used_once s \<and> spent i (daemon_store (sy_daemon s))
     \<and> i \<notin> set (sy_released s @ map flight_capability (sy_flights s)))"

lemma unused_landed:
  "n < length (sy_flights s) \<Longrightarrow> i \<notin> set (sy_released s @ map flight_capability (sy_flights s))
    \<Longrightarrow> i \<notin> set (sy_released (landed n b ok s) @ map flight_capability (sy_flights (landed n b ok s)))"
  by (auto simp: landed_def dest: in_set_takeD in_set_dropD)

lemma sys_step_unused: "unused i s \<Longrightarrow> unused i (sys_step E ev s)"
proof -
  assume u: "unused i s"
  have inv: "db_inv (b_store b)" "spent i (b_store b)" if "sy_daemon s = Running b" for b
    using u that by (simp_all add: unused_def used_once_def)
  have "i \<notin> set (sy_released (sys_step E ev s) @ map flight_capability (sy_flights (sys_step E ev s)))"
  proof (cases ev)
    case (Restart sl key key_id audit_key version pe)
    then show ?thesis using u by (auto simp: unused_def split: prod.splits sum.splits)
  next
    case (Serve W q)
    then show ?thesis using u by (auto simp: unused_def split: daemon.splits)
  next
    case (BeginConsume W now ps)
    then show ?thesis using u inv begin_spends(1)
      by (auto simp: unused_def taken_off_def ok_option_def split: daemon.splits prod.splits sum.splits)
  next
    case (BeginCallback W ps)
    then show ?thesis using u inv begin_spends(2)
      by (auto simp: unused_def taken_off_def ok_option_def split: daemon.splits prod.splits sum.splits)
  next
    case (Land n W)
    have "i \<notin> set (sy_released (landed n b ok s) @ map flight_capability (sy_flights (landed n b ok s)))"
      if "n < length (sy_flights s)" for b ok
      using unused_landed[OF that] u unfolding unused_def by blast
    then show ?thesis using Land u
      by (auto simp: unused_def not_le simp del: set_append split: daemon.splits prod.splits flight.splits)
  qed
  then show ?thesis using u sys_step_used_once spent_stays[OF sys_step_store] by (simp add: unused_def)
qed

lemma run_unused: "unused i s \<Longrightarrow> unused i (run_system E evs s)"
  by (induction evs arbitrary: s) (auto intro: sys_step_unused)

text \<open>A revocation of a live row.\<close>

lemma revoke_spends:
  assumes "revoke_capability_with_audit io i reason e d = (Inr (), d')"
  shows "spent i d'" "\<exists>r \<in> set (t_capabilities d). cw_capability_id r = i \<and> live_state (cw_state r)"
proof -
  obtain n d1 where r: "revoke_rows (revocable i) reason d = (n, d1)" by fastforce
  with assms have n: "n = 1" and tx: "insert_audit_event_tx e d1 = Inr d'"
    by (auto simp: revoke_capability_with_audit_def transactions split: if_splits)
  have d1: "t_capabilities d1 = update_rows (revocable i) (revoke_row reason) (t_capabilities d)"
    and "changed (revocable i) (t_capabilities d) = 1"
    using r n by (auto simp: revoke_rows_def)
  then obtain x where x: "x \<in> set (t_capabilities d)" "revocable i x" using changed_pos by fastforce
  then have "revoke_row reason x \<in> set (t_capabilities d')"
    using d1 event_tx_tables(1)[OF tx] by (force simp: update_rows_def)
  then show "spent i d'" unfolding spent_def using x(2)
    by (intro bexI[of _ "revoke_row reason x"]) (auto simp: revoke_row_def revocable_def live_state_def)
  show "\<exists>r \<in> set (t_capabilities d). cw_capability_id r = i \<and> live_state (cw_state r)"
    using x by (auto simp: revocable_def)
qed

end
