(* ===== verification/Broker_Authority.thy ===== *)
theory Broker_Authority
  imports Broker_System
begin

text \<open>
  Where capabilities come from.  A request or a decision that adds a capability to the daemon has passed
  every check of the source; the theorems list them, in terms of the state before the request.
\<close>

section \<open>Minting\<close>

definition issued_for :: "AuthorizationContext \<Rightarrow> Capability \<Rightarrow> bool" where
  "issued_for a c =
    (cap_request_id c = au_request_id a \<and> cap_agent_id c = au_agent_id a
     \<and> cap_credential_id c = cr_credential_id (au_credential a) \<and> cap_action c = au_action a
     \<and> cap_top_origin c = pg_top_origin (au_page_context a) \<and> cap_frame_origin c = pg_frame_origin (au_page_context a)
     \<and> cap_browser_session_id c = au_browser_session_id a \<and> cap_extension_key_id c = au_extension_key_id a
     \<and> cap_tab_id c = pg_tab_id (au_page_context a) \<and> cap_frame_id c = pg_frame_id (au_page_context a)
     \<and> cap_document_id c = pg_document_id (au_page_context a)
     \<and> cap_navigation_epoch c = pg_navigation_epoch (au_page_context a)
     \<and> cap_recipe_id c = sr_recipe_id (au_recipe a) \<and> cap_recipe_hash c = sr_content_hash (au_recipe a)
     \<and> cap_policy_hash c = pd_policy_hash (au_decision a) \<and> cap_max_uses c = 1 \<and> cap_used_count c = 0)"

lemma mint_issued_for:
  "mint_capability V key uuid (mint_arguments key_id now a) = Some (c, token) \<Longrightarrow> issued_for a c"
  by (auto simp: mint_capability_def mint_arguments_def issued_for_def Let_def split: option.splits)

lemma bindh_cases:
  assumes "bindh m f s = (r, t)"
  obtains (fails) e where "m s = (Inl e, t)" "r = Inl e" | (goes_on) x u where "m s = (Inr x, u)" "f x u = (r, t)"
  using assms by (auto simp: bindh_def split: prod.splits sum.splits)

lemma audited_frame:
  assumes "audited E sl ty at ai ctx af sf op b = (r, b')"
  shows "b_capabilities b' = b_capabilities b" "b_approvals b' = b_approvals b" "b_page_contexts b' = b_page_contexts b"
  using assms unfolding audited_def try_audited_def bindh_def map_errh_def
  by (auto split: sum.splits prod.splits)

lemma mint_entries:
  assumes "mint_authorized_capability E W a x b = (r, b')"
  shows "b_capabilities b' = b_capabilities b
    \<or> (\<exists>entry. issued_for a (ent_capability entry)
         \<and> b_capabilities b' = AList.update (cap_capability_id (ent_capability entry)) entry (b_capabilities b))"
proof (cases "mint_capability (be_cap E) (b_broker_key b) (sl_uuid (W 0)) (mint_arguments (b_key_id b) (sl_now (W 0)) a)")
  case None
  then show ?thesis using assms by (simp add: mint_authorized_capability_def)
next
  case (Some p)
  obtain c token where p: "p = (c, token)" by fastforce
  have c: "issued_for a c" using mint_issued_for Some p by simp
  show ?thesis
  proof (cases "parse_and_verify_token (be_cap E) token (ed_public (ce_ed (be_cap E)) (b_broker_key b))")
    case (Inl err)
    then show ?thesis using assms Some p by (simp add: mint_authorized_capability_def bindh_def)
  next
    case (Inr claims)
    let ?entry = "\<lparr>ent_capability = c, ent_token = token, ent_claims = claims, ent_recipe_id = sr_recipe_id (au_recipe a),
      ent_provider_locator = cr_provider_locator (au_credential a), ent_credential_metadata = cr_metadata_json (au_credential a)\<rparr>"
    from assms have "b_capabilities b' = b_capabilities b
        \<or> b_capabilities b' = AList.update (cap_capability_id (ent_capability ?entry)) ?entry (b_capabilities b)"
      unfolding mint_authorized_capability_def bindh_run(3) case_prod_conv Some p option.case Inr map_err_simps Let_def
      by (auto simp: bindh_def issue_capability_def put_response_def Let_def
          dest: audited_frame split: prod.splits sum.splits)
    moreover have "issued_for a (ent_capability ?entry)" using c by simp
    ultimately show ?thesis by blast
  qed
qed

section \<open>New requests\<close>

text \<open>What a request is checked against.\<close>

definition same_inputs :: "BrokerState \<Rightarrow> BrokerState \<Rightarrow> bool" where
  "same_inputs b b' =
    (b_capabilities b' = b_capabilities b \<and> b_sessions b' = b_sessions b \<and> b_page_contexts b' = b_page_contexts b
     \<and> b_policy_evaluator b' = b_policy_evaluator b \<and> b_recipes b' = b_recipes b
     \<and> t_standing_grants (b_store b') = t_standing_grants (b_store b))"

interpretation inputs: state_relation same_inputs
  by unfold_locales (auto simp: same_inputs_def)

lemma inputs_record [steps_intros]: "steps same_inputs (record_audit_event E sl ty at ai ctx)"
proof (rule stepsI)
  fix b
  have "t_standing_grants d' = t_standing_grants d" if "insert_audit_event io e d = (r, d')" for io e d r d'
    using that by (auto simp: insert_audit_event_def atomically_def try_r_Inr_iff split: sum.splits dest: event_tx_tables(5))
  then show "same_inputs b (snd (record_audit_event E sl ty at ai ctx b))"
    by (auto simp: record_audit_event_def audited_def try_audited_def bindh_def map_errh_def same_inputs_def
        split: sum.splits prod.splits)
qed

lemma inputs_checks [steps_intros]:
  "steps same_inputs (evaluate_request E sl g ps ss cx)" "steps same_inputs (require_assurance E sl g ps cr rk)"
  unfolding evaluate_request_def require_assurance_def by (intro steps_intros)+

lemma inputs_authorization: "steps same_inputs (authorization_for E W now g ps)"
  unfolding authorization_for_def by (intro steps_intros)

lemma same_inputs_reads:
  assumes "same_inputs b b'"
  shows "active_session now i b' = active_session now i b" "measured_context now ps b' = measured_context now ps b"
    "matched_recipe E action cx b' = matched_recipe E action cx b"
    "matching_standing_grant sl a now b' = matching_standing_grant sl a now b"
  using assms by (simp_all add: same_inputs_def active_session_def measured_context_def matched_recipe_def
      matching_standing_grant_def find_matching_standing_grant_def)

lemma evaluate_request_ok:
  "evaluate_request E sl g ps ss cx b = (Inr decision, b') \<longleftrightarrow>
     evaluate (b_policy_evaluator b) (request_query g ps cx (bs_assurance ss)) = Inr decision
     \<and> pd_effect decision \<noteq> Deny \<and> b' = b"
  by (auto simp: evaluate_request_def split: sum.splits)

lemma require_assurance_ok:
  "require_assurance E sl g ps cr rk b = (Inr u, b') \<longleftrightarrow> assurance_available (be_platform E) rk \<and> b' = b"
  by (auto simp: require_assurance_def bindh_Inr_iff)

lemma authorization_for_ok:
  assumes "authorization_for E W now g ps b = (Inr a, b1)"
  obtains session where "check_target (tc_origin (arp_target ps)) = Inr ()"
    "usable_credential E (W 1) ps b = Inr (au_credential a)"
    "active_session now (arp_browser_session_id ps) b = Inr session"
    "measured_context now ps b = Inr (au_page_context a)"
    "evaluate (b_policy_evaluator b) (request_query g ps (au_page_context a) (bs_assurance session)) = Inr (au_decision a)"
    "pd_effect (au_decision a) \<noteq> Deny" "matched_recipe E (arp_action ps) (au_page_context a) b = Inr (au_recipe a)"
    "assurance_available (be_platform E)
       (calculate_risk_level (arp_action ps) (pd_require_user_presence (au_decision a)) (bs_assurance session))"
    "au_agent_id a = g" "au_request_id a = arp_request_id ps" "au_action a = arp_action ps"
    "au_browser_session_id a = arp_browser_session_id ps" "au_extension_key_id a = bs_extension_key_id session"
    "au_base_risk a = calculate_risk_level (arp_action ps) False (bs_assurance session)"
    "same_inputs b b1"
proof -
  from assms obtain u b2 session where 1: "check_target (tc_origin (arp_target ps)) = Inr ()"
    "usable_credential E (W 1) ps b = Inr (au_credential a)"
    "record_audit_event E (W 2) ''action.requested'' ''agent'' (Some g) (request_audit ps (arp_identity ps) None None None) b = (Inr u, b2)"
    "active_session now (arp_browser_session_id ps) b2 = Inr session"
    "measured_context now ps b2 = Inr (au_page_context a)"
    "evaluate (b_policy_evaluator b2) (request_query g ps (au_page_context a) (bs_assurance session)) = Inr (au_decision a)"
    "pd_effect (au_decision a) \<noteq> Deny" "matched_recipe E (arp_action ps) (au_page_context a) b2 = Inr (au_recipe a)"
    "assurance_available (be_platform E)
       (calculate_risk_level (arp_action ps) (pd_require_user_presence (au_decision a)) (bs_assurance session))"
    "au_agent_id a = g" "au_request_id a = arp_request_id ps" "au_action a = arp_action ps"
    "au_browser_session_id a = arp_browser_session_id ps" "au_extension_key_id a = bs_extension_key_id session"
    "au_base_risk a = calculate_risk_level (arp_action ps) False (bs_assurance session)" "b1 = b2"
    unfolding authorization_for_def by (auto simp: bindh_Inr_iff evaluate_request_ok require_assurance_ok)
  from 1(3) have s: "same_inputs b b2" using stepsD[OF inputs_record] by blast
  then have "b_policy_evaluator b2 = b_policy_evaluator b" by (simp add: same_inputs_def)
  then show ?thesis using 1 s same_inputs_reads[OF s] by (intro that[of session]) simp_all
qed

text \<open>Which entries a handler may add.\<close>

definition adds :: "(CapabilityEntry \<Rightarrow> bool) \<Rightarrow> BrokerState \<Rightarrow> BrokerState \<Rightarrow> bool" where
  "adds P b b' = (\<forall>i entry. map_of (b_capabilities b') i = Some entry
     \<longrightarrow> map_of (b_capabilities b) i = Some entry \<or> P entry)"

interpretation adding: state_relation "adds P"
  by unfold_locales (auto simp: adds_def)

lemma adds_mono: "steps (adds P) m \<Longrightarrow> (\<And>e. P e \<Longrightarrow> Q e) \<Longrightarrow> adds Q b (snd (m b))"
  unfolding steps_def adds_def by blast

lemma adding_audited [steps_intros]: "steps (adds P) (audited E sl ty at ai ctx af sf op)"
  by (intro stepsI) (metis adds_def audited_frame(1) prod.collapse)

lemma adding_record [steps_intros]: "steps (adds P) (record_audit_event E sl ty at ai ctx)"
  unfolding record_audit_event_def by (rule adding_audited)

lemma adding_modify [steps_intros]: "(\<And>b. b_capabilities (f b) = b_capabilities b) \<Longrightarrow> steps (adds P) (modifyh f)"
  by (rule adding.steps_modify) (simp add: adds_def)

lemma adding_store [steps_intros]: "steps (adds P) (on_store op)"
  by (auto simp: steps_def on_store_def adds_def split: prod.splits)

lemma adding_mint: "steps (adds (\<lambda>entry. issued_for a (ent_capability entry))) (mint_authorized_capability E W a x)"
proof (rule stepsI)
  fix b
  obtain r b' where "mint_authorized_capability E W a x b = (r, b')" by fastforce
  then show "adds (\<lambda>entry. issued_for a (ent_capability entry)) b (snd (mint_authorized_capability E W a x b))"
    using mint_entries[of E W a x b r b'] by (auto simp: adds_def split: if_splits)
qed

lemma adding_put [simp]: "b_capabilities (put_response r b) = b_capabilities b"
  by (simp add: put_response_def)

lemma adding_approval: "steps (adds (\<lambda>_. False)) (request_approval E W now a)"
  unfolding request_approval_def by (intro steps_intros; simp)

definition granted_for :: "AuthorizationContext \<Rightarrow> datetime \<Rightarrow> BrokerState \<Rightarrow> bool" where
  "granted_for a now b =
    (if pd_require_user_presence (au_decision a)
     then (\<exists>grant. find_matching_standing_grant (b_store b) (au_agent_id a) (cr_name (au_credential a)) (au_action a)
                    (pg_top_origin (au_page_context a)) = Some grant
              \<and> StandingGrant_covers grant (au_agent_id a) (cr_name (au_credential a)) (au_action a)
                    (pg_top_origin (au_page_context a)) (au_base_risk a) now)
     else True)"

lemma matching_standing_grant_Some:
  "matching_standing_grant sl a now b = Inr (Some grant) \<Longrightarrow> granted_for a now b"
  by (auto simp: matching_standing_grant_def granted_for_def split: if_splits option.splits)

lemma adding_authorize:
  "adds (\<lambda>entry. issued_for a (ent_capability entry) \<and> granted_for a now b) b (snd (authorize E W now a b))"
proof (cases "pd_require_user_presence (au_decision a)")
  case False
  then show ?thesis using adds_mono[OF adding_mint[of a E "later 8 W" None]]
    by (simp add: authorize_def granted_for_def)
next
  case True
  show ?thesis
  proof (cases "matching_standing_grant (W 5) a now b")
    case (Inl e)
    then show ?thesis using True by (simp add: authorize_def bindh_def adding.sr_refl)
  next
    case (Inr found)
    show ?thesis
    proof (cases found)
      case None
      then show ?thesis using True Inr adds_mono[OF adding_approval[of E W now a]]
        by (simp add: authorize_def bindh_def)
    next
      case (Some grant)
      have "steps (adds (\<lambda>entry. issued_for a (ent_capability entry)))
        (bindh (ignoreh (on_store (touch_standing_grant (sl_io (W 6)) (sg_grant_id grant) now))) (\<lambda>_.
         bindh (record_audit_event E (W 7) ''approval.auto_granted'' ''broker'' (Some (au_agent_id a))
           (audit_context (Some (au_request_id a)) (Some (cr_credential_id (au_credential a))) None
              (Some (au_browser_session_id a)) (Some (origin_as_str (pg_top_origin (au_page_context a))))
              (Some (ActionKind_as_str (au_action a))) (Some ''standing_grant'')
              (Some (RiskLevel_as_str (au_base_risk a))) None)) (\<lambda>_.
         mint_authorized_capability E (later 8 W) a None)))" (is "steps _ ?m")
        by (intro steps_intros adding_mint)
      moreover have "snd (authorize E W now a b) = snd (?m b)"
        using True Inr Some unfolding authorize_def by (simp add: bindh_def)
      ultimately show ?thesis using matching_standing_grant_Some[of "W 5" a now b grant] Inr Some adds_mono
        by (metis (no_types, lifting))
    qed
  qed
qed


section \<open>Approvals\<close>

lemma decide_rows_pending:
  assumes "update_approval_with_audit io a e d = (Inr (), d')"
  shows "\<exists>r \<in> set (t_approvals d). ap_approval_id r = ap_approval_id a \<and> ap_decision r = ''pending''"
proof -
  from assms have "changed (pending_approval (ap_approval_id a)) (t_approvals d) = 1"
    by (auto simp: update_approval_with_audit_def transactions split: if_splits)
  then obtain r where "r \<in> set (t_approvals d)" "pending_approval (ap_approval_id a) r" using changed_pos by fastforce
  then show ?thesis by (auto simp: pending_approval_def)
qed

text \<open>
  C4.  An approval issues a capability only when a person said yes to what is still on the screen.  If
  deciding an approval, successfully or not, leaves a capability entry that was not there, then the
  approval was waiting, its row in the database was undecided, the answer was yes, given before the
  approval expired, with the digest of the context that was shown; the page is still the same document at
  the same navigation epoch and origins, observed at most two seconds before; and the person's presence
  was verified where the policy asks for it.
\<close>

theorem approval_authority:
  "case map_of (b_capabilities (snd (decide_approval_at E W i ok digest actor presence now b))) c of None \<Rightarrow> True
   | Some entry \<Rightarrow> map_of (b_capabilities b) c = Some entry \<or>
     (\<exists>pending row. map_of (b_approvals b) i = Some pending \<and> issued_for (pn_authorization pending) (ent_capability entry)
        \<and> ok \<and> now < ap_expires_at (pn_approval pending) \<and> digest = ap_context_digest (pn_approval pending)
        \<and> context_is_current now (pn_authorization pending) b
        \<and> (if pd_require_user_presence (au_decision (pn_authorization pending)) then presence else True)
        \<and> row \<in> set (t_approvals (b_store b)) \<and> ap_approval_id row = ap_approval_id (pn_approval pending)
        \<and> ap_decision row = ''pending'')"
proof (cases "map_of (b_approvals b) i")
  case None
  then show ?thesis by (simp add: decide_approval_at_def bindh_def split: option.split)
next
  case (Some pending)
  let ?o = "approval_outcome now ok digest presence pending b"
  let ?P = "\<lambda>entry. issued_for (pn_authorization pending) (ent_capability entry)
      \<and> ?o = ''approved'' \<and> (\<exists>row \<in> set (t_approvals (b_store b)). ap_approval_id row = ap_approval_id (pn_approval pending)
          \<and> ap_decision row = ''pending'')"
  have "adds ?P b (snd (decide_approval_at E W i ok digest actor presence now b))"
  proof -
    let ?a = "pn_authorization pending"
    let ?approval = "(pn_approval pending)\<lparr>ap_decision := ?o, ap_actor := Some actor,
        ap_presence := Some (if presence then ''verified'' else ''absent''), ap_decided_at := Some now\<rparr>"
    obtain r b' where d: "decide_approval_at E W i ok digest actor presence now b = (r, b')" by fastforce
    have "bindh (peekh (\<lambda>b. ok_or e (map_of (b_approvals b) i))) f b = f pending b" for e f
      using Some by (simp add: bindh_def)
    from d[unfolded decide_approval_at_def this bindh_run(3) Let_def] have "adds ?P b b'"
    proof (cases rule: bindh_cases)
      case (fails e)
      then show ?thesis using audited_frame(1)[OF fails(1)] by (simp add: adds_def)
    next
      case (goes_on x u)
      have row: "\<exists>row \<in> set (t_approvals (b_store b)). ap_approval_id row = ap_approval_id (pn_approval pending)
          \<and> ap_decision row = ''pending''"
        using goes_on(1) decide_rows_pending[of "sl_io (W 0)" ?approval] unfolding audited_ok by fastforce
      have u: "b_capabilities u = b_capabilities b" using audited_frame(1)[OF goes_on(1)] .
      show ?thesis
      proof (cases "?o = ''approved''")
        case True
        then have "mint_authorized_capability E (later 1 W) ?a (Some i) (u\<lparr>b_approvals := AList.delete i (b_approvals u)\<rparr>) = (r, b')"
          using goes_on(2) by simp
        from stepsD[OF adding_mint this] show ?thesis using u row True by (simp add: adds_def)
      next
        case False
        then show ?thesis using goes_on(2) u by (auto simp: adds_def)
      qed
    qed
    then show ?thesis by (simp add: d)
  qed
  moreover have "?o = ''approved'' \<Longrightarrow> ok \<and> now < ap_expires_at (pn_approval pending) \<and> digest = ap_context_digest (pn_approval pending)
      \<and> context_is_current now (pn_authorization pending) b
      \<and> (if pd_require_user_presence (au_decision (pn_authorization pending)) then presence else True)"
    by (auto simp: approval_outcome_def split: if_splits)
  ultimately show ?thesis using Some unfolding adds_def by (fastforce split: option.split)
qed

end
