(* ===== verification/Broker_Samples.thy ===== *)
theory Broker_Samples
  imports Broker_System
begin

text \<open>
  A small daemon on which the hypotheses of the theorems about handlers hold: one session, one recipe, one
  capability that is issued, waits in the session's queue and has its row in the store.
\<close>

definition sample_env :: broker_env where
  "sample_env =
    \<lparr>be_cap = plain_cap_env,
     be_audit = \<lparr>ae_sha256 = id, ae_hmac = (\<lambda>k m. k @ m), ae_rfc3339 = (\<lambda>_. ''1970-01-01T00:00:00Z''),
                 ae_to_string = (\<lambda>_. ''{}''), ae_from_str = (\<lambda>_. Inr (Object [])), ae_ed = plain_ed25519\<rparr>,
     be_oauth = \<lparr>ov_sha256 = id, ov_b64 = plain_base64, ov_url_parse = plain_url_parse, ov_query_pairs = (\<lambda>_. []),
                 ov_append_pairs = (\<lambda>_ _. [])\<rparr>,
     be_to_vec = (\<lambda>p. Inr (as_bytes (arp_request_id p))), be_from_str = (\<lambda>_. Inr (Object [])),
     be_role_values = (\<lambda>_. None), be_utf8_lossy = (\<lambda>bs. map (\<lambda>b. char_of (unat b)) bs), be_hmac_sha1 = (\<lambda>k m. replicate 20 0),
     be_provider_name = ''memory'', be_platform = Macos\<rparr>"

definition sample_slot :: slot where
  "sample_slot = \<lparr>sl_now = 0, sl_uuid = ''1'', sl_io = (\<lambda>_. None), sl_random = [], sl_secret = Inr [1], sl_ack = Inr (),
                  sl_http = SendFailed\<rparr>"

definition sample_capability :: Capability where
  "sample_capability =
    \<lparr>cap_capability_id = ''cap_1'', cap_request_id = ''req_1'', cap_agent_id = ''agent_1'', cap_credential_id = ''cred_1'',
     cap_action = AuthenticatePassword, cap_top_origin = sample_origin, cap_frame_origin = sample_origin,
     cap_browser_session_id = ''bs_1'', cap_extension_key_id = ''x'', cap_tab_id = 7, cap_frame_id = 0,
     cap_document_id = ''d'', cap_navigation_epoch = 3, cap_recipe_id = ''rcp_1'', cap_recipe_hash = [1],
     cap_policy_hash = [1], cap_token_hash = [4], cap_state = CapabilityState.Issued, cap_max_uses = 1, cap_used_count = 0,
     cap_issued_at = 0, cap_consume_deadline = 30000000000, cap_execution_deadline = 60000000000,
     cap_step_deadline = None, cap_flow_id = None, cap_step_id = None, cap_revoked_reason = None\<rparr>"

definition sample_entry :: CapabilityEntry where
  "sample_entry =
    \<lparr>ent_capability = sample_capability, ent_token = ''token'', ent_claims = sample_claims, ent_recipe_id = ''rcp_1'',
     ent_provider_locator = ''loc'', ent_credential_metadata = ''{}''\<rparr>"

definition sample_session :: ActiveBrowserSession where
  "sample_session =
    \<lparr>as_session = \<lparr>bs_session_id = ''bs_1'', bs_instance_id = ''inst_1'', bs_extension_key_id = ''x'', bs_profile_id = ''p'',
                   bs_assurance = ''managed'', bs_state = BrowserSessionState.Active, bs_last_heartbeat_at = 0\<rparr>,
     as_active_tab_count = 1, as_session_proof_hash = None\<rparr>"

definition sample_recipe :: SiteRecipe where
  "sample_recipe =
    \<lparr>sr_recipe_id = ''rcp_1'', sr_version = 1, sr_name = ''r'', sr_action = AuthenticatePassword,
     sr_match_rule = \<lparr>rm_top_origin = sample_origin, rm_path_prefix = None, rm_frame_origin = None\<rparr>,
     sr_fields = [\<lparr>rf_role = ''password'', rf_selector = ''#p'', rf_optional = False, rf_clear_first = True\<rparr>],
     sr_submit = None, sr_success_indicators = None, sr_oauth = None, sr_content_hash = [1], sr_enabled = True\<rparr>"

definition sample_db :: db where
  "sample_db = empty_db\<lparr>t_capabilities := [capability_row sample_capability ''k1'']\<rparr>"

definition sample_broker :: BrokerState where
  "sample_broker =
    \<lparr>b_broker_key = [], b_key_id = ''k1'', b_store = sample_db, b_policy_evaluator = sample_evaluator [],
     b_sessions = [(''bs_1'', sample_session)], b_page_contexts = [], b_capabilities = [(''cap_1'', sample_entry)],
     b_pending_offers = [(''bs_1'', [''cap_0'', ''cap_1''])], b_executions = [], b_oauth_executions = [], b_requests = [],
     b_request_agents = [], b_request_fingerprints = [], b_approvals = [], b_recipes = [(''rcp_1'', sample_recipe)],
     b_managed_browsers = [(''inst_1'', CdpFilter_new)], b_audit_key_version = 1, b_audit_key = replicate 32 9, b_next_sequence = 1,
     b_latest_hash = GENESIS_PREVIOUS_HASH\<rparr>"

definition sample_system :: system where
  "sample_system = \<lparr>sy_daemon = Running sample_broker, sy_flights = [], sy_released = []\<rparr>"

lemma sample_used_once: "used_once sample_system"
  by (simp add: used_once_def sample_system_def sample_broker_def sample_db_def empty_db_def db_inv_def one_live_grant_def)

end
