(* ===== verification/Broker_Properties.thy ===== *)
theory Broker_Properties
  imports Broker_Authority Broker_Samples
begin

text \<open>
  The guarantees of the daemon: what a released secret implies, what a capability implies, how often
  either can happen over any run of the system, and what revocation, cancellation, a change of the policy,
  a lost heartbeat and a restart leave behind.
\<close>

section \<open>Helpers\<close>

lemma serve_requests_kept:
  "b_request_fingerprints (issue_capability e b) = b_request_fingerprints b"
  "b_request_fingerprints (put_response r b) = b_request_fingerprints b"
  "b_request_agents (issue_capability e b) = b_request_agents b" "b_request_agents (put_response r b) = b_request_agents b"
  by (simp_all add: issue_capability_def put_response_def Let_def)

text \<open>Which requests are known is not changed while a new one is handled.\<close>

definition same_requests :: "BrokerState \<Rightarrow> BrokerState \<Rightarrow> bool" where
  "same_requests b b' = (b_request_fingerprints b' = b_request_fingerprints b \<and> b_request_agents b' = b_request_agents b)"

interpretation known: state_relation same_requests
  by unfold_locales (auto simp: same_requests_def)

lemma known_audited [steps_intros]: "steps same_requests (audited E sl ty at ai ctx af sf op)"
proof -
  have "steps same_requests (try_audited E sl ty at ai ctx op)"
    by (auto simp: steps_def try_audited_def same_requests_def split: sum.splits prod.splits)
  then show ?thesis unfolding audited_def by (intro steps_intros)
qed

lemma known_modify [steps_intros]:
  "(\<And>b. b_request_fingerprints (f b) = b_request_fingerprints b) \<Longrightarrow> (\<And>b. b_request_agents (f b) = b_request_agents b)
    \<Longrightarrow> steps same_requests (modifyh f)"
  by (rule known.steps_modify) (simp add: same_requests_def)

lemma known_store [steps_intros]: "steps same_requests (on_store op)"
  by (auto simp: steps_def on_store_def same_requests_def split: prod.splits)

lemma known_mint [steps_intros]: "steps same_requests (mint_authorized_capability E W a i)"
  unfolding mint_authorized_capability_def by (intro steps_intros; simp add: serve_requests_kept)

lemma known_new_request: "steps same_requests (handle_new_action_request E W g ps)"
proof -
  have rec: "steps same_requests (record_audit_event E sl ty at ai ctx)" for sl ty at ai ctx
    unfolding record_audit_event_def by (intro steps_intros)
  have auth: "steps same_requests (authorize E W now a)" for now a
    unfolding authorize_def request_approval_def by (intro steps_intros rec; simp add: serve_requests_kept)
  show ?thesis
    unfolding handle_new_action_request_def authorization_for_def evaluate_request_def require_assurance_def
    by (intro steps_intros rec auth)
qed

section \<open>Requests\<close>

text \<open>
  Sending the same action request again is harmless, whatever happened to the first one and whatever the
  clock, the database and the fresh identifiers are the second time: it leaves the daemon exactly as the
  first one left it.
\<close>

theorem request_idempotent:
  "snd (handle_action_request E V g ps (snd (handle_action_request E W g ps b))) = snd (handle_action_request E W g ps b)"
proof -
  let ?h = "\<lambda>W. handle_action_request E W g ps"
  let ?i = "arp_request_id ps"
  show ?thesis
  proof (cases "chars_count (arp_reason ps) > 500 \<or> arp_timeout_ms ps = 0 \<or> arp_timeout_ms ps > 60000")
    case True
    then have "snd (?h W b) = b" for W b by (simp add: handle_action_request_def Let_def)
    then show ?thesis by simp
  next
    case valid: False
    show ?thesis
    proof (cases "be_to_vec E ps")
      case (Inl err)
      then have "snd (?h W b) = b" for W b using valid by (simp add: handle_action_request_def Let_def bindh_def)
      then show ?thesis by simp
    next
      case (Inr encoded)
      have known: "snd (?h W b) = b" if "map_of (b_request_fingerprints b) ?i \<noteq> None" for W b
        using that valid Inr by (auto simp: handle_action_request_def Let_def bindh_def split: if_splits)
      show ?thesis
      proof (cases "map_of (b_request_fingerprints b) ?i")
        case (Some f)
        then show ?thesis using known[of b] by simp
      next
        case None
        let ?b1 = "admit_request ?i (ce_sha256 (be_cap E) encoded) g b"
        obtain r b2 where n: "handle_new_action_request E W g ps ?b1 = (r, b2)" by fastforce
        then have "b_request_fingerprints b2 = b_request_fingerprints ?b1"
          using stepsD[OF known_new_request] by (simp add: same_requests_def)
        moreover have "b_request_fingerprints (snd (?h W b)) = b_request_fingerprints b2"
          using None valid Inr n
          by (auto simp: handle_action_request_def Let_def bindh_def catchh_def split: sum.splits failure.splits)
        ultimately have "map_of (b_request_fingerprints (snd (?h W b))) ?i \<noteq> None"
          by (simp add: admit_request_def serve_requests_kept)
        then show ?thesis by (rule known)
      qed
    qed
  qed
qed

section \<open>Releases\<close>

text \<open>
  C2.  Whatever the daemon is asked, in whatever order, with its waiting handlers interleaved, over restarts
  and with the database failing at any statement: no capability is turned into released fields or into a
  stored OAuth grant more than once.
\<close>

theorem released_at_most_once:
  "distinct (sy_released (run_system E evs (stopped_system (run_ops ops empty_db))))"
proof -
  have "used_once (stopped_system (run_ops ops empty_db))"
    using db_step_inv[OF run_ops_step db_inv_empty, of ops] by (simp add: used_once_def stopped_system_def)
  from run_used_once[OF this, of E evs] show ?thesis by (simp add: used_once_def)
qed

text \<open>
  C13.  A capability that an administrator has revoked is never released afterwards, also when its
  consumption is attempted at once, interleaved with anything, or after a restart.
\<close>

theorem revoked_never_released:
  assumes "used_once s" and "sy_daemon s = Running b" and "revoke_capability_admin E sl i reason b = (Inr (), b')"
  shows "i \<notin> set (sy_released (run_system F evs (s\<lparr>sy_daemon := Running b'\<rparr>)))"
proof -
  from assms(3) obtain e d where d: "revoke_capability_with_audit (sl_io sl) i reason e (b_store b) = (Inr (), d)"
    "b_store b' = d"
    by (auto simp: revoke_capability_admin_def bindh_Inr_iff audited_ok)
  have st: "db_step (b_store b) d" using revoke_ops_step(3)[of "b_store b" "sl_io sl" i reason e] d(1) by simp
  have fresh: "\<not> spent i (b_store b)"
    using assms(1,2) revoke_spends(2)[OF d(1)] not_spent by (fastforce simp: used_once_def)
  have "used_once (s\<lparr>sy_daemon := Running b'\<rparr>)"
    using assms(1,2) st d(2) used_once_store[OF assms(1), of d] by (simp add: used_once_def)
  then have "unused i (s\<lparr>sy_daemon := Running b'\<rparr>)"
    using fresh assms(1,2) revoke_spends(1)[OF d(1)] d(2) by (auto simp: unused_def used_once_def)
  from run_unused[OF this] show ?thesis by (simp add: unused_def)
qed

theorem revoked_never_released_witness:
  "\<exists>b. revoke_capability_admin sample_env sample_slot ''cap_1'' ''lost'' sample_broker = (Inr (), b)
     \<and> (\<forall>evs. ''cap_1'' \<notin> set (sy_released (run_system sample_env evs (sample_system\<lparr>sy_daemon := Running b\<rparr>))))"
proof -
  have "is_ok (fst (revoke_capability_admin sample_env sample_slot ''cap_1'' ''lost'' sample_broker))" by code_simp
  then obtain b where b: "revoke_capability_admin sample_env sample_slot ''cap_1'' ''lost'' sample_broker = (Inr (), b)"
    by (cases "revoke_capability_admin sample_env sample_slot ''cap_1'' ''lost'' sample_broker") (auto simp: is_ok_iff)
  then show ?thesis using revoked_never_released[OF sample_used_once _ b] by (auto simp: sample_system_def)
qed

text \<open>The fields that are filled are fields of the recipe, in its order.\<close>

definition injected :: "ResolvedFieldInjection \<Rightarrow> string \<times> string \<times> bool \<times> bool" where
  "injected f = (rfi_role f, rfi_selector f, rfi_optional f, rfi_clear_first f)"

definition declared :: "RecipeField \<Rightarrow> string \<times> string \<times> bool \<times> bool" where
  "declared f = (rf_role f, rf_selector f, rf_optional f, rf_clear_first f)"

lemma injected_injection [simp]: "injected (injection v f) = declared f"
  by (simp add: injected_def declared_def injection_def)

lemma fill_fields_declared: "fill_fields value fs = Inr filled \<Longrightarrow> map injected filled = map declared fs"
  by (induction fs arbitrary: filled) (auto simp: try_r_Inr_iff split: option.splits)

lemma resolve_fields_declared:
  assumes "resolve_fields E action recipe g now secret = Inr filled"
  shows "subseq (map injected filled) (map declared (sr_fields recipe))" "action \<noteq> OAuthAuthorize"
    "\<exists>bytes. secret = Inr bytes"
proof -
  from assms obtain bytes where "secret = Inr bytes" "action \<noteq> OAuthAuthorize"
    by (auto simp: resolve_fields_def try_r_Inr_iff split: if_splits)
  moreover from this assms have "subseq (map injected filled) (map declared (sr_fields recipe))"
    by (cases action) (auto simp: resolve_fields_def comp_def subseq_map subseq_filter_left
        dest!: fill_fields_declared split: option.splits sum.splits)
  ultimately show "subseq (map injected filled) (map declared (sr_fields recipe))" "action \<noteq> OAuthAuthorize"
    "\<exists>bytes. secret = Inr bytes" by auto
qed

lemma consume_finish_ok:
  assumes "consume_finish E sl secret p b = (Inr r, b')"
  obtains e d where "resolve_fields E (cl_action (cp_claims p)) (cp_recipe p) (cp_generator p) (cp_now p) secret = Inr (ecr_fields r)"
    "ecr_fields r \<noteq> []" "ecr_execution_id r = cp_execution_id p" "ecr_recipe_id r = cp_recipe_id p"
    "create_audit_event (be_audit E) (sl_uuid sl) (b_next_sequence b) (b_latest_hash b) (b_audit_key_version b)
       (b_audit_key b) ''secret.retrieve_succeeded'' ''broker'' None (claims_context (cp_claims p)) (sl_now sl) = Inr e"
    "insert_audit_event (sl_io sl) e (b_store b) = (Inr (), d)" "b' = advance e d b"
proof -
  from assms obtain u where u: "released_fields E p secret = Inr (ecr_fields r)"
    "record_audit_event E sl ''secret.retrieve_succeeded'' ''broker'' None (claims_context (cp_claims p)) b = (Inr u, b')"
    "ecr_execution_id r = cp_execution_id p" "ecr_recipe_id r = cp_recipe_id p"
    unfolding consume_finish_def by (auto simp: catchh_Inr_iff bindh_Inr_iff)
  from u(1) have f: "resolve_fields E (cl_action (cp_claims p)) (cp_recipe p) (cp_generator p) (cp_now p) secret = Inr (ecr_fields r)"
    "ecr_fields r \<noteq> []" by (auto simp: released_fields_def try_r_Inr_iff split: if_splits)
  from u(2) obtain e d where
    "create_audit_event (be_audit E) (sl_uuid sl) (b_next_sequence b) (b_latest_hash b) (b_audit_key_version b)
       (b_audit_key b) ''secret.retrieve_succeeded'' ''broker'' None (claims_context (cp_claims p)) (sl_now sl) = Inr e"
    "insert_audit_event (sl_io sl) e (b_store b) = (Inr (), d)" "b' = advance e d b"
    by (auto simp: record_audit_event_def audited_ok)
  then show ?thesis using that f u(3,4) by blast
qed

lemma handle_consume_ok:
  assumes "handle_executor_consume E W ps b = (Inr r, b')"
  obtains now p b1 where "now \<in> {sl_now (W 0), sl_now (W 1)}"
    "consume_begin E (later 2 W) now ps b = (Inr p, b1)" "consume_finish E (W 5) (sl_secret (W 4)) p b1 = (Inr r, b')"
proof -
  let ?now = "sl_now (if totp_wait E (sl_now (W 0)) (ecp_capability_token ps) b = None then W 0 else W 1)"
  from assms obtain p b1 where "consume_begin E (later 2 W) ?now ps b = (Inr p, b1)"
    "consume_finish E (W 5) (sl_secret (W 4)) p b1 = (Inr r, b')"
    unfolding handle_executor_consume_def by (auto simp: bindh_Inr_iff)
  then show ?thesis by (intro that[of ?now]) auto
qed

lemma consume_uses:
  assumes "handle_executor_consume E W ps b = (Inr r, b')"
  shows "\<exists>entry. entry_by_token (ecp_capability_token ps) b = Some entry \<and> use_left (ent_capability entry)"
proof -
  from assms obtain now p b1 where "consume_begin E (later 2 W) now ps b = (Inr p, b1)" by (rule handle_consume_ok)
  then show ?thesis by (rule consume_begin_ok) (auto simp: verify_and_consume_iff)
qed

text \<open>
  C1.  Fields are released only for a genuine capability on the page it was issued for.  When a consumption
  succeeds, the session is known and its proof was shown; the token is the one of an entry and verifies
  under the daemon's key; its claims agree with the stored capability and with the page in every field;
  the time is inside the window and a use was left, in memory and in the database, whose row is now
  consumed; the consumption and the retrieval are the next two events of the log; the provider gave the
  secret; and the filled fields are one to five fields of the recipe the capability is bound to.
\<close>

theorem release_sound:
  "case handle_executor_consume E W ps b of (Inl _, _) \<Rightarrow> True
   | (Inr r, b') \<Rightarrow>
     (\<exists>now key entry c recipe e1 e2 secret.
        now \<in> {sl_now (W 0), sl_now (W 1)} \<and> executor_key E ps b = Inr key
        \<and> entry_by_token (ecp_capability_token ps) b = Some entry
        \<and> parse_and_verify_token (be_cap E) (ecp_capability_token ps) (ed_public (ce_ed (be_cap E)) (b_broker_key b)) = Inr c
        \<and> claims_bind_capability c (ent_capability entry) \<and> within_window c (ent_capability entry) now
        \<and> use_left (ent_capability entry) \<and> claims_bind_context c (context_snapshot (ecp_current_context ps) key)
        \<and> changed (consumable (cl_jti c)) (t_capabilities (b_store b)) = 1
        \<and> t_capabilities (b_store b') = update_rows (consumable (cl_jti c)) consume_row (t_capabilities (b_store b))
        \<and> t_audit_events (b_store b') = t_audit_events (b_store b) @ [e1, e2]
        \<and> ev_event_type e1 = ''capability.consumed'' \<and> ev_event_type e2 = ''secret.retrieve_succeeded''
        \<and> sl_secret (W 4) = Inr secret \<and> map_of (b_recipes b) (ent_recipe_id entry) = Some recipe
        \<and> subseq (map injected (ecr_fields r)) (map declared (sr_fields recipe))
        \<and> 1 \<le> length (ecr_fields r) \<and> length (ecr_fields r) \<le> 5)"
proof (cases "handle_executor_consume E W ps b")
  case (Pair res b')
  show ?thesis
  proof (cases res)
    case (Inr r)
    from Pair Inr obtain now p b1 where h: "now \<in> {sl_now (W 0), sl_now (W 1)}"
      "consume_begin E (later 2 W) now ps b = (Inr p, b1)" "consume_finish E (W 5) (sl_secret (W 4)) p b1 = (Inr r, b')"
      using handle_consume_ok by metis
    from h(2) obtain key entry cap step_claim e1 d where c:
      "executor_key E ps b = Inr key" "entry_by_token (ecp_capability_token ps) b = Some entry"
      "verify_and_consume_capability (be_cap E) (ent_capability entry) (ecp_capability_token ps)
         (ed_public (ce_ed (be_cap E)) (b_broker_key b)) (context_snapshot (ecp_current_context ps) key) now = (Inr (cp_claims p), cap)"
      "create_audit_event (be_audit E) (sl_uuid (later 2 W 1)) (b_next_sequence b) (b_latest_hash b) (b_audit_key_version b)
         (b_audit_key b) ''capability.consumed'' ''executor'' None (claims_context (cp_claims p)) (sl_now (later 2 W 1)) = Inr e1"
      "consume_capability_with_execution_and_audit (sl_io (later 2 W 1)) (cl_jti (cp_claims p))
         (new_execution (later 2 W 0) now (cp_claims p)) e1 step_claim (b_store b) = (Inr (), d)"
      "bound_recipe (cp_claims p) (ent_recipe_id entry) b = Inr (cp_recipe p)"
      "b1 = open_guard (cp_guard p) (cl_tab_id (cp_claims p))
              (start_execution (cp_claims p) cap (new_execution (later 2 W 0) now (cp_claims p)) (advance e1 d b))"
      by (rule consume_begin_ok)
    from h(3) obtain e2 d2 where f:
      "resolve_fields E (cl_action (cp_claims p)) (cp_recipe p) (cp_generator p) (cp_now p) (sl_secret (W 4)) = Inr (ecr_fields r)"
      "ecr_fields r \<noteq> []"
      "create_audit_event (be_audit E) (sl_uuid (W 5)) (b_next_sequence b1) (b_latest_hash b1) (b_audit_key_version b1)
         (b_audit_key b1) ''secret.retrieve_succeeded'' ''broker'' None (claims_context (cp_claims p)) (sl_now (W 5)) = Inr e2"
      "insert_audit_event (sl_io (W 5)) e2 (b_store b1) = (Inr (), d2)" "b' = advance e2 d2 b1"
      by (rule consume_finish_ok)
    have b1: "b_store b1 = d" using c(7) by (simp add: open_guard_def start_execution_def split: option.splits)
    note tb = consume_tables[OF c(5)]
    have tx: "insert_audit_event_tx e2 d = Inr d2" using f(4) b1 by (auto simp: insert_audit_event_def transactions)
    note rf = resolve_fields_declared[OF f(1)]
    from c(6) rf(2) have rc: "map_of (b_recipes b) (ent_recipe_id entry) = Some (cp_recipe p)" "length (sr_fields (cp_recipe p)) \<le> 5"
      by (auto simp: bound_recipe_def try_r_Inr_iff split: if_splits)
    have "length (ecr_fields r) \<le> 5" using list_emb_length[OF rf(1)] rc(2) by simp
    moreover have "1 \<le> length (ecr_fields r)" using f(2) by (cases "ecr_fields r") auto
    moreover have "ev_event_type e1 = ''capability.consumed''" "ev_event_type e2 = ''secret.retrieve_succeeded''"
      using create_audit_event_fields(4)[OF c(4)] create_audit_event_fields(4)[OF f(3)] by auto
    moreover have "t_audit_events (b_store b') = t_audit_events (b_store b) @ [e1, e2]"
      "t_capabilities (b_store b') = update_rows (consumable (cl_jti (cp_claims p))) consume_row (t_capabilities (b_store b))"
      using tb event_tx_tables[OF tx] f(5) by simp_all
    ultimately show ?thesis
      using Pair Inr h(1) c(1,2) c(3)[unfolded verify_and_consume_iff] tb(1) rf(1,3) rc(1) by auto
  qed (use Pair in simp)
qed

section \<open>The audit log\<close>

text \<open>The restarts of a run use one audit key and read the last hash without a database error.\<close>

fun keeps_log :: "u32 \<Rightarrow> bytes \<Rightarrow> sys_event \<Rightarrow> bool" where
  "keeps_log version key (Restart sl _ _ k v _) = (sl_io sl 3 = None \<and> k = key \<and> v = version)"
| "keeps_log _ _ _ = True"

definition log_ok :: "audit_env \<Rightarrow> u32 \<Rightarrow> bytes \<Rightarrow> daemon \<Rightarrow> bool" where
  "log_ok A version key m =
    (case m of
       Stopped d \<Rightarrow> verify_audit_chain A (list_audit_events d) [(version, key)] = Inr ()
     | Running b \<Rightarrow> log_in_step A b \<and> b_audit_key_version b = version \<and> b_audit_key b = key)"

lemma log_ok_rel:
  "log_ok A v k (Running b) \<Longrightarrow> log_rel A b b' \<Longrightarrow> length (t_audit_events (b_store b')) < 2 ^ 63 \<Longrightarrow> log_ok A v k (Running b')"
  by (simp add: log_ok_def log_rel_def)

lemma recover_events: "t_audit_events (snd (recover_incomplete_state io t d)) = t_audit_events d"
  by (auto simp: recover_incomplete_state_def atomically_def stmt_def try_r_def Let_def split: option.splits sum.splits)

lemma log_ok_restart:
  assumes "log_ok A v k m" "sl_io sl 3 = None"
    "try_new_with_audit_key sl key key_id k v (daemon_store m) pe = (r, d')"
  shows "case r of Inl _ \<Rightarrow> log_ok A v k (Stopped d') | Inr b \<Rightarrow> log_ok A v k (Running b)"
proof -
  let ?d = "daemon_store m"
  obtain x e where rec: "recover_incomplete_state (sl_io sl) (sl_now sl) ?d = (x, e)" by fastforce
  have ev: "t_audit_events e = t_audit_events ?d" using recover_events[of "sl_io sl" "sl_now sl" ?d] rec by simp
  have "verify_audit_chain A (list_audit_events ?d) [(v, k)] = Inr ()"
    using assms(1) by (cases m) (auto simp: log_ok_def log_in_step_def)
  then have ver: "verify_audit_chain A (list_audit_events e) [(v, k)] = Inr ()"
    using list_audit_events_cong[OF ev] by simp
  have "d' = e" using assms(3) rec by (auto simp: try_new_with_audit_key_def Let_def split: sum.splits option.splits)
  show ?thesis
  proof (cases r)
    case (Inl err)
    then show ?thesis using ver \<open>d' = e\<close> by (simp add: log_ok_def)
  next
    case (Inr b)
    then have "b_store b = e" "b_next_sequence b = get_latest_audit_sequence e + 1" "b_latest_hash b = get_latest_audit_hash e"
      "b_audit_key_version b = v" "b_audit_key b = k"
      using assms(2,3) rec by (auto simp: try_new_with_audit_key_def Let_def split: sum.splits option.splits)
    then show ?thesis using ver Inr latest_sequence[OF ver] latest_audit(1)[of e]
      by (simp add: log_ok_def log_in_step_def add.commute)
  qed
qed

fun is_restart :: "sys_event \<Rightarrow> bool" where
  "is_restart (Restart _ _ _ _ _ _) = True"
| "is_restart _ = False"

lemma running_step:
  assumes "sy_daemon s = Running b" "\<not> is_restart ev"
  obtains b' where "sy_daemon (sys_step E ev s) = Running b'" "log_rel (be_audit E) b b'"
proof (cases ev)
  case (Serve W q)
  then show ?thesis using assms(1) that serve_log_rel by simp
next
  case (BeginConsume W now ps)
  obtain x b' where "consume_begin E W now ps b = (x, b')" by fastforce
  then show ?thesis using assms(1) that BeginConsume stepsD[OF steps_consume(2)] by (auto simp: taken_off_def)
next
  case (BeginCallback W ps)
  obtain x b' where "callback_begin E W ps b = (x, b')" by fastforce
  then show ?thesis using assms(1) that BeginCallback stepsD[OF steps_callback(2)] by (auto simp: taken_off_def)
next
  case (Land n W)
  show ?thesis
  proof (cases "n < length (sy_flights s)")
    case True
    show ?thesis
    proof (cases "sy_flights s ! n")
      case (AwaitSecret p)
      obtain x b' where "consume_finish E (W 1) (sl_secret (W 0)) p b = (x, b')" by fastforce
      then show ?thesis using assms(1) that Land AwaitSecret True stepsD[OF steps_consume(3)] by (auto simp: landed_def)
    next
      case (AwaitTokens i p)
      obtain x b' where "callback_finish E W i p b = (x, b')" by fastforce
      then show ?thesis using assms(1) that Land AwaitTokens True stepsD[OF steps_callback(3)] by (auto simp: landed_def)
    qed
  qed (use assms(1) Land that logs.sr_refl in \<open>auto\<close>)
qed (use assms(2) in simp)

lemma sys_step_log:
  assumes "log_ok (be_audit E) v k (sy_daemon s)" "keeps_log v k ev"
    "length (t_audit_events (daemon_store (sy_daemon (sys_step E ev s)))) < 2 ^ 63"
  shows "log_ok (be_audit E) v k (sy_daemon (sys_step E ev s))"
proof -
  show ?thesis
  proof (cases "is_restart ev")
    case True
    then obtain sl key key_id pe where ev: "ev = Restart sl key key_id k v pe" "sl_io sl 3 = None"
      using assms(2) by (cases ev) auto
    obtain r d' where t: "try_new_with_audit_key sl key key_id k v (daemon_store (sy_daemon s)) pe = (r, d')" by fastforce
    show ?thesis using log_ok_restart[OF assms(1) ev(2) t] t unfolding ev(1) by (cases r) simp_all
  next
    case False
    show ?thesis
    proof (cases "sy_daemon s")
      case (Running b)
      obtain b' where "sy_daemon (sys_step E ev s) = Running b'" "log_rel (be_audit E) b b'"
        using running_step[OF Running False] .
      then show ?thesis using assms(1,3) Running log_ok_rel by simp
    next
      case (Stopped d)
      then have "sys_step E ev s = s" using False by (cases ev) auto
      then show ?thesis using assms(1) by simp
    qed
  qed
qed

lemma tbl_step_length: "tbl_step key rel t t' \<Longrightarrow> length t \<le> length t'"
  by (auto simp: tbl_step_def)

lemma db_step_events: "db_step d d' \<Longrightarrow> length (t_audit_events d) \<le> length (t_audit_events d')"
  unfolding db_step_def by (blast intro: tbl_step_length)

lemma run_store_step: "db_step (daemon_store (sy_daemon s)) (daemon_store (sy_daemon (run_system E evs s)))"
  by (induction evs arbitrary: s) (auto intro: db_step_trans sys_step_store)

lemma run_log:
  assumes "log_ok (be_audit E) v k (sy_daemon s)" "list_all (keeps_log v k) evs"
    "length (t_audit_events (daemon_store (sy_daemon (run_system E evs s)))) < 2 ^ 63"
  shows "log_ok (be_audit E) v k (sy_daemon (run_system E evs s))"
  using assms
proof (induction evs arbitrary: s)
  case (Cons ev evs)
  then have "length (t_audit_events (daemon_store (sy_daemon (sys_step E ev s)))) < 2 ^ 63"
    using db_step_events[OF run_store_step, of "sys_step E ev s" E evs] by simp
  then show ?case using Cons sys_step_log[of E v k s ev] by simp
qed simp



text \<open>
  A database error at the one read that fetches the last hash is taken for an empty log: the daemon then
  starts with the genesis hash, and the first event it records makes a log that is not empty fail its own
  integrity check.
\<close>

theorem restart_hash_error_breaks_log:
  assumes "try_new_with_audit_key sl key key_id audit_key version d ev = (Inr b, d')" and "sl_io sl 3 \<noteq> None"
    and "verify_audit_chain (be_audit E) (list_audit_events d) [(version, audit_key)] = Inr ()"
    and "list_audit_events d \<noteq> []" and "ev_event_hash (last (list_audit_events d)) \<noteq> GENESIS_PREVIOUS_HASH"
    and "length (t_audit_events d) + 1 < 2 ^ 63"
    and "record_audit_event E sl' ty at ai ctx b = (Inr (), b')"
  shows "verify_audit_integrity E sl'' b' \<noteq> Inr ()"
proof -
  obtain x e where rec: "recover_incomplete_state (sl_io sl) (sl_now sl) d = (x, e)" by fastforce
  have evs: "t_audit_events e = t_audit_events d" using recover_events[of "sl_io sl" "sl_now sl" d] rec by simp
  note ls = list_audit_events_cong[OF evs]
  have b: "b_store b = e" "b_next_sequence b = get_latest_audit_sequence e + 1" "b_latest_hash b = GENESIS_PREVIOUS_HASH"
    "b_audit_key_version b = version" "b_audit_key b = audit_key"
    using assms(1,2) rec by (auto simp: try_new_with_audit_key_def Let_def split: sum.splits option.splits)
  from assms(7) obtain v d2 where v: "create_audit_event (be_audit E) (sl_uuid sl') (b_next_sequence b) (b_latest_hash b)
      (b_audit_key_version b) (b_audit_key b) ty at ai ctx (sl_now sl') = Inr v"
    "insert_audit_event (sl_io sl') v e = (Inr (), d2)" "b' = advance v d2 b"
    using b(1) by (auto simp: record_audit_event_def audited_ok)
  have ver: "verify_audit_chain (be_audit E) (list_audit_events e) [(version, audit_key)] = Inr ()"
    using assms(3) ls by simp
  have "insert_audit_event_tx v e = Inr d2" using v(2) by (auto simp: insert_audit_event_def transactions)
  then have "t_audit_events d2 = t_audit_events e @ [v]" by (rule event_tx_tables(6))
  moreover have "ev_sequence v = of_nat (length (t_audit_events e) + 1)"
    using create_audit_event_fields(1)[OF v(1)] b(2) latest_sequence[OF ver] by (simp add: add.commute)
  ultimately have "list_audit_events d2 = list_audit_events e @ [v]"
    using list_append_event[OF ver] assms(6) evs by simp
  moreover have "\<not> extends (be_audit E) [(version, audit_key)] (list_audit_events e) v"
    using create_audit_event_fields(2)[OF v(1)] b(3) assms(4,5) ls by (simp add: extends_def last_hash_def)
  ultimately show ?thesis using v(3) b(4,5)
    by (auto simp: verify_audit_integrity_def verify_snoc)
qed

section \<open>Revocation, cancellation and change of the policy\<close>

definition usable_entry :: "CapabilityEntry \<Rightarrow> bool" where
  "usable_entry e = (\<not> CapabilityState_is_terminal (cap_state (ent_capability e)))"

lemma revoke_entries_where_none:
  "filter (\<lambda>(_, e). usable_entry e \<and> p (ent_capability e)) (b_capabilities (revoke_entries_where p reason b)) = []"
  by (auto simp: filter_empty_conv revoke_entries_where_def update_all_def usable_entry_def revoke_entry_def split: if_splits)

text \<open>
  C33.  A change of the policy takes effect on what was issued before.  When it succeeds, the daemon has the new
  policy, and neither in memory nor in the database is there a usable capability issued under another
  one.  When it fails, nothing is changed: policy, capabilities and rows are those before.
\<close>

theorem policy_change_revokes:
  "case replace_policy E sl ev b of
     (Inl _, b') \<Rightarrow> b_policy_evaluator b' = b_policy_evaluator b \<and> b_capabilities b' = b_capabilities b
       \<and> t_capabilities (b_store b') = t_capabilities (b_store b)
   | (Inr n, b') \<Rightarrow> b_policy_evaluator b' = ev
       \<and> filter (\<lambda>(_, e). usable_entry e \<and> cap_policy_hash (ent_capability e) \<noteq> pe_policy_hash ev) (b_capabilities b') = []
       \<and> filter (\<lambda>r. live_state (cw_state r) \<and> is_some_and (cw_policy_hash r) (\<lambda>h. h \<noteq> pe_policy_hash ev))
            (t_capabilities (b_store b')) = []"
proof -
  let ?p = "\<lambda>r. live_state (cw_state r) \<and> is_some_and (cw_policy_hash r) (\<lambda>h. h \<noteq> pe_policy_hash ev)"
  obtain r b' where R: "replace_policy E sl ev b = (r, b')" by fastforce
  have none: "filter ?p (update_rows ?p (revoke_row x) t) = []" for x t
    by (auto simp: filter_empty_conv update_rows_def revoke_row_def live_state_def)
  from R[unfolded replace_policy_def Let_def] have "case r of
     Inl _ \<Rightarrow> b_policy_evaluator b' = b_policy_evaluator b \<and> b_capabilities b' = b_capabilities b
       \<and> t_capabilities (b_store b') = t_capabilities (b_store b)
   | Inr n \<Rightarrow> b_policy_evaluator b' = ev
       \<and> filter (\<lambda>(_, e). usable_entry e \<and> cap_policy_hash (ent_capability e) \<noteq> pe_policy_hash ev) (b_capabilities b') = []
       \<and> filter ?p (t_capabilities (b_store b')) = []"
  proof (cases rule: bindh_cases)
    case (fails e)
    then show ?thesis
      by (auto simp: audited_def try_audited_def bindh_def map_errh_def revoke_capabilities_not_policy_with_audit_def
          dest: atomically_error split: sum.splits prod.splits)
  next
    case (goes_on n u)
    from goes_on(1) obtain e d where u: "u = advance e d b"
      "revoke_capabilities_not_policy_with_audit (sl_io sl) (pe_policy_hash ev) e (b_store b) = (Inr n, d)"
      by (auto simp: audited_ok)
    obtain m d1 where rv: "revoke_rows ?p ''policy_changed'' (b_store b) = (m, d1)" by fastforce
    with u(2) have "insert_audit_event_tx e d1 = Inr d"
      by (auto simp: revoke_capabilities_not_policy_with_audit_def transactions)
    then have "t_capabilities d = update_rows ?p (revoke_row ''policy_changed'') (t_capabilities (b_store b))"
      using event_tx_tables(1) rv by (auto simp: revoke_rows_def)
    then show ?thesis
      using goes_on(2) none u(1)
        revoke_entries_where_none[where p = "\<lambda>c. cap_policy_hash c \<noteq> pe_policy_hash ev"
          and b = "u\<lparr>b_policy_evaluator := ev\<rparr>" and reason = "''policy_changed''"]
      by (auto simp: revoke_entries_where_def)
  qed
  then show ?thesis using R by (simp split: sum.splits)
qed

text \<open>
  Cancelling works on what has been issued.  When an agent cancels its own request, the request is
  cancelled and none of its capabilities stays usable; a request that is finished is left alone, and one
  of another agent is refused without any change.
\<close>

theorem cancel_revokes_issued:
  "case handle_action_cancel g ps b of
     (Inl _, b') \<Rightarrow> b' = b
   | (Inr r, b') \<Rightarrow> map_of (b_request_agents b) (acp_request_id ps) = Some g
       \<and> (if acr_cancelled r
          then map_option arr_state (map_of (b_requests b') (acp_request_id ps)) = Some ActionRequestState.Cancelled
            \<and> filter (\<lambda>(_, e). usable_entry e \<and> cap_request_id (ent_capability e) = acp_request_id ps) (b_capabilities b') = []
          else b' = b)"
proof -
  let ?i = "acp_request_id ps"
  show ?thesis
  proof (cases "map_of (b_request_agents b) ?i = Some g")
    case True
    show ?thesis
    proof (cases "map_of (b_requests b) ?i")
      case (Some request)
      show ?thesis
      proof (cases "ActionRequestState_is_terminal (arr_state request) \<or> arr_state request = ActionRequestState.Executing")
        case False
        let ?b1 = "b\<lparr>b_requests := update_at ?i (\<lambda>r. r\<lparr>arr_state := ActionRequestState.Cancelled,
                arr_result_code := Some ''CANCELLED''\<rparr>) (b_requests b)\<rparr>"
        have "handle_action_cancel g ps b = (Inr \<lparr>acr_request_id = ?i, acr_cancelled = True\<rparr>,
            revoke_entries_where (\<lambda>c. cap_request_id c = ?i) ''request_cancelled'' ?b1)"
          using True Some False by (simp add: handle_action_cancel_def Let_def bindh_peek)
        then show ?thesis using True Some revoke_entries_where_none[where p = "\<lambda>c. cap_request_id c = ?i"
            and b = ?b1 and reason = "''request_cancelled''"]
          by (simp add: revoke_entries_where_def)
      qed (use True Some in \<open>simp add: handle_action_cancel_def Let_def bindh_peek\<close>)
    qed (use True in \<open>simp add: handle_action_cancel_def Let_def bindh_def\<close>)
  qed (simp add: handle_action_cancel_def Let_def bindh_def)
qed

text \<open>A capability that is terminal in memory is refused, whatever the database holds.\<close>

theorem terminal_entry_refused:
  "case entry_by_token (ecp_capability_token ps) b of None \<Rightarrow> True
   | Some entry \<Rightarrow> if usable_entry entry then True else \<not> is_ok (fst (handle_executor_consume E W ps b))"
proof (cases "entry_by_token (ecp_capability_token ps) b")
  case (Some entry)
  obtain r b' where R: "handle_executor_consume E W ps b = (r, b')" by fastforce
  have "use_left (ent_capability entry)" if "is_ok r"
    using that R Some consume_uses by (fastforce simp: is_ok_iff)
  moreover have "use_left c \<Longrightarrow> \<not> CapabilityState_is_terminal (cap_state c)" for c by (auto simp: use_left_def)
  ultimately show ?thesis using Some R by (auto simp: usable_entry_def)
qed simp

end
