(* ===== verification/Broker_Sessions.thy ===== *)
theory Broker_Sessions
  imports Broker_Properties
begin

text \<open>
  Sessions, offers and sensitive windows of the daemon: what a browser is offered, when observation is
  blocked, what a lost heartbeat leaves, and the places where the handlers do less than they mean to.
\<close>

section \<open>Sensitive windows\<close>

lemma filter_after_window:
  assumes "sensitive_filter_for_session i b = Some (instance_id, f)"
  shows "sensitive_filter_for_session i (enter_window instance_id tab b) = Some (instance_id, enter_sensitive_window tab f)"
  using assms by (auto simp: sensitive_filter_for_session_def enter_window_def Let_def split: option.splits)

lemma filter_frame:
  "sensitive_filter_for_session i (advance e d b) = sensitive_filter_for_session i b"
  "sensitive_filter_for_session i (start_execution c cap x b) = sensitive_filter_for_session i b"
  by (simp_all add: sensitive_filter_for_session_def start_execution_def Let_def split: option.split)

text \<open>
  C34.  While a released secret is on its way into a page, no agent can look.  After a consumption has succeeded
  for a session of a managed browser, observing that session is refused.
\<close>

theorem release_blocks_observation:
  "case handle_executor_consume E W ps b of (Inl _, _) \<Rightarrow> True
   | (Inr r, b') \<Rightarrow>
     (case sensitive_filter_for_session (ec_browser_session_id (ecp_current_context ps)) b of None \<Rightarrow> True
      | Some _ \<Rightarrow> guard_observation (ec_browser_session_id (ecp_current_context ps)) b'
          = Inl (rpc OBSERVATION_BLOCKED ''Observation is blocked while an authentication action is in progress''))"
proof (cases "handle_executor_consume E W ps b")
  case (Pair res b')
  let ?i = "ec_browser_session_id (ecp_current_context ps)"
  show ?thesis
  proof (cases res)
    case (Inr r)
    from Pair Inr obtain now p b1 where h: "consume_begin E (later 2 W) now ps b = (Inr p, b1)"
      "consume_finish E (W 5) (sl_secret (W 4)) p b1 = (Inr r, b')" by (blast elim: handle_consume_ok)
    from h(1) obtain key cap x e1 d and entry :: CapabilityEntry where c:
      "verify_and_consume_capability (be_cap E) (ent_capability entry) (ecp_capability_token ps)
         (ed_public (ce_ed (be_cap E)) (b_broker_key b)) (context_snapshot (ecp_current_context ps) key) now = (Inr (cp_claims p), cap)"
      "cp_guard p = map_option fst (sensitive_filter_for_session (cl_browser_session_id (cp_claims p)) b)"
      "b1 = open_guard (cp_guard p) (cl_tab_id (cp_claims p)) (start_execution (cp_claims p) cap x (advance e1 d b))" by (rule consume_begin_ok)
    have i: "cl_browser_session_id (cp_claims p) = ?i"
      using c(1) by (simp add: verify_and_consume_iff claims_bind_context_def context_snapshot_def)
    from h(2) obtain e2 d2 where f: "b' = advance e2 d2 b1" by (rule consume_finish_ok)
    show ?thesis
    proof (cases "sensitive_filter_for_session ?i b")
      case (Some q)
      obtain instance_id fl where q: "q = (instance_id, fl)" by fastforce
      have "sensitive_filter_for_session ?i b' = Some (instance_id, enter_sensitive_window (cl_tab_id (cp_claims p)) fl)"
        unfolding f filter_frame c(3) c(2) i Some q
        by (simp add: open_guard_def filter_after_window filter_frame Some q)
      then show ?thesis using Pair Inr Some
        by (simp add: guard_observation_def has_sensitive_window_def enter_sensitive_window_def)
    qed (use Pair Inr in simp)
  qed (use Pair in simp)
qed

text \<open>
  The windows do not nest.  When two consumptions for one tab are in flight, the failure of one closes the
  window of both, and the tab can be observed while the other one's secret is still on its way.
\<close>

theorem window_closed_by_other_failure:
  assumes "cp_guard p = Some i" and "cp_guard q = Some i" and "cl_tab_id (cp_claims p) = cl_tab_id (cp_claims q)"
    and "map_of (b_managed_browsers b) i = Some f"
  shows "case map_of (b_managed_browsers (drop_guard p (open_guard (cp_guard q) (cl_tab_id (cp_claims q)) b))) i of
     None \<Rightarrow> False | Some f' \<Rightarrow> \<not> is_tab_in_sensitive_window f' (cl_tab_id (cp_claims q))"
  using assms by (simp add: drop_guard_def open_guard_def exit_window_def enter_window_def
      is_tab_in_sensitive_window_def exit_sensitive_window_def)

section \<open>Lost heartbeats\<close>

lemma audit_stale_frame: "audit_stale E W ids b = (r, b') \<Longrightarrow> b_sessions b' = b_sessions b \<and> b_capabilities b' = b_capabilities b"
proof (induction ids arbitrary: W b)
  case (Cons i ids)
  have rec: "b_sessions u = b_sessions b" "b_capabilities u = b_capabilities b"
    if "record_audit_event E sl ty at ai ctx b = (x, u)" for sl ty at ai ctx x u
    using that by (auto simp: record_audit_event_def audited_def try_audited_def bindh_def map_errh_def
        split: sum.splits prod.splits)
  from Cons.prems show ?case unfolding audit_stale.simps
    by (cases rule: bindh_cases) (use rec Cons.IH in fastforce)+
qed simp

lemma close_windows_frame:
  "b_sessions (close_windows_of ids b) = b_sessions b" "b_capabilities (close_windows_of ids b) = b_capabilities b"
proof -
  have one: "b_sessions (close_execution_window i b) = b_sessions b" "b_capabilities (close_execution_window i b) = b_capabilities b" for i b
    by (auto simp: close_execution_window_def exit_window_def split: option.split)
  have "b_sessions (fold close_execution_window xs b) = b_sessions b" "b_capabilities (fold close_execution_window xs b) = b_capabilities b" for xs b
    by (induction xs arbitrary: b) (simp_all add: one)
  then show "b_sessions (close_windows_of ids b) = b_sessions b" "b_capabilities (close_windows_of ids b) = b_capabilities b"
    by (simp_all add: close_windows_of_def)
qed

lemma mark_stale_none: "stale_session_ids now (mark_stale now b) = []"
  by (auto simp: stale_session_ids_def filter_empty_conv mark_stale_def update_all_def is_stale_def split: if_splits)

text \<open>
  A browser that stops its heartbeat loses its capabilities.  After the clean-up, whether or not its
  audit records could be written, no session is active with a heartbeat ten or more seconds old, and no
  capability of a session that just went stale is usable.
\<close>

theorem stale_sessions_contained:
  "case expire_stale_sessions E W now b of (r, b') \<Rightarrow>
     stale_session_ids now b' = []
     \<and> filter (\<lambda>(_, e). usable_entry e \<and> List.member (stale_session_ids now b) (cap_browser_session_id (ent_capability e)))
         (b_capabilities b') = []"
proof -
  let ?ids = "stale_session_ids now b"
  obtain r b' where R: "expire_stale_sessions E W now b = (r, b')" by fastforce
  show ?thesis
  proof (cases "?ids = []")
    case True
    then show ?thesis using mark_stale_none by (simp add: expire_stale_sessions_def filter_empty_conv)
  next
    case False
    let ?b1 = "revoke_entries_where (\<lambda>c. List.member ?ids (cap_browser_session_id c)) ''session_stale''
        (close_windows_of ?ids (mark_stale now b))"
    from R False have "bindh (audit_stale E W ?ids) (\<lambda>_. returnh (length ?ids)) ?b1 = (r, b')"
      by (simp add: expire_stale_sessions_def)
    then have "b_sessions b' = b_sessions ?b1 \<and> b_capabilities b' = b_capabilities ?b1"
      by (cases rule: bindh_cases) (auto dest: audit_stale_frame)
    moreover have "b_sessions ?b1 = b_sessions (mark_stale now b)"
      by (simp add: revoke_entries_where_def close_windows_frame)
    ultimately show ?thesis
      using R mark_stale_none[of now b] revoke_entries_where_none[where p = "\<lambda>c. List.member ?ids (cap_browser_session_id c)"
          and b = "close_windows_of ?ids (mark_stale now b)" and reason = "''session_stale''"]
      by (simp add: stale_session_ids_def)
  qed
qed

text \<open>
  A heartbeat makes any known session active, also one whose browser was closed and whose state is
  \<open>Terminated\<close>, a state the domain model lets nothing leave.
\<close>

theorem heartbeat_revives_session:
  "case map_of (b_sessions b) i of None \<Rightarrow> True
   | Some active \<Rightarrow>
     map_option (\<lambda>a. bs_state (as_session a)) (map_of (b_sessions (snd (handle_executor_heartbeat sl i n b))) i)
       = Some BrowserSessionState.Active
     \<and> \<not> is_ok (BrowserSessionState_transition_to BrowserSessionState.Terminated BrowserSessionState.Active)"
proof (cases "map_of (b_sessions b) i")
  case (Some active)
  have "\<not> is_ok (BrowserSessionState_transition_to BrowserSessionState.Terminated BrowserSessionState.Active)" by code_simp
  then show ?thesis using Some by (simp add: handle_executor_heartbeat_def bindh_peek)
qed simp

section \<open>Cancellation and decisions\<close>

definition with_requests ::
    "(RequestId \<times> ActionResponseResult) list \<Rightarrow> (CapabilityId \<times> CapabilityEntry) list \<Rightarrow> BrokerState \<Rightarrow> BrokerState" where
  "with_requests rs cs b = b\<lparr>b_requests := rs, b_capabilities := cs\<rparr>"

lemma audited_with_requests:
  "audited E sl ty at ai ctx af sf op (with_requests rs cs b) =
    (fst (audited E sl ty at ai ctx af sf op b), with_requests rs cs (snd (audited E sl ty at ai ctx af sf op b)))"
  by (simp add: audited_def try_audited_def bindh_def map_errh_def with_requests_def split: sum.split prod.split)

lemma mint_with_requests:
  "fst (mint_authorized_capability E W a x (with_requests rs cs b)) = fst (mint_authorized_capability E W a x b)"
proof -
  have key: "b_broker_key (with_requests rs cs b) = b_broker_key b" "b_key_id (with_requests rs cs b) = b_key_id b"
    by (simp_all add: with_requests_def)
  show ?thesis
    unfolding mint_authorized_capability_def bindh_run(3) case_prod_conv key
    by (auto simp: bindh_def audited_with_requests Let_def split: option.split sum.split prod.split)
qed

lemma bind_audited_with_requests:
  assumes "\<And>x u. fst (f x (with_requests rs cs u)) = fst (f x u)"
  shows "fst (bindh (audited E sl ty at ai ctx af sf op) f (with_requests rs cs b))
    = fst (bindh (audited E sl ty at ai ctx af sf op) f b)"
  using assms by (auto simp: bindh_def audited_with_requests split: sum.split prod.split)

lemma decide_with_requests:
  "fst (decide_approval_at E W i ok digest actor presence now (with_requests rs cs b))
    = fst (decide_approval_at E W i ok digest actor presence now b)"
proof -
  have reads: "b_approvals (with_requests rs cs b) = b_approvals b"
    "approval_outcome now ok digest presence p (with_requests rs cs b) = approval_outcome now ok digest presence p b" for p
    by (simp_all add: with_requests_def approval_outcome_def context_is_current_def)
  have forget: "(with_requests rs cs u)\<lparr>b_approvals := x\<rparr> = with_requests rs cs (u\<lparr>b_approvals := x\<rparr>)"
    "b_approvals (with_requests rs cs u) = b_approvals u" for u x
    by (simp_all add: with_requests_def)
  have found: "bindh (peekh (\<lambda>b. ok_or err (map_of (b_approvals b) i))) f (with_requests rs cs b)
      = (case map_of (b_approvals b) i of None \<Rightarrow> (Inl err, with_requests rs cs b) | Some p \<Rightarrow> f p (with_requests rs cs b))"
    "bindh (peekh (\<lambda>b. ok_or err (map_of (b_approvals b) i))) f b
      = (case map_of (b_approvals b) i of None \<Rightarrow> (Inl err, b) | Some p \<Rightarrow> f p b)"
    for err and f :: "PendingApprovalEntry \<Rightarrow> ActionResponseResult broker_handler"
    by (simp_all add: bindh_def reads split: option.split)
  show ?thesis
    unfolding decide_approval_at_def found bindh_run(3) reads(2) Let_def
    by (cases "map_of (b_approvals b) i")
      (simp_all only: option.case fst_conv, intro bind_audited_with_requests, simp only: if_distrib[of fst] bindh_run(4) forget,
        simp add: mint_with_requests cong: if_cong)
qed

text \<open>
  A cancellation does not reach an approval that is pending for the request: whatever the person
  decides afterwards has the result it would have had, which may be a capability.
\<close>

theorem cancellation_leaves_decision_open:
  "fst (decide_approval_at E W i ok digest actor presence now (snd (handle_action_cancel agent_id ps b)))
    = fst (decide_approval_at E W i ok digest actor presence now b)"
proof -
  obtain rs cs where "snd (handle_action_cancel agent_id ps b) = with_requests rs cs b"
  proof (cases "handle_action_cancel agent_id ps b")
    case (Pair r b')
    have "snd (handle_action_cancel agent_id ps b) = with_requests (b_requests b') (b_capabilities b') b"
      using Pair unfolding handle_action_cancel_def Let_def
      by (auto simp: bindh_def with_requests_def revoke_entries_where_def split: sum.splits if_splits)
    then show ?thesis using that by blast
  qed
  then show ?thesis by (simp add: decide_with_requests)
qed

section \<open>Offers\<close>

text \<open>The offers a browser gets from polling \<open>n\<close> times in a row.\<close>

fun polls :: "broker_env \<Rightarrow> (nat \<Rightarrow> world) \<Rightarrow> BrowserSessionId \<Rightarrow> nat \<Rightarrow> BrokerState \<Rightarrow> (failure + ExecutionOfferResult option) list" where
  "polls E Ws s 0 b = []"
| "polls E Ws s (Suc n) b =
    (let (r, b') = handle_execution_next E (Ws 0) s b in r # polls E (\<lambda>k. Ws (Suc k)) s n b')"

lemma polls_more: "m \<le> n \<Longrightarrow> set (polls E Ws s m b) \<subseteq> set (polls E Ws s n b)"
proof (induction m arbitrary: Ws b n)
  case (Suc m)
  obtain n' where n: "n = Suc n'" "m \<le> n'" using Suc.prems by (cases n) auto
  obtain r b' where "handle_execution_next E (Ws 0) s b = (r, b')" by fastforce
  then show ?case using Suc.IH[of n' "\<lambda>k. Ws (Suc k)" b'] n by auto
qed simp

definition same_entries :: "BrokerState \<Rightarrow> BrokerState \<Rightarrow> bool" where
  "same_entries b b' = (b_sessions b' = b_sessions b \<and> b_capabilities b' = b_capabilities b \<and> b_recipes b' = b_recipes b)"

interpretation entries: state_relation same_entries
  by unfold_locales (auto simp: same_entries_def)

lemma set_queue_fields [simp]:
  "same_entries b (set_queue s q b)" "map_of (b_pending_offers (set_queue s q b)) s = Some q"
  "b_capabilities (set_queue s q b) = b_capabilities b" "b_recipes (set_queue s q b) = b_recipes b"
  by (simp_all add: same_entries_def set_queue_def)

definition same_offers :: "BrokerState \<Rightarrow> BrokerState \<Rightarrow> bool" where
  "same_offers b b' = (same_entries b b' \<and> b_pending_offers b' = b_pending_offers b)"

interpretation offers: state_relation same_offers
  by unfold_locales (auto simp: same_offers_def same_entries_def)

lemma make_offer_keeps: "steps same_offers (make_offer E sl i e)"
  unfolding make_offer_def oauth_plan_def
  by (intro steps_intros offers.steps_modify) (simp add: same_offers_def same_entries_def)

lemma make_offer_form:
  assumes "map_of (b_recipes b) (ent_recipe_id e) = Some recipe" "cl_action (ent_claims e) \<noteq> OAuthAuthorize"
  shows "\<exists>offer. make_offer E sl i e b = (Inr (Some offer), b) \<and> eor_capability_token offer = ent_token e"
  using assms by (simp add: make_offer_def oauth_plan_def bindh_peek Let_def)

text \<open>A poll offers the capability or brings it nearer to the head of the queue.\<close>

lemma next_offer_progress:
  assumes "map_of (b_capabilities b) i = Some e" "usable_entry e" "\<And>k. sl_now (W k) < cap_consume_deadline (ent_capability e)"
    and "map_of (b_recipes b) (ent_recipe_id e) = Some recipe" "cl_action (ent_claims e) \<noteq> OAuthAuthorize"
  shows "next_offer E W s (pre @ i # post) b = (r, b') \<Longrightarrow> same_entries b b'
    \<and> ((\<exists>offer. r = Inr (Some offer) \<and> eor_capability_token offer = ent_token e)
       \<or> (\<exists>pre'. length pre' < length pre \<and> map_of (b_pending_offers b') s = Some (pre' @ i # post)))"
  using assms
proof (induction pre arbitrary: W b)
  case Nil
  obtain offer where "make_offer E (W 0) i e (set_queue s post b) = (Inr (Some offer), set_queue s post b)"
    "eor_capability_token offer = ent_token e"
    using make_offer_form[of "set_queue s post b"] Nil.prems by fastforce
  moreover have "\<not> cap_consume_deadline (ent_capability e) \<le> sl_now (W 0)" using Nil.prems(4)[of 0] by simp
  ultimately show ?case using Nil.prems by (auto simp: usable_entry_def)
next
  case (Cons j pre)
  let ?b = "set_queue s (pre @ i # post) b"
  consider (skips) "next_offer E (later 1 W) s (pre @ i # post) ?b = (r, b')"
    | (offers) entry where "make_offer E (W 0) j entry ?b = (r, b')"
    using Cons.prems(1) by (auto split: option.splits if_splits)
  then show ?case
  proof cases
    case skips
    then have "same_entries ?b b' \<and> ((\<exists>offer. r = Inr (Some offer) \<and> eor_capability_token offer = ent_token e)
       \<or> (\<exists>pre'. length pre' < length pre \<and> map_of (b_pending_offers b') s = Some (pre' @ i # post)))"
      using Cons.prems by (intro Cons.IH) (auto simp: later_def)
    then show ?thesis using entries.sr_trans[of b ?b b'] by (auto intro: less_SucI)
  next
    case offers
    have "same_offers ?b b'" using stepsD[OF make_offer_keeps offers] .
    then show ?thesis using entries.sr_trans[of b ?b b'] by (auto simp: same_offers_def)
  qed
qed

lemma execution_next_active:
  assumes "map_of (b_sessions b) s = Some active" "bs_state (as_session active) = BrowserSessionState.Active"
    and "sl_now (W 0) - bs_last_heartbeat_at (as_session active) < seconds 10" "map_of (b_pending_offers b) s = Some q"
  shows "handle_execution_next E W s b = next_offer E (later 1 W) s q b"
  using assms by (simp add: handle_execution_next_def bindh_peek)



end
