(* ===== verification/Broker_Types.thy ===== *)
theory Broker_Types
  imports Broker_System
begin

text \<open>
  What the maps of the daemon hold.  \<open>broker_wf\<close> is the invariant of \<open>BrokerState\<close>: every map has each
  key once, every entry is filed under the identifier it carries, and an offer that waits for a browser
  names a capability the daemon has.  \<open>types_rel\<close> makes it a relation between states, so that the rules of
  \<open>state_relation\<close> carry it through the handlers.
\<close>

section \<open>Tables\<close>

definition table :: "('v \<Rightarrow> 'k) \<Rightarrow> ('k \<times> 'v) list \<Rightarrow> bool" where
  "table key m = (distinct (map fst m) \<and> list_all (\<lambda>(k, v). key v = k) m)"

lemma table_lookup: "table key m \<Longrightarrow> map_of m k = Some v \<Longrightarrow> key v = k"
  by (auto simp: table_def list_all_iff dest: map_of_SomeD)

lemma table_iff: "table key m \<longleftrightarrow> distinct (map fst m) \<and> (\<forall>k v. map_of m k = Some v \<longrightarrow> key v = k)"
  by (auto simp: table_def list_all_iff dest: map_of_SomeD)

lemma table_empty [simp]: "table key []"
  by (simp add: table_def)

lemma table_update [simp]: "table key m \<Longrightarrow> key v = k \<Longrightarrow> table key (AList.update k v m)"
  by (auto simp: table_iff distinct_update)

lemma table_delete [simp]: "table key m \<Longrightarrow> table key (AList.delete k m)"
  by (auto simp: table_iff distinct_delete)

lemma table_update_at: "table key m \<Longrightarrow> (\<And>v. key v = k \<Longrightarrow> key (f v) = k) \<Longrightarrow> table key (update_at k f m)"
  by (auto simp: table_iff)

lemma table_update_all: "table key m \<Longrightarrow> (\<And>v. key (f v) = key v) \<Longrightarrow> table key (update_all f m)"
  by (auto simp: table_iff)

section \<open>The invariant\<close>

definition pages_wf :: "(BrowserSessionId \<times> (u32 \<times> PageContext) list) list \<Rightarrow> bool" where
  "pages_wf m = (distinct (map fst m) \<and> list_all (\<lambda>(_, tabs). table pg_tab_id tabs) m)"

definition offers_wf :: "(BrowserSessionId \<times> CapabilityId list) list \<Rightarrow> (CapabilityId \<times> CapabilityEntry) list \<Rightarrow> bool" where
  "offers_wf offers entries =
    (distinct (map fst offers) \<and> list_all (\<lambda>(_, q). list_all (\<lambda>i. map_of entries i \<noteq> None) q) offers)"

definition broker_wf :: "BrokerState \<Rightarrow> bool" where
  "broker_wf b =
    (table (\<lambda>a. bs_session_id (as_session a)) (b_sessions b)
     \<and> table (\<lambda>e. cap_capability_id (ent_capability e)) (b_capabilities b)
     \<and> table (\<lambda>x. ex_execution_id (ax_execution x)) (b_executions b)
     \<and> table po_capability_id (b_oauth_executions b)
     \<and> table arr_request_id (b_requests b)
     \<and> table (\<lambda>p. ap_approval_id (pn_approval p)) (b_approvals b)
     \<and> table sr_recipe_id (b_recipes b)
     \<and> pages_wf (b_page_contexts b) \<and> offers_wf (b_pending_offers b) (b_capabilities b)
     \<and> distinct (map fst (b_managed_browsers b))
     \<and> distinct (map fst (b_request_agents b)) \<and> distinct (map fst (b_request_fingerprints b)))"

lemma offers_iff:
  "offers_wf offers entries \<longleftrightarrow> distinct (map fst offers)
     \<and> (\<forall>s q i. map_of offers s = Some q \<longrightarrow> i \<in> set q \<longrightarrow> map_of entries i \<noteq> None)"
  by (fastforce simp: offers_wf_def list_all_iff dest: map_of_SomeD)

lemma pages_iff: "pages_wf m \<longleftrightarrow> distinct (map fst m) \<and> (\<forall>s tabs. map_of m s = Some tabs \<longrightarrow> table pg_tab_id tabs)"
  by (fastforce simp: pages_wf_def list_all_iff dest: map_of_SomeD)

lemma offers_more: "offers_wf q m \<Longrightarrow> (\<And>i. map_of m i \<noteq> None \<Longrightarrow> map_of m' i \<noteq> None) \<Longrightarrow> offers_wf q m'"
  by (simp add: offers_iff)

lemma offers_same [simp]:
  "offers_wf q m \<Longrightarrow> offers_wf q (update_at k f m)" "offers_wf q m \<Longrightarrow> offers_wf q (update_all g m)"
  by (auto elim!: offers_more split: if_splits)

section \<open>The changes a handler makes\<close>

definition types_rel :: "BrokerState \<Rightarrow> BrokerState \<Rightarrow> bool" where
  "types_rel b b' = (broker_wf b \<longrightarrow> broker_wf b')"

interpretation types: state_relation types_rel
  by unfold_locales (auto simp: types_rel_def)

lemma types_modify [steps_intros]: "(\<And>b. broker_wf b \<Longrightarrow> broker_wf (f b)) \<Longrightarrow> steps types_rel (modifyh f)"
  by (simp add: types.steps_modify types_rel_def)

lemma types_store [steps_intros]: "steps types_rel (on_store op)"
  by (simp add: steps_def types_rel_def on_store_def broker_wf_def split: prod.split)

lemma types_try_audited [steps_intros]: "steps types_rel (try_audited E sl ty at ai ctx op)"
  by (auto simp: steps_def types_rel_def try_audited_def broker_wf_def split: sum.split prod.split)

lemma types_audited [steps_intros]:
  "steps types_rel (audited E sl ty at ai ctx af sf op)" "steps types_rel (record_audit_event E sl ty' at ai ctx)"
  unfolding record_audit_event_def audited_def by (intro steps_intros)+

text \<open>What a well-formed state gives a handler that reads it.\<close>

lemma types_peek:
  "(\<And>b x. broker_wf b \<Longrightarrow> p b = Inr x \<Longrightarrow> Q x) \<Longrightarrow> (\<And>x. Q x \<Longrightarrow> steps types_rel (f x))
    \<Longrightarrow> steps types_rel (bindh (peekh p) f)"
  by (auto simp: steps_def types_rel_def bindh_def split: sum.splits)

lemma types_read:
  "(\<And>b. Q (g b)) \<Longrightarrow> (\<And>x. Q x \<Longrightarrow> steps types_rel (f x)) \<Longrightarrow> steps types_rel (bindh (readh g) f)"
  by (auto simp: steps_def types_rel_def)

lemma wf_issue: "broker_wf b \<Longrightarrow> broker_wf (issue_capability e b)"
  unfolding broker_wf_def issue_capability_def Let_def
  by (auto simp: offers_iff distinct_update split: option.splits if_splits)

lemma wf_response: "broker_wf b \<Longrightarrow> broker_wf (put_response r b)"
  by (simp add: broker_wf_def put_response_def)

lemma wf_register:
  "broker_wf b \<Longrightarrow> broker_wf (register_recipe r b)" "broker_wf b \<Longrightarrow> broker_wf (register_browser_session s b)"
  "broker_wf b \<Longrightarrow> broker_wf (register_page_context c i b)"
  by (auto simp: broker_wf_def register_recipe_def register_browser_session_def register_page_context_def Let_def
      pages_iff distinct_update split: option.splits)

lemma wf_revoke: "broker_wf b \<Longrightarrow> broker_wf (revoke_entries_where p reason b)"
  by (simp add: broker_wf_def revoke_entries_where_def revoke_entry_def table_update_all)

lemma wf_windows:
  "broker_wf b \<Longrightarrow> broker_wf (close_execution_window i b)" "broker_wf b \<Longrightarrow> broker_wf (open_guard g t b)"
  "broker_wf b \<Longrightarrow> broker_wf (drop_guard p b)"
  by (auto simp: broker_wf_def close_execution_window_def open_guard_def drop_guard_def enter_window_def exit_window_def
      split: option.split)

lemma wf_start: "broker_wf b \<Longrightarrow> cap_capability_id c = cl_jti cl \<Longrightarrow> broker_wf (start_execution cl c x b)"
  by (simp add: broker_wf_def start_execution_def table_update_at)

lemma wf_finish: "broker_wf b \<Longrightarrow> ex_execution_id x = i \<Longrightarrow> broker_wf (finish_execution E now i x r st co b)"
  unfolding finish_execution_def
  by (rule wf_windows(1)) (simp add: broker_wf_def table_update_at finish_request_def)

lemma wf_queue:
  "broker_wf b \<Longrightarrow> list_all (\<lambda>i. map_of (b_capabilities b) i \<noteq> None) q \<Longrightarrow> broker_wf (set_queue s q b)"
  by (auto simp: broker_wf_def set_queue_def offers_iff distinct_update list_all_iff split: if_splits)

lemmas wf_changes = wf_issue wf_response wf_register wf_revoke wf_windows wf_start wf_finish

section \<open>Every handler\<close>

lemma types_requests [steps_intros]:
  "steps types_rel (mint_authorized_capability E W a i)"
  "steps types_rel (request_approval E W now a)"
  "steps types_rel (authorize E W now a)"
  "steps types_rel (handle_new_action_request E W g ps)"
proof -
  show 1: "steps types_rel (mint_authorized_capability E W a i)" for W a i
    unfolding mint_authorized_capability_def by (intro steps_intros; simp add: wf_changes)
  show 2: "steps types_rel (request_approval E W now a)" for now a
    unfolding request_approval_def by (intro steps_intros; simp add: wf_changes) (simp add: broker_wf_def)
  show 3: "steps types_rel (authorize E W now a)" for now a
    unfolding authorize_def by (intro steps_intros 1 2)
  show "steps types_rel (handle_new_action_request E W g ps)"
    unfolding handle_new_action_request_def authorization_for_def evaluate_request_def require_assurance_def
    by (intro steps_intros 3)
qed

lemma types_agent [steps_intros]:
  "steps types_rel (handle_action_request E W g ps)"
  "steps types_rel (handle_action_authenticate E W g qs)"
  "steps types_rel (handle_action_cancel g cs)"
proof -
  show 1: "steps types_rel (handle_action_request E W g ps)" for W ps
    unfolding handle_action_request_def admit_request_def
    by (intro steps_intros; (rule wf_response)?; simp add: broker_wf_def distinct_update table_update_at fail_request_def)
  show "steps types_rel (handle_action_authenticate E W g qs)"
    unfolding handle_action_authenticate_def by (intro steps_intros 1)
  show "steps types_rel (handle_action_cancel g cs)"
    unfolding handle_action_cancel_def
    by (intro steps_intros; (rule wf_revoke)?; simp add: broker_wf_def table_update_at)
qed

lemma types_approvals [steps_intros]:
  "steps types_rel (decide_approval_at E W i ok dg ac pv now)"
  "steps types_rel (decide_approval E W i ok dg ac pv)"
  "steps types_rel (expire_pending_approvals E W now)"
proof -
  show 1: "steps types_rel (decide_approval_at E W i ok dg ac pv now)" for W i ok dg ac pv now
    unfolding decide_approval_at_def by (intro steps_intros; (rule wf_response)?; simp add: broker_wf_def)
  show "steps types_rel (decide_approval E W i ok dg ac pv)"
    unfolding decide_approval_def by (rule 1)
  have "steps types_rel (expire_each E W now xs)" for W xs
    by (induction xs arbitrary: W) (auto intro!: steps_intros 1)
  then show "steps types_rel (expire_pending_approvals E W now)"
    unfolding expire_pending_approvals_def by (intro steps_intros)
qed

lemma wf_oauth_plan: "steps types_rel (oauth_plan E sl ci en rc)"
  unfolding oauth_plan_def by (intro steps_intros; simp add: broker_wf_def)

lemma wf_make_offer: "steps types_rel (make_offer E sl ci en)"
  unfolding make_offer_def by (intro steps_intros wf_oauth_plan)

lemma wf_next_offer:
  "broker_wf b \<Longrightarrow> list_all (\<lambda>i. map_of (b_capabilities b) i \<noteq> None) q \<Longrightarrow> broker_wf (snd (next_offer E W s q b))"
proof (induction q arbitrary: W b)
  case (Cons i q)
  have "broker_wf (set_queue s q b)" using Cons.prems by (simp add: wf_queue)
  moreover have "b_capabilities (set_queue s q b) = b_capabilities b" by (simp add: set_queue_def)
  ultimately show ?case
    using Cons.IH Cons.prems wf_make_offer by (auto simp: steps_def types_rel_def split: option.split)
qed (simp add: wf_queue)

lemma types_browsers [steps_intros]:
  "steps types_rel (handle_executor_prepare W c)"
  "steps types_rel (handle_browser_register E W rp)"
  "steps types_rel (handle_executor_heartbeat sl si n)"
  "steps types_rel (handle_execution_next E W si)"
proof -
  show "steps types_rel (handle_executor_prepare W c)"
    unfolding handle_executor_prepare_def by (intro steps_intros wf_register)
  show "steps types_rel (handle_browser_register E W rp)"
    unfolding handle_browser_register_def by (intro steps_intros; simp add: broker_wf_def)
  show "steps types_rel (handle_executor_heartbeat sl si n)"
    unfolding handle_executor_heartbeat_def by (intro steps_intros; simp add: broker_wf_def table_update_at)
  have "broker_wf (snd (next_offer E V si (case map_of (b_pending_offers b) si of None \<Rightarrow> [] | Some q \<Rightarrow> q) b))"
    if "broker_wf b" for V b
    using that by (intro wf_next_offer) (auto simp: broker_wf_def offers_iff list_all_iff split: option.split)
  then have "steps types_rel (bindh (readh (\<lambda>b. case map_of (b_pending_offers b) si of None \<Rightarrow> [] | Some q \<Rightarrow> q))
      (next_offer E V si))" for V
    by (simp add: steps_def types_rel_def)
  then show "steps types_rel (handle_execution_next E W si)"
    unfolding handle_execution_next_def by (intro types.steps_bind[OF types.steps_peek] types.steps_if types.steps_pure)
qed

lemma types_callback [steps_intros]:
  "steps types_rel (fail_oauth_callback E W pe ci er)"
  "steps types_rel (callback_begin E W cps)"
  "steps types_rel (callback_finish E W ci pe)"
proof -
  show 1: "steps types_rel (fail_oauth_callback E W pe ci er)" for W pe ci er
    unfolding fail_oauth_callback_def by (intro steps_intros wf_response)
  show "steps types_rel (callback_begin E W cps)"
    unfolding callback_begin_def
    by (intro steps_intros 1; simp add: broker_wf_def table_update_at consume_entry_def)
  show "steps types_rel (callback_finish E W ci pe)"
    unfolding callback_finish_def by (intro steps_intros 1 wf_response)
qed

lemma types_consume [steps_intros]:
  "steps types_rel (consume_begin E W now ps)"
  "steps types_rel (consume_finish E sl sec p)"
  "steps types_rel (handle_executor_result E W rs)"
proof -
  have 1: "steps types_rel (consume_granted cl cp en gn now ex)" if "cap_capability_id cp = cl_jti cl" for cl cp en gn now ex
    unfolding consume_granted_def by (intro steps_intros wf_windows wf_start that)
  define matched where "matched = (\<lambda>(v :: CapabilityError + CapabilityClaims, cp :: Capability).
    case v of Inl _ \<Rightarrow> True | Inr cl \<Rightarrow> cap_capability_id cp = cl_jti cl)"
  have 2: "matched (verify_and_consume_capability V cap t pk cx now)" for V cap t pk cx now
    by (auto simp: matched_def verify_and_consume_iff claims_bind_capability_def count_use_def split: sum.split prod.split)
  have 3: "steps types_rel (bindh (lifth (map_err k v)) f)"
    if "matched (v, cp)" "\<And>cl. cap_capability_id cp = cl_jti cl \<Longrightarrow> steps types_rel (f cl)" for k v cp f
    using that by (cases v) (auto simp: matched_def steps_def types_rel_def bindh_def)
  show "steps types_rel (consume_begin E W now ps)"
    unfolding consume_begin_def
    by (intro types.steps_bind[OF types.steps_peek] types.steps_bind[OF types.steps_pure(4)],
        rule types_read[where Q = matched, OF 2], intro types.steps_prod, rule 3, simp, intro types.steps_let types.steps_bind types.steps_pure types_audited 1)
  show "steps types_rel (consume_finish E sl sec p)"
    unfolding consume_finish_def by (intro steps_intros wf_windows)
  show "steps types_rel (handle_executor_result E W rs)"
    unfolding handle_executor_result_def Let_def
    by (rule types_peek[where Q = "\<lambda>x. ex_execution_id (ax_execution x) = erp_execution_id rs"])
      (auto simp: broker_wf_def completed_execution_def dest: table_lookup intro!: steps_intros wf_finish)
qed

lemma types_admin [steps_intros]:
  "steps types_rel (launch_managed_browser E sl la)"
  "steps types_rel (close_managed_browser sh bi)"
  "steps types_rel (expire_stale_sessions E W now)"
  "steps types_rel (replace_policy E sl ev)"
  "steps types_rel (revoke_capability_admin E sl ci re)"
  "steps types_rel (insert_standing_grant_audited E sl gr cx)"
  "steps types_rel (write_audit_checkpoint E W)"
proof -
  show "steps types_rel (launch_managed_browser E sl la)"
    unfolding launch_managed_browser_def by (intro steps_intros; simp add: broker_wf_def distinct_update)
  show "steps types_rel (close_managed_browser sh bi)"
    unfolding close_managed_browser_def
    by (intro steps_intros; simp add: broker_wf_def distinct_delete table_update_all terminate_session_def)
  have 1: "steps types_rel (audit_stale E W ids)" for W ids
    by (induction ids arbitrary: W) (auto intro!: steps_intros)
  have "broker_wf b \<Longrightarrow> broker_wf (fold close_execution_window xs b)" for b xs
    by (induction xs arbitrary: b) (simp_all add: wf_windows)
  then have 2: "broker_wf b \<Longrightarrow> broker_wf (close_windows_of ids b)" for b ids by (simp add: close_windows_of_def)
  show "steps types_rel (expire_stale_sessions E W now)"
    unfolding expire_stale_sessions_def
    by (intro steps_intros 1 2 wf_revoke; simp add: broker_wf_def mark_stale_def table_update_all)
  show "steps types_rel (replace_policy E sl ev)"
    unfolding replace_policy_def by (intro steps_intros wf_revoke; simp add: broker_wf_def)
  show "steps types_rel (revoke_capability_admin E sl ci re)"
    unfolding revoke_capability_admin_def
    by (intro steps_intros; simp add: broker_wf_def table_update_at revoke_entry_def)
  show "steps types_rel (insert_standing_grant_audited E sl gr cx)"
    unfolding insert_standing_grant_audited_def by (intro steps_intros)
  show "steps types_rel (write_audit_checkpoint E W)"
    unfolding write_audit_checkpoint_def by (intro steps_intros)
qed

lemma types_ui [steps_intros]:
  "steps types_rel (ui_create_grant E W gp)"
  "steps types_rel (ui_revoke_grants E W sel re)"
  "steps types_rel (ui_disable_agent E W ag)"
proof -
  have 1: "steps types_rel (audit_revoked E W gs)" for W gs
    by (induction gs arbitrary: W) (auto intro!: steps_intros)
  show "steps types_rel (ui_create_grant E W gp)"
    unfolding ui_create_grant_def by (intro steps_intros)
  show 2: "steps types_rel (ui_revoke_grants E W sel re)" for W sel re
    unfolding ui_revoke_grants_def by (intro steps_intros 1)
  show "steps types_rel (ui_disable_agent E W ag)"
    unfolding ui_disable_agent_def agent_disabled_def by (intro steps_intros 2 wf_revoke)
qed

section \<open>Every reachable state\<close>

lemma serve_wf: "broker_wf b \<Longrightarrow> broker_wf (serve E W q b)"
  using types_agent types_approvals types_browsers types_consume types_admin types_ui
  by (cases q) (simp_all add: steps_def types_rel_def wf_register)

definition daemon_wf :: "daemon \<Rightarrow> bool" where
  "daemon_wf d = (case d of Stopped _ \<Rightarrow> True | Running b \<Rightarrow> broker_wf b)"

lemma start_wf: "try_new_with_audit_key sl key key_id audit_key version d ev = (Inr b, d') \<Longrightarrow> broker_wf b"
  by (auto simp: try_new_with_audit_key_def Let_def broker_wf_def pages_wf_def offers_wf_def split: sum.splits option.splits prod.splits)

lemma sys_step_wf: "daemon_wf (sy_daemon s) \<Longrightarrow> daemon_wf (sy_daemon (sys_step E ev s))"
proof -
  assume s: "daemon_wf (sy_daemon s)"
  show ?thesis
  proof (cases ev)
    case (Restart sl key key_id audit_key version pe)
    then show ?thesis by (auto simp: daemon_wf_def split: prod.splits sum.splits dest: start_wf)
  next
    case (Serve W q)
    then show ?thesis using s serve_wf by (auto simp: daemon_wf_def split: daemon.splits)
  next
    case (BeginConsume W now ps)
    then show ?thesis using s stepsD[OF types_consume(1)]
      by (fastforce simp: daemon_wf_def types_rel_def taken_off_def split: daemon.splits prod.splits)
  next
    case (BeginCallback W ps)
    then show ?thesis using s stepsD[OF types_callback(2)]
      by (fastforce simp: daemon_wf_def types_rel_def taken_off_def split: daemon.splits prod.splits)
  next
    case (Land n W)
    then show ?thesis using s stepsD[OF types_consume(2)] stepsD[OF types_callback(3)]
      by (fastforce simp: daemon_wf_def types_rel_def landed_def split: daemon.splits prod.splits flight.splits)
  qed
qed

lemma run_wf: "daemon_wf (sy_daemon s) \<Longrightarrow> daemon_wf (sy_daemon (run_system E evs s))"
  by (induction evs arbitrary: s) (auto intro: sys_step_wf)

text \<open>
  C16.  Every state the daemon reaches, from any database and through any interleaving of requests, waits and
  restarts, is well-formed: its maps have each key once, each session, capability, execution, pending
  authorization, response, approval, recipe and page is filed under its own identifier, and each queued offer
  names a capability that is there.
\<close>

theorem reachable_states_well_formed:
  "case sy_daemon (run_system E evs (stopped_system d)) of Stopped _ \<Rightarrow> True | Running b \<Rightarrow> broker_wf b"
  using run_wf[of "stopped_system d" E evs] by (simp add: daemon_wf_def stopped_system_def)

end
