(* ===== verification/Cdp_Pipe.thy ===== *)
theory Cdp_Pipe
  imports Cdp_Filter
begin

text \<open>
  The private pipe to a managed browser (\<open>secretctl-browser-gateway/src/cdp_pipe.rs\<close>).  The state of a pipe
  is the next command number, the commands whose writing has begun and what reading will give: frames of
  the browser or failures to read; the end of the list is the end of the stream.  The JSON writer and reader
  and the outcome of writing are fields of \<open>pipe_env\<close>.
\<close>

definition MAX_CDP_MESSAGE_BYTES :: nat where
  "MAX_CDP_MESSAGE_BYTES = 16 * 1024 * 1024"

record CdpPipe =
  pi_next_id :: u64
  pi_sent :: "json list"
  pi_frames :: "(GatewayError + bytes) list"

record pipe_env =
  pv_to_vec :: "json \<Rightarrow> string + bytes"
  pv_from_slice :: "bytes \<Rightarrow> string + json"
  pv_write :: "bytes \<Rightarrow> GatewayError option"

definition CdpPipe_new :: "(GatewayError + bytes) list \<Rightarrow> CdpPipe" where
  "CdpPipe_new frames = \<lparr>pi_next_id = 1, pi_sent = [], pi_frames = frames\<rparr>"

definition cdp_command :: "u64 \<Rightarrow> string \<Rightarrow> string option \<Rightarrow> json \<Rightarrow> json" where
  "cdp_command i method session_id params =
    Object ([(''id'', Number (uint i)), (''method'', String method), (''params'', params)]
      @ (case session_id of None \<Rightarrow> [] | Some s \<Rightarrow> [(''sessionId'', String s)]))"

definition strip_nul :: "bytes \<Rightarrow> bytes" where
  "strip_nul frame = (if frame \<noteq> [] \<and> last frame = 0 then butlast frame else frame)"

definition cdp_result :: "string \<Rightarrow> json \<Rightarrow> GatewayError + json" where
  "cdp_result method response =
    (case json_member ''error'' response of
       Some error \<Rightarrow> Inl (Transport (''Chrome rejected '' @ method @ '': ''
         @ unwrap_or (Option.bind (json_member ''message'' error) json_text) ''unknown CDP error''))
     | None \<Rightarrow> Inr (unwrap_or (json_member ''result'' response) Null))"

text \<open>The loop that reads frames until the answer to command \<open>i\<close>.\<close>

fun await_response ::
    "pipe_env \<Rightarrow> string \<Rightarrow> u64 \<Rightarrow> (GatewayError + bytes) list \<Rightarrow> (GatewayError + json) \<times> (GatewayError + bytes) list" where
  "await_response V method i [] = (Inl ProcessTerminated, [])"
| "await_response V method i (Inl e # frames) = (Inl e, frames)"
| "await_response V method i (Inr frame # frames) =
    (if length frame > MAX_CDP_MESSAGE_BYTES + 1 then (Inl (Transport ''CDP response exceeds limit''), frames)
     else case pv_from_slice V (strip_nul frame) of
       Inl e \<Rightarrow> (Inl (Json e), frames)
     | Inr raw \<Rightarrow>
       (let response = sanitize_cdp_response (unwrap_or (Option.bind (json_member ''method'' raw) json_text) method) raw in
        if Option.bind (json_member ''id'' response) json_u64 = Some i then (cdp_result method response, frames)
        else await_response V method i frames))"

definition request_with_session ::
    "pipe_env \<Rightarrow> CdpFilter \<Rightarrow> string \<Rightarrow> u32 option \<Rightarrow> string option \<Rightarrow> json \<Rightarrow> CdpPipe \<Rightarrow> (GatewayError + json) \<times> CdpPipe" where
  "request_with_session V f method tab_id session_id params p =
    (case validate_cdp_command f method tab_id of
       Inl e \<Rightarrow> (Inl e, p)
     | Inr _ \<Rightarrow>
       (let i = pi_next_id p; p1 = p\<lparr>pi_next_id := i + 1\<rparr>; command = cdp_command i method session_id params in
        case pv_to_vec V command of
          Inl e \<Rightarrow> (Inl (Json e), p1)
        | Inr message \<Rightarrow>
          (if length message > MAX_CDP_MESSAGE_BYTES then (Inl (Transport ''CDP command exceeds limit''), p1)
           else
             let p2 = p1\<lparr>pi_sent := pi_sent p @ [command]\<rparr> in
             case pv_write V (message @ [0]) of
               Some e \<Rightarrow> (Inl e, p2)
             | None \<Rightarrow> (let (r, frames) = await_response V method i (pi_frames p) in (r, p2\<lparr>pi_frames := frames\<rparr>)))))"

definition pipe_request ::
    "pipe_env \<Rightarrow> CdpFilter \<Rightarrow> string \<Rightarrow> u32 option \<Rightarrow> json \<Rightarrow> CdpPipe \<Rightarrow> (GatewayError + json) \<times> CdpPipe" where
  "pipe_request V f method tab_id params = request_with_session V f method tab_id None params"

section \<open>Properties\<close>

definition command_method :: "json \<Rightarrow> string option" where
  "command_method c = Option.bind (json_member ''method'' c) json_text"

lemma command_method_of [simp]: "command_method (cdp_command i method s params) = Some method"
  by (simp add: command_method_def cdp_command_def json_member_def json_text_def)

lemma request_sends:
  "request_with_session V f method tab s params p = (r, p') \<Longrightarrow>
    pi_sent p' = pi_sent p
    \<or> (pi_sent p' = pi_sent p @ [cdp_command (pi_next_id p) method s params] \<and> validate_cdp_command f method tab = Inr ())"
  by (auto simp: request_with_session_def Let_def split: sum.splits if_splits option.splits prod.splits)

lemma sanitize_keeps_id:
  "Option.bind (json_member ''id'' (sanitize_cdp_response m v)) json_u64 = Option.bind (json_member ''id'' v) json_u64"
proof (cases v)
  case (Object ms)
  have id: "contains_prohibited_key_name ''id'' = False" by code_simp
  have u64: "json_u64 (sanitize_dom_nodes w) = json_u64 w" "json_u64 (sanitize_generic_json w) = json_u64 w" for w
    by (cases w; simp add: json_u64_def)+
  have "map_of (map (\<lambda>m. (fst m, if contains_prohibited_key_name (to_ascii_lowercase (fst m)) then String ''[REDACTED]''
          else sanitize_generic_json (snd m))) ms) ''id'' = map_option sanitize_generic_json (map_of ms ''id'')"
    by (induction ms) (auto simp: id)
  moreover have "map_of (redact_node ms) ''id'' = map_of ms ''id''" by (simp add: redact_node_def map_of_update_member)
  ultimately show ?thesis using Object
    by (auto simp: sanitize_cdp_response_def sanitize_network_headers_def json_member_def map_of_update_member map_of_map_snd
        option.map_comp bind_map_option comp_def u64)
qed (simp_all add: sanitize_cdp_response_def sanitize_network_headers_def json_member_def)

text \<open>What an answer to another command becomes while this one waits.\<close>

definition answers :: "pipe_env \<Rightarrow> bytes \<Rightarrow> u64 \<Rightarrow> bool" where
  "answers V frame i =
    (length frame \<le> MAX_CDP_MESSAGE_BYTES + 1
     \<and> (case pv_from_slice V (strip_nul frame) of Inl _ \<Rightarrow> False
        | Inr raw \<Rightarrow> Option.bind (json_member ''id'' raw) json_u64 = Some i))"

lemma await_skips: "answers V frame j \<Longrightarrow> j \<noteq> i \<Longrightarrow> await_response V m i (Inr frame # frames) = await_response V m i frames"
  by (auto simp: answers_def Let_def sanitize_keeps_id split: sum.splits)

lemma await_stops: "answers V frame i \<Longrightarrow> snd (await_response V m i (Inr frame # frames)) = frames"
  by (auto simp: answers_def Let_def sanitize_keeps_id split: sum.splits)

text \<open>
  Requests that share a pipe can lose an answer: the request that reads first drops the answer to the
  other one, which then waits for a frame that never comes, to the end of the stream.
\<close>

theorem pending_answer_lost:
  assumes "answers V frame_j j" "answers V frame_i i" "j \<noteq> i"
  shows "fst (await_response V m' j (snd (await_response V m i [Inr frame_j, Inr frame_i]))) = Inl ProcessTerminated"
  unfolding await_skips[OF assms(1,3)] await_stops[OF assms(2)] by simp

end
