(* ===== verification/Broker_Pages.thy ===== *)
theory Broker_Pages
  imports Broker_Admin Cdp_Pipe Dom_View
begin

text \<open>
  What agents do in a managed browser (\<open>secretctld/src/state.rs\<close>, the browser and page handlers;
  \<open>secretctl-protocol/src/browser.rs\<close>).  The handlers read the daemon's state and change the pipe of the
  browser they talk to; the argument \<open>has_pipe\<close> says which browsers have one.  URL printing and the
  arithmetic of floating point numbers, which are their bit patterns, are fields of \<open>page_env\<close>.
\<close>

section \<open>Parameters\<close>

record BrowserTabParams =
  btp_session_id :: BrowserSessionId
  btp_tab_id :: string

record BrowserNavigateParams =
  bnp_session_id :: BrowserSessionId
  bnp_tab_id :: string
  bnp_url :: string

record BrowserOpenTabParams =
  bop_session_id :: BrowserSessionId
  bop_url :: string

record PageLocatorParams =
  plp_session_id :: BrowserSessionId
  plp_tab_id :: string
  plp_locator :: SafeLocator

record PageTypePublicParams =
  ptp_session_id :: BrowserSessionId
  ptp_tab_id :: string
  ptp_locator :: SafeLocator
  ptp_text :: string

record PageSelectParams =
  psp_session_id :: BrowserSessionId
  psp_tab_id :: string
  psp_locator :: SafeLocator
  psp_label :: string

record PageReadTextParams =
  prp_session_id :: BrowserSessionId
  prp_tab_id :: string
  prp_locator :: "SafeLocator option"
  prp_max_chars :: "nat option"

record PageSnapshotParams =
  pss_session_id :: BrowserSessionId
  pss_tab_id :: string
  pss_max_nodes :: "nat option"
  pss_check_visibility :: "bool option"

datatype WaitCondition =
    LocatorPresent SafeLocator
  | LocatorAbsent SafeLocator
  | TextPresent string
  | UrlPrefix string
  | UrlChangedFrom string

record PageWaitForParams =
  pwp_session_id :: BrowserSessionId
  pwp_tab_id :: string
  pwp_condition :: WaitCondition
  pwp_timeout_ms :: "u64 option"

section \<open>Transport\<close>

record page_env =
  px_pipe :: pipe_env
  px_view :: view_env
  px_url_parse :: url_parser
  px_url_text :: "url \<Rightarrow> string"
  px_url_bare :: "url \<Rightarrow> string"
  px_as_f64 :: "json \<Rightarrow> u64 option"
  px_not_positive :: "u64 \<Rightarrow> bool"
  px_mean :: "u64 list \<Rightarrow> u64"

type_synonym 'a page_handler = "(CdpPipe, failure, 'a) handler"

definition browser_transport ::
    "(BrowserInstanceId \<Rightarrow> bool) \<Rightarrow> BrowserSessionId \<Rightarrow> BrokerState \<Rightarrow> failure + CdpFilter" where
  "browser_transport has_pipe session_id b =
    (case map_of (b_sessions b) session_id of
       None \<Rightarrow> Inl (rpc SESSION_TERMINATED ''Unknown browser session'')
     | Some active \<Rightarrow>
       (let instance_id = bs_instance_id (as_session active) in
        if bs_state (as_session active) \<noteq> BrowserSessionState.Active
        then Inl (rpc SESSION_TERMINATED ''Browser session is not active'')
        else case map_of (b_managed_browsers b) instance_id of
          None \<Rightarrow> Inl (rpc SESSION_TERMINATED ''Managed browser is unavailable'')
        | Some f \<Rightarrow> if has_pipe instance_id then Inr f
                    else Inl (rpc SESSION_TERMINATED ''Private browser transport is unavailable'')))"

definition cdp_failure :: failure where
  "cdp_failure = rpc SECURITY_VIOLATION ''Browser operation rejected''"

definition cdp :: "page_env \<Rightarrow> CdpFilter \<Rightarrow> string option \<Rightarrow> string \<Rightarrow> (string \<times> json) list \<Rightarrow> json page_handler" where
  "cdp E f cdp_session method params =
    map_errh (\<lambda>_. cdp_failure) (request_with_session (px_pipe E) f method None cdp_session (Object params))"

definition attach_tab :: "page_env \<Rightarrow> CdpFilter \<Rightarrow> string \<Rightarrow> string page_handler" where
  "attach_tab E f tab_id =
    bindh (cdp E f None ''Target.attachToTarget'' [(''targetId'', String tab_id), (''flatten'', Bool True)]) (\<lambda>result.
    lifth (ok_or cdp_failure (Option.bind (json_member ''sessionId'' result) json_text)))"

text \<open>The beginning of most handlers: the browser's filter and a debugging session for the tab.\<close>

definition with_tab ::
    "page_env \<Rightarrow> (BrowserInstanceId \<Rightarrow> bool) \<Rightarrow> BrokerState \<Rightarrow> BrowserSessionId \<Rightarrow> string
     \<Rightarrow> (CdpFilter \<Rightarrow> string \<Rightarrow> 'a page_handler) \<Rightarrow> 'a page_handler" where
  "with_tab E has_pipe b session_id tab_id m =
    bindh (lifth (browser_transport has_pipe session_id b)) (\<lambda>f.
    bindh (attach_tab E f tab_id) (m f))"

section \<open>Tabs and navigation\<close>

definition tab_info :: "page_env \<Rightarrow> json \<Rightarrow> json option" where
  "tab_info E target =
    (if Option.bind (json_member ''type'' target) json_text \<noteq> Some ''page'' then None
     else Option.bind (Option.bind (json_member ''targetId'' target) json_text) (\<lambda>i.
     Option.bind (Option.bind (json_member ''url'' target) json_text) (\<lambda>raw_url.
     case px_url_parse E raw_url of Inl _ \<Rightarrow> None
     | Inr url \<Rightarrow>
       if \<not> List.member [''https'', ''http''] (u_scheme url) then None
       else Some (Object [(''tab_id'', String i), (''url'', String (px_url_bare E url)),
         (''title'', String (truncate_chars (unwrap_or (Option.bind (json_member ''title'' target) json_text) []) 200))]))))"

definition handle_browser_tabs ::
    "page_env \<Rightarrow> (BrowserInstanceId \<Rightarrow> bool) \<Rightarrow> BrokerState \<Rightarrow> BrowserSessionId \<Rightarrow> json page_handler" where
  "handle_browser_tabs E has_pipe b session_id =
    bindh (lifth (browser_transport has_pipe session_id b)) (\<lambda>f.
    bindh (cdp E f None ''Target.getTargets'' []) (\<lambda>result.
    returnh (Object [(''tabs'', Array (List.map_filter (tab_info E) (json_array (json_member ''targetInfos'' result))))])))"

definition navigation_url :: "page_env \<Rightarrow> string \<Rightarrow> bool \<Rightarrow> failure + string" where
  "navigation_url E = safe_navigation_url (px_url_parse E) (px_url_text E)"

definition handle_browser_open_tab ::
    "page_env \<Rightarrow> (BrowserInstanceId \<Rightarrow> bool) \<Rightarrow> BrokerState \<Rightarrow> BrowserOpenTabParams \<Rightarrow> json page_handler" where
  "handle_browser_open_tab E has_pipe b params =
    bindh (lifth (navigation_url E (bop_url params) True)) (\<lambda>url.
    bindh (lifth (browser_transport has_pipe (bop_session_id params) b)) (\<lambda>f.
    bindh (cdp E f None ''Target.createTarget'' [(''url'', String url)]) (\<lambda>result.
    returnh (Object [(''tab_id'', unwrap_or (json_member ''targetId'' result) Null)]))))"

definition handle_browser_close_tab ::
    "page_env \<Rightarrow> (BrowserInstanceId \<Rightarrow> bool) \<Rightarrow> BrokerState \<Rightarrow> BrowserTabParams \<Rightarrow> json page_handler" where
  "handle_browser_close_tab E has_pipe b params =
    bindh (lifth (browser_transport has_pipe (btp_session_id params) b)) (\<lambda>f.
    bindh (cdp E f None ''Target.closeTarget'' [(''targetId'', String (btp_tab_id params))]) (\<lambda>_.
    returnh (Object [(''closed'', Bool True)])))"

definition handle_browser_navigate ::
    "page_env \<Rightarrow> (BrowserInstanceId \<Rightarrow> bool) \<Rightarrow> BrokerState \<Rightarrow> BrowserNavigateParams \<Rightarrow> json page_handler" where
  "handle_browser_navigate E has_pipe b params =
    bindh (lifth (navigation_url E (bnp_url params) False)) (\<lambda>url.
    with_tab E has_pipe b (bnp_session_id params) (bnp_tab_id params) (\<lambda>f s.
    bindh (cdp E f (Some s) ''Page.navigate'' [(''url'', String url)]) (\<lambda>_.
    returnh (Object [(''navigated'', Bool True)]))))"

definition handle_browser_reload ::
    "page_env \<Rightarrow> (BrowserInstanceId \<Rightarrow> bool) \<Rightarrow> BrokerState \<Rightarrow> BrowserTabParams \<Rightarrow> json page_handler" where
  "handle_browser_reload E has_pipe b params =
    with_tab E has_pipe b (btp_session_id params) (btp_tab_id params) (\<lambda>f s.
    bindh (cdp E f (Some s) ''Page.reload'' [(''ignoreCache'', Bool False)]) (\<lambda>_.
    returnh (Object [(''reloaded'', Bool True)])))"

definition json_i64 :: "json \<Rightarrow> int option" where
  "json_i64 v = (case v of Number n \<Rightarrow> if - (2 ^ 63) \<le> n \<and> n < 2 ^ 63 then Some n else None | _ \<Rightarrow> None)"

definition navigation_history :: "page_env \<Rightarrow> CdpFilter \<Rightarrow> string \<Rightarrow> json page_handler" where
  "navigation_history E f s = cdp E f (Some s) ''Page.getNavigationHistory'' []"

definition history_entries :: "json \<Rightarrow> failure + json list" where
  "history_entries history =
    (case json_member ''entries'' history of Some (Array xs) \<Rightarrow> Inr xs | _ \<Rightarrow> Inl cdp_failure)"

definition history_target :: "page_env \<Rightarrow> int \<Rightarrow> json \<Rightarrow> failure + int" where
  "history_target E offset history =
    try_r (ok_or cdp_failure (Option.bind (json_member ''currentIndex'' history) json_i64)) (\<lambda>current.
    try_r (history_entries history) (\<lambda>entries.
    let target_index = current + offset in
    if target_index < 0 \<or> nat target_index \<ge> length entries then Inl (rpc INVALID_PARAMS ''No such history entry'')
    else let entry = entries ! nat target_index in
    try_r (ok_or cdp_failure (Option.bind (json_member ''url'' entry) json_text)) (\<lambda>raw_url.
    try_r (navigation_url E raw_url True) (\<lambda>_.
    ok_or cdp_failure (Option.bind (json_member ''id'' entry) json_i64)))))"

definition navigate_history ::
    "page_env \<Rightarrow> (BrowserInstanceId \<Rightarrow> bool) \<Rightarrow> BrokerState \<Rightarrow> BrowserSessionId \<Rightarrow> string \<Rightarrow> int \<Rightarrow> json page_handler" where
  "navigate_history E has_pipe b session_id tab_id offset =
    with_tab E has_pipe b session_id tab_id (\<lambda>f s.
    bindh (navigation_history E f s) (\<lambda>history.
    bindh (lifth (history_target E offset history)) (\<lambda>entry_id.
    bindh (cdp E f (Some s) ''Page.navigateToHistoryEntry'' [(''entryId'', Number entry_id)]) (\<lambda>_.
    returnh (Object [(''navigated'', Bool True)])))))"

definition handle_browser_back ::
    "page_env \<Rightarrow> (BrowserInstanceId \<Rightarrow> bool) \<Rightarrow> BrokerState \<Rightarrow> BrowserTabParams \<Rightarrow> json page_handler" where
  "handle_browser_back E has_pipe b params =
    navigate_history E has_pipe b (btp_session_id params) (btp_tab_id params) (- 1)"

definition handle_browser_forward ::
    "page_env \<Rightarrow> (BrowserInstanceId \<Rightarrow> bool) \<Rightarrow> BrokerState \<Rightarrow> BrowserTabParams \<Rightarrow> json page_handler" where
  "handle_browser_forward E has_pipe b params =
    navigate_history E has_pipe b (btp_session_id params) (btp_tab_id params) 1"

section \<open>Locating elements\<close>

definition json_path :: "string list \<Rightarrow> json \<Rightarrow> json option" where
  "json_path ks v = fold (\<lambda>k w. Option.bind w (json_member k)) ks (Some v)"

definition locate_node :: "page_env \<Rightarrow> CdpFilter \<Rightarrow> string \<Rightarrow> string \<Rightarrow> u64 page_handler" where
  "locate_node E f s selector =
    bindh (cdp E f (Some s) ''DOM.getDocument'' [(''depth'', Number 0)]) (\<lambda>document.
    bindh (lifth (ok_or cdp_failure (Option.bind (json_path [''root'', ''nodeId''] document) json_u64))) (\<lambda>root_id.
    bindh (cdp E f (Some s) ''DOM.querySelectorAll'' [(''nodeId'', Number (uint root_id)), (''selector'', String selector)]) (\<lambda>result.
    case json_member ''nodeIds'' result of
      Some (Array nodes) \<Rightarrow>
        if length nodes \<noteq> 1 then failh (rpc SECURITY_VIOLATION ''Locator must resolve exactly once'')
        else lifth (ok_or cdp_failure (json_u64 (hd nodes)))
    | _ \<Rightarrow> failh cdp_failure)))"

fun locator_failure :: "ResolveError \<Rightarrow> failure" where
  "locator_failure NodeNotFound = rpc LOCATOR_NOT_FOUND ''Locator matched no element''"
| "locator_failure Ambiguous = rpc LOCATOR_AMBIGUOUS ''Locator must resolve exactly once''"
| "locator_failure StaleNode = rpc STALE_REFERENCE ''Reference no longer names the same element; take a new snapshot''"
| "locator_failure ProtectedNode = rpc SECURITY_VIOLATION ''Protected field rejected''"

definition project_document :: "page_env \<Rightarrow> CdpFilter \<Rightarrow> string \<Rightarrow> ViewLimits \<Rightarrow> PageProjection page_handler" where
  "project_document E f s limits =
    bindh (cdp E f (Some s) ''DOM.getDocument'' [(''depth'', Number (- 1)), (''pierce'', Bool False)]) (\<lambda>document.
    bindh (lifth (ok_or cdp_failure (json_member ''root'' document))) (\<lambda>root.
    returnh (from_node (px_view E) root limits)))"

definition project_subtree :: "page_env \<Rightarrow> CdpFilter \<Rightarrow> string \<Rightarrow> u64 \<Rightarrow> ViewLimits \<Rightarrow> PageProjection page_handler" where
  "project_subtree E f s node_id limits =
    bindh (cdp E f (Some s) ''DOM.describeNode''
             [(''nodeId'', Number (uint node_id)), (''depth'', Number (- 1)), (''pierce'', Bool False)]) (\<lambda>described.
    bindh (lifth (ok_or cdp_failure (json_member ''node'' described))) (\<lambda>node.
    returnh (from_node (px_view E) node limits)))"

fun resolve_in :: "view_env \<Rightarrow> PageProjection \<Rightarrow> SafeLocator \<Rightarrow> ResolveError + ProjectedNode" where
  "resolve_in V p (Ref value) = resolve_reference p value"
| "resolve_in V p (Role role name) = resolve_role V p role name"
| "resolve_in V p (Text value) = resolve_text V p value"
| "resolve_in V p _ = Inl NodeNotFound"

text \<open>The last equation of \<open>resolve_in\<close> is not reached: selectors go to \<open>locate_node\<close>.\<close>

definition resolve_locator :: "page_env \<Rightarrow> CdpFilter \<Rightarrow> string \<Rightarrow> SafeLocator \<Rightarrow> u64 page_handler" where
  "resolve_locator E f s locator =
    (if is_css_based locator then
       bindh (lifth (map_err (\<lambda>_. cdp_failure) (locator_css locator))) (locate_node E f s)
     else
       bindh (project_document E f s (ViewLimits_clamped (Some 250) None)) (\<lambda>projection.
       bindh (lifth (map_err locator_failure (resolve_in (px_view E) projection locator))) (\<lambda>node.
       if pj_node_id node = 0 then failh cdp_failure else returnh (pj_node_id node))))"

definition box_model_center :: "page_env \<Rightarrow> CdpFilter \<Rightarrow> string \<Rightarrow> u64 \<Rightarrow> (u64 \<times> u64) page_handler" where
  "box_model_center E f s node_id =
    bindh (cdp E f (Some s) ''DOM.getBoxModel'' [(''nodeId'', Number (uint node_id))]) (\<lambda>model.
    case json_path [''model'', ''content''] model of
      Some (Array content) \<Rightarrow>
        (let c = List.map_filter (px_as_f64 E) content;
             width = unwrap_or (Option.bind (json_path [''model'', ''width''] model) (px_as_f64 E)) 0;
             height = unwrap_or (Option.bind (json_path [''model'', ''height''] model) (px_as_f64 E)) 0 in
         if length c \<noteq> 8 then failh cdp_failure
         else if px_not_positive E width \<or> px_not_positive E height
         then failh (rpc SECURITY_VIOLATION ''Target element has no visible layout'')
         else returnh (px_mean E [c ! 0, c ! 2, c ! 4, c ! 6], px_mean E [c ! 1, c ! 3, c ! 5, c ! 7]))
    | _ \<Rightarrow> failh cdp_failure)"

definition tab_url :: "page_env \<Rightarrow> CdpFilter \<Rightarrow> string \<Rightarrow> string page_handler" where
  "tab_url E f s =
    bindh (navigation_history E f s) (\<lambda>history.
    lifth (try_r (ok_or cdp_failure (Option.bind (json_member ''currentIndex'' history) json_u64)) (\<lambda>index.
      try_r (history_entries history) (\<lambda>entries.
      try_r (ok_or cdp_failure (if unat index < length entries
               then Option.bind (json_member ''url'' (entries ! unat index)) json_text else None)) (\<lambda>raw.
      try_r (map_err (\<lambda>_. cdp_failure) (px_url_parse E raw)) (\<lambda>url. Inr (px_url_bare E url)))))))"

section \<open>Observation\<close>

definition handle_page_read_text ::
    "page_env \<Rightarrow> (BrowserInstanceId \<Rightarrow> bool) \<Rightarrow> BrokerState \<Rightarrow> PageReadTextParams \<Rightarrow> json page_handler" where
  "handle_page_read_text E has_pipe b params =
    bindh (lifth (guard_observation (prp_session_id params) b)) (\<lambda>_.
    with_tab E has_pipe b (prp_session_id params) (prp_tab_id params) (\<lambda>f s.
    let limits = ViewLimits_clamped None (prp_max_chars params) in
    bindh (case prp_locator params of
             Some locator \<Rightarrow> bindh (resolve_locator E f s locator) (\<lambda>node_id. project_subtree E f s node_id limits)
           | None \<Rightarrow> project_document E f s limits) (\<lambda>projection.
    returnh (Object [(''text'', String (pp_text projection)), (''truncated'', Bool (pp_text_truncated projection))]))))"

text \<open>Whether a request succeeds; its effect on the pipe stays.\<close>

definition succeeds :: "'a page_handler \<Rightarrow> bool page_handler" where
  "succeeds m p = (Inr (is_ok (fst (m p))), snd (m p))"

definition MAX_VISIBILITY_PROBES :: nat where
  "MAX_VISIBILITY_PROBES = 40"

fun probe_visibility ::
    "page_env \<Rightarrow> CdpFilter \<Rightarrow> string \<Rightarrow> nat \<Rightarrow> ProjectedNode list \<Rightarrow> ProjectedNode list page_handler" where
  "probe_visibility E f s probes [] = returnh []"
| "probe_visibility E f s probes (n # ns) =
    (if pj_structurally_hidden n
     then bindh (probe_visibility E f s probes ns) (\<lambda>rest. returnh (n\<lparr>pj_visible := Some False\<rparr> # rest))
     else if probes \<ge> MAX_VISIBILITY_PROBES then returnh (n # ns)
     else bindh (succeeds (box_model_center E f s (pj_node_id n))) (\<lambda>shown.
          bindh (probe_visibility E f s (probes + 1) ns) (\<lambda>rest. returnh (n\<lparr>pj_visible := Some shown\<rparr> # rest))))"

definition projected_json :: "ProjectedNode \<Rightarrow> json" where
  "projected_json n =
    Object ([(''reference'', String (pj_reference n)), (''tag'', String (pj_tag n)), (''role'', String (pj_role n)),
             (''name'', String (pj_name n))]
      @ (case pj_input_type n of None \<Rightarrow> [] | Some t \<Rightarrow> [(''input_type'', String t)])
      @ [(''protected'', Bool (pj_protected n)), (''disabled'', Bool (pj_disabled n))]
      @ (case pj_visible n of None \<Rightarrow> [] | Some v \<Rightarrow> [(''visible'', Bool v)]))"

definition handle_page_snapshot_safe ::
    "page_env \<Rightarrow> (BrowserInstanceId \<Rightarrow> bool) \<Rightarrow> BrokerState \<Rightarrow> PageSnapshotParams \<Rightarrow> json page_handler" where
  "handle_page_snapshot_safe E has_pipe b params =
    bindh (lifth (guard_observation (pss_session_id params) b)) (\<lambda>_.
    with_tab E has_pipe b (pss_session_id params) (pss_tab_id params) (\<lambda>f s.
    bindh (project_document E f s (ViewLimits_clamped (pss_max_nodes params) None)) (\<lambda>projection.
    bindh (if unwrap_or (pss_check_visibility params) True then probe_visibility E f s 0 (pp_nodes projection)
           else returnh (pp_nodes projection)) (\<lambda>nodes.
    bindh (tab_url E f s) (\<lambda>url.
    returnh (Object [(''url'', String url), (''elements'', Array (map projected_json nodes)),
                     (''truncated'', Bool (pp_nodes_truncated projection))]))))))"

section \<open>Waiting\<close>

definition evaluate_wait_condition ::
    "page_env \<Rightarrow> (BrowserInstanceId \<Rightarrow> bool) \<Rightarrow> BrokerState \<Rightarrow> PageWaitForParams \<Rightarrow> bool page_handler" where
  "evaluate_wait_condition E has_pipe b params =
    with_tab E has_pipe b (pwp_session_id params) (pwp_tab_id params) (\<lambda>f s.
    case pwp_condition params of
      LocatorPresent locator \<Rightarrow> succeeds (resolve_locator E f s locator)
    | LocatorAbsent locator \<Rightarrow> bindh (succeeds (resolve_locator E f s locator)) (\<lambda>found. returnh (\<not> found))
    | TextPresent value \<Rightarrow>
        bindh (project_document E f s (ViewLimits_clamped None None)) (\<lambda>projection.
        returnh (contains_str (ve_to_lowercase (px_view E) (pp_text projection)) (ve_to_lowercase (px_view E) (trim_str value))))
    | UrlPrefix value \<Rightarrow> bindh (tab_url E f s) (\<lambda>current. returnh (starts_with current value))
    | UrlChangedFrom value \<Rightarrow> bindh (tab_url E f s) (\<lambda>current. returnh (current \<noteq> value)))"

definition DEFAULT_WAIT_TIMEOUT_MS :: u64 where
  "DEFAULT_WAIT_TIMEOUT_MS = 10000"

definition MAX_WAIT_TIMEOUT_MS :: u64 where
  "MAX_WAIT_TIMEOUT_MS = 30000"

definition WAIT_POLL_INTERVAL_MS :: u64 where
  "WAIT_POLL_INTERVAL_MS = 200"

definition wait_timeout :: "PageWaitForParams \<Rightarrow> int" where
  "wait_timeout params =
    (let t = unwrap_or (pwp_timeout_ms params) DEFAULT_WAIT_TIMEOUT_MS in
     uint (if t < 1 then 1 else if t > MAX_WAIT_TIMEOUT_MS then MAX_WAIT_TIMEOUT_MS else t))"

text \<open>
  The loop: round \<open>k\<close> sees the daemon in state \<open>bs k\<close> and the clock at \<open>clock k\<close> milliseconds.  The number of
  rounds is bounded by the argument; \<open>None\<close> says that the loop is still waiting after them.
\<close>

fun wait_loop ::
    "page_env \<Rightarrow> (BrowserInstanceId \<Rightarrow> bool) \<Rightarrow> PageWaitForParams \<Rightarrow> int \<Rightarrow> nat \<Rightarrow> (nat \<Rightarrow> BrokerState) \<Rightarrow> (nat \<Rightarrow> int)
     \<Rightarrow> json option page_handler" where
  "wait_loop E has_pipe params deadline 0 bs clock = returnh None"
| "wait_loop E has_pipe params deadline (Suc n) bs clock =
    bindh (lifth (guard_observation (pwp_session_id params) (bs 0))) (\<lambda>_.
    bindh (evaluate_wait_condition E has_pipe (bs 0) params) (\<lambda>satisfied.
    if satisfied then returnh (Some (Object [(''satisfied'', Bool True)]))
    else if clock 0 \<ge> deadline then failh (rpc WAIT_TIMEOUT ''Condition was not satisfied before the deadline'')
    else wait_loop E has_pipe params deadline n (\<lambda>k. bs (Suc k)) (\<lambda>k. clock (Suc k))))"

definition handle_page_wait_for ::
    "page_env \<Rightarrow> (BrowserInstanceId \<Rightarrow> bool) \<Rightarrow> (nat \<Rightarrow> BrokerState) \<Rightarrow> int \<Rightarrow> (nat \<Rightarrow> int) \<Rightarrow> PageWaitForParams
     \<Rightarrow> json option page_handler" where
  "handle_page_wait_for E has_pipe bs start clock params =
    wait_loop E has_pipe params (start + wait_timeout params) 151 bs clock"

section \<open>Actions\<close>

fun cdp_each :: "page_env \<Rightarrow> CdpFilter \<Rightarrow> string \<Rightarrow> string \<Rightarrow> (string \<times> json) list list \<Rightarrow> unit page_handler" where
  "cdp_each E f s method [] = returnh ()"
| "cdp_each E f s method (ps # pss) = bindh (cdp E f (Some s) method ps) (\<lambda>_. cdp_each E f s method pss)"

definition handle_page_click ::
    "page_env \<Rightarrow> (BrowserInstanceId \<Rightarrow> bool) \<Rightarrow> BrokerState \<Rightarrow> PageLocatorParams \<Rightarrow> json page_handler" where
  "handle_page_click E has_pipe b params =
    with_tab E has_pipe b (plp_session_id params) (plp_tab_id params) (\<lambda>f s.
    bindh (resolve_locator E f s (plp_locator params)) (\<lambda>node_id.
    bindh (box_model_center E f s node_id) (\<lambda>(x, y).
    bindh (cdp_each E f s ''Input.dispatchMouseEvent'' (map (\<lambda>kind. [(''type'', String kind), (''x'', Float x), (''y'', Float y),
             (''button'', String ''left''), (''clickCount'', Number 1)]) [''mousePressed'', ''mouseReleased''])) (\<lambda>_.
    returnh (Object [(''clicked'', Bool True)])))))"

text \<open>Typing and selecting: the element is described, refused when it is protected, focused, and the text inserted.\<close>

definition insert_text :: "page_env \<Rightarrow> CdpFilter \<Rightarrow> string \<Rightarrow> SafeLocator \<Rightarrow> string \<Rightarrow> unit page_handler" where
  "insert_text E f s locator text =
    bindh (resolve_locator E f s locator) (\<lambda>node_id.
    bindh (cdp E f (Some s) ''DOM.describeNode'' [(''nodeId'', Number (uint node_id))]) (\<lambda>node.
    if node_is_protected node then failh (locator_failure ProtectedNode)
    else bindh (cdp E f (Some s) ''DOM.focus'' [(''nodeId'', Number (uint node_id))]) (\<lambda>_.
    bindh (cdp E f (Some s) ''Input.insertText'' [(''text'', String text)]) (\<lambda>_. returnh ()))))"

definition handle_page_type_public ::
    "page_env \<Rightarrow> (BrowserInstanceId \<Rightarrow> bool) \<Rightarrow> BrokerState \<Rightarrow> PageTypePublicParams \<Rightarrow> json page_handler" where
  "handle_page_type_public E has_pipe b params =
    (if length (ptp_text params) > 16 * 1024 \<or> List.member (ptp_text params) (CHR 0x00)
     then failh (rpc INVALID_PARAMS ''Public text rejected'')
     else with_tab E has_pipe b (ptp_session_id params) (ptp_tab_id params) (\<lambda>f s.
     bindh (insert_text E f s (ptp_locator params) (ptp_text params)) (\<lambda>_.
     returnh (Object [(''typed'', Bool True)]))))"

definition handle_page_select ::
    "page_env \<Rightarrow> (BrowserInstanceId \<Rightarrow> bool) \<Rightarrow> BrokerState \<Rightarrow> PageSelectParams \<Rightarrow> json page_handler" where
  "handle_page_select E has_pipe b params =
    (if psp_label params = [] \<or> length (psp_label params) > 1024 \<or> List.member (psp_label params) (CHR 0x00)
     then failh (rpc INVALID_PARAMS ''Public option rejected'')
     else with_tab E has_pipe b (psp_session_id params) (psp_tab_id params) (\<lambda>f s.
     bindh (insert_text E f s (psp_locator params) (psp_label params)) (\<lambda>_.
     bindh (cdp_each E f s ''Input.dispatchKeyEvent'' (map (\<lambda>kind. [(''type'', String kind), (''key'', String ''Enter''),
              (''code'', String ''Enter'')]) [''keyDown'', ''keyUp''])) (\<lambda>_.
     returnh (Object [(''selected'', Bool True)])))))"

end
