(* ===== verification/Broker_Page_Properties.thy ===== *)
theory Broker_Page_Properties
  imports Broker_Pages Broker_Samples
begin

text \<open>
  What agents can make a managed browser do: which commands the browser and page handlers send, where
  they type, when they may look, and that waiting ends.
\<close>

section \<open>All requests\<close>

datatype page_request =
    ListTabs BrowserSessionId
  | OpenTab BrowserOpenTabParams
  | CloseTab BrowserTabParams
  | Navigate BrowserNavigateParams
  | Reload BrowserTabParams
  | Back BrowserTabParams
  | Forward BrowserTabParams
  | ReadText PageReadTextParams
  | SnapshotSafe PageSnapshotParams
  | Click PageLocatorParams
  | TypePublic PageTypePublicParams
  | SelectOption PageSelectParams

fun serve_page :: "page_env \<Rightarrow> (BrowserInstanceId \<Rightarrow> bool) \<Rightarrow> BrokerState \<Rightarrow> page_request \<Rightarrow> json page_handler" where
  "serve_page E H b (ListTabs i) = handle_browser_tabs E H b i"
| "serve_page E H b (OpenTab x) = handle_browser_open_tab E H b x"
| "serve_page E H b (CloseTab x) = handle_browser_close_tab E H b x"
| "serve_page E H b (Navigate x) = handle_browser_navigate E H b x"
| "serve_page E H b (Reload x) = handle_browser_reload E H b x"
| "serve_page E H b (Back x) = handle_browser_back E H b x"
| "serve_page E H b (Forward x) = handle_browser_forward E H b x"
| "serve_page E H b (ReadText x) = handle_page_read_text E H b x"
| "serve_page E H b (SnapshotSafe x) = handle_page_snapshot_safe E H b x"
| "serve_page E H b (Click x) = handle_page_click E H b x"
| "serve_page E H b (TypePublic x) = handle_page_type_public E H b x"
| "serve_page E H b (SelectOption x) = handle_page_select E H b x"

section \<open>Commands\<close>

definition sent_since :: "CdpPipe \<Rightarrow> CdpPipe \<Rightarrow> json list" where
  "sent_since p p' = drop (length (pi_sent p)) (pi_sent p')"

definition sends :: "(json \<Rightarrow> bool) \<Rightarrow> CdpPipe \<Rightarrow> CdpPipe \<Rightarrow> bool" where
  "sends ok p p' = (\<exists>cs. pi_sent p' = pi_sent p @ cs \<and> list_all ok cs)"

interpretation commands: state_relation "sends ok"
  by unfold_locales (auto simp: sends_def)

lemma sends_since: "sends ok p p' \<Longrightarrow> list_all ok (sent_since p p')"
  by (auto simp: sends_def sent_since_def)

lemma sends_cdp:
  assumes "\<And>i. validate_cdp_command f m None = Inr () \<Longrightarrow> ok (cdp_command i m s (Object ps))"
  shows "steps (sends ok) (cdp E f s m ps)"
proof (rule stepsI)
  fix p
  obtain r p' where "request_with_session (px_pipe E) f m None s (Object ps) p = (r, p')" by fastforce
  then show "sends ok p (snd (cdp E f s m ps p))"
    using request_sends[of "px_pipe E" f m None s "Object ps" p r p'] assms
    by (auto simp: cdp_def map_errh_def sends_def)
qed

lemma sends_succeeds [steps_intros]: "steps (sends ok) m \<Longrightarrow> steps (sends ok) (succeeds m)"
  by (simp add: steps_def succeeds_def)

text \<open>
  The interface of the proofs about commands: a predicate that holds of every command of the methods the
  handlers use with parameters of their own, and of the two methods that open an address for accepted
  addresses.  Text is inserted with a method of its own.
\<close>

definition PLAIN_METHODS :: "string list" where
  "PLAIN_METHODS =
    [''Target.attachToTarget'', ''Target.getTargets'', ''Target.closeTarget'', ''Page.reload'', ''Page.getNavigationHistory'',
     ''Page.navigateToHistoryEntry'', ''DOM.getDocument'', ''DOM.querySelectorAll'', ''DOM.describeNode'', ''DOM.getBoxModel'',
     ''DOM.focus'', ''Input.dispatchMouseEvent'', ''Input.dispatchKeyEvent'']"

definition ADDRESS_METHODS :: "string list" where
  "ADDRESS_METHODS = [''Page.navigate'', ''Target.createTarget'']"

lemma steps_json [steps_intros]:
  "(\<And>xs. v = Array xs \<Longrightarrow> steps rel (g xs)) \<Longrightarrow> steps rel h
    \<Longrightarrow> steps rel (case v of Null \<Rightarrow> h | Bool x \<Rightarrow> h | Number x \<Rightarrow> h | Float x \<Rightarrow> h
         | String x \<Rightarrow> h | Array xs \<Rightarrow> g xs | Object x \<Rightarrow> h)"
  by (auto split: json.split)

lemma in_plain:
  "List.member PLAIN_METHODS ''Target.attachToTarget''" "List.member PLAIN_METHODS ''Target.getTargets''"
  "List.member PLAIN_METHODS ''Target.closeTarget''" "List.member PLAIN_METHODS ''Page.reload''"
  "List.member PLAIN_METHODS ''Page.getNavigationHistory''" "List.member PLAIN_METHODS ''Page.navigateToHistoryEntry''"
  "List.member PLAIN_METHODS ''DOM.getDocument''" "List.member PLAIN_METHODS ''DOM.querySelectorAll''"
  "List.member PLAIN_METHODS ''DOM.describeNode''" "List.member PLAIN_METHODS ''DOM.getBoxModel''"
  "List.member PLAIN_METHODS ''DOM.focus''" "List.member PLAIN_METHODS ''Input.dispatchMouseEvent''"
  "List.member PLAIN_METHODS ''Input.dispatchKeyEvent''"
  "List.member ADDRESS_METHODS ''Page.navigate''" "List.member ADDRESS_METHODS ''Target.createTarget''"
  by (simp_all add: PLAIN_METHODS_def ADDRESS_METHODS_def)

locale page_commands =
  fixes ok :: "json \<Rightarrow> bool" and E :: page_env
  assumes plain: "List.member PLAIN_METHODS m \<Longrightarrow> ok (cdp_command i m s ps)"
    and address: "List.member ADDRESS_METHODS m \<Longrightarrow> navigation_url E raw blank = Inr url
      \<Longrightarrow> ok (cdp_command i m s (Object [(''url'', String url)]))"
begin

lemma sends_plain: "List.member PLAIN_METHODS m \<Longrightarrow> steps (sends ok) (cdp E f s m ps)"
  by (intro sends_cdp plain)

lemma sends_address:
  "List.member ADDRESS_METHODS m \<Longrightarrow> navigation_url E raw blank = Inr url \<Longrightarrow> steps (sends ok) (cdp E f s m [(''url'', String url)])"
  by (intro sends_cdp address)

lemmas sends_intros = steps_intros sends_plain in_plain

lemma sends_attach: "steps (sends ok) (attach_tab E f t)"
  unfolding attach_tab_def by (intro sends_intros)

lemma sends_with_tab: "(\<And>f s. steps (sends ok) (m f s)) \<Longrightarrow> steps (sends ok) (with_tab E H b i t m)"
  unfolding with_tab_def by (intro steps_intros sends_attach)

lemma sends_locate: "steps (sends ok) (locate_node E f s sel)"
  unfolding locate_node_def by (intro sends_intros)

lemma sends_project: "steps (sends ok) (project_document E f s L)" "steps (sends ok) (project_subtree E f s n L)"
  unfolding project_document_def project_subtree_def by (intro sends_intros)+

lemma sends_resolve: "steps (sends ok) (resolve_locator E f s loc)"
  unfolding resolve_locator_def by (intro steps_intros sends_locate sends_project)

lemma sends_center: "steps (sends ok) (box_model_center E f s n)"
  unfolding box_model_center_def by (intro sends_intros)

lemma sends_history: "steps (sends ok) (navigation_history E f s)"
  unfolding navigation_history_def by (intro sends_intros)

lemma sends_tab_url: "steps (sends ok) (tab_url E f s)"
  unfolding tab_url_def by (intro steps_intros sends_history)

lemma sends_each: "List.member PLAIN_METHODS m \<Longrightarrow> steps (sends ok) (cdp_each E f s m pss)"
  by (induction pss) (auto intro!: steps_intros sends_plain)

lemma sends_probe: "steps (sends ok) (probe_visibility E f s k ns)"
  by (induction ns arbitrary: k) (auto intro!: steps_intros sends_center)

lemma sends_navigate_history: "steps (sends ok) (navigate_history E H b i t offset)"
  unfolding navigate_history_def by (intro sends_intros sends_with_tab sends_history)

lemma sends_condition: "steps (sends ok) (evaluate_wait_condition E H b w)"
  unfolding evaluate_wait_condition_def
  by (cases "pwp_condition w"; simp; intro steps_intros sends_with_tab sends_resolve sends_project sends_tab_url)

lemma sends_wait: "steps (sends ok) (wait_loop E H w d n bs clock)"
  by (induction n arbitrary: bs clock) (auto intro!: steps_intros sends_condition)


lemmas sends_parts = sends_with_tab sends_history sends_navigate_history sends_resolve sends_project sends_center sends_tab_url
  sends_each sends_probe

lemma sends_tabs:
  "steps (sends ok) (handle_browser_tabs E H b i)" "steps (sends ok) (handle_browser_close_tab E H b x)"
  "steps (sends ok) (handle_browser_reload E H b x)" "steps (sends ok) (handle_browser_back E H b x)"
  "steps (sends ok) (handle_browser_forward E H b x)"
  unfolding handle_browser_tabs_def handle_browser_close_tab_def handle_browser_reload_def handle_browser_back_def
    handle_browser_forward_def
  by (intro sends_intros sends_parts)+

lemma sends_accepted:
  "(\<And>url. navigation_url E raw blank = Inr url \<Longrightarrow> steps (sends ok) (m url))
    \<Longrightarrow> steps (sends ok) (bindh (lifth (navigation_url E raw blank)) m)"
  using commands.steps_pure(2)[of ok] by (cases "navigation_url E raw blank") (simp_all add: steps_def bindh_def)

lemma sends_opening: "steps (sends ok) (handle_browser_open_tab E H b x)" "steps (sends ok) (handle_browser_navigate E H b y)"
proof -
  show "steps (sends ok) (handle_browser_open_tab E H b x)"
    unfolding handle_browser_open_tab_def
    by (rule sends_accepted) (intro commands.steps_bind commands.steps_pure sends_address in_plain)
  show "steps (sends ok) (handle_browser_navigate E H b y)"
    unfolding handle_browser_navigate_def
    by (rule sends_accepted) (intro commands.steps_bind commands.steps_pure sends_with_tab sends_address in_plain)
qed

lemma sends_observing: "steps (sends ok) (handle_page_read_text E H b x)" "steps (sends ok) (handle_page_snapshot_safe E H b y)"
  unfolding handle_page_read_text_def handle_page_snapshot_safe_def by (intro steps_intros sends_parts)+

lemma sends_click: "steps (sends ok) (handle_page_click E H b x)"
  unfolding handle_page_click_def by (intro sends_intros sends_parts)

text \<open>All requests that do not type.\<close>

lemma sends_serving:
  "case r of TypePublic _ \<Rightarrow> True | SelectOption _ \<Rightarrow> True | _ \<Rightarrow> steps (sends ok) (serve_page E H b r)"
  by (cases r) (simp_all add: sends_tabs sends_opening sends_observing sends_click)

end

text \<open>Where inserting text satisfies the predicate as well, all requests do.\<close>

locale typing_commands = page_commands +
  assumes typing: "ok (cdp_command i ''Input.insertText'' s ps)"
begin

lemma sends_insert: "steps (sends ok) (insert_text E f s loc text)"
  unfolding insert_text_def by (intro sends_intros sends_parts sends_cdp typing)

lemma sends_typing: "steps (sends ok) (handle_page_type_public E H b x)" "steps (sends ok) (handle_page_select E H b y)"
  unfolding handle_page_type_public_def handle_page_select_def by (intro sends_intros sends_parts sends_insert)+

lemma sends_all: "steps (sends ok) (serve_page E H b r)"
  using sends_serving[where r = r and H = H and b = b] by (cases r) (simp_all add: sends_typing)

end

section \<open>Safe commands\<close>

text \<open>Every command is one the filter allows; a command that opens an address carries an accepted one.\<close>

definition accepted_address :: "page_env \<Rightarrow> json \<Rightarrow> bool" where
  "accepted_address E c = (\<exists>raw blank url. json_path [''params'', ''url''] c = Some (String url) \<and> navigation_url E raw blank = Inr url)"

definition safe_command :: "page_env \<Rightarrow> json \<Rightarrow> bool" where
  "safe_command E c =
    (case command_method c of None \<Rightarrow> False
     | Some m \<Rightarrow> List.member ALLOWED_CDP_METHODS m \<and> (if List.member ADDRESS_METHODS m then accepted_address E c else True))"

lemma methods_allowed:
  "list_all (\<lambda>m. List.member ALLOWED_CDP_METHODS m \<and> \<not> List.member ADDRESS_METHODS m) (''Input.insertText'' # PLAIN_METHODS)"
  "list_all (List.member ALLOWED_CDP_METHODS) ADDRESS_METHODS"
  "\<not> List.member (PLAIN_METHODS @ ADDRESS_METHODS) ''Input.insertText''"
  by code_simp+

interpretation safe: typing_commands "safe_command E" E for E
proof
  fix m i s ps raw blank url
  show "safe_command E (cdp_command i ''Input.insertText'' s ps)"
    using methods_allowed(1) by (simp add: safe_command_def)
  show "List.member PLAIN_METHODS m \<Longrightarrow> safe_command E (cdp_command i m s ps)"
    using methods_allowed(1) by (simp add: safe_command_def list_all_iff)
  have "json_path [''params'', ''url''] (cdp_command i m s (Object [(''url'', String url)])) = Some (String url)"
    by (simp add: cdp_command_def json_path_def json_member_def)
  then show "List.member ADDRESS_METHODS m \<Longrightarrow> navigation_url E raw blank = Inr url
      \<Longrightarrow> safe_command E (cdp_command i m s (Object [(''url'', String url)]))"
    using methods_allowed(2) by (auto simp: safe_command_def accepted_address_def list_all_iff)
qed

text \<open>
  Whatever an agent asks for and whatever the browser answers, the commands that are sent are commands
  the filter allows, and every address that is opened is one the check of addresses has accepted.
\<close>

theorem page_commands_safe:
  "list_all (safe_command E) (sent_since p (snd (serve_page E H b r p)))
   \<and> list_all (safe_command E) (sent_since p (snd (handle_page_wait_for E H bs start clock w p)))"
  using safe.sends_all[of E H b r] safe.sends_wait[of E H w] by (simp add: steps_def sends_since handle_page_wait_for_def)

section \<open>Typing\<close>

definition inserts :: "json \<Rightarrow> bool" where
  "inserts c = (command_method c = Some ''Input.insertText'')"

definition quiet :: "CdpPipe \<Rightarrow> CdpPipe \<Rightarrow> bool" where
  "quiet = sends (\<lambda>c. \<not> inserts c)"

interpretation silent: page_commands "\<lambda>c. \<not> inserts c" E for E
  by unfold_locales (use methods_allowed(3) in \<open>auto simp: inserts_def\<close>)

text \<open>
  One text is inserted, after an element was described, found not to be protected and focused; nothing is
  inserted before or after it.
\<close>

definition inserts_checked :: "page_env \<Rightarrow> string \<Rightarrow> CdpPipe \<Rightarrow> CdpPipe \<Rightarrow> bool" where
  "inserts_checked E text p p' =
    (\<exists>f s n node r1 r2 q q1 q2 q3.
       quiet p q \<and> cdp E f s ''DOM.describeNode'' [(''nodeId'', n)] q = (Inr node, q1) \<and> node_is_protected node = False
       \<and> cdp E f s ''DOM.focus'' [(''nodeId'', n)] q1 = (Inr r1, q2)
       \<and> cdp E f s ''Input.insertText'' [(''text'', String text)] q2 = (r2, q3) \<and> quiet q3 p')"

definition types_only :: "page_env \<Rightarrow> string \<Rightarrow> 'a page_handler \<Rightarrow> bool" where
  "types_only E text m = (\<forall>p. quiet p (snd (m p)) \<or> inserts_checked E text p (snd (m p)))"

lemma quiet_refl: "quiet p p" and quiet_trans: "quiet p q \<Longrightarrow> quiet q u \<Longrightarrow> quiet p u"
  unfolding quiet_def using commands.sr_refl commands.sr_trans by blast+

lemma inserts_checked_before: "quiet p q \<Longrightarrow> inserts_checked E text q u \<Longrightarrow> inserts_checked E text p u"
  unfolding inserts_checked_def by (elim exE conjE, intro exI conjI, rule quiet_trans, assumption+)

lemma inserts_checked_after: "inserts_checked E text p q \<Longrightarrow> quiet q u \<Longrightarrow> inserts_checked E text p u"
  unfolding inserts_checked_def by (elim exE conjE, intro exI conjI, assumption+, rule quiet_trans, assumption+)

lemma types_first: "steps quiet m \<Longrightarrow> (\<And>x. types_only E text (k x)) \<Longrightarrow> types_only E text (bindh m k)"
  unfolding types_only_def
proof
  fix p
  assume m: "steps quiet m" and k: "\<And>x. \<forall>p. quiet p (snd (k x p)) \<or> inserts_checked E text p (snd (k x p))"
  obtain r q where r: "m p = (r, q)" by fastforce
  then have q: "quiet p q" using m by (metis snd_conv steps_def)
  show "quiet p (snd (bindh m k p)) \<or> inserts_checked E text p (snd (bindh m k p))"
  proof (cases r)
    case (Inr x)
    then have "bindh m k p = k x q" using r by (simp add: bindh_def)
    then show ?thesis using k[of x, rule_format, of q] quiet_trans[OF q] inserts_checked_before[OF q] by auto
  qed (use r q in \<open>simp add: bindh_def\<close>)
qed

lemma types_then: "types_only E text m \<Longrightarrow> (\<And>x. steps quiet (k x)) \<Longrightarrow> types_only E text (bindh m k)"
  unfolding types_only_def
proof
  fix p
  assume m: "\<forall>p. quiet p (snd (m p)) \<or> inserts_checked E text p (snd (m p))" and k: "\<And>x. steps quiet (k x)"
  obtain r q where r: "m p = (r, q)" by fastforce
  have "quiet q (snd (bindh m k p))"
    using k r by (cases r) (simp_all add: bindh_def quiet_refl steps_def)
  then show "quiet p (snd (bindh m k p)) \<or> inserts_checked E text p (snd (bindh m k p))"
    using m[rule_format, of p] r quiet_trans[of p q] inserts_checked_after[of E _ p q] by auto
qed

lemma types_if: "types_only E t m \<Longrightarrow> types_only E t n \<Longrightarrow> types_only E t (if c then m else n)"
  by simp

lemma types_quiet: "steps quiet m \<Longrightarrow> types_only E text m"
  by (simp add: types_only_def steps_def)

lemma types_insert: "types_only E text (insert_text E f s loc text)"
proof -
  have "types_only E text (bindh (cdp E f (Some s) ''DOM.describeNode'' [(''nodeId'', n)]) (\<lambda>node.
      if node_is_protected node then failh e
      else bindh (cdp E f (Some s) ''DOM.focus'' [(''nodeId'', n)]) (\<lambda>_.
        bindh (cdp E f (Some s) ''Input.insertText'' [(''text'', String text)]) (\<lambda>_. returnh ()))))" for n e
    unfolding types_only_def
  proof
    fix p
    let ?m = "bindh (cdp E f (Some s) ''DOM.describeNode'' [(''nodeId'', n)]) (\<lambda>node.
      if node_is_protected node then failh e
      else bindh (cdp E f (Some s) ''DOM.focus'' [(''nodeId'', n)]) (\<lambda>_.
        bindh (cdp E f (Some s) ''Input.insertText'' [(''text'', String text)]) (\<lambda>_. returnh ())))"
    obtain r q where r: "cdp E f (Some s) ''DOM.describeNode'' [(''nodeId'', n)] p = (r, q)" by fastforce
    obtain r1 q1 where r1: "cdp E f (Some s) ''DOM.focus'' [(''nodeId'', n)] q = (r1, q1)" by fastforce
    obtain r2 q2 where r2: "cdp E f (Some s) ''Input.insertText'' [(''text'', String text)] q1 = (r2, q2)" by fastforce
    have q: "quiet p q" "quiet q q1"
      using stepsD[OF silent.sends_plain r] stepsD[OF silent.sends_plain r1] in_plain unfolding quiet_def by blast+
    consider (fails) "\<exists>e. r = Inl e" | (protected) node where "r = Inr node" "node_is_protected node"
      | (unfocused) node e' where "r = Inr node" "\<not> node_is_protected node" "r1 = Inl e'"
      | (typed) node x where "r = Inr node" "node_is_protected node = False" "r1 = Inr x"
      by (cases r; cases r1) auto
    then show "quiet p (snd (?m p)) \<or> inserts_checked E text p (snd (?m p))"
    proof cases
      case typed
      have "snd (?m p) = q2" using r r1 r2 typed by (cases r2) (simp_all add: bindh_def)
      moreover have "inserts_checked E text p q2"
        unfolding inserts_checked_def using r r1 r2 typed quiet_refl by blast
      ultimately show ?thesis by simp
    qed (use r r1 q quiet_trans[OF q] in \<open>auto simp: bindh_def\<close>)
  qed
  then show ?thesis unfolding insert_text_def
    by (rule types_first[rotated]) (simp add: quiet_def silent.sends_resolve)
qed

lemma types_with_tab: "(\<And>f s. types_only E text (m f s)) \<Longrightarrow> types_only E text (with_tab E H b i t m)"
  unfolding with_tab_def by (intro types_first) (simp_all add: quiet_def silent.sends_attach commands.steps_pure)

text \<open>
  Text reaches a page only through the two requests for it, at most once for a request, and only into the element
  that was described last before it and was not protected.
\<close>

theorem typed_only_unprotected:
  "let p' = snd (serve_page E H b r p) in
     quiet p p'
     \<or> (case r of TypePublic x \<Rightarrow> inserts_checked E (ptp_text x) p p' | SelectOption x \<Rightarrow> inserts_checked E (psp_label x) p p'
        | _ \<Rightarrow> False)"
proof -
  have fails: "types_only E t (failh e :: json page_handler)" for t e
    by (rule types_quiet) (simp add: quiet_def commands.steps_pure)
  have after: "steps quiet (returnh v)" "steps quiet (bindh (cdp_each E f s ''Input.dispatchKeyEvent'' pss) (\<lambda>_. returnh v))" for f s pss v
    unfolding quiet_def by (intro commands.steps_bind silent.sends_each in_plain commands.steps_pure)+
  have "types_only E (ptp_text x) (handle_page_type_public E H b x)" for x
    unfolding handle_page_type_public_def by (intro types_if fails types_with_tab types_then types_insert after)
  moreover have "types_only E (psp_label x) (handle_page_select E H b x)" for x
    unfolding handle_page_select_def by (intro types_if fails types_with_tab types_then types_insert after)
  ultimately show ?thesis
    using silent.sends_serving[where r = r and H = H and b = b and E = E]
    by (cases r) (simp_all add: types_only_def steps_def quiet_def Let_def)
qed

section \<open>Waiting\<close>

definition satisfied_in :: "page_env \<Rightarrow> (BrowserInstanceId \<Rightarrow> bool) \<Rightarrow> PageWaitForParams \<Rightarrow> BrokerState \<Rightarrow> bool" where
  "satisfied_in E H w b =
    (guard_observation (pwp_session_id w) b = Inr () \<and> (\<exists>p p'. evaluate_wait_condition E H b w p = (Inr True, p')))"

lemma wait_loop_sound:
  "wait_loop E H w d n bs clock p = (Inr (Some v), p') \<Longrightarrow>
    v = Object [(''satisfied'', Bool True)] \<and> (\<exists>k < n. satisfied_in E H w (bs k))"
proof (induction n arbitrary: bs clock p)
  case (Suc n)
  from Suc.prems obtain x q where g: "guard_observation (pwp_session_id w) (bs 0) = Inr ()"
    "evaluate_wait_condition E H (bs 0) w p = (Inr x, q)"
    "(if x then returnh (Some (Object [(''satisfied'', Bool True)]))
      else if d \<le> clock 0 then failh (rpc WAIT_TIMEOUT ''Condition was not satisfied before the deadline'')
      else wait_loop E H w d n (\<lambda>k. bs (Suc k)) (\<lambda>k. clock (Suc k))) q = (Inr (Some v), p')"
    by (auto simp: bindh_Inr_iff)
  show ?case
  proof (cases x)
    case True
    then have "satisfied_in E H w (bs 0)" using g by (auto simp: satisfied_in_def)
    then show ?thesis using True g(3) by auto
  next
    case False
    then show ?thesis using g(3) Suc.IH[of "\<lambda>k. bs (Suc k)" "\<lambda>k. clock (Suc k)" q] by (auto split: if_splits)
  qed
qed simp

lemma wait_loop_ends: "d \<le> clock n \<Longrightarrow> wait_loop E H w d (Suc n) bs clock p \<noteq> (Inr None, p')"
proof (induction n arbitrary: bs clock p)
  case (Suc n)
  show ?case
  proof
    assume "wait_loop E H w d (Suc (Suc n)) bs clock p = (Inr None, p')"
    then obtain q where "wait_loop E H w d (Suc n) (\<lambda>k. bs (Suc k)) (\<lambda>k. clock (Suc k)) q = (Inr None, p')"
      unfolding wait_loop.simps(2)[of E H w d "Suc n"] by (auto simp: bindh_Inr_iff simp del: wait_loop.simps split: if_splits)
    then show False using Suc.IH[of "\<lambda>k. clock (Suc k)"] Suc.prems by blast
  qed
qed (auto simp: bindh_Inr_iff split: if_splits)

lemma wait_timeout_bound: "wait_timeout w \<le> 30000"
  by (simp add: wait_timeout_def Let_def MAX_WAIT_TIMEOUT_MS_def word_less_def uint_word_ariths)


text \<open>A browser that answers the first command with a session and the second with a history.\<close>

definition sample_page_env :: page_env where
  "sample_page_env =
    \<lparr>px_pipe = \<lparr>pv_to_vec = (\<lambda>_. Inr []),
       pv_from_slice = (\<lambda>bs. Inr (if bs = [1]
         then Object [(''id'', Number 1), (''result'', Object [(''sessionId'', String ''s'')])]
         else Object [(''id'', Number 2), (''result'', Object [(''currentIndex'', Number 0),
                (''entries'', Array [Object [(''url'', String ''https://a'')]])])])),
       pv_write = (\<lambda>_. None)\<rparr>,
     px_view = \<lparr>ve_sha256 = id, ve_to_lowercase = id\<rparr>, px_url_parse = plain_url_parse, px_url_text = (\<lambda>_. ''https://a/''),
     px_url_bare = (\<lambda>_. ''https://a/''), px_as_f64 = (\<lambda>_. None), px_not_positive = (\<lambda>_. False), px_mean = (\<lambda>_. 0)\<rparr>"

definition sample_wait :: PageWaitForParams where
  "sample_wait = \<lparr>pwp_session_id = ''bs_1'', pwp_tab_id = ''7'', pwp_condition = UrlChangedFrom ''https://b/'', pwp_timeout_ms = Some 400\<rparr>"

lemma sample_observable: "guard_observation ''bs_1'' sample_broker = Inr ()"
  by (simp add: guard_observation_def sensitive_filter_for_session_def sample_broker_def sample_session_def has_sensitive_window_def CdpFilter_new_def)

lemma sample_transport: "browser_transport (\<lambda>_. True) ''bs_1'' sample_broker = Inr CdpFilter_new"
  by (simp add: browser_transport_def sample_broker_def sample_session_def)

lemma sample_allowed:
  "validate_cdp_command f ''Target.attachToTarget'' None = Inr ()" "validate_cdp_command f ''Page.getNavigationHistory'' None = Inr ()"
  by (simp_all add: validate_spec ALLOWED_CDP_METHODS_def)

lemma sample_sanitized:
  "sanitize_cdp_response ''Target.attachToTarget'' (Object [(''id'', Number 1), (''result'', Object [(''sessionId'', String ''s'')])])
    = Object [(''id'', Number 1), (''result'', Object [(''sessionId'', String ''s'')])]"
  "sanitize_cdp_response ''Page.getNavigationHistory'' (Object [(''id'', Number 2), (''result'', Object [(''currentIndex'', Number 0),
      (''entries'', Array [Object [(''url'', String ''https://a'')]])])])
    = Object [(''id'', Number 2), (''result'', Object [(''currentIndex'', Number 0),
      (''entries'', Array [Object [(''url'', String ''https://a'')]])])]"
  by code_simp+

lemmas sample_run = cdp_def map_errh_def request_with_session_def sample_allowed sample_page_env_def MAX_CDP_MESSAGE_BYTES_def
  strip_nul_def json_member_def json_text_def json_u64_def sample_sanitized cdp_result_def unwrap_or_def

lemma sample_attach:
  "attach_tab sample_page_env CdpFilter_new ''7'' (CdpPipe_new [Inr [1], Inr [2]])
    = (Inr ''s'', \<lparr>pi_next_id = 2, pi_sent = [cdp_command 1 ''Target.attachToTarget'' None
        (Object [(''targetId'', String ''7''), (''flatten'', Bool True)])], pi_frames = [Inr [2]]\<rparr>)"
  by (simp add: attach_tab_def bindh_def CdpPipe_new_def sample_run)

lemma sample_url: "fst (tab_url sample_page_env CdpFilter_new ''s'' \<lparr>pi_next_id = 2, pi_sent = cs, pi_frames = [Inr [2]]\<rparr>) = Inr ''https://a/''"
proof -
  have "is_ok (plain_url_parse ''https://a'')" by code_simp
  then obtain u where "plain_url_parse ''https://a'' = Inr u" by (cases "plain_url_parse ''https://a''") auto
  then show ?thesis by (auto simp: tab_url_def navigation_history_def history_entries_def bindh_def sample_run)
qed

lemma sample_satisfied:
  "fst (evaluate_wait_condition sample_page_env (\<lambda>_. True) sample_broker sample_wait (CdpPipe_new [Inr [1], Inr [2]])) = Inr True"
  using sample_url[of "[cdp_command 1 ''Target.attachToTarget'' None (Object [(''targetId'', String ''7''), (''flatten'', Bool True)])]"]
  by (auto simp: evaluate_wait_condition_def sample_wait_def with_tab_def bindh_def sample_transport sample_attach split: prod.split sum.split)


section \<open>What agents do not see\<close>

text \<open>
  An answer to \<open>DOM.describeNode\<close> is redacted by the names of its members, and \<open>nodeValue\<close> is a name with a
  prohibited word: the text of an element that an agent asks for consists of the redaction marks.
\<close>

definition marks :: "char set" where
  "marks = set ''[REDACTED] ''"

definition marked :: "json \<Rightarrow> bool" where
  "marked v = (case node_value v of None \<Rightarrow> True | Some s \<Rightarrow> s = ''[REDACTED]'')"

lemma generic_member:
  "json_member k (sanitize_generic_json v) = map_option (\<lambda>w. if contains_prohibited_key_name k then String ''[REDACTED]''
     else sanitize_generic_json w) (json_member k v)"
proof (cases v)
  case (Object ms)
  then show ?thesis by (induction ms arbitrary: v) (auto simp: json_member_def)
qed (simp_all add: json_member_def)

lemma generic_names:
  "contains_prohibited_key_name ''nodeValue'' = True" "contains_prohibited_key_name ''children'' = False"
  "contains_prohibited_key_name ''result'' = False" "contains_prohibited_key_name ''node'' = False"
  by code_simp+

lemma generic_marked: "marked (sanitize_generic_json v)"
  by (simp add: marked_def node_value_def generic_member generic_names json_text_def split: option.split bind_split)

lemma generic_children: "json_children (sanitize_generic_json v) = map sanitize_generic_json (json_children v)"
  by (auto simp: json_children_def generic_member generic_names json_array_def split: option.split json.split)

definition mark_text :: "Walker \<Rightarrow> bool" where
  "mark_text w = (set (concat (wk_text w)) \<subseteq> marks)"

lemma mark_chars: "mark_text w \<Longrightarrow> set (concat cs) \<subseteq> marks \<Longrightarrow> mark_text (push_chars n cs w)"
  by (induction n cs w rule: push_chars.induct) (auto simp: mark_text_def)

lemma collapse_chars:
  "CHR '' '' \<in> M \<Longrightarrow> set (concat out) \<subseteq> M \<Longrightarrow> set (concat cs) \<subseteq> M \<Longrightarrow> set (concat (collapse out p cs)) \<subseteq> M"
  by (induction out p cs rule: collapse.induct) (simp_all add: Un_commute)

lemma concat_characters: "concat (characters s) = s"
  by (induction s rule: characters.induct) simp_all

lemma marks_mem: "CHR '' '' \<in> marks" "set ''[REDACTED]'' \<subseteq> marks"
  by (simp_all add: marks_def)

lemma mark_push:
  assumes "mark_text w" "set v \<subseteq> marks"
  shows "mark_text (push_text L v w)"
proof -
  have "mark_text (if wk_text w \<noteq> [] \<and> last (wk_text w) \<noteq> '' '' then w\<lparr>wk_text := wk_text w @ ['' '']\<rparr> else w)"
    using assms(1) marks_mem(1) by (simp add: mark_text_def)
  moreover have "set (concat (collapse [] False (characters v))) \<subseteq> marks"
    by (rule collapse_chars) (use assms(2) marks_mem(1) in \<open>simp_all only: concat_characters, simp\<close>)
  ultimately show ?thesis using assms(1) unfolding push_text_def Let_def by (auto intro!: mark_chars simp del: push_chars.simps)
qed

lemma mark_visit: "mark_text w \<Longrightarrow> mark_text (visit V L (sanitize_generic_json v) i w)"
proof (induction v arbitrary: i w rule: measure_induct_rule[of size])
  case (less v)
  have rec: "mark_text u \<Longrightarrow> set cs \<subseteq> set (json_children v) \<Longrightarrow> mark_text (fold (\<lambda>child. visit V L child p) (map sanitize_generic_json cs) u)" for u cs p
    by (induction cs arbitrary: u) (auto intro!: less.IH json_children_size)
  have r: "mark_text (record_element V L n tag a p u) = mark_text u" for n tag a p u
    by (simp add: mark_text_def record_element_def Let_def)
  have v: "node_value (sanitize_generic_json v) = None \<or> node_value (sanitize_generic_json v) = Some ''[REDACTED]''"
    using generic_marked[of v] by (simp add: marked_def split: option.splits)
  have t: "mark_text (case node_value (sanitize_generic_json v) of None \<Rightarrow> w | Some t \<Rightarrow> push_text L t w)"
    using v mark_push[OF less.prems marks_mem(2)] less.prems by (auto simp only: option.case)
  show ?case
    unfolding visit.simps[of V L "sanitize_generic_json v"] Let_def generic_children
    using less.prems t rec[OF _ subset_refl] r by (simp split: if_split)
qed

theorem subtree_text_redacted:
  "case Option.bind (json_member ''result'' (sanitize_cdp_response ''DOM.describeNode'' raw)) (json_member ''node'') of None \<Rightarrow> True
   | Some node \<Rightarrow> set (pp_text (from_node V node L)) \<subseteq> marks"
proof -
  have "sanitize_cdp_response ''DOM.describeNode'' raw = sanitize_generic_json raw" by (simp add: sanitize_cdp_response_def)
  then have "Option.bind (json_member ''result'' (sanitize_cdp_response ''DOM.describeNode'' raw)) (json_member ''node'')
      = Option.bind (json_member ''result'' raw) (\<lambda>r. map_option sanitize_generic_json (json_member ''node'' r))"
    by (simp add: generic_member generic_names bind_map_option comp_def)
  moreover have "set (pp_text (from_node V (sanitize_generic_json v) L)) \<subseteq> marks" for v
  proof -
    have "mark_text (visit V L (sanitize_generic_json v) False Walker_new)"
      by (rule mark_visit) (simp add: mark_text_def Walker_new_def)
    then show ?thesis unfolding from_node_def Let_def mark_text_def by (auto dest!: set_dropWhileD subsetD)
  qed
  ultimately show ?thesis by (auto simp: bind_eq_Some_conv split: option.split)
qed

text \<open>
  The view and the check before typing disagree: an input below a protected element is shown as protected, and
  text may be typed into it, because only the attributes of the element itself are looked at then.
\<close>

definition nested_input :: json where
  "nested_input = Object [(''nodeType'', Number 1), (''nodeName'', String ''INPUT''), (''nodeId'', Number 5),
     (''attributes'', Array [String ''name'', String ''q''])]"

lemma nested_reads:
  "is_protected [(''id'', ''password-box'')] = True" "is_protected [(''name'', ''q'')] = False"
  "to_ascii_lowercase ''DIV'' = ''div''" "to_ascii_lowercase ''INPUT'' = ''input''" "to_ascii_lowercase ''id'' = ''id''"
  "to_ascii_lowercase ''name'' = ''name''" "to_ascii_lowercase ''text'' = ''text''"
  by code_simp+

theorem view_and_typing_disagree:
  "map pj_protected (pp_nodes (from_node V (Object [(''nodeType'', Number 1), (''nodeName'', String ''DIV''),
      (''attributes'', Array [String ''id'', String ''password-box'']), (''children'', Array [nested_input])]) ViewLimits_default)) = [True]
   \<and> node_is_protected (Object [(''node'', nested_input)]) = False"
  by (simp add: from_node_def visit.simps nested_input_def node_type_def node_tag_def json_member_def json_text_def json_u64_def
      Attributes_from_node_def json_array_def nested_reads json_children_def record_element_def derive_role_def tag_role_def
      input_role_def attr_get_def unwrap_or_def Walker_new_def ViewLimits_default_def node_is_protected_def INTERACTABLE_ROLES_def
      NON_CONTENT_TAGS_def attr_has_def Let_def)

end
