(* ===== verification/Broker_Ui_Properties.thy ===== *)
theory Broker_Ui_Properties
  imports Broker_Authority Broker_Samples
begin

text \<open>
  What the projections for the desktop and its operations promise: who gets a standing grant, what disabling
  an agent reaches, which parts of the state no projection depends on, and what is left of a text that an agent
  supplies.  \<open>same_grants\<close> is the relation of handlers that leave the standing grants alone.
\<close>

section \<open>Standing grants\<close>

definition same_grants :: "BrokerState \<Rightarrow> BrokerState \<Rightarrow> bool" where
  "same_grants b b' = (t_standing_grants (b_store b') = t_standing_grants (b_store b))"

interpretation grants: state_relation same_grants
  by unfold_locales (auto simp: same_grants_def)

lemma grants_audited:
  assumes "\<And>e d. t_standing_grants (snd (op e d)) = t_standing_grants d"
  shows "steps same_grants (audited E sl ty at ai ctx af sf op)"
proof (rule stepsI)
  fix b :: BrokerState
  have "t_standing_grants d = t_standing_grants (b_store b)" if "op e (b_store b) = (r, d)" for e r d
    using assms[of e "b_store b"] that by simp
  then show "same_grants b (snd (audited E sl ty at ai ctx af sf op b))"
    by (auto simp: same_grants_def audited_def try_audited_def map_errh_def bindh_def split: sum.split prod.split)
qed

lemma grants_modify: "(\<And>b. b_store (f b) = b_store b) \<Longrightarrow> steps same_grants (modifyh f)"
  by (auto simp: steps_def same_grants_def)

lemma grants_ops:
  "t_standing_grants (snd (update_approval_with_audit io a e d)) = t_standing_grants d"
  "t_standing_grants (snd (insert_capability_with_audit io c k e d)) = t_standing_grants d"
  by (auto simp: update_approval_with_audit_def insert_capability_with_audit_def atomically_def decide_rows_def try_r_Inr_iff
      split: sum.split if_splits dest!: event_tx_tables(5))

lemma grants_mint: "steps same_grants (mint_authorized_capability E W a i)"
  unfolding mint_authorized_capability_def
  by (intro steps_intros grants_audited grants_modify; simp add: grants_ops)

lemma grants_decide: "steps same_grants (decide_approval E W i ok dg ac pv)"
  unfolding decide_approval_def decide_approval_at_def
  by (intro steps_intros grants_audited grants_modify grants_mint; simp add: grants_ops)

lemma insert_grant_ok:
  assumes "insert_standing_grant_with_audit io g e d = (Inr x, d')"
  shows "g\<lparr>sg_revoked_at := None, sg_revoked_reason := None, sg_last_used_at := None, sg_use_count := 0\<rparr> \<in> set (t_standing_grants d')"
    and "length (t_standing_grants d') = Suc (length (t_standing_grants d))"
  using assms
  by (auto simp: insert_standing_grant_with_audit_def transactions insert_row_def update_rows_def split: if_splits dest!: event_tx_tables(5))

lemma insert_grant_error: "insert_standing_grant_with_audit io g e d = (Inl x, d') \<Longrightarrow> d' = d"
  by (auto simp: insert_standing_grant_with_audit_def dest: atomically_error)

text \<open>A handler that changes the grants only when it succeeds.\<close>

definition errors_keep :: "'a broker_handler \<Rightarrow> bool" where
  "errors_keep m = (\<forall>b e b'. m b = (Inl e, b') \<longrightarrow> same_grants b b')"

lemma errors_keep_bind: "steps same_grants m \<Longrightarrow> (\<And>x. errors_keep (f x)) \<Longrightarrow> errors_keep (bindh m f)"
  unfolding errors_keep_def bindh_def
  by (auto split: prod.splits sum.splits dest: stepsD) (metis grants.sr_trans stepsD)

lemma errors_keep_last: "errors_keep m \<Longrightarrow> errors_keep (bindh m (\<lambda>x. returnh (f x)))"
  unfolding errors_keep_def bindh_def by (auto split: prod.splits sum.splits)

lemma errors_keep_insert: "errors_keep (insert_standing_grant_audited E sl g c)"
  unfolding errors_keep_def insert_standing_grant_audited_def audited_def try_audited_def map_errh_def bindh_def same_grants_def
  by (auto split: sum.split_asm prod.split_asm dest!: insert_grant_error)

lemma errors_keep_create: "errors_keep (ui_create_grant E W p)"
  unfolding ui_create_grant_def Let_def
  by (intro errors_keep_bind errors_keep_last errors_keep_insert grants_decide grants.steps_pure grants.steps_peek)

lemma create_grant_ok:
  assumes "ui_create_grant E W p b = (Inr r, b')"
  obtains pending u c where "0 < gcp_ttl_days p" "gcp_ttl_days p \<le> MAX_GRANT_TTL_DAYS"
    "map_of (b_approvals b) (gcp_approval_id p) = Some pending"
    "RiskLevel_rank (au_base_risk (pn_authorization pending)) \<le> RiskLevel_rank MAX_GRANTABLE_RISK"
    "pd_require_user_presence (au_decision (pn_authorization pending)) \<longrightarrow> gcp_presence_verified p"
    "decide_approval E (later 1 W) (gcp_approval_id p) True (gcp_context_digest p) ''local-admin'' (gcp_presence_verified p) b
       = (Inr (gcr_decision r), u)"
    "insert_standing_grant_audited E (W 6) (approved_grant (sl_uuid (W 5)) (sl_now (W 0)) (gcp_ttl_days p) (pn_authorization pending)) c u
       = (Inr (), b')"
    "gcr_grant r = ui_grant (sl_now (W 0)) (approved_grant (sl_uuid (W 5)) (sl_now (W 0)) (gcp_ttl_days p) (pn_authorization pending))"
  using assms that unfolding ui_create_grant_def Let_def
  by (auto simp: bindh_Inr_iff[of "decide_approval _ _ _ _ _ _ _"] bindh_Inr_iff[of "insert_standing_grant_audited _ _ _ _"])


subsection \<open>A rejected approval\<close>

text \<open>An approval that waits, for a page that is no longer the one that was shown; each use of the world has its own identifier.\<close>

definition sample_pending :: PendingApprovalEntry where
  "sample_pending =
    \<lparr>pn_approval = \<lparr>ap_approval_id = ''appr_1'', ap_request_id = ''req_1'', ap_decision = ''pending'', ap_actor = None, ap_presence = None,
        ap_context_digest = [1], ap_decided_at = None, ap_expires_at = 60000000000\<rparr>,
     pn_authorization = \<lparr>au_request_id = ''req_1'', au_agent_id = ''agent_1'', au_agent_name = ''a'', au_reason = [], au_identity_name = [],
        au_credential = \<lparr>cr_credential_id = ''cred_1'', cr_name = ''c'', cr_kind = ''password'', cr_provider = ''memory'',
          cr_provider_locator = ''loc'', cr_allowed_actions = [AuthenticatePassword], cr_metadata_json = ''{}'', cr_disabled_at = None\<rparr>,
        au_action = AuthenticatePassword, au_browser_session_id = ''bs_1'', au_extension_key_id = ''x'',
        au_page_context = \<lparr>pg_tab_id = 7, pg_frame_id = 0, pg_top_origin = sample_origin, pg_frame_origin = sample_origin,
          pg_navigation_epoch = 3, pg_document_id = ''d'', pg_path = [], pg_path_sha256 = [], pg_tls = True, pg_incognito = False,
          pg_observed_at = 0\<rparr>,
        au_recipe = sample_recipe, au_decision = \<lparr>pd_effect = Allow, pd_risk_level = Low, pd_rule_id = None, pd_policy_hash = [1],
          pd_require_user_presence = False, pd_max_uses = 1, pd_consume_ttl_seconds = 30, pd_execution_ttl_seconds = 60\<rparr>,
        au_base_risk = Low\<rparr>\<rparr>"

definition sample_approving :: BrokerState where
  "sample_approving = sample_broker\<lparr>b_approvals := [(''appr_1'', sample_pending)],
     b_store := sample_db\<lparr>t_approvals := [pn_approval sample_pending]\<rparr>\<rparr>"

definition sample_world :: world where
  "sample_world n = sample_slot\<lparr>sl_uuid := replicate n (CHR ''1'')\<rparr>"

definition sample_terse :: broker_env where
  "sample_terse = sample_env\<lparr>be_audit := (be_audit sample_env)\<lparr>ae_sha256 := (\<lambda>_. []), ae_hmac := (\<lambda>_ _. [])\<rparr>\<rparr>"

lemma terse_event:
  "create_audit_event (be_audit sample_terse) u n h 1 (replicate 32 9) ty at ai c t = Inr
     \<lparr>ev_sequence = n, ev_event_id = id_new ''evt'' u, ev_event_type = ty, ev_actor_type = at, ev_actor_id = ai,
      ev_event_json = ''{}'', ev_audit_key_version = 1, ev_previous_hash = h, ev_event_hash = [], ev_created_at = t\<rparr>"
  by (simp add: create_audit_event_def Let_def validate_audit_payload_def compute_event_hash_def sample_terse_def sample_env_def try_r_def)

text \<open>
  A rejection of the approval is not an error of the decision, so creating the grant goes on: here the page that
  was shown is gone and the digest is not the one that was shown, the decision is a denial with the code of an invalidated
  approval, and an active grant is stored all the same.
\<close>

theorem rejected_approval_still_grants:
  "case ui_create_grant sample_terse sample_world
       \<lparr>gcp_approval_id = ''appr_1'', gcp_context_digest = [2], gcp_ttl_days = 90, gcp_presence_verified = False\<rparr> sample_approving of
     (Inl _, _) \<Rightarrow> False
   | (Inr r, b) \<Rightarrow> arr_state (gcr_decision r) = ActionRequestState.Denied \<and> arr_result_code (gcr_decision r) = Some ''INVALIDATED''
       \<and> map ap_decision (t_approvals (b_store b)) = [''invalidated'']
       \<and> map (\<lambda>g. StandingGrant_is_active_at g 0) (t_standing_grants (b_store b)) = [True]"
proof -
  have outcome: "approval_outcome 0 True [2] False sample_pending sample_approving = ''invalidated''" by code_simp
  have pending: "map_of (b_approvals sample_approving) ''appr_1'' = Some sample_pending" by (simp add: sample_approving_def)
  have keys: "b_audit_key sample_approving = replicate 32 9" "b_audit_key_version sample_approving = 1"
    "b_next_sequence sample_approving = 1" "b_store sample_approving = sample_db\<lparr>t_approvals := [pn_approval sample_pending]\<rparr>"
    by (simp_all add: sample_approving_def sample_broker_def)
  have slots: "sl_now (sample_world n) = 0" "sl_io (sample_world n) m = None" "sl_uuid (sample_world n) = replicate n (CHR ''1'')" for n m
    by (simp_all add: sample_world_def sample_slot_def)
  have texts: "to_ascii_uppercase ''invalidated'' = ''INVALIDATED''" "replicate 6 (CHR ''1'') = ''111111''" by code_simp+
  note entry = sample_pending_def[THEN arg_cong[where f = pn_approval], simplified]
    sample_pending_def[THEN arg_cong[where f = pn_authorization], simplified]
  show ?thesis
    unfolding ui_create_grant_def decide_approval_def decide_approval_at_def insert_standing_grant_audited_def audited_def try_audited_def
    by (simp add: bindh_def map_errh_def guardh_def Let_def pending outcome keys slots entry terse_event later_def
      update_approval_with_audit_def atomically_def try_r_def changed_def pending_approval_def decide_rows_def update_rows_def
      insert_audit_event_tx_def insert_row_def event_conflict_def sample_db_def empty_db_def put_response_def stmt_def
      insert_standing_grant_with_audit_def approved_grant_def MAX_GRANTABLE_RISK_def MAX_GRANT_TTL_DAYS_def id_new_def
      StandingGrant_is_active_at_def seconds_def nanos_def texts decide_row_def)
qed

section \<open>Disabling an agent\<close>

definition same_agents :: "BrokerState \<Rightarrow> BrokerState \<Rightarrow> bool" where
  "same_agents b b' = (t_agents (b_store b') = t_agents (b_store b))"

interpretation enrollment: state_relation same_agents
  by unfold_locales (auto simp: same_agents_def)

lemma agents_record: "steps same_agents (record_audit_event E sl ty at ai ctx)"
proof (rule stepsI)
  fix b
  have "t_agents d' = t_agents d" if "insert_audit_event io e d = (r, d')" for io e d r d'
    using that by (auto simp: insert_audit_event_def insert_audit_event_tx_def atomically_def try_r_Inr_iff split: sum.splits if_splits)
  then show "same_agents b (snd (record_audit_event E sl ty at ai ctx b))"
    by (auto simp: record_audit_event_def audited_def try_audited_def bindh_def map_errh_def same_agents_def
        split: sum.splits prod.splits)
qed

lemma agents_revoke: "steps same_agents (on_store (revoke_standing_grants io sel reason now))"
proof (rule stepsI)
  fix b
  have each: "t_agents (snd (revoke_each io n reason now gs d)) = t_agents d" for n gs d
    by (induction gs arbitrary: n d) (auto split: option.split)
  have "t_agents (snd (revoke_standing_grants io sel reason now d)) = t_agents d" for d
    using each by (auto simp: revoke_standing_grants_def Let_def split: option.split prod.split sum.split) (metis snd_conv)+
  then show "same_agents b (snd (on_store (revoke_standing_grants io sel reason now) b))"
    by (simp add: same_agents_def on_store_def split: prod.split) (metis snd_conv)
qed

lemma agents_disable: "steps same_agents (ui_disable_agent E W a)"
proof -
  have 1: "steps same_agents (audit_revoked E V gs)" for V gs
    by (induction gs arbitrary: V) (auto intro!: steps_intros agents_record)
  have 2: "steps same_agents (modifyh (revoke_entries_where q reason))" for q reason
    by (simp add: steps_def same_agents_def revoke_entries_where_def)
  show ?thesis
    unfolding ui_disable_agent_def ui_revoke_grants_def agent_disabled_def
    by (intro steps_intros agents_record agents_revoke 1 2)
qed

text \<open>
  Disabling an agent does not change its enrollment: the agent is enrolled afterwards exactly when it was before,
  so it is admitted to the agent socket as before.
\<close>

theorem disabled_agent_stays_enrolled:
  "get_enrolled_agent (b_store (snd (ui_disable_agent E W a b))) i = get_enrolled_agent (b_store b) i"
  using agents_disable[of E W a] by (simp add: steps_def same_agents_def get_enrolled_agent_def)

section \<open>What no projection shows\<close>

text \<open>
  The parts of the state that stay inside: where a provider keeps a credential and what is stored with it, the
  keys and the recorded executable of an agent, capability tokens and their claims, OAuth state, the proofs of
  sessions, the keys of the daemon.  \<open>exchange k\<close> puts other values in their place.
\<close>

record internals =
  in_key :: bytes
  in_credential :: "CredentialDescriptor \<Rightarrow> string \<times> string"
  in_public_key :: "AgentPrincipal \<Rightarrow> bytes"
  in_executable :: "AgentPrincipal \<Rightarrow> u32 option \<times> string option \<times> bytes option"
  in_token :: "CapabilityEntry \<Rightarrow> string \<times> CapabilityClaims"
  in_proof :: "ActiveBrowserSession \<Rightarrow> bytes option"
  in_oauth :: "(CapabilityId \<times> PendingOAuthExecution) list"
  in_grants :: "OAuthGrant list"
  in_totp :: "TotpRow list"

definition exchange_credential :: "internals \<Rightarrow> CredentialDescriptor \<Rightarrow> CredentialDescriptor" where
  "exchange_credential k c = c\<lparr>cr_provider_locator := fst (in_credential k c), cr_metadata_json := snd (in_credential k c)\<rparr>"

definition exchange_agent :: "internals \<Rightarrow> AgentPrincipal \<Rightarrow> AgentPrincipal" where
  "exchange_agent k a = (case in_executable k a of (uid, path, hash) \<Rightarrow>
    a\<lparr>ag_public_key := in_public_key k a, ag_peer_uid := uid, ag_executable_path := path, ag_executable_hash := hash\<rparr>)"

definition exchange_entry :: "internals \<Rightarrow> CapabilityEntry \<Rightarrow> CapabilityEntry" where
  "exchange_entry k e = e\<lparr>ent_token := fst (in_token k e), ent_claims := snd (in_token k e),
     ent_provider_locator := [], ent_credential_metadata := []\<rparr>"

definition exchange_pending :: "internals \<Rightarrow> PendingApprovalEntry \<Rightarrow> PendingApprovalEntry" where
  "exchange_pending k p = p\<lparr>pn_authorization := (pn_authorization p)\<lparr>
     au_credential := exchange_credential k (au_credential (pn_authorization p))\<rparr>\<rparr>"

definition exchange_db :: "internals \<Rightarrow> db \<Rightarrow> db" where
  "exchange_db k d = d\<lparr>t_agents := map (exchange_agent k) (t_agents d), t_credentials := map (exchange_credential k) (t_credentials d),
     t_oauth_grants := in_grants k, t_totp_issuances := in_totp k\<rparr>"

definition exchange :: "internals \<Rightarrow> BrokerState \<Rightarrow> BrokerState" where
  "exchange k b = b\<lparr>b_broker_key := in_key k, b_store := exchange_db k (b_store b),
     b_sessions := map (\<lambda>(i, s). (i, s\<lparr>as_session_proof_hash := in_proof k s\<rparr>)) (b_sessions b),
     b_capabilities := map (\<lambda>(i, e). (i, exchange_entry k e)) (b_capabilities b),
     b_approvals := map (\<lambda>(i, p). (i, exchange_pending k p)) (b_approvals b), b_oauth_executions := in_oauth k\<rparr>"

lemma exchanged [simp]:
  "cr_credential_id (exchange_credential k c) = cr_credential_id c" "cr_name (exchange_credential k c) = cr_name c"
  "cr_kind (exchange_credential k c) = cr_kind c" "cr_provider (exchange_credential k c) = cr_provider c"
  "cr_allowed_actions (exchange_credential k c) = cr_allowed_actions c" "cr_disabled_at (exchange_credential k c) = cr_disabled_at c"
  "ag_agent_id (exchange_agent k a) = ag_agent_id a" "ag_role (exchange_agent k a) = ag_role a"
  "ag_display_name (exchange_agent k a) = ag_display_name a" "ag_state (exchange_agent k a) = ag_state a"
  "ag_created_at (exchange_agent k a) = ag_created_at a"
  "ent_capability (exchange_entry k e) = ent_capability e" "ent_recipe_id (exchange_entry k e) = ent_recipe_id e"
  "pn_approval (exchange_pending k p) = pn_approval p"
  by (simp_all add: exchange_credential_def exchange_agent_def exchange_entry_def exchange_pending_def split: prod.split)

lemma sort_key_map: "sort_key f (map g xs) = map g (sort_key (\<lambda>x. f (g x)) xs)"
proof (induction xs)
  case (Cons x xs)
  have "insort_key f (g x) (map g ys) = map g (insort_key (\<lambda>x. f (g x)) x ys)" for ys by (induction ys) auto
  then show ?case using Cons by simp
qed simp

lemma find_map: "find p (map g xs) = map_option g (find (\<lambda>x. p (g x)) xs)"
  by (induction xs) auto

lemma collect_r_map: "(\<And>x. f x = map_sum id g (h x)) \<Longrightarrow> collect_r f xs = map_sum id (map g) (collect_r h xs)"
  by (induction xs) (auto simp: try_r_def split: sum.split)

lemma exchanged_reads:
  "get_enrolled_agent (exchange_db k d) i = map_sum id (exchange_agent k) (get_enrolled_agent d i)"
  "list_agents (exchange_db k d) = map_sum id (map (exchange_agent k)) (list_agents d)"
  "list_credentials (exchange_db k d) = map_sum id (map (exchange_credential k)) (list_credentials d)"
  "list_audit_events (exchange_db k d) = list_audit_events d"
  "list_standing_grants (exchange_db k d) all = list_standing_grants d all"
proof -
  show 1: "get_enrolled_agent (exchange_db k d) i = map_sum id (exchange_agent k) (get_enrolled_agent d i)" for i
    by (simp add: get_enrolled_agent_def exchange_db_def find_map enrolled_def[abs_def] split: option.split)
  have "map ag_agent_id (sort_key ag_created_at (filter (\<lambda>a. ag_state a = ''enrolled'') (t_agents (exchange_db k d))))
      = map ag_agent_id (sort_key ag_created_at (filter (\<lambda>a. ag_state a = ''enrolled'') (t_agents d)))"
    by (simp add: exchange_db_def filter_map sort_key_map comp_def)
  then show "list_agents (exchange_db k d) = map_sum id (map (exchange_agent k)) (list_agents d)"
    unfolding list_agents_def using collect_r_map[OF 1] by simp
  have 2: "get_credential_by_name (exchange_db k d) n = map_sum id (exchange_credential k) (get_credential_by_name d n)" for n
    by (simp add: get_credential_by_name_def exchange_db_def find_map split: option.split)
  have "map cr_name (t_credentials (exchange_db k d)) = map cr_name (t_credentials d)"
    by (simp add: exchange_db_def)
  then show "list_credentials (exchange_db k d) = map_sum id (map (exchange_credential k)) (list_credentials d)"
    unfolding list_credentials_def using collect_r_map[OF 2] by simp
  show "list_audit_events (exchange_db k d) = list_audit_events d"
    "list_standing_grants (exchange_db k d) all = list_standing_grants d all"
    by (simp_all add: list_audit_events_def list_standing_grants_def exchange_db_def)
qed

lemma exchange_fields [simp]:
  "b_store (exchange k b) = exchange_db k (b_store b)" "b_executions (exchange k b) = b_executions b"
  "b_recipes (exchange k b) = b_recipes b" "b_page_contexts (exchange k b) = b_page_contexts b"
  "b_policy_evaluator (exchange k b) = b_policy_evaluator b"
  "b_audit_key_version (exchange k b) = b_audit_key_version b" "b_audit_key (exchange k b) = b_audit_key b"
  by (simp_all add: exchange_def)

lemma try_r_map_sum [simp]: "try_r (map_sum id g r) f = try_r r (\<lambda>x. f (g x))"
  by (cases r) (simp_all add: try_r_def)

lemma exchanged_rows [simp]:
  "audit_rows sl (exchange k b) = audit_rows sl b"
  "grant_rows sl all (exchange k b) = grant_rows sl all b"
  "agent_rows sl (exchange k b) = map_sum id (map (exchange_agent k)) (agent_rows sl b)"
  "credential_rows sl (exchange k b) = map_sum id (map (exchange_credential k)) (credential_rows sl b)"
  "verify_audit_integrity E sl (exchange k b) = verify_audit_integrity E sl b"
  by (auto simp: audit_rows_def grant_rows_def agent_rows_def credential_rows_def verify_audit_integrity_def stored_at_def
      exchanged_reads map_err_def split: sum.split)

lemma exchanged_maps [simp]:
  "map_of (b_capabilities (exchange k b)) i = map_option (exchange_entry k) (map_of (b_capabilities b) i)"
  "map_of (b_sessions (exchange k b)) j = map_option (\<lambda>s. s\<lparr>as_session_proof_hash := in_proof k s\<rparr>) (map_of (b_sessions b) j)"
  by (simp_all add: exchange_def map_of_map)

lemma exchanged_requests [simp]:
  "ui_pending_approvals E parse sl (exchange k b) = ui_pending_approvals E parse sl b"
proof -
  have "ui_request E history (exchange_pending k p) = ui_request E history p" for history p
    by (simp add: ui_request_def Let_def exchange_pending_def)
  moreover have "map snd (b_approvals (exchange k b)) = map (exchange_pending k) (map snd (b_approvals b))"
    by (simp add: exchange_def case_prod_unfold)
  then have "pending_entries now (exchange k b) = map (exchange_pending k) (pending_entries now b)" for now
    unfolding pending_entries_def by (simp add: filter_map sort_key_map comp_def)
  ultimately show ?thesis
    by (simp add: ui_pending_approvals_def agents_with_prior_authorization_def comp_def)
qed

lemma exchanged_operation [simp]: "ui_active_operation W (exchange k b) = ui_active_operation W b"
proof -
  have "protection_verified now i (exchange k b) = protection_verified now i b" for now i
    by (simp add: protection_verified_def is_some_and_def split: option.split)
  moreover have "operation_agent_name sl i (exchange k b) = operation_agent_name sl i b"
    "operation_credential_name sl i (exchange k b) = operation_credential_name sl i b" for sl i
    by (auto simp: operation_agent_name_def operation_credential_name_def exchanged_reads find_map split: sum.split option.split)
  ultimately show ?thesis by (simp add: ui_active_operation_def bind_map_option comp_def Let_def cong: Option.bind_cong)
qed

lemma exchanged_protection [simp]: "ui_protection_state sl ps op now (exchange k b) = ui_protection_state sl ps op now b"
proof -
  have "interrupted now (exchange k b) = interrupted now b"
    by (simp add: interrupted_def exchange_def list_ex_iff case_prod_unfold Let_def)
  moreover have "most_recent_terminal_outcome sl now (exchange k b) = most_recent_terminal_outcome sl now b"
    by (simp add: most_recent_terminal_outcome_def recently_in_def)
  ultimately show ?thesis by (simp add: ui_protection_state_def cong: option.case_cong)
qed

text \<open>
  C35.  No projection for the desktop depends on the parts of the state that stay inside: putting any other locators,
  metadata, keys, tokens, claims, OAuth state or proofs in their place leaves every answer of the administrator's
  views as it is.
\<close>

theorem ui_hides_internals:
  "ui_status E parse W (exchange k b) = ui_status E parse W b
   \<and> ui_pending_approvals E parse sl (exchange k b) = ui_pending_approvals E parse sl b
   \<and> ui_pending_approval E parse sl i (exchange k b) = ui_pending_approval E parse sl i b
   \<and> ui_activity parse W limit (exchange k b) = ui_activity parse W limit b
   \<and> ui_agents W (exchange k b) = ui_agents W b
   \<and> ui_credentials W (exchange k b) = ui_credentials W b
   \<and> ui_browser_sessions (exchange k b) = ui_browser_sessions b
   \<and> ui_grants sl all (exchange k b) = ui_grants sl all b"
proof -
  have agents: "ui_agent now gs es (exchange_agent k a) = ui_agent now gs es a" for now gs es a
    by (simp add: ui_agent_def Let_def)
  have credentials: "ui_credential now gs (exchange_credential k c) = ui_credential now gs c" for now gs c
    by (simp add: ui_credential_def Let_def)
  have sessions: "ui_browser_sessions (exchange k b) = ui_browser_sessions b"
    by (simp add: ui_browser_sessions_def ui_browser_session_def exchange_def Let_def case_prod_unfold comp_def)
  have names: "agent_display_names sl' (exchange k b) = agent_display_names sl' b" for sl'
    by (simp add: agent_display_names_def fold_map comp_def split: sum.split)
  have connected: "length (filter (\<lambda>(_, active). bs_state (as_session active) = BrowserSessionState.Active) (b_sessions (exchange k b)))
      = length (filter (\<lambda>(_, active). bs_state (as_session active) = BrowserSessionState.Active) (b_sessions b))"
    by (simp add: exchange_def filter_map comp_def case_prod_unfold)
  have status: "ui_status E parse W (exchange k b) = ui_status E parse W b"
    unfolding ui_status_def Let_def connected
    by (simp add: recent_actor_ids_def ui_policy_fingerprint_def filter_map comp_def)
  show ?thesis using sessions status
    by (simp add: ui_pending_approval_def ui_activity_def names ui_agents_def agents ui_credentials_def credentials ui_grants_def comp_def)
qed

end
