(* ===== verification/Server.thy ===== *)
theory Server
  imports Broker_Pages Broker_Ui
begin

text \<open>
  The three sockets of the daemon (\<open>secretctld/src/server.rs\<close>).  A connection is served one frame at a
  time: a turn takes the connection's local variables and the shared state, and gives the frame to send
  and the variables after it, or the end of the connection.  What the daemon takes from outside during a
  turn is in \<open>turn\<close>: clocks, fresh identifiers and keys, the states that other connections leave while this
  one waits, and the outcomes of starting and stopping a browser.  The readers of parameters and the
  writer of responses, which serde derives from the structures, are the fields of \<open>wire_env\<close>.
\<close>

section \<open>Structures\<close>

record SessionHelloResult =
  hr_protocol_version :: string
  hr_server_nonce :: string
  hr_ephemeral_public_key :: string
  hr_server_key_id :: string
  hr_signature :: string

record SessionAuthenticateParams =
  sap_client_ephemeral_public_key :: string
  sap_signature :: string

record SessionAuthenticateResult =
  sar_authenticated :: bool
  sar_rekey_after_seconds :: u64

record SessionInfoResult =
  si_protocol_version :: string
  si_principal_id :: string
  si_role :: string
  si_rekey_after_seconds :: u64

record ActionSubscribeParams =
  sub_request_id :: RequestId
  sub_after_state :: "ActionRequestState option"
  sub_after_detail :: "string option"
  sub_timeout_ms :: u64

record ApprovalDecideParams =
  adp_approval_id :: ApprovalId
  adp_decision :: string
  adp_context_digest :: bytes
  adp_presence_verified :: bool

record GrantRevokeParams =
  grp_selector :: string
  grp_reason :: string

record CapabilityRevokeParams =
  crp_capability_id :: CapabilityId
  crp_reason :: string

record PolicyReloadParams =
  plr_policy_yaml :: string
  plr_expected_hash :: string

record ExecutorHeartbeatParams =
  ehp_browser_session_id :: BrowserSessionId
  ehp_active_tab_count :: u32
  ehp_timestamp :: string

text \<open>The results of all methods.\<close>

datatype reply =
    HelloReply SessionHelloResult
  | AuthenticatedReply SessionAuthenticateResult
  | InfoReply SessionInfoResult
  | ActionReply ActionResponseResult
  | AuthenticateReply ActionAuthenticateResult
  | StatusReply ActionStatusResult
  | CancelReply ActionCancelResult
  | JsonReply json
  | RegisterReply BrowserRegisterResult
  | OfferReply "ExecutionOfferResult option"
  | PrepareReply ExecutorPrepareResult
  | ConsumeReply ExecutorConsumeResult
  | CallbackReply OAuthCallbackResult
  | AcknowledgedReply bool
  | LaunchReply BrowserLaunchResult
  | ApprovalsReply "Approval list"
  | CapabilitiesReply "CapabilitySummary list"
  | UiStatusReply UiStatus
  | UiPendingReply "UiAuthorizationRequest list"
  | UiPendingOneReply UiAuthorizationRequest
  | UiActivityReply "UiActivityEvent list"
  | UiAgentsReply "UiAgent list"
  | UiCredentialsReply "UiCredential list"
  | UiSessionsReply "UiBrowserSession list"
  | UiGrantsReply "UiGrant list"
  | GrantCreateReply GrantCreateResult
  | GrantRevokeReply GrantRevokeResult

record wire_env =
  wv_request :: "bytes \<Rightarrow> string + json RpcRequest"
  wv_response :: "reply RpcResponse \<Rightarrow> string + bytes"
  wv_hello :: "json \<Rightarrow> string + SessionHelloParams"
  wv_authenticate :: "json \<Rightarrow> string + SessionAuthenticateParams"
  wv_action_request :: "json \<Rightarrow> string + ActionRequestParams"
  wv_action_authenticate :: "json \<Rightarrow> string + ActionAuthenticateParams"
  wv_action_status :: "json \<Rightarrow> string + RequestId"
  wv_subscribe :: "json \<Rightarrow> string + ActionSubscribeParams"
  wv_cancel :: "json \<Rightarrow> string + ActionCancelParams"
  wv_session :: "json \<Rightarrow> string + BrowserSessionId"
  wv_open_tab :: "json \<Rightarrow> string + BrowserOpenTabParams"
  wv_tab :: "json \<Rightarrow> string + BrowserTabParams"
  wv_navigate :: "json \<Rightarrow> string + BrowserNavigateParams"
  wv_locator :: "json \<Rightarrow> string + PageLocatorParams"
  wv_type_public :: "json \<Rightarrow> string + PageTypePublicParams"
  wv_select :: "json \<Rightarrow> string + PageSelectParams"
  wv_read_text :: "json \<Rightarrow> string + PageReadTextParams"
  wv_snapshot :: "json \<Rightarrow> string + PageSnapshotParams"
  wv_wait_for :: "json \<Rightarrow> string + PageWaitForParams"
  wv_register :: "json \<Rightarrow> string + BrowserRegisterParams"
  wv_next :: "json \<Rightarrow> string + BrowserSessionId"
  wv_prepare :: "json \<Rightarrow> string + ExecutorContextPayload"
  wv_consume :: "json \<Rightarrow> string + ExecutorConsumeParams"
  wv_callback :: "json \<Rightarrow> string + OAuthCallbackParams"
  wv_result :: "json \<Rightarrow> string + ExecutorResultParams"
  wv_heartbeat :: "json \<Rightarrow> string + ExecutorHeartbeatParams"
  wv_launch :: "json \<Rightarrow> string + unit"
  wv_instance :: "json \<Rightarrow> string + BrowserInstanceId"
  wv_decide :: "json \<Rightarrow> string + ApprovalDecideParams"
  wv_capability_list :: "json \<Rightarrow> string + string option"
  wv_capability_revoke :: "json \<Rightarrow> string + CapabilityRevokeParams"
  wv_lookup :: "json \<Rightarrow> string + ApprovalId"
  wv_activity :: "json \<Rightarrow> string + u32"
  wv_grant_list :: "json \<Rightarrow> string + bool"
  wv_grant_create :: "json \<Rightarrow> string + GrantCreateParams"
  wv_grant_revoke :: "json \<Rightarrow> string + GrantRevokeParams"
  wv_disable :: "json \<Rightarrow> string + string"
  wv_policy_reload :: "json \<Rightarrow> string + PolicyReloadParams"
  wv_from_yaml :: "string \<Rightarrow> string + PolicyDocument"
  wv_policy_vec :: "PolicyDocument \<Rightarrow> bytes"

record server_env =
  sv_broker :: broker_env
  sv_page :: page_env
  sv_wire :: wire_env
  sv_aead :: aead
  sv_hkdf :: "bytes \<Rightarrow> bytes \<Rightarrow> bytes \<Rightarrow> bytes"
  sv_x25519_public :: "bytes \<Rightarrow> bytes"
  sv_diffie_hellman :: "bytes \<Rightarrow> bytes \<Rightarrow> bytes"
  sv_context :: "string \<Rightarrow> AuditContext option"

abbreviation sv_sha256 :: "server_env \<Rightarrow> bytes \<Rightarrow> bytes" where
  "sv_sha256 E \<equiv> ce_sha256 (be_cap (sv_broker E))"

abbreviation sv_ed :: "server_env \<Rightarrow> ed25519" where
  "sv_ed E \<equiv> ce_ed (be_cap (sv_broker E))"

abbreviation sv_b64 :: "server_env \<Rightarrow> base64" where
  "sv_b64 E \<equiv> ce_b64 (be_cap (sv_broker E))"

text \<open>The peer of a socket: its credentials, and what looking up and reading its executable gives.\<close>

record peer =
  pr_uid :: u32
  pr_pid :: "int option"
  pr_executable :: "string + string"
  pr_image :: "string \<Rightarrow> string + bytes"

record turn =
  tn_world :: world
  tn_now :: int
  tn_uuid :: string
  tn_ephemeral :: bytes
  tn_states :: "nat \<Rightarrow> BrokerState"
  tn_start :: int
  tn_clock :: "nat \<Rightarrow> int"
  tn_launched :: "unit + BrowserInstanceId"
  tn_pipe :: "CdpPipe option"
  tn_shutdown :: "unit + unit"
  tn_diagnostics :: "string list"

record server_state =
  ss_broker :: BrokerState
  ss_pipes :: "(BrowserInstanceId \<times> CdpPipe) list"

datatype disconnect = Disconnect string | StillWaiting

type_synonym 'a turn_handler = "(server_state, disconnect, 'a) handler"

definition required :: "string + 'a \<Rightarrow> 'a turn_handler" where
  "required r = lifth (map_err Disconnect r)"

definition ensured :: "bool \<Rightarrow> string \<Rightarrow> unit turn_handler" where
  "ensured c message = guardh c (Disconnect message)"

definition on_broker :: "'a broker_handler \<Rightarrow> (failure + 'a) turn_handler" where
  "on_broker m s = (let (r, b) = m (ss_broker s) in (Inr r, s\<lparr>ss_broker := b\<rparr>))"

definition from_broker :: "(BrokerState \<Rightarrow> 'a) \<Rightarrow> 'a turn_handler" where
  "from_broker f = readh (\<lambda>s. f (ss_broker s))"

text \<open>\<open>match ... { Ok(res) => success, Err(err) => error }\<close>; a panic ends the connection.\<close>

definition answered :: "RpcId \<Rightarrow> ('a \<Rightarrow> reply) \<Rightarrow> failure + 'a \<Rightarrow> reply RpcResponse turn_handler" where
  "answered i f r =
    (case r of Inr x \<Rightarrow> returnh (RpcResponse_success i (f x))
     | Inl (Rpc e) \<Rightarrow> returnh (RpcResponse_error i e)
     | Inl Panic \<Rightarrow> failh (Disconnect ''panic''))"

definition refused :: "RpcId \<Rightarrow> RpcErrorCode \<Rightarrow> string \<Rightarrow> reply RpcResponse turn_handler" where
  "refused i code message = returnh (RpcResponse_error i (RpcError_new code message))"

definition method_not_found :: "RpcId \<Rightarrow> reply RpcResponse turn_handler" where
  "method_not_found i = refused i METHOD_NOT_FOUND ''Method not found''"

section \<open>The peer's identity\<close>

text \<open>Equality of paths compares their components.\<close>

fun path_split :: "string \<Rightarrow> string list" where
  "path_split [] = [[]]"
| "path_split (c # s) =
    (if c = CHR ''/'' then [] # path_split s
     else case path_split s of p # ps \<Rightarrow> (c # p) # ps | [] \<Rightarrow> [[c]])"

definition path_components :: "string \<Rightarrow> bool \<times> bool \<times> string list" where
  "path_components s =
    (let rooted = starts_with s ''/''; parts = filter (\<lambda>p. p \<noteq> []) (path_split s) in
     (rooted, \<not> rooted \<and> parts \<noteq> [] \<and> hd parts = ''.'', filter (\<lambda>p. p \<noteq> ''.'') parts))"

definition path_eq :: "string \<Rightarrow> string \<Rightarrow> bool" where
  "path_eq p q = (path_components p = path_components q)"

definition verify_peer_identity :: "server_env \<Rightarrow> AgentPrincipal \<Rightarrow> peer \<Rightarrow> string + bool" where
  "verify_peer_identity E agent P =
    (if is_some_and (ag_peer_uid agent) (\<lambda>uid. uid \<noteq> pr_uid P) then Inr False
     else case ag_executable_hash agent of
       None \<Rightarrow> Inr True
     | Some expected_hash \<Rightarrow>
       if pr_pid P = None then Inr False
       else try_r (pr_executable P) (\<lambda>executable_path.
         if is_some_and (ag_executable_path agent) (\<lambda>path. \<not> path_eq path executable_path) then Inr False
         else try_r (pr_image P executable_path) (\<lambda>image. Inr (sv_sha256 E image = expected_hash))))"

section \<open>The handshake\<close>

definition SUITE :: string where
  "SUITE = ''X25519-HKDF-SHA256-CHACHA20POLY1305''"

definition hello_transcript :: "server_env \<Rightarrow> SessionHelloParams \<Rightarrow> string \<Rightarrow> bytes \<Rightarrow> bytes" where
  "hello_transcript E hello server_nonce server_public =
    compute_context_digest (sv_sha256 E)
      [as_bytes ''secretctl-session-hello-v1'', as_bytes (sh_client_nonce hello), as_bytes server_nonce,
       as_bytes (sh_principal_id hello), server_public]"

definition hello_result :: "server_env \<Rightarrow> turn \<Rightarrow> SessionHelloParams \<Rightarrow> BrokerState \<Rightarrow> SessionHelloResult" where
  "hello_result E T hello b =
    (let server_public = sv_x25519_public E (tn_ephemeral T) in
     \<lparr>hr_protocol_version = ''1.0'', hr_server_nonce = tn_uuid T,
      hr_ephemeral_public_key = b64_encode (sv_b64 E) server_public, hr_server_key_id = b_key_id b,
      hr_signature = b64_encode (sv_b64 E) (ed_sign (sv_ed E) (b_broker_key b)
        (hello_transcript E hello (tn_uuid T) server_public))\<rparr>)"

text \<open>The check of the client's signature; the result is the client's ephemeral key.\<close>

definition check_authentication ::
    "server_env \<Rightarrow> bytes \<Rightarrow> SessionHelloParams \<Rightarrow> string \<Rightarrow> bytes \<Rightarrow> SessionAuthenticateParams \<Rightarrow> string + bytes" where
  "check_authentication E public_key hello server_nonce server_ephemeral params =
    try_r (b64_decode (sv_b64 E) (sap_client_ephemeral_public_key params)) (\<lambda>client_public.
    if length client_public \<noteq> 32 then Inl ''invalid ephemeral key''
    else try_r (b64_decode (sv_b64 E) (sap_signature params)) (\<lambda>signature.
      try_r (map_err (\<lambda>_. ''signature rejected'')
        (verify_signature (sv_ed E) public_key
          (session_auth_transcript (sv_sha256 E) hello server_nonce (sv_x25519_public E server_ephemeral) client_public)
          signature)) (\<lambda>_. Inr client_public)))"

definition session_channel :: "server_env \<Rightarrow> string \<Rightarrow> bytes \<Rightarrow> bytes \<Rightarrow> string \<Rightarrow> SecureChannel" where
  "session_channel E server_nonce server_ephemeral client_public label =
    new_server (sv_hkdf E) (sv_diffie_hellman E server_ephemeral client_public) (as_bytes server_nonce) (as_bytes label)"

definition rekey_result :: SessionAuthenticateResult where
  "rekey_result = \<lparr>sar_authenticated = True, sar_rekey_after_seconds = 600\<rparr>"

definition elapsed_seconds :: "int \<Rightarrow> int \<Rightarrow> int" where
  "elapsed_seconds now since = (now - since) div nanos"

section \<open>The agent socket\<close>

record AgentConn =
  cn_agent :: "AgentId option"
  cn_pending :: "(SessionHelloParams \<times> AgentPrincipal \<times> string \<times> bytes) option"
  cn_channel :: "SecureChannel option"
  cn_authenticated_at :: "int option"

definition AgentConn_new :: AgentConn where
  "AgentConn_new = \<lparr>cn_agent = None, cn_pending = None, cn_channel = None, cn_authenticated_at = None\<rparr>"

text \<open>The answer of a method: the connection after it, a channel to activate, and whether it is sent in the clear.\<close>

record agent_answer =
  an_response :: "reply RpcResponse"
  an_conn :: AgentConn
  an_activate :: "SecureChannel option"
  an_plain :: bool

definition answering :: "AgentConn \<Rightarrow> reply RpcResponse turn_handler \<Rightarrow> agent_answer turn_handler" where
  "answering c m = bindh m (\<lambda>r. returnh \<lparr>an_response = r, an_conn = c, an_activate = None, an_plain = False\<rparr>)"

definition agent_hello ::
    "server_env \<Rightarrow> peer \<Rightarrow> turn \<Rightarrow> AgentConn \<Rightarrow> RpcId \<Rightarrow> json \<Rightarrow> agent_answer turn_handler" where
  "agent_hello E P T c i params =
    (if cn_channel c \<noteq> None \<or> cn_pending c \<noteq> None
     then answering c (refused i SECURITY_VIOLATION ''Handshake already started'')
     else
       bindh (required (wv_hello (sv_wire E) params)) (\<lambda>hello.
       bindh (from_broker (\<lambda>b. if sl_io (tn_world T 0) 0 \<noteq> None then None
                else case get_enrolled_agent (b_store b) (sh_principal_id hello) of Inl _ \<Rightarrow> None | Inr a \<Rightarrow> Some a)) (\<lambda>enrolled.
       case enrolled of
         None \<Rightarrow> answering c (refused i SECURITY_VIOLATION ''Agent enrollment rejected'')
       | Some agent \<Rightarrow>
         if sh_protocol_version hello \<noteq> ''1.0'' \<or> sh_role hello \<noteq> ''agent'' \<or> \<not> List.member (sh_supported_suites hello) SUITE
            \<or> ag_role agent \<noteq> ''agent''
         then answering c (refused i SECURITY_VIOLATION ''Agent enrollment rejected'')
         else
           bindh (required (verify_peer_identity E agent P)) (\<lambda>same.
           bindh (ensured same ''agent OS peer identity changed'') (\<lambda>_.
           answering (c\<lparr>cn_pending := Some (hello, agent, tn_uuid T, tn_ephemeral T)\<rparr>)
             (from_broker (\<lambda>b. RpcResponse_success i (HelloReply (hello_result E T hello b)))))))))"

definition agent_authenticate ::
    "server_env \<Rightarrow> turn \<Rightarrow> AgentConn \<Rightarrow> RpcId \<Rightarrow> json \<Rightarrow> agent_answer turn_handler" where
  "agent_authenticate E T c i params =
    bindh (required (wv_authenticate (sv_wire E) params)) (\<lambda>auth.
    case cn_pending c of
      None \<Rightarrow> returnh \<lparr>an_response = RpcResponse_error i (RpcError_new SECURITY_VIOLATION ''session.hello required''),
                       an_conn = c, an_activate = None, an_plain = True\<rparr>
    | Some (hello, agent, server_nonce, server_ephemeral) \<Rightarrow>
      bindh (required (check_authentication E (ag_public_key agent) hello server_nonce server_ephemeral auth)) (\<lambda>client_public.
      returnh \<lparr>an_response = RpcResponse_success i (AuthenticatedReply rekey_result),
               an_conn = c\<lparr>cn_pending := None, cn_agent := Some (ag_agent_id agent)\<rparr>,
               an_activate = Some (session_channel E server_nonce server_ephemeral client_public ''secretctl-agent-session-v1''),
               an_plain = False\<rparr>))"

text \<open>
  The loops that wait for a request to end or to change.  Round \<open>k\<close> sees the daemon in state \<open>bs k\<close> and the
  clock at \<open>clock k\<close> milliseconds; \<open>None\<close> says that the loop is still waiting after the rounds it was given.
\<close>

fun await_request ::
    "nat \<Rightarrow> RequestId \<Rightarrow> int \<Rightarrow> (nat \<Rightarrow> BrokerState) \<Rightarrow> (nat \<Rightarrow> int) \<Rightarrow> ActionResponseResult \<Rightarrow> ActionResponseResult option" where
  "await_request 0 i deadline bs clock result = None"
| "await_request (Suc n) i deadline bs clock result =
    (let current = map_of (b_requests (bs 0)) i; result' = unwrap_or current result in
     if current \<noteq> None \<and> ActionRequestState_is_terminal (arr_state result') then Some result'
     else if clock 0 \<ge> deadline then Some result'
     else await_request n i deadline (\<lambda>k. bs (Suc k)) (\<lambda>k. clock (Suc k)) result')"

definition wait_rounds :: "u64 \<Rightarrow> nat" where
  "wait_rounds timeout_ms = unat timeout_ms div 25 + 2"

definition awaited ::
    "turn \<Rightarrow> bool \<Rightarrow> RequestId \<Rightarrow> u64 \<Rightarrow> ActionResponseResult \<Rightarrow> ActionResponseResult turn_handler" where
  "awaited T should_wait i timeout_ms result =
    (if should_wait \<and> \<not> ActionRequestState_is_terminal (arr_state result)
     then lifth (ok_or StillWaiting
            (await_request (wait_rounds timeout_ms) i (tn_start T + uint timeout_ms) (tn_states T) (tn_clock T) result))
     else returnh result)"

fun subscribe_loop ::
    "nat \<Rightarrow> AgentId \<Rightarrow> ActionSubscribeParams \<Rightarrow> int \<Rightarrow> (nat \<Rightarrow> BrokerState) \<Rightarrow> (nat \<Rightarrow> int)
     \<Rightarrow> (failure + ActionStatusResult) option" where
  "subscribe_loop 0 agent_id params deadline bs clock = None"
| "subscribe_loop (Suc n) agent_id params deadline bs clock =
    (case handle_action_status agent_id (sub_request_id params) (bs 0) of
       Inl e \<Rightarrow> Some (Inl e)
     | Inr status \<Rightarrow>
       if sub_after_state params \<noteq> Some (asr_state status) \<or> sub_after_detail params \<noteq> asr_detail status
          \<or> ActionRequestState_is_terminal (asr_state status) \<or> clock 0 \<ge> deadline
       then Some (Inr status)
       else subscribe_loop n agent_id params deadline (\<lambda>k. bs (Suc k)) (\<lambda>k. clock (Suc k)))"

definition min64 :: "u64 \<Rightarrow> u64 \<Rightarrow> u64" where
  "min64 a b = (if a \<le> b then a else b)"

definition action_request :: "server_env \<Rightarrow> turn \<Rightarrow> AgentId \<Rightarrow> RpcId \<Rightarrow> json \<Rightarrow> reply RpcResponse turn_handler" where
  "action_request E T agent_id i params =
    bindh (required (wv_action_request (sv_wire E) params)) (\<lambda>ps.
    bindh (on_broker (handle_action_request (sv_broker E) (tn_world T) agent_id ps)) (\<lambda>r.
    case r of
      Inr result \<Rightarrow> bindh (awaited T (arp_wait ps) (arp_request_id ps) (arp_timeout_ms ps) result) (\<lambda>final.
                    answered i ActionReply (Inr final))
    | Inl e \<Rightarrow> answered i ActionReply (Inl e)))"

definition action_authenticate :: "server_env \<Rightarrow> turn \<Rightarrow> AgentId \<Rightarrow> RpcId \<Rightarrow> json \<Rightarrow> reply RpcResponse turn_handler" where
  "action_authenticate E T agent_id i params =
    bindh (required (wv_action_authenticate (sv_wire E) params)) (\<lambda>ps.
    bindh (on_broker (handle_action_authenticate (sv_broker E) (tn_world T) agent_id ps)) (\<lambda>r.
    case r of
      Inr result \<Rightarrow>
        bindh (awaited T (aap_wait ps) (arr_request_id (aar_response result)) (min64 (aap_timeout_ms ps) 60000)
                 (aar_response result)) (\<lambda>final.
        answered i AuthenticateReply (Inr (result\<lparr>aar_response := final\<rparr>)))
    | Inl e \<Rightarrow> answered i AuthenticateReply (Inl e)))"

definition session_info :: "turn \<Rightarrow> AgentConn \<Rightarrow> AgentId \<Rightarrow> SessionInfoResult" where
  "session_info T c agent_id =
    \<lparr>si_protocol_version = ''1.0'', si_principal_id = agent_id, si_role = ''agent'',
     si_rekey_after_seconds = (case cn_authenticated_at c of None \<Rightarrow> 0
       | Some since \<Rightarrow> of_int (max 0 (600 - elapsed_seconds (tn_now T) since)))\<rparr>"

definition action_subscribe :: "server_env \<Rightarrow> turn \<Rightarrow> AgentId \<Rightarrow> RpcId \<Rightarrow> json \<Rightarrow> reply RpcResponse turn_handler" where
  "action_subscribe E T agent_id i params =
    bindh (required (wv_subscribe (sv_wire E) params)) (\<lambda>ps.
    let timeout_ms = min64 (sub_timeout_ms ps) 30000 in
    bindh (lifth (ok_or StillWaiting
             (subscribe_loop (wait_rounds timeout_ms) agent_id ps (tn_start T + uint timeout_ms) (tn_states T) (tn_clock T)))) (\<lambda>r.
    answered i StatusReply r))"

subsection \<open>Requests about pages\<close>

datatype page_method =
    TabsMethod | OpenTabMethod | CloseTabMethod | NavigateMethod | ReloadMethod | BackMethod | ForwardMethod
  | ReadTextMethod | SnapshotMethod | ClickMethod | TypePublicMethod | SelectMethod | WaitForMethod

text \<open>A handler of the pipe of a session's browser; without a pipe the handler fails before it uses one.\<close>

definition session_instance :: "BrowserSessionId \<Rightarrow> BrokerState \<Rightarrow> BrowserInstanceId option" where
  "session_instance session_id b =
    map_option (\<lambda>active. bs_instance_id (as_session active)) (map_of (b_sessions b) session_id)"

definition on_pipe ::
    "BrowserSessionId \<Rightarrow> ((BrowserInstanceId \<Rightarrow> bool) \<Rightarrow> BrokerState \<Rightarrow> 'a page_handler) \<Rightarrow> (failure + 'a) turn_handler" where
  "on_pipe session_id m s =
    (let run = m (\<lambda>i. map_of (ss_pipes s) i \<noteq> None) (ss_broker s) in
     case Option.bind (session_instance session_id (ss_broker s)) (\<lambda>i. map_option (\<lambda>p. (i, p)) (map_of (ss_pipes s) i)) of
       None \<Rightarrow> (Inr (fst (run (CdpPipe_new []))), s)
     | Some (i, p) \<Rightarrow> (let (r, p') = run p in (Inr r, s\<lparr>ss_pipes := AList.update i p' (ss_pipes s)\<rparr>)))"

definition paged ::
    "string + 'p \<Rightarrow> ('p \<Rightarrow> BrowserSessionId) \<Rightarrow> ((BrowserInstanceId \<Rightarrow> bool) \<Rightarrow> BrokerState \<Rightarrow> 'p \<Rightarrow> json page_handler)
     \<Rightarrow> RpcId \<Rightarrow> reply RpcResponse turn_handler" where
  "paged params session_of m i =
    bindh (required params) (\<lambda>ps.
    bindh (on_pipe (session_of ps) (\<lambda>has_pipe b. m has_pipe b ps)) (answered i JsonReply))"

definition page_wait :: "server_env \<Rightarrow> turn \<Rightarrow> RpcId \<Rightarrow> json \<Rightarrow> reply RpcResponse turn_handler" where
  "page_wait E T i params =
    bindh (required (wv_wait_for (sv_wire E) params)) (\<lambda>ps.
    bindh (on_pipe (pwp_session_id ps) (\<lambda>has_pipe b.
             handle_page_wait_for (sv_page E) has_pipe (tn_states T) (tn_start T) (tn_clock T) ps)) (\<lambda>r.
    case r of Inr None \<Rightarrow> failh StillWaiting
    | Inr (Some v) \<Rightarrow> answered i JsonReply (Inr v)
    | Inl e \<Rightarrow> answered i JsonReply (Inl e)))"

fun page_serve :: "server_env \<Rightarrow> turn \<Rightarrow> page_method \<Rightarrow> RpcId \<Rightarrow> json \<Rightarrow> reply RpcResponse turn_handler" where
  "page_serve E T TabsMethod i v = paged (wv_session (sv_wire E) v) id (handle_browser_tabs (sv_page E)) i"
| "page_serve E T OpenTabMethod i v = paged (wv_open_tab (sv_wire E) v) bop_session_id (handle_browser_open_tab (sv_page E)) i"
| "page_serve E T CloseTabMethod i v = paged (wv_tab (sv_wire E) v) btp_session_id (handle_browser_close_tab (sv_page E)) i"
| "page_serve E T NavigateMethod i v = paged (wv_navigate (sv_wire E) v) bnp_session_id (handle_browser_navigate (sv_page E)) i"
| "page_serve E T ReloadMethod i v = paged (wv_tab (sv_wire E) v) btp_session_id (handle_browser_reload (sv_page E)) i"
| "page_serve E T BackMethod i v = paged (wv_tab (sv_wire E) v) btp_session_id (handle_browser_back (sv_page E)) i"
| "page_serve E T ForwardMethod i v = paged (wv_tab (sv_wire E) v) btp_session_id (handle_browser_forward (sv_page E)) i"
| "page_serve E T ReadTextMethod i v = paged (wv_read_text (sv_wire E) v) prp_session_id (handle_page_read_text (sv_page E)) i"
| "page_serve E T SnapshotMethod i v = paged (wv_snapshot (sv_wire E) v) pss_session_id (handle_page_snapshot_safe (sv_page E)) i"
| "page_serve E T ClickMethod i v = paged (wv_locator (sv_wire E) v) plp_session_id (handle_page_click (sv_page E)) i"
| "page_serve E T TypePublicMethod i v = paged (wv_type_public (sv_wire E) v) ptp_session_id (handle_page_type_public (sv_page E)) i"
| "page_serve E T SelectMethod i v = paged (wv_select (sv_wire E) v) psp_session_id (handle_page_select (sv_page E)) i"
| "page_serve E T WaitForMethod i v = page_wait E T i v"

subsection \<open>Dispatch\<close>

datatype agent_method =
    HelloMethod | AuthenticateMethod | ActionRequestMethod | ActionAuthenticateMethod | InfoMethod | StatusMethod
  | SubscribeMethod | CancelMethod | PageMethod page_method

definition AGENT_METHODS :: "(string \<times> agent_method) list" where
  "AGENT_METHODS =
    [(''session.hello'', HelloMethod), (''session.authenticate'', AuthenticateMethod), (''action.request'', ActionRequestMethod),
     (''action.authenticate'', ActionAuthenticateMethod), (''session.info'', InfoMethod), (''action.status'', StatusMethod),
     (''action.subscribe'', SubscribeMethod), (''action.cancel'', CancelMethod), (''browser.tabs'', PageMethod TabsMethod),
     (''browser.open_tab'', PageMethod OpenTabMethod), (''browser.close_tab'', PageMethod CloseTabMethod),
     (''browser.navigate'', PageMethod NavigateMethod), (''browser.reload'', PageMethod ReloadMethod),
     (''page.click'', PageMethod ClickMethod), (''page.type_public'', PageMethod TypePublicMethod),
     (''page.select'', PageMethod SelectMethod), (''page.read_text'', PageMethod ReadTextMethod),
     (''page.snapshot_safe'', PageMethod SnapshotMethod), (''page.wait_for'', PageMethod WaitForMethod),
     (''browser.back'', PageMethod BackMethod), (''browser.forward'', PageMethod ForwardMethod)]"

fun agent_serve :: "server_env \<Rightarrow> turn \<Rightarrow> AgentConn \<Rightarrow> agent_method \<Rightarrow> AgentId \<Rightarrow> RpcId \<Rightarrow> json \<Rightarrow> reply RpcResponse turn_handler" where
  "agent_serve E T c ActionRequestMethod a i v = action_request E T a i v"
| "agent_serve E T c ActionAuthenticateMethod a i v = action_authenticate E T a i v"
| "agent_serve E T c InfoMethod a i v = answered i InfoReply (Inr (session_info T c a))"
| "agent_serve E T c StatusMethod a i v =
    bindh (required (wv_action_status (sv_wire E) v)) (\<lambda>request_id.
    bindh (from_broker (handle_action_status a request_id)) (answered i StatusReply))"
| "agent_serve E T c SubscribeMethod a i v = action_subscribe E T a i v"
| "agent_serve E T c CancelMethod a i v =
    bindh (required (wv_cancel (sv_wire E) v)) (\<lambda>ps.
    bindh (on_broker (handle_action_cancel a ps)) (answered i CancelReply))"
| "agent_serve E T c (PageMethod p) a i v = page_serve E T p i v"
| "agent_serve E T c _ a i v = method_not_found i"

text \<open>The last equation is not reached: the two methods of the handshake are served by \<open>agent_dispatch\<close> itself.\<close>

definition agent_dispatch ::
    "server_env \<Rightarrow> peer \<Rightarrow> turn \<Rightarrow> AgentConn \<Rightarrow> json RpcRequest \<Rightarrow> agent_answer turn_handler" where
  "agent_dispatch E P T c request =
    (let i = rr_id request; v = unwrap_or (rr_params request) Null in
     case map_of AGENT_METHODS (rr_method request) of
       None \<Rightarrow> answering c (method_not_found i)
     | Some HelloMethod \<Rightarrow> agent_hello E P T c i v
     | Some AuthenticateMethod \<Rightarrow> agent_authenticate E T c i v
     | Some m \<Rightarrow>
       (case cn_agent c of
          Some a \<Rightarrow> answering c (agent_serve E T c m a i v)
        | None \<Rightarrow> answering c (case m of PageMethod _ \<Rightarrow> method_not_found i
                    | _ \<Rightarrow> refused i SECURITY_VIOLATION ''session.hello required'')))"

definition agent_receive :: "server_env \<Rightarrow> turn \<Rightarrow> AgentConn \<Rightarrow> bytes \<Rightarrow> string + bytes \<times> AgentConn" where
  "agent_receive E T c wire =
    (case cn_channel c of
       None \<Rightarrow> Inr (wire, c)
     | Some ch \<Rightarrow>
       if is_some_and (cn_authenticated_at c) (\<lambda>since. elapsed_seconds (tn_now T) since \<ge> 600)
       then Inl ''agent session rekey required''
       else (case decrypt (sv_aead E) ch wire of
               (Inl _, _) \<Rightarrow> Inl ''decryption failed''
             | (Inr msg, ch') \<Rightarrow> Inr (msg, c\<lparr>cn_channel := Some ch'\<rparr>)))"

definition agent_send :: "server_env \<Rightarrow> turn \<Rightarrow> agent_answer \<Rightarrow> string + bytes \<times> AgentConn" where
  "agent_send E T a =
    try_r (wv_response (sv_wire E) (an_response a)) (\<lambda>body.
    if an_plain a then Inr (body, an_conn a)
    else try_r (case cn_channel (an_conn a) of
                  None \<Rightarrow> Inr (body, an_conn a)
                | Some ch \<Rightarrow> (case encrypt (sv_aead E) ch body of
                     (Inl _, _) \<Rightarrow> Inl ''encryption failed''
                   | (Inr c, ch') \<Rightarrow> Inr (c, (an_conn a)\<lparr>cn_channel := Some ch'\<rparr>))) (\<lambda>(out, conn).
      Inr (out, case an_activate a of None \<Rightarrow> conn
                | Some ch \<Rightarrow> conn\<lparr>cn_channel := Some ch, cn_authenticated_at := Some (tn_now T)\<rparr>)))"

definition agent_turn :: "server_env \<Rightarrow> peer \<Rightarrow> turn \<Rightarrow> bytes \<Rightarrow> AgentConn \<Rightarrow> (bytes \<times> AgentConn) turn_handler" where
  "agent_turn E P T wire c =
    bindh (required (agent_receive E T c wire)) (\<lambda>(msg, c1).
    bindh (required (wv_request (sv_wire E) msg)) (\<lambda>request.
    bindh (agent_dispatch E P T c1 request) (\<lambda>a.
    required (agent_send E T a))))"

end
