(* ===== verification/Server_Roles.thy ===== *)
theory Server_Roles
  imports Server
begin

text \<open>
  The executor's and the administrator's sockets (\<open>secretctld/src/server.rs\<close>).  Both begin with the handshake,
  in this order and nothing else, and then serve encrypted requests; a connection is in one of three phases.
\<close>

section \<open>Phases\<close>

datatype peer_role = ExecutorRole AgentPrincipal | AdminRole

datatype phase =
    AwaitHello
  | AwaitAuthenticate SessionHelloParams peer_role string bytes
  | Serving SecureChannel int

fun role_key :: "server_env \<Rightarrow> BrokerState \<Rightarrow> peer_role \<Rightarrow> bytes" where
  "role_key E b (ExecutorRole agent) = ag_public_key agent"
| "role_key E b AdminRole = ed_public (sv_ed E) (b_broker_key b)"

fun role_label :: "peer_role \<Rightarrow> string" where
  "role_label (ExecutorRole agent) = ''secretctl-executor-session-v1''"
| "role_label AdminRole = ''secretctl-admin-session-v1''"

definition read_request :: "server_env \<Rightarrow> bytes \<Rightarrow> string \<Rightarrow> json RpcRequest turn_handler" where
  "read_request E wire expected =
    bindh (required (wv_request (sv_wire E) wire)) (\<lambda>request.
    bindh (ensured (rr_method request = expected) (expected @ '' required'')) (\<lambda>_. returnh request))"

definition reply_plain :: "server_env \<Rightarrow> reply RpcResponse \<Rightarrow> bytes turn_handler" where
  "reply_plain E response = required (wv_response (sv_wire E) response)"

text \<open>What each socket asks of a greeting, with the role that it gives the peer.\<close>

definition admit_executor :: "server_env \<Rightarrow> peer \<Rightarrow> turn \<Rightarrow> SessionHelloParams \<Rightarrow> peer_role turn_handler" where
  "admit_executor E P T hello =
    bindh (ensured (sh_protocol_version hello = ''1.0'' \<and> sh_role hello = ''executor''
                    \<and> List.member (sh_supported_suites hello) SUITE) ''executor handshake rejected'') (\<lambda>_.
    bindh (bindh (from_broker (\<lambda>b. if sl_io (tn_world T 0) 0 \<noteq> None then Inl ''storage unavailable''
             else map_err StoreError_to_string (get_enrolled_agent (b_store b) (sh_principal_id hello)))) required) (\<lambda>agent.
    bindh (if ag_role agent = ''executor'' then required (verify_peer_identity E agent P) else returnh False) (\<lambda>same.
    bindh (ensured same ''executor enrollment rejected'') (\<lambda>_.
    returnh (ExecutorRole agent)))))"

definition admit_admin :: "SessionHelloParams \<Rightarrow> peer_role turn_handler" where
  "admit_admin hello =
    bindh (ensured (sh_protocol_version hello = ''1.0'' \<and> sh_role hello = ''admin'' \<and> sh_principal_id hello = ''local-admin''
                    \<and> List.member (sh_supported_suites hello) SUITE) ''admin handshake rejected'') (\<lambda>_.
    returnh AdminRole)"

definition greeted ::
    "server_env \<Rightarrow> turn \<Rightarrow> (SessionHelloParams \<Rightarrow> peer_role turn_handler) \<Rightarrow> bytes \<Rightarrow> (bytes \<times> phase) turn_handler" where
  "greeted E T admit wire =
    bindh (read_request E wire ''session.hello'') (\<lambda>request.
    bindh (required (wv_hello (sv_wire E) (unwrap_or (rr_params request) Null))) (\<lambda>hello.
    bindh (admit hello) (\<lambda>role.
    bindh (from_broker (\<lambda>b. RpcResponse_success (rr_id request) (HelloReply (hello_result E T hello b)))) (\<lambda>response.
    bindh (reply_plain E response) (\<lambda>out.
    returnh (out, AwaitAuthenticate hello role (tn_uuid T) (tn_ephemeral T)))))))"

definition authenticated ::
    "server_env \<Rightarrow> turn \<Rightarrow> SessionHelloParams \<Rightarrow> peer_role \<Rightarrow> string \<Rightarrow> bytes \<Rightarrow> bytes \<Rightarrow> (bytes \<times> phase) turn_handler" where
  "authenticated E T hello role server_nonce server_ephemeral wire =
    bindh (read_request E wire ''session.authenticate'') (\<lambda>request.
    bindh (required (wv_authenticate (sv_wire E) (unwrap_or (rr_params request) Null))) (\<lambda>auth.
    bindh (from_broker (\<lambda>b. role_key E b role)) (\<lambda>key.
    bindh (required (check_authentication E key hello server_nonce server_ephemeral auth)) (\<lambda>client_public.
    bindh (reply_plain E (RpcResponse_success (rr_id request) (AuthenticatedReply rekey_result))) (\<lambda>out.
    returnh (out, Serving (session_channel E server_nonce server_ephemeral client_public (role_label role)) (tn_now T)))))))"

definition served ::
    "server_env \<Rightarrow> turn \<Rightarrow> (json RpcRequest \<Rightarrow> reply RpcResponse turn_handler) \<Rightarrow> SecureChannel \<Rightarrow> int \<Rightarrow> bytes
     \<Rightarrow> (bytes \<times> phase) turn_handler" where
  "served E T dispatch channel since wire =
    bindh (ensured (elapsed_seconds (tn_now T) since < 600) ''rekey required'') (\<lambda>_.
    case decrypt (sv_aead E) channel wire of
      (Inl _, _) \<Rightarrow> failh (Disconnect ''decryption failed'')
    | (Inr msg, channel1) \<Rightarrow>
      bindh (required (wv_request (sv_wire E) msg)) (\<lambda>request.
      bindh (dispatch request) (\<lambda>response.
      bindh (required (wv_response (sv_wire E) response)) (\<lambda>body.
      case encrypt (sv_aead E) channel1 body of
        (Inl _, _) \<Rightarrow> failh (Disconnect ''encryption failed'')
      | (Inr out, channel2) \<Rightarrow> returnh (out, Serving channel2 since)))))"

section \<open>The executor socket\<close>

datatype executor_method =
    RegisterMethod | NextMethod | PrepareMethod | ConsumeMethod | CallbackMethod | ResultMethod | HeartbeatMethod

definition EXECUTOR_METHODS :: "(string \<times> executor_method) list" where
  "EXECUTOR_METHODS =
    [(''browser.register'', RegisterMethod), (''execution.next'', NextMethod), (''executor.prepare'', PrepareMethod),
     (''executor.consume'', ConsumeMethod), (''oauth.callback'', CallbackMethod), (''executor.result'', ResultMethod),
     (''executor.heartbeat'', HeartbeatMethod)]"

text \<open>Read the parameters, run the handler on the daemon, answer with its result.\<close>

definition brokered :: "string + 'p \<Rightarrow> ('p \<Rightarrow> 'a broker_handler) \<Rightarrow> ('a \<Rightarrow> reply) \<Rightarrow> RpcId \<Rightarrow> reply RpcResponse turn_handler" where
  "brokered params m f i = bindh (required params) (\<lambda>ps. bindh (on_broker (m ps)) (answered i f))"

fun executor_serve :: "server_env \<Rightarrow> turn \<Rightarrow> executor_method \<Rightarrow> RpcId \<Rightarrow> json \<Rightarrow> reply RpcResponse turn_handler" where
  "executor_serve E T RegisterMethod i v =
    brokered (wv_register (sv_wire E) v) (handle_browser_register (sv_broker E) (tn_world T)) RegisterReply i"
| "executor_serve E T NextMethod i v =
    brokered (wv_next (sv_wire E) v) (handle_execution_next (sv_broker E) (tn_world T)) OfferReply i"
| "executor_serve E T PrepareMethod i v =
    brokered (wv_prepare (sv_wire E) v) (handle_executor_prepare (tn_world T)) PrepareReply i"
| "executor_serve E T ConsumeMethod i v =
    brokered (wv_consume (sv_wire E) v) (handle_executor_consume (sv_broker E) (tn_world T)) ConsumeReply i"
| "executor_serve E T CallbackMethod i v =
    brokered (wv_callback (sv_wire E) v) (handle_oauth_callback (sv_broker E) (tn_world T)) CallbackReply i"
| "executor_serve E T ResultMethod i v =
    brokered (wv_result (sv_wire E) v) (handle_executor_result (sv_broker E) (tn_world T)) (\<lambda>_. AcknowledgedReply True) i"
| "executor_serve E T HeartbeatMethod i v =
    brokered (wv_heartbeat (sv_wire E) v)
      (\<lambda>ps. handle_executor_heartbeat (tn_world T 0) (ehp_browser_session_id ps) (ehp_active_tab_count ps)) (\<lambda>_. AcknowledgedReply True) i"

definition executor_dispatch :: "server_env \<Rightarrow> turn \<Rightarrow> json RpcRequest \<Rightarrow> reply RpcResponse turn_handler" where
  "executor_dispatch E T request =
    (case map_of EXECUTOR_METHODS (rr_method request) of
       None \<Rightarrow> method_not_found (rr_id request)
     | Some m \<Rightarrow> executor_serve E T m (rr_id request) (unwrap_or (rr_params request) Null))"

fun executor_turn :: "server_env \<Rightarrow> peer \<Rightarrow> turn \<Rightarrow> bytes \<Rightarrow> phase \<Rightarrow> (bytes \<times> phase) turn_handler" where
  "executor_turn E P T wire AwaitHello = greeted E T (admit_executor E P T) wire"
| "executor_turn E P T wire (AwaitAuthenticate hello role nonce ephemeral) = authenticated E T hello role nonce ephemeral wire"
| "executor_turn E P T wire (Serving channel since) = served E T (executor_dispatch E T) channel since wire"

section \<open>The administrator's socket\<close>

datatype admin_method =
    PingMethod | LaunchMethod | LaunchStatusMethod | CloseMethod | ApprovalListMethod | ApprovalDecideMethod
  | CapabilityListMethod | CapabilityRevokeMethod | UiStatusMethod | UiPendingMethod | UiPendingOneMethod
  | UiActivityMethod | UiAgentsMethod | UiCredentialsMethod | UiSessionsMethod | GrantListMethod | GrantCreateMethod
  | GrantRevokeMethod | AgentDisableMethod | PolicyReloadMethod

definition ADMIN_METHODS :: "(string \<times> admin_method) list" where
  "ADMIN_METHODS =
    [(''admin.ping'', PingMethod), (''browser.launch'', LaunchMethod), (''browser.launch_status'', LaunchStatusMethod),
     (''browser.close'', CloseMethod), (''approval.list'', ApprovalListMethod), (''approval.decide'', ApprovalDecideMethod),
     (''capability.list'', CapabilityListMethod), (''capability.revoke'', CapabilityRevokeMethod), (''ui.status'', UiStatusMethod),
     (''ui.pending'', UiPendingMethod), (''ui.pending_one'', UiPendingOneMethod), (''ui.activity'', UiActivityMethod),
     (''ui.agents'', UiAgentsMethod), (''ui.credentials'', UiCredentialsMethod), (''ui.browser_sessions'', UiSessionsMethod),
     (''grant.list'', GrantListMethod), (''grant.create'', GrantCreateMethod), (''grant.revoke'', GrantRevokeMethod),
     (''agent.disable'', AgentDisableMethod), (''policy.reload'', PolicyReloadMethod)]"

definition viewed :: "(BrokerState \<Rightarrow> failure + 'a) \<Rightarrow> ('a \<Rightarrow> reply) \<Rightarrow> RpcId \<Rightarrow> reply RpcResponse turn_handler" where
  "viewed f g i = bindh (from_broker f) (answered i g)"

text \<open>A launched browser has a pipe of its own; closing the browser takes its pipe away.\<close>

definition launched_pipes :: "turn \<Rightarrow> (BrowserInstanceId \<times> CdpPipe) list \<Rightarrow> (BrowserInstanceId \<times> CdpPipe) list" where
  "launched_pipes T pipes =
    (case tn_launched T of Inl _ \<Rightarrow> pipes
     | Inr inst \<Rightarrow> (case tn_pipe T of None \<Rightarrow> AList.delete inst pipes | Some p \<Rightarrow> AList.update inst p pipes))"

definition admin_launch :: "server_env \<Rightarrow> turn \<Rightarrow> RpcId \<Rightarrow> json \<Rightarrow> reply RpcResponse turn_handler" where
  "admin_launch E T i v =
    bindh (required (wv_launch (sv_wire E) v)) (\<lambda>_.
    bindh (on_broker (launch_managed_browser (sv_broker E) (tn_world T 0) (tn_launched T))) (\<lambda>r.
    bindh (modifyh (\<lambda>s. s\<lparr>ss_pipes := launched_pipes T (ss_pipes s)\<rparr>)) (\<lambda>_.
    answered i LaunchReply r)))"

definition admin_close :: "server_env \<Rightarrow> turn \<Rightarrow> RpcId \<Rightarrow> json \<Rightarrow> reply RpcResponse turn_handler" where
  "admin_close E T i v =
    bindh (required (wv_instance (sv_wire E) v)) (\<lambda>inst.
    bindh (on_broker (close_managed_browser (tn_shutdown T) inst)) (\<lambda>r.
    bindh (modifyh (\<lambda>s. s\<lparr>ss_pipes := AList.delete inst (ss_pipes s)\<rparr>)) (\<lambda>_.
    answered i (\<lambda>_. JsonReply (Object [(''closed'', Bool True)])) r)))"

definition admin_disable :: "server_env \<Rightarrow> turn \<Rightarrow> RpcId \<Rightarrow> json \<Rightarrow> reply RpcResponse turn_handler" where
  "admin_disable E T i v =
    bindh (required (wv_disable (sv_wire E) v)) (\<lambda>agent_text.
    case id_parse ''agent'' agent_text of
      Inl _ \<Rightarrow> refused i INVALID_PARAMS ''Unknown agent''
    | Inr agent_id \<Rightarrow> bindh (on_broker (ui_disable_agent (sv_broker E) (tn_world T) agent_id)) (answered i GrantRevokeReply))"

definition admin_reload :: "server_env \<Rightarrow> turn \<Rightarrow> RpcId \<Rightarrow> json \<Rightarrow> reply RpcResponse turn_handler" where
  "admin_reload E T i v =
    bindh (required (wv_policy_reload (sv_wire E) v)) (\<lambda>ps.
    bindh (required (wv_from_yaml (sv_wire E) (plr_policy_yaml ps))) (\<lambda>document.
    let evaluator = PolicyEvaluator_new (sv_sha256 E) (wv_policy_vec (sv_wire E)) document in
    if b64_encode (sv_b64 E) (pe_policy_hash evaluator) \<noteq> plr_expected_hash ps
    then refused i INVALID_PARAMS ''Policy hash mismatch''
    else bindh (on_broker (replace_policy (sv_broker E) (tn_world T 0) evaluator))
      (answered i (\<lambda>revoked. JsonReply (Object [(''reloaded'', Bool True), (''revoked'', Number (int revoked))])))))"

fun admin_serve :: "server_env \<Rightarrow> turn \<Rightarrow> admin_method \<Rightarrow> RpcId \<Rightarrow> json \<Rightarrow> reply RpcResponse turn_handler" where
  "admin_serve E T PingMethod i v = answered i JsonReply (Inr (Object [(''status'', String ''ok'')]))"
| "admin_serve E T LaunchMethod i v = admin_launch E T i v"
| "admin_serve E T LaunchStatusMethod i v =
    bindh (required (wv_instance (sv_wire E) v)) (\<lambda>inst. viewed (browser_launch_status (tn_diagnostics T) inst) LaunchReply i)"
| "admin_serve E T CloseMethod i v = admin_close E T i v"
| "admin_serve E T ApprovalListMethod i v = viewed (\<lambda>b. Inr (list_pending_approvals b)) ApprovalsReply i"
| "admin_serve E T ApprovalDecideMethod i v =
    brokered (wv_decide (sv_wire E) v)
      (\<lambda>ps. decide_approval (sv_broker E) (tn_world T) (adp_approval_id ps) (adp_decision ps = ''approve'')
              (adp_context_digest ps) ''local-admin'' (adp_presence_verified ps)) ActionReply i"
| "admin_serve E T CapabilityListMethod i v =
    bindh (required (wv_capability_list (sv_wire E) v)) (\<lambda>state. viewed (list_capabilities_admin (tn_world T 0) state) CapabilitiesReply i)"
| "admin_serve E T CapabilityRevokeMethod i v =
    brokered (wv_capability_revoke (sv_wire E) v)
      (\<lambda>ps. revoke_capability_admin (sv_broker E) (tn_world T 0) (crp_capability_id ps) (crp_reason ps))
      (\<lambda>_. JsonReply (Object [(''revoked'', Bool True)])) i"
| "admin_serve E T UiStatusMethod i v = viewed (ui_status (sv_broker E) (sv_context E) (tn_world T)) UiStatusReply i"
| "admin_serve E T UiPendingMethod i v = viewed (ui_pending_approvals (sv_broker E) (sv_context E) (tn_world T 0)) UiPendingReply i"
| "admin_serve E T UiPendingOneMethod i v =
    bindh (required (wv_lookup (sv_wire E) v)) (\<lambda>approval_id.
    viewed (ui_pending_approval (sv_broker E) (sv_context E) (tn_world T 0) approval_id) UiPendingOneReply i)"
| "admin_serve E T UiActivityMethod i v =
    bindh (required (wv_activity (sv_wire E) v)) (\<lambda>limit. viewed (ui_activity (sv_context E) (tn_world T) limit) UiActivityReply i)"
| "admin_serve E T UiAgentsMethod i v = viewed (ui_agents (tn_world T)) UiAgentsReply i"
| "admin_serve E T UiCredentialsMethod i v = viewed (ui_credentials (tn_world T)) UiCredentialsReply i"
| "admin_serve E T UiSessionsMethod i v = viewed (\<lambda>b. Inr (ui_browser_sessions b)) UiSessionsReply i"
| "admin_serve E T GrantListMethod i v =
    bindh (required (wv_grant_list (sv_wire E) v)) (\<lambda>all. viewed (ui_grants (tn_world T 0) all) UiGrantsReply i)"
| "admin_serve E T GrantCreateMethod i v =
    brokered (wv_grant_create (sv_wire E) v) (ui_create_grant (sv_broker E) (tn_world T)) GrantCreateReply i"
| "admin_serve E T GrantRevokeMethod i v =
    brokered (wv_grant_revoke (sv_wire E) v)
      (\<lambda>ps. ui_revoke_grants (sv_broker E) (tn_world T) (grp_selector ps) (grp_reason ps)) GrantRevokeReply i"
| "admin_serve E T AgentDisableMethod i v = admin_disable E T i v"
| "admin_serve E T PolicyReloadMethod i v = admin_reload E T i v"

definition admin_dispatch :: "server_env \<Rightarrow> turn \<Rightarrow> json RpcRequest \<Rightarrow> reply RpcResponse turn_handler" where
  "admin_dispatch E T request =
    (case map_of ADMIN_METHODS (rr_method request) of
       None \<Rightarrow> method_not_found (rr_id request)
     | Some m \<Rightarrow> admin_serve E T m (rr_id request) (unwrap_or (rr_params request) Null))"

text \<open>The owner of the socket file, looked up when the connection is accepted, must be the peer.\<close>

definition admin_accept :: "string + u32 \<Rightarrow> peer \<Rightarrow> string + phase" where
  "admin_accept socket_owner P =
    try_r socket_owner (\<lambda>uid. if uid = pr_uid P then Inr AwaitHello else Inl ''admin peer UID rejected'')"

fun admin_turn :: "server_env \<Rightarrow> turn \<Rightarrow> bytes \<Rightarrow> phase \<Rightarrow> (bytes \<times> phase) turn_handler" where
  "admin_turn E T wire AwaitHello = greeted E T admit_admin wire"
| "admin_turn E T wire (AwaitAuthenticate hello role nonce ephemeral) = authenticated E T hello role nonce ephemeral wire"
| "admin_turn E T wire (Serving channel since) = served E T (admin_dispatch E T) channel since wire"

section \<open>Housekeeping\<close>

text \<open>One tick of the periodic task; an error of one half does not stop the other.\<close>

definition housekeeping :: "broker_env \<Rightarrow> world \<Rightarrow> world \<Rightarrow> BrokerState \<Rightarrow> BrokerState" where
  "housekeeping E W W' b =
    snd (expire_pending_approvals E W' (sl_now (W' 0)) (snd (expire_stale_sessions E W (sl_now (W 0)) b)))"

section \<open>The server\<close>

text \<open>
  The connections that are open, each served by a task of its own; frames of different connections come in any
  order.  A connection whose handler returns an error is closed, and so is one that its peer closes.
\<close>

datatype connection = AgentSocket peer AgentConn | ExecutorSocket peer phase | AdminSocket phase

record daemon_server =
  ds_state :: server_state
  ds_connections :: "(nat \<times> connection) list"

datatype server_event =
    AcceptAgent nat peer
  | AcceptExecutor nat peer
  | AcceptAdmin nat "string + u32" peer
  | Frame nat turn bytes
  | Hangup nat
  | Tick world world

fun connection_turn :: "server_env \<Rightarrow> turn \<Rightarrow> bytes \<Rightarrow> connection \<Rightarrow> (bytes \<times> connection) turn_handler" where
  "connection_turn E T wire (AgentSocket P c) = bindh (agent_turn E P T wire c) (\<lambda>(out, c'). returnh (out, AgentSocket P c'))"
| "connection_turn E T wire (ExecutorSocket P ph) = bindh (executor_turn E P T wire ph) (\<lambda>(out, ph'). returnh (out, ExecutorSocket P ph'))"
| "connection_turn E T wire (AdminSocket ph) = bindh (admin_turn E T wire ph) (\<lambda>(out, ph'). returnh (out, AdminSocket ph'))"

definition opened :: "nat \<Rightarrow> connection \<Rightarrow> daemon_server \<Rightarrow> daemon_server" where
  "opened n c D = D\<lparr>ds_connections := AList.update n c (ds_connections D)\<rparr>"

definition closed :: "nat \<Rightarrow> daemon_server \<Rightarrow> daemon_server" where
  "closed n D = D\<lparr>ds_connections := AList.delete n (ds_connections D)\<rparr>"

fun server_step :: "server_env \<Rightarrow> server_event \<Rightarrow> daemon_server \<Rightarrow> daemon_server" where
  "server_step E (AcceptAgent n P) D = opened n (AgentSocket P AgentConn_new) D"
| "server_step E (AcceptExecutor n P) D = opened n (ExecutorSocket P AwaitHello) D"
| "server_step E (AcceptAdmin n socket_owner P) D =
    (case admin_accept socket_owner P of Inl _ \<Rightarrow> D | Inr ph \<Rightarrow> opened n (AdminSocket ph) D)"
| "server_step E (Frame n T wire) D =
    (case map_of (ds_connections D) n of
       None \<Rightarrow> D
     | Some c \<Rightarrow>
       (case connection_turn E T wire c (ds_state D) of
          (Inl _, s) \<Rightarrow> closed n (D\<lparr>ds_state := s\<rparr>)
        | (Inr (_, c'), s) \<Rightarrow> opened n c' (D\<lparr>ds_state := s\<rparr>)))"
| "server_step E (Hangup n) D = closed n D"
| "server_step E (Tick W W') D =
    D\<lparr>ds_state := (ds_state D)\<lparr>ss_broker := housekeeping (sv_broker E) W W' (ss_broker (ds_state D))\<rparr>\<rparr>"

fun server_run :: "server_env \<Rightarrow> server_event list \<Rightarrow> daemon_server \<Rightarrow> daemon_server" where
  "server_run E [] D = D"
| "server_run E (ev # evs) D = server_run E evs (server_step E ev D)"

definition BrokerServer_new :: "BrokerState \<Rightarrow> daemon_server" where
  "BrokerServer_new b = \<lparr>ds_state = \<lparr>ss_broker = b, ss_pipes = []\<rparr>, ds_connections = []\<rparr>"

end
