(* ===== verification/Server_System.thy ===== *)
theory Server_System
  imports Server_Roles Broker_Types Broker_Properties Broker_Page_Properties
begin

text \<open>
  The sockets as a part of the running system.  \<open>moves E ok\<close> relates the states of the daemon before and after
  a handler of a socket when the difference is what a sequence of events of \<open>Broker_System\<close> makes, all of them
  accepted by \<open>ok\<close>; it is an instance of \<open>state_relation\<close>, so a handler moves the daemon by accepted events
  when its parts do.  The events accepted on a socket are its authority.
\<close>

section \<open>What each socket may do\<close>

fun agent_request :: "AgentId \<Rightarrow> request \<Rightarrow> bool" where
  "agent_request a (RequestAction a' p) = (a' = a)"
| "agent_request a (Authenticate a' p) = (a' = a)"
| "agent_request a (CancelAction a' p) = (a' = a)"
| "agent_request a _ = False"

fun agent_event :: "AgentId option \<Rightarrow> sys_event \<Rightarrow> bool" where
  "agent_event (Some a) (Serve W q) = agent_request a q"
| "agent_event _ _ = False"

fun executor_request :: "request \<Rightarrow> bool" where
  "executor_request (Prepare c) = True"
| "executor_request (RegisterBrowser p) = True"
| "executor_request (Heartbeat s n) = True"
| "executor_request (NextExecution s) = True"
| "executor_request (ReportResult p) = True"
| "executor_request _ = False"

fun executor_event :: "sys_event \<Rightarrow> bool" where
  "executor_event (Serve W q) = executor_request q"
| "executor_event (BeginConsume W now p) = True"
| "executor_event (BeginCallback W p) = True"
| "executor_event (Land n W) = True"
| "executor_event _ = False"

fun admin_request :: "request \<Rightarrow> bool" where
  "admin_request (DecideApproval i ok digest actor presence) = (actor = ''local-admin'')"
| "admin_request (ReplacePolicy ev) = True"
| "admin_request (RevokeAdmin i reason) = True"
| "admin_request (CreateGrant p) = True"
| "admin_request (RevokeGrants selector reason) = True"
| "admin_request (DisableAgent a) = True"
| "admin_request (LaunchBrowser r) = True"
| "admin_request (CloseBrowser r i) = True"
| "admin_request _ = False"

fun admin_event :: "sys_event \<Rightarrow> bool" where
  "admin_event (Serve W q) = admin_request q"
| "admin_event _ = False"

definition in_service :: "BrokerState \<Rightarrow> CapabilityId list \<Rightarrow> system" where
  "in_service b released = \<lparr>sy_daemon = Running b, sy_flights = [], sy_released = released\<rparr>"

definition performs :: "broker_env \<Rightarrow> sys_event list \<Rightarrow> BrokerState \<Rightarrow> BrokerState \<Rightarrow> bool" where
  "performs E evs b b' = (\<exists>xs. \<forall>rs. run_system E evs (in_service b rs) = in_service b' (rs @ xs))"

definition moves :: "broker_env \<Rightarrow> (sys_event \<Rightarrow> bool) \<Rightarrow> server_state \<Rightarrow> server_state \<Rightarrow> bool" where
  "moves E ok s s' = (\<exists>evs. list_all ok evs \<and> performs E evs (ss_broker s) (ss_broker s'))"

section \<open>Composition\<close>

lemma run_system_append: "run_system E (xs @ ys) s = run_system E ys (run_system E xs s)"
  by (induction xs arbitrary: s) auto

lemma performs_nil: "performs E [] b b"
  by (auto simp: performs_def intro: exI[of _ "[]"])

lemma performs_append: "performs E xs b b' \<Longrightarrow> performs E ys b' b'' \<Longrightarrow> performs E (xs @ ys) b b''"
  unfolding performs_def run_system_append by (metis append.assoc)

context state_relation begin

text \<open>After a reader of parameters, a handler goes on with what was read.\<close>

lemma steps_read: "(\<And>x. r = Inr x \<Longrightarrow> steps rel (f x)) \<Longrightarrow> steps rel (bindh (lifth r) f)"
  by (cases r) (auto simp: steps_def bindh_def sr_refl)

end

interpretation moving: state_relation "moves E ok"
proof
  show "moves E ok s s" for s unfolding moves_def using performs_nil by (metis list.pred_inject(1))
  show "moves E ok s t \<Longrightarrow> moves E ok t u \<Longrightarrow> moves E ok s u" for s t u
    unfolding moves_def using performs_append by (metis list_all_append)
qed

lemma moves_same: "ss_broker s' = ss_broker s \<Longrightarrow> moves E ok s s'"
  using moving.sr_refl by (simp add: moves_def)

lemma moves_weaken: "moves E ok s s' \<Longrightarrow> (\<And>ev. ok ev \<Longrightarrow> ok' ev) \<Longrightarrow> moves E ok' s s'"
  unfolding moves_def by (metis list.pred_mono_strong)

lemma performs_serve: "performs E [Serve W q] b (serve E W q b)"
  by (auto simp: performs_def in_service_def intro: exI[of _ "[]"])

lemma moving_broker:
  "(\<And>b. \<exists>evs. list_all ok evs \<and> performs E evs b (snd (m b))) \<Longrightarrow> steps (moves E ok) (on_broker m)"
  by (rule stepsI) (simp add: on_broker_def moves_def split: prod.split, metis snd_conv)

lemma moving_serve: "ok (Serve W q) \<Longrightarrow> (\<And>b. snd (m b) = serve E W q b) \<Longrightarrow> steps (moves E ok) (on_broker m)"
  by (rule moving_broker) (metis list.pred_inject performs_serve)

lemma moving_modify [steps_intros]: "(\<And>s. ss_broker (f s) = ss_broker s) \<Longrightarrow> steps (moves E ok) (modifyh f)"
  by (intro moving.steps_modify moves_same) simp

lemma moving_reads [steps_intros]:
  "steps (moves E ok) (required r)" "steps (moves E ok) (ensured c message)" "steps (moves E ok) (from_broker f)"
  unfolding required_def ensured_def from_broker_def by (intro steps_intros)+

lemma moving_answers [steps_intros]:
  "steps (moves E ok) (refused i code message)" "steps (moves E ok) (method_not_found i)"
  unfolding refused_def method_not_found_def by (intro steps_intros)+

lemma moving_answered [steps_intros]: "steps (moves E ok) (answered i f r)"
  unfolding answered_def by (intro steps_intros)

section \<open>The handlers that wait\<close>

lemma performs_consume: "\<exists>evs. list_all executor_event evs \<and> performs E evs b (snd (handle_executor_consume E W p b))"
proof -
  define now where "now = sl_now (if totp_wait E (sl_now (W 0)) (ecp_capability_token p) b = None then W 0 else W 1)"
  obtain r b' where start: "consume_begin E (later 2 W) now p b = (r, b')" by fastforce
  show ?thesis
  proof (cases r)
    case (Inl e)
    then have "performs E [BeginConsume (later 2 W) now p] b (snd (handle_executor_consume E W p b))"
      using start by (auto simp: performs_def in_service_def handle_executor_consume_def now_def[symmetric] bindh_def[of "consume_begin _ _ _ _"]
          taken_off_def ok_option_def intro: exI[of _ "[]"])
    then show ?thesis by (metis executor_event.simps(2) list.pred_inject)
  next
    case (Inr x)
    obtain r' b'' where finish: "consume_finish E (W 5) (sl_secret (W 4)) x b' = (r', b'')" by fastforce
    have "performs E [BeginConsume (later 2 W) now p, Land 0 (later 4 W)] b (snd (handle_executor_consume E W p b))"
      using start finish Inr
      by (auto simp: performs_def in_service_def handle_executor_consume_def now_def[symmetric] bindh_def[of "consume_begin _ _ _ _"]
          taken_off_def ok_option_def landed_def later_def
          intro: exI[of _ "if is_ok r' then [cl_jti (cp_claims x)] else []"])
    then show ?thesis by (metis executor_event.simps(2,4) list.pred_inject)
  qed
qed

lemma performs_callback: "\<exists>evs. list_all executor_event evs \<and> performs E evs b (snd (handle_oauth_callback E W p b))"
proof -
  obtain r b' where start: "callback_begin E W p b = (r, b')" by fastforce
  show ?thesis
  proof (cases r)
    case (Inl e)
    then have "performs E [BeginCallback W p] b (snd (handle_oauth_callback E W p b))"
      using start by (auto simp: performs_def in_service_def handle_oauth_callback_def bindh_def
          taken_off_def ok_option_def intro: exI[of _ "[]"])
    then show ?thesis by (metis executor_event.simps(3) list.pred_inject)
  next
    case (Inr x)
    obtain i pe where x: "x = (i, pe)" by fastforce
    obtain r' b'' where finish: "callback_finish E (later 3 W) i pe b' = (r', b'')" by fastforce
    have "performs E [BeginCallback W p, Land 0 (later 3 W)] b (snd (handle_oauth_callback E W p b))"
      using start finish Inr x
      by (auto simp: performs_def in_service_def handle_oauth_callback_def bindh_def
          taken_off_def ok_option_def landed_def intro: exI[of _ "if is_ok r' then [i] else []"])
    then show ?thesis by (metis executor_event.simps(3,4) list.pred_inject)
  qed
qed

section \<open>Every frame of every socket\<close>

lemma moving_pipe [steps_intros]: "steps (moves E ok) (on_pipe session_id m)"
  by (rule stepsI) (auto simp: on_pipe_def Let_def intro!: moves_same split: option.split prod.split)

lemma moving_page_serve [steps_intros]: "steps (moves E' ok) (page_serve E T m i v)"
  by (cases m) (simp_all add: paged_def page_wait_def, (intro steps_intros)+)

lemma moving_awaited [steps_intros]: "steps (moves E ok) (awaited T w i t r)"
  unfolding awaited_def by (intro steps_intros)

lemma moving_agent_serve:
  "steps (moves (sv_broker E) (agent_event (Some a))) (agent_serve E T c m a i v)"
proof -
  have 1: "steps (moves (sv_broker E) (agent_event (Some a))) (on_broker (handle_action_request (sv_broker E) W a p))" for W p
    by (rule moving_serve[of _ W "RequestAction a p"]) simp_all
  have 2: "steps (moves (sv_broker E) (agent_event (Some a))) (on_broker (handle_action_authenticate (sv_broker E) W a p))" for W p
    by (rule moving_serve[of _ W "Authenticate a p"]) simp_all
  have 3: "steps (moves (sv_broker E) (agent_event (Some a))) (on_broker (handle_action_cancel a p))" for p
    by (rule moving_serve[of _ undefined "CancelAction a p"]) simp_all
  show ?thesis
    by (cases m) (simp_all add: action_request_def action_authenticate_def action_subscribe_def,
      (intro steps_intros 1 2 3)+)
qed

lemma moving_answering [steps_intros]: "steps (moves E ok) m \<Longrightarrow> steps (moves E ok) (answering c m)"
  unfolding answering_def by (intro steps_intros)

lemma agent_receive_agent: "map_err f (agent_receive E T c wire) = Inr (msg, d) \<Longrightarrow> cn_agent d = cn_agent c"
  by (auto simp: agent_receive_def split: option.splits if_splits prod.splits sum.splits)

context state_relation begin

text \<open>A turn on the agent socket is its dispatch, for the same agent, between a reader and a writer.\<close>

lemma steps_turn:
  fixes wire :: bytes
  assumes "\<And>d q. cn_agent d = cn_agent c \<Longrightarrow> steps rel (dispatch d q)"
  shows "steps rel (bindh (lifth (map_err Disconnect (agent_receive E T c wire))) (\<lambda>(msg, d).
    bindh (lifth (r msg)) (\<lambda>q. bindh (dispatch d q) (\<lambda>a. lifth (w a)))))"
  using assms by (auto intro!: steps_read steps_prod steps_bind steps_pure dest: agent_receive_agent)

end

lemma moving_agent_turn: "steps (moves (sv_broker E) (agent_event (cn_agent c))) (agent_turn E P T wire c)"
proof -
  let ?ok = "agent_event (cn_agent c)"
  have hello: "steps (moves (sv_broker E) ok) (agent_hello E P T d i v)"
    and auth: "steps (moves (sv_broker E) ok) (agent_authenticate E T d i v)" for ok d i v
    unfolding agent_hello_def agent_authenticate_def by (intro steps_intros)+
  have "steps (moves (sv_broker E) ?ok) (agent_dispatch E P T d request)" if "cn_agent d = cn_agent c" for d request
    using moving_agent_serve[of E] that
    by (auto simp: agent_dispatch_def Let_def simp del: agent_serve.simps
        intro!: steps_intros hello auth split: option.split agent_method.split)
  then show ?thesis unfolding agent_turn_def required_def by (rule moving.steps_turn)
qed

lemma moving_handshake [steps_intros]:
  "(\<And>h. steps (moves E' ok) (admit h)) \<Longrightarrow> steps (moves E' ok) (greeted E T admit wire)"
  "steps (moves E' ok) (authenticated E T hello role nonce ephemeral wire)"
  unfolding greeted_def authenticated_def read_request_def reply_plain_def by (intro steps_intros | assumption)+

lemma moving_served:
  "(\<And>q. steps (moves E' ok) (dispatch q)) \<Longrightarrow> steps (moves E' ok) (served E T dispatch channel since wire)"
  unfolding served_def by (intro steps_intros | assumption)+

lemma moving_brokered: "(\<And>ps. steps (moves E ok) (on_broker (m ps))) \<Longrightarrow> steps (moves E ok) (brokered r m f i)"
  unfolding brokered_def by (intro steps_intros)

lemma moving_executor_turn: "steps (moves (sv_broker E) executor_event) (executor_turn E P T wire ph)"
proof -
  let ?E = "sv_broker E"
  have on: "steps (moves ?E executor_event) (on_broker m)" if "\<And>b. snd (m b) = serve ?E W q b" "executor_request q" for m W q
    by (rule moving_serve[of _ W q]) (simp_all add: that)
  have "steps (moves ?E executor_event) (executor_serve E T m i v)" for m i v
  proof (cases m)
    case RegisterMethod
    then show ?thesis by (auto intro!: moving_brokered on[of _ "tn_world T" "RegisterBrowser _"])
  next
    case NextMethod
    then show ?thesis by (auto intro!: moving_brokered on[of _ "tn_world T" "NextExecution _"])
  next
    case PrepareMethod
    then show ?thesis by (auto intro!: moving_brokered on[of _ "tn_world T" "Prepare _"])
  next
    case ResultMethod
    then show ?thesis by (auto intro!: moving_brokered on[of _ "tn_world T" "ReportResult _"])
  next
    case HeartbeatMethod
    then show ?thesis by (auto intro!: moving_brokered on[of _ "tn_world T" "Heartbeat _ _"])
  next
    case ConsumeMethod
    then show ?thesis by (auto intro!: moving_brokered moving_broker performs_consume)
  next
    case CallbackMethod
    then show ?thesis by (auto intro!: moving_brokered moving_broker performs_callback)
  qed
  then have dispatch: "steps (moves ?E executor_event) (executor_dispatch E T q)" for q
    unfolding executor_dispatch_def by (intro steps_intros)
  have "steps (moves ?E executor_event) (admit_executor E P T h)" for h
    unfolding admit_executor_def by (intro steps_intros)
  then show ?thesis by (cases ph) (auto intro!: moving_handshake moving_served dispatch)
qed

lemma moving_admin_turn: "steps (moves (sv_broker E) admin_event) (admin_turn E T wire ph)"
proof -
  let ?E = "sv_broker E"
  have on: "steps (moves ?E admin_event) (on_broker m)" if "\<And>b. snd (m b) = serve ?E W q b" "admin_request q" for m W q
    by (rule moving_serve[of _ W q]) (simp_all add: that)
  note ops = on[of _ "tn_world T" "DecideApproval _ _ _ ''local-admin'' _"] on[of _ "tn_world T" "ReplacePolicy _"]
    on[of _ "tn_world T" "RevokeAdmin _ _"] on[of _ "tn_world T" "CreateGrant _"] on[of _ "tn_world T" "RevokeGrants _ _"]
    on[of _ "tn_world T" "DisableAgent _"] on[of _ "tn_world T" "LaunchBrowser _"] on[of _ "tn_world T" "CloseBrowser _ _"]
  have "steps (moves ?E admin_event) (admin_serve E T m i v)" for m i v
    by (cases m) (simp_all add: admin_launch_def admin_close_def admin_disable_def admin_reload_def brokered_def viewed_def,
      (intro steps_intros ops; simp)+)
  then have dispatch: "steps (moves ?E admin_event) (admin_dispatch E T q)" for q
    unfolding admin_dispatch_def by (intro steps_intros)
  have "steps (moves ?E admin_event) (admit_admin h)" for h
    unfolding admit_admin_def by (intro steps_intros)
  then show ?thesis by (cases ph) (auto intro!: moving_handshake moving_served dispatch)
qed

section \<open>Runs of the server\<close>

fun tick_event :: "sys_event \<Rightarrow> bool" where
  "tick_event (Serve W (ExpireSessions now)) = True"
| "tick_event (Serve W (ExpireApprovals now)) = True"
| "tick_event _ = False"

definition socket_event :: "sys_event \<Rightarrow> bool" where
  "socket_event ev = ((\<exists>a. agent_event a ev) \<or> executor_event ev \<or> admin_event ev \<or> tick_event ev)"

lemma moving_connection: "steps (moves (sv_broker E) socket_event) (connection_turn E T wire c)"
proof -
  have "steps (moves (sv_broker E) socket_event) (agent_turn E P T wire x)" for P x
    using moving_agent_turn[of E x P T wire] unfolding steps_def by (fastforce intro: moves_weaken simp: socket_event_def)
  moreover have "steps (moves (sv_broker E) socket_event) (executor_turn E P T wire ph)"
    "steps (moves (sv_broker E) socket_event) (admin_turn E T wire ph)" for P ph
    using moving_executor_turn[of E P T wire ph] moving_admin_turn[of E T wire ph]
    unfolding steps_def by (fastforce intro: moves_weaken simp: socket_event_def)+
  ultimately show ?thesis by (cases c) (auto intro!: moving.steps_bind moving.steps_prod moving.steps_pure)
qed

lemma performs_tick: "performs E [Serve W (ExpireSessions (sl_now (W 0))), Serve W' (ExpireApprovals (sl_now (W' 0)))] b (housekeeping E W W' b)"
  by (auto simp: performs_def in_service_def housekeeping_def intro: exI[of _ "[]"])

lemma moving_step: "moves (sv_broker E) socket_event (ds_state D) (ds_state (server_step E ev D))"
proof (cases ev)
  case (Frame n T wire)
  have "moves (sv_broker E) socket_event (ds_state D) s" if "connection_turn E T wire c (ds_state D) = (r, s)" for c r s
    using stepsD[OF moving_connection that] .
  then show ?thesis using Frame moving.sr_refl
    by (auto simp: opened_def closed_def split: option.split prod.split sum.split)
next
  case (Tick W W')
  then show ?thesis using performs_tick[of "sv_broker E" W W'] by (auto simp: moves_def socket_event_def intro!: exI[where x = "[_, _]"])
qed (auto simp: opened_def closed_def moving.sr_refl split: sum.split)

lemma moving_run: "moves (sv_broker E) socket_event (ds_state D) (ds_state (server_run E evs D))"
  by (induction evs arbitrary: D) (auto intro: moving.sr_refl moving.sr_trans moving_step)

end
