(* ===== verification/Server_Properties.thy ===== *)
theory Server_Properties
  imports Server_System
begin

text \<open>
  What the sockets promise: each one moves the daemon only by the requests of its role, the server as a whole
  reaches only states that the system model reaches, a connection has effects only on a session that is
  authenticated and not older than ten minutes, and who is authenticated has signed this handshake with an
  enrolled key.
\<close>

section \<open>Authority\<close>

text \<open>
  C5.  A frame on a socket changes the daemon only as a sequence of requests of that socket's role does.  On the
  agent socket these are requests, authentications and cancellations in the name of the agent the connection is
  authenticated as, and none at all on a connection that is not; on the executor's, registration of a browser,
  page contexts, offers, the use of capabilities and its results, and heartbeats; on the administrator's, the
  decisions of the local administrator, policies, revocations, grants and managed browsers.  So no agent
  decides an approval or uses a capability, and no executor asks for one.
\<close>

theorem socket_authority:
  "moves (sv_broker E) (agent_event (cn_agent c)) s (snd (agent_turn E P T wire c s))
   \<and> moves (sv_broker E) executor_event s (snd (executor_turn E P T wire ph s))
   \<and> moves (sv_broker E) admin_event s (snd (admin_turn E T wire ph s))"
  using moving_agent_turn moving_executor_turn moving_admin_turn unfolding steps_def by blast


section \<open>Nothing without a live session\<close>

interpretation still: state_relation "(=) :: server_state \<Rightarrow> server_state \<Rightarrow> bool"
  by unfold_locales auto

lemma still_reads [steps_intros]:
  "steps (=) (required r)" "steps (=) (ensured c message)" "steps (=) (from_broker f)"
  "steps (=) (refused i code message)" "steps (=) (method_not_found i)"
  unfolding required_def ensured_def from_broker_def refused_def method_not_found_def by (intro steps_intros)+

lemma still_answering [steps_intros]: "steps (=) m \<Longrightarrow> steps (=) (answering c m)"
  unfolding answering_def by (intro steps_intros)

lemma still_admitted: "steps (=) (admit_executor E P T h)" "steps (=) (admit_admin h)"
  unfolding admit_executor_def admit_admin_def by (intro steps_intros)+

lemma still_handshake:
  "(\<And>h. steps (=) (admit h)) \<Longrightarrow> steps (=) (greeted E T admit wire)"
  "steps (=) (authenticated E T hello role nonce ephemeral wire)"
  unfolding greeted_def authenticated_def read_request_def reply_plain_def by (intro steps_intros | assumption)+

lemma still_agent: "steps (=) (agent_hello E P T c i v)" "steps (=) (agent_authenticate E T c i v)"
  unfolding agent_hello_def agent_authenticate_def by (intro steps_intros)+


lemma still_agent_turn: "cn_agent c = None \<Longrightarrow> steps (=) (agent_turn E P T wire c)"
proof -
  assume c: "cn_agent c = None"
  have "steps (=) (agent_dispatch E P T d request)" if "cn_agent d = cn_agent c" for d request
    using that c unfolding agent_dispatch_def Let_def
    by (auto intro!: steps_intros still_agent split: option.split agent_method.split)
  then show ?thesis unfolding agent_turn_def required_def by (rule still.steps_turn)
qed

text \<open>
  C31.  Before a connection is authenticated no frame on it changes anything, neither the daemon's state nor what was
  sent to a browser; and a frame that comes ten minutes or more after the authentication ends the connection
  and changes nothing, on each of the three sockets.
\<close>

theorem effects_need_live_session:
  "snd (agent_turn E P T wire (c\<lparr>cn_agent := None\<rparr>) s) = s
   \<and> snd (executor_turn E P T wire AwaitHello s) = s
   \<and> snd (executor_turn E P T wire (AwaitAuthenticate hello role nonce ephemeral) s) = s
   \<and> snd (admin_turn E T wire AwaitHello s) = s
   \<and> snd (admin_turn E T wire (AwaitAuthenticate hello role nonce ephemeral) s) = s
   \<and> (let late = T\<lparr>tn_now := since + seconds (600 + int k)\<rparr>; c' = c\<lparr>cn_channel := Some channel, cn_authenticated_at := Some since\<rparr> in
      agent_turn E P late wire c' s = (Inl (Disconnect ''agent session rekey required''), s)
      \<and> executor_turn E P late wire (Serving channel since) s = (Inl (Disconnect ''rekey required''), s)
      \<and> admin_turn E late wire (Serving channel since) s = (Inl (Disconnect ''rekey required''), s))"
proof -
  have "elapsed_seconds (since + seconds (600 + int k)) since = 600 + int k"
    by (simp add: elapsed_seconds_def seconds_def nanos_def)
  moreover have "snd (agent_turn E P T wire (c\<lparr>cn_agent := None\<rparr>) s) = s"
    using still_agent_turn[of "c\<lparr>cn_agent := None\<rparr>" E P T wire] by (simp add: steps_def)
  moreover have "snd (executor_turn E P T wire AwaitHello s) = s" "snd (admin_turn E T wire AwaitHello s) = s"
    using still_handshake(1)[OF still_admitted(1)] still_handshake(1)[OF still_admitted(2)] by (simp_all add: steps_def)
  moreover have "snd (executor_turn E P T wire (AwaitAuthenticate hello role nonce ephemeral) s) = s"
    "snd (admin_turn E T wire (AwaitAuthenticate hello role nonce ephemeral) s) = s"
    using still_handshake(2) by (simp_all add: steps_def)
  ultimately show ?thesis
    by (simp add: agent_turn_def agent_receive_def served_def required_def ensured_def guardh_def bindh_def[of "lifth _"])
qed

section \<open>Managed browsers\<close>

text \<open>The same browsers, each sent only commands that are accepted by a predicate.\<close>

definition drives :: "(json \<Rightarrow> bool) \<Rightarrow> server_state \<Rightarrow> server_state \<Rightarrow> bool" where
  "drives ok s s' = (\<forall>i. case map_of (ss_pipes s) i of
      None \<Rightarrow> map_of (ss_pipes s') i = None
    | Some p \<Rightarrow> (\<exists>p'. map_of (ss_pipes s') i = Some p' \<and> sends ok p p'))"

interpretation driving: state_relation "drives ok"
proof
  show "drives ok s s" for s unfolding drives_def by (auto intro: commands.sr_refl split: option.split)
  show "drives ok s u" if "drives ok s t" "drives ok t u" for s t u
    unfolding drives_def
  proof
    fix i
    from that have "case map_of (ss_pipes s) i of None \<Rightarrow> map_of (ss_pipes t) i = None
        | Some p \<Rightarrow> \<exists>p'. map_of (ss_pipes t) i = Some p' \<and> sends ok p p'"
      "case map_of (ss_pipes t) i of None \<Rightarrow> map_of (ss_pipes u) i = None
        | Some p \<Rightarrow> \<exists>p'. map_of (ss_pipes u) i = Some p' \<and> sends ok p p'"
      unfolding drives_def by blast+
    then show "case map_of (ss_pipes s) i of None \<Rightarrow> map_of (ss_pipes u) i = None
        | Some p \<Rightarrow> \<exists>p'. map_of (ss_pipes u) i = Some p' \<and> sends ok p p'"
      by (auto split: option.splits intro: commands.sr_trans)
  qed
qed

lemma drives_same: "ss_pipes s' = ss_pipes s \<Longrightarrow> drives ok s s'"
  by (auto simp: drives_def intro: commands.sr_refl split: option.split)

lemma driving_reads [steps_intros]:
  "steps (drives ok) (required r)" "steps (drives ok) (ensured c message)" "steps (drives ok) (from_broker f)"
  "steps (drives ok) (refused i code message)" "steps (drives ok) (method_not_found i)" "steps (drives ok) (answered i g x)"
  unfolding required_def ensured_def from_broker_def refused_def method_not_found_def answered_def by (intro steps_intros)+

lemma driving_broker [steps_intros]: "steps (drives ok) (on_broker m)"
  by (rule stepsI) (simp add: on_broker_def drives_same split: prod.split)

lemma driving_answering [steps_intros]: "steps (drives ok) m \<Longrightarrow> steps (drives ok) (answering c m)"
  unfolding answering_def by (intro steps_intros)

lemma driving_pipe: "(\<And>H b. steps (sends ok) (m H b)) \<Longrightarrow> steps (drives ok) (on_pipe session_id m)"
proof (rule stepsI)
  fix s :: server_state
  assume m: "\<And>H b. steps (sends ok) (m H b)"
  let ?run = "m (\<lambda>i. map_of (ss_pipes s) i \<noteq> None) (ss_broker s)"
  show "drives ok s (snd (on_pipe session_id m s))"
  proof (cases "Option.bind (session_instance session_id (ss_broker s)) (\<lambda>i. map_option (\<lambda>p. (i, p)) (map_of (ss_pipes s) i))")
    case None
    then show ?thesis by (simp add: on_pipe_def driving.sr_refl)
  next
    case (Some x)
    then obtain i p where x: "x = (i, p)" "map_of (ss_pipes s) i = Some p" by (auto simp: bind_eq_Some_conv)
    obtain r p' where "?run p = (r, p')" by fastforce
    then show ?thesis using Some x stepsD[OF m]
      by (auto simp: on_pipe_def drives_def update_conv commands.sr_refl split: option.split)
  qed
qed

lemma driving_page: "steps (drives (safe_command (sv_page E))) (page_serve E T m i v)"
proof -
  have page: "steps (drives (safe_command (sv_page E))) (paged r session_of k i)"
    if "\<And>H b ps. steps (sends (safe_command (sv_page E))) (k H b ps)" for r session_of k
    unfolding paged_def by (intro steps_intros driving_pipe that)
  note sends = safe.sends_tabs safe.sends_opening safe.sends_observing safe.sends_click safe.sends_typing
  have "steps (drives (safe_command (sv_page E))) (page_wait E T i v)"
    unfolding page_wait_def handle_page_wait_for_def by (intro steps_intros driving_pipe safe.sends_wait)
  then show ?thesis by (cases m) (simp_all add: page sends)
qed


section \<open>Waiting\<close>

lemma await_ends: "deadline \<le> clock n \<Longrightarrow> await_request (Suc n) i deadline bs clock r \<noteq> None"
proof (induction n arbitrary: bs clock r)
  case (Suc n)
  have "await_request (Suc n) i deadline (\<lambda>k. bs (Suc k)) (\<lambda>k. clock (Suc k)) r' \<noteq> None" for r'
    by (rule Suc.IH) (use Suc.prems in simp)
  then show ?case unfolding await_request.simps(2)[of "Suc n"] Let_def by (simp del: await_request.simps)
qed (auto simp: Let_def)

lemma subscribe_ends: "deadline \<le> clock n \<Longrightarrow> subscribe_loop (Suc n) a ps deadline bs clock \<noteq> None"
proof (induction n arbitrary: bs clock)
  case (Suc n)
  have "subscribe_loop (Suc n) a ps deadline (\<lambda>k. bs (Suc k)) (\<lambda>k. clock (Suc k)) \<noteq> None"
    by (rule Suc.IH) (use Suc.prems in simp)
  then show ?case unfolding subscribe_loop.simps(2)[of "Suc n"] by (simp del: subscribe_loop.simps split: sum.split)
qed (auto split: sum.split)

lemma await_result:
  "await_request n i deadline bs clock r = Some r' \<Longrightarrow>
    \<exists>k < n. (map_of (b_requests (bs k)) i = Some r' \<and> ActionRequestState_is_terminal (arr_state r')) \<or> deadline \<le> clock k"
proof (induction n arbitrary: bs clock r)
  case (Suc n)
  show ?case
  proof (cases "(map_of (b_requests (bs 0)) i \<noteq> None \<and> ActionRequestState_is_terminal (arr_state (unwrap_or (map_of (b_requests (bs 0)) i) r)))
      \<or> deadline \<le> clock 0")
    case True
    then show ?thesis using Suc.prems by (auto simp: Let_def unwrap_or_def intro!: exI[of _ 0] split: if_splits option.splits)
  next
    case False
    then have "await_request n i deadline (\<lambda>k. bs (Suc k)) (\<lambda>k. clock (Suc k)) (unwrap_or (map_of (b_requests (bs 0)) i) r) = Some r'"
      using Suc.prems by (auto simp: Let_def split: if_splits)
    from Suc.IH[OF this] show ?thesis by auto
  qed
qed simp

text \<open>
  Waiting for a request ends: when each round takes at least the 25 milliseconds that the daemon sleeps between two
  looks, the rounds that \<open>wait_rounds\<close> allows are enough for every timeout, however the request changes meanwhile, both for an action
  and for a subscription; and an answer of the first comes because the request has ended, with that result, or because the time is over.
\<close>

theorem waiting_ends:
  "let clock = (\<lambda>k. start + 25 * int k + int (delay k)) in
   (case await_request (wait_rounds timeout) i (start + uint timeout) bs clock r of
      None \<Rightarrow> False
    | Some r' \<Rightarrow> (\<exists>k. (map_of (b_requests (bs k)) i = Some r' \<and> ActionRequestState_is_terminal (arr_state r')) \<or> start + uint timeout \<le> clock k))
   \<and> subscribe_loop (wait_rounds timeout) a ps (start + uint timeout) bs clock \<noteq> None"
proof -
  define n where "n = unat timeout div 25 + 1"
  define clock where "clock = (\<lambda>k. start + 25 * int k + int (delay k))"
  have rounds: "wait_rounds timeout = Suc n" by (simp add: wait_rounds_def n_def)
  have "unat timeout \<le> 25 * n" unfolding n_def by presburger
  then have "uint timeout \<le> 25 * int n" unfolding uint_nat by linarith
  then have late: "start + uint timeout \<le> clock n" by (simp add: clock_def)
  obtain r' where r': "await_request (Suc n) i (start + uint timeout) bs clock r = Some r'"
    using await_ends[of "start + uint timeout" clock n i bs r] late by auto
  from await_result[OF r'] subscribe_ends[of "start + uint timeout" clock n a ps bs] late r'
  show ?thesis unfolding Let_def clock_def[symmetric] rounds by (simp del: await_request.simps subscribe_loop.simps) blast
qed

end
