(* ===== verification/Server_Authentication.thy ===== *)
theory Server_Authentication
  imports Server_System
begin

text \<open>
  Who is served.  A conversation is the list of the frames of one connection, each with what the daemon takes
  from outside and the state the daemon is in when the frame comes; what other connections do in between is in
  these states.  \<open>handshake\<close> is the evidence that a conversation contains for a principal: a greeting that the
  socket admits and, later, a signature over the transcript of this greeting, the nonce and the ephemeral key
  that the daemon drew for it.
\<close>

section \<open>Conversations\<close>

type_synonym frame = "turn \<times> bytes \<times> server_state"

fun conversation :: "(frame \<Rightarrow> 'c \<Rightarrow> 'e + 'c) \<Rightarrow> frame list \<Rightarrow> 'c \<Rightarrow> 'c option" where
  "conversation step [] c = Some c"
| "conversation step (f # fs) c = (case step f c of Inl _ \<Rightarrow> None | Inr c' \<Rightarrow> conversation step fs c')"

definition agent_step :: "server_env \<Rightarrow> peer \<Rightarrow> frame \<Rightarrow> AgentConn \<Rightarrow> disconnect + AgentConn" where
  "agent_step E P f c = (case f of (T, wire, s) \<Rightarrow> map_sum id snd (fst (agent_turn E P T wire c s)))"

definition executor_step :: "server_env \<Rightarrow> peer \<Rightarrow> frame \<Rightarrow> phase \<Rightarrow> disconnect + phase" where
  "executor_step E P f ph = (case f of (T, wire, s) \<Rightarrow> map_sum id snd (fst (executor_turn E P T wire ph s)))"

definition admin_step :: "server_env \<Rightarrow> frame \<Rightarrow> phase \<Rightarrow> disconnect + phase" where
  "admin_step E f ph = (case f of (T, wire, s) \<Rightarrow> map_sum id snd (fst (admin_turn E T wire ph s)))"

lemma conversation_append:
  "conversation step (xs @ ys) c = Option.bind (conversation step xs c) (conversation step ys)"
  by (induction xs arbitrary: c) (auto split: sum.split)

section \<open>Evidence\<close>

definition greets :: "server_env \<Rightarrow> bytes \<Rightarrow> SessionHelloParams \<Rightarrow> bool" where
  "greets E wire h =
    (\<exists>q. wv_request (sv_wire E) wire = Inr q \<and> rr_method q = ''session.hello''
         \<and> wv_hello (sv_wire E) (unwrap_or (rr_params q) Null) = Inr h)"

definition signs :: "server_env \<Rightarrow> bytes \<Rightarrow> bytes \<Rightarrow> SessionHelloParams \<Rightarrow> string \<Rightarrow> bytes \<Rightarrow> bool" where
  "signs E wire key h nonce ephemeral =
    (\<exists>q auth client signature. wv_request (sv_wire E) wire = Inr q \<and> rr_method q = ''session.authenticate''
       \<and> wv_authenticate (sv_wire E) (unwrap_or (rr_params q) Null) = Inr auth
       \<and> b64_decode (sv_b64 E) (sap_client_ephemeral_public_key auth) = Inr client \<and> length client = 32
       \<and> b64_decode (sv_b64 E) (sap_signature auth) = Inr signature
       \<and> verify_signature (sv_ed E) key
           (session_auth_transcript (sv_sha256 E) h nonce (sv_x25519_public E ephemeral) client) signature = Inr ())"

definition enrolled_peer :: "server_env \<Rightarrow> peer \<Rightarrow> SessionHelloParams \<Rightarrow> server_state \<Rightarrow> AgentPrincipal \<Rightarrow> bool" where
  "enrolled_peer E P h s agent =
    (get_enrolled_agent (b_store (ss_broker s)) (sh_principal_id h) = Inr agent \<and> ag_role agent = sh_role h
     \<and> verify_peer_identity E agent P = Inr True)"

definition handshake ::
    "server_env \<Rightarrow> string \<Rightarrow> (SessionHelloParams \<Rightarrow> server_state \<Rightarrow> server_state \<Rightarrow> bytes \<Rightarrow> bool) \<Rightarrow> frame list \<Rightarrow> string \<Rightarrow> bool" where
  "handshake E role admitted fs who =
    (\<exists>before T wire s between T' wire' s' after h key.
       fs = before @ (T, wire, s) # between @ (T', wire', s') # after
       \<and> greets E wire h \<and> sh_role h = role \<and> sh_principal_id h = who \<and> admitted h s s' key
       \<and> signs E wire' key h (tn_uuid T) (tn_ephemeral T))"

definition by_enrollment :: "server_env \<Rightarrow> peer \<Rightarrow> SessionHelloParams \<Rightarrow> server_state \<Rightarrow> server_state \<Rightarrow> bytes \<Rightarrow> bool" where
  "by_enrollment E P h s s' key = (\<exists>agent. enrolled_peer E P h s agent \<and> key = ag_public_key agent)"

definition by_daemon_key :: "server_env \<Rightarrow> SessionHelloParams \<Rightarrow> server_state \<Rightarrow> server_state \<Rightarrow> bytes \<Rightarrow> bool" where
  "by_daemon_key E h s s' key = (sh_principal_id h = ''local-admin'' \<and> key = ed_public (sv_ed E) (b_broker_key (ss_broker s')))"

lemma check_authentication_signs:
  "check_authentication E key h nonce ephemeral auth = Inr client \<Longrightarrow> wv_request (sv_wire E) wire = Inr q
    \<Longrightarrow> rr_method q = ''session.authenticate'' \<Longrightarrow> wv_authenticate (sv_wire E) (unwrap_or (rr_params q) Null) = Inr auth
    \<Longrightarrow> signs E wire key h nonce ephemeral"
  by (auto simp: check_authentication_def signs_def try_r_Inr_iff split: if_splits)

lemma enrolled_agent_id: "get_enrolled_agent d i = Inr agent \<Longrightarrow> ag_agent_id agent = i \<and> ag_state agent = ''enrolled''"
  by (auto simp: get_enrolled_agent_def enrolled_def find_Some_iff split: option.splits)

lemma handshake_more: "handshake E role admitted fs who \<Longrightarrow> handshake E role admitted (fs @ gs) who"
  unfolding handshake_def by (metis append.assoc append_Cons)

section \<open>The agent socket\<close>

definition greeted_by :: "server_env \<Rightarrow> peer \<Rightarrow> frame list \<Rightarrow> SessionHelloParams \<Rightarrow> AgentPrincipal \<Rightarrow> string \<Rightarrow> bytes \<Rightarrow> bool" where
  "greeted_by E P fs h agent nonce ephemeral =
    (\<exists>before T wire s after. fs = before @ (T, wire, s) # after \<and> greets E wire h \<and> sh_role h = ''agent''
       \<and> enrolled_peer E P h s agent \<and> nonce = tn_uuid T \<and> ephemeral = tn_ephemeral T)"

definition conn_ok :: "server_env \<Rightarrow> peer \<Rightarrow> frame list \<Rightarrow> AgentConn \<Rightarrow> bool" where
  "conn_ok E P fs c =
    ((case cn_pending c of None \<Rightarrow> True | Some (h, agent, nonce, ephemeral) \<Rightarrow>
        cn_channel c = None \<and> greeted_by E P fs h agent nonce ephemeral)
     \<and> (case cn_agent c of None \<Rightarrow> True | Some a \<Rightarrow>
        cn_channel c \<noteq> None \<and> cn_authenticated_at c \<noteq> None \<and> handshake E ''agent'' (by_enrollment E P) fs a))"

lemma greeted_by_more: "greeted_by E P fs h agent nonce ephemeral \<Longrightarrow> greeted_by E P (fs @ gs) h agent nonce ephemeral"
  unfolding greeted_by_def by (metis append.assoc append_Cons)

lemma greeted_then_signed:
  assumes "greeted_by E P fs h agent nonce ephemeral" "signs E wire (ag_public_key agent) h nonce ephemeral"
  shows "handshake E ''agent'' (by_enrollment E P) (fs @ [(T, wire, s)]) (ag_agent_id agent)"
proof -
  obtain before U wire0 s0 after where fs: "fs = before @ (U, wire0, s0) # after" and 1: "greets E wire0 h" "sh_role h = ''agent''"
    "enrolled_peer E P h s0 agent" "nonce = tn_uuid U" "ephemeral = tn_ephemeral U"
    using assms(1) by (auto simp: greeted_by_def)
  have "ag_agent_id agent = sh_principal_id h" using 1(3) enrolled_agent_id by (auto simp: enrolled_peer_def)
  moreover have "fs @ [(T, wire, s)] = before @ (U, wire0, s0) # after @ (T, wire, s) # []" using fs by simp
  ultimately show ?thesis using 1 assms(2) unfolding handshake_def by_enrollment_def by metis
qed

lemma bindh_result: "fst (bindh m f s) = Inr y \<longleftrightarrow> (\<exists>x u. m s = (Inr x, u) \<and> fst (f x u) = Inr y)"
  by (auto simp: bindh_def split: prod.splits sum.splits)

lemma required_result [simp]: "required r s = (Inr x, u) \<longleftrightarrow> r = Inr x \<and> u = s"
  by (auto simp: required_def)

lemma ensured_result [simp]: "ensured c message s = (Inr x, u) \<longleftrightarrow> c \<and> u = s"
  by (auto simp: ensured_def guardh_def)

lemma from_broker_result [simp]: "from_broker f s = (Inr x, u) \<longleftrightarrow> x = f (ss_broker s) \<and> u = s"
  by (auto simp: from_broker_def)

lemma agent_turn_ok:
  assumes "fst (agent_turn E P T wire c s) = Inr (out, c')"
  obtains msg d q a where "agent_receive E T c wire = Inr (msg, d)" "wv_request (sv_wire E) msg = Inr q"
    "fst (agent_dispatch E P T d q s) = Inr a" "agent_send E T a = Inr (out, c')"
  using assms by (auto simp: agent_turn_def bindh_result required_def[of "agent_send _ _ _"])

lemma answering_ok: "fst (answering c m s) = Inr a \<Longrightarrow> an_conn a = c \<and> an_activate a = None"
  by (auto simp: answering_def bindh_result)

lemma agent_hello_ok:
  assumes "fst (agent_hello E P T c i v s) = Inr a"
  shows "an_activate a = None \<and> (an_conn a = c \<or> (\<exists>h agent. cn_channel c = None \<and> wv_hello (sv_wire E) v = Inr h
    \<and> sh_role h = ''agent'' \<and> enrolled_peer E P h s agent
    \<and> an_conn a = c\<lparr>cn_pending := Some (h, agent, tn_uuid T, tn_ephemeral T)\<rparr>))"
  using assms unfolding agent_hello_def enrolled_peer_def
  by (auto simp: bindh_result split: if_splits option.splits sum.splits dest!: answering_ok)

lemma agent_authenticate_ok:
  assumes "fst (agent_authenticate E T c i v s) = Inr a"
  shows "(an_conn a = c \<and> an_activate a = None) \<or> (\<exists>h agent nonce ephemeral auth client ch.
    cn_pending c = Some (h, agent, nonce, ephemeral) \<and> wv_authenticate (sv_wire E) v = Inr auth
    \<and> check_authentication E (ag_public_key agent) h nonce ephemeral auth = Inr client
    \<and> an_conn a = c\<lparr>cn_pending := None, cn_agent := Some (ag_agent_id agent)\<rparr> \<and> an_activate a = Some ch \<and> \<not> an_plain a)"
  using assms unfolding agent_authenticate_def
  by (auto simp: bindh_result split: option.splits prod.splits)

lemma agent_dispatch_ok:
  assumes "fst (agent_dispatch E P T c q s) = Inr a"
  shows "(an_conn a = c \<and> an_activate a = None)
    \<or> (rr_method q = ''session.hello'' \<and> fst (agent_hello E P T c (rr_id q) (unwrap_or (rr_params q) Null) s) = Inr a)
    \<or> (rr_method q = ''session.authenticate'' \<and> fst (agent_authenticate E T c (rr_id q) (unwrap_or (rr_params q) Null) s) = Inr a)"
proof -
  have names: "map_of AGENT_METHODS x = Some HelloMethod \<Longrightarrow> x = ''session.hello''"
    "map_of AGENT_METHODS x = Some AuthenticateMethod \<Longrightarrow> x = ''session.authenticate''" for x
    by (auto simp: AGENT_METHODS_def split: if_splits dest!: map_of_SomeD)
  show ?thesis using assms names unfolding agent_dispatch_def Let_def
    by (auto split: option.splits agent_method.splits dest!: answering_ok)
qed

lemma agent_send_ok:
  assumes "agent_send E T a = Inr (out, c)"
  obtains (unchanged) ch where "c = (an_conn a)\<lparr>cn_channel := ch\<rparr>" "ch = None \<longleftrightarrow> cn_channel (an_conn a) = None"
      "an_plain a \<or> an_activate a = None"
  | (activated) ch since where "c = (an_conn a)\<lparr>cn_channel := Some ch, cn_authenticated_at := Some since\<rparr>" "an_activate a = Some ch"
proof -
  have same: "an_conn a = (an_conn a)\<lparr>cn_channel := cn_channel (an_conn a)\<rparr>" by simp
  let ?X = "\<lambda>body. case cn_channel (an_conn a) of None \<Rightarrow> Inr (body, an_conn a)
      | Some ch \<Rightarrow> (case encrypt (sv_aead E) ch body of (Inl _, _) \<Rightarrow> Inl ''encryption failed''
         | (Inr c, ch') \<Rightarrow> Inr (c, (an_conn a)\<lparr>cn_channel := Some ch'\<rparr>))"
  let ?done = "\<lambda>conn. case an_activate a of None \<Rightarrow> conn
      | Some ch \<Rightarrow> conn\<lparr>cn_channel := Some ch, cn_authenticated_at := Some (tn_now T)\<rparr>"
  from assms obtain body where body: "if an_plain a then (body, an_conn a) = (out, c)
      else \<exists>p. ?X body = Inr p \<and> (fst p, ?done (snd p)) = (out, c)"
    unfolding agent_send_def try_r_Inr_iff case_prod_beta
    by (cases "an_plain a") (simp_all add: try_r_Inr_iff, blast)
  have X: "\<exists>ch. snd p = (an_conn a)\<lparr>cn_channel := ch\<rparr> \<and> (ch = None \<longleftrightarrow> cn_channel (an_conn a) = None)" if "?X body = Inr p" for p
  proof (cases "cn_channel (an_conn a)")
    case None
    then have "snd p = an_conn a" using that by auto
    then show ?thesis by (intro exI[of _ "cn_channel (an_conn a)"] conjI refl) (rule trans[OF _ same])
  next
    case (Some x)
    then show ?thesis using that by (auto split: prod.splits sum.splits)
  qed
  show ?thesis
  proof (cases "an_plain a")
    case True
    then have "c = an_conn a" using body by simp
    then have "c = (an_conn a)\<lparr>cn_channel := cn_channel (an_conn a)\<rparr>" by simp
    then show ?thesis using True by (rule unchanged[OF _ refl disjI1])
  next
    case False
    then obtain p where p: "?X body = Inr p" "c = ?done (snd p)" using body by auto
    then obtain ch where ch: "snd p = (an_conn a)\<lparr>cn_channel := ch\<rparr>" "ch = None \<longleftrightarrow> cn_channel (an_conn a) = None"
      using X by blast
    show ?thesis
    proof (cases "an_activate a")
      case None
      then show ?thesis using p(2) ch by (intro unchanged[of ch]) simp_all
    next
      case (Some x)
      then show ?thesis using p(2) ch by (intro activated[where ch = x and since = "tn_now T"]) simp_all
    qed
  qed
qed

lemma agent_receive_ok:
  assumes "agent_receive E T c wire = Inr (msg, d)"
  shows "cn_agent d = cn_agent c" "cn_pending d = cn_pending c" "cn_authenticated_at d = cn_authenticated_at c"
    "cn_channel d = None \<longleftrightarrow> cn_channel c = None" "cn_channel c = None \<Longrightarrow> msg = wire"
  using assms by (auto simp: agent_receive_def split: option.splits if_splits prod.splits sum.splits)

lemma conn_ok_step:
  assumes "conn_ok E P fs c" "fst (agent_turn E P T wire c s) = Inr (out, c')"
  shows "conn_ok E P (fs @ [(T, wire, s)]) c'"
proof -
  let ?gs = "fs @ [(T, wire, s)]"
  from assms(2) obtain msg d q a where recv: "agent_receive E T c wire = Inr (msg, d)" and q: "wv_request (sv_wire E) msg = Inr q"
    and dsp: "fst (agent_dispatch E P T d q s) = Inr a" and snd: "agent_send E T a = Inr (out, c')"
    by (rule agent_turn_ok)
  note d = agent_receive_ok[OF recv]
  have cd: "conn_ok E P ?gs d" using assms(1) d greeted_by_more handshake_more
    by (auto simp: conn_ok_def split: option.splits)
  have plain: "conn_ok E P ?gs c'" if "conn_ok E P ?gs (an_conn a)" "an_activate a = None"
    using snd
  proof (cases rule: agent_send_ok)
    case (unchanged ch)
    then show ?thesis using that by (auto simp: conn_ok_def split: option.splits)
  qed (use that in simp)
  from agent_dispatch_ok[OF dsp] show ?thesis
  proof (elim disjE conjE)
    assume "an_conn a = d" "an_activate a = None"
    then show ?thesis using plain cd by simp
  next
    assume m: "rr_method q = ''session.hello''" "fst (agent_hello E P T d (rr_id q) (unwrap_or (rr_params q) Null) s) = Inr a"
    from agent_hello_ok[OF m(2)] show ?thesis
    proof (elim conjE disjE exE)
      fix h agent
      assume h: "cn_channel d = None" "wv_hello (sv_wire E) (unwrap_or (rr_params q) Null) = Inr h" "sh_role h = ''agent''"
        "enrolled_peer E P h s agent" "an_conn a = d\<lparr>cn_pending := Some (h, agent, tn_uuid T, tn_ephemeral T)\<rparr>"
      have "greets E wire h" using q m(1) h(2) d(4,5) h(1) by (auto simp: greets_def)
      then have "greeted_by E P ?gs h agent (tn_uuid T) (tn_ephemeral T)"
        using h(3,4) unfolding greeted_by_def by blast
      moreover assume "an_activate a = None"
      ultimately show ?thesis using plain cd h(1,5) by (auto simp: conn_ok_def split: option.splits)
    qed (use plain cd in simp)
  next
    assume m: "rr_method q = ''session.authenticate''" "fst (agent_authenticate E T d (rr_id q) (unwrap_or (rr_params q) Null) s) = Inr a"
    from agent_authenticate_ok[OF m(2)] show ?thesis
    proof (elim conjE disjE exE)
      fix h agent nonce ephemeral auth client ch
      assume au: "cn_pending d = Some (h, agent, nonce, ephemeral)" "wv_authenticate (sv_wire E) (unwrap_or (rr_params q) Null) = Inr auth"
        "check_authentication E (ag_public_key agent) h nonce ephemeral auth = Inr client"
        "an_conn a = d\<lparr>cn_pending := None, cn_agent := Some (ag_agent_id agent)\<rparr>" "an_activate a = Some ch" "\<not> an_plain a"
      have pend: "cn_channel c = None" "greeted_by E P fs h agent nonce ephemeral" using assms(1) au(1) d by (auto simp: conn_ok_def)
      then have "signs E wire (ag_public_key agent) h nonce ephemeral"
        using check_authentication_signs[OF au(3) _ m(1) au(2)] q d(5) by simp
      then have "handshake E ''agent'' (by_enrollment E P) ?gs (ag_agent_id agent)" using greeted_then_signed pend(2) by blast
      with snd show ?thesis
        by (cases rule: agent_send_ok) (use au in \<open>auto simp: conn_ok_def\<close>)
    qed (use plain cd in simp)
  qed
qed

lemma conversation_ok: "conversation (agent_step E P) fs AgentConn_new = Some c \<Longrightarrow> conn_ok E P fs c"
proof (induction fs arbitrary: c rule: rev_induct)
  case Nil
  then show ?case by (auto simp: conn_ok_def AgentConn_new_def)
next
  case (snoc f fs)
  obtain T wire s where f: "f = (T, wire, s)" by (cases f) auto
  from snoc.prems obtain c1 where "conversation (agent_step E P) fs AgentConn_new = Some c1" "agent_step E P f c1 = Inr c"
    unfolding conversation_append bind_eq_Some_conv by (elim exE conjE) (auto split: sum.split_asm)
  moreover from this(2) obtain out where "fst (agent_turn E P T wire c1 s) = Inr (out, c)"
    unfolding agent_step_def f by (cases "fst (agent_turn E P T wire c1 s)") auto
  ultimately show ?case using snoc.IH conn_ok_step f by blast
qed

text \<open>
  C6.  An agent connection is authenticated as an agent only when the conversation contains its proof: a greeting
  for that agent, at a moment when the agent was enrolled with the role of an agent and the peer at the other end had the
  identity of the enrollment, and after it a signature by the enrolled key over this greeting, the nonce and
  the ephemeral key that the daemon drew for it, and the client's ephemeral key.  From then on the connection
  has a channel, so frames are taken only when they decrypt under it.
\<close>

theorem agent_authenticated:
  "case conversation (agent_step E P) fs AgentConn_new of
     None \<Rightarrow> True
   | Some c \<Rightarrow>
     (case cn_agent c of
        None \<Rightarrow> True
      | Some a \<Rightarrow> cn_channel c \<noteq> None \<and> cn_authenticated_at c \<noteq> None \<and> handshake E ''agent'' (by_enrollment E P) fs a)"
  using conversation_ok[of E P fs] by (auto simp: conn_ok_def split: option.splits)

text \<open>
  A second \<open>session.authenticate\<close> on an authenticated connection is read through the channel and answered in the
  clear, outside the channel: the answer is the bare response.
\<close>

theorem repeated_authenticate_answered_in_clear:
  assumes "agent_receive E T c wire = Inr (msg, d)" "cn_pending c = None"
    and "wv_request (sv_wire E) msg = Inr q" "rr_method q = ''session.authenticate''"
    and "wv_authenticate (sv_wire E) (unwrap_or (rr_params q) Null) = Inr auth"
    and "wv_response (sv_wire E) (RpcResponse_error (rr_id q) (RpcError_new SECURITY_VIOLATION ''session.hello required'')) = Inr body"
  shows "agent_turn E P T wire c s = (Inr (body, d), s)"
proof -
  have "map_of AGENT_METHODS ''session.authenticate'' = Some AuthenticateMethod" by (simp add: AGENT_METHODS_def)
  moreover have "cn_pending d = None" using agent_receive_ok(2)[OF assms(1)] assms(2) by simp
  ultimately show ?thesis using assms
    by (simp add: agent_turn_def required_def bindh_def agent_dispatch_def Let_def agent_authenticate_def agent_send_def try_r_def)
qed

section \<open>The executor's and the administrator's sockets\<close>

lemma greeted_ok:
  assumes "fst (greeted E T admit wire s) = Inr (out, ph)"
  obtains h role u where "greets E wire h" "admit h s = (Inr role, u)" "ph = AwaitAuthenticate h role (tn_uuid T) (tn_ephemeral T)"
  using assms that unfolding greeted_def read_request_def reply_plain_def greets_def
  by (fastforce simp: bindh_result bindh_Inr_iff)

lemma authenticated_ok:
  assumes "fst (authenticated E T h role nonce ephemeral wire s) = Inr (out, ph)"
  obtains ch where "signs E wire (role_key E (ss_broker s) role) h nonce ephemeral" "ph = Serving ch (tn_now T)"
  using assms that unfolding authenticated_def read_request_def reply_plain_def
  by (fastforce simp: bindh_result bindh_Inr_iff dest: check_authentication_signs)

lemma served_ok:
  assumes "fst (served E T dispatch channel since wire s) = Inr (out, ph)"
  obtains ch where "ph = Serving ch since"
  using assms unfolding served_def
  by (auto simp: bindh_result split: prod.split_asm sum.split_asm) (metis surj_pair sum.exhaust)

text \<open>What the two sockets share: the order of the phases, and that a greeting is admitted only with a key.\<close>

locale phased_socket =
  fixes E :: server_env
    and role :: string
    and socket :: "turn \<Rightarrow> bytes \<Rightarrow> phase \<Rightarrow> (bytes \<times> phase) turn_handler"
    and admit :: "turn \<Rightarrow> SessionHelloParams \<Rightarrow> peer_role turn_handler"
    and dispatch :: "turn \<Rightarrow> json RpcRequest \<Rightarrow> reply RpcResponse turn_handler"
    and admitted :: "SessionHelloParams \<Rightarrow> server_state \<Rightarrow> server_state \<Rightarrow> bytes \<Rightarrow> bool"
  assumes socket_hello: "socket T wire AwaitHello = greeted E T (admit T) wire"
    and socket_authenticate: "socket T wire (AwaitAuthenticate h r nonce ephemeral) = authenticated E T h r nonce ephemeral wire"
    and socket_serve: "socket T wire (Serving channel since) = served E T (dispatch T) channel since wire"
    and admit_key: "admit T h s = (Inr r, u) \<Longrightarrow> sh_role h = role \<and> admitted h s s' (role_key E (ss_broker s') r)"
begin

definition phase_step :: "frame \<Rightarrow> phase \<Rightarrow> disconnect + phase" where
  "phase_step f ph = (case f of (T, wire, s) \<Rightarrow> map_sum id snd (fst (socket T wire ph s)))"

fun phase_ok :: "frame list \<Rightarrow> phase \<Rightarrow> bool" where
  "phase_ok fs AwaitHello = (fs = [])"
| "phase_ok fs (AwaitAuthenticate h r nonce ephemeral) =
    (\<exists>T wire s. fs = [(T, wire, s)] \<and> greets E wire h \<and> sh_role h = role \<and> (\<forall>s'. admitted h s s' (role_key E (ss_broker s') r))
       \<and> nonce = tn_uuid T \<and> ephemeral = tn_ephemeral T)"
| "phase_ok fs (Serving channel since) = (\<exists>who. handshake E role admitted fs who)"

lemma phase_ok_step:
  assumes "phase_ok fs ph" "fst (socket T wire ph s) = Inr (out, ph')"
  shows "phase_ok (fs @ [(T, wire, s)]) ph'"
proof (cases ph)
  case AwaitHello
  with assms(2) obtain h r u where "greets E wire h" "admit T h s = (Inr r, u)" "ph' = AwaitAuthenticate h r (tn_uuid T) (tn_ephemeral T)"
    unfolding AwaitHello socket_hello by (metis greeted_ok)
  then show ?thesis using assms(1) AwaitHello admit_key by fastforce
next
  case (AwaitAuthenticate h r nonce ephemeral)
  with assms(2) obtain ch where ph: "signs E wire (role_key E (ss_broker s) r) h nonce ephemeral" "ph' = Serving ch (tn_now T)"
    unfolding AwaitAuthenticate socket_authenticate by (metis authenticated_ok)
  from assms(1) AwaitAuthenticate obtain T0 wire0 s0 where "fs = [(T0, wire0, s0)]" "greets E wire0 h" "sh_role h = role"
    "admitted h s0 s (role_key E (ss_broker s) r)" "nonce = tn_uuid T0" "ephemeral = tn_ephemeral T0" by auto
  moreover from this(1) have "fs @ [(T, wire, s)] = [] @ (T0, wire0, s0) # [] @ (T, wire, s) # []" by simp
  ultimately have "handshake E role admitted (fs @ [(T, wire, s)]) (sh_principal_id h)"
    using ph(1) unfolding handshake_def by metis
  then show ?thesis using ph(2) by auto
next
  case (Serving channel since)
  with assms(2) obtain ch where "ph' = Serving ch since" unfolding Serving socket_serve by (metis served_ok)
  moreover obtain who where "handshake E role admitted fs who" using assms(1) Serving by auto
  ultimately show ?thesis using handshake_more by auto blast
qed

lemma phase_conversation: "conversation phase_step fs AwaitHello = Some ph \<Longrightarrow> phase_ok fs ph"
proof (induction fs arbitrary: ph rule: rev_induct)
  case (snoc f fs)
  obtain T wire s where f: "f = (T, wire, s)" by (cases f) auto
  from snoc.prems obtain ph1 where "conversation phase_step fs AwaitHello = Some ph1" "phase_step f ph1 = Inr ph"
    unfolding conversation_append bind_eq_Some_conv by (elim exE conjE) (auto split: sum.split_asm)
  moreover from this(2) obtain out where "fst (socket T wire ph1 s) = Inr (out, ph)"
    unfolding phase_step_def f by (cases "fst (socket T wire ph1 s)") auto
  ultimately show ?case using snoc.IH phase_ok_step f by blast
qed simp

end

interpretation executors: phased_socket E "''executor''" "executor_turn E P" "admit_executor E P" "executor_dispatch E" "by_enrollment E P"
  by unfold_locales (auto simp: admit_executor_def by_enrollment_def enrolled_peer_def bindh_Inr_iff split: if_splits sum.splits)

interpretation admins: phased_socket E "''admin''" "admin_turn E" "\<lambda>_. admit_admin" "admin_dispatch E" "by_daemon_key E"
  by unfold_locales (auto simp: admit_admin_def by_daemon_key_def bindh_Inr_iff)

text \<open>
  C32.  The executor's socket serves requests only after a handshake that is signed with the key of an enrolled executor whose
  enrollment the peer matches, and the administrator's only after one that is signed with the daemon's own key.
\<close>

theorem operators_authenticated:
  "(case conversation (executor_step E P) fs AwaitHello of
      Some (Serving channel since) \<Rightarrow> \<exists>who. handshake E ''executor'' (by_enrollment E P) fs who
    | _ \<Rightarrow> True)
   \<and> (case conversation (admin_step E) fs AwaitHello of
      Some (Serving channel since) \<Rightarrow> handshake E ''admin'' (by_daemon_key E) fs ''local-admin''
    | _ \<Rightarrow> True)"
proof -
  have steps: "executors.phase_step E P = executor_step E P" "admins.phase_step E = admin_step E"
    by (auto simp: fun_eq_iff executors.phase_step_def admins.phase_step_def executor_step_def admin_step_def)
  have "who = ''local-admin''" if "handshake E ''admin'' (by_daemon_key E) fs who" for who
    using that by (auto simp: handshake_def by_daemon_key_def)
  then show ?thesis using executors.phase_conversation[of E P fs] admins.phase_conversation[of E fs]
    unfolding steps by (auto split: option.split phase.split)
qed

end
