(* ===== verification/Clients.thy ===== *)
theory Clients
  imports Server_Authentication
begin

text \<open>
  The programs at the other end of the daemon's sockets: the native host (\<open>secretctl-native-host/src/bridge.rs\<close>),
  the command line (\<open>AdminClient\<close> in \<open>secretctl-cli/src/main.rs\<close>) and the desktop application
  (\<open>desktop/src-tauri/src/admin.rs\<close>).  All three greet the daemon, check that its answer is signed with the key
  they have pinned, sign the transcript themselves and then speak through the encrypted channel.

  A client is a handler over the state \<open>'s\<close> of what is behind its socket, of which it knows only the two operations of
  \<open>socket\<close>: to open a connection, and to send a frame and wait for the answer.  Nothing is assumed of them, so that
  the peer may be anyone; \<open>link\<close> is the instance in which the peer is the daemon of the theory \<open>Server_Roles\<close>.
  The writers and readers that serde derives are the fields of \<open>client_wire\<close>.
\<close>

section \<open>The peer\<close>

record 's socket =
  so_open :: "('s, string, unit) handler"
  so_exchange :: "bytes \<Rightarrow> ('s, string, bytes) handler"

record client_wire =
  cw_hello :: "SessionHelloParams RpcRequest \<Rightarrow> string + bytes"
  cw_authenticate :: "SessionAuthenticateParams RpcRequest \<Rightarrow> string + bytes"
  cw_request :: "json RpcRequest \<Rightarrow> string + bytes"
  cw_hello_response :: "bytes \<Rightarrow> string + SessionHelloResult RpcResponse"
  cw_auth_result :: "bytes \<Rightarrow> string + SessionAuthenticateResult RpcResponse"
  cw_auth_response :: "bytes \<Rightarrow> string + json RpcResponse"
  cw_response :: "bytes \<Rightarrow> string + json RpcResponse"

definition RpcRequest_new :: "string \<Rightarrow> string \<Rightarrow> 'p option \<Rightarrow> 'p RpcRequest" where
  "RpcRequest_new i m params = \<lparr>rr_jsonrpc = ''2.0'', rr_id = IdString i, rr_method = m, rr_params = params\<rparr>"

section \<open>The handshake\<close>

definition hello_params :: "string \<Rightarrow> string \<Rightarrow> string \<Rightarrow> SessionHelloParams" where
  "hello_params role principal_id client_nonce =
    \<lparr>sh_protocol_version = ''1.0'', sh_role = role, sh_principal_id = principal_id, sh_client_nonce = client_nonce,
     sh_supported_suites = [SUITE]\<rparr>"

definition say_hello :: "client_wire \<Rightarrow> 's socket \<Rightarrow> string \<Rightarrow> SessionHelloParams \<Rightarrow> ('s, string, SessionHelloResult) handler" where
  "say_hello C so i hello =
    bindh (lifth (cw_hello C (RpcRequest_new i ''session.hello'' (Some hello)))) (\<lambda>frame.
    bindh (so_exchange so frame) (\<lambda>hello_wire.
    bindh (lifth (cw_hello_response C hello_wire)) (\<lambda>hello_response.
    lifth (ok_or ''daemon rejected the hello'' (rp_result hello_response)))))"

text \<open>The daemon's ephemeral key, when the pinned key has signed it for this greeting.\<close>

definition check_broker :: "server_env \<Rightarrow> bytes \<Rightarrow> SessionHelloParams \<Rightarrow> SessionHelloResult \<Rightarrow> string + bytes" where
  "check_broker E broker_public_key hello server =
    try_r (b64_decode (sv_b64 E) (hr_ephemeral_public_key server)) (\<lambda>server_public.
    if length server_public \<noteq> 32 then Inl ''invalid broker ephemeral key''
    else try_r (b64_decode (sv_b64 E) (hr_signature server)) (\<lambda>server_signature.
      try_r (map_err (\<lambda>_. ''broker identity pin rejected'')
        (verify_signature (sv_ed E) broker_public_key
          (hello_transcript E hello (hr_server_nonce server) server_public) server_signature)) (\<lambda>_.
      Inr server_public)))"

definition authentication :: "server_env \<Rightarrow> bytes \<Rightarrow> SessionHelloParams \<Rightarrow> string \<Rightarrow> bytes \<Rightarrow> bytes \<Rightarrow> SessionAuthenticateParams" where
  "authentication E signing_key hello server_nonce server_public client_ephemeral =
    (let client_public = sv_x25519_public E client_ephemeral in
     \<lparr>sap_client_ephemeral_public_key = b64_encode (sv_b64 E) client_public,
      sap_signature = b64_encode (sv_b64 E) (ed_sign (sv_ed E) signing_key
        (session_auth_transcript (sv_sha256 E) hello server_nonce server_public client_public))\<rparr>)"

definition say_authenticate :: "client_wire \<Rightarrow> 's socket \<Rightarrow> string \<Rightarrow> SessionAuthenticateParams \<Rightarrow> ('s, string, bytes) handler" where
  "say_authenticate C so i auth =
    bindh (lifth (cw_authenticate C (RpcRequest_new i ''session.authenticate'' (Some auth)))) (so_exchange so)"

definition client_channel :: "server_env \<Rightarrow> string \<Rightarrow> string \<Rightarrow> bytes \<Rightarrow> bytes \<Rightarrow> SecureChannel" where
  "client_channel E label server_nonce server_public client_ephemeral =
    new_client (sv_hkdf E) (sv_diffie_hellman E client_ephemeral server_public) (as_bytes server_nonce) (as_bytes label)"

text \<open>The native host.\<close>

definition bridge_connect ::
    "server_env \<Rightarrow> client_wire \<Rightarrow> 's socket \<Rightarrow> string \<Rightarrow> bytes \<Rightarrow> bytes \<Rightarrow> string \<Rightarrow> bytes \<Rightarrow> ('s, string, SecureChannel) handler" where
  "bridge_connect E C so principal_id signing_key broker_public_key client_nonce client_ephemeral =
    bindh (so_open so) (\<lambda>_.
    let hello = hello_params ''executor'' principal_id client_nonce in
    bindh (say_hello C so ''native-hello'' hello) (\<lambda>server.
    bindh (guardh (hr_protocol_version server = ''1.0'') ''protocol downgrade rejected'') (\<lambda>_.
    bindh (lifth (check_broker E broker_public_key hello server)) (\<lambda>server_public.
    bindh (say_authenticate C so ''native-auth''
        (authentication E signing_key hello (hr_server_nonce server) server_public client_ephemeral)) (\<lambda>auth_wire.
    bindh (lifth (cw_auth_result C auth_wire)) (\<lambda>auth_response.
    bindh (guardh (is_some_and (rp_result auth_response) sar_authenticated) ''broker rejected executor authentication'') (\<lambda>_.
    returnh (client_channel E ''secretctl-executor-session-v1'' (hr_server_nonce server) server_public client_ephemeral))))))))"

text \<open>
  What the two administrators' clients take from outside when they connect: the signing key from the key store,
  the pinned key from its file, random bytes and the clock.
\<close>

record client_inputs =
  ci_signing_secret :: "string + bytes"
  ci_pinned_public :: "string + bytes"
  ci_random :: bytes
  ci_ephemeral :: bytes
  ci_now :: int

definition random_nonce :: "server_env \<Rightarrow> bytes \<Rightarrow> string" where
  "random_nonce E random = b64_encode (sv_b64 E) random"

definition installation_keys :: "server_env \<Rightarrow> client_inputs \<Rightarrow> string + bytes \<times> bytes" where
  "installation_keys E I =
    try_r (ci_signing_secret I) (\<lambda>signing_secret.
    try_r (map_err (\<lambda>_. ''invalid key length'') (KeyPair_from_bytes signing_secret)) (\<lambda>signing_key.
    try_r (ci_pinned_public I) (\<lambda>pinned_public.
    if pinned_public \<noteq> ed_public (sv_ed E) signing_key then Inl ''broker key pin does not match the Keychain key''
    else Inr (signing_key, pinned_public))))"

definition admin_connect :: "server_env \<Rightarrow> client_wire \<Rightarrow> 's socket \<Rightarrow> client_inputs \<Rightarrow> ('s, string, SecureChannel) handler" where
  "admin_connect E C so I =
    bindh (lifth (installation_keys E I)) (\<lambda>(signing_key, pinned_public).
    bindh (so_open so) (\<lambda>_.
    let hello = hello_params ''admin'' ''local-admin'' (random_nonce E (ci_random I)) in
    bindh (say_hello C so ''hello'' hello) (\<lambda>server.
    bindh (lifth (check_broker E pinned_public hello server)) (\<lambda>server_public.
    bindh (say_authenticate C so ''auth''
        (authentication E signing_key hello (hr_server_nonce server) server_public (ci_ephemeral I))) (\<lambda>auth_wire.
    bindh (lifth (cw_auth_response C auth_wire)) (\<lambda>auth_response.
    bindh (guardh (rp_error auth_response = None) ''daemon rejected admin authentication'') (\<lambda>_.
    returnh (client_channel E ''secretctl-admin-session-v1'' (hr_server_nonce server) server_public (ci_ephemeral I)))))))))"

section \<open>Calls\<close>

record AdminClient =
  ac_channel :: SecureChannel
  ac_next_id :: u64

record AdminSession = AdminClient +
  as_established_at :: int

datatype call_error = BrokerError int string | Transport string

text \<open>A request through the channel; the counters of the channel move even when the call fails.\<close>

definition send_request ::
    "server_env \<Rightarrow> client_wire \<Rightarrow> 's socket \<Rightarrow> json RpcRequest \<Rightarrow> SecureChannel \<Rightarrow> 's
     \<Rightarrow> (string + json RpcResponse) \<times> SecureChannel \<times> 's" where
  "send_request E C so request ch s =
    (case cw_request C request of
       Inl e \<Rightarrow> (Inl e, ch, s)
     | Inr body \<Rightarrow>
       (case encrypt (sv_aead E) ch body of
          (Inl _, ch1) \<Rightarrow> (Inl ''encryption failed'', ch1, s)
        | (Inr encrypted, ch1) \<Rightarrow>
          (case so_exchange so encrypted s of
             (Inl e, s1) \<Rightarrow> (Inl e, ch1, s1)
           | (Inr wire, s1) \<Rightarrow>
             (case decrypt (sv_aead E) ch1 wire of
                (Inl _, ch2) \<Rightarrow> (Inl ''decryption failed'', ch2, s1)
              | (Inr msg, ch2) \<Rightarrow> (cw_response C msg, ch2, s1)))))"

definition understood :: "json RpcResponse \<Rightarrow> call_error + json" where
  "understood response =
    (case rp_error response of
       Some e \<Rightarrow> Inl (BrokerError (re_code e) (re_message e))
     | None \<Rightarrow> ok_or (Transport ''daemon returned no result'') (rp_result response))"

definition numbered :: "u64 \<Rightarrow> string \<Rightarrow> json \<Rightarrow> json RpcRequest" where
  "numbered n m params = RpcRequest_new (show_nat (unat n)) m (Some params)"

definition client_call ::
    "server_env \<Rightarrow> client_wire \<Rightarrow> 's socket \<Rightarrow> string \<Rightarrow> json \<Rightarrow> 'a AdminClient_scheme \<Rightarrow> 's
     \<Rightarrow> (call_error + json) \<times> 'a AdminClient_scheme \<times> 's" where
  "client_call E C so m params c s =
    (case send_request E C so (numbered (ac_next_id c) m params) (ac_channel c) s of
       (r, ch, s1) \<Rightarrow> (try_r (map_err Transport r) understood, c\<lparr>ac_channel := ch, ac_next_id := ac_next_id c + 1\<rparr>, s1))"

section \<open>The command line\<close>

definition AdminClient_connect :: "server_env \<Rightarrow> client_wire \<Rightarrow> 's socket \<Rightarrow> client_inputs \<Rightarrow> ('s, string, AdminClient) handler" where
  "AdminClient_connect E C so I =
    bindh (admin_connect E C so I) (\<lambda>ch. returnh \<lparr>ac_channel = ch, ac_next_id = 1\<rparr>)"

definition AdminClient_call ::
    "server_env \<Rightarrow> client_wire \<Rightarrow> 's socket \<Rightarrow> string \<Rightarrow> json \<Rightarrow> AdminClient \<Rightarrow> 's \<Rightarrow> (call_error + json) \<times> AdminClient \<times> 's" where
  "AdminClient_call = client_call"

text \<open>Several calls on one connection, until one fails: every command returns at its first error.\<close>

fun AdminClient_calls ::
    "server_env \<Rightarrow> client_wire \<Rightarrow> 's socket \<Rightarrow> (string \<times> json) list \<Rightarrow> AdminClient \<Rightarrow> 's
     \<Rightarrow> (call_error + json list) \<times> AdminClient \<times> 's" where
  "AdminClient_calls E C so [] c s = (Inr [], c, s)"
| "AdminClient_calls E C so ((m, params) # qs) c s =
    (case AdminClient_call E C so m params c s of
       (Inl e, c1, s1) \<Rightarrow> (Inl e, c1, s1)
     | (Inr x, c1, s1) \<Rightarrow>
       (case AdminClient_calls E C so qs c1 s1 of
          (Inl e, c2, s2) \<Rightarrow> (Inl e, c2, s2)
        | (Inr xs, c2, s2) \<Rightarrow> (Inr (x # xs), c2, s2)))"

section \<open>The desktop application\<close>

definition SESSION_MAX_AGE :: int where
  "SESSION_MAX_AGE = 480 * nanos"

definition AdminSession_connect :: "server_env \<Rightarrow> client_wire \<Rightarrow> 's socket \<Rightarrow> client_inputs \<Rightarrow> ('s, string, AdminSession) handler" where
  "AdminSession_connect E C so I =
    bindh (admin_connect E C so I) (\<lambda>ch.
    returnh \<lparr>ac_channel = ch, ac_next_id = 1, as_established_at = ci_now I\<rparr>)"

definition is_expiring :: "int \<Rightarrow> AdminSession \<Rightarrow> bool" where
  "is_expiring now a = (now - as_established_at a \<ge> SESSION_MAX_AGE)"

definition AdminSession_call ::
    "server_env \<Rightarrow> client_wire \<Rightarrow> 's socket \<Rightarrow> string \<Rightarrow> json \<Rightarrow> AdminSession \<Rightarrow> 's \<Rightarrow> (call_error + json) \<times> AdminSession \<times> 's" where
  "AdminSession_call = client_call"

text \<open>One call: the session is renewed when it is old, and made again once when the transport fails.\<close>

definition AdminConnection_call ::
    "server_env \<Rightarrow> client_wire \<Rightarrow> 's socket \<Rightarrow> int \<Rightarrow> client_inputs \<Rightarrow> client_inputs \<Rightarrow> string \<Rightarrow> json
     \<Rightarrow> AdminSession option \<Rightarrow> 's \<Rightarrow> (call_error + json) \<times> AdminSession option \<times> 's" where
  "AdminConnection_call E C so now I I' m params guard s =
    (case (if is_some_and guard (is_expiring now) then None else guard) of
       live \<Rightarrow>
       (case (case live of Some a \<Rightarrow> (Inr a, s) | None \<Rightarrow> AdminSession_connect E C so I s) of
          (Inl e, s1) \<Rightarrow> (Inl (Transport e), None, s1)
        | (Inr a, s1) \<Rightarrow>
          (case AdminSession_call E C so m params a s1 of
             (Inr x, a1, s2) \<Rightarrow> (Inr x, Some a1, s2)
           | (Inl (BrokerError code message), a1, s2) \<Rightarrow> (Inl (BrokerError code message), Some a1, s2)
           | (Inl (Transport e), a1, s2) \<Rightarrow>
             (case AdminSession_connect E C so I' s2 of
                (Inl _, s3) \<Rightarrow> (Inl (Transport e), None, s3)
              | (Inr a2, s3) \<Rightarrow>
                (case AdminSession_call E C so m params a2 s3 of
                   (Inl e', a3, s4) \<Rightarrow> (Inl e', None, s4)
                 | (Inr x, a3, s4) \<Rightarrow> (Inr x, Some a3, s4))))))"

definition is_reachable ::
    "server_env \<Rightarrow> client_wire \<Rightarrow> 's socket \<Rightarrow> int \<Rightarrow> client_inputs \<Rightarrow> client_inputs \<Rightarrow> AdminSession option \<Rightarrow> 's
     \<Rightarrow> bool \<times> AdminSession option \<times> 's" where
  "is_reachable E C so now I I' guard s =
    (case AdminConnection_call E C so now I I' ''admin.ping'' (Object []) guard s of (r, guard1, s1) \<Rightarrow> (is_ok r, guard1, s1))"

section \<open>The daemon as the peer\<close>

text \<open>
  The state of a connection to the daemon: the phase of the connection, if it is open, the daemon, and for every frame
  to come what the daemon takes from outside and whether its answer arrives.
\<close>

record link =
  lk_phase :: "phase option"
  lk_server :: server_state
  lk_turns :: "(turn \<times> bool) list"

definition link_exchange ::
    "(turn \<Rightarrow> bytes \<Rightarrow> phase \<Rightarrow> (bytes \<times> phase) turn_handler) \<Rightarrow> bytes \<Rightarrow> (link, string, bytes) handler" where
  "link_exchange respond wire l =
    (case (lk_phase l, lk_turns l) of
       (Some ph, (T, arrives) # ts) \<Rightarrow>
       (case respond T wire ph (lk_server l) of
          (Inl _, s) \<Rightarrow> (Inl ''daemon closed'', \<lparr>lk_phase = None, lk_server = s, lk_turns = ts\<rparr>)
        | (Inr (out, ph1), s) \<Rightarrow>
          if arrives then (Inr out, \<lparr>lk_phase = Some ph1, lk_server = s, lk_turns = ts\<rparr>)
          else (Inl ''connection lost'', \<lparr>lk_phase = None, lk_server = s, lk_turns = ts\<rparr>))
     | _ \<Rightarrow> (Inl ''not connected'', l))"

definition link_socket :: "(turn \<Rightarrow> bytes \<Rightarrow> phase \<Rightarrow> (bytes \<times> phase) turn_handler) \<Rightarrow> link socket" where
  "link_socket respond = \<lparr>so_open = (\<lambda>l. (Inr (), l\<lparr>lk_phase := Some AwaitHello\<rparr>)), so_exchange = link_exchange respond\<rparr>"

text \<open>What a request does without the channel: the daemon reads it, serves it, and the client reads the answer.\<close>

definition answered_in_clear ::
    "server_env \<Rightarrow> (json RpcRequest \<Rightarrow> reply RpcResponse turn_handler) \<Rightarrow> bytes \<Rightarrow> bytes turn_handler" where
  "answered_in_clear E dispatch body =
    bindh (required (wv_request (sv_wire E) body)) (\<lambda>request.
    bindh (dispatch request) (\<lambda>response.
    required (wv_response (sv_wire E) response)))"

definition direct ::
    "server_env \<Rightarrow> client_wire \<Rightarrow> (json RpcRequest \<Rightarrow> reply RpcResponse turn_handler) \<Rightarrow> json RpcRequest
     \<Rightarrow> json RpcResponse turn_handler" where
  "direct E C dispatch request =
    bindh (required (cw_request C request)) (\<lambda>body.
    bindh (answered_in_clear E dispatch body) (\<lambda>answer.
    required (cw_response C answer)))"

fun direct_calls ::
    "server_env \<Rightarrow> client_wire \<Rightarrow> (turn \<Rightarrow> json RpcRequest \<Rightarrow> reply RpcResponse turn_handler) \<Rightarrow> u64
     \<Rightarrow> (turn \<times> string \<times> json) list \<Rightarrow> (call_error + json list) turn_handler" where
  "direct_calls E C dispatch n [] = returnh (Inr [])"
| "direct_calls E C dispatch n ((T, m, params) # qs) =
    bindh (direct E C (dispatch T) (numbered n m params)) (\<lambda>response.
    case understood response of
      Inl e \<Rightarrow> returnh (Inl e)
    | Inr x \<Rightarrow> bindh (direct_calls E C dispatch (n + 1) qs) (\<lambda>r. returnh (try_r r (\<lambda>xs. Inr (x # xs)))))"

section \<open>Laws\<close>

text \<open>
  What the clients rely on.  \<open>x25519_laws\<close>: both sides of the key exchange get the same secret.  \<open>seal_total\<close>: the cipher
  seals every message.  \<open>client_wire_laws\<close>: the messages of the handshake are read as they were written.
\<close>

definition x25519_laws :: "server_env \<Rightarrow> bool" where
  "x25519_laws E = (\<forall>a b. length (sv_x25519_public E a) = 32
     \<and> sv_diffie_hellman E a (sv_x25519_public E b) = sv_diffie_hellman E b (sv_x25519_public E a))"

definition seal_total :: "aead \<Rightarrow> bool" where
  "seal_total A = (\<forall>k n p. \<exists>c. seal A k (format_nonce n) p = Inr c)"

definition client_wire_laws :: "wire_env \<Rightarrow> client_wire \<Rightarrow> bool" where
  "client_wire_laws W C =
    ((\<forall>i h. \<exists>w v. cw_hello C (RpcRequest_new i ''session.hello'' (Some h)) = Inr w
        \<and> wv_request W w = Inr (RpcRequest_new i ''session.hello'' (Some v)) \<and> wv_hello W v = Inr h)
     \<and> (\<forall>i a. \<exists>w v. cw_authenticate C (RpcRequest_new i ''session.authenticate'' (Some a)) = Inr w
        \<and> wv_request W w = Inr (RpcRequest_new i ''session.authenticate'' (Some v)) \<and> wv_authenticate W v = Inr a)
     \<and> (\<forall>i r. \<exists>w. wv_response W (RpcResponse_success (IdString i) (HelloReply r)) = Inr w
        \<and> cw_hello_response C w = Inr (RpcResponse_success (IdString i) r))
     \<and> (\<forall>i r. \<exists>w v. wv_response W (RpcResponse_success (IdString i) (AuthenticatedReply r)) = Inr w
        \<and> cw_auth_result C w = Inr (RpcResponse_success (IdString i) r)
        \<and> cw_auth_response C w = Inr (RpcResponse_success (IdString i) v)))"

definition session_laws :: "server_env \<Rightarrow> client_wire \<Rightarrow> bool" where
  "session_laws E C = (ed25519_laws (sv_ed E) \<and> base64_laws (sv_b64 E) \<and> x25519_laws E \<and> aead_laws (sv_aead E)
     \<and> seal_total (sv_aead E) \<and> client_wire_laws (sv_wire E) C)"

section \<open>Whom a client trusts\<close>

lemma check_broker_ok:
  "check_broker E pin hello server = Inr public \<longleftrightarrow>
     b64_decode (sv_b64 E) (hr_ephemeral_public_key server) = Inr public \<and> length public = 32
     \<and> (\<exists>signature. b64_decode (sv_b64 E) (hr_signature server) = Inr signature
          \<and> verify_signature (sv_ed E) pin (hello_transcript E hello (hr_server_nonce server) public) signature = Inr ())"
  by (auto simp: check_broker_def try_r_Inr_iff)

lemma installation_keys_ok:
  "installation_keys E I = Inr (k, pin) \<longleftrightarrow>
     ci_signing_secret I = Inr k \<and> length k = 32 \<and> ci_pinned_public I = Inr pin \<and> pin = ed_public (sv_ed E) k"
  by (auto simp: installation_keys_def try_r_Inr_iff KeyPair_from_bytes_def)

lemma say_hello_ok:
  "say_hello C so i h s = (Inr server, s2) \<Longrightarrow>
    \<exists>frame wire response. so_exchange so frame s = (Inr wire, s2) \<and> cw_hello_response C wire = Inr response \<and> rp_result response = Some server"
  by (auto simp: say_hello_def bindh_Inr_iff ok_or_def split: option.splits)

definition vouched :: "server_env \<Rightarrow> client_wire \<Rightarrow> 's socket \<Rightarrow> bytes \<Rightarrow> SessionHelloParams \<Rightarrow> SessionHelloResult \<Rightarrow> bytes \<Rightarrow> bool" where
  "vouched E C so pin hello server public =
    (\<exists>frame s wire s' response signature. so_exchange so frame s = (Inr wire, s') \<and> cw_hello_response C wire = Inr response
       \<and> rp_result response = Some server \<and> b64_decode (sv_b64 E) (hr_ephemeral_public_key server) = Inr public
       \<and> b64_decode (sv_b64 E) (hr_signature server) = Inr signature
       \<and> verify_signature (sv_ed E) pin (hello_transcript E hello (hr_server_nonce server) public) signature = Inr ())"

lemma vouchedI: "say_hello C so i h s = (Inr server, s2) \<Longrightarrow> check_broker E pin h server = Inr public \<Longrightarrow> vouched E C so pin h server public"
  unfolding vouched_def check_broker_ok by (drule say_hello_ok) blast

lemma bridge_connect_ok:
  assumes "bridge_connect E C so who key pin nonce ephemeral s = (Inr ch, s9)"
  shows "\<exists>server public. vouched E C so pin (hello_params ''executor'' who nonce) server public \<and> hr_protocol_version server = ''1.0''
        \<and> ch = client_channel E ''secretctl-executor-session-v1'' (hr_server_nonce server) public ephemeral"
  using assms by (auto simp: bridge_connect_def bindh_Inr_iff[of "so_open so"] bindh_Inr_iff[of "say_hello _ _ _ _"]
            bindh_Inr_iff[of "say_authenticate _ _ _ _"] Let_def intro: vouchedI)

lemma admin_connect_ok:
  assumes "admin_connect E C so I s = (Inr ch, s9)"
  shows "\<exists>k server public. ci_signing_secret I = Inr k \<and> ci_pinned_public I = Inr (ed_public (sv_ed E) k)
        \<and> vouched E C so (ed_public (sv_ed E) k) (hello_params ''admin'' ''local-admin'' (random_nonce E (ci_random I))) server public
        \<and> ch = client_channel E ''secretctl-admin-session-v1'' (hr_server_nonce server) public (ci_ephemeral I)"
  using assms by (auto simp: admin_connect_def installation_keys_ok bindh_Inr_iff[of "so_open so"] bindh_Inr_iff[of "say_hello _ _ _ _"]
            bindh_Inr_iff[of "say_authenticate _ _ _ _"] Let_def intro: vouchedI)

section \<open>The channel is transparent\<close>

lemma encrypt_possible:
  "seal_total A \<Longrightarrow> tx_nonce ch \<noteq> - 1 \<Longrightarrow> \<exists>c. encrypt A ch p = (Inr c, ch\<lparr>tx_nonce := tx_nonce ch + 1\<rparr>)"
  by (auto simp: seal_total_def encrypt_def checked_succ_def Let_def)

definition synchronized :: "SecureChannel \<Rightarrow> SecureChannel \<Rightarrow> bool" where
  "synchronized ch ch' = (in_step ch ch' \<and> in_step ch' ch \<and> tx_nonce ch = tx_nonce ch')"

text \<open>A message from one side to the other.\<close>

lemma transmit:
  assumes "aead_laws A" "seal_total A" "in_step s r" "tx_nonce s \<noteq> - 1"
  obtains c where "encrypt A s p = (Inr c, s\<lparr>tx_nonce := tx_nonce s + 1\<rparr>)"
    "decrypt A r c = (Inr p, r\<lparr>rx_nonce := rx_nonce r + 1\<rparr>)"
proof -
  obtain c where e: "encrypt A s p = (Inr c, s\<lparr>tx_nonce := tx_nonce s + 1\<rparr>)" using encrypt_possible assms(2,4) by blast
  have "unseal A (rx_key r) (format_nonce (rx_nonce r)) c = Some p"
    using encrypt_ok(1)[OF e] assms(1,3) by (simp add: aead_laws_def in_step_def)
  moreover have "checked_succ (rx_nonce r) = Some (rx_nonce r + 1)" using assms(3,4) by (simp add: in_step_def checked_succ_def)
  ultimately have "decrypt A r c = (Inr p, r\<lparr>rx_nonce := rx_nonce r + 1\<rparr>)" by (simp add: decrypt_def)
  then show ?thesis using e that by blast
qed

lemma synchronized_round:
  assumes "synchronized ch ch'"
  shows "synchronized (ch\<lparr>tx_nonce := tx_nonce ch + 1, rx_nonce := rx_nonce ch + 1\<rparr>)
       (ch'\<lparr>rx_nonce := rx_nonce ch' + 1, tx_nonce := tx_nonce ch' + 1\<rparr>)"
  using assms by (auto simp: synchronized_def in_step_def)

lemma served_in_clear:
  assumes "elapsed_seconds (tn_now T) since < 600" "decrypt (sv_aead E) ch wire = (Inr body, ch1)"
    and "\<And>answer. encrypt (sv_aead E) ch1 answer = (Inr (wires answer), ch2)"
  shows "served E T dispatch ch since wire s =
    (case answered_in_clear E dispatch body s of
       (Inl e, s1) \<Rightarrow> (Inl e, s1) | (Inr answer, s1) \<Rightarrow> (Inr (wires answer, Serving ch2 since), s1))"
  using assms by (auto simp: served_def answered_in_clear_def bindh_def ensured_def guardh_def required_def split: sum.split prod.split)

context phased_socket
begin

text \<open>
  On a synchronized session a request through the channel has the effect on the daemon, and the answer, of the request
  without it; when the daemon answers, the session stays synchronized.
\<close>

lemma exchange_in_clear:
  assumes laws: "aead_laws (sv_aead E)" "seal_total (sv_aead E)"
    and l: "lk_phase l = Some (Serving sch since)" "lk_turns l = (T, arrives) # ts" "synchronized ch sch" "tx_nonce ch \<noteq> - 1"
    and fresh: "elapsed_seconds (tn_now T) since < 600"
    and ch1: "ch1 = ch\<lparr>tx_nonce := tx_nonce ch + 1\<rparr>"
    and sch1: "sch1 = sch\<lparr>rx_nonce := rx_nonce sch + 1, tx_nonce := tx_nonce sch + 1\<rparr>"
  obtains wire wires where "encrypt (sv_aead E) ch body = (Inr wire, ch1)"
    "link_exchange socket wire l =
      (case answered_in_clear E (dispatch T) body (lk_server l) of
         (Inl _, s) \<Rightarrow> (Inl ''daemon closed'', \<lparr>lk_phase = None, lk_server = s, lk_turns = ts\<rparr>)
       | (Inr answer, s) \<Rightarrow>
         if arrives then (Inr (wires answer), \<lparr>lk_phase = Some (Serving sch1 since), lk_server = s, lk_turns = ts\<rparr>)
         else (Inl ''connection lost'', \<lparr>lk_phase = None, lk_server = s, lk_turns = ts\<rparr>))"
    "\<And>answer. decrypt (sv_aead E) ch1 (wires answer) = (Inr answer, ch1\<lparr>rx_nonce := rx_nonce ch + 1\<rparr>)"
proof -
  have up: "in_step ch sch" and down: "in_step sch ch" and n: "tx_nonce sch = tx_nonce ch"
    using l(3) by (simp_all add: synchronized_def)
  obtain wire where wire: "encrypt (sv_aead E) ch body = (Inr wire, ch1)"
    "decrypt (sv_aead E) sch wire = (Inr body, sch\<lparr>rx_nonce := rx_nonce sch + 1\<rparr>)"
    using transmit[OF laws up l(4)] unfolding ch1 by blast
  let ?sch = "sch\<lparr>rx_nonce := rx_nonce sch + 1\<rparr>"
  have "\<exists>c. encrypt (sv_aead E) ?sch answer = (Inr c, sch1) \<and> decrypt (sv_aead E) ch1 c = (Inr answer, ch1\<lparr>rx_nonce := rx_nonce ch + 1\<rparr>)" for answer
    unfolding ch1 sch1 by (rule transmit[OF laws, of ?sch "ch\<lparr>tx_nonce := tx_nonce ch + 1\<rparr>" answer])
      (use down n l(4) in \<open>simp_all add: in_step_def\<close>)
  then obtain wires where heard: "\<And>answer. encrypt (sv_aead E) ?sch answer = (Inr (wires answer), sch1)"
    "\<And>answer. decrypt (sv_aead E) ch1 (wires answer) = (Inr answer, ch1\<lparr>rx_nonce := rx_nonce ch + 1\<rparr>)" by metis
  show ?thesis
    by (rule that[OF wire(1) _ heard(2)]) (simp add: link_exchange_def l socket_serve served_in_clear[OF fresh wire(2) heard(1)] split: sum.split prod.split)
qed

lemma send_request_direct:
  assumes laws: "aead_laws (sv_aead E)" "seal_total (sv_aead E)"
    and l: "lk_phase l = Some (Serving sch since)" "lk_turns l = (T, True) # ts" "synchronized ch sch" "tx_nonce ch \<noteq> - 1"
    and fresh: "elapsed_seconds (tn_now T) since < 600"
    and d: "direct E C (dispatch T) q (lk_server l) = (Inr response, s)"
  shows "send_request E C (link_socket socket) q ch l =
        (Inr response, ch\<lparr>tx_nonce := tx_nonce ch + 1, rx_nonce := rx_nonce ch + 1\<rparr>,
         \<lparr>lk_phase = Some (Serving (sch\<lparr>rx_nonce := rx_nonce sch + 1, tx_nonce := tx_nonce sch + 1\<rparr>) since),
          lk_server = s, lk_turns = ts\<rparr>)"
proof -
  from d obtain body answer where b: "cw_request C q = Inr body" "answered_in_clear E (dispatch T) body (lk_server l) = (Inr answer, s)"
    "cw_response C answer = Inr response"
    by (auto simp: direct_def bindh_Inr_iff)
  show ?thesis
    by (rule exchange_in_clear[OF laws l fresh refl refl, of body]) (use b in \<open>simp add: send_request_def link_socket_def\<close>)
qed

lemma client_call_direct:
  assumes "aead_laws (sv_aead E)" "seal_total (sv_aead E)"
    and "lk_phase l = Some (Serving sch since)" "lk_turns l = (T, True) # ts"
    and "synchronized (ac_channel c) sch" "tx_nonce (ac_channel c) \<noteq> - 1"
    and "elapsed_seconds (tn_now T) since < 600"
    and "direct E C (dispatch T) (numbered (ac_next_id c) m v) (lk_server l) = (Inr response, s)"
  obtains ch sch1 where "client_call E C (link_socket socket) m v c l =
      (understood response, c\<lparr>ac_channel := ch, ac_next_id := ac_next_id c + 1\<rparr>,
       \<lparr>lk_phase = Some (Serving sch1 since), lk_server = s, lk_turns = ts\<rparr>)"
    "synchronized ch sch1" "tx_nonce ch = tx_nonce (ac_channel c) + 1"
  using send_request_direct[OF assms] synchronized_round[OF assms(5)] by (simp add: client_call_def)

lemma calls_direct:
  assumes "aead_laws (sv_aead E)" "seal_total (sv_aead E)"
  shows "lk_phase l = Some (Serving sch since) \<Longrightarrow> lk_turns l = map (\<lambda>q. (fst q, True)) qs @ ts
    \<Longrightarrow> synchronized (ac_channel c) sch \<Longrightarrow> unat (tx_nonce (ac_channel c)) + length qs < 2 ^ 64 - 1
    \<Longrightarrow> list_all (\<lambda>q. elapsed_seconds (tn_now (fst q)) since < 600) qs
    \<Longrightarrow> direct_calls E C dispatch (ac_next_id c) qs (lk_server l) = (Inr r, s)
    \<Longrightarrow> \<exists>c' l'. AdminClient_calls E C (link_socket socket) (map snd qs) c l = (r, c', l') \<and> lk_server l' = s"
proof (induction qs arbitrary: c l sch r)
  case Nil
  then show ?case by simp
next
  case (Cons q qs)
  obtain T m v where q: "q = (T, m, v)" by (cases q)
  have last: "unat (- 1 :: u64) = 2 ^ 64 - 1" by (simp add: unsigned_minus_1_eq_mask mask_eq_exp_minus_1)
  have ne: "tx_nonce (ac_channel c) \<noteq> - 1" using Cons.prems(4) last by (metis add_lessD1 less_irrefl)
  from Cons.prems(6) obtain response u where d: "direct E C (dispatch T) (numbered (ac_next_id c) m v) (lk_server l) = (Inr response, u)"
    and rest: "(case understood response of Inl e \<Rightarrow> returnh (Inl e)
        | Inr x \<Rightarrow> bindh (direct_calls E C dispatch (ac_next_id c + 1) qs) (\<lambda>r. returnh (try_r r (\<lambda>xs. Inr (x # xs))))) u = (Inr r, s)"
    unfolding q by (auto simp: bindh_Inr_iff)
  have turns: "lk_turns l = (T, True) # map (\<lambda>q. (fst q, True)) qs @ ts" using Cons.prems(2) q by simp
  have fresh: "elapsed_seconds (tn_now T) since < 600" using Cons.prems(5) q by simp
  obtain ch sch1 where call: "client_call E C (link_socket socket) m v c l =
      (understood response, c\<lparr>ac_channel := ch, ac_next_id := ac_next_id c + 1\<rparr>,
       \<lparr>lk_phase = Some (Serving sch1 since), lk_server = u, lk_turns = map (\<lambda>q. (fst q, True)) qs @ ts\<rparr>)"
    and sync: "synchronized ch sch1" "tx_nonce ch = tx_nonce (ac_channel c) + 1"
    by (rule client_call_direct[OF assms Cons.prems(1) turns Cons.prems(3) ne fresh d])
  let ?c = "c\<lparr>ac_channel := ch, ac_next_id := ac_next_id c + 1\<rparr>"
    and ?l = "\<lparr>lk_phase = Some (Serving sch1 since), lk_server = u, lk_turns = map (\<lambda>q. (fst q, True)) qs @ ts\<rparr>"
  show ?case
  proof (cases "understood response")
    case (Inl e)
    then show ?thesis using rest call unfolding q by (simp add: AdminClient_call_def)
  next
    case (Inr x)
    with rest obtain r1 where r1: "direct_calls E C dispatch (ac_next_id c + 1) qs u = (Inr r1, s)"
      "r = try_r r1 (\<lambda>xs. Inr (x # xs))" by (auto simp: bindh_Inr_iff)
    have "unat (tx_nonce ch) = Suc (unat (tx_nonce (ac_channel c)))"
      using sync(2) ne checked_succ_unat[of "tx_nonce (ac_channel c)"] by (simp add: checked_succ_def)
    then have "\<exists>c' l'. AdminClient_calls E C (link_socket socket) (map snd qs) ?c ?l = (r1, c', l') \<and> lk_server l' = s"
      using Cons.IH[of ?l sch1 ?c r1] sync(1) r1(1) Cons.prems(4,5) by simp
    then show ?thesis using call Inr r1(2) unfolding q by (cases r1) (auto simp: AdminClient_call_def)
  qed
qed

text \<open>A client that holds the right keys and the daemon agree on the channel.\<close>

lemma handshake_agrees:
  assumes laws: "session_laws E C"
    and l: "lk_phase l = Some AwaitHello" "lk_turns l = (T, True) # (T', True) # ts"
    and admit: "admit T hello (lk_server l) = (Inr r, lk_server l)"
    and key: "role_key E (ss_broker (lk_server l)) r = ed_public (sv_ed E) key"
    and pin: "pin = ed_public (sv_ed E) (b_broker_key (ss_broker (lk_server l)))"
  obtains l1 server public wire sch v where
    "say_hello C (link_socket socket) i hello l = (Inr server, l1)" "hr_protocol_version server = ''1.0''"
    "check_broker E pin hello server = Inr public"
    "say_authenticate C (link_socket socket) j (authentication E key hello (hr_server_nonce server) public client_ephemeral) l1
      = (Inr wire, \<lparr>lk_phase = Some (Serving sch (tn_now T')), lk_server = lk_server l, lk_turns = ts\<rparr>)"
    "cw_auth_result C wire = Inr (RpcResponse_success (IdString j) rekey_result)"
    "cw_auth_response C wire = Inr (RpcResponse_success (IdString j) v)"
    "synchronized (client_channel E (role_label r) (hr_server_nonce server) public client_ephemeral) sch"
proof -
  have W: "client_wire_laws (sv_wire E) C" and ed: "ed25519_laws (sv_ed E)" and b64: "base64_laws (sv_b64 E)" and dh: "x25519_laws E"
    using laws by (simp_all add: session_laws_def)
  let ?s = "lk_server l" and ?public = "sv_x25519_public E (tn_ephemeral T)"
  let ?server = "hello_result E T hello (ss_broker ?s)"
  obtain w hv where h: "cw_hello C (RpcRequest_new i ''session.hello'' (Some hello)) = Inr w"
    "wv_request (sv_wire E) w = Inr (RpcRequest_new i ''session.hello'' (Some hv))" "wv_hello (sv_wire E) hv = Inr hello"
    using W unfolding client_wire_laws_def by blast
  obtain w1 where h1: "wv_response (sv_wire E) (RpcResponse_success (IdString i) (HelloReply ?server)) = Inr w1"
    "cw_hello_response C w1 = Inr (RpcResponse_success (IdString i) ?server)"
    using W unfolding client_wire_laws_def by blast
  let ?l1 = "\<lparr>lk_phase = Some (AwaitAuthenticate hello r (tn_uuid T) (tn_ephemeral T)), lk_server = ?s, lk_turns = (T', True) # ts\<rparr>"
  have "socket T w AwaitHello ?s = (Inr (w1, AwaitAuthenticate hello r (tn_uuid T) (tn_ephemeral T)), ?s)"
    using h h1 admit by (simp add: socket_hello greeted_def read_request_def reply_plain_def bindh_def required_def ensured_def
        guardh_def from_broker_def RpcRequest_new_def unwrap_or_def)
  then have 1: "say_hello C (link_socket socket) i hello l = (Inr ?server, ?l1)"
    using h(1) h1(2) l by (simp add: say_hello_def bindh_def link_socket_def link_exchange_def RpcResponse_success_def)
  have 2: "check_broker E pin hello ?server = Inr ?public"
    using ed b64 dh by (auto simp: check_broker_ok hello_result_def Let_def base64_laws_def x25519_laws_def pin)
  let ?auth = "authentication E key hello (hr_server_nonce ?server) ?public client_ephemeral"
  obtain w2 av where a: "cw_authenticate C (RpcRequest_new j ''session.authenticate'' (Some ?auth)) = Inr w2"
    "wv_request (sv_wire E) w2 = Inr (RpcRequest_new j ''session.authenticate'' (Some av))" "wv_authenticate (sv_wire E) av = Inr ?auth"
    using W unfolding client_wire_laws_def by blast
  obtain w3 v where a1: "wv_response (sv_wire E) (RpcResponse_success (IdString j) (AuthenticatedReply rekey_result)) = Inr w3"
    "cw_auth_result C w3 = Inr (RpcResponse_success (IdString j) rekey_result)" "cw_auth_response C w3 = Inr (RpcResponse_success (IdString j) v)"
    using W unfolding client_wire_laws_def by blast
  let ?sch = "session_channel E (tn_uuid T) (tn_ephemeral T) (sv_x25519_public E client_ephemeral) (role_label r)"
  have "check_authentication E (ed_public (sv_ed E) key) hello (tn_uuid T) (tn_ephemeral T) ?auth = Inr (sv_x25519_public E client_ephemeral)"
    using ed b64 dh by (simp add: check_authentication_def authentication_def Let_def hello_result_def base64_laws_def x25519_laws_def)
  then have "socket T' w2 (AwaitAuthenticate hello r (tn_uuid T) (tn_ephemeral T)) ?s = (Inr (w3, Serving ?sch (tn_now T')), ?s)"
    using a a1(1) key by (simp add: socket_authenticate authenticated_def read_request_def reply_plain_def bindh_def required_def ensured_def
        guardh_def from_broker_def RpcRequest_new_def unwrap_or_def)
  then have 3: "say_authenticate C (link_socket socket) j ?auth ?l1
      = (Inr w3, \<lparr>lk_phase = Some (Serving ?sch (tn_now T')), lk_server = ?s, lk_turns = ts\<rparr>)"
    using a(1) by (simp add: say_authenticate_def bindh_def link_socket_def link_exchange_def)
  have "sv_diffie_hellman E client_ephemeral ?public = sv_diffie_hellman E (tn_ephemeral T) (sv_x25519_public E client_ephemeral)"
    using dh unfolding x25519_laws_def by blast
  then have "synchronized (client_channel E (role_label r) (hr_server_nonce ?server) ?public client_ephemeral) ?sch"
    using fresh_channels_in_step by (simp add: synchronized_def client_channel_def session_channel_def hello_result_def Let_def
        new_client_def new_server_def split: prod.split)
  with 1 2 3 a1 show ?thesis by (intro that[of ?server ?l1 ?public w3 ?sch v]) (simp_all add: hello_result_def Let_def)
qed

end

section \<open>Connecting to the daemon\<close>

definition holds_keys :: "server_env \<Rightarrow> client_inputs \<Rightarrow> server_state \<Rightarrow> bool" where
  "holds_keys E I s =
    (let key = b_broker_key (ss_broker s) in
     ci_signing_secret I = Inr key \<and> length key = 32 \<and> ci_pinned_public I = Inr (ed_public (sv_ed E) key))"

lemma client_channel_fresh: "tx_nonce (client_channel E label nonce public ephemeral) = 0"
  by (simp add: client_channel_def new_client_def split: prod.split)

lemma link_open [simp]: "so_open (link_socket respond) l = (Inr (), l\<lparr>lk_phase := Some AwaitHello\<rparr>)"
  by (simp add: link_socket_def)

lemma admin_connects:
  assumes "session_laws E C" "holds_keys E I (lk_server l)" "lk_turns l = (T, True) # (T', True) # ts"
  obtains ch sch where "admin_connect E C (link_socket (admin_turn E)) I l =
      (Inr ch, \<lparr>lk_phase = Some (Serving sch (tn_now T')), lk_server = lk_server l, lk_turns = ts\<rparr>)"
    "synchronized ch sch" "tx_nonce ch = 0"
proof -
  let ?so = "link_socket (admin_turn E)" and ?key = "b_broker_key (ss_broker (lk_server l))"
  let ?hello = "hello_params ''admin'' ''local-admin'' (random_nonce E (ci_random I))" and ?l = "l\<lparr>lk_phase := Some AwaitHello\<rparr>"
  have keys: "installation_keys E I = Inr (?key, ed_public (sv_ed E) ?key)"
    using assms(2) by (simp add: installation_keys_ok holds_keys_def Let_def)
  have admit: "admit_admin ?hello (lk_server ?l) = (Inr AdminRole, lk_server ?l)"
    by (simp add: admit_admin_def hello_params_def ensured_def guardh_def)
  have l: "lk_phase ?l = Some AwaitHello" "lk_turns ?l = (T, True) # (T', True) # ts" using assms(3) by simp_all
  have role: "role_key E (ss_broker (lk_server ?l)) AdminRole = ed_public (sv_ed E) ?key" by simp
  obtain l1 server public wire sch v where h: "say_hello C (link_socket (admin_turn E)) ''hello'' ?hello ?l = (Inr server, l1)"
    "hr_protocol_version server = ''1.0''" "check_broker E (ed_public (sv_ed E) (b_broker_key (ss_broker (lk_server ?l)))) ?hello server = Inr public"
    "say_authenticate C (link_socket (admin_turn E)) ''auth'' (authentication E ?key ?hello (hr_server_nonce server) public (ci_ephemeral I)) l1
      = (Inr wire, \<lparr>lk_phase = Some (Serving sch (tn_now T')), lk_server = lk_server ?l, lk_turns = ts\<rparr>)"
    "cw_auth_result C wire = Inr (RpcResponse_success (IdString ''auth'') rekey_result)"
    "cw_auth_response C wire = Inr (RpcResponse_success (IdString ''auth'') v)"
    "synchronized (client_channel E (role_label AdminRole) (hr_server_nonce server) public (ci_ephemeral I)) sch"
    by (rule admins.handshake_agrees[OF assms(1) l admit role refl])
  show ?thesis
    by (rule that[OF _ h(7) client_channel_fresh]) (use h(1-6) keys in \<open>simp add: admin_connect_def Let_def bindh_def guardh_def RpcResponse_success_def\<close>)
qed

lemma bridge_connects:
  assumes "session_laws E C" "lk_turns l = (T, True) # (T', True) # ts" "sl_io (tn_world T 0) 0 = None"
    and "get_enrolled_agent (b_store (ss_broker (lk_server l))) who = Inr agent" "ag_role agent = ''executor''"
    and "verify_peer_identity E agent P = Inr True" "ag_public_key agent = ed_public (sv_ed E) key"
  obtains ch sch where "bridge_connect E C (link_socket (executor_turn E P)) who key
        (ed_public (sv_ed E) (b_broker_key (ss_broker (lk_server l)))) nonce ephemeral l =
      (Inr ch, \<lparr>lk_phase = Some (Serving sch (tn_now T')), lk_server = lk_server l, lk_turns = ts\<rparr>)"
    "synchronized ch sch" "tx_nonce ch = 0"
proof -
  let ?hello = "hello_params ''executor'' who nonce" and ?l = "l\<lparr>lk_phase := Some AwaitHello\<rparr>"
  have admit: "admit_executor E P T ?hello (lk_server ?l) = (Inr (ExecutorRole agent), lk_server ?l)"
    using assms(3-6) by (simp add: admit_executor_def hello_params_def ensured_def guardh_def bindh_def from_broker_def required_def)
  have l: "lk_phase ?l = Some AwaitHello" "lk_turns ?l = (T, True) # (T', True) # ts" using assms(2) by simp_all
  have role: "role_key E (ss_broker (lk_server ?l)) (ExecutorRole agent) = ed_public (sv_ed E) key" using assms(7) by simp
  obtain l1 server public wire sch v where h: "say_hello C (link_socket (executor_turn E P)) ''native-hello'' ?hello ?l = (Inr server, l1)"
    "hr_protocol_version server = ''1.0''" "check_broker E (ed_public (sv_ed E) (b_broker_key (ss_broker (lk_server ?l)))) ?hello server = Inr public"
    "say_authenticate C (link_socket (executor_turn E P)) ''native-auth'' (authentication E key ?hello (hr_server_nonce server) public (ephemeral)) l1
      = (Inr wire, \<lparr>lk_phase = Some (Serving sch (tn_now T')), lk_server = lk_server ?l, lk_turns = ts\<rparr>)"
    "cw_auth_result C wire = Inr (RpcResponse_success (IdString ''native-auth'') rekey_result)"
    "cw_auth_response C wire = Inr (RpcResponse_success (IdString ''native-auth'') v)"
    "synchronized (client_channel E (role_label (ExecutorRole agent)) (hr_server_nonce server) public (ephemeral)) sch"
    by (rule executors.handshake_agrees[OF assms(1) l admit role refl])
  show ?thesis
    by (rule that[OF _ h(7) client_channel_fresh]) (use h(1-6) in \<open>simp add: bridge_connect_def Let_def is_some_and_def rekey_result_def bindh_def guardh_def RpcResponse_success_def\<close>)
qed

lemma not_expiring_fresh:
  assumes "\<not> is_expiring now a" "(as_established_at a - since) + (arrival - now) \<le> 120 * nanos"
  shows "elapsed_seconds arrival since < 600"
proof -
  have "arrival - since < 600 * nanos" using assms by (simp add: is_expiring_def SESSION_MAX_AGE_def)
  then show ?thesis unfolding elapsed_seconds_def nanos_def by linarith
qed

end
