(* ===== verification/Client_Properties.thy ===== *)
theory Client_Properties
  imports Clients Broker_Ui_Properties Broker_Page_Properties
begin

text \<open>
  What the clients of the daemon can rely on: they speak only to the holder of the pinned key, and a session with the daemon
  is as good as calling it directly.  The samples are a daemon, a client and a coding of their messages that satisfy the
  laws of \<open>session_laws\<close>.
\<close>

section \<open>A concrete session\<close>

text \<open>Messages of the samples are lists of texts, packed into bytes; calls have no parameters.\<close>

fun pack_text :: "string \<Rightarrow> bytes" where
  "pack_text [] = [0]"
| "pack_text (c # s) = 1 # of_char c # pack_text s"

definition pack :: "string list \<Rightarrow> bytes" where
  "pack ts = concat (map pack_text ts)"

fun unpack :: "bytes \<Rightarrow> string list" where
  "unpack [] = []"
| "unpack [b] = (if b = 0 then [[]] else [])"
| "unpack (b # c # bs) =
    (if b = 0 then [] # unpack (c # bs)
     else case unpack bs of [] \<Rightarrow> [] | s # ss \<Rightarrow> (char_of (unat c) # s) # ss)"

lemma unpack_text: "unpack (pack_text s @ bs) = s # unpack bs"
proof (induction s)
  case Nil
  then show ?case by (cases bs) simp_all
next
  case (Cons c s)
  have "(char_of (unat (of_char c :: byte)) :: char) = c"
  proof -
    have "unat (of_char c :: byte) = unat (of_nat (of_char c) :: byte)" by (simp only: of_nat_of_char)
    also have "\<dots> = of_char c" by (simp add: unsigned_of_nat take_bit_eq_mod)
    finally show ?thesis by simp
  qed
  then show ?case using Cons by simp
qed

lemma unpack_pack [simp]: "unpack (pack ts) = ts"
  by (induction ts) (simp_all add: pack_def unpack_text)

fun json_texts :: "json \<Rightarrow> string list" where
  "json_texts (Array vs) = map (\<lambda>v. unwrap_or (json_text v) []) vs"
| "json_texts _ = []"

definition id_text :: "RpcId \<Rightarrow> string" where
  "id_text i = (case i of IdString s \<Rightarrow> s | _ \<Rightarrow> [])"

definition hello_texts :: "SessionHelloParams \<Rightarrow> string list" where
  "hello_texts h = sh_protocol_version h # sh_role h # sh_principal_id h # sh_client_nonce h # sh_supported_suites h"

definition texts_hello :: "string list \<Rightarrow> string + SessionHelloParams" where
  "texts_hello ts =
    (case ts of v # r # p # n # ss \<Rightarrow>
       Inr \<lparr>sh_protocol_version = v, sh_role = r, sh_principal_id = p, sh_client_nonce = n, sh_supported_suites = ss\<rparr>
     | _ \<Rightarrow> Inl ''hello'')"

definition texts_authenticate :: "string list \<Rightarrow> string + SessionAuthenticateParams" where
  "texts_authenticate ts =
    (case ts of [k, s] \<Rightarrow> Inr \<lparr>sap_client_ephemeral_public_key = k, sap_signature = s\<rparr> | _ \<Rightarrow> Inl ''authenticate'')"

definition sample_read_request :: "bytes \<Rightarrow> string + json RpcRequest" where
  "sample_read_request w =
    (case unpack w of i # m # ts \<Rightarrow> Inr (RpcRequest_new i m (Some (Array (map String ts)))) | _ \<Rightarrow> Inl ''request'')"

definition sample_write_response :: "reply RpcResponse \<Rightarrow> string + bytes" where
  "sample_write_response r =
    (let i = id_text (rp_id r) in
     case rp_result r of
       None \<Rightarrow> Inl ''error''
     | Some (HelloReply h) \<Rightarrow> Inr (pack [i, hr_protocol_version h, hr_server_nonce h, hr_ephemeral_public_key h, hr_server_key_id h, hr_signature h])
     | Some (AuthenticatedReply a) \<Rightarrow> Inr (pack [i, if sar_authenticated a then ''1'' else [], show_nat (unat (sar_rekey_after_seconds a))])
     | Some _ \<Rightarrow> Inr (pack [i]))"

definition sample_wire :: wire_env where
  "sample_wire =
    \<lparr>wv_request = sample_read_request, wv_response = sample_write_response,
     wv_hello = (\<lambda>v. texts_hello (json_texts v)), wv_authenticate = (\<lambda>v. texts_authenticate (json_texts v)),
     wv_action_request = (\<lambda>_. Inl ''unused''), wv_action_authenticate = (\<lambda>_. Inl ''unused''),
     wv_action_status = (\<lambda>_. Inl ''unused''), wv_subscribe = (\<lambda>_. Inl ''unused''),
     wv_cancel = (\<lambda>_. Inl ''unused''), wv_session = (\<lambda>_. Inl ''unused''),
     wv_open_tab = (\<lambda>_. Inl ''unused''), wv_tab = (\<lambda>_. Inl ''unused''),
     wv_navigate = (\<lambda>_. Inl ''unused''), wv_locator = (\<lambda>_. Inl ''unused''),
     wv_type_public = (\<lambda>_. Inl ''unused''), wv_select = (\<lambda>_. Inl ''unused''),
     wv_read_text = (\<lambda>_. Inl ''unused''), wv_snapshot = (\<lambda>_. Inl ''unused''),
     wv_wait_for = (\<lambda>_. Inl ''unused''), wv_register = (\<lambda>_. Inl ''unused''),
     wv_next = (\<lambda>_. Inl ''unused''), wv_prepare = (\<lambda>_. Inl ''unused''),
     wv_consume = (\<lambda>_. Inl ''unused''), wv_callback = (\<lambda>_. Inl ''unused''),
     wv_result = (\<lambda>_. Inl ''unused''), wv_heartbeat = (\<lambda>_. Inl ''unused''), wv_launch = (\<lambda>_. Inr ()),
     wv_instance = (\<lambda>_. Inl ''unused''), wv_decide = (\<lambda>_. Inl ''unused''),
     wv_capability_list = (\<lambda>_. Inl ''unused''), wv_capability_revoke = (\<lambda>_. Inl ''unused''),
     wv_lookup = (\<lambda>_. Inl ''unused''), wv_activity = (\<lambda>_. Inl ''unused''),
     wv_grant_list = (\<lambda>_. Inl ''unused''), wv_grant_create = (\<lambda>_. Inl ''unused''),
     wv_grant_revoke = (\<lambda>_. Inl ''unused''), wv_disable = (\<lambda>_. Inl ''unused''),
     wv_policy_reload = (\<lambda>_. Inl ''unused''), wv_from_yaml = (\<lambda>_. Inl ''unused''),
     wv_policy_vec = (\<lambda>_. [])\<rparr>"

definition sample_client :: client_wire where
  "sample_client =
    \<lparr>cw_hello = (\<lambda>q. Inr (pack (id_text (rr_id q) # rr_method q # (case rr_params q of None \<Rightarrow> [] | Some h \<Rightarrow> hello_texts h)))),
     cw_authenticate = (\<lambda>q. Inr (pack (id_text (rr_id q) # rr_method q # (case rr_params q of None \<Rightarrow> []
        | Some a \<Rightarrow> [sap_client_ephemeral_public_key a, sap_signature a])))),
     cw_request = (\<lambda>q. Inr (pack [id_text (rr_id q), rr_method q])),
     cw_hello_response = (\<lambda>w. case unpack w of
        [i, v, n, k, ki, s] \<Rightarrow> Inr (RpcResponse_success (IdString i) \<lparr>hr_protocol_version = v, hr_server_nonce = n,
           hr_ephemeral_public_key = k, hr_server_key_id = ki, hr_signature = s\<rparr>) | _ \<Rightarrow> Inl ''response''),
     cw_auth_result = (\<lambda>w. case unpack w of
        [i, a, n] \<Rightarrow> Inr (RpcResponse_success (IdString i) \<lparr>sar_authenticated = (a \<noteq> []), sar_rekey_after_seconds = of_nat (digits_value n)\<rparr>)
      | _ \<Rightarrow> Inl ''response''),
     cw_auth_response = (\<lambda>w. case unpack w of i # _ \<Rightarrow> Inr (RpcResponse_success (IdString i) Null) | _ \<Rightarrow> Inl ''response''),
     cw_response = (\<lambda>w. case unpack w of i # _ \<Rightarrow> Inr (RpcResponse_success (IdString i) (Bool True)) | _ \<Rightarrow> Inl ''response'')\<rparr>"

definition plain_public :: "bytes \<Rightarrow> bytes" where
  "plain_public k = take 32 (k @ replicate 32 0)"

definition sample_server :: server_env where
  "sample_server =
    \<lparr>sv_broker = sample_terse, sv_page = sample_page_env, sv_wire = sample_wire, sv_aead = tagged_aead,
     sv_hkdf = (\<lambda>_ _ _. replicate 64 7), sv_x25519_public = plain_public,
     sv_diffie_hellman = (\<lambda>k p. map2 (+) (plain_public k) p), sv_context = (\<lambda>_. None)\<rparr>"

lemma json_texts_String [simp]: "json_texts (Array (map String ts)) = ts"
  by (simp add: json_text_def unwrap_or_def comp_def)

lemma texts_hello_texts [simp]: "texts_hello (hello_texts h) = Inr h"
  by (simp add: texts_hello_def hello_texts_def)

lemma sample_wire_laws: "client_wire_laws sample_wire sample_client"
  unfolding client_wire_laws_def
proof (intro conjI allI)
  fix i :: string and h a r and r' :: SessionAuthenticateResult
  show "\<exists>w v. cw_hello sample_client (RpcRequest_new i ''session.hello'' (Some h)) = Inr w
      \<and> wv_request sample_wire w = Inr (RpcRequest_new i ''session.hello'' (Some v)) \<and> wv_hello sample_wire v = Inr h"
    by (intro exI[of _ "pack (i # ''session.hello'' # hello_texts h)"] exI[of _ "Array (map String (hello_texts h))"])
      (simp add: sample_client_def sample_wire_def sample_read_request_def id_text_def RpcRequest_new_def
        json_text_def unwrap_or_def comp_def)
  show "\<exists>w v. cw_authenticate sample_client (RpcRequest_new i ''session.authenticate'' (Some a)) = Inr w
      \<and> wv_request sample_wire w = Inr (RpcRequest_new i ''session.authenticate'' (Some v)) \<and> wv_authenticate sample_wire v = Inr a"
    by (intro exI[of _ "pack [i, ''session.authenticate'', sap_client_ephemeral_public_key a, sap_signature a]"]
          exI[of _ "Array (map String [sap_client_ephemeral_public_key a, sap_signature a])"])
      (simp add: sample_client_def sample_wire_def sample_read_request_def id_text_def RpcRequest_new_def texts_authenticate_def
        json_text_def unwrap_or_def)
  show "\<exists>w. wv_response sample_wire (RpcResponse_success (IdString i) (HelloReply r)) = Inr w
      \<and> cw_hello_response sample_client w = Inr (RpcResponse_success (IdString i) r)"
    by (simp add: sample_client_def sample_wire_def sample_write_response_def id_text_def RpcResponse_success_def)
  show "\<exists>w v. wv_response sample_wire (RpcResponse_success (IdString i) (AuthenticatedReply r')) = Inr w
      \<and> cw_auth_result sample_client w = Inr (RpcResponse_success (IdString i) r')
      \<and> cw_auth_response sample_client w = Inr (RpcResponse_success (IdString i) v)"
    by (simp add: sample_client_def sample_wire_def sample_write_response_def id_text_def RpcResponse_success_def digits_value_show_nat)
qed

lemma sample_laws: "session_laws sample_server sample_client"
proof -
  have "length (plain_public k) = 32" for k by (simp add: plain_public_def)
  moreover have "map2 (+) (plain_public a) (plain_public b) = map2 (+) (plain_public b) (plain_public a)" for a b
    by (rule nth_equalityI) (simp_all add: plain_public_def add.commute)
  moreover have "seal_total tagged_aead" by (simp add: seal_total_def tagged_aead_def format_nonce_def)
  ultimately show ?thesis using plain_ed25519_laws plain_base64_laws tagged_aead_laws sample_wire_laws
    by (simp add: session_laws_def x25519_laws_def sample_server_def sample_terse_def sample_env_def plain_cap_env_def)
qed

text \<open>A daemon with a key of its own, and clients that hold it.\<close>

definition sample_daemon :: server_state where
  "sample_daemon = \<lparr>ss_broker = sample_broker\<lparr>b_broker_key := replicate 32 5\<rparr>, ss_pipes = []\<rparr>"

definition sample_inputs :: client_inputs where
  "sample_inputs = \<lparr>ci_signing_secret = Inr (replicate 32 5), ci_pinned_public = Inr (ed_public plain_ed25519 (replicate 32 5)),
     ci_random = [1, 2, 3], ci_ephemeral = [4], ci_now = 0\<rparr>"

definition sample_turn :: "int \<Rightarrow> BrowserInstanceId \<Rightarrow> turn" where
  "sample_turn now inst = \<lparr>tn_world = (\<lambda>_. sample_slot\<lparr>sl_uuid := inst\<rparr>), tn_now = now, tn_uuid = ''n'', tn_ephemeral = [6], tn_states = (\<lambda>_. sample_broker),
     tn_start = 0, tn_clock = (\<lambda>_. 0), tn_launched = Inr inst, tn_pipe = None, tn_shutdown = Inr (), tn_diagnostics = []\<rparr>"

lemma sample_keys: "b_broker_key (ss_broker s) = replicate 32 5 \<Longrightarrow> holds_keys sample_server sample_inputs s"
  by (simp add: holds_keys_def sample_inputs_def sample_server_def sample_terse_def sample_env_def plain_cap_env_def)

lemma sample_ping:
  "direct sample_server sample_client (admin_dispatch sample_server T) (numbered n ''admin.ping'' v) s
    = (Inr (RpcResponse_success (IdString (show_nat (unat n))) (Bool True)), s)"
  by (simp add: direct_def answered_in_clear_def bindh_def required_def numbered_def sample_server_def sample_client_def sample_wire_def
      sample_read_request_def sample_write_response_def id_text_def RpcRequest_new_def admin_dispatch_def ADMIN_METHODS_def
      answered_def RpcResponse_success_def)

definition sample_admin_session :: AdminSession where
  "sample_admin_session = \<lparr>ac_channel = new_client (\<lambda>_ _ _. replicate 64 7) [] [] [], ac_next_id = 1, as_established_at = 0\<rparr>"

definition sample_link :: "(turn \<times> bool) list \<Rightarrow> link" where
  "sample_link ts = \<lparr>lk_phase = Some (Serving (new_server (\<lambda>_ _ _. replicate 64 7) [] [] []) 0), lk_server = sample_daemon, lk_turns = ts\<rparr>"

lemma sample_synchronized: "synchronized (ac_channel sample_admin_session) (new_server (\<lambda>_ _ _. replicate 64 7) [] [] [])"
  by (simp add: synchronized_def in_step_def sample_admin_session_def new_client_def new_server_def derive_directional_keys_def)

definition launch_event :: "BrowserInstanceId \<Rightarrow> BrokerState \<Rightarrow> AuditEvent" where
  "launch_event inst b = \<lparr>ev_sequence = b_next_sequence b, ev_event_id = id_new ''evt'' inst, ev_event_type = ''browser.launched'', ev_actor_type = ''admin'',
     ev_actor_id = None, ev_event_json = ''{}'', ev_audit_key_version = 1, ev_previous_hash = b_latest_hash b, ev_event_hash = [], ev_created_at = 0\<rparr>"

definition launched :: "BrowserInstanceId \<Rightarrow> server_state \<Rightarrow> server_state" where
  "launched inst s = (let b = ss_broker s in
    s\<lparr>ss_broker := b\<lparr>b_managed_browsers := AList.update inst CdpFilter_new (b_managed_browsers b),
        b_store := (b_store b)\<lparr>t_audit_events := t_audit_events (b_store b) @ [launch_event inst b]\<rparr>,
        b_next_sequence := b_next_sequence b + 1, b_latest_hash := []\<rparr>,
      ss_pipes := AList.delete inst (ss_pipes s)\<rparr>)"

lemma sample_launch:
  assumes "b_audit_key (ss_broker s) = replicate 32 9" "b_audit_key_version (ss_broker s) = 1"
    and "\<not> list_ex (event_conflict (launch_event inst (ss_broker s))) (t_audit_events (b_store (ss_broker s)))"
  shows "direct sample_server sample_client (admin_dispatch sample_server (sample_turn 0 inst)) (numbered n ''browser.launch'' Null) s
    = (Inr (RpcResponse_success (IdString (show_nat (unat n))) (Bool True)), launched inst s)"
proof -
  have op: "insert_audit_event (\<lambda>_. None) (launch_event inst (ss_broker s)) (b_store (ss_broker s))
      = (Inr (), (b_store (ss_broker s))\<lparr>t_audit_events := t_audit_events (b_store (ss_broker s)) @ [launch_event inst (ss_broker s)]\<rparr>)"
    using assms(3) by (simp add: insert_audit_event_def insert_audit_event_tx_def atomically_def insert_row_def stmt_def)
  have "launch_managed_browser sample_terse (sample_slot\<lparr>sl_uuid := inst\<rparr>) (Inr inst) (ss_broker s)
    = (Inr \<lparr>blr_instance_id = inst, blr_profile_id = inst, blr_browser_session_id = None,
                blr_gateway_endpoint = ''agent-rpc:constrained-browser'', blr_diagnostics = []\<rparr>, ss_broker (launched inst s))"
    using op assms(1,2) by (simp add: launch_managed_browser_def bindh_def record_audit_event_def audited_def try_audited_def map_errh_def
        sample_slot_def terse_event launch_event_def launched_def Let_def)
  then show ?thesis
    by (simp add: direct_def answered_in_clear_def bindh_def required_def numbered_def sample_client_def admin_dispatch_def
      sample_read_request_def sample_write_response_def id_text_def RpcRequest_new_def ADMIN_METHODS_def
      answered_def RpcResponse_success_def sample_server_def sample_wire_def admin_launch_def on_broker_def sample_turn_def launched_pipes_def
      launched_def Let_def)
qed

section \<open>Properties\<close>

text \<open>
  C24.  Whoever is behind the socket, a client goes on only with the holder of the key it has pinned: the channel that the
  native host, the command line and the desktop application end up with comes from an ephemeral key that is in an answer
  of the peer together with a signature of the pinned key over this very client nonce, principal and daemon nonce.  The two
  administrators' clients pin the key that belongs to the signing key of the installation.
\<close>

theorem broker_pinned:
  "(case bridge_connect E C so who key pin nonce ephemeral s of
      (Inr ch, _) \<Rightarrow> \<exists>server public. vouched E C so pin (hello_params ''executor'' who nonce) server public \<and> hr_protocol_version server = ''1.0''
        \<and> ch = client_channel E ''secretctl-executor-session-v1'' (hr_server_nonce server) public ephemeral
    | _ \<Rightarrow> True)
   \<and> (case admin_connect E C so I s of
      (Inr ch, _) \<Rightarrow> \<exists>k server public. ci_signing_secret I = Inr k \<and> ci_pinned_public I = Inr (ed_public (sv_ed E) k)
        \<and> vouched E C so (ed_public (sv_ed E) k) (hello_params ''admin'' ''local-admin'' (random_nonce E (ci_random I))) server public
        \<and> ch = client_channel E ''secretctl-admin-session-v1'' (hr_server_nonce server) public (ci_ephemeral I)
    | _ \<Rightarrow> True)"
  by (auto split: prod.split sum.split dest!: bridge_connect_ok admin_connect_ok)

text \<open>
  C9.  A command that holds the keys of the installation reaches the daemon, and what it does through the encrypted session is
  what its requests do to the daemon directly: the handshake changes nothing, the answers are the daemon's, in order, and
  the daemon ends in the state in which the bare requests leave it, until the first request that is refused.  The
  hypotheses are the laws of the cryptography, that the frames arrive and that the session is not older than ten minutes.
\<close>

theorem admin_session_direct:
  assumes "session_laws E C" "holds_keys E I s" "length qs < 2 ^ 64 - 1"
    and "list_all (\<lambda>q. elapsed_seconds (tn_now (fst q)) (tn_now T') < 600) qs"
    and "direct_calls E C (admin_dispatch E) 1 qs s = (Inr r, s')"
  shows "\<exists>c l c' l'. AdminClient_connect E C (link_socket (admin_turn E)) I
        \<lparr>lk_phase = None, lk_server = s, lk_turns = (T, True) # (T', True) # map (\<lambda>q. (fst q, True)) qs\<rparr> = (Inr c, l)
     \<and> lk_server l = s
     \<and> AdminClient_calls E C (link_socket (admin_turn E)) (map snd qs) c l = (r, c', l')
     \<and> lk_server l' = s'"
proof -
  let ?l = "\<lparr>lk_phase = None, lk_server = s, lk_turns = (T, True) # (T', True) # map (\<lambda>q. (fst q, True)) qs\<rparr>"
  let ?turns = "map (\<lambda>q. (fst q, True)) qs"
  have keys: "holds_keys E I (lk_server ?l)" and turns: "lk_turns ?l = (T, True) # (T', True) # ?turns" using assms(2) by simp_all
  obtain ch sch where conn: "admin_connect E C (link_socket (admin_turn E)) I ?l =
      (Inr ch, \<lparr>lk_phase = Some (Serving sch (tn_now T')), lk_server = lk_server ?l, lk_turns = ?turns\<rparr>)"
    and ch: "synchronized ch sch" "tx_nonce ch = 0"
    by (rule admin_connects[OF assms(1) keys turns])
  let ?c = "\<lparr>ac_channel = ch, ac_next_id = 1\<rparr>" and ?l1 = "\<lparr>lk_phase = Some (Serving sch (tn_now T')), lk_server = s, lk_turns = ?turns\<rparr>"
  have laws: "aead_laws (sv_aead E)" "seal_total (sv_aead E)" using assms(1) by (simp_all add: session_laws_def)
  have "\<exists>c' l'. AdminClient_calls E C (link_socket (admin_turn E)) (map snd qs) ?c ?l1 = (r, c', l') \<and> lk_server l' = s'"
    by (rule admins.calls_direct[OF laws, where sch = sch and since = "tn_now T'" and ts = "[]"])
      (use ch assms(3-5) in simp_all)
  then show ?thesis using conn by (auto simp: AdminClient_connect_def bindh_def)
qed

theorem admin_session_direct_witness:
  "\<exists>c l c' l'. AdminClient_connect sample_server sample_client (link_socket (admin_turn sample_server)) sample_inputs
        \<lparr>lk_phase = None, lk_server = sample_daemon, lk_turns = (sample_turn 0 ''a'', True) # (sample_turn 1 ''a'', True)
           # map (\<lambda>q. (fst q, True)) [(sample_turn 2 ''a'', ''admin.ping'', Null), (sample_turn 3 ''a'', ''admin.ping'', Null)]\<rparr> = (Inr c, l)
     \<and> lk_server l = sample_daemon
     \<and> AdminClient_calls sample_server sample_client (link_socket (admin_turn sample_server)) [(''admin.ping'', Null), (''admin.ping'', Null)] c l
        = (Inr [Bool True, Bool True], c', l')
     \<and> lk_server l' = sample_daemon"
  using admin_session_direct[OF sample_laws sample_keys[of sample_daemon],
      where qs = "[(sample_turn 2 ''a'', ''admin.ping'', Null), (sample_turn 3 ''a'', ''admin.ping'', Null)]"
        and T = "sample_turn 0 ''a''" and T' = "sample_turn 1 ''a''" and r = "Inr [Bool True, Bool True]" and s' = sample_daemon]
  by (simp add: sample_daemon_def sample_turn_def elapsed_seconds_def nanos_def bindh_def sample_ping understood_def
      RpcResponse_success_def ok_or_def)

text \<open>
  The desktop application renews a session before the daemon gives it up: a call on a session that is not expiring is
  served on this session, with the daemon's answer, as long as the delays of the handshake's last answer and of the request
  are less than two minutes together.
\<close>

theorem desktop_session_renewed:
  assumes "session_laws E C" "\<not> is_expiring now a"
    and "(as_established_at a - since) + (tn_now T - now) \<le> 120 * nanos"
    and "lk_phase l = Some (Serving sch since)" "lk_turns l = (T, True) # ts"
    and "synchronized (ac_channel a) sch" "tx_nonce (ac_channel a) \<noteq> - 1"
    and "direct E C (admin_dispatch E T) (numbered (ac_next_id a) m v) (lk_server l) = (Inr response, s)"
    and "rp_error response \<noteq> None \<or> rp_result response \<noteq> None"
  shows "\<exists>a' sch'. AdminConnection_call E C (link_socket (admin_turn E)) now I I' m v (Some a) l =
      (understood response, Some a', \<lparr>lk_phase = Some (Serving sch' since), lk_server = s, lk_turns = ts\<rparr>)
     \<and> synchronized (ac_channel a') sch' \<and> as_established_at a' = as_established_at a"
proof -
  have laws: "aead_laws (sv_aead E)" "seal_total (sv_aead E)" using assms(1) by (simp_all add: session_laws_def)
  note fresh = not_expiring_fresh[OF assms(2,3)]
  obtain ch sch1 where "client_call E C (link_socket (admin_turn E)) m v a l =
      (understood response, a\<lparr>ac_channel := ch, ac_next_id := ac_next_id a + 1\<rparr>,
       \<lparr>lk_phase = Some (Serving sch1 since), lk_server = s, lk_turns = ts\<rparr>)" "synchronized ch sch1"
    by (rule admins.client_call_direct[OF laws assms(4-7) fresh assms(8)])
  moreover have "case understood response of Inl (Transport _) \<Rightarrow> False | _ \<Rightarrow> True"
    using assms(9) by (auto simp: understood_def ok_or_def split: option.splits)
  ultimately show ?thesis using assms(2)
    by (auto simp: AdminConnection_call_def AdminSession_call_def is_some_and_def split: sum.splits call_error.splits)
qed

theorem desktop_session_renewed_witness:
  "\<exists>a' sch'. AdminConnection_call sample_server sample_client (link_socket (admin_turn sample_server)) (479 * nanos) sample_inputs sample_inputs
        ''admin.ping'' Null (Some sample_admin_session) (sample_link [(sample_turn (590 * nanos) ''a'', True)])
      = (Inr (Bool True), Some a', \<lparr>lk_phase = Some (Serving sch' 0), lk_server = sample_daemon, lk_turns = []\<rparr>)
     \<and> synchronized (ac_channel a') sch' \<and> as_established_at a' = as_established_at sample_admin_session"
  using desktop_session_renewed[OF sample_laws _ _ _ _ sample_synchronized _ sample_ping, where since = 0
      and l = "sample_link [(sample_turn (590 * nanos) ''a'', True)]" and now = "479 * nanos" and ts = "[]" and v = Null
      and I = sample_inputs and I' = sample_inputs]
  by (simp add: sample_link_def sample_turn_def is_expiring_def SESSION_MAX_AGE_def nanos_def understood_def ok_or_def
      RpcResponse_success_def sample_admin_session_def new_client_def derive_directional_keys_def)

text \<open>
  A call of the desktop application can be carried out twice.  When the daemon has served the request and its answer is
  lost, the application connects again and sends the request once more, under another number; the daemon serves it again,
  and the caller sees only the second answer.
\<close>

theorem lost_answer_runs_twice:
  assumes "session_laws E C" "\<not> is_expiring now a" "elapsed_seconds (tn_now T) since < 600"
    and "lk_phase l = Some (Serving sch since)" "lk_turns l = (T, False) # (T1, True) # (T2, True) # (T3, True) # ts"
    and "synchronized (ac_channel a) sch" "tx_nonce (ac_channel a) \<noteq> - 1"
    and "direct E C (admin_dispatch E T) (numbered (ac_next_id a) m v) (lk_server l) = (Inr first, s1)"
    and "holds_keys E I' s1" "elapsed_seconds (tn_now T3) (tn_now T2) < 600"
    and "direct E C (admin_dispatch E T3) (numbered 1 m v) s1 = (Inr second, s2)"
  shows "\<exists>guard l'. AdminConnection_call E C (link_socket (admin_turn E)) now I I' m v (Some a) l
      = (understood second, guard, l') \<and> lk_server l' = s2"
proof -
  have laws: "aead_laws (sv_aead E)" "seal_total (sv_aead E)" using assms(1) by (simp_all add: session_laws_def)
  let ?so = "link_socket (admin_turn E)"
  let ?l1 = "\<lparr>lk_phase = None, lk_server = s1, lk_turns = (T1, True) # (T2, True) # (T3, True) # ts\<rparr>"
  from assms(8) obtain body answer where b: "cw_request C (numbered (ac_next_id a) m v) = Inr body"
    "answered_in_clear E (admin_dispatch E T) body (lk_server l) = (Inr answer, s1)"
    by (auto simp: direct_def bindh_Inr_iff)
  have "\<exists>ch1. send_request E C ?so (numbered (ac_next_id a) m v) (ac_channel a) l = (Inl ''connection lost'', ch1, ?l1)"
    by (rule admins.exchange_in_clear[OF laws assms(4-7,3) refl refl, of body]) (use b in \<open>simp add: send_request_def link_socket_def\<close>)
  then obtain a1 where lost: "client_call E C ?so m v a l = (Inl (Transport ''connection lost''), a1, ?l1)"
    by (auto simp: client_call_def)
  have keys: "holds_keys E I' (lk_server ?l1)" and turns: "lk_turns ?l1 = (T1, True) # (T2, True) # (T3, True) # ts" using assms(9) by simp_all
  obtain ch sch1 where conn: "admin_connect E C ?so I' ?l1 =
      (Inr ch, \<lparr>lk_phase = Some (Serving sch1 (tn_now T2)), lk_server = lk_server ?l1, lk_turns = (T3, True) # ts\<rparr>)"
    and ch: "synchronized ch sch1" "tx_nonce ch = 0"
    by (rule admin_connects[OF assms(1) keys turns])
  let ?a = "\<lparr>ac_channel = ch, ac_next_id = 1, as_established_at = ci_now I'\<rparr>"
    and ?l2 = "\<lparr>lk_phase = Some (Serving sch1 (tn_now T2)), lk_server = s1, lk_turns = (T3, True) # ts\<rparr>"
  have "\<exists>a3 l3. client_call E C ?so m v ?a ?l2 = (understood second, a3, l3) \<and> lk_server l3 = s2"
    by (rule admins.client_call_direct[OF laws, of ?l2 sch1 "tn_now T2" T3 ts ?a C m v second s2]) (use ch assms(10,11) in auto)
  then show ?thesis using lost conn assms(2)
    by (auto simp: AdminConnection_call_def AdminSession_call_def AdminSession_connect_def bindh_def is_some_and_def split: sum.split)
qed

theorem lost_answer_runs_twice_witness:
  "\<exists>x guard l'. AdminConnection_call sample_server sample_client (link_socket (admin_turn sample_server)) 0 sample_inputs sample_inputs
        ''browser.launch'' Null (Some sample_admin_session)
        (sample_link [(sample_turn 0 ''a'', False), (sample_turn 0 ''b'', True), (sample_turn 0 ''c'', True), (sample_turn 0 ''d'', True)])
      = (Inr x, guard, l') \<and> map fst (b_managed_browsers (ss_broker (lk_server l'))) = [''inst_1'', ''a'', ''d'']"
proof -
  let ?s = "launched ''a'' sample_daemon"
  have key: "b_audit_key (ss_broker sample_daemon) = replicate 32 9" "b_audit_key_version (ss_broker sample_daemon) = 1"
    by (simp_all add: sample_daemon_def sample_broker_def)
  have first: "direct sample_server sample_client (admin_dispatch sample_server (sample_turn 0 ''a'')) (numbered (ac_next_id sample_admin_session) ''browser.launch'' Null) sample_daemon
      = (Inr (RpcResponse_success (IdString (show_nat (unat (ac_next_id sample_admin_session)))) (Bool True)), ?s)"
    using key by (rule sample_launch) (simp add: sample_daemon_def sample_broker_def sample_db_def empty_db_def)
  have second: "direct sample_server sample_client (admin_dispatch sample_server (sample_turn 0 ''d'')) (numbered 1 ''browser.launch'' Null) ?s
      = (Inr (RpcResponse_success (IdString (show_nat (unat (1 :: u64)))) (Bool True)), launched ''d'' ?s)"
    using key by (intro sample_launch) (simp_all add: launched_def Let_def sample_daemon_def sample_broker_def sample_db_def empty_db_def
        launch_event_def event_conflict_def id_new_def)
  have keys: "holds_keys sample_server sample_inputs ?s" by (rule sample_keys) (simp add: launched_def Let_def sample_daemon_def)
  have browsers: "map fst (b_managed_browsers (ss_broker (launched ''d'' ?s))) = [''inst_1'', ''a'', ''d'']"
    by (simp add: launched_def Let_def sample_daemon_def sample_broker_def)
  let ?l = "sample_link [(sample_turn 0 ''a'', False), (sample_turn 0 ''b'', True), (sample_turn 0 ''c'', True), (sample_turn 0 ''d'', True)]"
  have l: "lk_phase ?l = Some (Serving (new_server (\<lambda>_ _ _. replicate 64 7) [] [] []) 0)" "lk_server ?l = sample_daemon"
    "lk_turns ?l = (sample_turn 0 ''a'', False) # (sample_turn 0 ''b'', True) # (sample_turn 0 ''c'', True) # (sample_turn 0 ''d'', True) # []"
    by (simp_all add: sample_link_def)
  have "\<not> is_expiring 0 sample_admin_session" "tx_nonce (ac_channel sample_admin_session) \<noteq> - 1"
    by (simp_all add: is_expiring_def SESSION_MAX_AGE_def nanos_def sample_admin_session_def new_client_def derive_directional_keys_def)
  moreover have now: "tn_now (sample_turn 0 i) = 0" "elapsed_seconds 0 0 < 600" for i by (simp_all add: sample_turn_def elapsed_seconds_def)
  ultimately have "\<exists>guard l'. AdminConnection_call sample_server sample_client (link_socket (admin_turn sample_server)) 0 sample_inputs sample_inputs
        ''browser.launch'' Null (Some sample_admin_session) ?l
      = (understood (RpcResponse_success (IdString (show_nat (unat (1 :: u64)))) (Bool True)), guard, l') \<and> lk_server l' = launched ''d'' ?s"
    by (intro lost_answer_runs_twice[OF sample_laws _ _ l(1,3) sample_synchronized _ _ keys _ second]) (simp_all add: l(2) first now)
  then show ?thesis using browsers by (auto simp: understood_def RpcResponse_success_def ok_or_def)
qed

end
