(* ===== verification/Native_Bridge.thy ===== *)
theory Native_Bridge
  imports Client_Properties Native_Host
begin

text \<open>
  The native host between Chrome and the daemon (\<open>secretctl-native-host/src/bridge.rs\<close>, \<open>main.rs\<close>, \<open>manifest.rs\<close>).
  After its handshake (\<open>bridge_connect\<close>) the host serves one message of the extension at a time: it answers
  \<open>extension.challenge\<close> itself and forwards every other message through its channel.  On the way to the daemon it
  puts the values of the launcher into a registration and the session proof into a consumption; on the way back it
  keeps the session proof and seals the resolved fields for the extension.

  A message that the host rejects ends the process, so that the state after an error does not matter.  Readers and
  writers of serde, AES-GCM and the writing of the enrollment file are the fields of \<open>bridge_env\<close>.
\<close>

section \<open>State\<close>

record bridge_env =
  bw_request :: "bytes \<Rightarrow> string + json RpcRequest"
  bw_response :: "json RpcResponse \<Rightarrow> string + bytes"
  bw_challenge :: "ExtensionChallenge \<Rightarrow> json"
  bw_proof :: "json \<Rightarrow> string + ExtensionProof"
  bw_to_vec :: "json \<Rightarrow> string + bytes"
  bw_seal :: "bytes \<Rightarrow> bytes \<Rightarrow> bytes \<Rightarrow> bytes \<Rightarrow> string + bytes"
  bw_instance_id :: "string option"
  bw_launch_nonce :: "string option"
  bw_profile_id :: "string option"

record Bridge =
  br_channel :: SecureChannel
  br_session_material :: bytes
  br_session_proof :: "string option"
  br_enrollment :: ExtensionEnrollment
  br_challenge :: "ExtensionChallenge option"

text \<open>What one message takes from outside: random bytes, and whether the enrollment file could be written.\<close>

record bridge_inputs =
  bx_challenge_nonce :: bytes
  bx_envelope_nonce :: bytes
  bx_write :: "string option"

definition Bridge_new :: "SecureChannel \<Rightarrow> bytes \<Rightarrow> ExtensionEnrollment \<Rightarrow> Bridge" where
  "Bridge_new channel session_material enrollment =
    \<lparr>br_channel = channel, br_session_material = session_material, br_session_proof = None, br_enrollment = enrollment,
     br_challenge = None\<rparr>"

text \<open>\<open>as_object_mut\<close>\<close>

definition object_members :: "json option \<Rightarrow> (string \<times> json) list option" where
  "object_members v = (case v of Some (Object ms) \<Rightarrow> Some ms | _ \<Rightarrow> None)"

section \<open>To the daemon\<close>

definition register_request ::
    "server_env \<Rightarrow> bridge_env \<Rightarrow> bridge_inputs \<Rightarrow> json RpcRequest \<Rightarrow> Bridge \<Rightarrow> string + json RpcRequest \<times> Bridge" where
  "register_request E V X request br =
    try_r (ok_or ''browser.register parameters missing'' (object_members (rr_params request))) (\<lambda>params.
    try_r (ok_or ''browser was not launched by secretctl'' (bw_instance_id V)) (\<lambda>instance_id.
    try_r (ok_or ''browser launch nonce unavailable'' (bw_launch_nonce V)) (\<lambda>launcher_nonce.
    try_r (ok_or ''managed profile attestation unavailable'' (bw_profile_id V)) (\<lambda>profile_id.
    let params1 = AList.update ''profile_id'' (String profile_id) (AList.update ''launcher_nonce'' (String launcher_nonce)
                    (AList.update ''instance_id'' (String instance_id) params)) in
    try_r (ok_or ''extension proof missing'' (map_of params1 ''extension_proof'')) (\<lambda>proof_json.
    try_r (bw_proof V proof_json) (\<lambda>proof.
    try_r (ok_or ''extension challenge missing'' (br_challenge br)) (\<lambda>issued.
    try_r (verify_and_enroll (sv_sha256 E) (sv_ed E) (sv_b64 E) (br_enrollment br) (xc_nonce issued) proof) (\<lambda>(extension_key_id, enrollment).
    case bx_write X of
      Some e \<Rightarrow> Inl e
    | None \<Rightarrow>
      Inr (request\<lparr>rr_params := Some (Object (AList.update ''extension_key_id'' (String extension_key_id)
             (AList.delete ''extension_proof'' params1)))\<rparr>,
           br\<lparr>br_challenge := None, br_enrollment := enrollment\<rparr>)))))))))"

definition consume_request :: "json RpcRequest \<Rightarrow> Bridge \<Rightarrow> string + json RpcRequest \<times> Bridge" where
  "consume_request request br =
    try_r (ok_or ''executor.consume parameters missing'' (object_members (rr_params request))) (\<lambda>params.
    try_r (ok_or ''browser session is not registered'' (br_session_proof br)) (\<lambda>proof.
    Inr (request\<lparr>rr_params := Some (Object (AList.update ''session_signature'' (String proof) params))\<rparr>, br)))"

definition outgoing ::
    "server_env \<Rightarrow> bridge_env \<Rightarrow> bridge_inputs \<Rightarrow> json RpcRequest \<Rightarrow> Bridge \<Rightarrow> string + json RpcRequest \<times> Bridge" where
  "outgoing E V X request br =
    (if rr_method request = ''browser.register'' then register_request E V X request br
     else if rr_method request = ''executor.consume'' then consume_request request br
     else Inr (request, br))"

section \<open>From the daemon\<close>

definition register_answer :: "server_env \<Rightarrow> json RpcResponse \<Rightarrow> Bridge \<Rightarrow> string + json RpcResponse \<times> Bridge" where
  "register_answer E response br =
    (case object_members (rp_result response) of
       None \<Rightarrow> Inr (response, br)
     | Some result \<Rightarrow>
       (case Option.bind (map_of result ''session_proof'') json_text of
          None \<Rightarrow> Inl ''browser registration omitted executor session proof''
        | Some proof \<Rightarrow>
          Inr (response\<lparr>rp_result := Some (Object (AList.update ''session_material'' (String (b64_encode (sv_b64 E) (br_session_material br)))
                 (AList.delete ''session_proof'' result)))\<rparr>,
               br\<lparr>br_session_proof := Some proof\<rparr>)))"

definition secret_envelope :: "server_env \<Rightarrow> bytes \<Rightarrow> bytes \<Rightarrow> json" where
  "secret_envelope E nonce ciphertext =
    Object [(''ciphertext'', String (b64_encode (sv_b64 E) ciphertext)), (''nonce'', String (b64_encode (sv_b64 E) nonce))]"

definition consume_answer :: "server_env \<Rightarrow> bridge_env \<Rightarrow> bridge_inputs \<Rightarrow> json RpcResponse \<Rightarrow> Bridge \<Rightarrow> string + json RpcResponse" where
  "consume_answer E V X response br =
    (case object_members (rp_result response) of
       None \<Rightarrow> Inr response
     | Some result \<Rightarrow>
       try_r (ok_or ''consume result missing execution ID'' (Option.bind (map_of result ''execution_id'') json_text)) (\<lambda>execution_id.
       try_r (ok_or ''consume result missing fields'' (map_of result ''fields'')) (\<lambda>fields.
       try_r (bw_to_vec V (Object [(''fields'', fields)])) (\<lambda>plaintext.
       try_r (bw_seal V (br_session_material br) (bx_envelope_nonce X) (as_bytes execution_id) plaintext) (\<lambda>ciphertext.
       Inr (response\<lparr>rp_result := Some (Object (AList.update ''secret_envelope'' (secret_envelope E (bx_envelope_nonce X) ciphertext)
              (AList.delete ''fields'' result)))\<rparr>))))))"

definition incoming ::
    "server_env \<Rightarrow> bridge_env \<Rightarrow> bridge_inputs \<Rightarrow> string \<Rightarrow> json RpcResponse \<Rightarrow> Bridge \<Rightarrow> string + json RpcResponse \<times> Bridge" where
  "incoming E V X m response br =
    (if m = ''browser.register'' then register_answer E response br
     else if m = ''executor.consume'' then try_r (consume_answer E V X response br) (\<lambda>r. Inr (r, br))
     else Inr (response, br))"

section \<open>The loop\<close>

text \<open>One message: the bytes for Chrome, or the error that ends the host.\<close>

definition bridge_turn ::
    "server_env \<Rightarrow> client_wire \<Rightarrow> bridge_env \<Rightarrow> 's socket \<Rightarrow> bridge_inputs \<Rightarrow> bytes \<Rightarrow> Bridge \<Rightarrow> 's
     \<Rightarrow> (string + bytes \<times> Bridge) \<times> 's" where
  "bridge_turn E C V so X frame br s =
    (case bw_request V frame of
       Inl e \<Rightarrow> (Inl e, s)
     | Inr request \<Rightarrow>
       if rr_method request = ''extension.challenge''
       then (let issued = challenge (sv_b64 E) (bx_challenge_nonce X) (br_enrollment br) in
             (try_r (bw_response V (RpcResponse_success (rr_id request) (bw_challenge V issued))) (\<lambda>out.
                Inr (out, br\<lparr>br_challenge := Some issued\<rparr>)), s))
       else
         (case outgoing E V X request br of
            Inl e \<Rightarrow> (Inl e, s)
          | Inr (request1, br1) \<Rightarrow>
            (case send_request E C so request1 (br_channel br1) s of
               (r, ch, s1) \<Rightarrow>
                 (try_r r (\<lambda>response.
                  try_r (incoming E V X (rr_method request) response (br1\<lparr>br_channel := ch\<rparr>)) (\<lambda>(response1, br2).
                  try_r (bw_response V response1) (\<lambda>out. Inr (out, br2)))), s1))))"

fun bridge_run ::
    "server_env \<Rightarrow> client_wire \<Rightarrow> bridge_env \<Rightarrow> 's socket \<Rightarrow> (bridge_inputs \<times> bytes) list \<Rightarrow> Bridge \<Rightarrow> 's
     \<Rightarrow> (string + Bridge) \<times> bytes list \<times> 's" where
  "bridge_run E C V so [] br s = (Inr br, [], s)"
| "bridge_run E C V so ((X, frame) # fs) br s =
    (case bridge_turn E C V so X frame br s of
       (Inl e, s1) \<Rightarrow> (Inl e, [], s1)
     | (Inr (out, br1), s1) \<Rightarrow> (case bridge_run E C V so fs br1 s1 of (r, outs, s2) \<Rightarrow> (r, out # outs, s2)))"

text \<open>The whole of \<open>run_stdio_bridge\<close>: handshake, reading the enrollment, loop.\<close>

definition run_stdio_bridge ::
    "server_env \<Rightarrow> client_wire \<Rightarrow> bridge_env \<Rightarrow> 's socket \<Rightarrow> string \<Rightarrow> bytes \<Rightarrow> bytes \<Rightarrow> string \<Rightarrow> bytes \<Rightarrow> bytes
     \<Rightarrow> string + ExtensionEnrollment \<Rightarrow> (bridge_inputs \<times> bytes) list \<Rightarrow> 's \<Rightarrow> (string + Bridge) \<times> bytes list \<times> 's" where
  "run_stdio_bridge E C V so principal_id signing_key broker_public_key client_nonce ephemeral session_material enrollment frames s =
    (case bridge_connect E C so principal_id signing_key broker_public_key client_nonce ephemeral s of
       (Inl e, s1) \<Rightarrow> (Inl e, [], s1)
     | (Inr channel, s1) \<Rightarrow>
       (case enrollment of
          Inl e \<Rightarrow> (Inl e, [], s1)
        | Inr en \<Rightarrow> bridge_run E C V so frames (Bridge_new channel session_material en) s1))"

section \<open>The process\<close>

definition HOST_NAME :: string where
  "HOST_NAME = ''com.secretctl.native_host''"

record NativeHostManifest =
  nm_name :: string
  nm_description :: string
  nm_path :: string
  nm_type :: string
  nm_allowed_origins :: "string list"

definition extension_origin :: "string \<Rightarrow> string" where
  "extension_origin extension_id = ''chrome-extension://'' @ extension_id @ ''/''"

definition NativeHostManifest_new :: "string \<Rightarrow> string \<Rightarrow> NativeHostManifest" where
  "NativeHostManifest_new binary_path allowed_extension_id =
    \<lparr>nm_name = HOST_NAME, nm_description = ''secretctl Chrome Native Messaging Host'', nm_path = binary_path,
     nm_type = ''stdio'', nm_allowed_origins = [extension_origin allowed_extension_id]\<rparr>"

record HostConfig =
  hc_principal_id :: AgentId
  hc_extension_id :: string
  hc_key_locator :: string

definition host_key_locator :: "HostConfig \<Rightarrow> string" where
  "host_key_locator config =
    (if hc_key_locator config = [] then ''native-host-signing-'' @ hc_principal_id config else hc_key_locator config)"

text \<open>
  Started by Chrome: \<open>argv[1]\<close> is the caller's origin.  The result is the principal, the signing key and the pinned key
  with which the bridge is run.
\<close>

definition host_start ::
    "string option \<Rightarrow> string + HostConfig \<Rightarrow> (string \<Rightarrow> string + bytes) \<Rightarrow> string + bytes \<Rightarrow> string + string \<times> bytes \<times> bytes" where
  "host_start argument config get_secret pin_file =
    (case argument of
       Some caller_origin \<Rightarrow>
       if starts_with caller_origin ''chrome-extension://''
       then
         try_r config (\<lambda>cfg.
         if caller_origin \<noteq> extension_origin (hc_extension_id cfg) then Inl ''native messaging caller origin rejected''
         else
           try_r (get_secret (host_key_locator cfg)) (\<lambda>key.
           try_r (map_err (\<lambda>_. ''invalid key length'') (KeyPair_from_bytes key)) (\<lambda>signing_key.
           try_r pin_file (\<lambda>broker_public_key.
           if length broker_public_key \<noteq> 32 then Inl ''invalid broker public-key pin''
           else Inr (hc_principal_id cfg, signing_key, broker_public_key)))))
       else Inl ''native host must be invoked by the enrolled Chrome extension''
     | None \<Rightarrow> Inl ''native host must be invoked by the enrolled Chrome extension'')"

text \<open>
  The installation that \<open>install\<close> changes: its files, the key store and the database.  A key store that fails gives its error.
\<close>

record host_installation =
  hi_config :: "(string + HostConfig) option"
  hi_enrollment :: "(string + ExtensionEnrollment) option"
  hi_manifest :: "NativeHostManifest option"
  hi_keys :: "(string \<times> bytes) list"
  hi_db :: db

record install_inputs =
  ii_agent_uuid :: string
  ii_key_store :: "string option"
  ii_generated_key :: bytes
  ii_executable :: "string + string"
  ii_image :: "string + bytes"
  ii_owner :: "string + u32"
  ii_now :: datetime
  ii_pairing_random :: bytes
  ii_io :: io

definition install_identity :: "install_inputs \<Rightarrow> HostConfig option \<Rightarrow> AgentId \<times> string" where
  "install_identity J prior =
    (let principal_id = (case prior of Some config \<Rightarrow> hc_principal_id config | None \<Rightarrow> id_new ''agent'' (ii_agent_uuid J)) in
     (principal_id, case prior of
        Some config \<Rightarrow> (if hc_key_locator config = [] then ''native-host-signing-'' @ principal_id else hc_key_locator config)
      | None \<Rightarrow> ''native-host-signing-'' @ principal_id))"

definition host_principal :: "(bytes \<Rightarrow> bytes) \<Rightarrow> ed25519 \<Rightarrow> AgentId \<Rightarrow> bytes \<Rightarrow> string \<Rightarrow> bytes \<Rightarrow> u32 \<Rightarrow> datetime \<Rightarrow> AgentPrincipal" where
  "host_principal sha256 Ed principal_id signing_key executable executable_bytes uid now =
    \<lparr>ag_agent_id = principal_id, ag_role = ''executor'', ag_public_key = ed_public Ed signing_key,
     ag_display_name = ''secretctl packaged native host'', ag_peer_uid = Some uid, ag_executable_path = Some executable,
     ag_executable_hash = Some (sha256 executable_bytes), ag_state = ''enrolled'', ag_created_at = now\<rparr>"

definition host_key :: "install_inputs \<Rightarrow> string \<Rightarrow> (host_installation, string, bytes) handler" where
  "host_key J locator =
    bindh (lifth (case ii_key_store J of Some e \<Rightarrow> Inl e | None \<Rightarrow> Inr ())) (\<lambda>_.
    bindh (readh (\<lambda>h. map_of (hi_keys h) locator)) (\<lambda>stored_key.
    case stored_key of
      Some secret \<Rightarrow> lifth (map_err (\<lambda>_. ''invalid key length'') (KeyPair_from_bytes secret))
    | None \<Rightarrow>
      bindh (modifyh (\<lambda>h. h\<lparr>hi_keys := AList.update locator (ii_generated_key J) (hi_keys h)\<rparr>)) (\<lambda>_.
      returnh (ii_generated_key J))))"

definition enroll_host ::
    "(bytes \<Rightarrow> bytes) \<Rightarrow> ed25519 \<Rightarrow> install_inputs \<Rightarrow> string \<Rightarrow> AgentId \<Rightarrow> string \<Rightarrow> (host_installation, string, unit) handler" where
  "enroll_host sha256 Ed J extension_id principal_id key_locator =
    bindh (host_key J key_locator) (\<lambda>signing_key.
    bindh (lifth (ii_executable J)) (\<lambda>executable.
    bindh (lifth (ii_image J)) (\<lambda>executable_bytes.
    bindh (lifth (ii_owner J)) (\<lambda>peer_uid.
    bindh (\<lambda>h. case upsert_agent (ii_io J) (host_principal sha256 Ed principal_id signing_key executable executable_bytes peer_uid (ii_now J)) (hi_db h) of
             (r, d) \<Rightarrow> (map_err StoreError_to_string r, h\<lparr>hi_db := d\<rparr>)) (\<lambda>_.
    modifyh (\<lambda>h. h\<lparr>hi_config := Some (Inr \<lparr>hc_principal_id = principal_id, hc_extension_id = extension_id, hc_key_locator = key_locator\<rparr>),
      hi_manifest := Some (NativeHostManifest_new executable extension_id)\<rparr>))))))"

definition install :: "(bytes \<Rightarrow> bytes) \<Rightarrow> ed25519 \<Rightarrow> install_inputs \<Rightarrow> string \<Rightarrow> (host_installation, string, unit) handler" where
  "install sha256 Ed J extension_id =
    bindh (guardh (extension_id = MANAGED_EXTENSION_ID) ''only the packaged secretctl extension ID may be enrolled'') (\<lambda>_.
    bindh (peekh (\<lambda>h. case hi_config h of None \<Rightarrow> Inr None | Some config \<Rightarrow> map_sum id Some config)) (\<lambda>prior.
    bindh (case install_identity J prior of (principal_id, key_locator) \<Rightarrow> enroll_host sha256 Ed J extension_id principal_id key_locator) (\<lambda>_.
    bindh (peekh (\<lambda>h. case hi_enrollment h of Some e \<Rightarrow> e | None \<Rightarrow> Inr (ExtensionEnrollment_new (ii_pairing_random J) extension_id))) (\<lambda>enrollment.
    modifyh (\<lambda>h. h\<lparr>hi_enrollment := Some (Inr enrollment)\<rparr>)))))"

section \<open>Lemmas\<close>

lemma object_members_Some: "object_members v = Some ms \<longleftrightarrow> v = Some (Object ms)"
  by (auto simp: object_members_def split: option.split json.split)

lemma consume_request_ok:
  "consume_request q br = Inr (q1, br1) \<longleftrightarrow> br1 = br \<and> (\<exists>params evidence. rr_params q = Some (Object params) \<and> br_session_proof br = Some evidence
     \<and> q1 = q\<lparr>rr_params := Some (Object (AList.update ''session_signature'' (String evidence) params))\<rparr>)"
  unfolding consume_request_def try_r_Inr_iff object_members_Some[symmetric]
  by (auto simp: ok_or_def split: option.split_asm)

lemma json_text_Some: "json_text v = Some t \<longleftrightarrow> v = String t"
  by (cases v) (simp_all add: json_text_def)

definition attested :: "bridge_env \<Rightarrow> string \<Rightarrow> (string \<times> json) list \<Rightarrow> bool" where
  "attested V key_id ms =
    (bw_instance_id V \<noteq> None \<and> map_of ms ''instance_id'' = map_option String (bw_instance_id V)
     \<and> bw_launch_nonce V \<noteq> None \<and> map_of ms ''launcher_nonce'' = map_option String (bw_launch_nonce V)
     \<and> bw_profile_id V \<noteq> None \<and> map_of ms ''profile_id'' = map_option String (bw_profile_id V)
     \<and> map_of ms ''extension_key_id'' = Some (String key_id) \<and> map_of ms ''extension_proof'' = None)"

lemma register_request_ok:
  assumes "register_request E V X request br = Inr (request1, br1)"
  obtains evidence issued key_id ms e where "br_challenge br = Some issued"
    "verify_and_enroll (sv_sha256 E) (sv_ed E) (sv_b64 E) (br_enrollment br) (xc_nonce issued) evidence = Inr (key_id, e)"
    "request1 = request\<lparr>rr_params := Some (Object ms)\<rparr>" "attested V key_id ms"
    "br1 = br\<lparr>br_challenge := None, br_enrollment := e\<rparr>"
  using assms that unfolding register_request_def Let_def try_r_Inr_iff case_prod_beta
  by (elim exE conjE) (auto simp: ok_or_def attested_def update_conv' delete_conv' split: option.split_asm)

lemma outgoing_ok:
  assumes "outgoing E V X request br = Inr (request1, br1)"
  shows "br_channel br1 = br_channel br" "br_session_material br1 = br_session_material br" "br_session_proof br1 = br_session_proof br"
    "rr_method request1 = rr_method request" "br_challenge br1 = br_challenge br \<or> br_challenge br1 = None"
  using assms by (auto simp: outgoing_def consume_request_def try_r_Inr_iff elim!: register_request_ok split: if_split_asm)

text \<open>What Chrome sees of a consumption.\<close>

definition sealed_for :: "server_env \<Rightarrow> bridge_env \<Rightarrow> bytes \<Rightarrow> bytes \<Rightarrow> (string \<times> json) list \<Rightarrow> (string \<times> json) list \<Rightarrow> bool" where
  "sealed_for E V material nonce result ms =
    (\<exists>execution_id fields plaintext ciphertext. map_of result ''execution_id'' = Some (String execution_id)
       \<and> map_of result ''fields'' = Some fields \<and> bw_to_vec V (Object [(''fields'', fields)]) = Inr plaintext
       \<and> bw_seal V material nonce (as_bytes execution_id) plaintext = Inr ciphertext
       \<and> map_of ms = (map_of result)(''fields'' := None, ''secret_envelope'' \<mapsto> secret_envelope E nonce ciphertext))"

lemma consume_answer_ok:
  assumes "consume_answer E V X response br = Inr r" "object_members (rp_result response) = Some result"
  obtains ms where "r = response\<lparr>rp_result := Some (Object ms)\<rparr>"
    "sealed_for E V (br_session_material br) (bx_envelope_nonce X) result ms"
  using assms that unfolding consume_answer_def sealed_for_def
  by (fastforce simp: try_r_Inr_iff ok_or_def bind_eq_Some_conv json_text_Some update_conv' delete_conv' split: option.split_asm)

lemma bridge_turn_ok:
  assumes "bridge_turn E C V so X frame br s = (Inr (out, br'), s')" "bw_request V frame = Inr q" "rr_method q \<noteq> ''extension.challenge''"
  obtains q1 br1 response ch r where "outgoing E V X q br = Inr (q1, br1)" "send_request E C so q1 (br_channel br) s = (Inr response, ch, s')"
    "incoming E V X (rr_method q) response (br1\<lparr>br_channel := ch\<rparr>) = Inr (r, br')" "bw_response V r = Inr out"
  using assms outgoing_ok(1) by (auto simp: bridge_turn_def try_r_Inr_iff split: sum.split_asm prod.split_asm)

section \<open>A concrete session\<close>

definition sample_bridge_env :: bridge_env where
  "sample_bridge_env =
    \<lparr>bw_request = (\<lambda>frame. Inr (RpcRequest_new ''1'' (if frame = [] then ''executor.consume'' else ''browser.register'')
        (Some (Object [(''instance_id'', String ''forged''), (''extension_proof'', Null)])))),
     bw_response = (\<lambda>_. Inr []), bw_challenge = (\<lambda>_. Null),
     bw_proof = (\<lambda>_. Inr \<lparr>xp_public_key = b64_encode plain_base64 (replicate 32 1), xp_challenge_nonce = ''n'',
        xp_signature = b64_encode plain_base64 (ed_sign plain_ed25519 (replicate 32 1)
          (extension_transcript id ''n'' ''x'' (b64_encode plain_base64 (replicate 32 1)))), xp_pairing_code = Some ''123456''\<rparr>),
     bw_to_vec = (\<lambda>_. Inr [7]), bw_seal = (\<lambda>key nonce aad p. Inr (nonce @ aad @ p)),
     bw_instance_id = Some ''bi_1'', bw_launch_nonce = Some ''nonce'', bw_profile_id = Some ''bi_1''\<rparr>"

definition sample_bridge :: Bridge where
  "sample_bridge =
    \<lparr>br_channel = new_client (\<lambda>_ _ _. replicate 64 7) [] [] [], br_session_material = replicate 32 3, br_session_proof = Some ''p'',
     br_enrollment = \<lparr>ee_extension_id = ''x'', ee_public_key = None, ee_pending_pairing_code = Some ''123456''\<rparr>,
     br_challenge = Some \<lparr>xc_nonce = ''n'', xc_pairing_code = Some ''123456'', xc_paired = False\<rparr>\<rparr>"

definition sample_bridge_inputs :: bridge_inputs where
  "sample_bridge_inputs = \<lparr>bx_challenge_nonce = [], bx_envelope_nonce = [8], bx_write = None\<rparr>"

text \<open>A daemon that answers every request with an execution and a session proof.\<close>

definition sample_bridge_client :: client_wire where
  "sample_bridge_client = sample_client\<lparr>cw_response := (\<lambda>_. Inr (RpcResponse_success (IdString ''1'')
     (Object [(''execution_id'', String ''e''), (''fields'', String ''secret''), (''session_proof'', String ''q'')])))\<rparr>"

definition sample_bridge_socket :: "unit socket" where
  "sample_bridge_socket = \<lparr>so_open = returnh (), so_exchange = (\<lambda>wire. returnh (format_nonce 0))\<rparr>"

lemma sample_bridge_simps [simp]:
  "br_session_proof sample_bridge = Some ''p''" "br_session_material sample_bridge = replicate 32 3"
  "br_challenge sample_bridge = Some \<lparr>xc_nonce = ''n'', xc_pairing_code = Some ''123456'', xc_paired = False\<rparr>"
  "bw_request sample_bridge_env frame = Inr (RpcRequest_new ''1'' (if frame = [] then ''executor.consume'' else ''browser.register'')
        (Some (Object [(''instance_id'', String ''forged''), (''extension_proof'', Null)])))"
  "bw_response sample_bridge_env r = Inr []" "bw_to_vec sample_bridge_env v = Inr [7]"
  "bw_seal sample_bridge_env key nonce aad p = Inr (nonce @ aad @ p)"
  "bw_instance_id sample_bridge_env = Some ''bi_1''" "bw_launch_nonce sample_bridge_env = Some ''nonce''" "bw_profile_id sample_bridge_env = Some ''bi_1''"
  "bx_envelope_nonce sample_bridge_inputs = [8]" "bx_write sample_bridge_inputs = None"
  by (simp_all add: sample_bridge_def sample_bridge_env_def sample_bridge_inputs_def)

lemma sample_bridge_send:
  "send_request sample_server sample_bridge_client sample_bridge_socket q (br_channel sample_bridge) ()
    = (Inr (RpcResponse_success (IdString ''1'')
        (Object [(''execution_id'', String ''e''), (''fields'', String ''secret''), (''session_proof'', String ''q'')])),
       (br_channel sample_bridge)\<lparr>tx_nonce := 1, rx_nonce := 1\<rparr>, ())"
  by (simp add: send_request_def sample_bridge_client_def sample_client_def sample_bridge_socket_def sample_server_def sample_bridge_def
      new_client_def derive_directional_keys_def encrypt_def decrypt_def checked_succ_def tagged_aead_def format_nonce_def)

section \<open>Properties\<close>

text \<open>
  C22.  The fields that the daemon resolves never reach Chrome in the clear.  The answer to a consumption is the daemon's answer
  with the fields replaced by an envelope, sealed with the key of this host's session and bound to the execution; the
  request went out with the proof of the registered session, whatever signature the extension had put there; an answer
  without a result is forwarded as it is.
\<close>

theorem bridge_seals_fields:
  assumes "bridge_turn E C V so X frame br s = (Inr (out, br'), s')"
    and "bw_request V frame = Inr q" "rr_method q = ''executor.consume''"
  shows "\<exists>evidence params params1 response ch r. br_session_proof br = Some evidence \<and> rr_params q = Some (Object params)
     \<and> map_of params1 = (map_of params)(''session_signature'' \<mapsto> String evidence)
     \<and> send_request E C so (q\<lparr>rr_params := Some (Object params1)\<rparr>) (br_channel br) s = (Inr response, ch, s')
     \<and> bw_response V r = Inr out \<and> br' = br\<lparr>br_channel := ch\<rparr>
     \<and> (case object_members (rp_result response) of
          None \<Rightarrow> r = response
        | Some result \<Rightarrow> (\<exists>ms. r = response\<lparr>rp_result := Some (Object ms)\<rparr> \<and> map_of ms ''fields'' = None
             \<and> sealed_for E V (br_session_material br) (bx_envelope_nonce X) result ms))"
proof -
  obtain q1 br1 response ch r where t: "outgoing E V X q br = Inr (q1, br1)" "send_request E C so q1 (br_channel br) s = (Inr response, ch, s')"
    "incoming E V X (rr_method q) response (br1\<lparr>br_channel := ch\<rparr>) = Inr (r, br')" "bw_response V r = Inr out"
    by (rule bridge_turn_ok[OF assms(1,2)]) (use assms(3) in auto)
  from t(1) assms(3) obtain params evidence where q: "rr_params q = Some (Object params)" "br_session_proof br = Some evidence" "br1 = br"
    "q1 = q\<lparr>rr_params := Some (Object (AList.update ''session_signature'' (String evidence) params))\<rparr>"
    by (auto simp: outgoing_def consume_request_ok)
  have "(case object_members (rp_result response) of
          None \<Rightarrow> r = response
        | Some result \<Rightarrow> (\<exists>ms. r = response\<lparr>rp_result := Some (Object ms)\<rparr> \<and> map_of ms ''fields'' = None
             \<and> sealed_for E V (br_session_material br) (bx_envelope_nonce X) result ms))" and br: "br' = br\<lparr>br_channel := ch\<rparr>"
  proof -
    from t(3) assms(3) q(3) have c: "consume_answer E V X response (br\<lparr>br_channel := ch\<rparr>) = Inr r" "br' = br\<lparr>br_channel := ch\<rparr>"
      by (auto simp: incoming_def try_r_Inr_iff)
    show "br' = br\<lparr>br_channel := ch\<rparr>" by (rule c(2))
    show "case object_members (rp_result response) of None \<Rightarrow> r = response
        | Some result \<Rightarrow> (\<exists>ms. r = response\<lparr>rp_result := Some (Object ms)\<rparr> \<and> map_of ms ''fields'' = None
             \<and> sealed_for E V (br_session_material br) (bx_envelope_nonce X) result ms)"
    proof (cases "object_members (rp_result response)")
      case None
      then show ?thesis using c(1) by (simp add: consume_answer_def)
    next
      case (Some result)
      obtain ms where "r = response\<lparr>rp_result := Some (Object ms)\<rparr>" "sealed_for E V (br_session_material br) (bx_envelope_nonce X) result ms"
        using consume_answer_ok[OF c(1) Some] by auto
      then show ?thesis using Some by (auto simp: sealed_for_def)
    qed
  qed
  moreover have "map_of (AList.update ''session_signature'' (String evidence) params) = (map_of params)(''session_signature'' \<mapsto> String evidence)"
    by (simp add: update_conv')
  ultimately show ?thesis using q t(2,4) by blast
qed

theorem bridge_seals_fields_witness:
  "\<exists>out br'. bridge_turn sample_server sample_bridge_client sample_bridge_env sample_bridge_socket sample_bridge_inputs [] sample_bridge ()
      = (Inr (out, br'), ()) \<and> (\<exists>ms. map_of ms ''fields'' = None \<and> sealed_for sample_server sample_bridge_env (replicate 32 3) [8]
           [(''execution_id'', String ''e''), (''fields'', String ''secret''), (''session_proof'', String ''q'')] ms)"
proof -
  obtain out br' where t: "bridge_turn sample_server sample_bridge_client sample_bridge_env sample_bridge_socket sample_bridge_inputs [] sample_bridge ()
      = (Inr (out, br'), ())"
    by (simp add: bridge_turn_def outgoing_def consume_request_def object_members_def ok_or_def sample_bridge_send incoming_def
        consume_answer_def RpcResponse_success_def json_text_def RpcRequest_new_def)
  have q: "bw_request sample_bridge_env [] = Inr (RpcRequest_new ''1'' ''executor.consume'' (Some (Object [(''instance_id'', String ''forged''), (''extension_proof'', Null)])))"
    by simp
  show ?thesis using t bridge_seals_fields[OF t q]
    by (auto simp: RpcRequest_new_def sample_bridge_send RpcResponse_success_def object_members_def)
qed



text \<open>
  An installation makes the native host known: once \<open>install\<close> has returned, Chrome, which the manifest lets start the host for
  the packaged extension only, gets a host that the daemon on this database admits, whatever an earlier installation had left
  behind.  The host finds its key, presents the enrolled principal and ends up with a channel that agrees with the daemon's.
\<close>

lemma upserted_agent_found:
  assumes "upsert_agent io a d = (Inr (), d')" "ag_state a = ''enrolled''"
  obtains t where "get_enrolled_agent d' (ag_agent_id a) = Inr (a\<lparr>ag_created_at := t\<rparr>)"
proof -
  let ?f = "\<lambda>r. if agent_conflict a r then a\<lparr>ag_created_at := ag_created_at r\<rparr> else r"
  have updated: "\<exists>t. find (enrolled (ag_agent_id a)) (map ?f rs) = Some (a\<lparr>ag_created_at := t\<rparr>)" if "list_ex (agent_conflict a) rs" for rs
    using that by (induction rs) (auto simp: enrolled_def agent_conflict_def assms(2))
  have appended: "find (enrolled (ag_agent_id a)) (rs @ [a]) = Some a" if "\<not> list_ex (agent_conflict a) rs" for rs
    using that by (induction rs) (auto simp: enrolled_def agent_conflict_def assms(2))
  show ?thesis
  proof (cases "list_ex (agent_conflict a) (t_agents d)")
    case True
    then have d': "t_agents d' = map ?f (t_agents d)"
      using assms(1) by (auto simp: upsert_agent_def atomically_def stmt_def update_rows_def split: if_splits option.splits)
    obtain t where "find (enrolled (ag_agent_id a)) (t_agents d') = Some (a\<lparr>ag_created_at := t\<rparr>)"
      using updated[OF True] unfolding d' by blast
    then show ?thesis using that[of t] by (simp add: get_enrolled_agent_def)
  next
    case False
    then have "t_agents d' = t_agents d @ [a]"
      using assms(1) by (auto simp: upsert_agent_def atomically_def stmt_def split: if_splits option.splits)
    then show ?thesis using that[of "ag_created_at a"] appended[OF False] by (simp add: get_enrolled_agent_def)
  qed
qed

lemma installed_key:
  assumes "install_identity J prior = (i, locator)" "host_key J locator h = (Inr key, h1)" "length (ii_generated_key J) = 32"
  shows "map_of (hi_keys h1) locator = Some key" "length key = 32" "hi_db h1 = hi_db h" "hi_config h1 = hi_config h" "locator \<noteq> []"
  using assms by (auto simp: host_key_def bindh_def KeyPair_from_bytes_def install_identity_def Let_def update_conv'
      split: option.split_asm if_split_asm)

theorem installed_host_admitted:
  assumes "session_laws E C" "length (ii_generated_key J) = 32"
    and "install (sv_sha256 E) (sv_ed E) J extension_id h = (Inr (), h')" "hi_db h' = b_store (ss_broker s)"
    and "ii_executable J = pr_executable P" "pr_executable P = Inr executable" "ii_image J = pr_image P executable"
    and "ii_owner J = Inr (pr_uid P)" "pr_pid P \<noteq> None" "sl_io (tn_world T 0) 0 = None"
    and "pin = ed_public (sv_ed E) (b_broker_key (ss_broker s))"
  shows "\<exists>config who key ch sch. hi_config h' = Some (Inr config)
     \<and> map_option nm_allowed_origins (hi_manifest h') = Some [extension_origin MANAGED_EXTENSION_ID]
     \<and> host_start (Some (extension_origin MANAGED_EXTENSION_ID)) (Inr config) (\<lambda>l. ok_or ''not found'' (map_of (hi_keys h') l)) (Inr pin)
         = Inr (who, key, pin)
     \<and> bridge_connect E C (link_socket (executor_turn E P)) who key pin nonce ephemeral
         \<lparr>lk_phase = None, lk_server = s, lk_turns = [(T, True), (T', True)]\<rparr>
       = (Inr ch, \<lparr>lk_phase = Some (Serving sch (tn_now T')), lk_server = s, lk_turns = []\<rparr>)
     \<and> synchronized ch sch"
proof -
  obtain prior who locator h2 enrollment where who: "install_identity J prior = (who, locator)" and ext: "extension_id = MANAGED_EXTENSION_ID"
    and run: "enroll_host (sv_sha256 E) (sv_ed E) J extension_id who locator h = (Inr (), h2)" and h2: "h' = h2\<lparr>hi_enrollment := Some (Inr enrollment)\<rparr>"
    using assms(3) unfolding install_def
    by (auto simp: bindh_Inr_iff[of "case install_identity _ _ of (x, y) \<Rightarrow> _ x y"] split: prod.split_asm) (metis surj_pair)
  from run obtain key h1 bytes d where k: "host_key J locator h = (Inr key, h1)" and b: "ii_image J = Inr bytes"
    and up: "upsert_agent (ii_io J) (host_principal (sv_sha256 E) (sv_ed E) who key executable bytes (pr_uid P) (ii_now J)) (hi_db h1) = (Inr (), d)"
    and h': "hi_db h' = d" "hi_keys h' = hi_keys h1" "hi_manifest h' = Some (NativeHostManifest_new executable extension_id)"
      "hi_config h' = Some (Inr \<lparr>hc_principal_id = who, hc_extension_id = extension_id, hc_key_locator = locator\<rparr>)"
    using assms(5-8) h2 unfolding enroll_host_def
    by (auto simp: bindh_Inr_iff[of "host_key J locator"] bindh_def split: prod.split_asm sum.split_asm)
  note key = installed_key[OF who k assms(2)]
  let ?a = "host_principal (sv_sha256 E) (sv_ed E) who key executable bytes (pr_uid P) (ii_now J)"
  obtain t where found: "get_enrolled_agent d (ag_agent_id ?a) = Inr (?a\<lparr>ag_created_at := t\<rparr>)"
    by (rule upserted_agent_found[OF up]) (simp add: host_principal_def)
  let ?l = "\<lparr>lk_phase = None, lk_server = s, lk_turns = [(T, True), (T', True)]\<rparr>" and ?agent = "?a\<lparr>ag_created_at := t\<rparr>"
  have agent: "get_enrolled_agent (b_store (ss_broker (lk_server ?l))) who = Inr ?agent"
    using found h'(1) assms(4) by (simp add: host_principal_def)
  have same: "verify_peer_identity E ?agent P = Inr True"
    using assms(6,9) b[unfolded assms(7)] by (simp add: verify_peer_identity_def host_principal_def is_some_and_def path_eq_def)
  have turns: "lk_turns ?l = (T, True) # (T', True) # []" by simp
  obtain ch sch where "bridge_connect E C (link_socket (executor_turn E P)) who key
        (ed_public (sv_ed E) (b_broker_key (ss_broker (lk_server ?l)))) nonce ephemeral ?l =
      (Inr ch, \<lparr>lk_phase = Some (Serving sch (tn_now T')), lk_server = lk_server ?l, lk_turns = []\<rparr>)" "synchronized ch sch"
    by (rule bridge_connects[OF assms(1) turns assms(10) agent _ same, where key = key and nonce = nonce and ephemeral = ephemeral])
      (simp_all add: host_principal_def)
  moreover have "length pin = 32" using assms(1,11) by (simp add: session_laws_def ed25519_laws_def)
  then have "host_start (Some (extension_origin MANAGED_EXTENSION_ID)) (Inr \<lparr>hc_principal_id = who, hc_extension_id = extension_id, hc_key_locator = locator\<rparr>)
      (\<lambda>l. ok_or ''not found'' (map_of (hi_keys h') l)) (Inr pin) = Inr (who, key, pin)"
    using key h'(2) by (simp add: host_start_def starts_with_def extension_origin_def ext host_key_locator_def ok_or_def KeyPair_from_bytes_def)
  ultimately show ?thesis using h'(3,4) assms(11)
    by (auto simp: NativeHostManifest_new_def ext)
qed

definition sample_host :: host_installation where
  "sample_host = \<lparr>hi_config = None, hi_enrollment = None, hi_manifest = None, hi_keys = [], hi_db = sample_db\<rparr>"

definition sample_install :: install_inputs where
  "sample_install = \<lparr>ii_agent_uuid = ''7'', ii_key_store = None, ii_generated_key = replicate 32 2, ii_executable = Inr ''/bin/host'',
     ii_image = Inr [1, 2], ii_owner = Inr 501, ii_now = 0, ii_pairing_random = [0, 0, 1, 0], ii_io = (\<lambda>_. None)\<rparr>"

definition sample_peer :: peer where
  "sample_peer = \<lparr>pr_uid = 501, pr_pid = Some 9, pr_executable = Inr ''/bin/host'', pr_image = (\<lambda>_. Inr [1, 2])\<rparr>"

theorem installed_host_admitted_witness:
  "\<exists>h' config who key ch sch. install (sv_sha256 sample_server) (sv_ed sample_server) sample_install MANAGED_EXTENSION_ID sample_host = (Inr (), h')
     \<and> hi_config h' = Some (Inr config)
     \<and> bridge_connect sample_server sample_client (link_socket (executor_turn sample_server sample_peer)) who key
         (ed_public plain_ed25519 (replicate 32 5)) ''c'' [4]
         \<lparr>lk_phase = None, lk_server = sample_daemon\<lparr>ss_broker := (ss_broker sample_daemon)\<lparr>b_store := hi_db h'\<rparr>\<rparr>,
          lk_turns = [(sample_turn 0 ''a'', True), (sample_turn 1 ''a'', True)]\<rparr>
       = (Inr ch, \<lparr>lk_phase = Some (Serving sch 1), lk_server = sample_daemon\<lparr>ss_broker := (ss_broker sample_daemon)\<lparr>b_store := hi_db h'\<rparr>\<rparr>, lk_turns = []\<rparr>)
     \<and> synchronized ch sch"
proof -
  obtain h' where i: "install (sv_sha256 sample_server) (sv_ed sample_server) sample_install MANAGED_EXTENSION_ID sample_host = (Inr (), h')"
    by (simp add: install_def install_identity_def enroll_host_def host_key_def bindh_def guardh_def sample_host_def sample_install_def upsert_agent_def
        atomically_def stmt_def sample_db_def empty_db_def Let_def)
  let ?s = "sample_daemon\<lparr>ss_broker := (ss_broker sample_daemon)\<lparr>b_store := hi_db h'\<rparr>\<rparr>"
  have "ed_public plain_ed25519 (replicate 32 5) = ed_public (sv_ed sample_server) (b_broker_key (ss_broker ?s))"
    by (simp add: sample_daemon_def sample_server_def sample_terse_def sample_env_def plain_cap_env_def)
  moreover have "sl_io (tn_world (sample_turn 0 ''a'') 0) 0 = None" by (simp add: sample_turn_def sample_slot_def)
  moreover have "tn_now (sample_turn 1 ''a'') = 1" by (simp add: sample_turn_def)
  ultimately show ?thesis
    using installed_host_admitted[OF sample_laws _ i, of ?s sample_peer "''/bin/host''" "sample_turn 0 ''a''"
        "ed_public plain_ed25519 (replicate 32 5)" "''c''" "[4]" "sample_turn 1 ''a''"] i
    by (simp add: sample_install_def sample_peer_def) blast
qed

end
