(* ===== verification/Launcher.thy ===== *)
theory Launcher
  imports Cdp_Pipe Native_Bridge
begin

text \<open>
  Starting a managed browser (\<open>secretctl-browser-gateway/src/launcher.rs\<close>).  The launcher prepares a profile whose only native
  host is ours, starts Chrome with a private pipe and the values that the native host will attest, loads the packaged
  extension and checks through the pipe that it is the only one.  The state is what the launcher leaves on the machine: the
  manifest it wrote and the process it started.  The outcomes of the operating system and the frames of the browser are inputs.
\<close>

section \<open>State and inputs\<close>

record chrome_command =
  cc_binary :: string
  cc_environment :: "(string \<times> string) list"
  cc_arguments :: "string list"

record machine =
  mc_manifest :: "(string \<times> NativeHostManifest) option"
  mc_child :: "chrome_command option"

record LaunchedBrowser =
  lb_instance :: BrowserInstance
  lb_profile_dir :: string
  lb_process :: "chrome_command option"
  lb_cdp_pipe :: "CdpPipe option"
  lb_startup_diagnostics :: "string list"

record BrowserLauncher =
  bl_chrome_binary_path :: string
  bl_extension_path :: string
  bl_native_host_binary_path :: "string option"
  bl_headless :: bool

record launch_inputs =
  li_instance_uuid :: string
  li_nonce_uuid :: string
  li_now :: datetime
  li_temp_dir :: string
  li_profile :: "string + unit"
  li_native_host :: "string \<Rightarrow> string + string"
  li_manifest_written :: "string + unit"
  li_binary :: "string + bytes"
  li_extension_manifest :: bool
  li_extension :: "string + string"
  li_pipes :: "string + unit"
  li_spawn :: "string + unit"
  li_frames :: "(GatewayError + bytes) list"
  li_stderr :: "string list"

definition BrowserLauncher_new :: "string \<Rightarrow> string \<Rightarrow> BrowserLauncher" where
  "BrowserLauncher_new chrome_binary_path extension_path =
    \<lparr>bl_chrome_binary_path = chrome_binary_path, bl_extension_path = extension_path, bl_native_host_binary_path = None, bl_headless = False\<rparr>"

definition with_native_host :: "string \<Rightarrow> BrowserLauncher \<Rightarrow> BrowserLauncher" where
  "with_native_host path L = L\<lparr>bl_native_host_binary_path := Some path\<rparr>"

definition with_headless :: "bool \<Rightarrow> BrowserLauncher \<Rightarrow> BrowserLauncher" where
  "with_headless headless L = L\<lparr>bl_headless := headless\<rparr>"

section \<open>Steps\<close>

definition profile_path :: "launch_inputs \<Rightarrow> string option \<Rightarrow> BrowserInstanceId \<Rightarrow> string" where
  "profile_path I custom instance_id =
    (case custom of Some p \<Rightarrow> p | None \<Rightarrow> li_temp_dir I @ ''/secretctl_browser_'' @ instance_id)"

definition write_native_manifest :: "BrowserLauncher \<Rightarrow> launch_inputs \<Rightarrow> string \<Rightarrow> (machine, GatewayError, unit) handler" where
  "write_native_manifest L I profile_dir =
    bindh (lifth (ok_or (LaunchFailed ''Native host binary was not configured'') (bl_native_host_binary_path L))) (\<lambda>path.
    bindh (lifth (map_err (\<lambda>e. LaunchFailed (''Native host binary cannot be resolved: '' @ e)) (li_native_host I path))) (\<lambda>native_host_binary.
    bindh (lifth (map_err GatewayError.Io (li_manifest_written I))) (\<lambda>_.
    modifyh (\<lambda>mc. mc\<lparr>mc_manifest := Some (profile_dir @ ''/NativeMessagingHosts/com.secretctl.native_host.json'',
      NativeHostManifest_new native_host_binary MANAGED_EXTENSION_ID)\<rparr>))))"

definition browser_instance :: "launch_inputs \<Rightarrow> BrowserInstanceId \<Rightarrow> bytes option \<Rightarrow> BrowserInstance" where
  "browser_instance I instance_id binary_hash =
    \<lparr>bi_instance_id = instance_id, bi_launcher_nonce = li_nonce_uuid I, bi_binary_hash = binary_hash,
     bi_extension_key_id = MANAGED_EXTENSION_ID, bi_private_cdp_endpoint = ''pipe:0'', bi_created_at = li_now I\<rparr>"

definition chrome_arguments :: "bool \<Rightarrow> string \<Rightarrow> string list" where
  "chrome_arguments headless profile_dir =
    [''--user-data-dir='' @ profile_dir, ''--enable-unsafe-extension-debugging'', ''--no-first-run'', ''--no-default-browser-check'',
     ''--remote-debugging-pipe'', ''--disable-background-networking'', ''--disable-component-update'']
    @ (if headless then [''--headless=new''] else [])"

definition launch_command :: "BrowserLauncher \<Rightarrow> BrowserInstance \<Rightarrow> string \<Rightarrow> chrome_command" where
  "launch_command L inst profile_dir =
    \<lparr>cc_binary = bl_chrome_binary_path L,
     cc_environment = [(''SECRETCTL_BROWSER_INSTANCE_ID'', bi_instance_id inst), (''SECRETCTL_BROWSER_LAUNCH_NONCE'', bi_launcher_nonce inst),
                       (''SECRETCTL_BROWSER_PROFILE_ID'', bi_instance_id inst)],
     cc_arguments = chrome_arguments (bl_headless L) profile_dir\<rparr>"

text \<open>\<open>str::replace\<close> of a text that is not empty, from the left; the empty pattern is not used.\<close>

function replace_str :: "string \<Rightarrow> string \<Rightarrow> string \<Rightarrow> string" where
  "replace_str s old new =
    (if s = [] then []
     else if old \<noteq> [] \<and> take (length old) s = old then new @ replace_str (drop (length old) s) old new
     else hd s # replace_str (tl s) old new)"
  by auto
termination by (relation "measure (\<lambda>(s, _, _). length s)") (auto simp: neq_Nil_conv)

declare replace_str.simps [simp del]

definition diagnostics_of :: "string \<Rightarrow> string list \<Rightarrow> string list" where
  "diagnostics_of profile_dir lines =
    map (\<lambda>line. take 500 (replace_str line profile_dir ''[managed-profile]'')) (take 100 lines)"

definition json_bool :: "json \<Rightarrow> bool option" where
  "json_bool v = (case v of Bool b \<Rightarrow> Some b | _ \<Rightarrow> None)"

definition text_member :: "string \<Rightarrow> json \<Rightarrow> string option" where
  "text_member k v = Option.bind (json_member k v) json_text"

definition approved_extension :: "json \<Rightarrow> bool" where
  "approved_extension extension =
    (text_member ''id'' extension = Some MANAGED_EXTENSION_ID \<and> text_member ''version'' extension = Some ''1.0.0''
     \<and> Option.bind (json_member ''enabled'' extension) json_bool = Some True)"

definition approved :: "json \<Rightarrow> bool" where
  "approved installed =
    (case json_member ''extensions'' installed of
       Some (Array [extension]) \<Rightarrow> approved_extension extension
     | _ \<Rightarrow> False)"

definition kill_child :: "(machine, GatewayError, unit) handler" where
  "kill_child = modifyh (\<lambda>mc. mc\<lparr>mc_child := None\<rparr>)"

text \<open>
  The check of the extension over the new pipe.  The error of the second request is returned as it is (the operator \<open>?\<close>);
  the other three failures kill the browser first.
\<close>

definition verify_extension :: "pipe_env \<Rightarrow> string \<Rightarrow> CdpPipe \<Rightarrow> (machine, GatewayError, CdpPipe) handler" where
  "verify_extension V extension_path pipe =
    (case pipe_request V CdpFilter_new ''Extensions.loadUnpacked'' None (Object [(''path'', String extension_path)]) pipe of
       (Inl e, _) \<Rightarrow> bindh kill_child (\<lambda>_. failh (LaunchFailed ''Chrome could not load the managed extension''))
     | (Inr result, pipe1) \<Rightarrow>
       if text_member ''id'' result \<noteq> Some MANAGED_EXTENSION_ID
       then bindh kill_child (\<lambda>_. failh (LaunchFailed ''Chrome loaded an extension with an unexpected identity''))
       else
         (case pipe_request V CdpFilter_new ''Extensions.getExtensions'' None (Object []) pipe1 of
            (Inl e, _) \<Rightarrow> failh e
          | (Inr installed, pipe2) \<Rightarrow>
            if \<not> approved installed
            then bindh kill_child (\<lambda>_. failh (LaunchFailed ''Managed extension verification failed''))
            else returnh pipe2))"

definition start_chrome ::
    "pipe_env \<Rightarrow> BrowserLauncher \<Rightarrow> launch_inputs \<Rightarrow> BrowserInstance \<Rightarrow> string \<Rightarrow> (machine, GatewayError, LaunchedBrowser) handler" where
  "start_chrome V L I inst profile_dir =
    bindh (guardh (li_extension_manifest I) (LaunchFailed ''Packaged extension directory is missing manifest.json'')) (\<lambda>_.
    bindh (lifth (map_err (\<lambda>e. LaunchFailed (''Extension path cannot be resolved: '' @ e)) (li_extension I))) (\<lambda>extension_path.
    bindh (lifth (map_err GatewayError.Io (li_pipes I))) (\<lambda>_.
    bindh (lifth (map_err (\<lambda>e. LaunchFailed (''Failed to spawn Chrome process: '' @ e)) (li_spawn I))) (\<lambda>_.
    let cmd = launch_command L inst profile_dir in
    bindh (modifyh (\<lambda>mc. mc\<lparr>mc_child := Some cmd\<rparr>)) (\<lambda>_.
    bindh (verify_extension V extension_path (CdpPipe_new (li_frames I))) (\<lambda>cdp_pipe.
    returnh \<lparr>lb_instance = inst, lb_profile_dir = profile_dir, lb_process = Some cmd, lb_cdp_pipe = Some cdp_pipe,
             lb_startup_diagnostics = diagnostics_of profile_dir (li_stderr I)\<rparr>))))))"

definition launch ::
    "(bytes \<Rightarrow> bytes) \<Rightarrow> pipe_env \<Rightarrow> BrowserLauncher \<Rightarrow> launch_inputs \<Rightarrow> string option \<Rightarrow> bool \<Rightarrow> (machine, GatewayError, LaunchedBrowser) handler" where
  "launch sha256 V L I custom_profile_dir mock_mode =
    (let instance_id = id_new ''bi'' (li_instance_uuid I); profile_dir = profile_path I custom_profile_dir instance_id in
     bindh (lifth (map_err GatewayError.Io (li_profile I))) (\<lambda>_.
     if mock_mode
     then returnh \<lparr>lb_instance = browser_instance I instance_id None, lb_profile_dir = profile_dir, lb_process = None, lb_cdp_pipe = None,
                   lb_startup_diagnostics = []\<rparr>
     else
       bindh (write_native_manifest L I profile_dir) (\<lambda>_.
       bindh (lifth (map_err (\<lambda>e. LaunchFailed (''Chrome binary is unavailable: '' @ e)) (li_binary I))) (\<lambda>binary.
       start_chrome V L I (browser_instance I instance_id (Some (sha256 binary))) profile_dir))))"

text \<open>Stopping: a failure to kill is returned before the pipe is dropped.\<close>

definition shutdown :: "GatewayError option \<Rightarrow> LaunchedBrowser \<Rightarrow> machine \<Rightarrow> (GatewayError + unit) \<times> LaunchedBrowser \<times> machine" where
  "shutdown kill lb mc =
    (case lb_process lb of
       None \<Rightarrow> (Inr (), lb\<lparr>lb_cdp_pipe := None\<rparr>, mc)
     | Some _ \<Rightarrow>
       (case kill of
          Some e \<Rightarrow> (Inl e, lb\<lparr>lb_process := None\<rparr>, mc)
        | None \<Rightarrow> (Inr (), lb\<lparr>lb_process := None, lb_cdp_pipe := None\<rparr>, mc\<lparr>mc_child := None\<rparr>)))"

section \<open>Properties\<close>

lemma verify_extension_ok:
  assumes "verify_extension V path p mc = (Inr q, mc')"
  obtains loaded p1 installed where "pipe_request V CdpFilter_new ''Extensions.loadUnpacked'' None (Object [(''path'', String path)]) p = (Inr loaded, p1)"
    "text_member ''id'' loaded = Some MANAGED_EXTENSION_ID"
    "pipe_request V CdpFilter_new ''Extensions.getExtensions'' None (Object []) p1 = (Inr installed, q)" "approved installed" "mc' = mc"
  using assms by (auto simp: verify_extension_def kill_child_def bindh_def split: prod.split_asm sum.split_asm if_split_asm)

lemma verify_extension_failed:
  assumes "verify_extension V path p mc = (Inl e, mc')"
  shows "mc_child mc' = None \<or> (\<exists>loaded p1 p2. pipe_request V CdpFilter_new ''Extensions.loadUnpacked'' None (Object [(''path'', String path)]) p = (Inr loaded, p1)
      \<and> pipe_request V CdpFilter_new ''Extensions.getExtensions'' None (Object []) p1 = (Inl e, p2))"
  using assms by (auto simp: verify_extension_def kill_child_def bindh_def split: prod.split_asm sum.split_asm if_split_asm)

lemma start_chrome_ok:
  assumes "start_chrome V L I inst profile mc = (Inr lb, mc')"
  obtains path q where "li_extension I = Inr path" "verify_extension V path (CdpPipe_new (li_frames I)) (mc\<lparr>mc_child := Some (launch_command L inst profile)\<rparr>) = (Inr q, mc')"
    "lb = \<lparr>lb_instance = inst, lb_profile_dir = profile, lb_process = Some (launch_command L inst profile), lb_cdp_pipe = Some q,
             lb_startup_diagnostics = diagnostics_of profile (li_stderr I)\<rparr>"
  using assms unfolding start_chrome_def Let_def
  by (auto simp: bindh_Inr_iff[of "verify_extension _ _ _"])

lemma launch_ok:
  assumes "launch H V L I custom False mc = (Inr lb, mc')"
  obtains mc1 binary host where "start_chrome V L I (browser_instance I (id_new ''bi'' (li_instance_uuid I)) (Some (H binary)))
      (profile_path I custom (id_new ''bi'' (li_instance_uuid I))) mc1 = (Inr lb, mc')" "li_binary I = Inr binary"
    "mc_manifest mc1 = Some (profile_path I custom (id_new ''bi'' (li_instance_uuid I)) @ ''/NativeMessagingHosts/com.secretctl.native_host.json'',
       NativeHostManifest_new host MANAGED_EXTENSION_ID)"
  using assms unfolding launch_def Let_def write_native_manifest_def
  by (auto simp: bindh_assoc)

lemma pipe_request_sent:
  assumes "pipe_request V f m tab ps p = (Inr r, p')"
  shows "pi_sent p' = pi_sent p @ [cdp_command (pi_next_id p) m None ps]"
  using assms by (auto simp: pipe_request_def request_with_session_def Let_def split: sum.split_asm if_split_asm option.split_asm prod.split_asm)

lemma diagnostics_bounds: "length (diagnostics_of p ls) \<le> 100" "list_all (\<lambda>d. length d \<le> 500) (diagnostics_of p ls)"
  by (simp_all add: diagnostics_of_def list_all_iff)


lemma bindh_returnh_Inl: "bindh m (\<lambda>q. returnh (f q)) s = (Inl e, t) \<longleftrightarrow> m s = (Inl e, t)"
  by (auto simp: bindh_def split: prod.split sum.split)

lemma start_chrome_failed:
  assumes "start_chrome V L I inst profile mc = (Inl e, mc')"
  shows "mc_child mc' = mc_child mc \<or> mc_child mc' = None
    \<or> (\<exists>path loaded p1 p2. pipe_request V CdpFilter_new ''Extensions.loadUnpacked'' None (Object [(''path'', String path)]) (CdpPipe_new (li_frames I)) = (Inr loaded, p1)
      \<and> pipe_request V CdpFilter_new ''Extensions.getExtensions'' None (Object []) p1 = (Inl e, p2))"
  using assms unfolding start_chrome_def Let_def guardh_def
  by (auto simp: bindh_def[of "lifth _"] bindh_returnh_Inl split: sum.split_asm if_split_asm dest!: verify_extension_failed)

text \<open>
  A launch that fails leaves no browser behind, with one exception: when the browser has loaded the extension and the request
  for the list of extensions fails, the launch reports the error and the browser keeps running, with nobody who could stop it.
\<close>

theorem failed_launch_leaves_browser:
  assumes "mc_child mc = None" "launch H V L I custom mock mc = (Inl e, mc')" "mc_child mc' = Some cmd"
  shows "\<exists>path loaded p1 p2. pipe_request V CdpFilter_new ''Extensions.loadUnpacked'' None (Object [(''path'', String path)]) (CdpPipe_new (li_frames I)) = (Inr loaded, p1)
      \<and> pipe_request V CdpFilter_new ''Extensions.getExtensions'' None (Object []) p1 = (Inl e, p2)"
proof -
  have "\<exists>inst profile mc1. start_chrome V L I inst profile mc1 = (Inl e, mc') \<and> mc_child mc1 = None"
    using assms unfolding launch_def Let_def write_native_manifest_def
    by (auto simp: bindh_assoc bindh_def[of "lifth _"] split: sum.split_asm if_split_asm) (intro exI conjI, assumption, simp)
  then show ?thesis using start_chrome_failed assms(3) by fastforce
qed

definition sample_launcher :: BrowserLauncher where
  "sample_launcher = with_native_host ''/bin/host'' (BrowserLauncher_new ''/bin/chrome'' ''/ext'')"

text \<open>A browser that loads the extension, and lists it when it is asked (\<open>answers_list\<close>) or closes the pipe.\<close>

definition sample_launch_inputs :: "bool \<Rightarrow> launch_inputs" where
  "sample_launch_inputs answers_list =
    \<lparr>li_instance_uuid = ''1'', li_nonce_uuid = ''n'', li_now = 0, li_temp_dir = ''/tmp'', li_profile = Inr (), li_native_host = Inr,
     li_manifest_written = Inr (), li_binary = Inr [1], li_extension_manifest = True, li_extension = Inr ''/ext'', li_pipes = Inr (),
     li_spawn = Inr (), li_frames = (if answers_list then [Inr [1], Inr [2]] else [Inr [1]]), li_stderr = []\<rparr>"

definition sample_chrome :: pipe_env where
  "sample_chrome =
    \<lparr>pv_to_vec = (\<lambda>_. Inr []),
     pv_from_slice = (\<lambda>bs. Inr (if bs = [1]
       then Object [(''id'', Number 1), (''result'', Object [(''id'', String MANAGED_EXTENSION_ID)])]
       else Object [(''id'', Number 2), (''result'', Object [(''extensions'', Array [Object [(''id'', String MANAGED_EXTENSION_ID),
              (''version'', String ''1.0.0''), (''enabled'', Bool True)]])])])),
     pv_write = (\<lambda>_. None)\<rparr>"

lemma sample_extension_requests:
  "pipe_request sample_chrome CdpFilter_new ''Extensions.loadUnpacked'' None v (CdpPipe_new (Inr [1] # fs))
    = (Inr (Object [(''id'', String MANAGED_EXTENSION_ID)]),
       \<lparr>pi_next_id = 2, pi_sent = [cdp_command 1 ''Extensions.loadUnpacked'' None v], pi_frames = fs\<rparr>)"
  "pipe_request sample_chrome CdpFilter_new ''Extensions.getExtensions'' None w \<lparr>pi_next_id = 2, pi_sent = cs, pi_frames = [Inr [2]]\<rparr>
    = (Inr (Object [(''extensions'', Array [Object [(''id'', String MANAGED_EXTENSION_ID), (''version'', String ''1.0.0''), (''enabled'', Bool True)]])]),
       \<lparr>pi_next_id = 3, pi_sent = cs @ [cdp_command 2 ''Extensions.getExtensions'' None w], pi_frames = []\<rparr>)"
  "pipe_request sample_chrome CdpFilter_new ''Extensions.getExtensions'' None w \<lparr>pi_next_id = 2, pi_sent = cs, pi_frames = []\<rparr>
    = (Inl ProcessTerminated, \<lparr>pi_next_id = 3, pi_sent = cs @ [cdp_command 2 ''Extensions.getExtensions'' None w], pi_frames = []\<rparr>)"
proof -
  have allowed: "validate_cdp_command CdpFilter_new ''Extensions.loadUnpacked'' None = Inr ()" "validate_cdp_command CdpFilter_new ''Extensions.getExtensions'' None = Inr ()"
    by (simp_all add: validate_spec ALLOWED_CDP_METHODS_def)
  have kept: "sanitize_cdp_response ''Extensions.loadUnpacked'' (Object [(''id'', Number 1), (''result'', Object [(''id'', String MANAGED_EXTENSION_ID)])])
      = Object [(''id'', Number 1), (''result'', Object [(''id'', String MANAGED_EXTENSION_ID)])]"
    "sanitize_cdp_response ''Extensions.getExtensions'' (Object [(''id'', Number 2), (''result'', Object [(''extensions'', Array [Object [(''id'', String MANAGED_EXTENSION_ID),
              (''version'', String ''1.0.0''), (''enabled'', Bool True)]])])])
      = Object [(''id'', Number 2), (''result'', Object [(''extensions'', Array [Object [(''id'', String MANAGED_EXTENSION_ID),
              (''version'', String ''1.0.0''), (''enabled'', Bool True)]])])]"
    by code_simp+
  show "pipe_request sample_chrome CdpFilter_new ''Extensions.loadUnpacked'' None v (CdpPipe_new (Inr [1] # fs))
    = (Inr (Object [(''id'', String MANAGED_EXTENSION_ID)]),
       \<lparr>pi_next_id = 2, pi_sent = [cdp_command 1 ''Extensions.loadUnpacked'' None v], pi_frames = fs\<rparr>)"
   and "pipe_request sample_chrome CdpFilter_new ''Extensions.getExtensions'' None w \<lparr>pi_next_id = 2, pi_sent = cs, pi_frames = [Inr [2]]\<rparr>
    = (Inr (Object [(''extensions'', Array [Object [(''id'', String MANAGED_EXTENSION_ID), (''version'', String ''1.0.0''), (''enabled'', Bool True)]])]),
       \<lparr>pi_next_id = 3, pi_sent = cs @ [cdp_command 2 ''Extensions.getExtensions'' None w], pi_frames = []\<rparr>)"
   and "pipe_request sample_chrome CdpFilter_new ''Extensions.getExtensions'' None w \<lparr>pi_next_id = 2, pi_sent = cs, pi_frames = []\<rparr>
    = (Inl ProcessTerminated, \<lparr>pi_next_id = 3, pi_sent = cs @ [cdp_command 2 ''Extensions.getExtensions'' None w], pi_frames = []\<rparr>)"
    by (simp_all add: pipe_request_def request_with_session_def allowed sample_chrome_def MAX_CDP_MESSAGE_BYTES_def strip_nul_def
        json_member_def json_text_def json_u64_def kept cdp_result_def unwrap_or_def CdpPipe_new_def)
qed

lemmas sample_launch_run = launch_def write_native_manifest_def start_chrome_def verify_extension_def kill_child_def bindh_def guardh_def
  sample_launcher_def with_native_host_def BrowserLauncher_new_def sample_launch_inputs_def ok_or_def Let_def sample_extension_requests
  text_member_def json_member_def json_text_def approved_def approved_extension_def json_bool_def


theorem failed_launch_leaves_browser_witness:
  "\<exists>mc' cmd. launch id sample_chrome sample_launcher (sample_launch_inputs False) None False \<lparr>mc_manifest = None, mc_child = None\<rparr> = (Inl ProcessTerminated, mc')
     \<and> mc_child mc' = Some cmd
     \<and> (\<exists>p1 p2. pipe_request sample_chrome CdpFilter_new ''Extensions.getExtensions'' None (Object []) p1 = (Inl ProcessTerminated, p2))"
proof -
  obtain mc' cmd where l: "launch id sample_chrome sample_launcher (sample_launch_inputs False) None False \<lparr>mc_manifest = None, mc_child = None\<rparr>
      = (Inl ProcessTerminated, mc')" "mc_child mc' = Some cmd"
    by (simp add: sample_launch_run)
  show ?thesis using l failed_launch_leaves_browser[OF _ l] by auto
qed

section \<open>The registration of a launched browser\<close>

text \<open>
  The daemon takes a registration at its word.  It draws a nonce for every browser that it launches and the native host sends it
  back, but the daemon looks only at the length of the nonce, and it does not ask whether it has launched the instance: any
  nonce of the same length gives the same outcome, and a session counts as managed with whatever instance was sent.
\<close>

lemma recorded_keeps:
  "record_audit_event E sl ty at ai ctx b = (r, b') \<Longrightarrow> b_sessions b' = b_sessions b \<and> b_managed_browsers b' = b_managed_browsers b"
  by (auto simp: record_audit_event_def audited_def try_audited_def bindh_def map_errh_def split: sum.split_asm prod.split_asm)

theorem registration_unbound_to_launch:
  assumes "\<not> attestation_rejected ps" "32 \<le> length nonce" "length nonce \<le> 256"
  shows "handle_browser_register E W (ps\<lparr>brp_launcher_nonce := nonce\<rparr>) b = handle_browser_register E W ps b
   \<and> (case handle_browser_register E W ps b of
       (Inr r, b') \<Rightarrow> b_managed_browsers b' = b_managed_browsers b
         \<and> (\<exists>a. map_of (b_sessions b') (brr_browser_session_id r) = Some a \<and> bs_instance_id (as_session a) = brp_instance_id ps
              \<and> bs_assurance (as_session a) = ''managed'')
     | _ \<Rightarrow> True)"
proof (rule conjI)
  show "handle_browser_register E W (ps\<lparr>brp_launcher_nonce := nonce\<rparr>) b = handle_browser_register E W ps b"
    using assms by (simp add: handle_browser_register_def attestation_rejected_def Let_def)
  show "case handle_browser_register E W ps b of
       (Inr r, b') \<Rightarrow> b_managed_browsers b' = b_managed_browsers b
         \<and> (\<exists>a. map_of (b_sessions b') (brr_browser_session_id r) = Some a \<and> bs_instance_id (as_session a) = brp_instance_id ps
              \<and> bs_assurance (as_session a) = ''managed'')
     | _ \<Rightarrow> True"
  proof -
    have "b_managed_browsers b' = b_managed_browsers b \<and> (\<exists>a. map_of (b_sessions b') (brr_browser_session_id r) = Some a
        \<and> bs_instance_id (as_session a) = brp_instance_id ps \<and> bs_assurance (as_session a) = ''managed'')"
      if "handle_browser_register E W ps b = (Inr r, b')" for r b'
      using that assms(1) unfolding handle_browser_register_def
      by (auto simp: Let_def bindh_Inr_iff[of "record_audit_event _ _ _ _ _ _"] update_conv' dest!: recorded_keeps)
    then show ?thesis by (cases "handle_browser_register E W ps b") (simp split: sum.split)
  qed
qed

definition sample_registration :: BrowserRegisterParams where
  "sample_registration = \<lparr>brp_instance_id = ''bi_unknown'', brp_launcher_nonce = replicate 36 (CHR ''0''), brp_profile_id = ''p'',
     brp_extension_id = MANAGED_EXTENSION_ID, brp_extension_version = ''1.0.0'', brp_extension_key_id = ''extkey_'' @ replicate 24 (CHR ''k''),
     brp_browser_version = ''Chrome/120.0''\<rparr>"

theorem registration_unbound_to_launch_witness:
  "handle_browser_register sample_env (\<lambda>_. sample_slot) (sample_registration\<lparr>brp_launcher_nonce := replicate 32 (CHR ''x'')\<rparr>) sample_broker
     = handle_browser_register sample_env (\<lambda>_. sample_slot) sample_registration sample_broker
   \<and> map_of (b_managed_browsers sample_broker) ''bi_unknown'' = None"
proof -
  have "browser_major ''Chrome/120.0'' = Some 120"
    by (simp add: browser_major_def starts_with_def parse_u32_def digits_value_def Let_def less_eq_char_def)
  then have "\<not> attestation_rejected sample_registration"
    by (simp add: attestation_rejected_def sample_registration_def is_none_or_def starts_with_def)
  then show ?thesis using registration_unbound_to_launch[of sample_registration "replicate 32 (CHR ''x'')" sample_env "\<lambda>_. sample_slot" sample_broker]
    by (simp add: sample_broker_def)
qed

end
