(* ===== verification/Platform_Providers.thy ===== *)
theory Platform_Providers
  imports Providers
begin

text \<open>
  The providers of the platforms (\<open>secretctl-provider-macos\<close>, \<open>secretctl-provider-linux\<close>, \<open>secretctl-provider-windows\<close>).  The one
  for macOS keeps each secret as a generic password of the keychain; the keychain is an argument, and \<open>keychain_laws\<close> states what its
  documentation promises.  The ones for Linux and Windows refuse every operation.
\<close>

section \<open>macOS\<close>

text \<open>
  The keychain of \<open>security_framework::passwords\<close>, in state \<open>'k\<close>: an error is its status code.  \<open>kc_worker\<close> tells whether the
  blocking task of the runtime runs to its end.
\<close>

record 'k keychain =
  kc_get :: "string \<Rightarrow> string \<Rightarrow> 'k \<Rightarrow> int + bytes"
  kc_set :: "string \<Rightarrow> string \<Rightarrow> bytes \<Rightarrow> 'k \<Rightarrow> (int + unit) \<times> 'k"
  kc_delete :: "string \<Rightarrow> string \<Rightarrow> 'k \<Rightarrow> (int + unit) \<times> 'k"
  kc_worker :: "'k \<Rightarrow> bool"

definition DEFAULT_MACOS_SERVICE :: string where
  "DEFAULT_MACOS_SERVICE = ''secretctl''"

record MacOsKeychainProvider =
  mk_service :: string

definition MacOsKeychainProvider_new :: "string option \<Rightarrow> MacOsKeychainProvider" where
  "MacOsKeychainProvider_new variable = \<lparr>mk_service = unwrap_or variable DEFAULT_MACOS_SERVICE\<rparr>"

definition errSecItemNotFound :: int where "errSecItemNotFound = -25300"
definition errSecAuthFailed :: int where "errSecAuthFailed = -25293"

definition worker_failed :: ProviderError where
  "worker_failed = Internal ''Keychain worker failed''"

definition mk_get_secret :: "'k keychain \<Rightarrow> MacOsKeychainProvider \<Rightarrow> 'k \<Rightarrow> string \<Rightarrow> (ProviderError + bytes) \<times> 'k" where
  "mk_get_secret K p k locator =
    (if \<not> kc_worker K k then Inl worker_failed
     else map_err (\<lambda>code. if code = errSecItemNotFound then ProviderNotFound locator
            else if code = errSecAuthFailed then AuthenticationFailed
            else StorageFailed ''macOS Keychain retrieval failed'') (kc_get K (mk_service p) locator k), k)"

definition mk_store_secret :: "'k keychain \<Rightarrow> MacOsKeychainProvider \<Rightarrow> 'k \<Rightarrow> string \<Rightarrow> bytes \<Rightarrow> (ProviderError + unit) \<times> 'k" where
  "mk_store_secret K p k locator secret =
    (if \<not> kc_worker K k then (Inl worker_failed, k)
     else case kc_set K (mk_service p) locator secret k of
       (r, k') \<Rightarrow> (map_err (\<lambda>_. StorageFailed ''macOS Keychain storage failed'') r, k'))"

definition mk_delete_secret :: "'k keychain \<Rightarrow> MacOsKeychainProvider \<Rightarrow> 'k \<Rightarrow> string \<Rightarrow> (ProviderError + unit) \<times> 'k" where
  "mk_delete_secret K p k locator =
    (if \<not> kc_worker K k then (Inl worker_failed, k)
     else case kc_delete K (mk_service p) locator k of
       (r, k') \<Rightarrow> (map_err (\<lambda>code. if code = errSecItemNotFound then ProviderNotFound locator
                          else StorageFailed ''macOS Keychain deletion failed'') r, k'))"

definition mk_exists :: "'k keychain \<Rightarrow> MacOsKeychainProvider \<Rightarrow> 'k \<Rightarrow> string \<Rightarrow> ProviderError + bool" where
  "mk_exists K p k locator =
    (if \<not> kc_worker K k then Inl worker_failed
     else case kc_get K (mk_service p) locator k of
       Inr _ \<Rightarrow> Inr True
     | Inl code \<Rightarrow> if code = errSecItemNotFound then Inr False else Inl (StorageFailed ''macOS Keychain lookup failed''))"

text \<open>
  A generic password belongs to a service and an account: what was set is what is read, an item that is missing has the status
  \<open>errSecItemNotFound\<close> and no item that is there has it, and an operation that fails changes nothing.
\<close>

definition keychain_laws :: "'k keychain \<Rightarrow> ('k \<Rightarrow> string \<times> string \<Rightarrow> bytes option) \<Rightarrow> bool" where
  "keychain_laws K items =
    ((\<forall>s l k v. kc_get K s l k = Inr v \<longrightarrow> items k (s, l) = Some v)
     \<and> (\<forall>s l k. kc_get K s l k = Inl errSecItemNotFound \<longrightarrow> items k (s, l) = None)
     \<and> (\<forall>s l v k k'. kc_set K s l v k = (Inr (), k') \<longrightarrow> items k' = (items k)((s, l) \<mapsto> v))
     \<and> (\<forall>s l k k'. kc_delete K s l k = (Inr (), k') \<longrightarrow> items k' = (items k)((s, l) := None))
     \<and> (\<forall>s l v k e k'. kc_set K s l v k = (Inl e, k') \<longrightarrow> items k' = items k)
     \<and> (\<forall>s l k e k'. kc_delete K s l k = (Inl e, k') \<longrightarrow> items k' = items k))"

definition service_items :: "('k \<Rightarrow> string \<times> string \<Rightarrow> bytes option) \<Rightarrow> MacOsKeychainProvider \<Rightarrow> 'k \<Rightarrow> string \<Rightarrow> bytes option" where
  "service_items items p k locator = items k (mk_service p, locator)"

section \<open>Linux and Windows\<close>

definition linux_pending :: ProviderError where
  "linux_pending = Unavailable ''Linux Secret Service support is pending; the current release target is macOS''"

definition linux_get_secret :: "unit \<Rightarrow> string \<Rightarrow> (ProviderError + bytes) \<times> unit" where
  "linux_get_secret p locator = (Inl linux_pending, p)"

definition linux_store_secret :: "unit \<Rightarrow> string \<Rightarrow> bytes \<Rightarrow> (ProviderError + unit) \<times> unit" where
  "linux_store_secret p locator secret = (Inl linux_pending, p)"

definition linux_delete_secret :: "unit \<Rightarrow> string \<Rightarrow> (ProviderError + unit) \<times> unit" where
  "linux_delete_secret p locator = (Inl linux_pending, p)"

definition linux_exists :: "unit \<Rightarrow> string \<Rightarrow> ProviderError + bool" where
  "linux_exists p locator = Inl linux_pending"

interpretation linux: secret_provider linux_get_secret linux_store_secret linux_delete_secret linux_exists "\<lambda>_ _. None"
  by unfold_locales (simp_all add: linux_get_secret_def linux_store_secret_def linux_delete_secret_def linux_exists_def)

definition windows_pending :: ProviderError where
  "windows_pending = Unavailable ''Windows Credential Manager support is pending; the current release target is macOS''"

definition windows_get_secret :: "unit \<Rightarrow> string \<Rightarrow> (ProviderError + bytes) \<times> unit" where
  "windows_get_secret p locator = (Inl windows_pending, p)"

definition windows_store_secret :: "unit \<Rightarrow> string \<Rightarrow> bytes \<Rightarrow> (ProviderError + unit) \<times> unit" where
  "windows_store_secret p locator secret = (Inl windows_pending, p)"

definition windows_delete_secret :: "unit \<Rightarrow> string \<Rightarrow> (ProviderError + unit) \<times> unit" where
  "windows_delete_secret p locator = (Inl windows_pending, p)"

definition windows_exists :: "unit \<Rightarrow> string \<Rightarrow> ProviderError + bool" where
  "windows_exists p locator = Inl windows_pending"

interpretation windows: secret_provider windows_get_secret windows_store_secret windows_delete_secret windows_exists "\<lambda>_ _. None"
  by unfold_locales (simp_all add: windows_get_secret_def windows_store_secret_def windows_delete_secret_def windows_exists_def)

section \<open>Properties\<close>

definition sample_keychain :: "((string \<times> string) \<times> bytes) list keychain" where
  "sample_keychain =
    \<lparr>kc_get = (\<lambda>s l k. case map_of k (s, l) of Some v \<Rightarrow> Inr v | None \<Rightarrow> Inl errSecItemNotFound),
     kc_set = (\<lambda>s l v k. (Inr (), AList.update (s, l) v k)),
     kc_delete = (\<lambda>s l k. if map_of k (s, l) = None then (Inl errSecItemNotFound, k) else (Inr (), AList.delete (s, l) k)),
     kc_worker = (\<lambda>_. True)\<rparr>"

lemma sample_keychain_laws: "keychain_laws sample_keychain map_of"
  by (auto simp: keychain_laws_def sample_keychain_def update_conv' delete_conv' errSecItemNotFound_def split: option.split_asm if_split_asm)

text \<open>
  Over a keychain that keeps its laws, the macOS provider keeps the contract of the trait: what is stored is what a retrieval
  returns, a failed operation leaves every secret as it was, and the items of other services are never read or changed.
\<close>

theorem macos_provider_contract:
  assumes "keychain_laws K items"
  shows "secret_provider (mk_get_secret K p) (mk_store_secret K p) (mk_delete_secret K p) (mk_exists K p) (service_items items p)
    \<and> (mk_service q \<noteq> mk_service p \<longrightarrow> service_items items q (snd (mk_store_secret K p k l v)) = service_items items q k
         \<and> service_items items q (snd (mk_delete_secret K p k l)) = service_items items q k)"
proof -
  have laws: "kc_get K s l k = Inr v \<Longrightarrow> items k (s, l) = Some v" "kc_get K s l k = Inl errSecItemNotFound \<Longrightarrow> items k (s, l) = None"
    "kc_set K s l v k = (Inr (), k') \<Longrightarrow> items k' = (items k)((s, l) \<mapsto> v)"
    "kc_delete K s l k = (Inr (), k') \<Longrightarrow> items k' = (items k)((s, l) := None)"
    "kc_set K s l v k = (Inl e, k') \<Longrightarrow> items k' = items k" "kc_delete K s l k = (Inl e, k') \<Longrightarrow> items k' = items k" for s l v k k' e
    using assms by (auto simp: keychain_laws_def)
  have "secret_provider (mk_get_secret K p) (mk_store_secret K p) (mk_delete_secret K p) (mk_exists K p) (service_items items p)"
    by unfold_locales
      (auto simp: mk_get_secret_def mk_store_secret_def mk_delete_secret_def mk_exists_def service_items_def fun_eq_iff
        split: if_split_asm sum.split_asm prod.split_asm dest: laws)
  moreover have "service_items items q (snd (mk_store_secret K p k l v)) = service_items items q k"
    if "mk_service q \<noteq> mk_service p"
    using that laws(3,5)[of "mk_service p" l v k]
    by (cases "kc_set K (mk_service p) l v k"; cases "fst (kc_set K (mk_service p) l v k)")
      (auto simp: mk_store_secret_def service_items_def fun_eq_iff)
  moreover have "service_items items q (snd (mk_delete_secret K p k l)) = service_items items q k"
    if "mk_service q \<noteq> mk_service p"
    using that laws(4,6)[of "mk_service p" l k]
    by (cases "kc_delete K (mk_service p) l k"; cases "fst (kc_delete K (mk_service p) l k)")
      (auto simp: mk_delete_secret_def service_items_def fun_eq_iff)
  ultimately show ?thesis by blast
qed

theorem macos_provider_contract_witness:
  "secret_provider (mk_get_secret sample_keychain (MacOsKeychainProvider_new None)) (mk_store_secret sample_keychain (MacOsKeychainProvider_new None))
     (mk_delete_secret sample_keychain (MacOsKeychainProvider_new None)) (mk_exists sample_keychain (MacOsKeychainProvider_new None))
     (service_items map_of (MacOsKeychainProvider_new None))
   \<and> service_items map_of \<lparr>mk_service = ''other''\<rparr> (snd (mk_store_secret sample_keychain (MacOsKeychainProvider_new None) [] ''l'' [1]))
       = service_items map_of \<lparr>mk_service = ''other''\<rparr> []"
  using macos_provider_contract[OF sample_keychain_laws, of "MacOsKeychainProvider_new None" "\<lparr>mk_service = ''other''\<rparr>" "[]" "''l''" "[1]"]
  by (simp add: MacOsKeychainProvider_new_def unwrap_or_def DEFAULT_MACOS_SERVICE_def)

end
