(* ===== verification/Desktop.thy ===== *)
theory Desktop
  imports Clients
begin

text \<open>
  The desktop application (\<open>desktop/src-tauri/src\<close>): the commands of its frontend (\<open>commands.rs\<close>, \<open>presence.rs\<close>), the loop
  that watches the daemon (\<open>watcher.rs\<close>, \<open>tray.rs\<close>, \<open>settings.rs\<close>) and its windows (\<open>windows.rs\<close>, the window events of \<open>lib.rs\<close>).

  A connection to the daemon is a handler \<open>call\<close> over the state behind it; \<open>desktop_connection\<close> is the one that the application
  uses, made of \<open>AdminConnection_call\<close>.  The readers of serde, the answer of the system to a presence prompt and the window
  system of tauri are arguments.
\<close>

section \<open>Commands\<close>

record CommandError =
  ce_message :: string
  ce_code :: "int option"
  ce_disconnected :: bool

type_synonym 'c daemon_connection = "string \<Rightarrow> json \<Rightarrow> ('c, call_error, json) handler"

definition desktop_connection ::
    "server_env \<Rightarrow> client_wire \<Rightarrow> 's socket \<Rightarrow> int \<Rightarrow> client_inputs \<Rightarrow> client_inputs \<Rightarrow> (AdminSession option \<times> 's) daemon_connection" where
  "desktop_connection E C so now I I' m params = (\<lambda>(guard, s). AdminConnection_call E C so now I I' m params guard s)"

definition CommandError_from :: "call_error \<Rightarrow> CommandError" where
  "CommandError_from error =
    (case error of
       BrokerError code message \<Rightarrow> \<lparr>ce_message = message, ce_code = Some code, ce_disconnected = False\<rparr>
     | Transport message \<Rightarrow> \<lparr>ce_message = message, ce_code = None, ce_disconnected = True\<rparr>)"

definition local_error :: "string \<Rightarrow> CommandError" where
  "local_error message = \<lparr>ce_message = message, ce_code = None, ce_disconnected = False\<rparr>"

definition query :: "'c daemon_connection \<Rightarrow> (json \<Rightarrow> string + 'a) \<Rightarrow> string \<Rightarrow> json \<Rightarrow> ('c, CommandError, 'a) handler" where
  "query call read m params =
    bindh (map_errh CommandError_from (call m params)) (\<lambda>v.
    lifth (map_err (\<lambda>e. local_error (''daemon sent an unreadable '' @ m @ '' response: '' @ e)) (read v)))"

definition get_status :: "'c daemon_connection \<Rightarrow> (json \<Rightarrow> string + UiStatus) \<Rightarrow> ('c, CommandError, UiStatus) handler" where
  "get_status call read = query call read ''ui.status'' (Object [])"

definition get_pending_requests ::
    "'c daemon_connection \<Rightarrow> (json \<Rightarrow> string + UiAuthorizationRequest list) \<Rightarrow> ('c, CommandError, UiAuthorizationRequest list) handler" where
  "get_pending_requests call read = query call read ''ui.pending'' (Object [])"

definition get_pending_request ::
    "'c daemon_connection \<Rightarrow> (json \<Rightarrow> string + UiAuthorizationRequest) \<Rightarrow> string \<Rightarrow> ('c, CommandError, UiAuthorizationRequest) handler" where
  "get_pending_request call read approval_id = query call read ''ui.pending_one'' (Object [(''approval_id'', String approval_id)])"

definition get_activity ::
    "'c daemon_connection \<Rightarrow> (json \<Rightarrow> string + UiActivityEvent list) \<Rightarrow> u32 option \<Rightarrow> ('c, CommandError, UiActivityEvent list) handler" where
  "get_activity call read limit = query call read ''ui.activity'' (Object [(''limit'', Number (uint (unwrap_or limit 50)))])"

definition get_agents :: "'c daemon_connection \<Rightarrow> (json \<Rightarrow> string + UiAgent list) \<Rightarrow> ('c, CommandError, UiAgent list) handler" where
  "get_agents call read = query call read ''ui.agents'' (Object [])"

definition get_credentials :: "'c daemon_connection \<Rightarrow> (json \<Rightarrow> string + UiCredential list) \<Rightarrow> ('c, CommandError, UiCredential list) handler" where
  "get_credentials call read = query call read ''ui.credentials'' (Object [])"

definition get_browser_sessions ::
    "'c daemon_connection \<Rightarrow> (json \<Rightarrow> string + UiBrowserSession list) \<Rightarrow> ('c, CommandError, UiBrowserSession list) handler" where
  "get_browser_sessions call read = query call read ''ui.browser_sessions'' (Object [])"

definition get_grants ::
    "'c daemon_connection \<Rightarrow> (json \<Rightarrow> string + UiGrant list) \<Rightarrow> bool option \<Rightarrow> ('c, CommandError, UiGrant list) handler" where
  "get_grants call read include_revoked =
    query call read ''grant.list'' (Object [(''include_revoked'', Bool (unwrap_or include_revoked False))])"

definition decode_digest :: "base64 \<Rightarrow> string \<Rightarrow> CommandError + bytes" where
  "decode_digest B context_digest =
    map_err (\<lambda>_. local_error ''The approval could not be matched to the request you were shown.'') (b64_decode B context_digest)"

definition digest_json :: "bytes \<Rightarrow> json" where
  "digest_json digest = Array (map (\<lambda>b. Number (uint b)) digest)"

definition relay :: "'c daemon_connection \<Rightarrow> string \<Rightarrow> json \<Rightarrow> ('c, CommandError, json) handler" where
  "relay call m params = map_errh CommandError_from (call m params)"

definition decide :: "'c daemon_connection \<Rightarrow> base64 \<Rightarrow> string \<Rightarrow> string \<Rightarrow> string \<Rightarrow> bool \<Rightarrow> ('c, CommandError, json) handler" where
  "decide call B decision approval_id context_digest presence_verified =
    bindh (lifth (decode_digest B context_digest)) (\<lambda>digest.
    relay call ''approval.decide'' (Object [(''approval_id'', String approval_id), (''context_digest'', digest_json digest),
      (''decision'', String decision), (''presence_verified'', Bool presence_verified)]))"

text \<open>\<open>presence\<close> is what the prompt gives when it is shown.\<close>

definition approve_once :: "'c daemon_connection \<Rightarrow> base64 \<Rightarrow> CommandError + bool \<Rightarrow> string \<Rightarrow> string \<Rightarrow> bool \<Rightarrow> ('c, CommandError, json) handler" where
  "approve_once call B presence approval_id context_digest requires_presence =
    bindh (lifth (if requires_presence then presence else Inr False)) (\<lambda>presence_verified.
    decide call B ''approve'' approval_id context_digest presence_verified)"

definition deny :: "'c daemon_connection \<Rightarrow> base64 \<Rightarrow> string \<Rightarrow> string \<Rightarrow> ('c, CommandError, json) handler" where
  "deny call B approval_id context_digest = decide call B ''deny'' approval_id context_digest False"

definition create_grant :: "'c daemon_connection \<Rightarrow> base64 \<Rightarrow> CommandError + bool \<Rightarrow> string \<Rightarrow> string \<Rightarrow> int \<Rightarrow> ('c, CommandError, json) handler" where
  "create_grant call B presence approval_id context_digest ttl_days =
    bindh (lifth presence) (\<lambda>presence_verified.
    bindh (lifth (decode_digest B context_digest)) (\<lambda>digest.
    relay call ''grant.create'' (Object [(''approval_id'', String approval_id), (''context_digest'', digest_json digest),
      (''presence_verified'', Bool presence_verified), (''ttl_days'', Number ttl_days)])))"

definition revoke_grant :: "'c daemon_connection \<Rightarrow> string \<Rightarrow> ('c, CommandError, json) handler" where
  "revoke_grant call selector =
    relay call ''grant.revoke'' (Object [(''reason'', String ''revoked by user''), (''selector'', String selector)])"

definition disable_agent :: "'c daemon_connection \<Rightarrow> string \<Rightarrow> ('c, CommandError, json) handler" where
  "disable_agent call agent_id = relay call ''agent.disable'' (Object [(''agent_id'', String agent_id)])"

section \<open>Presence\<close>

text \<open>
  The wait for the answer of the system: every round of the loop sees the answer, if it has come, and whether the wait of two
  minutes ended by time.
\<close>

fun await_presence :: "(bool option \<times> bool) list \<Rightarrow> (CommandError + bool) option" where
  "await_presence [] = None"
| "await_presence ((answer, timed_out) # rounds) =
    (case answer of
       Some True \<Rightarrow> Some (Inr True)
     | Some False \<Rightarrow> Some (Inl (local_error ''Presence was not confirmed, so nothing was authorized.''))
     | None \<Rightarrow> if timed_out then Some (Inl (local_error ''Presence verification timed out.'')) else await_presence rounds)"

definition evaluate_presence :: "string + unit \<Rightarrow> (bool option \<times> bool) list \<Rightarrow> (CommandError + bool) option" where
  "evaluate_presence can_evaluate rounds =
    (case can_evaluate of
       Inl _ \<Rightarrow> Some (Inl (local_error ''This Mac cannot verify user presence, so authority that requires it cannot be granted here.''))
     | Inr _ \<Rightarrow> await_presence rounds)"

text \<open>The task that shows the prompt; \<open>None\<close> when its thread ends without an answer.\<close>

definition verify_presence :: "(CommandError + bool) option \<Rightarrow> CommandError + bool" where
  "verify_presence answer = (case answer of None \<Rightarrow> Inl (local_error ''Presence verification did not complete.'') | Some r \<Rightarrow> r)"

section \<open>Diagnostics\<close>

record Diagnostics =
  dg_installation_dir :: string
  dg_broker_key_pinned :: bool
  dg_admin_socket_present :: bool
  dg_agent_socket_present :: bool
  dg_executor_socket_present :: bool
  dg_daemon_reachable :: bool
  dg_restart_command :: string

text \<open>\<open>exists\<close> tells whether there is a file of a path.\<close>

definition get_diagnostics :: "string \<Rightarrow> (string \<Rightarrow> bool) \<Rightarrow> 'c daemon_connection \<Rightarrow> ('c, CommandError, Diagnostics) handler" where
  "get_diagnostics directory exists call s =
    (case call ''admin.ping'' (Object []) s of (reachable, s1) \<Rightarrow>
       (Inr \<lparr>dg_installation_dir = directory,
          dg_broker_key_pinned = exists (directory @ ''/broker_key.pub''),
          dg_admin_socket_present = exists (directory @ ''/run/admin.sock''),
          dg_agent_socket_present = exists (directory @ ''/run/agent.sock''),
          dg_executor_socket_present = exists (directory @ ''/run/executor.sock''),
          dg_daemon_reachable = is_ok reachable,
          dg_restart_command = ''secretctl start''\<rparr>, s1))"

section \<open>Settings\<close>

datatype NotificationDetail = Minimal | Detailed | NotificationsDisabled

record Settings =
  st_notification_detail :: NotificationDetail
  st_confirm_completion :: bool

definition Settings_default :: Settings where
  "Settings_default = \<lparr>st_notification_detail = Minimal, st_confirm_completion = True\<rparr>"

definition load_settings :: "string + bytes \<Rightarrow> (bytes \<Rightarrow> string + Settings) \<Rightarrow> Settings" where
  "load_settings file read = (case try_r file read of Inr s \<Rightarrow> s | Inl _ \<Rightarrow> Settings_default)"

section \<open>Windows\<close>

text \<open>
  What the application uses of tauri's window system, for windows in state \<open>'w\<close>: whether there is a window of a label, building
  one at a route and giving it the focus, asking one to close, with the application's answer to the close request (\<open>True\<close>
  prevents it), and showing one again, at another route if one is given.
  \<open>window_laws\<close> states its documented behaviour: a label is taken as long as its window exists, hidden or not, and a close
  request that is prevented leaves the window in place, and one for another window is no concern of it.
\<close>

record 'w window_system =
  ws_exists :: "string \<Rightarrow> 'w \<Rightarrow> bool"
  ws_build :: "string \<Rightarrow> string \<Rightarrow> 'w \<Rightarrow> (string + unit) \<times> 'w"
  ws_close :: "string \<Rightarrow> bool \<Rightarrow> 'w \<Rightarrow> 'w"
  ws_present :: "string \<Rightarrow> string option \<Rightarrow> 'w \<Rightarrow> (string + unit) \<times> 'w"

definition window_laws :: "'w window_system \<Rightarrow> bool" where
  "window_laws Y =
    ((\<forall>l r w. ws_exists Y l w \<longrightarrow> \<not> is_ok (fst (ws_build Y l r w)) \<and> snd (ws_build Y l r w) = w)
     \<and> (\<forall>l w. ws_close Y l True w = w)
     \<and> (\<forall>l l' p w. l \<noteq> l' \<longrightarrow> ws_exists Y l (ws_close Y l' p w) = ws_exists Y l w))"

definition APPROVAL :: string where "APPROVAL = ''approval''"
definition MANAGE :: string where "MANAGE = ''manage''"
definition ONBOARDING :: string where "ONBOARDING = ''onboarding''"

text \<open>The handler of window events prevents every close but that of the onboarding window.\<close>

definition prevents_close :: "string \<Rightarrow> bool" where
  "prevents_close label = (label \<noteq> ONBOARDING)"

definition close_requested :: "'w window_system \<Rightarrow> string \<Rightarrow> 'w \<Rightarrow> 'w" where
  "close_requested Y label w = ws_close Y label (prevents_close label) w"

definition well_formed_id :: "string \<Rightarrow> bool" where
  "well_formed_id approval_id = list_all (\<lambda>c. is_ascii_alphanumeric c \<or> c = CHR ''_'' \<or> c = CHR ''-'') approval_id"

definition open_approval :: "'w window_system \<Rightarrow> string \<Rightarrow> ('w, string, unit) handler" where
  "open_approval Y approval_id w =
    (if \<not> well_formed_id approval_id then (Inl ''malformed approval id'', w)
     else
       let w1 = (if ws_exists Y APPROVAL w then close_requested Y APPROVAL w else w) in
       ws_build Y APPROVAL (''index.html#/approval/'' @ approval_id) w1)"

definition SECTIONS :: "string list" where
  "SECTIONS = [''activity'', ''agents'', ''grants'', ''credentials'', ''browsers'', ''settings'', ''diagnostics'']"

definition open_manage :: "'w window_system \<Rightarrow> string \<Rightarrow> ('w, string, unit) handler" where
  "open_manage Y sec w =
    (if \<not> List.member SECTIONS sec then (Inl ''unknown section'', w)
     else if ws_exists Y MANAGE w then ws_present Y MANAGE (Some (''/manage/'' @ sec)) w
     else ws_build Y MANAGE (''index.html#/manage/'' @ sec) w)"

definition open_onboarding :: "'w window_system \<Rightarrow> ('w, string, unit) handler" where
  "open_onboarding Y w =
    (if ws_exists Y ONBOARDING w then ws_present Y ONBOARDING None w else ws_build Y ONBOARDING ''index.html#/onboarding'' w)"

text \<open>The menu of the icon: the sections it opens; every other entry opens nothing.\<close>

definition menu_section :: "string \<Rightarrow> string option" where
  "menu_section entry = (if List.member [''activity'', ''grants'', ''settings''] entry then Some entry else None)"

text \<open>The command \<open>open_approval\<close>: every error of the window is converted as an error of the connection is.\<close>

definition open_approval_command :: "'w window_system \<Rightarrow> string \<Rightarrow> ('w, CommandError, unit) handler" where
  "open_approval_command Y approval_id = map_errh (\<lambda>e. CommandError_from (Transport e)) (open_approval Y approval_id)"

section \<open>The menu-bar icon\<close>

text \<open>The words of a state; the match names every state but \<open>CompletedEvidenceLost\<close>.\<close>

definition state_label :: "UiProtectionState \<Rightarrow> string option" where
  "state_label state =
    (case state of
       Protected \<Rightarrow> Some ''Protected''
     | ApprovalRequired \<Rightarrow> Some ''Approval required''
     | SensitiveOperation \<Rightarrow> Some ''Sensitive operation in progress''
     | UiCompleted \<Rightarrow> Some ''Completed''
     | Blocked \<Rightarrow> Some ''Blocked''
     | ProtectionInterrupted \<Rightarrow> Some ''Protection interrupted''
     | OutcomeUncertain \<Rightarrow> Some ''Outcome could not be verified''
     | Disconnected \<Rightarrow> Some ''secretctl unavailable''
     | UiCompletedEvidenceLost \<Rightarrow> None)"

section \<open>The watcher\<close>

datatype ui_output =
    ShowTray UiProtectionState
  | EmitStatus UiStatus
  | EmitPending "UiAuthorizationRequest list"
  | NotifyRequest string string
  | NotifyOutcome string string
  | OpenApproval string

record Watcher =
  wt_announced :: "string list"
  wt_previous :: "UiProtectionState option"
  wt_confirmed :: bool

definition Watcher_new :: Watcher where
  "Watcher_new = \<lparr>wt_announced = [], wt_previous = None, wt_confirmed = False\<rparr>"

definition IDLE_INTERVAL :: nat where "IDLE_INTERVAL = 1500"
definition ACTIVE_INTERVAL :: nat where "ACTIVE_INTERVAL = 400"

definition disconnected_status :: UiStatus where
  "disconnected_status =
    \<lparr>us_protection = Disconnected, us_pending_approvals = 0, us_active_operation = None, us_browser_sessions_connected = 0,
     us_agents_enrolled = 0, us_agents_active = 0, us_active_grants = 0, us_providers = [], us_policy_fingerprint = [],
     us_audit_chain_intact = False\<rparr>"

definition display_origin :: "string \<Rightarrow> string" where
  "display_origin origin = trim_end_matches '':443'' (case after ''://'' origin of None \<Rightarrow> origin | Some rest \<Rightarrow> before ''://'' rest)"

definition request_body :: "(string \<Rightarrow> string) \<Rightarrow> NotificationDetail \<Rightarrow> UiAuthorizationRequest \<Rightarrow> string" where
  "request_body to_lowercase detail request =
    (case detail of
       Detailed \<Rightarrow> ua_agent_name request @ '' wants to '' @ to_lowercase (ua_action_label request) @ '' at ''
                   @ display_origin (ua_origin request) @ ''.''
     | _ \<Rightarrow> ''An agent needs permission to perform a sensitive action.'')"

fun announce_each ::
    "(string \<Rightarrow> string) \<Rightarrow> NotificationDetail \<Rightarrow> UiAuthorizationRequest list \<Rightarrow> string list \<Rightarrow> ui_output list \<times> string list" where
  "announce_each to_lowercase detail [] announced = ([], announced)"
| "announce_each to_lowercase detail (request # requests) announced =
    (if List.member announced (ua_approval_id request) then announce_each to_lowercase detail requests announced
     else (case announce_each to_lowercase detail requests (ua_approval_id request # announced) of
             (outs, announced') \<Rightarrow> (NotifyRequest (ua_approval_id request) (request_body to_lowercase detail request) # outs, announced')))"

text \<open>The first pending request is brought up when no approval window exists; a failure to open it is logged.\<close>

definition bring_forward :: "'w window_system \<Rightarrow> UiAuthorizationRequest list \<Rightarrow> 'w \<Rightarrow> ui_output list \<times> 'w" where
  "bring_forward Y pending w =
    (case pending of
       [] \<Rightarrow> ([], w)
     | request # _ \<Rightarrow>
       if ws_exists Y APPROVAL w then ([], w)
       else (case open_approval Y (ua_approval_id request) w of
               (Inl _, w1) \<Rightarrow> ([], w1) | (Inr _, w1) \<Rightarrow> ([OpenApproval (ua_approval_id request)], w1)))"

definition announce_new_requests ::
    "'w window_system \<Rightarrow> (string \<Rightarrow> string) \<Rightarrow> Settings \<Rightarrow> UiAuthorizationRequest list \<Rightarrow> string list \<Rightarrow> 'w \<Rightarrow> ui_output list \<times> string list \<times> 'w" where
  "announce_new_requests Y to_lowercase settings pending announced w =
    (if st_notification_detail settings = NotificationsDisabled
     then ([], List.union (map ua_approval_id pending) announced, w)
     else
       (case announce_each to_lowercase (st_notification_detail settings) pending announced of
          (outs, announced') \<Rightarrow> (case bring_forward Y pending w of (brought, w1) \<Rightarrow> (outs @ brought, announced', w1))))"

definition announce_outcome ::
    "Settings \<Rightarrow> UiProtectionState option \<Rightarrow> UiProtectionState \<Rightarrow> bool \<Rightarrow> ui_output list \<times> bool" where
  "announce_outcome settings previous current confirmed =
    (if st_notification_detail settings = NotificationsDisabled then ([], confirmed)
     else if current = UiCompleted \<and> (previous = Some SensitiveOperation \<or> previous = Some ApprovalRequired) \<and> st_confirm_completion settings
     then (if confirmed then ([], confirmed)
           else ([NotifyOutcome ''Authentication completed'' ''The agent can continue its task.''], True))
     else if current = ProtectionInterrupted
     then ([NotifyOutcome ''Protection interrupted'' ''secretctl could no longer verify browser protection, so credential release was halted.''], confirmed)
     else if current = OutcomeUncertain
     then ([NotifyOutcome ''Result could not be verified'' ''The operation may have completed, but secretctl lost confirmation from the browser. No further credential operation will run until the session is re-established.''], confirmed)
     else ([], if current = SensitiveOperation then False else confirmed))"

text \<open>
  One round of the loop: the answers to its two calls, if they came and could be read, and the settings as they are loaded by
  the two announcements.
\<close>

record round =
  rd_status :: "UiStatus option"
  rd_pending :: "UiAuthorizationRequest list option"
  rd_settings_outcome :: Settings
  rd_settings_requests :: Settings

definition answer_of :: "(json \<Rightarrow> string + 'a) \<Rightarrow> call_error + json \<Rightarrow> 'a option" where
  "answer_of read r = (case r of Inl _ \<Rightarrow> None | Inr v \<Rightarrow> to_option (read v))"

definition round_state :: "round \<Rightarrow> UiProtectionState" where
  "round_state R = (case rd_status R of None \<Rightarrow> Disconnected | Some status \<Rightarrow> us_protection status)"

definition round_pending :: "round \<Rightarrow> UiAuthorizationRequest list" where
  "round_pending R = unwrap_or (rd_pending R) []"

text \<open>The part that reports a change of the state, and the part that reports requests.\<close>

definition report_state :: "round \<Rightarrow> Watcher \<Rightarrow> ui_output list \<times> bool" where
  "report_state R wt =
    (if wt_previous wt \<noteq> Some (round_state R)
     then (case announce_outcome (rd_settings_outcome R) (wt_previous wt) (round_state R) (wt_confirmed wt) of
             (outs, c) \<Rightarrow> (ShowTray (round_state R) # outs, c))
     else ([], wt_confirmed wt))"

definition watch_round :: "'w window_system \<Rightarrow> (string \<Rightarrow> string) \<Rightarrow> round \<Rightarrow> Watcher \<Rightarrow> 'w \<Rightarrow> ui_output list \<times> Watcher \<times> 'w" where
  "watch_round Y to_lowercase R wt w =
    (case report_state R wt of (shown, confirmed) \<Rightarrow>
     case announce_new_requests Y to_lowercase (rd_settings_requests R) (round_pending R) (wt_announced wt) w of (outs, announced, w1) \<Rightarrow>
       (shown @ [EmitStatus (unwrap_or (rd_status R) disconnected_status), EmitPending (round_pending R)] @ outs,
        \<lparr>wt_announced = filter (\<lambda>i. List.member (map ua_approval_id (round_pending R)) i) announced,
         wt_previous = Some (round_state R), wt_confirmed = confirmed\<rparr>, w1))"

definition interval :: "UiProtectionState \<Rightarrow> nat" where
  "interval state = (if state \<in> {SensitiveOperation, ApprovalRequired, ProtectionInterrupted} then ACTIVE_INTERVAL else IDLE_INTERVAL)"

text \<open>What happens between rounds: the user asks a window to close.\<close>

datatype desktop_event = Round round | CloseWindow string

fun watch :: "'w window_system \<Rightarrow> (string \<Rightarrow> string) \<Rightarrow> desktop_event list \<Rightarrow> Watcher \<Rightarrow> 'w \<Rightarrow> ui_output list \<times> Watcher \<times> 'w" where
  "watch Y to_lowercase [] wt w = ([], wt, w)"
| "watch Y to_lowercase (Round R # es) wt w =
    (case watch_round Y to_lowercase R wt w of (outs, wt1, w1) \<Rightarrow>
       (case watch Y to_lowercase es wt1 w1 of (outs', wt2, w2) \<Rightarrow> (outs @ outs', wt2, w2)))"
| "watch Y to_lowercase (CloseWindow label # es) wt w = watch Y to_lowercase es wt (close_requested Y label w)"

section \<open>Lemmas\<close>

definition trays :: "ui_output list \<Rightarrow> UiProtectionState list" where
  "trays outs = List.map_filter (\<lambda>x. case x of ShowTray s \<Rightarrow> Some s | _ \<Rightarrow> None) outs"

definition notified :: "string \<Rightarrow> ui_output list \<Rightarrow> nat" where
  "notified i outs = length (filter (\<lambda>x. case x of NotifyRequest j _ \<Rightarrow> j = i | _ \<Rightarrow> False) outs)"

definition opened_approvals :: "ui_output list \<Rightarrow> string list" where
  "opened_approvals outs = List.map_filter (\<lambda>x. case x of OpenApproval i \<Rightarrow> Some i | _ \<Rightarrow> None) outs"

definition statuses :: "ui_output list \<Rightarrow> UiStatus list" where
  "statuses outs = List.map_filter (\<lambda>x. case x of EmitStatus s \<Rightarrow> Some s | _ \<Rightarrow> None) outs"

lemma outputs_append [simp]:
  "statuses (xs @ ys) = statuses xs @ statuses ys" "trays (xs @ ys) = trays xs @ trays ys" "notified i (xs @ ys) = notified i xs + notified i ys"
  "opened_approvals (xs @ ys) = opened_approvals xs @ opened_approvals ys"
  by (simp_all add: statuses_def trays_def notified_def opened_approvals_def List.map_filter_def)

lemma outputs_list [simp]:
  "statuses [] = []" "statuses (x # xs) = (case x of EmitStatus s \<Rightarrow> s # statuses xs | _ \<Rightarrow> statuses xs)" "trays [] = []" "notified i [] = 0" "opened_approvals [] = []"
  "trays (x # xs) = (case x of ShowTray s \<Rightarrow> s # trays xs | _ \<Rightarrow> trays xs)"
  "notified i (x # xs) = (case x of NotifyRequest j _ \<Rightarrow> (if j = i then 1 else 0) + notified i xs | _ \<Rightarrow> notified i xs)"
  "opened_approvals (x # xs) = (case x of OpenApproval j \<Rightarrow> j # opened_approvals xs | _ \<Rightarrow> opened_approvals xs)"
  by (simp_all add: statuses_def trays_def notified_def opened_approvals_def List.map_filter_def split: ui_output.split)

lemma announce_outcome_quiet:
  "announce_outcome st p c f = (outs, f') \<Longrightarrow> statuses outs = [] \<and> trays outs = [] \<and> notified i outs = 0 \<and> opened_approvals outs = []"
  by (auto simp: announce_outcome_def split: if_split_asm)

lemma announce_each_quiet: "announce_each lc d rs a = (outs, a') \<Longrightarrow> statuses outs = [] \<and> trays outs = [] \<and> opened_approvals outs = []"
  by (induction rs arbitrary: a outs a') (auto split: if_split_asm prod.split_asm)

lemma announce_each_announced:
  "announce_each lc d rs a = (outs, a') \<Longrightarrow> set a' = set a \<union> ua_approval_id ` set rs
     \<and> notified i outs = (if i \<in> ua_approval_id ` set rs - set a then 1 else 0)"
proof (induction rs arbitrary: a outs a')
  case Nil
  then show ?case by simp
next
  case (Cons r rs)
  show ?case
  proof (cases "ua_approval_id r \<in> set a")
    case True
    then show ?thesis using Cons.IH[of a outs a'] Cons.prems by auto
  next
    case False
    obtain os b where step: "announce_each lc d rs (ua_approval_id r # a) = (os, b)" by fastforce
    show ?thesis using Cons.IH[OF step] Cons.prems step False by auto
  qed
qed

lemma bring_forward_quiet: "bring_forward Y ps w = (outs, w') \<Longrightarrow> statuses outs = [] \<and> trays outs = [] \<and> notified i outs = 0"
  by (auto simp: bring_forward_def split: list.split_asm if_split_asm prod.split_asm sum.split_asm)

lemma announce_new_requests_ok:
  assumes "announce_new_requests Y lc st ps a w = (outs, a', w')"
  shows "statuses outs = [] \<and> trays outs = [] \<and> set a' = set a \<union> ua_approval_id ` set ps
    \<and> notified i outs = (if st_notification_detail st \<noteq> NotificationsDisabled \<and> i \<in> ua_approval_id ` set ps - set a then 1 else 0)
    \<and> opened_approvals outs = (if st_notification_detail st = NotificationsDisabled then [] else opened_approvals (fst (bring_forward Y ps w)))
    \<and> w' = (if st_notification_detail st = NotificationsDisabled then w else snd (bring_forward Y ps w))"
proof (cases "st_notification_detail st = NotificationsDisabled")
  case True
  then show ?thesis using assms by (auto simp: announce_new_requests_def)
next
  case False
  obtain os b where each: "announce_each lc (st_notification_detail st) ps a = (os, b)" by fastforce
  obtain op w1 where brought: "bring_forward Y ps w = (op, w1)" by fastforce
  show ?thesis
    using assms False each brought announce_each_quiet[OF each] announce_each_announced[OF each, of i] bring_forward_quiet[OF brought, of i]
    by (auto simp: announce_new_requests_def)
qed

lemma report_state_ok:
  assumes "report_state R wt = (outs, c)"
  shows "statuses outs = [] \<and> trays outs = (if wt_previous wt = Some (round_state R) then [] else [round_state R]) \<and> notified i outs = 0
    \<and> opened_approvals outs = []"
proof -
  obtain os c' where outcome: "announce_outcome (rd_settings_outcome R) (wt_previous wt) (round_state R) (wt_confirmed wt) = (os, c')"
    by fastforce
  show ?thesis using assms outcome announce_outcome_quiet[OF outcome, of i] by (auto simp: report_state_def split: if_split_asm)
qed

lemma watch_round_ok:
  assumes "watch_round Y lc R wt w = (outs, wt', w')"
  shows "statuses outs = [unwrap_or (rd_status R) disconnected_status]"
    "trays outs = (if wt_previous wt = Some (round_state R) then [] else [round_state R])"
    "wt_previous wt' = Some (round_state R)" "set (wt_announced wt') = ua_approval_id ` set (round_pending R)"
    "notified i outs = (if st_notification_detail (rd_settings_requests R) \<noteq> NotificationsDisabled
       \<and> i \<in> ua_approval_id ` set (round_pending R) - set (wt_announced wt) then 1 else 0)"
    "opened_approvals outs = (if st_notification_detail (rd_settings_requests R) = NotificationsDisabled then []
       else opened_approvals (fst (bring_forward Y (round_pending R) w)))"
    "w' = (if st_notification_detail (rd_settings_requests R) = NotificationsDisabled then w
       else snd (bring_forward Y (round_pending R) w))"
proof -
  obtain os c where shown: "report_state R wt = (os, c)" by fastforce
  obtain rs a w1 where requests: "announce_new_requests Y lc (rd_settings_requests R) (round_pending R) (wt_announced wt) w = (rs, a, w1)"
    by (metis prod_cases3)
  note facts = assms[unfolded watch_round_def shown requests prod.case Pair_inject] report_state_ok[OF shown, of i]
    announce_new_requests_ok[OF requests, of i]
  show "statuses outs = [unwrap_or (rd_status R) disconnected_status]"
    "trays outs = (if wt_previous wt = Some (round_state R) then [] else [round_state R])" "wt_previous wt' = Some (round_state R)"
    using facts by auto
  show "set (wt_announced wt') = ua_approval_id ` set (round_pending R)" using facts by auto
  show "notified i outs = (if st_notification_detail (rd_settings_requests R) \<noteq> NotificationsDisabled
       \<and> i \<in> ua_approval_id ` set (round_pending R) - set (wt_announced wt) then 1 else 0)"
  proof -
    have "notified i outs = notified i rs" using facts by auto
    also have "notified i rs = (if st_notification_detail (rd_settings_requests R) \<noteq> NotificationsDisabled
       \<and> i \<in> ua_approval_id ` set (round_pending R) - set (wt_announced wt) then 1 else 0)" using facts by blast
    finally show ?thesis .
  qed
  show "opened_approvals outs = (if st_notification_detail (rd_settings_requests R) = NotificationsDisabled then []
       else opened_approvals (fst (bring_forward Y (round_pending R) w)))"
  proof -
    have "opened_approvals outs = opened_approvals rs" using facts by auto
    then show ?thesis using facts by argo
  qed
  show "w' = (if st_notification_detail (rd_settings_requests R) = NotificationsDisabled then w
       else snd (bring_forward Y (round_pending R) w))" using facts by simp
qed

text \<open>What a sequence of events is about: its rounds, and how often a request turns up in them.\<close>

definition rounds :: "desktop_event list \<Rightarrow> round list" where
  "rounds es = List.map_filter (\<lambda>e. case e of Round R \<Rightarrow> Some R | CloseWindow _ \<Rightarrow> None) es"

definition pending_in :: "string \<Rightarrow> round \<Rightarrow> bool" where
  "pending_in i R = List.member (map ua_approval_id (round_pending R)) i"

fun appearances :: "string \<Rightarrow> bool \<Rightarrow> round list \<Rightarrow> nat" where
  "appearances i before_it [] = 0"
| "appearances i before_it (R # Rs) = (if pending_in i R \<and> \<not> before_it then 1 else 0) + appearances i (pending_in i R) Rs"

definition tray_after :: "UiProtectionState \<Rightarrow> ui_output list \<Rightarrow> UiProtectionState" where
  "tray_after state outs = last (state # trays outs)"

lemma rounds_simps [simp]:
  "rounds [] = []" "rounds (Round R # es) = R # rounds es" "rounds (CloseWindow l # es) = rounds es"
  by (simp_all add: rounds_def List.map_filter_def)

lemma watch_shows:
  assumes "wt_previous wt = None \<or> wt_previous wt = Some state"
  shows "statuses (fst (watch Y lc es wt w)) = map (\<lambda>R. unwrap_or (rd_status R) disconnected_status) (rounds es)
    \<and> tray_after state (fst (watch Y lc es wt w)) = last (state # map round_state (rounds es))"
  using assms
proof (induction es arbitrary: wt w state)
  case Nil
  then show ?case by (simp add: tray_after_def)
next
  case (Cons e es)
  show ?case
  proof (cases e)
    case (CloseWindow l)
    then show ?thesis using Cons.IH[OF Cons.prems] by simp
  next
    case (Round R)
    obtain outs wt1 w1 where step: "watch_round Y lc R wt w = (outs, wt1, w1)" by (metis prod_cases3)
    obtain outs' wt2 w2 where rest: "watch Y lc es wt1 w1 = (outs', wt2, w2)" by (metis prod_cases3)
    note now = watch_round_ok(1-3)[OF step]
    have "wt_previous wt1 = None \<or> wt_previous wt1 = Some (round_state R)" using now by simp
    note later = Cons.IH[OF this, of w1, unfolded rest fst_conv]
    show ?thesis using Cons.prems now later by (auto simp: Round step rest tray_after_def split: if_split_asm)
  qed
qed

lemma watch_notifies:
  "notified i (fst (watch Y lc es wt w)) \<le> appearances i (i \<in> set (wt_announced wt)) (rounds es)
   \<and> (list_all (\<lambda>R. st_notification_detail (rd_settings_requests R) \<noteq> NotificationsDisabled) (rounds es)
      \<longrightarrow> notified i (fst (watch Y lc es wt w)) = appearances i (i \<in> set (wt_announced wt)) (rounds es))"
proof (induction es arbitrary: wt w)
  case Nil
  then show ?case by simp
next
  case (Cons e es)
  show ?case
  proof (cases e)
    case (CloseWindow l)
    then show ?thesis using Cons.IH by simp
  next
    case (Round R)
    obtain outs wt1 w1 where step: "watch_round Y lc R wt w = (outs, wt1, w1)" by (metis prod_cases3)
    obtain outs' wt2 w2 where rest: "watch Y lc es wt1 w1 = (outs', wt2, w2)" by (metis prod_cases3)
    note now = watch_round_ok(4)[OF step] watch_round_ok(5)[OF step, of i]
    have live: "(i \<in> set (wt_announced wt1)) = pending_in i R" using now by (simp add: pending_in_def)
    have here: "i \<in> ua_approval_id ` set (round_pending R) \<longleftrightarrow> pending_in i R" by (simp add: pending_in_def)
    show ?thesis using Cons.IH[of wt1 w1, unfolded live rest fst_conv] now(2) here
      by (cases "pending_in i R") (auto simp: Round step rest)
  qed
qed

text \<open>A window of a taken label stays as it is through everything the application does.\<close>

lemma taken_label_stays:
  assumes "window_laws Y" "ws_exists Y APPROVAL w"
  shows "ws_exists Y APPROVAL (close_requested Y l w)" "open_approval Y i w = (r, w') \<Longrightarrow> \<not> is_ok r \<and> w' = w"
    "bring_forward Y ps w = ([], w)"
proof -
  show "ws_exists Y APPROVAL (close_requested Y l w)"
    using assms by (cases "l = APPROVAL") (auto simp: window_laws_def close_requested_def prevents_close_def APPROVAL_def ONBOARDING_def)
  show "open_approval Y i w = (r, w') \<Longrightarrow> \<not> is_ok r \<and> w' = w"
    using assms by (auto simp: open_approval_def window_laws_def close_requested_def prevents_close_def APPROVAL_def ONBOARDING_def
        split: if_split_asm) (metis fst_conv snd_conv)+
  show "bring_forward Y ps w = ([], w)" using assms by (simp add: bring_forward_def split: list.split)
qed

lemma watch_opens_none:
  assumes "window_laws Y" "ws_exists Y APPROVAL w"
  shows "opened_approvals (fst (watch Y lc es wt w)) = [] \<and> ws_exists Y APPROVAL (snd (snd (watch Y lc es wt w)))"
  using assms(2)
proof (induction es arbitrary: wt w)
  case Nil
  then show ?case by simp
next
  case (Cons e es)
  show ?case
  proof (cases e)
    case (CloseWindow l)
    then show ?thesis using Cons.IH taken_label_stays(1)[OF assms(1) Cons.prems] by simp
  next
    case (Round R)
    obtain outs wt1 w1 where step: "watch_round Y lc R wt w = (outs, wt1, w1)" by (metis prod_cases3)
    have now: "opened_approvals outs = []" "w1 = w"
      using watch_round_ok(6,7)[OF step] taken_label_stays(3)[OF assms(1) Cons.prems, of "round_pending R"] by simp_all
    obtain outs' wt2 w2 where rest: "watch Y lc es wt1 w = (outs', wt2, w2)" by (metis prod_cases3)
    show ?thesis using Cons.IH[OF Cons.prems, of wt1] by (simp add: Round step now rest)
  qed
qed

lemma await_presence_answer: "await_presence rs = Some (Inr v) \<Longrightarrow> v \<and> (\<exists>t. (Some True, t) \<in> set rs)"
  by (induction rs) (auto split: option.split_asm bool.split_asm if_split_asm)

section \<open>Samples\<close>

definition sample_windows :: "string list window_system" where
  "sample_windows =
    \<lparr>ws_exists = (\<lambda>l w. List.member w l),
     ws_build = (\<lambda>l r w. if List.member w l then (Inl ''label taken'', w) else (Inr (), l # w)),
     ws_close = (\<lambda>l prevented w. if prevented then w else removeAll l w),
     ws_present = (\<lambda>l r w. (Inr (), w))\<rparr>"

definition sample_request :: "string \<Rightarrow> UiAuthorizationRequest" where
  "sample_request i =
    \<lparr>ua_approval_id = i, ua_request_id = ''req_1'', ua_agent_name = ''Planner'', ua_agent_id = ''agt_1'',
     ua_credential_name = ''Bank'', ua_provider = ''memory'', ua_origin = ''https://bank.example:443'', ua_action = AuthenticatePassword,
     ua_action_label = ''Sign in'', ua_flow_steps = [], ua_risk = High, ua_reason = None,
     ua_reason_source = AgentProvided, ua_context_digest = ''AAAA'', ua_expires_at = 100, ua_requires_presence = True,
     ua_is_first_for_agent = False, ua_grantable = True\<rparr>"

definition sample_round :: "UiAuthorizationRequest list option \<Rightarrow> round" where
  "sample_round pending =
    \<lparr>rd_status = (if pending = None then None else Some (disconnected_status\<lparr>us_protection := ApprovalRequired\<rparr>)),
     rd_pending = pending, rd_settings_outcome = Settings_default, rd_settings_requests = Settings_default\<rparr>"

section \<open>Properties\<close>


text \<open>
  A request is notified once for each time it turns up: from any start of the watcher, the notifications of an approval are exactly
  as many as the rounds that have it pending and follow a round that had not, while notifications are on, and at most as many when
  they are switched off in between.
\<close>

theorem notified_per_appearance:
  "if list_all (\<lambda>R. st_notification_detail (rd_settings_requests R) \<noteq> NotificationsDisabled) (rounds es)
   then notified i (fst (watch Y lc es Watcher_new w)) = appearances i False (rounds es)
   else notified i (fst (watch Y lc es Watcher_new w)) \<le> appearances i False (rounds es)"
  using watch_notifies[of i Y lc es Watcher_new w] by (simp add: Watcher_new_def)

text \<open>
  A failed answer to \<open>ui.pending\<close> counts as no request at all, so a request that was pending all the time is notified again after
  it.
\<close>

theorem outage_notifies_again:
  assumes "pending_in i R1" "rd_pending R2 = None" "pending_in i R3"
    and "list_all (\<lambda>R. st_notification_detail (rd_settings_requests R) \<noteq> NotificationsDisabled) [R1, R2, R3]"
  shows "notified i (fst (watch Y lc [Round R1, Round R2, Round R3] Watcher_new w)) = 2"
proof -
  have "\<not> pending_in i R2" using assms(2) by (simp add: pending_in_def round_pending_def unwrap_or_def)
  then show ?thesis
    using watch_notifies[of i Y lc "[Round R1, Round R2, Round R3]" Watcher_new w] assms by (simp add: Watcher_new_def)
qed

theorem outage_notifies_again_witness:
  "notified ''apr_1'' (fst (watch sample_windows id
     [Round (sample_round (Some [sample_request ''apr_1''])), Round (sample_round None), Round (sample_round (Some [sample_request ''apr_1'']))]
     Watcher_new [])) = 2"
  by (rule outage_notifies_again) (simp_all add: pending_in_def round_pending_def sample_round_def sample_request_def Settings_default_def unwrap_or_def)

text \<open>
  Once there is an approval window, no other request is ever brought up.  The close of that window, by the user or by
  \<open>open_approval\<close> itself, is prevented by the handler of window events, which only hides it, so its label stays taken: through
  every sequence of rounds and closed windows no approval is opened, and every later \<open>open_approval\<close> fails and leaves the window as
  it is; the command reports this as a daemon that cannot be reached.
\<close>

theorem approval_window_stuck:
  assumes "window_laws Y" "ws_exists Y APPROVAL w"
  shows "opened_approvals (fst (watch Y lc es wt w)) = []
    \<and> (case watch Y lc es wt w of (_, _, w1) \<Rightarrow>
         ws_exists Y APPROVAL w1 \<and>
         (case open_approval_command Y i w1 of
            (Inl e, w2) \<Rightarrow> ce_disconnected e \<and> w2 = w1
          | (Inr _, _) \<Rightarrow> False))"
proof -
  obtain outs wt1 w1 where run: "watch Y lc es wt w = (outs, wt1, w1)" by (metis prod_cases3)
  have stays: "opened_approvals outs = []" "ws_exists Y APPROVAL w1"
    using watch_opens_none[OF assms, of lc es wt] by (simp_all add: run)
  obtain r w2 where again: "open_approval Y i w1 = (r, w2)" by fastforce
  then obtain e where "r = Inl e" "w2 = w1" using taken_label_stays(2)[OF assms(1) stays(2) again] by (cases r) auto
  then show ?thesis using stays again by (simp add: run open_approval_command_def map_errh_def CommandError_from_def)
qed

theorem approval_window_stuck_witness:
  "opened_approvals (fst (watch sample_windows id
      [Round (sample_round (Some [sample_request ''apr_1''])), CloseWindow APPROVAL, Round (sample_round (Some [sample_request ''apr_2'']))]
      Watcher_new [APPROVAL])) = []
    \<and> (case watch sample_windows id
      [Round (sample_round (Some [sample_request ''apr_1''])), CloseWindow APPROVAL, Round (sample_round (Some [sample_request ''apr_2'']))]
      Watcher_new [APPROVAL] of (_, _, w1) \<Rightarrow>
         ws_exists sample_windows APPROVAL w1 \<and>
         (case open_approval_command sample_windows ''apr_2'' w1 of
            (Inl e, w2) \<Rightarrow> ce_disconnected e \<and> w2 = w1
          | (Inr _, _) \<Rightarrow> False))"
  by (rule approval_window_stuck) (simp_all add: sample_windows_def window_laws_def)

text \<open>
  The application asks for standing authority only on an answer of the system that the user is present: whatever the prompt does,
  either the system itself answered yes, and then \<open>presence_verified\<close> is true, or neither \<open>create_grant\<close> nor an approval that
  requires presence sends anything, and the error is not one of the connection.
\<close>

theorem presence_gates_authority:
  "case verify_presence (Option.bind prompt (\<lambda>(can_evaluate, answers). evaluate_presence can_evaluate answers)) of
     Inr verified \<Rightarrow> verified \<and> (\<exists>u answers. prompt = Some (Inr u, answers) \<and> (\<exists>t. (Some True, t) \<in> set answers))
   | Inl e \<Rightarrow> \<not> ce_disconnected e
       \<and> create_grant call B (Inl e) approval_id context_digest ttl_days s = (Inl e, s)
       \<and> approve_once call B (Inl e) approval_id context_digest True s = (Inl e, s)"
proof -
  have wait: "await_presence rs = Some (Inl e) \<Longrightarrow> \<not> ce_disconnected e" for rs e
    by (induction rs) (auto simp: local_error_def split: option.split_asm bool.split_asm if_split_asm)
  show ?thesis
  proof (cases "Option.bind prompt (\<lambda>(can_evaluate, answers). evaluate_presence can_evaluate answers)")
    case None
    then show ?thesis by (simp add: verify_presence_def local_error_def create_grant_def approve_once_def bindh_def lifth_def)
  next
    case (Some r)
    then obtain ce answers where "prompt = Some (ce, answers)" "evaluate_presence ce answers = Some r" by (auto simp: bind_eq_Some_conv)
    then show ?thesis
      using Some wait[of answers] await_presence_answer[of answers]
      by (cases r; cases ce) (auto simp: verify_presence_def evaluate_presence_def local_error_def create_grant_def approve_once_def bindh_def lifth_def)
  qed
qed

end
