(* ===== verification/Installation.thy ===== *)
theory Installation
  imports Platform_Providers Clients Store_Scan
begin

text \<open>
  The life of an installation outside the running daemon: \<open>secretctl init\<close>, \<open>keys rotate\<close>, \<open>audit verify\<close> and \<open>audit export\<close>
  (\<open>secretctl-cli/src/main.rs\<close>), the backups of the store, and the start of the daemon (\<open>secretctld/src/main.rs\<close>).

  The state is the database, the secrets of the platform's provider, the pin of the broker's key and the policy file.  The provider is
  a record of the operations of the trait, so that every platform's provider is one; its proofs rest on the locale
  \<open>secret_provider\<close>.  The results of random generators, the clock and failures of statements and of file writes are inputs.
\<close>

section \<open>The installation\<close>

record 'p platform =
  pf_get_secret :: "'p \<Rightarrow> string \<Rightarrow> (ProviderError + bytes) \<times> 'p"
  pf_store_secret :: "'p \<Rightarrow> string \<Rightarrow> bytes \<Rightarrow> (ProviderError + unit) \<times> 'p"
  pf_delete_secret :: "'p \<Rightarrow> string \<Rightarrow> (ProviderError + unit) \<times> 'p"
  pf_exists :: "'p \<Rightarrow> string \<Rightarrow> ProviderError + bool"

record 'p installation =
  is_store :: db
  is_provider :: 'p
  is_broker_key_pub :: "bytes option"
  is_policy_yaml :: "string option"

record run_inputs =
  ri_io :: "nat \<Rightarrow> io"
  ri_file :: "nat \<Rightarrow> string option"
  ri_generated_key :: bytes
  ri_random :: bytes
  ri_now :: datetime

type_synonym ('p, 'a) command = "('p installation, string, 'a) handler"

fun ProviderError_to_string :: "ProviderError \<Rightarrow> string" where
  "ProviderError_to_string (ProviderNotFound l) = ''Secret not found for locator: '' @ l"
| "ProviderError_to_string AuthenticationFailed = ''OS keychain authentication error''"
| "ProviderError_to_string (Unavailable e) = ''Provider unavailable: '' @ e"
| "ProviderError_to_string (StorageFailed e) = ''Storage operation failed: '' @ e"
| "ProviderError_to_string (Internal e) = ''Internal provider error: '' @ e"

text \<open>
  A statement, a query and a write of a file; the argument is its number, by which it may fail.  An operation of the provider.
\<close>

definition on_db :: "(db \<Rightarrow> (StoreError + 'a) \<times> db) \<Rightarrow> ('p, 'a) command" where
  "on_db f i = (case f (is_store i) of (r, d) \<Rightarrow> (map_err StoreError_to_string r, i\<lparr>is_store := d\<rparr>))"

definition query_db :: "run_inputs \<Rightarrow> nat \<Rightarrow> (db \<Rightarrow> 'a) \<Rightarrow> ('p, 'a) command" where
  "query_db J n f = peekh (\<lambda>i. map_err StoreError_to_string (stmt (ri_io J n) 0 (Inr (f (is_store i)))))"

definition write_file :: "run_inputs \<Rightarrow> nat \<Rightarrow> ('p installation \<Rightarrow> 'p installation) \<Rightarrow> ('p, unit) command" where
  "write_file J n f = (case ri_file J n of Some e \<Rightarrow> failh e | None \<Rightarrow> modifyh f)"

definition on_provider :: "('p \<Rightarrow> (ProviderError + 'a) \<times> 'p) \<Rightarrow> ('p, 'a) command" where
  "on_provider f i = (case f (is_provider i) of (r, p) \<Rightarrow> (map_err ProviderError_to_string r, i\<lparr>is_provider := p\<rparr>))"

definition get_secret :: "'p platform \<Rightarrow> string \<Rightarrow> ('p, bytes) command" where
  "get_secret P locator = on_provider (\<lambda>p. pf_get_secret P p locator)"

definition store_secret :: "'p platform \<Rightarrow> string \<Rightarrow> bytes \<Rightarrow> ('p, unit) command" where
  "store_secret P locator secret = on_provider (\<lambda>p. pf_store_secret P p locator secret)"

definition delete_secret :: "'p platform \<Rightarrow> string \<Rightarrow> ('p, unit) command" where
  "delete_secret P locator = on_provider (\<lambda>p. pf_delete_secret P p locator)"

definition exists_secret :: "'p platform \<Rightarrow> string \<Rightarrow> ('p, bool) command" where
  "exists_secret P locator = peekh (\<lambda>i. map_err ProviderError_to_string (pf_exists P (is_provider i) locator))"

definition key_pair :: "bytes \<Rightarrow> string + bytes" where
  "key_pair bs = map_err (\<lambda>_. ''Invalid key length: expected 32, got '' @ show_nat (length bs)) (KeyPair_from_bytes bs)"

section \<open>The audit log\<close>

fun load_keys :: "'p platform \<Rightarrow> (u32 \<times> string \<times> string) list \<Rightarrow> (u32 \<times> bytes) list \<Rightarrow> ('p, (u32 \<times> bytes) list) command" where
  "load_keys P [] keys = returnh keys"
| "load_keys P ((version, locator, _) # rest) keys =
    bindh (get_secret P locator) (\<lambda>key. load_keys P rest (AList.update version key keys))"

definition load_audit_keys :: "run_inputs \<Rightarrow> 'p platform \<Rightarrow> ('p, (u32 \<times> bytes) list) command" where
  "load_audit_keys J P = bindh (query_db J 1 audit_key_versions) (\<lambda>versions. load_keys P versions [])"

definition verify_audit :: "run_inputs \<Rightarrow> audit_env \<Rightarrow> 'p platform \<Rightarrow> ('p, nat) command" where
  "verify_audit J A P =
    bindh (query_db J 0 list_audit_events) (\<lambda>events.
    bindh (load_audit_keys J P) (\<lambda>audit_keys.
    bindh (lifth (map_err AuditError_to_string (verify_audit_chain A events audit_keys))) (\<lambda>_.
    bindh (query_db J 2 list_audit_checkpoints) (\<lambda>checkpoints.
    bindh (query_db J 3 trusted_signing_keys) (\<lambda>signing_keys.
    bindh (lifth (map_err AuditError_to_string (verify_audit_checkpoints A events checkpoints signing_keys))) (\<lambda>_.
    returnh (length events)))))))"

text \<open>The events of an export, between two instants; what is printed is their JSON.\<close>

definition audit_export ::
    "run_inputs \<Rightarrow> audit_env \<Rightarrow> 'p platform \<Rightarrow> string + datetime \<Rightarrow> string + datetime \<Rightarrow> string \<Rightarrow> ('p, AuditEvent list) command" where
  "audit_export J A P from to format =
    bindh (guardh (format = ''jsonl'') ''only jsonl export is supported'') (\<lambda>_.
    bindh (verify_audit J A P) (\<lambda>_.
    bindh (lifth from) (\<lambda>from. bindh (lifth to) (\<lambda>to.
    bindh (query_db J 4 list_audit_events) (\<lambda>events.
    returnh (filter (\<lambda>e. from \<le> ev_created_at e \<and> ev_created_at e \<le> to) events))))))"

section \<open>Init\<close>

definition SIGNING_KEY_LOCATOR :: string where
  "SIGNING_KEY_LOCATOR = ''installation-signing-key''"

definition AUDIT_KEY_LOCATOR :: "u32 \<Rightarrow> string" where
  "AUDIT_KEY_LOCATOR version = ''audit-chain-key-v'' @ show_nat (unat version)"

definition BROKER_KEY_ID :: "u32 \<Rightarrow> string" where
  "BROKER_KEY_ID version = ''broker-key-v'' @ show_nat (unat version)"

definition init_signing_key :: "run_inputs \<Rightarrow> 'p platform \<Rightarrow> ('p, bytes) command" where
  "init_signing_key J P =
    bindh (exists_secret P SIGNING_KEY_LOCATOR) (\<lambda>there.
    if there then bindh (get_secret P SIGNING_KEY_LOCATOR) (\<lambda>bytes. lifth (key_pair bytes))
    else bindh (store_secret P SIGNING_KEY_LOCATOR (ri_generated_key J)) (\<lambda>_. returnh (ri_generated_key J)))"

definition register_first_key :: "run_inputs \<Rightarrow> ed25519 \<Rightarrow> bytes \<Rightarrow> ('p, unit) command" where
  "register_first_key J Ed signing_key =
    bindh (query_db J 1 active_signing_key_id) (\<lambda>active.
    if active = None then on_db (register_signing_key (ri_io J 2) (ri_now J) (BROKER_KEY_ID 1) (ed_public Ed signing_key) ''active'')
    else returnh ())"

definition register_first_audit_key :: "run_inputs \<Rightarrow> ('p, unit) command" where
  "register_first_audit_key J =
    bindh (query_db J 3 active_audit_key_version) (\<lambda>active.
    if active = None then on_db (register_audit_key_version (ri_io J 4) (ri_now J) 1 (AUDIT_KEY_LOCATOR 1) ''active'')
    else returnh ())"

text \<open>\<open>default_policy\<close> is the YAML of a policy without rules.  File operation 0 is the creation of the directories, database operation 0 the opening.\<close>

definition init :: "run_inputs \<Rightarrow> 'p platform \<Rightarrow> ed25519 \<Rightarrow> string + string \<Rightarrow> ('p, unit) command" where
  "init J P Ed default_policy =
    bindh (write_file J 0 id) (\<lambda>_.
    bindh (query_db J 0 id) (\<lambda>_.
    bindh (readh is_policy_yaml) (\<lambda>policy.
    bindh (if policy = None
           then bindh (lifth default_policy) (\<lambda>yaml. write_file J 1 (\<lambda>i. i\<lparr>is_policy_yaml := Some yaml\<rparr>))
           else returnh ()) (\<lambda>_.
    bindh (init_signing_key J P) (\<lambda>signing_key.
    bindh (register_first_key J Ed signing_key) (\<lambda>_.
    bindh (write_file J 2 (\<lambda>i. i\<lparr>is_broker_key_pub := Some (ed_public Ed signing_key)\<rparr>)) (\<lambda>_.
    bindh (exists_secret P (AUDIT_KEY_LOCATOR 1)) (\<lambda>there.
    bindh (if there then returnh () else store_secret P (AUDIT_KEY_LOCATOR 1) (ri_random J)) (\<lambda>_.
    register_first_audit_key J)))))))))"

section \<open>Rotation\<close>

definition checkpoint_last ::
    "run_inputs \<Rightarrow> audit_env \<Rightarrow> string \<Rightarrow> bytes \<Rightarrow> ('p, unit) command" where
  "checkpoint_last J A old_signing_id old_signing_key =
    bindh (query_db J 5 list_audit_events) (\<lambda>events.
    case rev events of
      [] \<Rightarrow> returnh ()
    | last_event # _ \<Rightarrow>
      let checkpoint = create_audit_checkpoint A (ev_sequence last_event) (ev_event_hash last_event) (ev_audit_key_version last_event)
            old_signing_id old_signing_key (ri_now J) in
      bindh (query_db J 6 list_audit_checkpoints) (\<lambda>checkpoints.
      if list_ex (\<lambda>existing. ck_sequence existing = ck_sequence checkpoint) checkpoints then returnh ()
      else on_db (insert_audit_checkpoint (ri_io J 7) checkpoint)))"

definition next_version :: "(u32 \<times> string \<times> string) list \<Rightarrow> u32" where
  "next_version versions = foldr (\<lambda>(v, _, _). max v) versions 0 + 1"

definition rotate_signing_key :: "run_inputs \<Rightarrow> ed25519 \<Rightarrow> 'p platform \<Rightarrow> string \<Rightarrow> u32 \<Rightarrow> ('p, unit) command" where
  "rotate_signing_key J Ed P old_signing_id new_version =
    bindh (store_secret P SIGNING_KEY_LOCATOR (ri_generated_key J)) (\<lambda>_.
    bindh (on_db (retire_signing_key (ri_io J 9) (ri_now J) old_signing_id)) (\<lambda>_.
    bindh (on_db (register_signing_key (ri_io J 10) (ri_now J) (BROKER_KEY_ID new_version) (ed_public Ed (ri_generated_key J)) ''active'')) (\<lambda>_.
    write_file J 0 (\<lambda>i. i\<lparr>is_broker_key_pub := Some (ed_public Ed (ri_generated_key J))\<rparr>))))"

definition rotate_audit_key :: "run_inputs \<Rightarrow> 'p platform \<Rightarrow> u32 \<Rightarrow> ('p, unit) command" where
  "rotate_audit_key J P new_version =
    bindh (query_db J 11 active_audit_key_version) (\<lambda>active.
    case active of
      None \<Rightarrow> failh ''active audit key missing''
    | Some (old_audit_version, _) \<Rightarrow>
      bindh (store_secret P (AUDIT_KEY_LOCATOR new_version) (ri_random J)) (\<lambda>_.
      bindh (on_db (retire_audit_key_version (ri_io J 12) (ri_now J) old_audit_version)) (\<lambda>_.
      on_db (register_audit_key_version (ri_io J 13) (ri_now J) new_version (AUDIT_KEY_LOCATOR new_version) ''active''))))"

definition keys_rotate :: "run_inputs \<Rightarrow> audit_env \<Rightarrow> 'p platform \<Rightarrow> bool \<Rightarrow> ('p, unit) command" where
  "keys_rotate J A P admin_socket =
    bindh (guardh (\<not> admin_socket) ''stop secretctld before rotating keys'') (\<lambda>_.
    bindh (verify_audit J A P) (\<lambda>_.
    bindh (query_db J 4 active_signing_key_id) (\<lambda>active.
    case active of
      None \<Rightarrow> failh ''active signing key missing''
    | Some old_signing_id \<Rightarrow>
      bindh (get_secret P SIGNING_KEY_LOCATOR) (\<lambda>old_signing_secret.
      bindh (lifth (key_pair old_signing_secret)) (\<lambda>old_signing_key.
      bindh (checkpoint_last J A old_signing_id old_signing_key) (\<lambda>_.
      bindh (query_db J 8 audit_key_versions) (\<lambda>versions.
      bindh (rotate_signing_key J (ae_ed A) P old_signing_id (next_version versions)) (\<lambda>_.
      rotate_audit_key J P (next_version versions)))))))))"

section \<open>The start of the daemon\<close>

text \<open>\<open>exists(..).unwrap_or(false)\<close>: a provider that cannot tell counts as one without the key.  The write of the pin may fail.\<close>

definition daemon_key :: "run_inputs \<Rightarrow> ed25519 \<Rightarrow> 'p platform \<Rightarrow> ('p, bytes) command" where
  "daemon_key J Ed P =
    bindh (readh (\<lambda>i. case pf_exists P (is_provider i) SIGNING_KEY_LOCATOR of Inr b \<Rightarrow> b | Inl _ \<Rightarrow> False)) (\<lambda>there.
    if there then bindh (get_secret P SIGNING_KEY_LOCATOR) (\<lambda>secret. lifth (key_pair secret))
    else
      bindh (store_secret P SIGNING_KEY_LOCATOR (ri_generated_key J)) (\<lambda>_.
      bindh (ignoreh (write_file J 1 (\<lambda>i. i\<lparr>is_broker_key_pub := Some (ed_public Ed (ri_generated_key J))\<rparr>))) (\<lambda>_.
      returnh (ri_generated_key J))))"

definition daemon_policy :: "(string \<Rightarrow> string + PolicyDocument) \<Rightarrow> ('p, PolicyDocument) command" where
  "daemon_policy from_yaml =
    peekh (\<lambda>i. case is_policy_yaml i of Some content \<Rightarrow> from_yaml content | None \<Rightarrow> Inr \<lparr>pdoc_version = ''1.0'', pdoc_rules = []\<rparr>)"

definition daemon_signing_key_id :: "run_inputs \<Rightarrow> ed25519 \<Rightarrow> bytes \<Rightarrow> ('p, string) command" where
  "daemon_signing_key_id J Ed broker_key =
    bindh (query_db J 1 active_signing_key_id) (\<lambda>active.
    let signing_key_id = unwrap_or active (BROKER_KEY_ID 1) in
    bindh (query_db J 2 active_signing_key_id) (\<lambda>active'.
    bindh (if active' = None then on_db (register_signing_key (ri_io J 3) (ri_now J) signing_key_id (ed_public Ed broker_key) ''active'')
           else returnh ()) (\<lambda>_.
    returnh signing_key_id)))"

definition daemon_audit_key :: "run_inputs \<Rightarrow> 'p platform \<Rightarrow> ('p, u32 \<times> bytes) command" where
  "daemon_audit_key J P =
    bindh (query_db J 4 active_audit_key_version) (\<lambda>active.
    case unwrap_or active (1, AUDIT_KEY_LOCATOR 1) of (version, locator) \<Rightarrow>
    bindh (exists_secret P locator) (\<lambda>there.
    bindh (if there then get_secret P locator
           else bindh (store_secret P locator (ri_random J)) (\<lambda>_. returnh (ri_random J))) (\<lambda>audit_key.
    bindh (query_db J 5 active_audit_key_version) (\<lambda>active'.
    bindh (if active' = None then on_db (register_audit_key_version (ri_io J 6) (ri_now J) version locator ''active'') else returnh ()) (\<lambda>_.
    returnh (version, audit_key))))))"

text \<open>The recipes of the installation: the contents of its JSON files, in the order of the directory.\<close>

function (sequential) validate_recipe_metadata_keys :: "json \<Rightarrow> string \<Rightarrow> string + unit"
  and validate_recipe_fields :: "(string \<times> json) list \<Rightarrow> string \<Rightarrow> string + unit"
  and validate_recipe_items :: "json list \<Rightarrow> nat \<Rightarrow> string \<Rightarrow> string + unit" where
  "validate_recipe_metadata_keys (Object members) path = validate_recipe_fields members path"
| "validate_recipe_metadata_keys (Array items) path = validate_recipe_items items 0 path"
| "validate_recipe_metadata_keys _ path = Inr ()"
| "validate_recipe_fields [] path = Inr ()"
| "validate_recipe_fields ((key, v) # members) path =
    (if contains_prohibited_key_name key then Inl (''prohibited secret-bearing recipe key at '' @ path @ ''.'' @ key)
     else try_r (validate_recipe_metadata_keys v (path @ ''.'' @ key)) (\<lambda>_. validate_recipe_fields members path))"
| "validate_recipe_items [] index path = Inr ()"
| "validate_recipe_items (v # items) index path =
    try_r (validate_recipe_metadata_keys v (path @ ''['' @ show_nat index @ '']'')) (\<lambda>_. validate_recipe_items items (index + 1) path)"
  by pat_completeness auto

termination
  by (relation "measure (\<lambda>x. case x of
        Inl (v, _) \<Rightarrow> size v
      | Inr (Inl (fs, _)) \<Rightarrow> size_list (size_prod (\<lambda>_. 0) size) fs
      | Inr (Inr (vs, _, _)) \<Rightarrow> size_list size vs)") auto

definition valid_field_count :: "SiteRecipe \<Rightarrow> bool" where
  "valid_field_count recipe =
    (if sr_action recipe = OAuthAuthorize then sr_fields recipe = [] \<and> sr_oauth recipe \<noteq> None
     else 1 \<le> length (sr_fields recipe) \<and> length (sr_fields recipe) \<le> 5 \<and> sr_oauth recipe = None)"

definition valid_fields :: "SiteRecipe \<Rightarrow> bool" where
  "valid_fields recipe =
    list_all (\<lambda>field. rf_role field \<noteq> [] \<and> length (rf_role field) \<le> 64 \<and> \<not> trim_is_empty (rf_selector field)) (sr_fields recipe)"

definition valid_path_prefix :: "SiteRecipe \<Rightarrow> bool" where
  "valid_path_prefix recipe =
    (case rm_path_prefix (sr_match_rule recipe) of None \<Rightarrow> True | Some path_prefix \<Rightarrow> starts_with path_prefix ''/'')"

record recipe_wire =
  rw_from_str :: "string \<Rightarrow> string + json"
  rw_recipe :: "string \<Rightarrow> string + SiteRecipe"

definition load_recipe :: "recipe_wire \<Rightarrow> (bytes \<Rightarrow> bytes) \<Rightarrow> string \<times> (string + string) \<Rightarrow> string + SiteRecipe" where
  "load_recipe R sha256 = (\<lambda>(path, file).
    try_r file (\<lambda>content.
    try_r (rw_from_str R content) (\<lambda>document.
    try_r (validate_recipe_metadata_keys document ''$recipe'') (\<lambda>_.
    try_r (rw_recipe R content) (\<lambda>recipe.
    if \<not> valid_field_count recipe
    then Inl (''recipe '' @ path @ '' must declare OAuth configuration with no fields, or 1 to 5 fields without OAuth configuration'')
    else if \<not> valid_fields recipe then Inl (''recipe '' @ path @ '' contains an invalid field role or selector'')
    else if \<not> valid_path_prefix recipe then Inl (''recipe '' @ path @ '' path_prefix must begin with '' @ [CHR 0x27] @ ''/'' @ [CHR 0x27])
    else Inr (recipe\<lparr>sr_content_hash := sha256 (as_bytes content)\<rparr>))))))"

fun load_recipes :: "recipe_wire \<Rightarrow> (bytes \<Rightarrow> bytes) \<Rightarrow> (string \<times> (string + string)) list \<Rightarrow> BrokerState \<Rightarrow> string + BrokerState" where
  "load_recipes R sha256 [] b = Inr b"
| "load_recipes R sha256 (file # files) b =
    try_r (load_recipe R sha256 file) (\<lambda>recipe. load_recipes R sha256 files (register_recipe recipe b))"

definition daemon_start ::
    "run_inputs \<Rightarrow> slot \<Rightarrow> 'p platform \<Rightarrow> server_env \<Rightarrow> recipe_wire \<Rightarrow> (string \<times> (string + string)) list
     \<Rightarrow> ('p, BrokerState) command" where
  "daemon_start J sl P E R files =
    bindh (write_file J 0 id) (\<lambda>_.
    bindh (query_db J 0 (validate_no_prohibited_persisted_keys (rw_from_str R))) (\<lambda>valid.
    bindh (lifth (map_err StoreError_to_string valid)) (\<lambda>_.
    bindh (daemon_key J (sv_ed E) P) (\<lambda>broker_key.
    bindh (daemon_policy (wv_from_yaml (sv_wire E))) (\<lambda>policy.
    let evaluator = PolicyEvaluator_new (sv_sha256 E) (wv_policy_vec (sv_wire E)) policy in
    bindh (daemon_signing_key_id J (sv_ed E) broker_key) (\<lambda>signing_key_id.
    bindh (daemon_audit_key J P) (\<lambda>(audit_key_version, audit_key).
    bindh (on_db (\<lambda>d. try_new_with_audit_key sl broker_key signing_key_id audit_key audit_key_version d evaluator)) (\<lambda>state.
    lifth (load_recipes R (sv_sha256 E) files state)))))))))"

end
