(* ===== verification/Installation_Properties.thy ===== *)
theory Installation_Properties
  imports Installation Client_Properties
begin

text \<open>
  Properties of the life of an installation: \<open>init\<close> establishes and \<open>keys rotate\<close> keeps that the keys in the provider, their
  registrations and the pin belong together, the audit log stays verifiable over a rotation, and what the daemon does with them at its
  start.
\<close>

section \<open>Commands\<close>

definition keeps_contract :: "'p platform \<Rightarrow> ('p \<Rightarrow> string \<Rightarrow> bytes option) \<Rightarrow> bool" where
  "keeps_contract P contents =
    secret_provider (pf_get_secret P) (pf_store_secret P) (pf_delete_secret P) (pf_exists P) contents"

lemma get_secret_ok:
  assumes "keeps_contract P contents" "get_secret P l i = (Inr s, i')"
  obtains p where "i' = i\<lparr>is_provider := p\<rparr>" "contents p = contents (is_provider i)" "contents (is_provider i) l = Some s"
  using assms secret_provider.get_ok[OF assms(1)[unfolded keeps_contract_def], of "is_provider i" l s]
  by (auto simp: get_secret_def on_provider_def split: prod.split_asm)

lemma store_secret_ok:
  assumes "keeps_contract P contents" "store_secret P l s i = (Inr u, i')"
  obtains p where "i' = i\<lparr>is_provider := p\<rparr>" "contents p = (contents (is_provider i))(l \<mapsto> s)"
  using assms secret_provider.store_ok[OF assms(1)[unfolded keeps_contract_def], of "is_provider i" l s]
  by (auto simp: store_secret_def on_provider_def split: prod.split_asm)

lemma delete_secret_ok:
  assumes "keeps_contract P contents" "delete_secret P l i = (Inr u, i')"
  obtains p where "i' = i\<lparr>is_provider := p\<rparr>" "contents p = (contents (is_provider i))(l := None)"
  using assms secret_provider.delete_ok[OF assms(1)[unfolded keeps_contract_def], of "is_provider i" l]
  by (auto simp: delete_secret_def on_provider_def split: prod.split_asm)

lemma exists_secret_ok:
  "keeps_contract P contents \<Longrightarrow> exists_secret P l i = (Inr b, i') \<Longrightarrow> i' = i \<and> b = (contents (is_provider i) l \<noteq> None)"
  using secret_provider.exists_ok[of "pf_get_secret P" "pf_store_secret P" "pf_delete_secret P" "pf_exists P" contents "is_provider i" l]
  by (auto simp: exists_secret_def keeps_contract_def)

lemma on_db_ok: "on_db f i = (Inr x, i') \<longleftrightarrow> (\<exists>d. f (is_store i) = (Inr x, d) \<and> i' = i\<lparr>is_store := d\<rparr>)"
  by (auto simp: on_db_def split: prod.split)

lemma query_db_ok: "query_db J n f i = (Inr x, i') \<longleftrightarrow> ri_io J n 0 = None \<and> x = f (is_store i) \<and> i' = i"
  by (auto simp: query_db_def stmt_def split: option.split_asm)

lemma write_file_ok: "write_file J n f i = (Inr u, i') \<longleftrightarrow> ri_file J n = None \<and> i' = f i"
  by (auto simp: write_file_def split: option.split)

lemma key_pair_ok: "key_pair bs = Inr k \<longleftrightarrow> k = bs \<and> length bs = 32"
  by (auto simp: key_pair_def KeyPair_from_bytes_def)

lemmas command_ok = bindh_Inr_iff on_db_ok query_db_ok write_file_ok key_pair_ok

section \<open>Keys that belong together\<close>

definition active_key :: "SigningKeyRow \<Rightarrow> bool" where "active_key r = (kw_state r = ''active'')"
definition active_audit_key :: "AuditKeyRow \<Rightarrow> bool" where "active_audit_key r = (aw_state r = ''active'')"

definition signing_ok :: "bytes \<Rightarrow> SigningKeyRow list \<Rightarrow> bool" where
  "signing_ok public rows =
    ((\<exists>r. filter active_key rows = [r] \<and> kw_public_key r = public) \<and> distinct (map kw_key_id rows)
     \<and> (\<forall>r\<in>set rows. kw_state r = ''active'' \<or> kw_state r = ''retired''))"

definition audit_keys_ok :: "(string \<Rightarrow> bytes option) \<Rightarrow> AuditKeyRow list \<Rightarrow> bool" where
  "audit_keys_ok stored_secrets rows =
    ((\<exists>r. filter active_audit_key rows = [r]) \<and> distinct (map aw_version rows)
     \<and> (\<forall>r\<in>set rows. aw_key_locator r = AUDIT_KEY_LOCATOR (aw_version r) \<and> stored_secrets (aw_key_locator r) \<noteq> None))"

definition keys_consistent :: "ed25519 \<Rightarrow> (string \<Rightarrow> bytes option) \<Rightarrow> bytes option \<Rightarrow> db \<Rightarrow> bool" where
  "keys_consistent Ed stored_secrets pin d =
    ((\<exists>k. stored_secrets SIGNING_KEY_LOCATOR = Some k \<and> length k = 32 \<and> pin = Some (ed_public Ed k)
         \<and> signing_ok (ed_public Ed k) (t_trusted_signing_keys d))
     \<and> audit_keys_ok stored_secrets (t_audit_key_versions d)
     \<and> (\<forall>r\<in>set (t_trusted_signing_keys d). \<exists>a\<in>set (t_audit_key_versions d). kw_key_id r = BROKER_KEY_ID (aw_version a)))"

definition installation_consistent :: "ed25519 \<Rightarrow> ('p \<Rightarrow> string \<Rightarrow> bytes option) \<Rightarrow> 'p installation \<Rightarrow> bool" where
  "installation_consistent Ed contents i =
    keys_consistent Ed (contents (is_provider i)) (is_broker_key_pub i) (is_store i)"

lemma locators_differ [simp]:
  "AUDIT_KEY_LOCATOR v \<noteq> SIGNING_KEY_LOCATOR" "SIGNING_KEY_LOCATOR \<noteq> AUDIT_KEY_LOCATOR v"
  by (simp_all add: AUDIT_KEY_LOCATOR_def SIGNING_KEY_LOCATOR_def)

lemma names_inject [simp]: "AUDIT_KEY_LOCATOR v = AUDIT_KEY_LOCATOR w \<longleftrightarrow> v = w" "BROKER_KEY_ID v = BROKER_KEY_ID w \<longleftrightarrow> v = w"
  by (simp_all add: AUDIT_KEY_LOCATOR_def BROKER_KEY_ID_def word_unat_eq_iff)

lemma active_signing_key_id_ok:
  "filter active_key (t_trusted_signing_keys d) = [r] \<Longrightarrow> active_signing_key_id d = Some (kw_key_id r)"
  by (simp add: active_signing_key_id_def active_key_def[abs_def])

lemma trusted_ok:
  assumes "signing_ok public (t_trusted_signing_keys d)" "r \<in> set (t_trusted_signing_keys d)"
  shows "map_of (trusted_signing_keys d) (kw_key_id r) = Some (kw_public_key r)"
proof -
  have "filter (\<lambda>r. kw_state r = ''active'' \<or> kw_state r = ''retired'') (t_trusted_signing_keys d) = t_trusted_signing_keys d"
    using assms(1) by (simp add: signing_ok_def filter_id_conv)
  then have "trusted_signing_keys d = map (\<lambda>r. (kw_key_id r, kw_public_key r)) (t_trusted_signing_keys d)"
    by (simp add: trusted_signing_keys_def)
  then show ?thesis using assms by (auto simp: signing_ok_def comp_def intro!: map_of_is_SomeI)
qed

lemma active_audit_key_version_ok:
  assumes "filter active_audit_key (t_audit_key_versions d) = [r]"
  shows "active_audit_key_version d = Some (aw_version r, aw_key_locator r)"
proof -
  have "filter (\<lambda>(_, _, state). state = ''active'') (audit_key_versions d) = [(aw_version r, aw_key_locator r, aw_state r)]"
    using assms by (simp add: audit_key_versions_def filter_map comp_def filter_sort active_audit_key_def[abs_def])
  then show ?thesis by (simp add: active_audit_key_version_def)
qed

lemma audit_key_versions_set: "set (audit_key_versions d) = (\<lambda>r. (aw_version r, aw_key_locator r, aw_state r)) ` set (t_audit_key_versions d)"
  by (simp add: audit_key_versions_def)

section \<open>Registrations\<close>

lemma signing_rotated:
  assumes ok: "signing_ok old_public (t_trusted_signing_keys d)" and r: "filter active_key (t_trusted_signing_keys d) = [r]"
    and fresh: "new_id \<notin> kw_key_id ` set (t_trusted_signing_keys d)"
    and retire: "retire_signing_key io now (kw_key_id r) d = (Inr (), d1)"
    and register: "register_signing_key io' now new_id new_public ''active'' d1 = (Inr (), d2)"
  shows "\<exists>rows. d2 = d\<lparr>t_trusted_signing_keys := rows\<rparr> \<and> signing_ok new_public rows
    \<and> kw_key_id ` set rows = insert new_id (kw_key_id ` set (t_trusted_signing_keys d))
    \<and> trusted_signing_keys d2 = trusted_signing_keys d @ [(new_id, new_public)]"
proof -
  let ?rows = "t_trusted_signing_keys d"
  let ?p = "\<lambda>x. kw_key_id x = kw_key_id r \<and> kw_state x = ''active''"
  let ?retired = "update_rows ?p (\<lambda>x. x\<lparr>kw_state := ''retired'', kw_retired_at := Some now\<rparr>) ?rows"
  let ?row = "\<lparr>kw_key_id = new_id, kw_public_key = new_public, kw_state = ''active'', kw_created_at = now, kw_retired_at = None\<rparr>"
  have d1: "d1 = d\<lparr>t_trusted_signing_keys := ?retired\<rparr>"
    using retire by (auto simp: retire_signing_key_def stmt_def Let_def split: option.split_asm if_split_asm)
  have ids: "map kw_key_id ?retired = map kw_key_id ?rows" by (simp add: update_rows_def)
  from arg_cong[OF this, of set] have id_set: "kw_key_id ` set ?retired = kw_key_id ` set ?rows" by (simp only: set_map)
  then have "\<not> list_ex (\<lambda>x. kw_key_id x = new_id) ?retired" using fresh by (auto simp: list_ex_iff)
  then have d2: "d2 = d\<lparr>t_trusted_signing_keys := ?retired @ [?row]\<rparr>"
    using register by (auto simp: register_signing_key_def d1 atomically_def stmt_def split: option.split_asm)
  have only: "x = r" if "x \<in> set ?rows" "active_key x" for x using arg_cong[OF r, of set] that by auto
  have "filter active_key ?retired = []"
    using only by (auto simp: update_rows_def filter_empty_conv active_key_def split: if_split_asm)
  then have active: "filter active_key (?retired @ [?row]) = [?row]" by (simp add: active_key_def)
  have states: "\<forall>x\<in>set (?retired @ [?row]). kw_state x = ''active'' \<or> kw_state x = ''retired''"
    using ok by (auto simp: signing_ok_def update_rows_def)
  have "distinct (map kw_key_id (?retired @ [?row]))"
    using ok ids id_set fresh by (auto simp: signing_ok_def simp del: map_map)
  then have "signing_ok new_public (?retired @ [?row])"
    unfolding signing_ok_def active using states by simp
  moreover have "trusted_signing_keys d2 = trusted_signing_keys d @ [(new_id, new_public)]"
  proof -
    have "filter (\<lambda>x. kw_state x = ''active'' \<or> kw_state x = ''retired'') ?rows = ?rows"
      using ok by (simp add: signing_ok_def filter_id_conv)
    moreover have "filter (\<lambda>x. kw_state x = ''active'' \<or> kw_state x = ''retired'') (?retired @ [?row]) = ?retired @ [?row]"
      using states by (simp add: filter_id_conv del: filter_append)
    ultimately show ?thesis by (simp add: trusted_signing_keys_def d2 update_rows_def del: filter_append)
  qed
  ultimately show ?thesis using d2 id_set by (intro exI[of _ "?retired @ [?row]"]) simp
qed

lemma retire_audit_key_version_ok:
  "retire_audit_key_version io now v d = (Inr (), d1) \<Longrightarrow>
    d1 = d\<lparr>t_audit_key_versions := update_rows (\<lambda>x. aw_version x = v \<and> aw_state x = ''active'')
      (\<lambda>x. x\<lparr>aw_state := ''retired'', aw_retired_at := Some now\<rparr>) (t_audit_key_versions d)\<rparr>"
  by (simp add: retire_audit_key_version_def stmt_def Let_def split: option.split_asm if_split_asm)

lemma audit_rotated:
  assumes ok: "audit_keys_ok stored_secrets (t_audit_key_versions d)" and r: "filter active_audit_key (t_audit_key_versions d) = [r]"
    and fresh: "new_version \<notin> aw_version ` set (t_audit_key_versions d)"
    and retire: "retire_audit_key_version io now (aw_version r) d = (Inr (), d1)"
    and register: "register_audit_key_version io' now new_version (AUDIT_KEY_LOCATOR new_version) ''active'' d1 = (Inr (), d2)"
    and kept: "\<And>v. v \<in> aw_version ` set (t_audit_key_versions d) \<Longrightarrow> stored_secrets' (AUDIT_KEY_LOCATOR v) = stored_secrets (AUDIT_KEY_LOCATOR v)"
    and new: "stored_secrets' (AUDIT_KEY_LOCATOR new_version) \<noteq> None"
  shows "\<exists>rows. d2 = d\<lparr>t_audit_key_versions := rows\<rparr> \<and> audit_keys_ok stored_secrets' rows
    \<and> active_audit_key_version d2 = Some (new_version, AUDIT_KEY_LOCATOR new_version)
    \<and> aw_version ` set rows = insert new_version (aw_version ` set (t_audit_key_versions d))"
proof -
  let ?rows = "t_audit_key_versions d"
  let ?p = "\<lambda>x. aw_version x = aw_version r \<and> aw_state x = ''active''"
  let ?retired = "update_rows ?p (\<lambda>x. x\<lparr>aw_state := ''retired'', aw_retired_at := Some now\<rparr>) ?rows"
  let ?row = "\<lparr>aw_version = new_version, aw_key_locator = AUDIT_KEY_LOCATOR new_version, aw_state = ''active'', aw_created_at = now,
    aw_retired_at = None\<rparr>"
  have d1: "d1 = d\<lparr>t_audit_key_versions := ?retired\<rparr>"
    by (rule retire_audit_key_version_ok[OF retire])
  have vs: "map aw_version ?retired = map aw_version ?rows" by (simp add: update_rows_def)
  from arg_cong[OF vs, of set] have v_set: "aw_version ` set ?retired = aw_version ` set ?rows" by (simp only: set_map)
  have locators: "aw_key_locator x = AUDIT_KEY_LOCATOR (aw_version x)" if "x \<in> set ?retired" for x
    using ok that by (auto simp: audit_keys_ok_def update_rows_def)
  have "\<not> list_ex (\<lambda>x. aw_version x = new_version) ?retired" using fresh v_set by (auto simp: list_ex_iff)
  moreover have "\<not> list_ex (\<lambda>x. aw_key_locator x = AUDIT_KEY_LOCATOR new_version \<and> aw_version x \<noteq> new_version) ?retired"
    using locators by (auto simp: list_ex_iff)
  ultimately have d2: "d2 = d\<lparr>t_audit_key_versions := ?retired @ [?row]\<rparr>"
    using register by (auto simp: register_audit_key_version_def d1 atomically_def stmt_def split: option.split_asm)
  have only: "x = r" if "x \<in> set ?rows" "active_audit_key x" for x using arg_cong[OF r, of set] that by auto
  have "filter active_audit_key ?retired = []"
    using only by (auto simp: update_rows_def filter_empty_conv active_audit_key_def split: if_split_asm)
  then have active: "filter active_audit_key (?retired @ [?row]) = [?row]" by (simp add: active_audit_key_def)
  have "distinct (map aw_version (?retired @ [?row]))"
    using ok vs v_set fresh by (auto simp: audit_keys_ok_def simp del: map_map)
  moreover have "stored_secrets' (aw_key_locator x) \<noteq> None" if "x \<in> set ?retired" for x
  proof -
    have there: "aw_version x \<in> aw_version ` set ?rows" using imageI[OF that, of aw_version] by (simp only: v_set)
    then obtain y where "y \<in> set ?rows" "aw_version y = aw_version x" by auto
    then have "stored_secrets (AUDIT_KEY_LOCATOR (aw_version x)) \<noteq> None" using ok unfolding audit_keys_ok_def by metis
    then show ?thesis using kept[OF there] locators[OF that] by simp
  qed
  ultimately have "audit_keys_ok stored_secrets' (?retired @ [?row])"
    using active locators new by (auto simp: audit_keys_ok_def simp del: filter_append)
  moreover have "active_audit_key_version d2 = Some (new_version, AUDIT_KEY_LOCATOR new_version)"
    using active_audit_key_version_ok[of d2 ?row] active by (simp add: d2)
  ultimately show ?thesis using d2 v_set by (intro exI[of _ "?retired @ [?row]"]) simp
qed

lemma next_version_fresh:
  assumes "\<forall>x\<in>set versions. fst x < 0xFFFFFFFF"
  shows "next_version versions \<notin> fst ` set versions"
proof -
  have top: "fst x \<le> foldr (\<lambda>(v, _, _). max v) versions 0" if "x \<in> set versions" for x
    using that by (induction versions) (auto simp: le_max_iff_disj)
  have "foldr (\<lambda>(v, _, _). max v) versions 0 < (0xFFFFFFFF :: u32)" using assms by (induction versions) auto
  then have "foldr (\<lambda>(v, _, _). max v) versions 0 \<noteq> (-1 :: u32)" using word_order.extremum_strict by metis
  then have "foldr (\<lambda>(v, _, _). max v) versions 0 < next_version versions"
    by (simp add: next_version_def word_less_nat_alt add.commute[of _ 1] unatSuc eq_neg_iff_add_eq_0)
  then show ?thesis using top by fastforce
qed

section \<open>Verification with more keys\<close>

lemma verify_from_more_keys:
  assumes "\<And>v k. map_of K v = Some k \<Longrightarrow> map_of K' v = Some k"
  shows "verify_from A K n h es = Inr () \<Longrightarrow> verify_from A K' n h es = Inr ()"
proof (induction es arbitrary: n h)
  case (Cons e es)
  have "event_hash_of A K' e = Inr x" if "event_hash_of A K e = Inr x" for x
    using that assms by (auto simp: event_hash_of_def try_r_Inr_iff ok_or_def split: if_split_asm option.split_asm option.split)
  then show ?case using Cons by (auto simp: Let_def try_r_Inr_iff split: if_split_asm)
qed simp

lemma checkpoints_iff:
  "verify_audit_checkpoints A es cs sk = Inr () \<longleftrightarrow> (\<forall>c\<in>set cs. verify_audit_checkpoints A es [c] sk = Inr ())"
  by (induction cs) (auto simp: try_r_Inr_iff)

lemma checkpoint_more_keys:
  assumes "\<And>v k. map_of sk v = Some k \<Longrightarrow> map_of sk' v = Some k"
  shows "verify_audit_checkpoints A es [c] sk = Inr () \<Longrightarrow> verify_audit_checkpoints A es [c] sk' = Inr ()"
  using assms by (auto simp: try_r_Inr_iff ok_or_def split: if_split_asm option.split_asm option.split)

lemma load_keys_ok:
  assumes "keeps_contract P contents" "load_keys P vs K i = (Inr K', i')" "distinct (map fst vs)"
  shows "\<exists>p. i' = i\<lparr>is_provider := p\<rparr> \<and> contents p = contents (is_provider i)
    \<and> (\<forall>(v, l, s)\<in>set vs. map_of K' v = contents (is_provider i) l \<and> contents (is_provider i) l \<noteq> None)
    \<and> (\<forall>v. v \<notin> fst ` set vs \<longrightarrow> map_of K' v = map_of K v)"
  using assms(2,3)
proof (induction vs arbitrary: K i)
  case Nil
  then show ?case by (auto intro: exI[of _ "is_provider i"])
next
  case (Cons x vs)
  obtain v l st where x: "x = (v, l, st)" by (cases x) auto
  obtain key i1 where got: "get_secret P l i = (Inr key, i1)" and rest: "load_keys P vs (AList.update v key K) i1 = (Inr K', i')"
    using Cons.prems(1) by (auto simp: x bindh_Inr_iff)
  obtain p1 where p1: "i1 = i\<lparr>is_provider := p1\<rparr>" "contents p1 = contents (is_provider i)" "contents (is_provider i) l = Some key"
    by (rule get_secret_ok[OF assms(1) got])
  obtain p where p: "i' = i1\<lparr>is_provider := p\<rparr>" "contents p = contents (is_provider i1)"
    "\<forall>(v, l, s)\<in>set vs. map_of K' v = contents (is_provider i1) l \<and> contents (is_provider i1) l \<noteq> None"
    "\<forall>w. w \<notin> fst ` set vs \<longrightarrow> map_of K' w = map_of (AList.update v key K) w"
    using Cons.IH[OF rest] Cons.prems(2) by auto
  have "v \<notin> fst ` set vs" using Cons.prems(2) by (simp add: x)
  then show ?case using p p1 by (intro exI[of _ p]) (auto simp: x update_conv')
qed

lemma verify_audit_ok:
  assumes "verify_audit J A P i = (Inr n, i')"
  shows "\<exists>K. load_audit_keys J P i = (Inr K, i') \<and> verify_audit_chain A (list_audit_events (is_store i)) K = Inr ()
    \<and> verify_audit_checkpoints A (list_audit_events (is_store i)) (list_audit_checkpoints (is_store i')) (trusted_signing_keys (is_store i')) = Inr ()
    \<and> n = length (list_audit_events (is_store i))"
  using assms by (auto simp: verify_audit_def bindh_Inr_iff[of "query_db _ _ _"] bindh_Inr_iff[of "load_audit_keys _ _"] bindh_Inr_iff[of "lifth _"] query_db_ok)

lemma load_audit_keys_ok:
  assumes "keeps_contract P contents" "load_audit_keys J P i = (Inr K, i')" "distinct (map aw_version (t_audit_key_versions (is_store i)))"
  shows "\<exists>p. i' = i\<lparr>is_provider := p\<rparr> \<and> contents p = contents (is_provider i)
    \<and> (\<forall>r\<in>set (t_audit_key_versions (is_store i)). map_of K (aw_version r) = contents (is_provider i) (aw_key_locator r)
         \<and> contents (is_provider i) (aw_key_locator r) \<noteq> None)
    \<and> (\<forall>v. v \<notin> aw_version ` set (t_audit_key_versions (is_store i)) \<longrightarrow> map_of K v = None)"
proof -
  let ?vs = "audit_key_versions (is_store i)"
  have load: "load_keys P ?vs [] i = (Inr K, i')" using assms(2) by (auto simp: load_audit_keys_def bindh_Inr_iff query_db_ok)
  have "map fst ?vs = map aw_version (sort_key (\<lambda>r. unat (aw_version r)) (t_audit_key_versions (is_store i)))"
    by (simp add: audit_key_versions_def)
  then have dist: "distinct (map fst ?vs)" using assms(3) by (simp add: distinct_map)
  have fsts: "fst ` set ?vs = aw_version ` set (t_audit_key_versions (is_store i))" by (simp add: audit_key_versions_set image_image)
  show ?thesis using load_keys_ok[OF assms(1) load dist] by (auto simp: audit_key_versions_set fsts[unfolded audit_key_versions_set])
qed

lemma checkpoint_last_ok:
  assumes "checkpoint_last J A kid k i = (Inr u, i')"
  shows "\<exists>cs. i' = i\<lparr>is_store := (is_store i)\<lparr>t_audit_checkpoints := cs\<rparr>\<rparr> \<and>
    (\<forall>c\<in>set cs. c \<in> set (t_audit_checkpoints (is_store i)) \<or>
      (\<exists>e\<in>set (list_audit_events (is_store i)).
         c = create_audit_checkpoint A (ev_sequence e) (ev_event_hash e) (ev_audit_key_version e) kid k (ri_now J)))"
proof (cases "rev (list_audit_events (is_store i))")
  case Nil
  then have "i' = i" using assms by (auto simp: checkpoint_last_def bindh_Inr_iff query_db_ok)
  then show ?thesis by (intro exI[of _ "t_audit_checkpoints (is_store i)"]) simp
next
  case (Cons e es)
  let ?c = "create_audit_checkpoint A (ev_sequence e) (ev_event_hash e) (ev_audit_key_version e) kid k (ri_now J)"
  have mem: "e \<in> set (list_audit_events (is_store i))" using Cons by (metis list.set_intros(1) set_rev)
  from assms Cons have "i' = i \<or> (\<exists>d. insert_audit_checkpoint (ri_io J 7) ?c (is_store i) = (Inr u, d) \<and> i' = i\<lparr>is_store := d\<rparr>)"
    by (auto simp: checkpoint_last_def Let_def bindh_Inr_iff query_db_ok on_db_ok split: if_split_asm)
  then consider "i' = i" | "i' = i\<lparr>is_store := (is_store i)\<lparr>t_audit_checkpoints := t_audit_checkpoints (is_store i) @ [?c]\<rparr>\<rparr>"
    by (auto simp: insert_audit_checkpoint_def atomically_def stmt_def insert_row_def try_r_def split: option.split_asm sum.split_asm if_split_asm)
  then show ?thesis
  proof cases
    case 1
    then show ?thesis by (intro exI[of _ "t_audit_checkpoints (is_store i)"]) simp
  next
    case 2
    then show ?thesis using mem by (intro exI[of _ "t_audit_checkpoints (is_store i) @ [?c]"]) auto
  qed
qed

lemma verify_auditI:
  assumes "ri_io J = (\<lambda>_ _. None)" "load_audit_keys J P i = (Inr K, i')" "is_store i' = is_store i"
    "verify_audit_chain A (list_audit_events (is_store i)) K = Inr ()"
    "verify_audit_checkpoints A (list_audit_events (is_store i)) (list_audit_checkpoints (is_store i)) (trusted_signing_keys (is_store i)) = Inr ()"
  shows "verify_audit J A P i = (Inr (length (list_audit_events (is_store i))), i')"
  using assms by (simp add: verify_audit_def bindh_def query_db_def stmt_def)

section \<open>Rotation\<close>

lemma keys_rotate_steps:
  assumes "keys_rotate J A P admin_socket i = (Inr u, i')"
  obtains n i1 kid k i2 i3 i4 where "verify_audit J A P i = (Inr n, i1)" "active_signing_key_id (is_store i1) = Some kid"
    "get_secret P SIGNING_KEY_LOCATOR i1 = (Inr k, i2)" "length k = 32" "checkpoint_last J A kid k i2 = (Inr (), i3)"
    "rotate_signing_key J (ae_ed A) P kid (next_version (audit_key_versions (is_store i3))) i3 = (Inr (), i4)"
    "rotate_audit_key J P (next_version (audit_key_versions (is_store i3))) i4 = (Inr (), i')"
  using assms
  by (auto simp: keys_rotate_def bindh_Inr_iff[of "verify_audit _ _ _"] bindh_Inr_iff[of "query_db _ _ _"] bindh_Inr_iff[of "get_secret _ _"]
      bindh_Inr_iff[of "lifth _"] bindh_Inr_iff[of "checkpoint_last _ _ _ _"] bindh_Inr_iff[of "rotate_signing_key _ _ _ _ _"]
      query_db_ok key_pair_ok split: option.split_asm)

lemma rotate_signing_key_ok:
  assumes contract: "keeps_contract P contents" and run: "rotate_signing_key J Ed P (kw_key_id r) nv i = (Inr u, i')"
    and ok: "signing_ok public (t_trusted_signing_keys (is_store i))" "filter active_key (t_trusted_signing_keys (is_store i)) = [r]"
    and fresh: "BROKER_KEY_ID nv \<notin> kw_key_id ` set (t_trusted_signing_keys (is_store i))"
  shows "\<exists>p rows. i' = i\<lparr>is_provider := p, is_broker_key_pub := Some (ed_public Ed (ri_generated_key J)),
        is_store := (is_store i)\<lparr>t_trusted_signing_keys := rows\<rparr>\<rparr>
    \<and> contents p = (contents (is_provider i))(SIGNING_KEY_LOCATOR \<mapsto> ri_generated_key J)
    \<and> signing_ok (ed_public Ed (ri_generated_key J)) rows
    \<and> kw_key_id ` set rows = insert (BROKER_KEY_ID nv) (kw_key_id ` set (t_trusted_signing_keys (is_store i)))
    \<and> trusted_signing_keys (is_store i') = trusted_signing_keys (is_store i) @ [(BROKER_KEY_ID nv, ed_public Ed (ri_generated_key J))]"
proof -
  obtain i1 d1 d2 where st: "store_secret P SIGNING_KEY_LOCATOR (ri_generated_key J) i = (Inr (), i1)"
    and retire: "retire_signing_key (ri_io J 9) (ri_now J) (kw_key_id r) (is_store i1) = (Inr (), d1)"
    and register: "register_signing_key (ri_io J 10) (ri_now J) (BROKER_KEY_ID nv) (ed_public Ed (ri_generated_key J)) ''active'' d1 = (Inr (), d2)"
    and i': "i' = i1\<lparr>is_store := d2, is_broker_key_pub := Some (ed_public Ed (ri_generated_key J))\<rparr>"
    using run by (auto simp: rotate_signing_key_def bindh_Inr_iff on_db_ok write_file_ok)
  obtain p where p: "i1 = i\<lparr>is_provider := p\<rparr>" "contents p = (contents (is_provider i))(SIGNING_KEY_LOCATOR \<mapsto> ri_generated_key J)"
    by (rule store_secret_ok[OF contract st])
  have retire': "retire_signing_key (ri_io J 9) (ri_now J) (kw_key_id r) (is_store i) = (Inr (), d1)" using retire p by simp
  obtain rows where "d2 = (is_store i)\<lparr>t_trusted_signing_keys := rows\<rparr>" "signing_ok (ed_public Ed (ri_generated_key J)) rows"
    "kw_key_id ` set rows = insert (BROKER_KEY_ID nv) (kw_key_id ` set (t_trusted_signing_keys (is_store i)))"
    "trusted_signing_keys d2 = trusted_signing_keys (is_store i) @ [(BROKER_KEY_ID nv, ed_public Ed (ri_generated_key J))]"
    using signing_rotated[OF ok fresh retire' register] by blast
  then show ?thesis using p i' by (intro exI[of _ p] exI[of _ rows]) simp
qed

lemma rotate_audit_key_ok:
  assumes contract: "keeps_contract P contents" and run: "rotate_audit_key J P nv i = (Inr u, i')"
    and ok: "audit_keys_ok (contents (is_provider i)) (t_audit_key_versions (is_store i))"
    and fresh: "nv \<notin> aw_version ` set (t_audit_key_versions (is_store i))"
  shows "\<exists>p rows. i' = i\<lparr>is_provider := p, is_store := (is_store i)\<lparr>t_audit_key_versions := rows\<rparr>\<rparr>
    \<and> contents p = (contents (is_provider i))(AUDIT_KEY_LOCATOR nv \<mapsto> ri_random J)
    \<and> active_audit_key_version (is_store i') = Some (nv, AUDIT_KEY_LOCATOR nv)
    \<and> audit_keys_ok (contents p) rows \<and> aw_version ` set rows = insert nv (aw_version ` set (t_audit_key_versions (is_store i)))"
proof -
  obtain r where r: "filter active_audit_key (t_audit_key_versions (is_store i)) = [r]" using ok by (auto simp: audit_keys_ok_def)
  obtain i1 d1 d2 where st: "store_secret P (AUDIT_KEY_LOCATOR nv) (ri_random J) i = (Inr (), i1)"
    and retire: "retire_audit_key_version (ri_io J 12) (ri_now J) (aw_version r) (is_store i1) = (Inr (), d1)"
    and register: "register_audit_key_version (ri_io J 13) (ri_now J) nv (AUDIT_KEY_LOCATOR nv) ''active'' d1 = (Inr (), d2)"
    and i': "i' = i1\<lparr>is_store := d2\<rparr>"
    using run active_audit_key_version_ok[OF r] by (auto simp: rotate_audit_key_def bindh_Inr_iff on_db_ok query_db_ok)
  obtain p where p: "i1 = i\<lparr>is_provider := p\<rparr>" "contents p = (contents (is_provider i))(AUDIT_KEY_LOCATOR nv \<mapsto> ri_random J)"
    by (rule store_secret_ok[OF contract st])
  have retire': "retire_audit_key_version (ri_io J 12) (ri_now J) (aw_version r) (is_store i) = (Inr (), d1)" using retire p by simp
  have kept: "contents p (AUDIT_KEY_LOCATOR v) = contents (is_provider i) (AUDIT_KEY_LOCATOR v)"
    if "v \<in> aw_version ` set (t_audit_key_versions (is_store i))" for v using that fresh p(2) by auto
  have "contents p (AUDIT_KEY_LOCATOR nv) \<noteq> None" using p(2) by simp
  then obtain rows where "d2 = (is_store i)\<lparr>t_audit_key_versions := rows\<rparr>" "audit_keys_ok (contents p) rows"
    "active_audit_key_version d2 = Some (nv, AUDIT_KEY_LOCATOR nv)"
    "aw_version ` set rows = insert nv (aw_version ` set (t_audit_key_versions (is_store i)))"
    using audit_rotated[OF ok r fresh retire' register kept] by blast
  then show ?thesis using p i' by (intro exI[of _ p] exI[of _ rows]) simp
qed

lemma find_event:
  assumes "verify_audit_chain A xs K = Inr ()" "length xs < 2 ^ 64" "e \<in> set xs"
  shows "find (\<lambda>x. ev_sequence x = ev_sequence e) xs = Some e"
proof -
  obtain j where j: "j < length xs" "xs ! j = e" using assms(3) by (auto simp: in_set_conv_nth)
  obtain e' where e': "find (\<lambda>x. ev_sequence x = ev_sequence e) xs = Some e'"
    using assms(3) by (cases "find (\<lambda>x. ev_sequence x = ev_sequence e) xs") (auto simp: find_None_iff)
  have "ev_sequence e = of_nat (j + 1)" using chain_sequence[OF assms(1) j(1)] j(2) by simp
  moreover have "j + 1 < 2 ^ 64" using j(1) assms(2) by simp
  ultimately have "unat (ev_sequence e) = j + 1" by (simp only: unsigned_of_nat take_bit_eq_mod) simp
  then show ?thesis using find_sequence[OF assms(1,2) e'] e' j(2) by simp
qed

lemma created_checkpoint_verifies:
  assumes "ed25519_laws (ae_ed A)" "verify_audit_chain A xs K = Inr ()" "length xs < 2 ^ 64" "e \<in> set xs"
    "map_of sk kid = Some (ed_public (ae_ed A) k)"
    "c = create_audit_checkpoint A (ev_sequence e) (ev_event_hash e) (ev_audit_key_version e) kid k t"
  shows "verify_audit_checkpoints A xs [c] sk = Inr ()"
proof -
  have parts: "ck_sequence c = ev_sequence e" "ck_event_hash c = ev_event_hash e" "ck_audit_key_version c = ev_audit_key_version e" "ck_signing_key_id c = kid"
    by (simp_all add: assms(6) create_audit_checkpoint_def Let_def)
  show ?thesis using find_event[OF assms(2-4)] checkpoint_signed[OF assms(1,6)] assms(5) by (simp add: parts)
qed

text \<open>What a rotation leaves: the same log, one more signing and audit key, and at most one more checkpoint, of the last event.\<close>

lemma keys_rotate_result:
  assumes contract: "keeps_contract P contents" and ok: "installation_consistent (ae_ed A) contents i"
    and room: "\<forall>r\<in>set (t_audit_key_versions (is_store i)). aw_version r < 0xFFFFFFFF"
    and key: "length (ri_generated_key J) = 32" and run: "keys_rotate J A P admin_socket i = (Inr u, i')"
  obtains n i1 k kid cs nv where
    "verify_audit J A P i = (Inr n, i1)" "is_store i1 = is_store i" "contents (is_provider i) SIGNING_KEY_LOCATOR = Some k"
    "map_of (trusted_signing_keys (is_store i)) kid = Some (ed_public (ae_ed A) k)"
    "\<forall>c\<in>set cs. c \<in> set (t_audit_checkpoints (is_store i)) \<or>
      (\<exists>e\<in>set (list_audit_events (is_store i)).
         c = create_audit_checkpoint A (ev_sequence e) (ev_event_hash e) (ev_audit_key_version e) kid k (ri_now J))"
    "t_audit_events (is_store i') = t_audit_events (is_store i)" "t_audit_checkpoints (is_store i') = cs"
    "trusted_signing_keys (is_store i') = trusted_signing_keys (is_store i) @ [(BROKER_KEY_ID nv, ed_public (ae_ed A) (ri_generated_key J))]"
    "contents (is_provider i') = (contents (is_provider i))(SIGNING_KEY_LOCATOR \<mapsto> ri_generated_key J, AUDIT_KEY_LOCATOR nv \<mapsto> ri_random J)"
    "nv \<notin> aw_version ` set (t_audit_key_versions (is_store i))"
    "aw_version ` set (t_audit_key_versions (is_store i')) = insert nv (aw_version ` set (t_audit_key_versions (is_store i)))"
    "active_audit_key_version (is_store i') = Some (nv, AUDIT_KEY_LOCATOR nv)" "installation_consistent (ae_ed A) contents i'"
proof -
  let ?d = "is_store i" and ?Ed = "ae_ed A" and ?g = "ri_generated_key J"
  obtain n i1 kid k i2 i3 i4 where st: "verify_audit J A P i = (Inr n, i1)" "active_signing_key_id (is_store i1) = Some kid"
    "get_secret P SIGNING_KEY_LOCATOR i1 = (Inr k, i2)" "length k = 32" "checkpoint_last J A kid k i2 = (Inr (), i3)"
    "rotate_signing_key J ?Ed P kid (next_version (audit_key_versions (is_store i3))) i3 = (Inr (), i4)"
    "rotate_audit_key J P (next_version (audit_key_versions (is_store i3))) i4 = (Inr (), i')"
    by (rule keys_rotate_steps[OF run])
  let ?nv = "next_version (audit_key_versions (is_store i3))"
  from ok obtain k0 r0 where c: "contents (is_provider i) SIGNING_KEY_LOCATOR = Some k0" "length k0 = 32"
    "signing_ok (ed_public ?Ed k0) (t_trusted_signing_keys ?d)" "filter active_key (t_trusted_signing_keys ?d) = [r0]"
    "kw_public_key r0 = ed_public ?Ed k0" "audit_keys_ok (contents (is_provider i)) (t_audit_key_versions ?d)"
    "\<forall>r\<in>set (t_trusted_signing_keys ?d). \<exists>a\<in>set (t_audit_key_versions ?d). kw_key_id r = BROKER_KEY_ID (aw_version a)"
    by (auto simp: installation_consistent_def keys_consistent_def signing_ok_def)
  have dist: "distinct (map aw_version (t_audit_key_versions ?d))" using c(6) by (simp add: audit_keys_ok_def)
  obtain K where "load_audit_keys J P i = (Inr K, i1)" using verify_audit_ok[OF st(1)] by blast
  then obtain p1 where i1: "i1 = i\<lparr>is_provider := p1\<rparr>" "contents p1 = contents (is_provider i)"
    using load_audit_keys_ok[OF contract _ dist] by blast
  obtain p2 where i2: "i2 = i1\<lparr>is_provider := p2\<rparr>" "contents p2 = contents (is_provider i1)" "contents (is_provider i1) SIGNING_KEY_LOCATOR = Some k"
    by (rule get_secret_ok[OF contract st(3)])
  have kid: "kid = kw_key_id r0" using active_signing_key_id_ok[OF c(4)] st(2) i1 by simp
  have k: "k = k0" using i2 i1 c(1) by simp
  have r0: "r0 \<in> set (t_trusted_signing_keys ?d)" using arg_cong[OF c(4), of set] by auto
  obtain cs where i3: "i3 = i2\<lparr>is_store := (is_store i2)\<lparr>t_audit_checkpoints := cs\<rparr>\<rparr>"
    and cs: "\<forall>c\<in>set cs. c \<in> set (t_audit_checkpoints (is_store i2)) \<or> (\<exists>e\<in>set (list_audit_events (is_store i2)).
      c = create_audit_checkpoint A (ev_sequence e) (ev_event_hash e) (ev_audit_key_version e) kid k (ri_now J))"
    using checkpoint_last_ok[OF st(5)] by blast
  have "\<forall>x\<in>set (audit_key_versions (is_store i3)). fst x < 0xFFFFFFFF"
    using room by (auto simp: audit_key_versions_set i3 i2 i1)
  from next_version_fresh[OF this] have fresh: "?nv \<notin> aw_version ` set (t_audit_key_versions ?d)"
    by (simp add: audit_key_versions_set image_image i3 i2 i1)
  then have fresh': "BROKER_KEY_ID ?nv \<notin> kw_key_id ` set (t_trusted_signing_keys ?d)" using c(7) by force
  have rows3: "t_trusted_signing_keys (is_store i3) = t_trusted_signing_keys ?d" "t_audit_key_versions (is_store i3) = t_audit_key_versions ?d"
    by (simp_all add: i3 i2 i1)
  obtain p4 rows where i4: "i4 = i3\<lparr>is_provider := p4, is_broker_key_pub := Some (ed_public ?Ed ?g), is_store := (is_store i3)\<lparr>t_trusted_signing_keys := rows\<rparr>\<rparr>"
    "contents p4 = (contents (is_provider i3))(SIGNING_KEY_LOCATOR \<mapsto> ?g)" "signing_ok (ed_public ?Ed ?g) rows"
    "kw_key_id ` set rows = insert (BROKER_KEY_ID ?nv) (kw_key_id ` set (t_trusted_signing_keys ?d))"
    "trusted_signing_keys (is_store i4) = trusted_signing_keys (is_store i3) @ [(BROKER_KEY_ID ?nv, ed_public ?Ed ?g)]"
    using rotate_signing_key_ok[OF contract st(6)[unfolded kid], unfolded rows3, OF c(3,4) fresh'] by blast
  have rows4: "t_audit_key_versions (is_store i4) = t_audit_key_versions ?d" by (simp add: i4 rows3)
  have aok: "audit_keys_ok (contents (is_provider i4)) (t_audit_key_versions (is_store i4))"
    using c(6) by (auto simp: i4 i3 i2 i1 audit_keys_ok_def)
  obtain p5 arows where i5: "i' = i4\<lparr>is_provider := p5, is_store := (is_store i4)\<lparr>t_audit_key_versions := arows\<rparr>\<rparr>"
    "contents p5 = (contents (is_provider i4))(AUDIT_KEY_LOCATOR ?nv \<mapsto> ri_random J)" "audit_keys_ok (contents p5) arows"
    "aw_version ` set arows = insert ?nv (aw_version ` set (t_audit_key_versions ?d))"
    "active_audit_key_version (is_store i') = Some (?nv, AUDIT_KEY_LOCATOR ?nv)"
    using rotate_audit_key_ok[OF contract st(7) aok] fresh unfolding rows4 by blast
  have "\<forall>r\<in>set rows. \<exists>a\<in>set arows. kw_key_id r = BROKER_KEY_ID (aw_version a)"
  proof
    fix r assume "r \<in> set rows"
    then have "kw_key_id r \<in> insert (BROKER_KEY_ID ?nv) (kw_key_id ` set (t_trusted_signing_keys ?d))" using i4(4) by blast
    then obtain v where "kw_key_id r = BROKER_KEY_ID v" "v \<in> insert ?nv (aw_version ` set (t_audit_key_versions ?d))" using c(7) by fastforce
    then show "\<exists>a\<in>set arows. kw_key_id r = BROKER_KEY_ID (aw_version a)" using i5(4) by (metis imageE)
  qed
  then have "installation_consistent ?Ed contents i'"
    using i4(3) i5(3) key by (auto simp: installation_consistent_def keys_consistent_def i5 i4)
  moreover have "map_of (trusted_signing_keys ?d) kid = Some (ed_public ?Ed k)" using trusted_ok[OF c(3) r0] by (simp add: kid k c(5))
  moreover have "trusted_signing_keys (is_store i') = trusted_signing_keys ?d @ [(BROKER_KEY_ID ?nv, ed_public ?Ed ?g)]"
    using i4(5) by (simp add: i5(1) i3 i2 i1 trusted_signing_keys_def)
  moreover have "contents (is_provider i') = (contents (is_provider i))(SIGNING_KEY_LOCATOR \<mapsto> ?g, AUDIT_KEY_LOCATOR ?nv \<mapsto> ri_random J)"
    by (simp add: i5(1,2) i4(1,2) i3 i2 i1)
  ultimately show thesis
    using that[of n i1 k kid cs ?nv] st(1) c(1) k cs fresh i5(4,5) by (simp add: i5(1) i4(1) i3 i2(1) i1(1))
qed

lemma rotated_log_verifies:
  assumes contract: "keeps_contract P contents" and laws: "ed25519_laws (ae_ed A)" and ok: "installation_consistent (ae_ed A) contents i"
    and room: "\<forall>r\<in>set (t_audit_key_versions (is_store i)). aw_version r < 0xFFFFFFFF" "length (t_audit_events (is_store i)) < 2 ^ 64"
    and key: "length (ri_generated_key J) = 32" and run: "keys_rotate J A P admin_socket i = (Inr u, i')"
    and quiet: "ri_io J' = (\<lambda>_ _. None)" and load: "load_audit_keys J' P i' = (Inr K', i'')"
  shows "verify_audit J' A P i' = (Inr (length (t_audit_events (is_store i))), i'')"
proof -
  obtain n i1 k kid cs nv where r: "verify_audit J A P i = (Inr n, i1)" "is_store i1 = is_store i"
    "map_of (trusted_signing_keys (is_store i)) kid = Some (ed_public (ae_ed A) k)"
    "\<forall>c\<in>set cs. c \<in> set (t_audit_checkpoints (is_store i)) \<or> (\<exists>e\<in>set (list_audit_events (is_store i)).
         c = create_audit_checkpoint A (ev_sequence e) (ev_event_hash e) (ev_audit_key_version e) kid k (ri_now J))"
    "t_audit_events (is_store i') = t_audit_events (is_store i)" "t_audit_checkpoints (is_store i') = cs"
    "trusted_signing_keys (is_store i') = trusted_signing_keys (is_store i) @ [(BROKER_KEY_ID nv, ed_public (ae_ed A) (ri_generated_key J))]"
    "contents (is_provider i') = (contents (is_provider i))(SIGNING_KEY_LOCATOR \<mapsto> ri_generated_key J, AUDIT_KEY_LOCATOR nv \<mapsto> ri_random J)"
    "nv \<notin> aw_version ` set (t_audit_key_versions (is_store i))"
    "aw_version ` set (t_audit_key_versions (is_store i')) = insert nv (aw_version ` set (t_audit_key_versions (is_store i)))"
    "installation_consistent (ae_ed A) contents i'"
    by (rule keys_rotate_result[OF contract ok room(1) key run])
  let ?es = "list_audit_events (is_store i)"
  have es: "list_audit_events (is_store i') = ?es" by (simp add: list_audit_events_def r(5))
  obtain K where K: "load_audit_keys J P i = (Inr K, i1)" "verify_audit_chain A ?es K = Inr ()"
    "verify_audit_checkpoints A ?es (list_audit_checkpoints (is_store i)) (trusted_signing_keys (is_store i)) = Inr ()"
    using verify_audit_ok[OF r(1)] r(2) by auto
  have a: "audit_keys_ok (contents (is_provider i)) (t_audit_key_versions (is_store i))"
    "audit_keys_ok (contents (is_provider i')) (t_audit_key_versions (is_store i'))"
    using ok r(11) by (auto simp: installation_consistent_def keys_consistent_def)
  have old: "\<forall>x\<in>set (t_audit_key_versions (is_store i)). map_of K (aw_version x) = contents (is_provider i) (AUDIT_KEY_LOCATOR (aw_version x))"
    "\<forall>v. v \<notin> aw_version ` set (t_audit_key_versions (is_store i)) \<longrightarrow> map_of K v = None"
    using load_audit_keys_ok[OF contract K(1)] a(1) by (auto simp: audit_keys_ok_def)
  obtain p where p: "i'' = i'\<lparr>is_provider := p\<rparr>"
    and new: "\<forall>x\<in>set (t_audit_key_versions (is_store i')). map_of K' (aw_version x) = contents (is_provider i') (AUDIT_KEY_LOCATOR (aw_version x))"
    using load_audit_keys_ok[OF contract load] a(2) by (auto simp: audit_keys_ok_def)
  have more: "map_of K' v = Some x" if "map_of K v = Some x" for v x
  proof -
    have v: "v \<in> aw_version ` set (t_audit_key_versions (is_store i))" using old(2) that by force
    then have was: "contents (is_provider i) (AUDIT_KEY_LOCATOR v) = Some x" using old(1) that by auto
    have "v \<in> aw_version ` set (t_audit_key_versions (is_store i'))" using v by (simp add: r(10))
    then have "map_of K' v = contents (is_provider i') (AUDIT_KEY_LOCATOR v)" using new by auto
    then show ?thesis using was v r(9) by (auto simp: r(8))
  qed
  have chain: "verify_audit_chain A ?es K' = Inr ()"
    using K(2) verify_from_more_keys[of K K' A] more by (simp add: verify_audit_chain_def)
  have len: "length ?es < 2 ^ 64" using room(2) by (simp add: list_audit_events_def)
  let ?sk = "trusted_signing_keys (is_store i)"
  have sk: "map_of (trusted_signing_keys (is_store i')) v = Some x" if "map_of ?sk v = Some x" for v x
    using that by (simp add: r(7) map_add_def)
  have "verify_audit_checkpoints A ?es [c] (trusted_signing_keys (is_store i')) = Inr ()" if "c \<in> set cs" for c
  proof -
    from r(4) that consider "c \<in> set (t_audit_checkpoints (is_store i))"
      | e where "e \<in> set ?es" "c = create_audit_checkpoint A (ev_sequence e) (ev_event_hash e) (ev_audit_key_version e) kid k (ri_now J)" by blast
    then show ?thesis
    proof cases
      case 1
      then have "verify_audit_checkpoints A ?es [c] ?sk = Inr ()" using K(3) checkpoints_iff[of A ?es _ ?sk] by (auto simp: list_audit_checkpoints_def)
      then show ?thesis using checkpoint_more_keys[of ?sk] sk by blast
    next
      case 2
      then show ?thesis using created_checkpoint_verifies[OF laws K(2) len _ sk[OF r(3)]] by blast
    qed
  qed
  then have "verify_audit_checkpoints A ?es (list_audit_checkpoints (is_store i')) (trusted_signing_keys (is_store i')) = Inr ()"
    by (subst checkpoints_iff) (simp add: list_audit_checkpoints_def r(6))
  then show ?thesis using verify_auditI[OF quiet load] chain p es by (simp add: list_audit_events_def r(5))
qed

section \<open>Init\<close>

lemma bindh_exists_Inr_iff:
  "bindh (exists_secret P l) f i = (Inr x, i') \<longleftrightarrow> (\<exists>b. exists_secret P l i = (Inr b, i) \<and> f b i = (Inr x, i'))"
  by (auto simp: bindh_Inr_iff exists_secret_def)

lemma init_signing_key_ok:
  assumes "keeps_contract P contents" "init_signing_key J P i = (Inr k, i')" "length (ri_generated_key J) = 32"
  shows "\<exists>p. i' = i\<lparr>is_provider := p\<rparr> \<and> length k = 32 \<and> contents p = (contents (is_provider i))(SIGNING_KEY_LOCATOR \<mapsto> k)
    \<and> (\<forall>k'. contents (is_provider i) SIGNING_KEY_LOCATOR = Some k' \<longrightarrow> k = k')"
proof -
  obtain there where there: "exists_secret P SIGNING_KEY_LOCATOR i = (Inr there, i)"
    and run: "(if there then bindh (get_secret P SIGNING_KEY_LOCATOR) (\<lambda>bytes. lifth (key_pair bytes))
    else bindh (store_secret P SIGNING_KEY_LOCATOR (ri_generated_key J)) (\<lambda>_. returnh (ri_generated_key J))) i = (Inr k, i')"
    using assms(2) by (auto simp: init_signing_key_def bindh_exists_Inr_iff)
  show ?thesis
  proof (cases there)
    case True
    then have got: "get_secret P SIGNING_KEY_LOCATOR i = (Inr k, i')" "length k = 32"
      using run by (auto simp: bindh_Inr_iff key_pair_ok)
    obtain p where "i' = i\<lparr>is_provider := p\<rparr>" "contents p = contents (is_provider i)" "contents (is_provider i) SIGNING_KEY_LOCATOR = Some k"
      by (rule get_secret_ok[OF assms(1) got(1)])
    then show ?thesis using got(2) by (intro exI[of _ p]) (simp add: fun_upd_idem)
  next
    case False
    then have put: "store_secret P SIGNING_KEY_LOCATOR (ri_generated_key J) i = (Inr (), i')" "k = ri_generated_key J"
      using run by (auto simp: bindh_Inr_iff)
    obtain p where "i' = i\<lparr>is_provider := p\<rparr>" "contents p = (contents (is_provider i))(SIGNING_KEY_LOCATOR \<mapsto> ri_generated_key J)"
      by (rule store_secret_ok[OF assms(1) put(1)])
    moreover have "contents (is_provider i) SIGNING_KEY_LOCATOR = None" using exists_secret_ok[OF assms(1) there] False by simp
    ultimately show ?thesis using assms(3) put(2) by (intro exI[of _ p]) simp
  qed
qed

lemma register_first_key_ok:
  assumes "register_first_key J Ed k i = (Inr u, i')"
  obtains d where "i' = i\<lparr>is_store := d\<rparr>"
    "if active_signing_key_id (is_store i) = None
     then register_signing_key (ri_io J 2) (ri_now J) (BROKER_KEY_ID 1) (ed_public Ed k) ''active'' (is_store i) = (Inr (), d)
     else d = is_store i"
  using assms that[of "is_store i"] by (auto simp: register_first_key_def bindh_Inr_iff query_db_ok on_db_ok split: if_split_asm)

lemma register_first_audit_key_ok:
  assumes "register_first_audit_key J i = (Inr u, i')"
  obtains d where "i' = i\<lparr>is_store := d\<rparr>"
    "if active_audit_key_version (is_store i) = None
     then register_audit_key_version (ri_io J 4) (ri_now J) 1 (AUDIT_KEY_LOCATOR 1) ''active'' (is_store i) = (Inr (), d)
     else d = is_store i"
  using assms that[of "is_store i"] by (auto simp: register_first_audit_key_def bindh_Inr_iff query_db_ok on_db_ok split: if_split_asm)

lemma init_consistent:
  assumes contract: "keeps_contract P contents" and key: "length (ri_generated_key J) = 32" and run: "init J P Ed default_policy i = (Inr u, i')"
    and start: "t_trusted_signing_keys (is_store i) = [] \<and> t_audit_key_versions (is_store i) = [] \<or> installation_consistent Ed contents i"
  shows "installation_consistent Ed contents i'
    \<and> (\<forall>k. contents (is_provider i) SIGNING_KEY_LOCATOR = Some k \<longrightarrow> contents (is_provider i') SIGNING_KEY_LOCATOR = Some k)"
proof -
  obtain i0 y where i0: "i0 = i\<lparr>is_policy_yaml := y\<rparr>"
    and rest: "bindh (init_signing_key J P) (\<lambda>signing_key.
      bindh (register_first_key J Ed signing_key) (\<lambda>_.
      bindh (write_file J 2 (\<lambda>i. i\<lparr>is_broker_key_pub := Some (ed_public Ed signing_key)\<rparr>)) (\<lambda>_.
      bindh (exists_secret P (AUDIT_KEY_LOCATOR 1)) (\<lambda>there.
      bindh (if there then returnh () else store_secret P (AUDIT_KEY_LOCATOR 1) (ri_random J)) (\<lambda>_.
      register_first_audit_key J))))) i0 = (Inr u, i')"
  proof (cases "is_policy_yaml i")
    case None
    then show thesis using run that
      by (auto simp: init_def bindh_Inr_iff[of "write_file _ _ _"] bindh_Inr_iff[of "query_db _ _ _"] bindh_Inr_iff[of "bindh _ _"]
          bindh_Inr_iff[of "lifth _"] write_file_ok query_db_ok)
  next
    case (Some y0)
    then show thesis using run that[of i "Some y0"]
      by (auto simp: init_def bindh_Inr_iff[of "write_file _ _ _"] bindh_Inr_iff[of "query_db _ _ _"] write_file_ok query_db_ok)
  qed
  obtain k i1 i2 there i4 where st: "init_signing_key J P i0 = (Inr k, i1)" "register_first_key J Ed k i1 = (Inr (), i2)"
    "exists_secret P (AUDIT_KEY_LOCATOR 1) (i2\<lparr>is_broker_key_pub := Some (ed_public Ed k)\<rparr>) = (Inr there, i2\<lparr>is_broker_key_pub := Some (ed_public Ed k)\<rparr>)"
    "(if there then returnh () else store_secret P (AUDIT_KEY_LOCATOR 1) (ri_random J)) (i2\<lparr>is_broker_key_pub := Some (ed_public Ed k)\<rparr>) = (Inr (), i4)"
    "register_first_audit_key J i4 = (Inr u, i')"
    using rest by (auto simp: bindh_Inr_iff[of "init_signing_key _ _"] bindh_Inr_iff[of "register_first_key _ _ _"] bindh_Inr_iff[of "write_file _ _ _"]
        bindh_exists_Inr_iff bindh_Inr_iff[of "if _ then _ else _"] write_file_ok)
  obtain p1 where i1: "i1 = i0\<lparr>is_provider := p1\<rparr>" "length k = 32" "contents p1 = (contents (is_provider i))(SIGNING_KEY_LOCATOR \<mapsto> k)"
    "\<forall>k'. contents (is_provider i) SIGNING_KEY_LOCATOR = Some k' \<longrightarrow> k = k'"
    using init_signing_key_ok[OF contract st(1) key] i0 by auto
  obtain d1 where i2: "i2 = i1\<lparr>is_store := d1\<rparr>" and d1: "if active_signing_key_id (is_store i1) = None
     then register_signing_key (ri_io J 2) (ri_now J) (BROKER_KEY_ID 1) (ed_public Ed k) ''active'' (is_store i1) = (Inr (), d1) else d1 = is_store i1"
    by (rule register_first_key_ok[OF st(2)])
  obtain p4 where i4: "i4 = i2\<lparr>is_broker_key_pub := Some (ed_public Ed k), is_provider := p4\<rparr>" "contents p4 (AUDIT_KEY_LOCATOR 1) \<noteq> None"
    "contents p4 = contents p1 \<or> contents p1 (AUDIT_KEY_LOCATOR 1) = None \<and> contents p4 = (contents p1)(AUDIT_KEY_LOCATOR 1 \<mapsto> ri_random J)"
  proof (cases there)
    case True
    then have same: "i4 = i2\<lparr>is_broker_key_pub := Some (ed_public Ed k)\<rparr>" using st(4) by simp
    have there1: "contents p1 (AUDIT_KEY_LOCATOR 1) \<noteq> None" using exists_secret_ok[OF contract st(3)] True by (simp add: i2 i1(1))
    show thesis by (rule that[of p1]) (use there1 in \<open>simp_all add: same i2 i1(1)\<close>)
  next
    case False
    then have put: "store_secret P (AUDIT_KEY_LOCATOR 1) (ri_random J) (i2\<lparr>is_broker_key_pub := Some (ed_public Ed k)\<rparr>) = (Inr (), i4)" using st(4) by simp
    obtain p where "i4 = (i2\<lparr>is_broker_key_pub := Some (ed_public Ed k)\<rparr>)\<lparr>is_provider := p\<rparr>"
      "contents p = (contents (is_provider (i2\<lparr>is_broker_key_pub := Some (ed_public Ed k)\<rparr>)))(AUDIT_KEY_LOCATOR 1 \<mapsto> ri_random J)"
      by (rule store_secret_ok[OF contract put])
    then show thesis using exists_secret_ok[OF contract st(3)] False by (intro that[of p]) (simp_all add: i2 i1)
  qed
  obtain d2 where i5: "i' = i4\<lparr>is_store := d2\<rparr>" and d2: "if active_audit_key_version (is_store i4) = None
     then register_audit_key_version (ri_io J 4) (ri_now J) 1 (AUDIT_KEY_LOCATOR 1) ''active'' (is_store i4) = (Inr (), d2) else d2 = is_store i4"
    by (rule register_first_audit_key_ok[OF st(5)])
  have signing: "contents p4 SIGNING_KEY_LOCATOR = Some k" using i4(3) i1(3) by auto
  have kept: "contents p4 l \<noteq> None" if "contents (is_provider i) l \<noteq> None" for l using i4(3) i1(3) that by auto
  have "keys_consistent Ed (contents p4) (Some (ed_public Ed k)) d2"
  proof (cases "installation_consistent Ed contents i")
    case True
    then obtain k0 where c: "contents (is_provider i) SIGNING_KEY_LOCATOR = Some k0" "signing_ok (ed_public Ed k0) (t_trusted_signing_keys (is_store i))"
      "audit_keys_ok (contents (is_provider i)) (t_audit_key_versions (is_store i))"
      "\<forall>r\<in>set (t_trusted_signing_keys (is_store i)). \<exists>a\<in>set (t_audit_key_versions (is_store i)). kw_key_id r = BROKER_KEY_ID (aw_version a)"
      by (auto simp: installation_consistent_def keys_consistent_def)
    obtain r a where active: "filter active_key (t_trusted_signing_keys (is_store i)) = [r]"
      "filter active_audit_key (t_audit_key_versions (is_store i)) = [a]" using c(2,3) by (auto simp: signing_ok_def audit_keys_ok_def)
    have "d1 = is_store i" using d1 active_signing_key_id_ok[OF active(1)] by (simp add: i1 i0)
    moreover have "d2 = d1" using d2 active_audit_key_version_ok[OF active(2)] calculation by (simp add: i4 i2)
    ultimately show ?thesis using c i1(2,4) signing kept by (auto simp: keys_consistent_def audit_keys_ok_def)
  next
    case False
    then have none: "t_trusted_signing_keys (is_store i) = []" "t_audit_key_versions (is_store i) = []" using start by auto
    let ?row = "\<lparr>kw_key_id = BROKER_KEY_ID 1, kw_public_key = ed_public Ed k, kw_state = ''active'', kw_created_at = ri_now J, kw_retired_at = None\<rparr>"
    let ?arow = "\<lparr>aw_version = 1, aw_key_locator = AUDIT_KEY_LOCATOR 1, aw_state = ''active'', aw_created_at = ri_now J, aw_retired_at = None\<rparr>"
    have "active_signing_key_id (is_store i) = None" by (simp add: active_signing_key_id_def none)
    then have d1': "d1 = (is_store i)\<lparr>t_trusted_signing_keys := [?row]\<rparr>"
      using d1 by (auto simp: i1 i0 register_signing_key_def atomically_def stmt_def none split: option.split_asm)
    then have "active_audit_key_version d1 = None" by (simp add: active_audit_key_version_def audit_key_versions_def none)
    then have "d2 = d1\<lparr>t_audit_key_versions := [?arow]\<rparr>"
      using d2 by (auto simp: i4 i2 register_audit_key_version_def atomically_def stmt_def none d1' split: option.split_asm)
    then show ?thesis using d1' i1(2) i4(2) signing
      by (simp add: keys_consistent_def signing_ok_def audit_keys_ok_def active_key_def active_audit_key_def)
  qed
  then show ?thesis using i1(4) signing by (simp add: installation_consistent_def i5 i4 i2)
qed

section \<open>The start of the daemon\<close>

lemma load_recipe_ok:
  "load_recipe R h f = Inr r \<Longrightarrow> valid_field_count r \<and> valid_fields r \<and> valid_path_prefix r"
  by (cases f) (auto simp: load_recipe_def try_r_Inr_iff valid_field_count_def valid_fields_def valid_path_prefix_def split: if_split_asm)

lemma set_update_subset: "set (AList.update k v xs) \<subseteq> insert (k, v) (set xs)"
  by (induction xs) auto

lemma load_recipes_ok:
  "load_recipes R h fs b = Inr b' \<Longrightarrow>
    list_all (\<lambda>(_, r). valid_field_count r \<and> valid_fields r \<and> valid_path_prefix r) (b_recipes b) \<Longrightarrow>
    \<exists>rs. b' = b\<lparr>b_recipes := rs\<rparr> \<and> list_all (\<lambda>(_, r). valid_field_count r \<and> valid_fields r \<and> valid_path_prefix r) rs"
proof (induction fs arbitrary: b)
  case Nil
  then show ?case by (auto intro: exI[of _ "b_recipes b'"])
next
  case (Cons f fs)
  obtain r where r: "load_recipe R h f = Inr r" "load_recipes R h fs (register_recipe r b) = Inr b'"
    using Cons.prems(1) by (auto simp: try_r_Inr_iff)
  have "list_all (\<lambda>(_, r). valid_field_count r \<and> valid_fields r \<and> valid_path_prefix r) (b_recipes (register_recipe r b))"
    using Cons.prems(2) load_recipe_ok[OF r(1)] set_update_subset[of "sr_recipe_id r" r "b_recipes b"]
    by (fastforce simp: register_recipe_def list_all_iff)
  from Cons.IH[OF r(2) this] show ?case by (auto simp: register_recipe_def)
qed

lemma daemon_key_ok:
  assumes "keeps_contract P contents" "daemon_key J Ed P i = (Inr key, i')"
    "contents (is_provider i) SIGNING_KEY_LOCATOR = Some k" "is_ok (pf_exists P (is_provider i) SIGNING_KEY_LOCATOR)"
  shows "key = k \<and> (\<exists>p. i' = i\<lparr>is_provider := p\<rparr> \<and> contents p = contents (is_provider i))"
proof -
  have "pf_exists P (is_provider i) SIGNING_KEY_LOCATOR = Inr True"
    using assms(3,4) exists_secret_ok[OF assms(1), of SIGNING_KEY_LOCATOR i]
    by (cases "pf_exists P (is_provider i) SIGNING_KEY_LOCATOR") (auto simp: exists_secret_def)
  then have got: "get_secret P SIGNING_KEY_LOCATOR i = (Inr key, i')"
    using assms(2) by (auto simp: daemon_key_def bindh_Inr_iff key_pair_ok)
  show ?thesis by (rule get_secret_ok[OF assms(1) got]) (use assms(3) in auto)
qed

lemma daemon_signing_key_id_ok:
  "active_signing_key_id (is_store i) = Some kid \<Longrightarrow> daemon_signing_key_id J Ed key i = (Inr x, i') \<Longrightarrow> x = kid \<and> i' = i"
  by (auto simp: daemon_signing_key_id_def bindh_Inr_iff query_db_ok Let_def unwrap_or_def)

lemma daemon_audit_key_ok:
  assumes "keeps_contract P contents" "active_audit_key_version (is_store i) = Some (v, l)" "contents (is_provider i) l = Some a"
    "daemon_audit_key J P i = (Inr x, i')"
  shows "x = (v, a) \<and> (\<exists>p. i' = i\<lparr>is_provider := p\<rparr> \<and> contents p = contents (is_provider i))"
proof -
  obtain there where there: "exists_secret P l i = (Inr there, i)"
    and run: "bindh (if there then get_secret P l else bindh (store_secret P l (ri_random J)) (\<lambda>_. returnh (ri_random J))) (\<lambda>audit_key.
    bindh (query_db J 5 active_audit_key_version) (\<lambda>active'.
    bindh (if active' = None then on_db (register_audit_key_version (ri_io J 6) (ri_now J) v l ''active'') else returnh ()) (\<lambda>_.
    returnh (v, audit_key)))) i = (Inr x, i')"
    using assms(4) by (auto simp: daemon_audit_key_def assms(2) bindh_Inr_iff[of "query_db _ _ _"] query_db_ok unwrap_or_def bindh_exists_Inr_iff)
  have "there" using exists_secret_ok[OF assms(1) there] assms(3) by simp
  then obtain a' i1 where got: "get_secret P l i = (Inr a', i1)"
    and rest: "bindh (query_db J 5 active_audit_key_version) (\<lambda>active'.
    bindh (if active' = None then on_db (register_audit_key_version (ri_io J 6) (ri_now J) v l ''active'') else returnh ()) (\<lambda>_.
    returnh (v, a'))) i1 = (Inr x, i')" using run by (auto simp: bindh_Inr_iff[of "get_secret _ _"])
  obtain p where p: "i1 = i\<lparr>is_provider := p\<rparr>" "contents p = contents (is_provider i)" "contents (is_provider i) l = Some a'"
    by (rule get_secret_ok[OF assms(1) got])
  have "x = (v, a') \<and> i' = i1" using rest p(1) assms(2) by (auto simp: bindh_Inr_iff[of "query_db _ _ _"] query_db_ok)
  then show ?thesis using p assms(3) by auto
qed

lemma daemon_start_ok:
  assumes contract: "keeps_contract P contents" and ok: "installation_consistent (sv_ed E) contents i"
    and tells: "is_ok (pf_exists P (is_provider i) SIGNING_KEY_LOCATOR)" and run: "daemon_start J sl P E R files i = (Inr b, i')"
  shows "\<exists>k r a audit_key.
      contents (is_provider i) SIGNING_KEY_LOCATOR = Some k \<and> is_broker_key_pub i = Some (ed_public (sv_ed E) k) \<and> b_broker_key b = k
    \<and> filter active_key (t_trusted_signing_keys (is_store i)) = [r] \<and> b_key_id b = kw_key_id r
    \<and> map_of (trusted_signing_keys (is_store i)) (kw_key_id r) = Some (ed_public (sv_ed E) k)
    \<and> filter active_audit_key (t_audit_key_versions (is_store i)) = [a] \<and> contents (is_provider i) (aw_key_locator a) = Some audit_key
    \<and> b_audit_key_version b = aw_version a \<and> b_audit_key b = audit_key
    \<and> t_audit_events (b_store b) = t_audit_events (is_store i)
    \<and> list_all (\<lambda>(_, r). valid_field_count r \<and> valid_fields r \<and> valid_path_prefix r) (b_recipes b)"
proof -
  from ok obtain k where c: "contents (is_provider i) SIGNING_KEY_LOCATOR = Some k" "is_broker_key_pub i = Some (ed_public (sv_ed E) k)"
    "signing_ok (ed_public (sv_ed E) k) (t_trusted_signing_keys (is_store i))"
    "audit_keys_ok (contents (is_provider i)) (t_audit_key_versions (is_store i))"
    by (auto simp: installation_consistent_def keys_consistent_def)
  obtain r where r: "filter active_key (t_trusted_signing_keys (is_store i)) = [r]" "kw_public_key r = ed_public (sv_ed E) k"
    using c(3) by (auto simp: signing_ok_def)
  obtain a where a: "filter active_audit_key (t_audit_key_versions (is_store i)) = [a]" using c(4) by (auto simp: audit_keys_ok_def)
  have mem: "r \<in> set (t_trusted_signing_keys (is_store i))" "a \<in> set (t_audit_key_versions (is_store i))"
    using arg_cong[OF r(1), of set] arg_cong[OF a, of set] by auto
  then obtain audit_key where ak: "contents (is_provider i) (aw_key_locator a) = Some audit_key" using c(4) by (auto simp: audit_keys_ok_def)
  obtain key i1 kid i2 v ak' i3 ev b0 d where st: "daemon_key J (sv_ed E) P i = (Inr key, i1)"
    "daemon_signing_key_id J (sv_ed E) key i1 = (Inr kid, i2)" "daemon_audit_key J P i2 = (Inr (v, ak'), i3)"
    "try_new_with_audit_key sl key kid ak' v (is_store i3) ev = (Inr b0, d)" "load_recipes R (sv_sha256 E) files b0 = Inr b"
    using run by (auto simp: daemon_start_def Let_def daemon_policy_def bindh_Inr_iff[of "write_file _ _ _"] bindh_Inr_iff[of "query_db _ _ _"]
        bindh_Inr_iff[of "lifth _"] bindh_Inr_iff[of "daemon_key _ _ _"] bindh_Inr_iff[of "peekh _"] bindh_Inr_iff[of "daemon_signing_key_id _ _ _"]
        bindh_Inr_iff[of "daemon_audit_key _ _"] bindh_Inr_iff[of "on_db _"] write_file_ok query_db_ok on_db_ok)
  obtain p1 where i1: "key = k" "i1 = i\<lparr>is_provider := p1\<rparr>" "contents p1 = contents (is_provider i)"
    using daemon_key_ok[OF contract st(1) c(1) tells] by blast
  have "kid = kw_key_id r \<and> i2 = i1" by (rule daemon_signing_key_id_ok[OF _ st(2)]) (simp add: i1 active_signing_key_id_ok[OF r(1)])
  then have i2: "kid = kw_key_id r" "i2 = i1" by blast+
  have i3: "v = aw_version a" "ak' = audit_key" "is_store i3 = is_store i"
    using daemon_audit_key_ok[OF contract _ _ st(3), of "aw_version a" "aw_key_locator a" audit_key] active_audit_key_version_ok[OF a] ak
    by (auto simp: i2 i1)
  have b0: "b_broker_key b0 = key" "b_key_id b0 = kid" "b_audit_key_version b0 = v" "b_audit_key b0 = ak'" "b_recipes b0 = []"
    "t_audit_events (b_store b0) = t_audit_events (is_store i3)"
    using st(4) recover_events[of "sl_io sl" "sl_now sl" "is_store i3"]
    by (auto simp: try_new_with_audit_key_def Let_def split: prod.split_asm sum.split_asm option.split_asm)
  obtain rs where "b = b0\<lparr>b_recipes := rs\<rparr>" "list_all (\<lambda>(_, r). valid_field_count r \<and> valid_fields r \<and> valid_path_prefix r) rs"
    using load_recipes_ok[OF st(5)] b0(5) by auto
  then show ?thesis using b0 i3 i2 i1(1) c r a ak trusted_ok[OF c(3) mem(1)] by auto
qed

lemma chain_versions:
  "verify_from A K n h es = Inr () \<Longrightarrow> e \<in> set es \<Longrightarrow> ev_audit_key_version e = 0 \<or> map_of K (ev_audit_key_version e) \<noteq> None"
proof (induction es arbitrary: n h)
  case (Cons x xs)
  have "ev_audit_key_version x = 0 \<or> map_of K (ev_audit_key_version x) \<noteq> None"
    using Cons.prems(1) by (auto simp: Let_def try_r_Inr_iff event_hash_of_def ok_or_def split: if_split_asm option.split_asm)
  then show ?case using Cons by (auto simp: Let_def try_r_Inr_iff split: if_split_asm)
qed simp

section \<open>Samples\<close>

definition memory_platform :: "MemorySecretProvider platform" where
  "memory_platform = \<lparr>pf_get_secret = mp_get_secret, pf_store_secret = mp_store_secret, pf_delete_secret = mp_delete_secret, pf_exists = mp_exists\<rparr>"

definition memory_contents :: "MemorySecretProvider \<Rightarrow> string \<Rightarrow> bytes option" where
  "memory_contents p = map_of (mp_store p)"

lemma memory_contract: "keeps_contract memory_platform memory_contents"
  using memory.secret_provider_axioms by (simp add: keeps_contract_def memory_platform_def memory_contents_def[abs_def])

definition sample_run :: run_inputs where
  "sample_run = \<lparr>ri_io = (\<lambda>_ _. None), ri_file = (\<lambda>_. None), ri_generated_key = replicate 32 7, ri_random = replicate 32 8, ri_now = 0\<rparr>"

definition sample_installed :: "MemorySecretProvider installation" where
  "sample_installed =
    \<lparr>is_store = empty_db\<lparr>t_audit_events := [sample_event None],
       t_trusted_signing_keys := [\<lparr>kw_key_id = BROKER_KEY_ID 1, kw_public_key = replicate 32 1, kw_state = ''active'', kw_created_at = 0, kw_retired_at = None\<rparr>],
       t_audit_key_versions := [\<lparr>aw_version = 1, aw_key_locator = AUDIT_KEY_LOCATOR 1, aw_state = ''active'', aw_created_at = 0, aw_retired_at = None\<rparr>]\<rparr>,
     is_provider = \<lparr>mp_store = [(SIGNING_KEY_LOCATOR, replicate 32 1), (AUDIT_KEY_LOCATOR 1, replicate 32 9)], mp_retrieval_count = 0, mp_poisoned = False\<rparr>,
     is_broker_key_pub = Some (replicate 32 1), is_policy_yaml = None\<rparr>"

lemma sample_installed_consistent: "installation_consistent plain_ed25519 memory_contents sample_installed"
  by (simp add: installation_consistent_def keys_consistent_def sample_installed_def memory_contents_def signing_ok_def audit_keys_ok_def
      active_key_def active_audit_key_def plain_ed25519_def empty_db_def)

definition sample_rotated :: "MemorySecretProvider installation" where
  "sample_rotated = snd (keys_rotate sample_run plain_audit_env memory_platform False sample_installed)"

lemma sample_rotation: "keys_rotate sample_run plain_audit_env memory_platform False sample_installed = (Inr (), sample_rotated)"
  and sample_rotated_rest: "is_policy_yaml sample_rotated = None" "\<not> mp_poisoned (is_provider sample_rotated)"
proof -
  have "fst (keys_rotate sample_run plain_audit_env memory_platform False sample_installed) = Inr ()
      \<and> is_policy_yaml sample_rotated = None \<and> \<not> mp_poisoned (is_provider sample_rotated)"
    using sample_event_ok[of None]
    by (simp add: sample_rotated_def keys_rotate_def verify_audit_def load_audit_keys_def query_db_def bindh_def stmt_def sample_run_def guardh_def
        list_audit_events_def audit_key_versions_def get_secret_def on_provider_def memory_platform_def mp_get_secret_def sample_installed_def
        empty_db_def list_audit_checkpoints_def trusted_signing_keys_def active_signing_key_id_def key_pair_def KeyPair_from_bytes_def
        checkpoint_last_def Let_def on_db_def insert_audit_checkpoint_def atomically_def insert_row_def rotate_signing_key_def
        store_secret_def mp_store_secret_def retire_signing_key_def changed_def update_rows_def register_signing_key_def next_version_def
        write_file_def rotate_audit_key_def active_audit_key_version_def retire_audit_key_version_def register_audit_key_version_def)
  then show "keys_rotate sample_run plain_audit_env memory_platform False sample_installed = (Inr (), sample_rotated)"
    "is_policy_yaml sample_rotated = None" "\<not> mp_poisoned (is_provider sample_rotated)"
    by (metis prod.collapse sample_rotated_def)+
qed

lemma sample_installed_room:
  "\<forall>r\<in>set (t_audit_key_versions (is_store sample_installed)). aw_version r < 0xFFFFFFFF" "length (ri_generated_key sample_run) = 32"
  by (simp_all add: sample_installed_def empty_db_def sample_run_def)

lemma plain_audit_ed [simp]: "ae_ed plain_audit_env = plain_ed25519" by (simp add: plain_audit_env_def)

lemma sample_rotated_consistent: "installation_consistent plain_ed25519 memory_contents sample_rotated"
  by (rule keys_rotate_result[OF memory_contract _ sample_installed_room sample_rotation])
    (simp_all add: sample_installed_consistent)

lemma load_keys_there:
  assumes "\<forall>(v, l, st)\<in>set vs. \<exists>a. map_of (mp_store (is_provider i)) l = Some a" "\<not> mp_poisoned (is_provider i)"
  shows "\<exists>K i'. load_keys memory_platform vs keys i = (Inr K, i')"
  using assms
proof (induction vs arbitrary: keys i)
  case (Cons q vs)
  obtain v l st where q: "q = (v, l, st)" by (cases q)
  obtain a where "map_of (mp_store (is_provider i)) l = Some a" using Cons.prems(1) by (auto simp: q)
  then obtain p where "get_secret memory_platform l i = (Inr a, i\<lparr>is_provider := p\<rparr>)" "mp_store p = mp_store (is_provider i)" "\<not> mp_poisoned p"
    using Cons.prems(2) by (auto simp: get_secret_def on_provider_def memory_platform_def mp_get_secret_def)
  then show ?case using Cons.IH[of "i\<lparr>is_provider := p\<rparr>" "AList.update v a keys"] Cons.prems(1) by (simp add: q bindh_def)
qed (simp add: returnh_def)

lemma sample_rotated_keys: "\<exists>K i'. load_audit_keys sample_run memory_platform sample_rotated = (Inr K, i')"
proof -
  have "\<forall>(v, l, st)\<in>set (audit_key_versions (is_store sample_rotated)). \<exists>a. map_of (mp_store (is_provider sample_rotated)) l = Some a"
    using sample_rotated_consistent
    by (auto simp: installation_consistent_def keys_consistent_def audit_keys_ok_def memory_contents_def audit_key_versions_def)
  from load_keys_there[OF this sample_rotated_rest(2)] show ?thesis
    by (simp add: load_audit_keys_def bindh_def query_db_def stmt_def sample_run_def)
qed

definition sample_recipes :: recipe_wire where
  "sample_recipes = \<lparr>rw_from_str = (\<lambda>_. Inr Null), rw_recipe = (\<lambda>_. Inl ''unused'')\<rparr>"

lemma scan_null: "inspect_rows (\<lambda>_. Inr Null) c rows = Inr ()"
  by (induction rows) simp_all

text \<open>The daemon starts from an installation whose keys the in-memory provider holds.\<close>

lemma daemon_starts:
  assumes "active_signing_key_id (is_store i) = Some kid" "active_audit_key_version (is_store i) = Some (v, l)"
    "map_of (mp_store (is_provider i)) SIGNING_KEY_LOCATOR = Some k" "length k = 32" "map_of (mp_store (is_provider i)) l = Some a"
    "\<not> mp_poisoned (is_provider i)" "is_policy_yaml i = None"
  shows "\<exists>b i'. daemon_start sample_run sample_slot memory_platform sample_server sample_recipes [] i = (Inr b, i')"
  using assms
  by (simp add: daemon_start_def bindh_def write_file_def sample_run_def query_db_def stmt_def validate_no_prohibited_persisted_keys_def
      sample_recipes_def scan_null daemon_key_def memory_platform_def mp_exists_def mp_get_secret_def get_secret_def on_provider_def key_pair_def
      KeyPair_from_bytes_def daemon_policy_def Let_def daemon_signing_key_id_def daemon_audit_key_def unwrap_or_def exists_secret_def on_db_def
      try_new_with_audit_key_def sample_slot_def recover_incomplete_state_def atomically_def)

lemma sample_daemons:
  assumes "i = sample_installed \<or> i = sample_rotated"
  shows "\<exists>b i'. daemon_start sample_run sample_slot memory_platform sample_server sample_recipes [] i = (Inr b, i')"
proof -
  have ok: "installation_consistent plain_ed25519 memory_contents i" "is_policy_yaml i = None" "\<not> mp_poisoned (is_provider i)"
    using assms sample_installed_consistent sample_rotated_consistent sample_rotated_rest by (auto simp: sample_installed_def)
  from ok(1) obtain k where k: "map_of (mp_store (is_provider i)) SIGNING_KEY_LOCATOR = Some k" "length k = 32"
    and c: "signing_ok (ed_public plain_ed25519 k) (t_trusted_signing_keys (is_store i))"
      "audit_keys_ok (map_of (mp_store (is_provider i))) (t_audit_key_versions (is_store i))"
    by (auto simp: installation_consistent_def keys_consistent_def memory_contents_def)
  obtain r a where ra: "filter active_key (t_trusted_signing_keys (is_store i)) = [r]" "filter active_audit_key (t_audit_key_versions (is_store i)) = [a]"
    using c by (auto simp: signing_ok_def audit_keys_ok_def)
  have "a \<in> set (t_audit_key_versions (is_store i))" using arg_cong[OF ra(2), of set] by auto
  then obtain x where "map_of (mp_store (is_provider i)) (aw_key_locator a) = Some x" using c(2) by (auto simp: audit_keys_ok_def)
  from daemon_starts[OF active_signing_key_id_ok[OF ra(1)] active_audit_key_version_ok[OF ra(2)] k this ok(3,2)] show ?thesis .
qed

lemma memory_tells: "\<not> mp_poisoned p \<Longrightarrow> is_ok (pf_exists memory_platform p l)"
  by (simp add: memory_platform_def mp_exists_def)

lemma sample_server_ed [simp]: "sv_ed sample_server = plain_ed25519"
  by (simp add: sample_server_def sample_terse_def sample_env_def plain_cap_env_def)

definition sample_fresh :: "MemorySecretProvider installation" where
  "sample_fresh = \<lparr>is_store = empty_db, is_provider = MemorySecretProvider_new, is_broker_key_pub = None, is_policy_yaml = None\<rparr>"

section \<open>Properties\<close>

text \<open>
  C23.  \<open>secretctl init\<close> leaves keys that belong together.  On an installation whose database has no keys yet, whatever the key store
  already holds, and on one that was consistent before, a successful \<open>init\<close> leaves a signing key in the key store that is the one
  registered as active and the one that is pinned, and an audit key for every registered version; a signing key that was there is
  kept, and an administrator's client accepts the pair.
\<close>

theorem init_establishes_keys:
  assumes "keeps_contract P contents" "length (ri_generated_key J) = 32" "init J P (sv_ed E) default_policy i = (Inr (), i')"
    and "t_trusted_signing_keys (is_store i) = [] \<and> t_audit_key_versions (is_store i) = [] \<or> installation_consistent (sv_ed E) contents i"
  shows "installation_consistent (sv_ed E) contents i'
    \<and> (\<forall>k. contents (is_provider i) SIGNING_KEY_LOCATOR = Some k \<longrightarrow> contents (is_provider i') SIGNING_KEY_LOCATOR = Some k)
    \<and> (case (contents (is_provider i') SIGNING_KEY_LOCATOR, is_broker_key_pub i') of
         (Some k, Some pin) \<Rightarrow> installation_keys E (I\<lparr>ci_signing_secret := Inr k, ci_pinned_public := Inr pin\<rparr>) = Inr (k, pin)
       | _ \<Rightarrow> False)"
proof -
  note done_ = init_consistent[OF assms]
  then obtain k where "contents (is_provider i') SIGNING_KEY_LOCATOR = Some k" "length k = 32" "is_broker_key_pub i' = Some (ed_public (sv_ed E) k)"
    by (auto simp: installation_consistent_def keys_consistent_def)
  then show ?thesis using done_ by (simp add: installation_keys_ok)
qed

theorem init_establishes_keys_witness:
  "case init sample_run memory_platform (sv_ed sample_server) (Inr ''rules: []'') sample_fresh of
     (Inr _, i') \<Rightarrow> installation_consistent (sv_ed sample_server) memory_contents i'
   | (Inl _, _) \<Rightarrow> False"
proof -
  let ?i = "snd (init sample_run memory_platform (sv_ed sample_server) (Inr ''rules: []'') sample_fresh)"
  have "fst (init sample_run memory_platform (sv_ed sample_server) (Inr ''rules: []'') sample_fresh) = Inr ()"
    by (simp add: init_def bindh_def write_file_def sample_run_def query_db_def stmt_def sample_fresh_def init_signing_key_def exists_secret_def
        memory_platform_def mp_exists_def MemorySecretProvider_new_def store_secret_def on_provider_def mp_store_secret_def register_first_key_def
        active_signing_key_id_def empty_db_def on_db_def register_signing_key_def atomically_def register_first_audit_key_def active_audit_key_version_def
        audit_key_versions_def register_audit_key_version_def)
  then have run: "init sample_run memory_platform (sv_ed sample_server) (Inr ''rules: []'') sample_fresh = (Inr (), ?i)" by (metis prod.collapse)
  have "installation_consistent (sv_ed sample_server) memory_contents ?i"
    using init_establishes_keys[OF memory_contract sample_installed_room(2) run] by (simp add: sample_fresh_def empty_db_def)
  then show ?thesis by (subst run) simp
qed

text \<open>
  C8.  A rotation of the keys keeps the installation consistent and the log verifiable.  After a successful \<open>keys rotate\<close> on a
  consistent installation, the new key pair is the one in the key store, the one registered as active and the one pinned, the events
  of the log are the same, and verifying log and checkpoints with the keys of the key store succeeds for all of them, including the
  checkpoint that the rotation wrote with the old key.
\<close>

theorem rotation_keeps_log_verifiable:
  assumes "keeps_contract P contents" "ed25519_laws (ae_ed A)" "installation_consistent (ae_ed A) contents i"
    and "\<forall>r\<in>set (t_audit_key_versions (is_store i)). aw_version r < 0xFFFFFFFF" "length (t_audit_events (is_store i)) < 2 ^ 64"
    and "length (ri_generated_key J) = 32" "keys_rotate J A P admin_socket i = (Inr (), i')"
  shows "installation_consistent (ae_ed A) contents i' \<and> contents (is_provider i') SIGNING_KEY_LOCATOR = Some (ri_generated_key J)
    \<and> list_audit_events (is_store i') = list_audit_events (is_store i)
    \<and> (\<forall>J' K i''. ri_io J' = (\<lambda>_ _. None) \<and> load_audit_keys J' P i' = (Inr K, i'')
         \<longrightarrow> verify_audit J' A P i' = (Inr (length (t_audit_events (is_store i))), i''))"
proof -
  have "installation_consistent (ae_ed A) contents i' \<and> contents (is_provider i') SIGNING_KEY_LOCATOR = Some (ri_generated_key J)
    \<and> list_audit_events (is_store i') = list_audit_events (is_store i)"
    by (rule keys_rotate_result[OF assms(1,3,4,6,7)]) (simp add: list_audit_events_def)
  then show ?thesis using rotated_log_verifies[OF assms] by blast
qed

theorem rotation_keeps_log_verifiable_witness:
  "installation_consistent (ae_ed plain_audit_env) memory_contents sample_rotated
    \<and> memory_contents (is_provider sample_rotated) SIGNING_KEY_LOCATOR = Some (ri_generated_key sample_run)
    \<and> list_audit_events (is_store sample_rotated) = list_audit_events (is_store sample_installed)
    \<and> (\<exists>K i''. load_audit_keys sample_run memory_platform sample_rotated = (Inr K, i'')
         \<and> verify_audit sample_run plain_audit_env memory_platform sample_rotated = (Inr 1, i''))"
proof -
  have "installation_consistent (ae_ed plain_audit_env) memory_contents sample_rotated
    \<and> memory_contents (is_provider sample_rotated) SIGNING_KEY_LOCATOR = Some (ri_generated_key sample_run)
    \<and> list_audit_events (is_store sample_rotated) = list_audit_events (is_store sample_installed)
    \<and> (\<forall>J' K i''. ri_io J' = (\<lambda>_ _. None) \<and> load_audit_keys J' memory_platform sample_rotated = (Inr K, i'')
         \<longrightarrow> verify_audit J' plain_audit_env memory_platform sample_rotated = (Inr (length (t_audit_events (is_store sample_installed))), i''))"
    by (rule rotation_keeps_log_verifiable[OF memory_contract _ _ _ _ _ sample_rotation])
      (use sample_installed_consistent in \<open>simp_all add: plain_audit_env_def plain_ed25519_laws sample_installed_def empty_db_def sample_run_def\<close>)
  moreover obtain K i'' where "load_audit_keys sample_run memory_platform sample_rotated = (Inr K, i'')" using sample_rotated_keys by blast
  moreover have "ri_io sample_run = (\<lambda>_ _. None)" "length (t_audit_events (is_store sample_installed)) = 1"
    by (simp_all add: sample_run_def sample_installed_def)
  ultimately show ?thesis by metis
qed

text \<open>
  The daemon that starts after a rotation reports its own log as broken: \<open>verify_audit_integrity\<close> knows the new audit key only, so it
  fails as soon as the log has a keyed event from before, although \<open>audit verify\<close> accepts the same log.
\<close>

theorem rotated_log_looks_broken:
  assumes "keeps_contract P contents" "sv_ed E = ae_ed A" "installation_consistent (ae_ed A) contents i"
    and "\<forall>r\<in>set (t_audit_key_versions (is_store i)). aw_version r < 0xFFFFFFFF"
    and "length (ri_generated_key J) = 32" "keys_rotate J A P admin_socket i = (Inr (), i')"
    and "e \<in> set (t_audit_events (is_store i))" "ev_audit_key_version e \<noteq> 0"
    and "is_ok (pf_exists P (is_provider i') SIGNING_KEY_LOCATOR)" "daemon_start J' sl P E R files i' = (Inr b, i'')" "be_audit E' = A"
  shows "\<not> is_ok (verify_audit_integrity E' sl' b)"
proof -
  obtain n i1 nv where r: "verify_audit J A P i = (Inr n, i1)" "t_audit_events (is_store i') = t_audit_events (is_store i)"
    "nv \<notin> aw_version ` set (t_audit_key_versions (is_store i))" "active_audit_key_version (is_store i') = Some (nv, AUDIT_KEY_LOCATOR nv)"
    "installation_consistent (ae_ed A) contents i'"
    by (rule keys_rotate_result[OF assms(1,3-6)]) blast
  obtain K where K: "load_audit_keys J P i = (Inr K, i1)" "verify_audit_chain A (list_audit_events (is_store i)) K = Inr ()"
    using verify_audit_ok[OF r(1)] by blast
  have dist: "distinct (map aw_version (t_audit_key_versions (is_store i)))"
    using assms(3) by (auto simp: installation_consistent_def keys_consistent_def audit_keys_ok_def)
  have "map_of K (ev_audit_key_version e) \<noteq> None"
    using chain_versions[OF K(2)[unfolded verify_audit_chain_def], of e] assms(7,8) by (simp add: list_audit_events_def)
  then have old: "ev_audit_key_version e \<noteq> nv" using load_audit_keys_ok[OF assms(1) K(1) dist] r(3) by metis
  obtain a where a: "filter active_audit_key (t_audit_key_versions (is_store i')) = [a]" "b_audit_key_version b = aw_version a"
    "t_audit_events (b_store b) = t_audit_events (is_store i')"
    using daemon_start_ok[OF assms(1) _ assms(9,10)] r(5) assms(2) by auto
  have "aw_version a = nv" using active_audit_key_version_ok[OF a(1)] r(4) by simp
  then have "verify_audit_chain A (list_audit_events (b_store b)) [(b_audit_key_version b, b_audit_key b)] \<noteq> Inr ()"
    using chain_versions[of A "[(nv, b_audit_key b)]" 0 GENESIS_PREVIOUS_HASH "list_audit_events (b_store b)" e] old assms(7,8) a(2,3) r(2)
    by (auto simp: verify_audit_chain_def list_audit_events_def)
  then show ?thesis using assms(11) by (auto simp: verify_audit_integrity_def is_ok_iff)
qed

theorem rotated_log_looks_broken_witness:
  "\<exists>b i''. daemon_start sample_run sample_slot memory_platform sample_server sample_recipes [] sample_rotated = (Inr b, i'')
     \<and> \<not> is_ok (verify_audit_integrity (sample_env\<lparr>be_audit := plain_audit_env\<rparr>) sample_slot b)"
proof -
  obtain b i'' where started: "daemon_start sample_run sample_slot memory_platform sample_server sample_recipes [] sample_rotated = (Inr b, i'')"
    using sample_daemons by blast
  have "\<not> is_ok (verify_audit_integrity (sample_env\<lparr>be_audit := plain_audit_env\<rparr>) sample_slot b)"
    by (rule rotated_log_looks_broken[OF memory_contract _ _ sample_installed_room sample_rotation, where e = "sample_event None", OF _ _ _ _ _ started])
      (simp_all add: sample_installed_consistent memory_tells sample_rotated_rest, simp_all add: sample_installed_def sample_event_def Let_def)
  then show ?thesis using started by blast
qed



text \<open>
  A key store that cannot tell whether the signing key is there makes the daemon replace it: an error of \<open>exists\<close> counts as its
  absence, so a start in which the lookup fails but storing works overwrites the installation's signing key and its pin with a new
  pair that is not registered, and the installation is no longer consistent.
\<close>

theorem failed_lookup_replaces_key:
  assumes "keeps_contract P contents" "installation_consistent Ed contents i" "pf_exists P (is_provider i) SIGNING_KEY_LOCATOR = Inl e"
    and "daemon_key J Ed P i = (Inr key, i')" "\<forall>k. contents (is_provider i) SIGNING_KEY_LOCATOR = Some k \<longrightarrow> ed_public Ed k \<noteq> ed_public Ed (ri_generated_key J)"
  shows "key = ri_generated_key J \<and> contents (is_provider i') SIGNING_KEY_LOCATOR = Some key \<and> is_store i' = is_store i
    \<and> \<not> installation_consistent Ed contents i'"
proof -
  have run: "bindh (store_secret P SIGNING_KEY_LOCATOR (ri_generated_key J)) (\<lambda>_.
      bindh (ignoreh (write_file J 1 (\<lambda>i. i\<lparr>is_broker_key_pub := Some (ed_public Ed (ri_generated_key J))\<rparr>))) (\<lambda>_.
      returnh (ri_generated_key J))) i = (Inr key, i')"
    using assms(4) by (simp add: daemon_key_def bindh_def[of "readh _"] assms(3))
  then obtain i1 where st: "store_secret P SIGNING_KEY_LOCATOR (ri_generated_key J) i = (Inr (), i1)"
    and rest: "bindh (ignoreh (write_file J 1 (\<lambda>i. i\<lparr>is_broker_key_pub := Some (ed_public Ed (ri_generated_key J))\<rparr>))) (\<lambda>_.
      returnh (ri_generated_key J)) i1 = (Inr key :: string + bytes, i')" unfolding bindh_Inr_iff[of "store_secret _ _ _"] by auto
  have "key = ri_generated_key J \<and> is_provider i' = is_provider i1 \<and> is_store i' = is_store i1"
    using rest by (cases "ri_file J 1") (auto simp: bindh_def ignoreh_def write_file_def)
  then have key: "key = ri_generated_key J" and keeps: "is_provider i' = is_provider i1" "is_store i' = is_store i1" by blast+
  obtain p where p: "i1 = i\<lparr>is_provider := p\<rparr>" "contents p = (contents (is_provider i))(SIGNING_KEY_LOCATOR \<mapsto> ri_generated_key J)"
    by (rule store_secret_ok[OF assms(1) st])
  have stored_key: "contents (is_provider i') SIGNING_KEY_LOCATOR = Some key" "is_store i' = is_store i" using keeps p key by simp_all
  moreover have "\<not> installation_consistent Ed contents i'"
    using assms(2,5) stored_key key by (auto simp: installation_consistent_def keys_consistent_def signing_ok_def)
  ultimately show ?thesis using key by blast
qed

definition locked_platform :: "MemorySecretProvider platform" where
  "locked_platform = memory_platform\<lparr>pf_exists := (\<lambda>_ _. Inl (StorageFailed ''macOS Keychain lookup failed''))\<rparr>"

theorem failed_lookup_replaces_key_witness:
  "case daemon_key sample_run plain_ed25519 locked_platform sample_installed of
     (Inr key, i') \<Rightarrow> key = replicate 32 7 \<and> memory_contents (is_provider i') SIGNING_KEY_LOCATOR = Some key
       \<and> \<not> installation_consistent plain_ed25519 memory_contents i'
   | (Inl _, _) \<Rightarrow> False"
proof -
  have contract: "keeps_contract locked_platform memory_contents"
    using memory_contract by (simp add: keeps_contract_def secret_provider_def locked_platform_def memory_platform_def)
  let ?i = "snd (daemon_key sample_run plain_ed25519 locked_platform sample_installed)"
  have "fst (daemon_key sample_run plain_ed25519 locked_platform sample_installed) = Inr (replicate 32 7)"
    by (simp add: daemon_key_def bindh_def locked_platform_def memory_platform_def sample_installed_def store_secret_def on_provider_def
        mp_store_secret_def ignoreh_def write_file_def sample_run_def)
  then have run: "daemon_key sample_run plain_ed25519 locked_platform sample_installed = (Inr (replicate 32 7), ?i)" by (metis prod.collapse)
  have "memory_contents (is_provider ?i) SIGNING_KEY_LOCATOR = Some (replicate 32 7) \<and> \<not> installation_consistent plain_ed25519 memory_contents ?i"
    using failed_lookup_replaces_key[OF contract sample_installed_consistent _ run]
    by (simp add: locked_platform_def sample_installed_def memory_contents_def plain_ed25519_def sample_run_def)
  then show ?thesis by (subst run) simp
qed

end
