(* ===== verification/Cli.thy ===== *)
theory Cli
  imports Installation_Properties
begin

text \<open>
  The commands of the command line (\<open>secretctl-cli/src/main.rs\<close>) that act on the installation itself (agents, credentials, grants,
  backups) or through an administrator's connection (approvals, the policy, browsers).  What a command prints is its result; argument
  parsing, prompts and reading files give its arguments.  The connection is a handler \<open>call\<close> over the state behind it; in the program
  it is \<open>AdminClient_call\<close> after \<open>AdminClient_connect\<close>.
\<close>

section \<open>Exit codes\<close>

definition exit_code_for :: "string \<Rightarrow> int" where
  "exit_code_for error =
    (let message = to_ascii_lowercase error; contains = contains_str message in
     if contains ''approval'' \<and> contains ''timeout'' then 4
     else if contains ''denied'' then 3
     else if contains ''audit'' \<and> (contains ''integrity'' \<or> contains ''chain'' \<or> contains ''checkpoint'') then 7
     else if contains ''security'' \<or> contains ''signature'' \<or> contains ''key pin'' \<or> contains ''peer identity'' then 6
     else if contains ''connection refused'' \<or> contains ''not running'' \<or> contains ''unavailable'' \<or> contains ''no such file or directory'' then 5
     else if contains ''invalid config'' \<or> contains ''invalid policy'' \<or> contains ''invalid recipe'' then 2
     else 10)"

section \<open>Agents\<close>

datatype PrincipalRole = RoleAgent | RoleExecutor

fun PrincipalRole_as_str :: "PrincipalRole \<Rightarrow> string" where
  "PrincipalRole_as_str RoleAgent = ''agent''"
| "PrincipalRole_as_str RoleExecutor = ''executor''"

definition agent_key_locator :: "string \<Rightarrow> string" where
  "agent_key_locator agent_id = ''agent-signing-'' @ agent_id"

text \<open>\<open>owner\<close> is the owner of the installation's directory.\<close>

definition created_agent :: "ed25519 \<Rightarrow> string \<Rightarrow> bytes \<Rightarrow> string \<Rightarrow> u32 \<Rightarrow> datetime \<Rightarrow> AgentPrincipal" where
  "created_agent Ed agent_id agent_key name peer_uid now =
    \<lparr>ag_agent_id = agent_id, ag_role = ''agent'', ag_public_key = ed_public Ed agent_key, ag_display_name = name,
     ag_peer_uid = Some peer_uid, ag_executable_path = None, ag_executable_hash = None, ag_state = ''enrolled'', ag_created_at = now\<rparr>"

definition agent_create :: "run_inputs \<Rightarrow> ed25519 \<Rightarrow> 'p platform \<Rightarrow> string \<Rightarrow> string + u32 \<Rightarrow> string \<Rightarrow> ('p, AgentPrincipal) command" where
  "agent_create J Ed P uuid owner name =
    (let agent_key = ri_generated_key J; agent_id = id_new ''agent'' uuid in
     bindh (store_secret P (agent_key_locator agent_id) agent_key) (\<lambda>_.
     bindh (lifth owner) (\<lambda>peer_uid.
     let agent = created_agent Ed agent_id agent_key name peer_uid (ri_now J) in
     bindh (on_db (insert_agent (ri_io J 0) agent)) (\<lambda>_.
     returnh agent))))"

text \<open>A key of 32 bytes as it is, or the text of one; \<open>text_of\<close> is \<open>String::from_utf8\<close>.\<close>

definition enrolled_key :: "base64 \<Rightarrow> (bytes \<Rightarrow> string + string) \<Rightarrow> bytes \<Rightarrow> string + bytes" where
  "enrolled_key B text_of raw_key =
    try_r (if length raw_key = 32 then Inr raw_key
           else try_r (text_of raw_key) (\<lambda>line. map_err (\<lambda>_. ''invalid base64'') (b64_decode B (trim_str line)))) (\<lambda>public_key.
    if length public_key \<noteq> 32 then Inl ''Ed25519 public key must be 32 bytes'' else Inr public_key)"

definition agent_enroll ::
    "run_inputs \<Rightarrow> base64 \<Rightarrow> (bytes \<Rightarrow> bytes) \<Rightarrow> (bytes \<Rightarrow> string + string) \<Rightarrow> string \<Rightarrow> string + u32 \<Rightarrow> string \<Rightarrow> PrincipalRole \<Rightarrow> string + bytes
     \<Rightarrow> (string + string \<times> bytes) option \<Rightarrow> ('p, AgentId) command" where
  "agent_enroll J B sha256 text_of uuid owner name role public_key_file executable =
    bindh (lifth public_key_file) (\<lambda>raw_key.
    bindh (lifth (enrolled_key B text_of raw_key)) (\<lambda>public_key.
    bindh (lifth (case executable of None \<Rightarrow> Inr None | Some file \<Rightarrow> map_sum id Some file)) (\<lambda>file.
    bindh (lifth owner) (\<lambda>peer_uid.
    let agent = \<lparr>ag_agent_id = id_new ''agent'' uuid, ag_role = PrincipalRole_as_str role, ag_public_key = public_key, ag_display_name = name,
          ag_peer_uid = Some peer_uid, ag_executable_path = map_option fst file, ag_executable_hash = map_option (\<lambda>f. sha256 (snd f)) file,
          ag_state = ''enrolled'', ag_created_at = ri_now J\<rparr> in
    bindh (on_db (insert_agent (ri_io J 0) agent)) (\<lambda>_.
    returnh (ag_agent_id agent))))))"

text \<open>The environment that \<open>run\<close> gives to the agent's process.\<close>

record agent_environment =
  ae_principal_id :: "string option"
  ae_signing_key_locator :: "string option"

definition run_agent :: "run_inputs \<Rightarrow> string \<Rightarrow> string list \<Rightarrow> ('p, agent_environment) command" where
  "run_agent J agent arguments =
    bindh (guardh (arguments \<noteq> []) ''No command specified. Usage: secretctl run --agent <name> -- <command>'') (\<lambda>_.
    bindh (query_db J 0 list_agents) (\<lambda>listed.
    bindh (lifth (map_err StoreError_to_string listed)) (\<lambda>agents.
    case find (\<lambda>a. ag_agent_id a = agent \<or> ag_display_name a = agent) agents of
      None \<Rightarrow> failh (''Agent '' @ [CHR 0x27] @ agent @ [CHR 0x27] @ '' not found'')
    | Some a \<Rightarrow> returnh \<lparr>ae_principal_id = Some (ag_agent_id a), ae_signing_key_locator = Some (agent_key_locator (ag_agent_id a))\<rparr>)))"

definition agent_sign ::
    "run_inputs \<Rightarrow> ed25519 \<Rightarrow> base64 \<Rightarrow> 'p platform \<Rightarrow> agent_environment \<Rightarrow> string \<Rightarrow> ('p, string) command" where
  "agent_sign J Ed B P environment digest_text =
    bindh (lifth (ok_or ''agent signer is available only under secretctl run'' (ae_principal_id environment))) (\<lambda>principal_id.
    bindh (lifth (ok_or ''agent signing locator unavailable'' (ae_signing_key_locator environment))) (\<lambda>locator.
    bindh (guardh (locator = agent_key_locator principal_id) ''agent signer identity rejected'') (\<lambda>_.
    bindh (query_db J 0 (\<lambda>d. get_enrolled_agent d principal_id)) (\<lambda>found.
    bindh (lifth (map_err StoreError_to_string found)) (\<lambda>agent.
    bindh (guardh (ag_role agent = ''agent'') ''agent signer identity rejected'') (\<lambda>_.
    bindh (lifth (map_err (\<lambda>_. ''invalid base64'') (b64_decode B digest_text))) (\<lambda>digest.
    bindh (guardh (length digest = 32) ''agent signer accepts only a SHA-256 digest'') (\<lambda>_.
    bindh (get_secret P locator) (\<lambda>secret.
    bindh (lifth (key_pair secret)) (\<lambda>key.
    returnh (b64_encode B (ed_sign Ed key digest))))))))))))"

section \<open>Credentials\<close>

datatype CredentialType = TypePassword | TypeTotp | TypeSensitiveForm

fun CredentialType_kind :: "CredentialType \<Rightarrow> string" where
  "CredentialType_kind TypePassword = ''password''"
| "CredentialType_kind TypeTotp = ''totp''"
| "CredentialType_kind TypeSensitiveForm = ''sensitive_form''"

fun CredentialType_action :: "CredentialType \<Rightarrow> ActionKind" where
  "CredentialType_action TypePassword = AuthenticatePassword"
| "CredentialType_action TypeTotp = AuthenticateTotp"
| "CredentialType_action TypeSensitiveForm = FormSensitiveFill"

definition new_credential :: "string \<Rightarrow> string \<Rightarrow> CredentialType \<Rightarrow> string \<Rightarrow> string \<Rightarrow> CredentialDescriptor" where
  "new_credential uuid name type provider_name metadata =
    \<lparr>cr_credential_id = id_new ''cred'' uuid, cr_name = name, cr_kind = CredentialType_kind type, cr_provider = provider_name,
     cr_provider_locator = name, cr_allowed_actions = [CredentialType_action type], cr_metadata_json = metadata, cr_disabled_at = None\<rparr>"

definition credential_add ::
    "run_inputs \<Rightarrow> url_parser \<Rightarrow> (json \<Rightarrow> string) \<Rightarrow> 'p platform \<Rightarrow> string \<Rightarrow> string \<Rightarrow> CredentialType \<Rightarrow> string \<Rightarrow> string \<Rightarrow> string + bytes
     \<Rightarrow> ('p, unit) command" where
  "credential_add J U to_string P uuid name type origin_str provider_name prompt =
    bindh (guardh (name \<noteq> []) ''Credential name cannot be empty'') (\<lambda>_.
    bindh (lifth (map_err DomainError_to_string (origin_parse U origin_str))) (\<lambda>origin.
    let metadata = to_string (Object [(''origin'', String (origin_as_str origin))]) in
    bindh (lifth prompt) (\<lambda>secret.
    bindh (store_secret P name secret) (\<lambda>_.
    catchh (on_db (insert_credential (ri_io J 0) (new_credential uuid name type provider_name metadata))) (\<lambda>error.
      bindh (ignoreh (delete_secret P name)) (\<lambda>_. failh error))))))"

definition found_credential :: "run_inputs \<Rightarrow> string \<Rightarrow> ('p, CredentialDescriptor) command" where
  "found_credential J name =
    bindh (query_db J 0 (\<lambda>d. get_credential_by_name d name)) (\<lambda>found. lifth (map_err StoreError_to_string found))"

definition credential_update :: "run_inputs \<Rightarrow> 'p platform \<Rightarrow> string \<Rightarrow> string + bytes \<Rightarrow> ('p, unit) command" where
  "credential_update J P name prompt =
    bindh (found_credential J name) (\<lambda>descriptor.
    bindh (lifth prompt) (\<lambda>secret. store_secret P (cr_provider_locator descriptor) secret))"

definition credential_remove :: "run_inputs \<Rightarrow> 'p platform \<Rightarrow> string \<Rightarrow> ('p, unit) command" where
  "credential_remove J P name =
    bindh (found_credential J name) (\<lambda>descriptor.
    bindh (delete_secret P (cr_provider_locator descriptor)) (\<lambda>_.
    on_db (delete_credential_by_name (ri_io J 1) name)))"

definition credential_check :: "run_inputs \<Rightarrow> 'p platform \<Rightarrow> string \<Rightarrow> ('p, unit) command" where
  "credential_check J P name =
    bindh (found_credential J name) (\<lambda>descriptor.
    bindh (exists_secret P (cr_provider_locator descriptor)) (\<lambda>there.
    guardh there ''credential provider item is unavailable''))"

section \<open>Grants and logs\<close>

definition revoke_selector :: "string option \<Rightarrow> string option \<Rightarrow> string + GrantSelector" where
  "revoke_selector name agent =
    (case name of
       Some n \<Rightarrow> Inr (SelCredential n)
     | None \<Rightarrow> (case agent of
         Some a \<Rightarrow> Inr (SelAgent a)
       | None \<Rightarrow> Inl ''Specify a credential name or --agent <name> to revoke. Usage: secretctl revoke <name> or secretctl revoke --agent <name>''))"

definition cli_revoke :: "run_inputs \<Rightarrow> string option \<Rightarrow> string option \<Rightarrow> ('p, nat) command" where
  "cli_revoke J name agent =
    bindh (lifth (revoke_selector name agent)) (\<lambda>selector.
    bindh (on_db (revoke_standing_grants (ri_io J 0) selector ''revoked by user via CLI'' (ri_now J))) (\<lambda>revoked.
    returnh (length revoked)))"

definition explained_grants :: "db \<Rightarrow> string \<Rightarrow> StandingGrant list" where
  "explained_grants d name = filter (\<lambda>g. sg_credential_name g = name) (list_standing_grants d False)"

definition displayed_events :: "nat \<Rightarrow> db \<Rightarrow> AuditEvent list" where
  "displayed_events limit d = rev (take limit (rev (list_audit_events d)))"

section \<open>Backups\<close>

definition create_backup :: "run_inputs \<Rightarrow> ('p, db) command" where
  "create_backup J = query_db J 0 id"

definition restore_from_backup :: "run_inputs \<Rightarrow> bool \<Rightarrow> string \<Rightarrow> db option \<Rightarrow> ('p, unit) command" where
  "restore_from_backup J admin_socket from backup =
    (case backup of
       None \<Rightarrow> failh (''backup source file does not exist at '' @ from)
     | Some source \<Rightarrow>
       bindh (guardh (\<not> admin_socket) ''stop secretctld before restoring a database backup (`secretctl stop`)'') (\<lambda>_.
       on_db (\<lambda>d. atomically d (stmt (ri_io J 0) 0 (Inr ((), source))))))"

section \<open>Through the administrator's connection\<close>

type_synonym 'c admin_call = "string \<Rightarrow> json \<Rightarrow> ('c, string, json) handler"

text \<open>
  \<open>read\<close> is serde's reader of the answer.  The digest that is sent is the one of the approval that was listed.
\<close>

definition cli_decide_approval ::
    "'c admin_call \<Rightarrow> (json \<Rightarrow> string + Approval list) \<Rightarrow> string \<Rightarrow> string \<Rightarrow> bool \<Rightarrow> ('c, string, json) handler" where
  "cli_decide_approval call read approval_id decision presence =
    bindh (call ''approval.list'' (Object [(''state'', String ''pending'')])) (\<lambda>result.
    bindh (lifth (read result)) (\<lambda>approvals.
    bindh (lifth (ok_or ''approval is not pending'' (find (\<lambda>a. ap_approval_id a = approval_id) approvals))) (\<lambda>approval.
    call ''approval.decide'' (Object [(''approval_id'', String (ap_approval_id approval)),
      (''context_digest'', Array (map (\<lambda>b. Number (uint b)) (ap_context_digest approval))), (''decision'', String decision),
      (''presence_verified'', Bool presence)]))))"

definition cli_approve :: "'c admin_call \<Rightarrow> (json \<Rightarrow> string + Approval list) \<Rightarrow> string \<Rightarrow> bool \<Rightarrow> ('c, string, json) handler" where
  "cli_approve call read approval_id presence = cli_decide_approval call read approval_id ''approve'' presence"

definition cli_deny :: "'c admin_call \<Rightarrow> (json \<Rightarrow> string + Approval list) \<Rightarrow> string \<Rightarrow> string option \<Rightarrow> ('c, string, json) handler" where
  "cli_deny call read approval_id reason = cli_decide_approval call read approval_id ''deny'' False"

definition capability_list :: "'c admin_call \<Rightarrow> bool \<Rightarrow> ('c, string, json) handler" where
  "capability_list call active = call ''capability.list'' (Object [(''state'', if active then String ''issued'' else Null)])"

definition capability_revoke :: "'c admin_call \<Rightarrow> string \<Rightarrow> ('c, string, json) handler" where
  "capability_revoke call capability_id =
    bindh (lifth (map_err DomainError_to_string (id_parse ''cap'' capability_id))) (\<lambda>i.
    call ''capability.revoke'' (Object [(''capability_id'', String i), (''reason'', String ''local_admin'')]))"

definition policy_explain ::
    "(bytes \<Rightarrow> bytes) \<Rightarrow> (PolicyDocument \<Rightarrow> bytes) \<Rightarrow> (string \<Rightarrow> string + PolicyDocument) \<Rightarrow> url_parser \<Rightarrow> string + string \<Rightarrow> string \<Rightarrow> string
     \<Rightarrow> string \<Rightarrow> string \<Rightarrow> string + PolicyDecision" where
  "policy_explain sha256 to_vec from_yaml U policy_file agent identity action origin =
    try_r policy_file (\<lambda>content.
    try_r (from_yaml content) (\<lambda>document.
    try_r (map_err DomainError_to_string (id_parse ''agent'' agent)) (\<lambda>agent_id.
    try_r (map_err DomainError_to_string (ActionKind_from_str action)) (\<lambda>kind.
    try_r (map_err DomainError_to_string (origin_parse U origin)) (\<lambda>target_origin.
    map_err PolicyError_to_string (evaluate (PolicyEvaluator_new sha256 to_vec document)
      \<lparr>q_agent_id = agent_id, q_credential_name = identity, q_action = kind, q_target_origin = target_origin, q_path_prefix = None,
       q_browser_assurance = ''managed''\<rparr>))))))"

definition policy_reload ::
    "'c admin_call \<Rightarrow> (bytes \<Rightarrow> bytes) \<Rightarrow> (PolicyDocument \<Rightarrow> bytes) \<Rightarrow> (string \<Rightarrow> string + PolicyDocument) \<Rightarrow> base64 \<Rightarrow> string + string
     \<Rightarrow> ('c, string, json) handler" where
  "policy_reload call sha256 to_vec from_yaml B policy_file =
    bindh (lifth policy_file) (\<lambda>content.
    bindh (lifth (from_yaml content)) (\<lambda>document.
    call ''policy.reload'' (Object [(''expected_hash'', String (b64_encode B (pe_policy_hash (PolicyEvaluator_new sha256 to_vec document)))),
      (''policy_yaml'', String content)])))"

text \<open>The rounds in which \<open>browser launch\<close> waits for the extension: 80, a quarter of a second apart.\<close>

fun await_session ::
    "'c admin_call \<Rightarrow> (json \<Rightarrow> string + BrowserLaunchResult) \<Rightarrow> string \<Rightarrow> nat \<Rightarrow> ('c, string, BrowserLaunchResult) handler" where
  "await_session call read instance_id 0 = failh ''managed extension did not attest within 20 seconds; install the native host first''"
| "await_session call read instance_id (Suc attempts) =
    bindh (call ''browser.launch_status'' (Object [(''instance_id'', String instance_id)])) (\<lambda>result.
    bindh (lifth (read result)) (\<lambda>status.
    if blr_browser_session_id status \<noteq> None then returnh status else await_session call read instance_id attempts))"

definition browser_launch ::
    "'c admin_call \<Rightarrow> (json \<Rightarrow> string + BrowserLaunchResult) \<Rightarrow> (string + string) \<Rightarrow> (string + string) \<Rightarrow> (string + string) \<Rightarrow> json \<Rightarrow> bool
     \<Rightarrow> ('c, string, BrowserLaunchResult) handler" where
  "browser_launch call read chrome extension native_host profile headless =
    bindh (lifth (map_err (\<lambda>_. ''Chrome binary not found'') chrome)) (\<lambda>chrome_binary.
    bindh (lifth (map_err (\<lambda>_. ''packaged extension directory not found'') extension)) (\<lambda>extension_path.
    bindh (lifth (map_err (\<lambda>_. ''native host binary not found'') native_host)) (\<lambda>native_host_binary.
    bindh (call ''browser.launch'' (Object [(''chrome_binary'', String chrome_binary), (''extension_path'', String extension_path),
             (''headless'', Bool headless), (''native_host_binary'', String native_host_binary), (''profile_dir'', profile)])) (\<lambda>result.
    bindh (lifth (read result)) (\<lambda>launched.
    await_session call read (blr_instance_id launched) 80)))))"

definition browser_close :: "'c admin_call \<Rightarrow> string \<Rightarrow> ('c, string, json) handler" where
  "browser_close call instance_id = call ''browser.close'' (Object [(''instance_id'', String instance_id)])"

section \<open>Doctor\<close>

record doctor_report =
  dr_core_daemon :: bool
  dr_provider :: bool
  dr_extension :: bool
  dr_executor_channel :: bool
  dr_agent_channel :: bool
  dr_origin_checks :: bool
  dr_capability_signing :: bool
  dr_capability_replay :: bool
  dr_audit_redaction :: bool
  dr_healthy :: bool

text \<open>\<open>exists\<close> tells whether a path of the installation is there; \<open>extension_id\<close> is read from \<open>native-host.json\<close>.\<close>

definition doctor :: "'p platform \<Rightarrow> (string \<Rightarrow> bool) \<Rightarrow> string option \<Rightarrow> 'p installation \<Rightarrow> doctor_report" where
  "doctor P exists extension_id i =
    (let db_ok = exists ''secretctl.db'';
         keychain_ok = (case pf_exists P (is_provider i) SIGNING_KEY_LOCATOR of Inr b \<Rightarrow> b | Inl _ \<Rightarrow> False);
         daemon_ok = exists ''run/admin.sock'';
         native_config_ok = (extension_id = Some MANAGED_EXTENSION_ID) in
     \<lparr>dr_core_daemon = daemon_ok, dr_provider = keychain_ok, dr_extension = native_config_ok,
      dr_executor_channel = (exists ''run/executor.sock'' \<or> daemon_ok), dr_agent_channel = (exists ''run/agent.sock'' \<or> daemon_ok),
      dr_origin_checks = native_config_ok, dr_capability_signing = True, dr_capability_replay = True, dr_audit_redaction = True,
      dr_healthy = (keychain_ok \<and> db_ok)\<rparr>)"

section \<open>Lemmas\<close>

lemma insert_credential_ok:
  "insert_credential io c d = (Inr u, d') \<longleftrightarrow> io 0 = None \<and> d' = d\<lparr>t_credentials := t_credentials d @ [c]\<rparr>
     \<and> \<not> list_ex (\<lambda>b. cr_credential_id c = cr_credential_id b \<or> cr_name c = cr_name b) (t_credentials d)"
  by (auto simp: insert_credential_def atomically_def stmt_def insert_row_def try_r_def split: option.split)

lemma insert_credential_fails: "insert_credential io c d = (Inl e, d') \<Longrightarrow> d' = d"
  by (auto simp: insert_credential_def atomically_def split: sum.split_asm)

lemma insert_agent_ok:
  "insert_agent io a d = (Inr u, d') \<longleftrightarrow> io 0 = None \<and> d' = d\<lparr>t_agents := t_agents d @ [a]\<rparr> \<and> \<not> list_ex (agent_conflict a) (t_agents d)"
  by (auto simp: insert_agent_def atomically_def stmt_def insert_row_def try_r_def split: option.split)

text \<open>The command as far as it goes before the database is written.\<close>

lemma credential_add_steps:
  assumes "credential_add J U ts P uuid name ty origin_str prov prompt i = (r, i')"
  obtains (early) e where "r = Inl e" "is_store i' = is_store i"
  | (late) og secret i1 where "origin_parse U origin_str = Inr og" "prompt = Inr secret" "store_secret P name secret i = (Inr (), i1)"
      "catchh (on_db (insert_credential (ri_io J 0) (new_credential uuid name ty prov (ts (Object [(''origin'', String (origin_as_str og))])))))
         (\<lambda>error. bindh (ignoreh (delete_secret P name)) (\<lambda>_. failh error)) i1 = (r, i')" "name \<noteq> []"
proof -
  obtain rs i1 where store: "store_secret P name (case prompt of Inr s \<Rightarrow> s | Inl _ \<Rightarrow> []) i = (rs, i1)" by fastforce
  have same: "is_store i1 = is_store i" using store by (auto simp: store_secret_def on_provider_def split: prod.split_asm)
  show thesis
    using assms early late store same
    by (cases "origin_parse U origin_str"; cases prompt; cases rs)
      (auto simp: credential_add_def bindh_def guardh_def Let_def split: if_split_asm)
qed

lemma agent_sign_steps:
  assumes "keeps_contract P contents" "agent_sign J Ed B P environment digest_text i = (Inr signature, i')"
  obtains pid agent digest key p where "ae_principal_id environment = Some pid" "ae_signing_key_locator environment = Some (agent_key_locator pid)"
    "get_enrolled_agent (is_store i) pid = Inr agent" "ag_role agent = ''agent''" "b64_decode B digest_text = Inr digest" "length digest = 32"
    "contents (is_provider i) (agent_key_locator pid) = Some key" "signature = b64_encode B (ed_sign Ed key digest)"
    "i' = i\<lparr>is_provider := p\<rparr>" "contents p = contents (is_provider i)"
proof -
  obtain pid agent digest key where st: "ae_principal_id environment = Some pid" "ae_signing_key_locator environment = Some (agent_key_locator pid)"
    "get_enrolled_agent (is_store i) pid = Inr agent" "ag_role agent = ''agent''" "b64_decode B digest_text = Inr digest" "length digest = 32"
    "get_secret P (agent_key_locator pid) i = (Inr key, i')" "signature = b64_encode B (ed_sign Ed key digest)"
    using assms(2)
    by (auto simp: agent_sign_def bindh_Inr_iff[of "lifth _"] bindh_Inr_iff[of "query_db _ _ _"] bindh_Inr_iff[of "get_secret _ _"] query_db_ok key_pair_ok
        ok_or_def split: option.split_asm)
  obtain p where "i' = i\<lparr>is_provider := p\<rparr>" "contents p = contents (is_provider i)" "contents (is_provider i) (agent_key_locator pid) = Some key"
    by (rule get_secret_ok[OF assms(1) st(7)])
  then show thesis using that st by blast
qed

lemma agent_signI:
  assumes "ae_principal_id environment = Some pid" "ae_signing_key_locator environment = Some (agent_key_locator pid)" "ri_io J 0 0 = None"
    "get_enrolled_agent (is_store i) pid = Inr agent" "ag_role agent = ''agent''" "b64_decode B digest_text = Inr digest" "length digest = 32"
    "get_secret P (agent_key_locator pid) i = (Inr key, i')" "length key = 32"
  shows "agent_sign J Ed B P environment digest_text i = (Inr (b64_encode B (ed_sign Ed key digest)), i')"
  using assms by (simp add: agent_sign_def bindh_def guardh_def ok_or_def query_db_def stmt_def key_pair_def KeyPair_from_bytes_def)

lemma agent_create_steps:
  assumes "keeps_contract P contents" "agent_create J Ed P uuid owner name i = (Inr agent, i')"
  obtains p uid where "agent = created_agent Ed (id_new ''agent'' uuid) (ri_generated_key J) name uid (ri_now J)"
    "i' = i\<lparr>is_provider := p, is_store := (is_store i)\<lparr>t_agents := t_agents (is_store i) @ [agent]\<rparr>\<rparr>"
    "contents p = (contents (is_provider i))(agent_key_locator (ag_agent_id agent) \<mapsto> ri_generated_key J)"
    "\<not> list_ex (agent_conflict agent) (t_agents (is_store i))"
proof -
  obtain i1 uid where st: "store_secret P (agent_key_locator (id_new ''agent'' uuid)) (ri_generated_key J) i = (Inr (), i1)"
    "agent = created_agent Ed (id_new ''agent'' uuid) (ri_generated_key J) name uid (ri_now J)"
    "on_db (insert_agent (ri_io J 0) agent) i1 = (Inr (), i')"
    using assms(2) by (auto simp: agent_create_def Let_def bindh_Inr_iff[of "store_secret _ _ _"] bindh_Inr_iff[of "lifth _"] bindh_Inr_iff[of "on_db _"])
  obtain p where "i1 = i\<lparr>is_provider := p\<rparr>" "contents p = (contents (is_provider i))(agent_key_locator (id_new ''agent'' uuid) \<mapsto> ri_generated_key J)"
    by (rule store_secret_ok[OF assms(1) st(1)])
  then show thesis using st(2,3) that[of uid p] by (auto simp: on_db_ok insert_agent_ok created_agent_def)
qed

section \<open>Samples\<close>

definition sample_add :: "string \<Rightarrow> (MemorySecretProvider, unit) command" where
  "sample_add name =
    credential_add sample_run plain_url_parse (\<lambda>_. ''{}'') memory_platform ''9'' name TypePassword (origin_as_str sample_origin) ''macos-keychain'' (Inr [4, 2])"

lemma sample_origin_parses: "origin_parse plain_url_parse (origin_as_str sample_origin) = Inr sample_origin" by code_simp

lemma memory_store_ok: "\<not> mp_poisoned (is_provider i) \<Longrightarrow>
  store_secret memory_platform l x i = (Inr (), i\<lparr>is_provider := (is_provider i)\<lparr>mp_store := AList.update l x (mp_store (is_provider i))\<rparr>\<rparr>)"
  by (simp add: store_secret_def on_provider_def memory_platform_def mp_store_secret_def)

lemma memory_delete_ok: "\<not> mp_poisoned (is_provider i) \<Longrightarrow> is_ok (fst (delete_secret memory_platform l i))"
  by (simp add: delete_secret_def on_provider_def memory_platform_def mp_delete_secret_def)

lemma sample_added:
  assumes "name \<noteq> []"
  shows "sample_add name sample_installed = (Inr (), snd (sample_add name sample_installed))"
proof -
  have "fst (sample_add name sample_installed) = Inr ()"
    using assms by (simp add: sample_add_def credential_add_def bindh_def guardh_def Let_def sample_origin_parses store_secret_def on_provider_def
        memory_platform_def mp_store_secret_def catchh_def on_db_def insert_credential_def atomically_def stmt_def insert_row_def sample_run_def
        sample_installed_def empty_db_def)
  then show ?thesis by (metis prod.collapse)
qed

definition sample_agent_installed :: "MemorySecretProvider installation" where
  "sample_agent_installed = snd (agent_create sample_run plain_ed25519 memory_platform ''1'' (Inr 501) ''planner'' sample_installed)"

definition sample_environment :: agent_environment where
  "sample_environment = \<lparr>ae_principal_id = Some ''agent_1'', ae_signing_key_locator = Some (agent_key_locator ''agent_1'')\<rparr>"

lemma sample_agent_created:
  "agent_create sample_run plain_ed25519 memory_platform ''1'' (Inr 501) ''planner'' sample_installed
     = (Inr (created_agent plain_ed25519 ''agent_1'' (replicate 32 7) ''planner'' 501 0), sample_agent_installed)"
proof -
  have "fst (agent_create sample_run plain_ed25519 memory_platform ''1'' (Inr 501) ''planner'' sample_installed)
      = Inr (created_agent plain_ed25519 ''agent_1'' (replicate 32 7) ''planner'' 501 0)"
    by (simp add: agent_create_def Let_def bindh_def memory_store_ok sample_installed_def on_db_def insert_agent_def atomically_def stmt_def insert_row_def
        sample_run_def empty_db_def id_new_def)
  then show ?thesis by (metis prod.collapse sample_agent_installed_def)
qed

lemma sample_signs:
  "\<exists>signature i'. agent_sign sample_run plain_ed25519 plain_base64 memory_platform sample_environment (b64_encode plain_base64 (replicate 32 5))
     sample_agent_installed = (Inr signature, i')"
proof -
  have eq: "sample_agent_installed = sample_installed\<lparr>is_provider := (is_provider sample_installed)\<lparr>mp_store :=
        AList.update (agent_key_locator ''agent_1'') (replicate 32 7) (mp_store (is_provider sample_installed))\<rparr>,
      is_store := (is_store sample_installed)\<lparr>t_agents := [created_agent plain_ed25519 ''agent_1'' (replicate 32 7) ''planner'' 501 0]\<rparr>\<rparr>"
    by (simp add: sample_agent_installed_def agent_create_def Let_def bindh_def memory_store_ok sample_installed_def on_db_def insert_agent_def atomically_def
        stmt_def insert_row_def sample_run_def empty_db_def id_new_def)
  have facts: "get_enrolled_agent (is_store sample_agent_installed) ''agent_1'' = Inr (created_agent plain_ed25519 ''agent_1'' (replicate 32 7) ''planner'' 501 0)"
    "get_secret memory_platform (agent_key_locator ''agent_1'') sample_agent_installed = (Inr (replicate 32 7), snd (get_secret memory_platform (agent_key_locator ''agent_1'') sample_agent_installed))"
    by (simp_all add: eq get_enrolled_agent_def enrolled_def created_agent_def get_secret_def on_provider_def memory_platform_def mp_get_secret_def
        sample_installed_def update_conv')
  have "b64_decode plain_base64 (b64_encode plain_base64 (replicate 32 5)) = Inr (replicate 32 5)" using plain_base64_laws by (simp add: base64_laws_def)
  then show ?thesis
    using agent_signI[OF _ _ _ facts(1) _ _ _ facts(2), of sample_environment sample_run]
    by (auto simp: sample_environment_def sample_run_def created_agent_def)
qed

section \<open>Properties\<close>

text \<open>
  C29.  Adding a credential keeps its secret in the key store and out of the database.  When it succeeds, the name leads to a new
  descriptor whose locator leads to exactly the secret that was entered, every other secret of the key store is as it was, and what
  the database holds afterwards does not depend on the secret; an empty name is never added.
\<close>

theorem credential_add_confines_secret:
  assumes "keeps_contract P contents" "credential_add J U ts P uuid name ty origin_str prov (Inr secret) i = (Inr (), i')"
  shows "(case get_credential_by_name (is_store i') name of
       Inr c \<Rightarrow> contents (is_provider i') (cr_provider_locator c) = Some secret \<and> cr_allowed_actions c = [CredentialType_action ty]
     | Inl _ \<Rightarrow> False)
    \<and> contents (is_provider i') = (contents (is_provider i))(name \<mapsto> secret) \<and> name \<noteq> []
    \<and> (\<forall>secret' i''. credential_add J U ts P uuid name ty origin_str prov (Inr secret') i = (Inr (), i'') \<longrightarrow> is_store i'' = is_store i')"
proof -
  define c where "c og = new_credential uuid name ty prov (ts (Object [(''origin'', String (origin_as_str og))]))" for og
  have added: "\<exists>og p. origin_parse U origin_str = Inr og \<and> contents p = (contents (is_provider i))(name \<mapsto> x) \<and> name \<noteq> []
      \<and> j = i\<lparr>is_provider := p, is_store := (is_store i)\<lparr>t_credentials := t_credentials (is_store i) @ [c og]\<rparr>\<rparr>
      \<and> \<not> list_ex (\<lambda>b. cr_credential_id (c og) = cr_credential_id b \<or> cr_name (c og) = cr_name b) (t_credentials (is_store i))"
    if run: "credential_add J U ts P uuid name ty origin_str prov (Inr x) i = (Inr (), j)" for x j
    using run
  proof (cases rule: credential_add_steps)
    case (late og s i1)
    obtain p where p: "i1 = i\<lparr>is_provider := p\<rparr>" "contents p = (contents (is_provider i))(name \<mapsto> s)" by (rule store_secret_ok[OF assms(1) late(3)])
    have "on_db (insert_credential (ri_io J 0) (c og)) i1 = (Inr (), j)"
      using late(4) by (auto simp: catchh_def bindh_def ignoreh_def c_def split: prod.split_asm sum.split_asm)
    then show ?thesis using p late by (intro exI[of _ og] exI[of _ p]) (auto simp: on_db_ok insert_credential_ok)
  qed simp
  obtain og p where r: "origin_parse U origin_str = Inr og" "contents p = (contents (is_provider i))(name \<mapsto> secret)" "name \<noteq> []"
    "i' = i\<lparr>is_provider := p, is_store := (is_store i)\<lparr>t_credentials := t_credentials (is_store i) @ [c og]\<rparr>\<rparr>"
    "\<not> list_ex (\<lambda>b. cr_credential_id (c og) = cr_credential_id b \<or> cr_name (c og) = cr_name b) (t_credentials (is_store i))"
    using added[OF assms(2)] by blast
  have "find (\<lambda>c. cr_name c = name) (t_credentials (is_store i)) = None"
    using r(5) by (auto simp: find_None_iff list_ex_iff c_def new_credential_def)
  then have "find (\<lambda>c. cr_name c = name) (t_credentials (is_store i) @ [c og]) = Some (c og)"
    by (simp add: find_append_single c_def new_credential_def)
  then have found: "get_credential_by_name (is_store i') name = Inr (c og)" by (simp add: get_credential_by_name_def r(4))
  have "is_store j = is_store i'" if "credential_add J U ts P uuid name ty origin_str prov (Inr x) i = (Inr (), j)" for x j
    using added[OF that] r(1,4) by auto
  then show ?thesis using found r by (simp add: c_def new_credential_def)
qed

theorem credential_add_confines_secret_witness:
  "case sample_add ''bank'' sample_installed of
     (Inr _, i') \<Rightarrow> (case get_credential_by_name (is_store i') ''bank'' of
        Inr c \<Rightarrow> memory_contents (is_provider i') (cr_provider_locator c) = Some [4, 2] | Inl _ \<Rightarrow> False)
   | (Inl _, _) \<Rightarrow> False"
proof -
  let ?i = "snd (sample_add ''bank'' sample_installed)"
  have run: "sample_add ''bank'' sample_installed = (Inr (), ?i)" by (rule sample_added) simp
  have "case get_credential_by_name (is_store ?i) ''bank'' of
        Inr c \<Rightarrow> memory_contents (is_provider ?i) (cr_provider_locator c) = Some [4, 2] | Inl _ \<Rightarrow> False"
    using credential_add_confines_secret[OF memory_contract run[unfolded sample_add_def]]
    by (auto simp: sample_add_def split: sum.split_asm)
  then show ?thesis by (subst run) simp
qed

text \<open>
  C40.  Adding a credential under a name that is taken destroys the secret of the one that has it: the new secret replaces the old one in
  the key store before the database refuses the name, and the clean-up then deletes it, while the descriptor stays.
\<close>

theorem duplicate_add_loses_secret:
  assumes "keeps_contract P contents" "get_credential_by_name (is_store i) name = Inr c" "cr_provider_locator c = name"
    and "credential_add J U ts P uuid name ty origin_str prov (Inr secret) i = (r, i')" "origin_parse U origin_str = Inr og" "name \<noteq> []"
    and "is_ok (fst (store_secret P name secret i))" "is_ok (fst (delete_secret P name (snd (store_secret P name secret i))))"
  shows "\<not> is_ok r \<and> get_credential_by_name (is_store i') name = Inr c \<and> contents (is_provider i') (cr_provider_locator c) = None"
proof -
  obtain i1 where put: "store_secret P name secret i = (Inr (), i1)" using assms(7) by (cases "store_secret P name secret i") (auto simp: is_ok_iff)
  obtain p where p: "i1 = i\<lparr>is_provider := p\<rparr>" by (rule store_secret_ok[OF assms(1) put])
  obtain i2 where del: "delete_secret P name i1 = (Inr (), i2)" using assms(8) put by (cases "delete_secret P name i1") (auto simp: is_ok_iff)
  obtain p2 where p2: "i2 = i1\<lparr>is_provider := p2\<rparr>" "contents p2 = (contents (is_provider i1))(name := None)"
    by (rule delete_secret_ok[OF assms(1) del])
  let ?c = "new_credential uuid name ty prov (ts (Object [(''origin'', String (origin_as_str og))]))"
  have there: "list_ex (\<lambda>b. cr_credential_id ?c = cr_credential_id b \<or> cr_name ?c = cr_name b) (t_credentials (is_store i))"
    using assms(2) by (auto simp: get_credential_by_name_def list_ex_iff new_credential_def find_Some_iff split: option.split_asm)
  obtain rc dc where ins: "insert_credential (ri_io J 0) ?c (is_store i) = (rc, dc)" by fastforce
  obtain e where rc: "rc = Inl e" using ins there insert_credential_ok by (cases rc) auto
  have dc: "dc = is_store i" using ins rc insert_credential_fails by blast
  have "on_db (insert_credential (ri_io J 0) ?c) i1 = (Inl (StoreError_to_string e), i1)" using ins rc dc by (simp add: on_db_def p)
  then have "(r, i') = (Inl (StoreError_to_string e), i2)"
    using assms(4-6) put del by (simp add: credential_add_def bindh_def guardh_def Let_def catchh_def ignoreh_def)
  then show ?thesis using assms(2,3) p p2 by simp
qed

theorem duplicate_add_loses_secret_witness:
  "case sample_add ''bank'' sample_installed of
     (_, i1) \<Rightarrow> (case sample_add ''bank'' i1 of
        (r, i2) \<Rightarrow> \<not> is_ok r \<and> is_ok (get_credential_by_name (is_store i2) ''bank'') \<and> memory_contents (is_provider i2) ''bank'' = None)"
proof -
  define i1 where "i1 = snd (sample_add ''bank'' sample_installed)"
  obtain r i2 where again: "sample_add ''bank'' i1 = (r, i2)" by fastforce
  have i1: "i1 = sample_installed\<lparr>is_provider := (is_provider sample_installed)\<lparr>mp_store := AList.update ''bank'' [4, 2] (mp_store (is_provider sample_installed))\<rparr>,
      is_store := (is_store sample_installed)\<lparr>t_credentials := [new_credential ''9'' ''bank'' TypePassword ''macos-keychain'' ''{}'']\<rparr>\<rparr>"
    by (simp add: i1_def sample_add_def credential_add_def bindh_def guardh_def Let_def sample_origin_parses store_secret_def on_provider_def
        memory_platform_def mp_store_secret_def catchh_def on_db_def insert_credential_def atomically_def stmt_def insert_row_def sample_run_def
        sample_installed_def empty_db_def)
  have here: "get_credential_by_name (is_store i1) ''bank'' = Inr (new_credential ''9'' ''bank'' TypePassword ''macos-keychain'' ''{}'')"
    by (simp add: i1 get_credential_by_name_def new_credential_def)
  have healthy: "\<not> mp_poisoned (is_provider i1)" by (simp add: i1 sample_installed_def)
  have "\<not> is_ok r \<and> get_credential_by_name (is_store i2) ''bank'' = Inr (new_credential ''9'' ''bank'' TypePassword ''macos-keychain'' ''{}'')
      \<and> memory_contents (is_provider i2) (cr_provider_locator (new_credential ''9'' ''bank'' TypePassword ''macos-keychain'' ''{}'')) = None"
    by (rule duplicate_add_loses_secret[OF memory_contract here _ again[unfolded sample_add_def] sample_origin_parses])
      (use healthy in \<open>simp_all add: new_credential_def memory_store_ok memory_delete_ok\<close>)
  then have "\<not> is_ok r \<and> is_ok (get_credential_by_name (is_store i2) ''bank'') \<and> memory_contents (is_provider i2) ''bank'' = None"
    by (simp add: new_credential_def)
  then show ?thesis using again by (simp add: i1_def split_beta)
qed

text \<open>
  The names of credentials share the key store with the keys of the installation: adding a credential named like the locator of the
  signing key replaces that key, and the registered and pinned key is no longer the one in the key store.
\<close>

theorem credential_name_clobbers_key:
  assumes "keeps_contract P contents" "installation_consistent Ed contents i"
    and "credential_add J U ts P uuid SIGNING_KEY_LOCATOR ty origin_str prov (Inr secret) i = (Inr (), i')"
    and "is_broker_key_pub i \<noteq> Some (ed_public Ed secret)"
  shows "contents (is_provider i') SIGNING_KEY_LOCATOR = Some secret \<and> \<not> installation_consistent Ed contents i'"
  using assms(3)
proof (cases rule: credential_add_steps)
  case (late og s i1)
  obtain p where p: "i1 = i\<lparr>is_provider := p\<rparr>" "contents p = (contents (is_provider i))(SIGNING_KEY_LOCATOR \<mapsto> s)"
    by (rule store_secret_ok[OF assms(1) late(3)])
  have "\<exists>d. i' = i1\<lparr>is_store := d\<rparr>"
    using late(4) by (auto simp: catchh_def bindh_def ignoreh_def on_db_def split: prod.split_asm sum.split_asm)
  then have "contents (is_provider i') SIGNING_KEY_LOCATOR = Some secret" "is_broker_key_pub i' = is_broker_key_pub i" using p late(2) by auto
  then show ?thesis using assms(4) by (auto simp: installation_consistent_def keys_consistent_def)
qed simp

theorem credential_name_clobbers_key_witness:
  "case sample_add SIGNING_KEY_LOCATOR sample_installed of
     (Inr _, i') \<Rightarrow> memory_contents (is_provider i') SIGNING_KEY_LOCATOR = Some [4, 2] \<and> \<not> installation_consistent plain_ed25519 memory_contents i'
   | (Inl _, _) \<Rightarrow> False"
proof -
  let ?i = "snd (sample_add SIGNING_KEY_LOCATOR sample_installed)"
  have run: "sample_add SIGNING_KEY_LOCATOR sample_installed = (Inr (), ?i)" by (rule sample_added) (simp add: SIGNING_KEY_LOCATOR_def)
  have "memory_contents (is_provider ?i) SIGNING_KEY_LOCATOR = Some [4, 2] \<and> \<not> installation_consistent plain_ed25519 memory_contents ?i"
    by (rule credential_name_clobbers_key[OF memory_contract sample_installed_consistent trans[OF sample_add_def[symmetric, THEN fun_cong] run]])
      (simp add: sample_installed_def plain_ed25519_def, code_simp)
  then show ?thesis by (subst run) simp
qed

text \<open>
  The signer of an agent signs for that agent only: it answers under the identity and locator that \<open>run\<close> sets for one enrolled
  principal of the role \<open>agent\<close>, with the key stored for it, over a digest of 32 bytes, and changes nothing.
\<close>

theorem signer_confined:
  assumes "keeps_contract P contents" "agent_sign J Ed B P environment digest_text i = (Inr signature, i')"
  shows "\<exists>agent_id agent digest key. ae_principal_id environment = Some agent_id \<and> ae_signing_key_locator environment = Some (agent_key_locator agent_id)
    \<and> get_enrolled_agent (is_store i) agent_id = Inr agent \<and> ag_role agent = ''agent''
    \<and> b64_decode B digest_text = Inr digest \<and> length digest = 32
    \<and> contents (is_provider i) (agent_key_locator agent_id) = Some key \<and> signature = b64_encode B (ed_sign Ed key digest)
    \<and> is_store i' = is_store i \<and> contents (is_provider i') = contents (is_provider i)"
  by (rule agent_sign_steps[OF assms]) auto

theorem signer_confined_witness:
  "\<exists>signature i'. agent_sign sample_run plain_ed25519 plain_base64 memory_platform sample_environment (b64_encode plain_base64 (replicate 32 5)) sample_agent_installed
       = (Inr signature, i') \<and> memory_contents (is_provider i') = memory_contents (is_provider sample_agent_installed)"
proof -
  obtain signature i' where run: "agent_sign sample_run plain_ed25519 plain_base64 memory_platform sample_environment
      (b64_encode plain_base64 (replicate 32 5)) sample_agent_installed = (Inr signature, i')" using sample_signs by blast
  show ?thesis using signer_confined[OF memory_contract run] run by blast
qed

text \<open>
  A created agent can act: from the creation of an agent to its process and its signer, the signature over a handshake digest is the
  one that the daemon accepts for the enrolled public key.
\<close>

theorem created_agent_signs:
  assumes "keeps_contract P contents" "ed25519_laws Ed" "base64_laws B"
    and "agent_create J Ed P uuid owner name i = (Inr agent, i1)"
    and "agent_sign J' Ed B P \<lparr>ae_principal_id = Some (ag_agent_id agent), ae_signing_key_locator = Some (agent_key_locator (ag_agent_id agent))\<rparr>
           (b64_encode B digest) i1 = (Inr signature, i2)"
  shows "get_enrolled_agent (is_store i1) (ag_agent_id agent) = Inr agent
    \<and> (case b64_decode B signature of Inr s \<Rightarrow> verify_signature Ed (ag_public_key agent) digest s = Inr () | Inl _ \<Rightarrow> False)"
proof -
  obtain p uid where c: "agent = created_agent Ed (id_new ''agent'' uuid) (ri_generated_key J) name uid (ri_now J)"
    "i1 = i\<lparr>is_provider := p, is_store := (is_store i)\<lparr>t_agents := t_agents (is_store i) @ [agent]\<rparr>\<rparr>"
    "contents p = (contents (is_provider i))(agent_key_locator (ag_agent_id agent) \<mapsto> ri_generated_key J)"
    "\<not> list_ex (agent_conflict agent) (t_agents (is_store i))"
    by (rule agent_create_steps[OF assms(1,4)])
  have "find (enrolled (ag_agent_id agent)) (t_agents (is_store i)) = None"
    using c(4) by (auto simp: find_None_iff list_ex_iff agent_conflict_def enrolled_def)
  then have "get_enrolled_agent (is_store i1) (ag_agent_id agent) = Inr agent"
    using c(1) by (simp add: get_enrolled_agent_def c(2) find_append_single enrolled_def created_agent_def)
  moreover have "b64_decode B signature = Inr (ed_sign Ed (ri_generated_key J) digest)"
    by (rule agent_sign_steps[OF assms(1,5)]) (use assms(3) c(2,3) in \<open>auto simp: base64_laws_def\<close>)
  moreover have "verify_signature Ed (ag_public_key agent) digest (ed_sign Ed (ri_generated_key J) digest) = Inr ()"
    using assms(2) by (simp add: verify_signature_def ed25519_laws_def c(1) created_agent_def)
  ultimately show ?thesis by simp
qed

theorem created_agent_signs_witness:
  "\<exists>signature i2. agent_sign sample_run plain_ed25519 plain_base64 memory_platform sample_environment (b64_encode plain_base64 (replicate 32 5))
       sample_agent_installed = (Inr signature, i2)
     \<and> (case b64_decode plain_base64 signature of
          Inr s \<Rightarrow> verify_signature plain_ed25519 (ed_public plain_ed25519 (replicate 32 7)) (replicate 32 5) s = Inr () | Inl _ \<Rightarrow> False)"
proof -
  obtain signature i2 where run: "agent_sign sample_run plain_ed25519 plain_base64 memory_platform sample_environment
      (b64_encode plain_base64 (replicate 32 5)) sample_agent_installed = (Inr signature, i2)" using sample_signs by blast
  have env: "sample_environment = \<lparr>ae_principal_id = Some (ag_agent_id (created_agent plain_ed25519 ''agent_1'' (replicate 32 7) ''planner'' 501 0)),
      ae_signing_key_locator = Some (agent_key_locator (ag_agent_id (created_agent plain_ed25519 ''agent_1'' (replicate 32 7) ''planner'' 501 0)))\<rparr>"
    by (simp add: sample_environment_def created_agent_def)
  have "case b64_decode plain_base64 signature of Inr s \<Rightarrow>
      verify_signature plain_ed25519 (ag_public_key (created_agent plain_ed25519 ''agent_1'' (replicate 32 7) ''planner'' 501 0)) (replicate 32 5) s = Inr ()
    | Inl _ \<Rightarrow> False"
    using created_agent_signs[OF memory_contract plain_ed25519_laws plain_base64_laws sample_agent_created run[unfolded env]] by blast
  moreover have key: "ag_public_key (created_agent plain_ed25519 ''agent_1'' (replicate 32 7) ''planner'' 501 0) = ed_public plain_ed25519 (replicate 32 7)"
    by (simp add: created_agent_def)
  ultimately show ?thesis using run unfolding key by blast
qed

end
